(* ===== verification/Prelude.thy ===== *)
theory Prelude
  imports Main "HOL-Library.Word" "HOL-Library.List_Lexorder" "HOL-Library.Product_Lexorder"
    "HOL-Library.Char_ord" "HOL-Library.Sublist" "HOL-Library.Multiset"
begin

text \<open>
  Shared vocabulary of the development: the machine integers and strings of the Rust code, its
  \<^verbatim>\<open>Result\<close> type with the question-mark operator, saturating arithmetic, decimal rendering,
  sorting and adjacent deduplication of vectors, and the generic invariant locale for loops that
  fold a step function over a list.

  A Rust \<^verbatim>\<open>String\<close> is a \<^typ>\<open>string\<close> whose characters are the UTF-8 bytes of the text; the
  lexicographic order of \<^verbatim>\<open>HOL-Library.List_Lexorder\<close> on it is the byte order of Rust's
  \<^verbatim>\<open>Ord for str\<close>. A \<^verbatim>\<open>Vec<u8>\<close> is a list of 8-bit words.
\<close>

section \<open>Types\<close>

type_synonym u8 = "8 word"
type_synonym u32 = "32 word"
type_synonym u64 = "64 word"
type_synonym usize = "64 word"
type_synonym bytes = "u8 list"

text \<open>Rust's \<^verbatim>\<open>Result\<close>; \<open>and_then\<close> is the question-mark operator.\<close>

datatype ('a, 'e) result = is_ok: Ok (ok_val: 'a) | Err (err_val: 'e)

fun and_then :: "('a, 'e) result \<Rightarrow> ('a \<Rightarrow> ('b, 'e) result) \<Rightarrow> ('b, 'e) result" where
  "and_then (Ok x) f = f x"
| "and_then (Err e) f = Err e"

fun map_err :: "('e \<Rightarrow> 'f) \<Rightarrow> ('a, 'e) result \<Rightarrow> ('a, 'f) result" where
  "map_err g (Ok x) = Ok x"
| "map_err g (Err e) = Err (g e)"

fun ok_or :: "'a option \<Rightarrow> 'e \<Rightarrow> ('a, 'e) result" where
  "ok_or None e = Err e"
| "ok_or (Some x) e = Ok x"

text \<open>\<open>ensure b e\<close> is the guard \<^verbatim>\<open>if !b { return Err(e) }\<close>.\<close>

definition ensure :: "bool \<Rightarrow> 'e \<Rightarrow> (unit, 'e) result" where
  "ensure b e = (if b then Ok () else Err e)"

section \<open>Saturating machine arithmetic\<close>

definition sat_add :: "'a::len word \<Rightarrow> 'a word \<Rightarrow> 'a word" where
  "sat_add a b = (if a \<le> a + b then a + b else - 1)"

definition sat_sub :: "'a::len word \<Rightarrow> 'a word \<Rightarrow> 'a word" where
  "sat_sub a b = (if b \<le> a then a - b else 0)"

section \<open>Strings and rendering\<close>

definition as_bytes :: "string \<Rightarrow> bytes" where
  "as_bytes s = map of_char s"

definition digit :: "nat \<Rightarrow> char" where
  "digit d = char_of (48 + d)"

fun show_nat :: "nat \<Rightarrow> string" where
  "show_nat n = (if n < 10 then [digit n] else show_nat (n div 10) @ [digit (n mod 10)])"

declare show_nat.simps [simp del]

definition show_word :: "'a::len word \<Rightarrow> string" where
  "show_word w = show_nat (unat w)"

text \<open>Zero padding to at least \<open>n\<close> characters, as \<^verbatim>\<open>{:010}\<close> formats an integer.\<close>

definition pad_zeros :: "nat \<Rightarrow> string \<Rightarrow> string" where
  "pad_zeros n s = replicate (n - length s) (CHR ''0'') @ s"

fun join_with :: "string \<Rightarrow> string list \<Rightarrow> string" where
  "join_with sep [] = []"
| "join_with sep [x] = x"
| "join_with sep (x # y # ys) = x @ sep @ join_with sep (y # ys)"

definition strip_prefix :: "string \<Rightarrow> string \<Rightarrow> string option" where
  "strip_prefix p s = (if prefix p s then Some (drop (length p) s) else None)"

text \<open>Rust's \<^verbatim>\<open>split_once\<close> on a single character.\<close>

fun split_once :: "char \<Rightarrow> string \<Rightarrow> (string \<times> string) option" where
  "split_once c [] = None"
| "split_once c (x # xs) =
     (if x = c then Some ([], xs)
      else map_option (\<lambda>(a, b). (x # a, b)) (split_once c xs))"

text \<open>\<^verbatim>\<open>to_ascii_uppercase\<close> and \<^verbatim>\<open>to_ascii_lowercase\<close>, per byte.\<close>

definition ascii_upper :: "char \<Rightarrow> char" where
  "ascii_upper c = (if CHR ''a'' \<le> c \<and> c \<le> CHR ''z'' then char_of ((of_char c :: nat) - 32) else c)"

definition ascii_lower :: "char \<Rightarrow> char" where
  "ascii_lower c = (if CHR ''A'' \<le> c \<and> c \<le> CHR ''Z'' then char_of ((of_char c :: nat) + 32) else c)"

section \<open>Vectors\<close>

text \<open>\<^verbatim>\<open>Vec::dedup_by\<close> on a key: of a run of equal keys the first element stays.\<close>

fun dedup_key :: "('a \<Rightarrow> 'k) \<Rightarrow> 'a list \<Rightarrow> 'a list" where
  "dedup_key f [] = []"
| "dedup_key f [x] = [x]"
| "dedup_key f (x # y # ys) =
     (if f x = f y then dedup_key f (x # ys) else x # dedup_key f (y # ys))"

text \<open>\<^verbatim>\<open>Vec::sort_by\<close> (stable) followed by \<^verbatim>\<open>Vec::dedup\<close>.\<close>

definition sort_dedup :: "('a \<Rightarrow> 'k::linorder) \<Rightarrow> 'a list \<Rightarrow> 'a list" where
  "sort_dedup f xs = remdups_adj (sort_key f xs)"

text \<open>\<^verbatim>\<open>Iterator::find\<close> is \<^const>\<open>List.find\<close>; \<^verbatim>\<open>slice::get\<close> is the following partial index.\<close>

definition nth_opt :: "'a list \<Rightarrow> nat \<Rightarrow> 'a option" where
  "nth_opt xs i = (if i < length xs then Some (xs ! i) else None)"

section \<open>Lemmas\<close>

named_theorems result_intro \<open>rules that open a computation in the result type\<close>

lemma and_then_Ok_iff [simp]: "and_then r f = Ok y \<longleftrightarrow> (\<exists>x. r = Ok x \<and> f x = Ok y)"
  by (cases r) auto

lemma and_then_Err_iff: "and_then r f = Err e \<longleftrightarrow> r = Err e \<or> (\<exists>x. r = Ok x \<and> f x = Err e)"
  by (cases r) auto

lemma map_err_Ok_iff [simp]: "map_err g r = Ok x \<longleftrightarrow> r = Ok x"
  by (cases r) auto

lemma map_err_Err_iff [simp]: "map_err g r = Err f \<longleftrightarrow> (\<exists>e. r = Err e \<and> f = g e)"
  by (cases r) auto

lemma ok_or_Ok_iff [simp]: "ok_or x e = Ok y \<longleftrightarrow> x = Some y"
  by (cases x) auto

lemma ok_or_Err_iff [simp]: "ok_or x e = Err f \<longleftrightarrow> x = None \<and> f = e"
  by (cases x) auto

lemma ensure_Ok_iff [simp]: "ensure b e = Ok u \<longleftrightarrow> b"
  by (simp add: ensure_def)

lemma ensure_Err_iff [simp]: "ensure b e = Err f \<longleftrightarrow> \<not> b \<and> f = e"
  by (auto simp: ensure_def)

lemma unat_sat_add: "unat (sat_add a (b :: 'a::len word)) = min (unat a + unat b) (2 ^ LENGTH('a) - 1)"
proof (cases "unat a + unat b < 2 ^ LENGTH('a)")
  case True
  then have "unat a + unat b \<le> 2 ^ LENGTH('a) - 1" by arith
  with True show ?thesis by (simp add: sat_add_def no_olen_add_nat unat_word_ariths min_absorb1)
next
  case False
  then have "2 ^ LENGTH('a) - 1 \<le> unat a + unat b" by arith
  with False show ?thesis
    by (simp add: sat_add_def no_olen_add_nat min_absorb2 unsigned_minus_1_eq_mask mask_eq_exp_minus_1)
qed

lemma unat_sat_sub: "unat (sat_sub a b) = unat a - unat b"
  by (auto simp: sat_sub_def unat_sub word_le_nat_alt)

lemma sat_add_mono: "r' \<le> r \<Longrightarrow> sat_add r' k \<le> sat_add r k"
  by (simp add: word_le_nat_alt unat_sat_add)

lemma strip_prefix_append [simp]: "strip_prefix p (p @ s) = Some s"
  by (simp add: strip_prefix_def)

lemma strip_prefix_SomeD: "strip_prefix p s = Some t \<Longrightarrow> s = p @ t"
  by (auto simp: strip_prefix_def prefix_def split: if_splits)

lemma split_once_SomeD: "split_once c s = Some (a, b) \<Longrightarrow> s = a @ c # b \<and> c \<notin> set a"
  by (induction s arbitrary: a b) (auto split: if_splits)

lemma split_once_append [simp]: "c \<notin> set a \<Longrightarrow> split_once c (a @ c # b) = Some (a, b)"
  by (induction a) auto

lemma nth_opt_Some_iff: "nth_opt xs i = Some x \<longleftrightarrow> i < length xs \<and> xs ! i = x"
  by (auto simp: nth_opt_def)

text \<open>Sorting by an injective key followed by deduplication is canonical: it depends on the set of
  elements only.\<close>

lemma set_sort_dedup [simp]: "set (sort_dedup f xs) = set xs"
  by (simp add: sort_dedup_def)

lemma sorted_remdups_adj_map: "sorted (map f xs) \<Longrightarrow> sorted (map f (remdups_adj xs))"
  by (induction xs rule: remdups_adj.induct) auto

lemma distinct_remdups_adj_sorted:
  "sorted (map f xs) \<Longrightarrow> inj_on f (set xs) \<Longrightarrow> distinct (map f (remdups_adj xs))"
proof (induction xs rule: remdups_adj.induct)
  case (3 x y xs)
  show ?case
  proof (cases "x = y")
    case True
    with 3 show ?thesis by simp
  next
    case False
    have IH: "distinct (map f (remdups_adj (y # xs)))"
      using 3 False by (auto simp: inj_on_def)
    have "f x \<noteq> f z" if "z \<in> set (y # xs)" for z
    proof -
      have "f x \<le> f y" and "f y \<le> f z" using 3(3) that by auto
      moreover have "f x \<noteq> f y" using 3(4) False by (auto simp: inj_on_def)
      ultimately show ?thesis by auto
    qed
    then have "f x \<notin> f ` set (remdups_adj (y # xs))" by auto
    with IH False show ?thesis by simp
  qed
qed auto

lemma sort_dedup_sorted: "sorted (map f (sort_dedup f xs))"
  by (simp add: sort_dedup_def sorted_remdups_adj_map)

lemma sort_dedup_distinct: "inj_on f (set xs) \<Longrightarrow> distinct (map f (sort_dedup f xs))"
  by (simp add: sort_dedup_def distinct_remdups_adj_sorted)

lemma sort_dedup_canonical:
  assumes "set xs = set ys" and "inj_on f (set xs)"
  shows "sort_dedup f xs = sort_dedup f ys"
proof (rule map_sorted_distinct_set_unique)
  show "inj_on f (set (sort_dedup f xs) \<union> set (sort_dedup f ys))" using assms by simp
  show "sorted (map f (sort_dedup f xs))" and "sorted (map f (sort_dedup f ys))"
    by (rule sort_dedup_sorted)+
  show "distinct (map f (sort_dedup f xs))" and "distinct (map f (sort_dedup f ys))"
    using assms by (simp_all add: sort_dedup_distinct)
  show "set (sort_dedup f xs) = set (sort_dedup f ys)" using assms by simp
qed

lemma set_dedup_key_subset: "set (dedup_key f xs) \<subseteq> set xs"
  by (induction f xs rule: dedup_key.induct) auto

lemma dedup_key_eq_Nil [simp]: "dedup_key f xs = [] \<longleftrightarrow> xs = []"
  by (induction f xs rule: dedup_key.induct) auto

lemma image_dedup_key: "f ` set (dedup_key f xs) = f ` set xs"
  by (induction f xs rule: dedup_key.induct) auto

lemma distinct_dedup_key: "sorted (map f xs) \<Longrightarrow> distinct (map f (dedup_key f xs))"
proof (induction f xs rule: dedup_key.induct)
  case (3 f x y ys)
  then show ?case
  proof (cases "f x = f y")
    case False
    have "f x < f z" if "z \<in> set (y # ys)" for z
      using 3(3) False that by fastforce
    with 3 False show ?thesis using set_dedup_key_subset [of f "y # ys"] by fastforce
  qed auto
qed auto

lemma sort_key_unique:
  assumes "mset xs = mset ys" and "sorted_wrt (<) (map f ys)"
  shows "sort_key f xs = ys"
proof (rule map_sorted_distinct_set_unique [where f = f])
  have ys: "sorted (map f ys)" "distinct (map f ys)" using assms(2) by (simp_all add: strict_sorted_iff)
  show "sorted (map f ys)" "distinct (map f ys)" by (fact ys)+
  show set: "set (sort_key f xs) = set ys" using mset_eq_setD [OF assms(1)] by simp
  show "inj_on f (set (sort_key f xs) \<union> set ys)" using ys(2) set by (simp add: distinct_map)
  have "mset (map f (sort_key f xs)) = mset (map f ys)" using assms(1) by simp
  with ys(2) show "distinct (map f (sort_key f xs))" using mset_eq_imp_distinct_iff by blast
  show "sorted (map f (sort_key f xs))" by simp
qed

lemma filter_downset:
  fixes f :: "'a \<Rightarrow> 'k::linorder"
  assumes "sorted_wrt (<) (map f xs)"
    and "\<And>x y. x \<in> set xs \<Longrightarrow> y \<in> set xs \<Longrightarrow> f y \<le> f x \<Longrightarrow> Q x \<Longrightarrow> Q y"
  shows "\<exists>k. filter Q xs = take k xs"
  using assms
proof (induction xs)
  case (Cons x xs)
  have "\<exists>k. filter Q xs = take k xs"
  proof (rule Cons.IH)
    show "sorted_wrt (<) (map f xs)" using Cons.prems(1) by simp
  qed (use Cons.prems(2) in auto)
  then obtain k where k: "filter Q xs = take k xs" ..
  show ?case
  proof (cases "Q x")
    case True
    with k show ?thesis by (intro exI [of _ "Suc k"]) simp
  next
    case False
    have "\<not> Q y" if "y \<in> set xs" for y
    proof -
      have "f x \<le> f y" using Cons.prems(1) that by (simp add: order.strict_implies_order)
      with Cons.prems(2) [of y x] that False show ?thesis by auto
    qed
    with False show ?thesis by (intro exI [of _ 0]) (simp add: filter_empty_conv)
  qed
qed simp

section \<open>Invariants of loops\<close>

text \<open>
  A loop over a vector that threads a state is a \<^const>\<open>foldl\<close>. The locale gives, once, what every
  such loop of the code uses: an invariant that each step keeps holds at the end, and at every
  intermediate state.
\<close>

locale loop_invariant =
  fixes step :: "'s \<Rightarrow> 'e \<Rightarrow> 's"
    and admissible :: "'e \<Rightarrow> bool"
    and invar :: "'s \<Rightarrow> bool"
  assumes step_invar: "invar s \<Longrightarrow> admissible e \<Longrightarrow> invar (step s e)"
begin

lemma run_invar: "invar s \<Longrightarrow> (\<And>e. e \<in> set es \<Longrightarrow> admissible e) \<Longrightarrow> invar (foldl step s es)"
  by (induction es arbitrary: s) (auto intro: step_invar)

lemma run_invar_prefix:
  assumes "invar s" and "\<And>e. e \<in> set (es @ fs) \<Longrightarrow> admissible e"
  shows "invar (foldl step s es)"
  using assms by (intro run_invar) auto

end

end
