(* ===== verification/Reasons.thy ===== *)
theory Reasons
  imports Prelude
begin

text \<open>
  Why a record or a list is refused. The Rust functions return \<^verbatim>\<open>Result<_, String>\<close> with a formatted
  message; the model returns the same text, and every \<^verbatim>\<open>format!\<close> of the code is one definition below. The text is what reaches the diagnostics
  (\<^verbatim>\<open>Rejection.reason\<close>, \<^verbatim>\<open>ListRefusal\<close>) and takes part in their sorting.
\<close>

section \<open>Signature errors (v2/identity.rs)\<close>

datatype signature_check_error =
    BadPublicKey string
  | BadSignature string
  | VerifyFailed string
  | InvalidSignature

fun show_signature_check_error :: "signature_check_error \<Rightarrow> string" where
  "show_signature_check_error (BadPublicKey d) = ''bad ML-DSA-65 public key: '' @ d"
| "show_signature_check_error (BadSignature d) = ''bad ML-DSA-65 signature: '' @ d"
| "show_signature_check_error (VerifyFailed d) = ''ML-DSA-65 verification errored: '' @ d"
| "show_signature_check_error InvalidSignature = ''signature does not verify''"

section \<open>Reasons of the decoders, the admission checks and the state machine\<close>

text \<open>The em dash of the conflict message is its three UTF-8 bytes.\<close>

definition em_dash :: string where
  "em_dash = [CHR 0xE2, CHR 0x80, CHR 0x94]"

definition err_invalid_base64 :: "string \<Rightarrow> string \<Rightarrow> string" where
  "err_invalid_base64 f e = ''invalid base64 in '' @ f @ '': '' @ e"

definition err_not_v2_list_ref :: "string \<Rightarrow> string" where
  "err_not_v2_list_ref r = ''not a v2 list reference: '' @ r"

definition err_list_ref_shape :: "string" where
  "err_list_ref_shape = ''v2 list reference must be symphony2:<uuid>:<creator>''"

definition err_invalid_list_uuid :: "string \<Rightarrow> string" where
  "err_invalid_list_uuid u = ''invalid v2 list uuid: '' @ u"

definition err_invalid_creator_id :: "string \<Rightarrow> string" where
  "err_invalid_creator_id c = ''invalid v2 creator agent id: '' @ c"

definition err_envelope_decode_failed :: "string \<Rightarrow> string" where
  "err_envelope_decode_failed e = ''envelope decode failed: '' @ e"

definition err_unsupported_envelope_schema :: "u32 \<Rightarrow> string" where
  "err_unsupported_envelope_schema n = ''unsupported envelope schema '' @ show_word n"

definition err_unsupported_algorithm :: "string \<Rightarrow> string" where
  "err_unsupported_algorithm a = ''unsupported algorithm '' @ a"

definition err_context_mismatch :: "string \<Rightarrow> string \<Rightarrow> string" where
  "err_context_mismatch c e = ''context mismatch: envelope names '' @ c @ '', expected '' @ e"

definition err_empty_payload :: "string" where
  "err_empty_payload = ''empty payload''"

definition err_signature_check_failed :: "signature_check_error \<Rightarrow> string" where
  "err_signature_check_failed e = ''signature check failed: '' @ show_signature_check_error e"

definition err_signer_binding_failed :: "string \<Rightarrow> string \<Rightarrow> string" where
  "err_signer_binding_failed d c = ''signer binding failed: key derives to '' @ d @ '', envelope claims '' @ c"

definition err_transition_decode_failed :: "string \<Rightarrow> string" where
  "err_transition_decode_failed e = ''transition decode failed: '' @ e"

definition err_approval_decode_failed :: "string \<Rightarrow> string" where
  "err_approval_decode_failed e = ''approval decode failed: '' @ e"

definition err_consume_decode_failed :: "string \<Rightarrow> string" where
  "err_consume_decode_failed e = ''consume decode failed: '' @ e"

definition err_handoff_decode_failed :: "string \<Rightarrow> string" where
  "err_handoff_decode_failed e = ''handoff decode failed: '' @ e"

definition err_card_missing :: "string" where
  "err_card_missing = ''card-self is missing''"

definition err_card_derives :: "string \<Rightarrow> string \<Rightarrow> string" where
  "err_card_derives d c = ''card-self key derives to '' @ d @ '', store owner is '' @ c"

definition err_card_conflict :: "(string list) \<Rightarrow> string" where
  "err_card_conflict hs = ''conflicting card-self values for this owner (sha256: '' @ join_with '' vs '' hs @ '') '' @ em_dash @
     '' no deterministic author binding is possible; all events from this stream are rejected''"

definition err_genesis_decode_failed :: "string \<Rightarrow> string" where
  "err_genesis_decode_failed e = ''genesis decode failed: '' @ e"

definition err_genesis_schema :: "u32 \<Rightarrow> string" where
  "err_genesis_schema n = ''genesis schema '' @ show_word n @ '' != 2''"

definition err_genesis_kind :: "string \<Rightarrow> string" where
  "err_genesis_kind k = ''genesis kind '' @ k @ '' != genesis''"

definition err_genesis_list :: "string \<Rightarrow> string \<Rightarrow> string" where
  "err_genesis_list l a = ''genesis names list '' @ l @ '' but the address names '' @ a"

definition err_genesis_creator :: "string \<Rightarrow> string \<Rightarrow> string" where
  "err_genesis_creator c a = ''genesis names creator '' @ c @ '' but the address names '' @ a"

definition err_genesis_roster_empty :: "string" where
  "err_genesis_roster_empty = ''genesis roster is empty''"

definition err_envelope_signer :: "string \<Rightarrow> string \<Rightarrow> string" where
  "err_envelope_signer s e = ''envelope signer '' @ s @ '' is not '' @ e"

definition err_envelope_key_differs :: "string" where
  "err_envelope_key_differs = ''envelope signing key differs from the author's card-self key''"

definition err_roster_decode_failed :: "string \<Rightarrow> string" where
  "err_roster_decode_failed e = ''roster decode failed: '' @ e"

definition err_roster_schema_kind :: "string" where
  "err_roster_schema_kind = ''roster schema/kind mismatch''"

definition err_roster_binding :: "string" where
  "err_roster_binding = ''roster list/genesis binding mismatch''"

definition err_roster_actor :: "string \<Rightarrow> string" where
  "err_roster_actor a = ''roster actor '' @ a @ '' is not the creator''"

definition err_roster_epoch_zero :: "string" where
  "err_roster_epoch_zero = ''roster epoch 0 is reserved for the genesis roster''"

definition err_roster_update_empty :: "string" where
  "err_roster_update_empty = ''roster update is empty''"

definition err_roster_prev_hash :: "string" where
  "err_roster_prev_hash = ''roster prev-hash does not chain''"

definition err_roster_fork :: "u64 \<Rightarrow> string" where
  "err_roster_fork n = ''roster chain fork at epoch '' @ show_word n"

definition err_roster_unreachable :: "u64 \<Rightarrow> string" where
  "err_roster_unreachable n = ''roster epoch '' @ show_word n @ '' does not extend the verified chain''"

definition err_actor_not_owner :: "string \<Rightarrow> string \<Rightarrow> string" where
  "err_actor_not_owner a c = ''event actor '' @ a @ '' is not the store owner '' @ c"

definition err_event_schema :: "u32 \<Rightarrow> string" where
  "err_event_schema n = ''event schema '' @ show_word n @ '' != 2''"

definition err_event_list :: "string \<Rightarrow> string \<Rightarrow> string" where
  "err_event_list l m = ''event names list '' @ l @ '' but this list is '' @ m @ '' (cross-list replay?)''"

definition err_event_genesis :: "string" where
  "err_event_genesis = ''event genesis binding does not match this list's genesis''"

definition err_key_mismatch :: "string \<Rightarrow> string \<Rightarrow> string" where
  "err_key_mismatch k e = ''record key '' @ k @ '' does not match content address '' @ e"

definition err_unknown_roster_epoch :: "u64 \<Rightarrow> string" where
  "err_unknown_roster_epoch n = ''event names unknown roster epoch '' @ show_word n"

definition err_not_roster_member :: "string \<Rightarrow> u64 \<Rightarrow> string" where
  "err_not_roster_member a n = ''actor '' @ a @ '' is not a roster member at epoch '' @ show_word n"

definition err_not_chained_record :: "string" where
  "err_not_chained_record = ''not a chained record''"

definition err_handoff_kind :: "string \<Rightarrow> string" where
  "err_handoff_kind k = ''handoff record kind '' @ k @ '' != handoff''"

definition err_approval_kind :: "string \<Rightarrow> string" where
  "err_approval_kind k = ''approval record kind '' @ k @ '' != dispatch_approval''"

definition err_consume_kind :: "string \<Rightarrow> string" where
  "err_consume_kind k = ''consume record kind '' @ k @ '' != consume''"

definition err_consume_hashes_disagree :: "string" where
  "err_consume_hashes_disagree = ''consume approval hash fields disagree (v2 identity)''"

definition err_open_title_digest :: "string" where
  "err_open_title_digest = ''open title_sha256 does not match the carried title''"

definition err_open_spec_digest :: "string" where
  "err_open_spec_digest = ''open spec_sha256 does not match the carried spec''"

definition err_requeue_envelope :: "string \<Rightarrow> string" where
  "err_requeue_envelope r = ''requeue approval envelope: '' @ r"

definition err_requeue_event_hash :: "string" where
  "err_requeue_event_hash = ''requeue approval event hash does not match the embedded record''"

definition err_requeue_payload_hash :: "string" where
  "err_requeue_payload_hash = ''requeue approval payload hash does not match the embedded record''"

definition err_approval_schema_kind :: "string" where
  "err_approval_schema_kind = ''approval schema/kind mismatch''"

definition err_approval_binding :: "string" where
  "err_approval_binding = ''approval list/genesis binding mismatch''"

definition err_approval_issue :: "string" where
  "err_approval_issue = ''approval issue does not match the requeue issue''"

definition err_approval_approver :: "string" where
  "err_approval_approver = ''approval approver does not match the justification''"

definition err_approval_signer :: "string" where
  "err_approval_signer = ''approval signer is not the named approver''"

definition err_approval_block :: "string" where
  "err_approval_block = ''approval block binding does not match the justification''"

definition err_approval_nonce :: "string" where
  "err_approval_nonce = ''approval claim nonce does not match the justification''"

definition err_approver_not_member :: "string \<Rightarrow> u64 \<Rightarrow> string" where
  "err_approver_not_member a n = ''approver '' @ a @ '' is not a roster member at epoch '' @ show_word n"

definition err_chain_gap :: "u64 \<Rightarrow> u64 \<Rightarrow> string" where
  "err_chain_gap e f = ''author chain gap: expected seq '' @ show_word e @ '', found '' @ show_word f"

definition err_chain_fork :: "u64 \<Rightarrow> string" where
  "err_chain_fork n = ''author chain fork at seq '' @ show_word n"

definition err_chain_link_break :: "u64 \<Rightarrow> string" where
  "err_chain_link_break n = ''author chain link break at seq '' @ show_word n"

definition err_lamport_exceeds :: "u64 \<Rightarrow> string" where
  "err_lamport_exceeds n = ''lamport '' @ show_word n @ '' exceeds admitted maximum + 64''"

definition err_lamport_truncated :: "string" where
  "err_lamport_truncated = ''author chain truncated by a lamport rejection''"

definition err_issue_exists :: "string" where
  "err_issue_exists = ''issue already exists''"

definition err_issue_missing :: "string" where
  "err_issue_missing = ''issue does not exist''"

definition err_not_claimable :: "string" where
  "err_not_claimable = ''issue is not claimable''"

definition err_not_claimant :: "string \<Rightarrow> string \<Rightarrow> string" where
  "err_not_claimant a c = ''actor '' @ a @ '' is not the claimant '' @ c"

definition err_nonce_mismatch :: "string" where
  "err_nonce_mismatch = ''claim nonce does not match the winning claim''"

definition err_claim_hash_mismatch :: "string" where
  "err_claim_hash_mismatch = ''claimed event hash does not match the winning claim''"

definition err_not_claimed :: "string" where
  "err_not_claimed = ''issue is not claimed''"

definition err_requeue_not_blocked :: "string" where
  "err_requeue_not_blocked = ''requeue on an issue that is not blocked''"

definition err_requeue_not_awaiting :: "string" where
  "err_requeue_not_awaiting = ''only awaiting_approval blocks are requeue-able (design r2 C6)''"

definition err_requeue_other_block :: "string" where
  "err_requeue_other_block = ''requeue names a block that is not the current block''"

definition err_requeue_other_nonce :: "string" where
  "err_requeue_other_nonce = ''requeue claim nonce does not match the parked claim''"

definition err_handoff_issue_missing :: "string" where
  "err_handoff_issue_missing = ''handoff on an issue that does not exist''"

definition err_consume_unknown_approval :: "string" where
  "err_consume_unknown_approval = ''references an unknown or inadmissible approval''"

definition err_consume_issue :: "string" where
  "err_consume_issue = ''approval issue does not match the consume issue''"

definition err_consume_approver :: "string" where
  "err_consume_approver = ''approval approver does not match the consume''"

definition err_consume_denial :: "string" where
  "err_consume_denial = ''cannot consume a denial''"

definition err_consume_issue_missing :: "string" where
  "err_consume_issue_missing = ''issue does not exist at the consume's fold position''"

definition err_consume_content :: "string" where
  "err_consume_content = ''approval binds different issue content''"

definition err_consume_not_claimed :: "string" where
  "err_consume_not_claimed = ''issue is not claimed at the consume's fold position''"

definition err_consume_not_fenced :: "string" where
  "err_consume_not_fenced = ''consume is not fenced by the fold-winning claim''"

definition err_consume_already :: "string" where
  "err_consume_already = ''approval already consumed by an earlier fold-ordered consume''"

section \<open>Budget refusals (v2/fold.rs)\<close>

definition budget_too_many_streams :: "nat \<Rightarrow> usize \<Rightarrow> string" where
  "budget_too_many_streams n m = ''input carries '' @ show_nat n @ '' streams (max '' @ show_word m @ '' roster members + creator)''"

definition budget_too_many_raw_records :: "string \<Rightarrow> nat \<Rightarrow> usize \<Rightarrow> string" where
  "budget_too_many_raw_records c n m = ''raw stream '' @ c @ '' carries '' @ show_nat n @ '' records (max '' @ show_word m @ '')''"

definition budget_record_too_large :: "string \<Rightarrow> string \<Rightarrow> nat \<Rightarrow> usize \<Rightarrow> string" where
  "budget_record_too_large k c n m = ''record '' @ k @ '' in raw stream '' @ c @ '' is '' @ show_nat n @ '' bytes (max '' @ show_word m @ '')''"

definition budget_too_many_merged_records :: "string \<Rightarrow> nat \<Rightarrow> usize \<Rightarrow> string" where
  "budget_too_many_merged_records c n m = ''merged stream '' @ c @ '' carries '' @ show_nat n @ '' records (max '' @ show_word m @ '')''"

definition budget_genesis_roster_too_large :: "nat \<Rightarrow> usize \<Rightarrow> string" where
  "budget_genesis_roster_too_large n m = ''genesis roster has '' @ show_nat n @ '' members (max '' @ show_word m @ '')''"

definition budget_roster_update_too_large :: "string \<Rightarrow> nat \<Rightarrow> usize \<Rightarrow> string" where
  "budget_roster_update_too_large k n m = ''roster update '' @ k @ '' has '' @ show_nat n @ '' members (max '' @ show_word m @ '')''"

definition budget_cumulative_roster_too_large :: "nat \<Rightarrow> usize \<Rightarrow> string" where
  "budget_cumulative_roster_too_large n m = ''cumulative roster union reaches '' @ show_nat n @ '' members across epochs (max '' @ show_word m @ '')''"

end
