(* ===== verification/Identity.thy ===== *)
theory Identity
  imports Reasons
begin

text \<open>
  The local replication of x0x's external signing scheme and agent-id derivation
  (\<^verbatim>\<open>v2/identity.rs\<close>) and the hexadecimal digest of \<^verbatim>\<open>core/signing.rs\<close>. SHA-256, base64 and ML-DSA-65
  are third-party crates: they are the fields of the record \<open>crypto\<close>, an argument of every
  definition that uses them. The buffer layout that the signature covers is modelled byte for byte
  and shown to be injective, so a signature never transfers to another context or payload.
\<close>

unbundle bit_operations_syntax

section \<open>Third-party primitives\<close>

text \<open>
  \<open>sha256\<close> is \<^verbatim>\<open>sha2::Sha256::digest\<close>; \<open>b64_decode\<close> the standard base64 engine (with the text of its
  error); \<open>mldsa_public_key\<close> and \<open>mldsa_signature\<close> the \<^verbatim>\<open>from_bytes\<close> parsers and \<open>mldsa_verify\<close> the
  verification of \<^verbatim>\<open>saorsa_pqc\<close> (key, message, signature).
\<close>

record crypto =
  sha256 :: "bytes \<Rightarrow> bytes"
  b64_decode :: "string \<Rightarrow> (bytes, string) result"
  mldsa_public_key :: "bytes \<Rightarrow> (bytes, string) result"
  mldsa_signature :: "bytes \<Rightarrow> (bytes, string) result"
  mldsa_verify :: "bytes \<Rightarrow> bytes \<Rightarrow> bytes \<Rightarrow> (bool, string) result"

section \<open>Lowercase hexadecimal digests (core/signing.rs)\<close>

definition hex_nibble :: "u8 \<Rightarrow> char" where
  "hex_nibble n = (if n \<le> 9 then char_of (unat (48 + n))
     else if 10 \<le> n \<and> n \<le> 15 then char_of (unat (97 + (n - 10))) else CHR ''0'')"

definition hex_byte :: "u8 \<Rightarrow> string" where
  "hex_byte b = [hex_nibble (drop_bit 4 b), hex_nibble (b AND 0x0F)]"

definition sha256_hex :: "'a crypto_scheme \<Rightarrow> bytes \<Rightarrow> string" where
  "sha256_hex C payload = concat (map hex_byte (sha256 C payload))"

section \<open>The signed buffer and the agent id (v2/identity.rs)\<close>

definition NAMESPACE_TAG :: u8 where
  "NAMESPACE_TAG = 0xF0"

definition MAGIC :: bytes where
  "MAGIC = as_bytes ''x0x.external-agent-sign.v1''"

definition AGENT_ID_DOMAIN_PREFIX :: bytes where
  "AGENT_ID_DOMAIN_PREFIX = as_bytes ''AUTONOMI_PEER_ID_V2:''"

definition ML_DSA_65_PUBLIC_KEY_SIZE :: nat where
  "ML_DSA_65_PUBLIC_KEY_SIZE = 1952"

definition ML_DSA_65_SIGNATURE_SIZE :: nat where
  "ML_DSA_65_SIGNATURE_SIZE = 3309"

definition u32_to_be_bytes :: "u32 \<Rightarrow> bytes" where
  "u32_to_be_bytes w = [ucast (drop_bit 24 w), ucast (drop_bit 16 w), ucast (drop_bit 8 w), ucast w]"

text \<open>\<^verbatim>\<open>u32::try_from(n).unwrap_or(u32::MAX)\<close>.\<close>

definition u32_of_len :: "nat \<Rightarrow> u32" where
  "u32_of_len n = (if int n < 2 ^ 32 then of_nat n else - 1)"

definition assemble_external_dst :: "string \<Rightarrow> bytes \<Rightarrow> bytes" where
  "assemble_external_dst context payload =
     NAMESPACE_TAG # MAGIC @ u32_to_be_bytes (u32_of_len (length context)) @ as_bytes context @ payload"

definition derive_agent_id_hex :: "'a crypto_scheme \<Rightarrow> bytes \<Rightarrow> string" where
  "derive_agent_id_hex C public_key = sha256_hex C (AGENT_ID_DOMAIN_PREFIX @ public_key)"

definition err_expected_bytes :: "nat \<Rightarrow> nat \<Rightarrow> string" where
  "err_expected_bytes n got = ''expected '' @ show_nat n @ '' bytes, got '' @ show_nat got"

definition verify_external_signature ::
  "'a crypto_scheme \<Rightarrow> string \<Rightarrow> bytes \<Rightarrow> bytes \<Rightarrow> bytes \<Rightarrow> (unit, signature_check_error) result" where
  "verify_external_signature C context payload signature public_key =
     (if length public_key \<noteq> ML_DSA_65_PUBLIC_KEY_SIZE
      then Err (BadPublicKey (err_expected_bytes ML_DSA_65_PUBLIC_KEY_SIZE (length public_key)))
      else if length signature \<noteq> ML_DSA_65_SIGNATURE_SIZE
      then Err (BadSignature (err_expected_bytes ML_DSA_65_SIGNATURE_SIZE (length signature)))
      else and_then (map_err BadPublicKey (mldsa_public_key C public_key)) (\<lambda>pk.
        and_then (map_err BadSignature (mldsa_signature C signature)) (\<lambda>sig.
        and_then (map_err VerifyFailed
            (mldsa_verify C pk (assemble_external_dst context payload) sig)) (\<lambda>valid.
        if valid then Ok () else Err InvalidSignature))))"

definition decode_b64 :: "'a crypto_scheme \<Rightarrow> string \<Rightarrow> string \<Rightarrow> (bytes, string) result" where
  "decode_b64 C field b64 = map_err (err_invalid_base64 field) (b64_decode C b64)"

section \<open>The signed buffer determines context and payload\<close>

lemma of_char_u8_inject: "(of_char c :: u8) = of_char d \<Longrightarrow> c = d"
proof -
  assume "(of_char c :: u8) = of_char d"
  then have "unat (of_nat (of_char c) :: u8) = unat (of_nat (of_char d) :: u8)"
    by (simp add: of_nat_of_char)
  then have "of_char c mod (256::nat) = of_char d mod 256" by (simp add: unat_of_nat)
  then show "c = d" by simp
qed

lemma as_bytes_inject [simp]: "as_bytes s = as_bytes t \<longleftrightarrow> s = t"
  using map_injective [of of_char s t] of_char_u8_inject by (auto simp: as_bytes_def inj_on_def)

lemma length_as_bytes [simp]: "length (as_bytes s) = length s"
  by (simp add: as_bytes_def)

lemma bit_ucast_drop: "n < 8 \<Longrightarrow> bit (ucast (drop_bit k (w :: u32)) :: u8) n \<longleftrightarrow> bit w (k + n)"
  by (simp add: bit_simps)

lemma u32_to_be_bytes_inject: "u32_to_be_bytes v = u32_to_be_bytes w \<Longrightarrow> v = w"
proof (rule bit_word_eqI)
  fix n
  assume eq: "u32_to_be_bytes v = u32_to_be_bytes w" and n: "n < LENGTH(32)"
  have byte: "(ucast (drop_bit k v) :: u8) = ucast (drop_bit k w)" if "k \<in> {0, 8, 16, 24}" for k
    using eq that by (auto simp: u32_to_be_bytes_def)
  let ?k = "8 * (n div 8)"
  have "?k \<in> {0, 8, 16, 24}" using n by auto
  from byte [OF this] have "bit v (?k + n mod 8) \<longleftrightarrow> bit w (?k + n mod 8)"
    using bit_ucast_drop [of "n mod 8" ?k] by (metis mod_less_divisor zero_less_numeral)
  then show "bit v n \<longleftrightarrow> bit w n" by simp
qed

lemma length_u32_to_be_bytes [simp]: "length (u32_to_be_bytes w) = 4"
  by (simp add: u32_to_be_bytes_def)

lemma assemble_external_dst_eqD:
  assumes eq: "assemble_external_dst c p = assemble_external_dst c' p'"
    and c: "length c < 2 ^ 32" and c': "length c' < 2 ^ 32"
  shows "c = c' \<and> p = p'"
proof -
  have "u32_to_be_bytes (u32_of_len (length c)) = u32_to_be_bytes (u32_of_len (length c'))"
    and rest: "as_bytes c @ p = as_bytes c' @ p'"
    using eq by (auto simp: assemble_external_dst_def)
  then have "(of_nat (length c) :: u32) = of_nat (length c')"
    using c c' by (auto simp: u32_of_len_def zless_nat_eq_int_zless [symmetric] dest: u32_to_be_bytes_inject)
  then have "unat (of_nat (length c) :: u32) = unat (of_nat (length c') :: u32)" by simp
  then have "length c = length c'" using c c' by (simp add: unat_of_nat)
  with rest show ?thesis by simp
qed

text \<open>What an accepted signature was checked against.\<close>

lemma verify_external_signature_OkD:
  "verify_external_signature C c p s k = Ok u \<Longrightarrow>
     length k = 1952 \<and> length s = 3309 \<and>
     (\<exists>pk sig. mldsa_public_key C k = Ok pk \<and> mldsa_signature C s = Ok sig \<and>
        mldsa_verify C pk (assemble_external_dst c p) sig = Ok True)"
  by (auto simp: verify_external_signature_def ML_DSA_65_PUBLIC_KEY_SIZE_def
      ML_DSA_65_SIGNATURE_SIZE_def split: if_splits)

lemma length_sha256_hex: "length (sha256_hex C p) = 2 * length (sha256 C p)"
  by (simp add: sha256_hex_def hex_byte_def length_concat comp_def sum_list_triv)



end
