(* ===== verification/BTree.thy ===== *)
theory BTree
  imports Prelude
begin

text \<open>
  The ordered containers of the standard library. A \<^verbatim>\<open>BTreeMap\<close> is an association list in strictly
  ascending key order, which is also its iteration order; a \<^verbatim>\<open>BTreeSet\<close> is a strictly ascending
  list. Both representations are canonical: two well-formed maps with the same lookups are equal.
  The interface is stated as the locale \<open>ordered_map\<close>; the interpretation \<open>bt\<close> discharges its laws
  for the list operations.
\<close>

section \<open>Operations\<close>

type_synonym ('k, 'v) btree_map = "('k \<times> 'v) list"
type_synonym 'k btree_set = "'k list"

definition bt_wf :: "('k::linorder, 'v) btree_map \<Rightarrow> bool" where
  "bt_wf m = sorted_wrt (<) (map fst m)"

definition bt_get :: "('k, 'v) btree_map \<Rightarrow> 'k \<Rightarrow> 'v option" where
  "bt_get m k = map_of m k"

definition bt_contains_key :: "('k, 'v) btree_map \<Rightarrow> 'k \<Rightarrow> bool" where
  "bt_contains_key m k = (bt_get m k \<noteq> None)"

definition bt_values :: "('k, 'v) btree_map \<Rightarrow> 'v list" where
  "bt_values m = map snd m"

fun bt_insert :: "'k::linorder \<Rightarrow> 'v \<Rightarrow> ('k, 'v) btree_map \<Rightarrow> ('k, 'v) btree_map" where
  "bt_insert k v [] = [(k, v)]"
| "bt_insert k v (e # m) =
     (if k = fst e then (k, v) # m
      else if k < fst e then (k, v) # e # m
      else e # bt_insert k v m)"

text \<open>\<^verbatim>\<open>entry(k).or_default()\<close> on list values, and the \<^verbatim>\<open>push\<close> that follows it.\<close>

definition bt_get_list :: "('k, 'v list) btree_map \<Rightarrow> 'k \<Rightarrow> 'v list" where
  "bt_get_list m k = (case bt_get m k of None \<Rightarrow> [] | Some xs \<Rightarrow> xs)"

definition bt_push :: "'k::linorder \<Rightarrow> 'v \<Rightarrow> ('k, 'v list) btree_map \<Rightarrow> ('k, 'v list) btree_map" where
  "bt_push k x m = bt_insert k (bt_get_list m k @ [x]) m"

text \<open>Grouping a vector by a key: \<^verbatim>\<open>for x in xs { m.entry(f(x)).or_default().push(x) }\<close>.\<close>

definition bt_group :: "('a \<Rightarrow> 'k::linorder) \<Rightarrow> 'a list \<Rightarrow> ('k, 'a list) btree_map" where
  "bt_group f xs = foldl (\<lambda>m x. bt_push (f x) x m) [] xs"

definition bset_insert :: "'k::linorder \<Rightarrow> 'k btree_set \<Rightarrow> 'k btree_set" where
  "bset_insert x s = insort_insert x s"

definition bset_extend :: "'k::linorder btree_set \<Rightarrow> 'k list \<Rightarrow> 'k btree_set" where
  "bset_extend s xs = foldl (\<lambda>t x. bset_insert x t) s xs"

definition bset_of_list :: "'k::linorder list \<Rightarrow> 'k btree_set" where
  "bset_of_list xs = bset_extend [] xs"

definition bset_wf :: "'k::linorder btree_set \<Rightarrow> bool" where
  "bset_wf s = sorted_wrt (<) s"

section \<open>The interface of an ordered map\<close>

locale ordered_map =
  fixes empty :: 'm
    and get :: "'m \<Rightarrow> 'k::linorder \<Rightarrow> 'v option"
    and ins :: "'k \<Rightarrow> 'v \<Rightarrow> 'm \<Rightarrow> 'm"
    and entries :: "'m \<Rightarrow> ('k \<times> 'v) list"
    and invar :: "'m \<Rightarrow> bool"
  assumes get_empty: "get empty = Map.empty"
    and get_ins: "invar m \<Longrightarrow> get (ins k v m) = (get m)(k \<mapsto> v)"
    and invar_empty: "invar empty"
    and invar_ins: "invar m \<Longrightarrow> invar (ins k v m)"
    and get_entries: "get m = map_of (entries m)"
    and entries_ascending: "invar m \<Longrightarrow> sorted_wrt (<) (map fst (entries m))"
    and entries_inj: "entries m = entries m' \<Longrightarrow> m = m'"
begin

lemma entries_distinct: "invar m \<Longrightarrow> distinct (map fst (entries m))"
  using entries_ascending strict_sorted_iff by blast

lemma in_entries_iff: "invar m \<Longrightarrow> (k, v) \<in> set (entries m) \<longleftrightarrow> get m k = Some v"
  by (simp add: get_entries entries_distinct map_of_eq_Some_iff)

lemma map_eqI:
  assumes m: "invar m" "invar m'" and eq: "get m = get m'"
  shows "m = m'"
proof (rule entries_inj, rule map_sorted_distinct_set_unique [where f = fst])
  have s: "set (entries m) = set (entries m')"
  proof (rule set_eqI)
    fix e
    show "e \<in> set (entries m) \<longleftrightarrow> e \<in> set (entries m')"
      using m eq by (cases e) (simp add: in_entries_iff)
  qed
  then show "set (entries m) = set (entries m')" .
  show "inj_on fst (set (entries m) \<union> set (entries m'))"
    using m s by (auto intro!: inj_onI simp: in_entries_iff)
  show "sorted (map fst (entries m))" "sorted (map fst (entries m'))"
    using m entries_ascending strict_sorted_iff by blast+
  show "distinct (map fst (entries m))" "distinct (map fst (entries m'))"
    using m entries_distinct by blast+
qed

text \<open>Building a map by inserting the keys of a list: the last entry of a key wins.\<close>

lemma invar_build: "invar m \<Longrightarrow> invar (foldl (\<lambda>m x. ins (f x) (g m x) m) m xs)"
  by (induction xs arbitrary: m) (auto simp: invar_ins)

lemma get_build:
  "invar m \<Longrightarrow> get (foldl (\<lambda>m x. ins (f x) (g x) m) m xs) = (\<lambda>k. case map_of (rev (map (\<lambda>x. (f x, g x)) xs)) k of
     None \<Rightarrow> get m k | Some v \<Rightarrow> Some v)"
  by (induction xs arbitrary: m) (auto simp: invar_ins get_ins fun_eq_iff map_of_append map_add_def split: option.splits)

end

section \<open>The list implementation\<close>

lemma fst_bt_insert: "set (map fst (bt_insert k v m)) = insert k (set (map fst m))"
  by (induction m) auto

lemma bt_wf_Nil [simp]: "bt_wf []"
  by (simp add: bt_wf_def)

lemma bt_wf_Cons: "bt_wf (e # m) \<longleftrightarrow> bt_wf m \<and> (\<forall>e' \<in> set m. fst e < fst e')"
  by (auto simp: bt_wf_def)

lemma bt_wf_insert [simp]: "bt_wf m \<Longrightarrow> bt_wf (bt_insert k v m)"
proof (induction m)
  case (Cons e m)
  have lower: "fst e < fst e'" if "e' \<in> set (bt_insert k v m)" "fst e < k" for e'
  proof -
    have "fst e' \<in> insert k (fst ` set m)" using that(1) fst_bt_insert [of k v m] by force
    with that(2) Cons.prems show ?thesis by (auto simp: bt_wf_Cons)
  qed
  show ?case
  proof (cases k "fst e" rule: linorder_cases)
    case less
    with Cons.prems show ?thesis by (force simp: bt_wf_Cons)
  next
    case equal
    with Cons.prems show ?thesis by (simp add: bt_wf_Cons)
  next
    case greater
    with Cons lower show ?thesis by (auto simp: bt_wf_Cons)
  qed
qed (simp add: bt_wf_def)

lemma bt_get_insert [simp]: "bt_get (bt_insert k v m) = (bt_get m)(k \<mapsto> v)"
proof (induction m)
  case (Cons e m)
  then show ?case by (cases e) (auto simp: bt_get_def fun_eq_iff)
qed (simp add: bt_get_def fun_eq_iff)

interpretation bt: ordered_map "[]" bt_get bt_insert "\<lambda>m. m" bt_wf
  by unfold_locales (auto simp: bt_get_def bt_wf_def fun_eq_iff intro: bt_wf_insert [unfolded bt_wf_def])

lemma bt_get_Nil [simp]: "bt_get [] k = None"
  by (simp add: bt_get_def)

lemma bt_get_mem: "bt_get m k = Some v \<Longrightarrow> (k, v) \<in> set m"
  by (simp add: bt_get_def map_of_SomeD)

lemma bt_contains_key_iff: "bt_contains_key m k \<longleftrightarrow> (\<exists>v. bt_get m k = Some v)"
  by (auto simp: bt_contains_key_def)

lemma bt_values_mem: "bt_get m k = Some v \<Longrightarrow> v \<in> set (bt_values m)"
  by (force simp: bt_values_def dest: bt_get_mem)

lemma bt_values_get: "bt_wf m \<Longrightarrow> v \<in> set (bt_values m) \<Longrightarrow> \<exists>k. bt_get m k = Some v"
  by (auto simp: bt_values_def) (metis bt.in_entries_iff)

lemma bt_wf_map_values: "bt_wf m \<Longrightarrow> bt_wf (map (\<lambda>(k, v). (k, f k v)) m)"
  by (simp add: bt_wf_def comp_def case_prod_unfold)

lemma bt_get_map_values: "bt_get (map (\<lambda>(k, v). (k, f k v)) m) k = map_option (f k) (bt_get m k)"
  by (induction m) (auto simp: bt_get_def)

text \<open>Building a map by conditional inserts of distinct keys.\<close>

lemma bt_wf_cond_build: "bt_wf m \<Longrightarrow> bt_wf (foldl (\<lambda>m x. if Q x then bt_insert (f x) (g x) m else m) m xs)"
  by (induction xs arbitrary: m) auto

lemma bt_get_cond_build_notin:
  "k \<notin> f ` set xs \<Longrightarrow> bt_get (foldl (\<lambda>m x. if Q x then bt_insert (f x) (g x) m else m) [] xs) k = None"
  by (induction xs rule: rev_induct) auto

lemma bt_get_cond_build:
  "distinct (map f xs) \<Longrightarrow> x \<in> set xs \<Longrightarrow>
     bt_get (foldl (\<lambda>m x. if Q x then bt_insert (f x) (g x) m else m) [] xs) (f x) = (if Q x then Some (g x) else None)"
proof (induction xs rule: rev_induct)
  case (snoc y xs)
  show ?case
  proof (cases "x = y")
    case True
    with snoc.prems show ?thesis by (auto simp: bt_get_cond_build_notin)
  next
    case False
    with snoc.prems have "x \<in> set xs" "f x \<noteq> f y" by (auto simp: image_iff)
    with snoc show ?thesis by auto
  qed
qed simp

lemma bt_get_keys: "bt_get m k \<noteq> None \<longleftrightarrow> k \<in> fst ` set m"
  by (auto simp: bt_get_def map_of_eq_None_iff)

text \<open>Pushing and grouping.\<close>

lemma bt_get_list_Nil [simp]: "bt_get_list [] k = []"
  by (simp add: bt_get_list_def)

lemma bt_wf_push [simp]: "bt_wf m \<Longrightarrow> bt_wf (bt_push k x m)"
  by (simp add: bt_push_def)

lemma bt_get_list_push: "bt_get_list (bt_push k x m) k' = (if k' = k then bt_get_list m k @ [x] else bt_get_list m k')"
  by (simp add: bt_push_def bt_get_list_def)

lemma bt_wf_group [simp]: "bt_wf (bt_group f xs)"
  unfolding bt_group_def bt_push_def by (rule bt.invar_build) simp

lemma bt_group_snoc: "bt_group f (xs @ [x]) = bt_push (f x) x (bt_group f xs)"
  by (simp add: bt_group_def)

lemma bt_get_list_group: "bt_get_list (bt_group f xs) k = filter (\<lambda>x. f x = k) xs"
proof (induction xs rule: rev_induct)
  case Nil
  then show ?case by (simp add: bt_group_def bt_get_list_def)
qed (auto simp: bt_group_snoc bt_get_list_push)

lemma bt_get_group:
  "bt_get (bt_group f xs) k = (if k \<in> f ` set xs then Some (filter (\<lambda>x. f x = k) xs) else None)"
proof (induction xs rule: rev_induct)
  case (snoc x xs)
  then show ?case
    using bt_get_list_group [of f xs] by (auto simp: bt_group_snoc bt_push_def)
qed (simp add: bt_group_def)

lemma keys_bt_group: "fst ` set (bt_group f xs) = f ` set xs"
proof -
  have "fst ` set (bt_group f xs) = dom (bt_get (bt_group f xs))"
    by (simp add: bt_get_def [abs_def] dom_map_of_conv_image_fst)
  then show ?thesis by (auto simp: bt_get_group split: if_splits)
qed

lemma length_bt_group: "length (bt_group f xs) \<le> length xs"
proof -
  have "length (bt_group f xs) = card (fst ` set (bt_group f xs))"
    using distinct_card [OF bt.entries_distinct [OF bt_wf_group [of f xs]]] by simp
  also have "\<dots> \<le> length xs" unfolding keys_bt_group by (rule order_trans [OF card_image_le card_length]) simp
  finally show ?thesis .
qed

section \<open>Ordered sets\<close>

lemma set_bset_insert [simp]: "set (bset_insert x s) = insert x (set s)"
  by (simp add: bset_insert_def set_insort_insert)

lemma bset_wf_insert [simp]: "bset_wf s \<Longrightarrow> bset_wf (bset_insert x s)"
  by (simp add: bset_wf_def bset_insert_def strict_sorted_iff sorted_insort_insert distinct_insort_insert)

lemma set_bset_extend [simp]: "set (bset_extend s xs) = set s \<union> set xs"
  by (induction xs arbitrary: s) (auto simp: bset_extend_def)

lemma bset_wf_extend [simp]: "bset_wf s \<Longrightarrow> bset_wf (bset_extend s xs)"
  by (induction xs arbitrary: s) (auto simp: bset_extend_def)

lemma bset_wf_Nil [simp]: "bset_wf []"
  by (simp add: bset_wf_def)

lemma set_bset_of_list [simp]: "set (bset_of_list xs) = set xs"
  by (simp add: bset_of_list_def)

lemma bset_wf_of_list [simp]: "bset_wf (bset_of_list xs)"
  by (simp add: bset_of_list_def)

lemma bset_eqI: "bset_wf s \<Longrightarrow> bset_wf t \<Longrightarrow> set s = set t \<Longrightarrow> s = t"
  by (simp add: bset_wf_def strict_sorted_equal)

lemma length_bset: "bset_wf s \<Longrightarrow> length s = card (set s)"
  by (simp add: bset_wf_def strict_sorted_iff distinct_card)

lemma bset_unique: "bset_wf s \<Longrightarrow> s = sorted_list_of_set (set s)"
  by (simp add: bset_wf_def strict_sorted_iff sorted_list_of_set.idem_if_sorted_distinct)

end
