(* ===== verification/Events.thy ===== *)
theory Events
  imports Identity BTree
begin

text \<open>
  The wire types of tracker-integrity v2 (\<^verbatim>\<open>v2/events.rs\<close>): signed envelopes, genesis and roster
  manifests, transition, approval, consumption and handoff events, store keys and list references.
  JSON decoding is serde's: the decoders are fields of the record \<open>prims\<close>, which extends the
  cryptographic primitives. Lemmas: a list reference parses back to itself and every parsed
  reference is well formed; a verified envelope is bound to its key, its signer and its digest.
\<close>

section \<open>Constants\<close>

definition V2_SCHEMA :: u32 where
  "V2_SCHEMA = 2"

definition V2_SIGN_ALGORITHM :: string where
  "V2_SIGN_ALGORITHM = ''x0x.agent-sign.v2.ml-dsa-65''"

definition TRANSITION_CONTEXT_V2 :: string where
  "TRANSITION_CONTEXT_V2 = ''x0x-symphony-transition-v2''"

definition GENESIS_CONTEXT_V2 :: string where
  "GENESIS_CONTEXT_V2 = ''x0x-symphony-genesis-v2''"

definition ROSTER_CONTEXT_V2 :: string where
  "ROSTER_CONTEXT_V2 = ''x0x-symphony-roster-v2''"

definition APPROVAL_CONTEXT_V2 :: string where
  "APPROVAL_CONTEXT_V2 = ''x0x-symphony-approval-v2''"

definition CONSUME_CONTEXT_V2 :: string where
  "CONSUME_CONTEXT_V2 = ''x0x-symphony-consume-v2''"

definition HANDOFF_CONTEXT_V2 :: string where
  "HANDOFF_CONTEXT_V2 = ''x0x-symphony-handoff-v2''"

definition V2_LIST_REF_PREFIX :: string where
  "V2_LIST_REF_PREFIX = ''symphony2:''"

definition CARD_SELF_KEY :: string where
  "CARD_SELF_KEY = ''card-self''"

definition GENESIS_KEY :: string where
  "GENESIS_KEY = ''genesis''"

definition ROSTER_KEY_PREFIX :: string where
  "ROSTER_KEY_PREFIX = ''roster-''"

definition EVENT_KEY_PREFIX :: string where
  "EVENT_KEY_PREFIX = ''ev-''"

definition APPROVAL_KEY_PREFIX :: string where
  "APPROVAL_KEY_PREFIX = ''ap-''"

definition CONSUME_KEY_PREFIX :: string where
  "CONSUME_KEY_PREFIX = ''cs-''"

definition HANDOFF_KEY_PREFIX :: string where
  "HANDOFF_KEY_PREFIX = ''ho-''"

section \<open>Topics and keys\<close>

definition event_store_topic :: "string \<Rightarrow> string \<Rightarrow> string" where
  "event_store_topic list_uuid agent_id_hex = ''symphony2-ev-'' @ list_uuid @ ''-'' @ agent_id_hex"

definition heartbeat_store_topic :: "string \<Rightarrow> string \<Rightarrow> string" where
  "heartbeat_store_topic list_uuid agent_id_hex = ''symphony2-hb-'' @ list_uuid @ ''-'' @ agent_id_hex"

definition event_key :: "string \<Rightarrow> string \<Rightarrow> string" where
  "event_key issue_id event_hash_hex = EVENT_KEY_PREFIX @ issue_id @ ''-'' @ event_hash_hex"

definition roster_key :: "u64 \<Rightarrow> string \<Rightarrow> string" where
  "roster_key roster_epoch event_hash_hex =
     ROSTER_KEY_PREFIX @ pad_zeros 10 (show_word roster_epoch) @ ''-'' @ event_hash_hex"

definition approval_key :: "string \<Rightarrow> string \<Rightarrow> string" where
  "approval_key issue_id event_hash_hex = APPROVAL_KEY_PREFIX @ issue_id @ ''-'' @ event_hash_hex"

definition consume_key :: "string \<Rightarrow> string \<Rightarrow> string" where
  "consume_key issue_id event_hash_hex = CONSUME_KEY_PREFIX @ issue_id @ ''-'' @ event_hash_hex"

definition handoff_key :: "string \<Rightarrow> string \<Rightarrow> string" where
  "handoff_key issue_id event_hash_hex = HANDOFF_KEY_PREFIX @ issue_id @ ''-'' @ event_hash_hex"

section \<open>List references\<close>

definition is_ascii_digit :: "char \<Rightarrow> bool" where
  "is_ascii_digit b = (CHR ''0'' \<le> b \<and> b \<le> CHR ''9'')"

definition is_ascii_lowercase :: "char \<Rightarrow> bool" where
  "is_ascii_lowercase b = (CHR ''a'' \<le> b \<and> b \<le> CHR ''z'')"

definition is_valid_list_uuid :: "string \<Rightarrow> bool" where
  "is_valid_list_uuid list_uuid = (list_uuid \<noteq> [] \<and> length list_uuid \<le> 64 \<and>
     (\<forall>b \<in> set list_uuid. is_ascii_lowercase b \<or> is_ascii_digit b \<or> b = CHR ''-''))"

definition is_valid_agent_id_hex :: "string \<Rightarrow> bool" where
  "is_valid_agent_id_hex agent_id = (length agent_id = 64 \<and>
     (\<forall>b \<in> set agent_id. is_ascii_digit b \<or> (CHR ''a'' \<le> b \<and> b \<le> CHR ''f'')))"

record v2_list_ref =
  lr_list_uuid :: string
  lr_creator :: string

definition to_ref_string :: "v2_list_ref \<Rightarrow> string" where
  "to_ref_string r = V2_LIST_REF_PREFIX @ lr_list_uuid r @ '':'' @ lr_creator r"

definition is_v2_namespace :: "string \<Rightarrow> bool" where
  "is_v2_namespace list_ref = prefix V2_LIST_REF_PREFIX list_ref"

definition parse_list_ref :: "string \<Rightarrow> (v2_list_ref, string) result" where
  "parse_list_ref list_ref =
     and_then (ok_or (strip_prefix V2_LIST_REF_PREFIX list_ref) (err_not_v2_list_ref list_ref)) (\<lambda>rest.
     and_then (ok_or (split_once (CHR '':'') rest) err_list_ref_shape) (\<lambda>(list_uuid, creator).
     if \<not> is_valid_list_uuid list_uuid then Err (err_invalid_list_uuid list_uuid)
     else if \<not> is_valid_agent_id_hex creator then Err (err_invalid_creator_id creator)
     else Ok \<lparr>lr_list_uuid = list_uuid, lr_creator = creator\<rparr>))"

section \<open>Payload types\<close>

record event_envelope =
  ee_schema :: u32
  ee_context :: string
  ee_algorithm :: string
  ee_payload_b64 :: string
  ee_public_key_b64 :: string
  ee_signature_b64 :: string
  ee_signer_agent_id :: string

record genesis_policy =
  gp_required_trust :: "string option"

record genesis_manifest_v2 =
  gm_schema :: u32
  gm_kind :: string
  gm_list_uuid :: string
  gm_creator :: string
  gm_roster :: "string list"
  gm_policy :: genesis_policy
  gm_created_at :: u64

record roster_event_v2 =
  re_schema :: u32
  re_kind :: string
  re_list_uuid :: string
  re_genesis_manifest_hash :: string
  re_roster_epoch :: u64
  re_prev_roster_hash :: string
  re_roster :: "string list"
  re_actor :: string

datatype block_reason = AwaitingApproval | OtherReason string

record requeue_justification =
  rq_block_event_hash :: string
  rq_claim_nonce :: string
  rq_approval_event_hash :: string
  rq_approval_payload_sha256 :: string
  rq_approver :: string
  rq_approval :: event_envelope

record approval_payload_v2 =
  apl_schema :: u32
  apl_kind :: string
  apl_list_uuid :: string
  apl_genesis_manifest_hash :: string
  apl_issue_id :: string
  apl_block_event_hash :: string
  apl_claim_nonce :: string
  apl_approver :: string
  apl_approved_at :: u64

text \<open>Arguments in the order of the Rust fields: \<open>TkOpen title spec title_sha256 spec_sha256\<close>,
  \<open>TkRelease claim_nonce claimed_event_hash\<close>, and so on.\<close>

datatype transition_kind =
    TkOpen string string string string
  | TkClaim string
  | TkRelease string string
  | TkBlock string string block_reason
  | TkComplete string string
  | TkRequeue requeue_justification

record transition_event_v2 =
  te_schema :: u32
  te_list_uuid :: string
  te_genesis_manifest_hash :: string
  te_roster_epoch :: u64
  te_issue_id :: string
  te_actor :: string
  te_lamport :: u64
  te_author_seq :: u64
  te_prev_own_event_hash :: string
  te_kind :: transition_kind

datatype approval_verdict_v2 = Approve | Deny

record approval_event_v2 =
  ae_schema :: u32
  ae_kind :: string
  ae_list_uuid :: string
  ae_genesis_manifest_hash :: string
  ae_roster_epoch :: u64
  ae_issue_id :: string
  ae_open_event_hash :: string
  ae_actor :: string
  ae_lamport :: u64
  ae_author_seq :: u64
  ae_prev_own_event_hash :: string
  ae_verdict :: approval_verdict_v2
  ae_entropy :: string
  ae_approved_at :: u64
  ae_v1_record_json :: string

record consume_event_v2 =
  ce_schema :: u32
  ce_kind :: string
  ce_list_uuid :: string
  ce_genesis_manifest_hash :: string
  ce_roster_epoch :: u64
  ce_issue_id :: string
  ce_actor :: string
  ce_lamport :: u64
  ce_author_seq :: u64
  ce_prev_own_event_hash :: string
  ce_approval_event_hash :: string
  ce_approval_payload_sha256 :: string
  ce_approver :: string
  ce_claim_nonce :: string
  ce_claimed_event_hash :: string
  ce_entropy :: string
  ce_v1_record_json :: string

record handoff_validation_v2 =
  hv_command :: string
  hv_status :: string
  hv_exit_code :: "32 word option"

record handoff_event_v2 =
  he_schema :: u32
  he_kind :: string
  he_list_uuid :: string
  he_genesis_manifest_hash :: string
  he_roster_epoch :: u64
  he_issue_id :: string
  he_actor :: string
  he_lamport :: u64
  he_author_seq :: u64
  he_prev_own_event_hash :: string
  he_claim_nonce :: string
  he_claimed_event_hash :: string
  he_summary :: string
  he_files_changed :: "string list"
  he_validation :: "handoff_validation_v2 list"
  he_follow_up :: "string list"
  he_proofs_dir :: "string option"

section \<open>Decoding and envelope verification\<close>

text \<open>The \<^verbatim>\<open>serde_json::from_slice\<close> decoders, one per wire type, with the text of serde's error.\<close>

record prims = crypto +
  json_envelope :: "bytes \<Rightarrow> (event_envelope, string) result"
  json_genesis :: "bytes \<Rightarrow> (genesis_manifest_v2, string) result"
  json_roster :: "bytes \<Rightarrow> (roster_event_v2, string) result"
  json_transition :: "bytes \<Rightarrow> (transition_event_v2, string) result"
  json_approval :: "bytes \<Rightarrow> (approval_event_v2, string) result"
  json_consume :: "bytes \<Rightarrow> (consume_event_v2, string) result"
  json_handoff :: "bytes \<Rightarrow> (handoff_event_v2, string) result"
  json_approval_payload :: "bytes \<Rightarrow> (approval_payload_v2, string) result"

definition decode_envelope :: "prims \<Rightarrow> bytes \<Rightarrow> (event_envelope, string) result" where
  "decode_envelope P bs =
     and_then (map_err err_envelope_decode_failed (json_envelope P bs)) (\<lambda>envelope.
     if ee_schema envelope \<noteq> V2_SCHEMA then Err (err_unsupported_envelope_schema (ee_schema envelope))
     else Ok envelope)"

definition payload_bytes :: "prims \<Rightarrow> event_envelope \<Rightarrow> (bytes, string) result" where
  "payload_bytes P env = decode_b64 P ''payload_b64'' (ee_payload_b64 env)"

definition verify_envelope :: "prims \<Rightarrow> event_envelope \<Rightarrow> string \<Rightarrow> (bytes \<times> string, string) result" where
  "verify_envelope P env expected_context =
     (if ee_schema env \<noteq> V2_SCHEMA then Err (err_unsupported_envelope_schema (ee_schema env))
      else if ee_algorithm env \<noteq> V2_SIGN_ALGORITHM then Err (err_unsupported_algorithm (ee_algorithm env))
      else if ee_context env \<noteq> expected_context
      then Err (err_context_mismatch (ee_context env) expected_context)
      else and_then (payload_bytes P env) (\<lambda>payload.
        if payload = [] then Err err_empty_payload
        else and_then (decode_b64 P ''signature_b64'' (ee_signature_b64 env)) (\<lambda>signature.
        and_then (decode_b64 P ''public_key_b64'' (ee_public_key_b64 env)) (\<lambda>public_key.
        and_then (map_err err_signature_check_failed
            (verify_external_signature P expected_context payload signature public_key)) (\<lambda>_.
        let derived = derive_agent_id_hex P public_key in
        if derived \<noteq> ee_signer_agent_id env
        then Err (err_signer_binding_failed derived (ee_signer_agent_id env))
        else Ok (payload, sha256_hex P payload))))))"

definition decode_transition :: "prims \<Rightarrow> bytes \<Rightarrow> (transition_event_v2, string) result" where
  "decode_transition P payload = map_err err_transition_decode_failed (json_transition P payload)"

definition decode_approval :: "prims \<Rightarrow> bytes \<Rightarrow> (approval_event_v2, string) result" where
  "decode_approval P payload = map_err err_approval_decode_failed (json_approval P payload)"

definition decode_consume :: "prims \<Rightarrow> bytes \<Rightarrow> (consume_event_v2, string) result" where
  "decode_consume P payload = map_err err_consume_decode_failed (json_consume P payload)"

definition decode_handoff :: "prims \<Rightarrow> bytes \<Rightarrow> (handoff_event_v2, string) result" where
  "decode_handoff P payload = map_err err_handoff_decode_failed (json_handoff P payload)"

definition open_kind :: "prims \<Rightarrow> string \<Rightarrow> string \<Rightarrow> transition_kind" where
  "open_kind P title spec =
     TkOpen title spec (sha256_hex P (as_bytes title)) (sha256_hex P (as_bytes spec))"

fun kind_name :: "transition_kind \<Rightarrow> string" where
  "kind_name (TkOpen _ _ _ _) = ''open''"
| "kind_name (TkClaim _) = ''claim''"
| "kind_name (TkRelease _ _) = ''release''"
| "kind_name (TkBlock _ _ _) = ''block''"
| "kind_name (TkComplete _ _) = ''complete''"
| "kind_name (TkRequeue _) = ''requeue''"

section \<open>List references: parse and print\<close>

lemma valid_list_uuid_no_colon: "is_valid_list_uuid u \<Longrightarrow> CHR '':'' \<notin> set u"
  by (auto simp: is_valid_list_uuid_def is_ascii_lowercase_def is_ascii_digit_def less_eq_char_def)

lemma parse_list_ref_Ok_iff:
  "parse_list_ref s = Ok r \<longleftrightarrow>
     s = to_ref_string r \<and> is_valid_list_uuid (lr_list_uuid r) \<and> is_valid_agent_id_hex (lr_creator r)"
  (is "?L \<longleftrightarrow> ?R")
proof
  assume ?L
  then obtain rest where p: "strip_prefix V2_LIST_REF_PREFIX s = Some rest"
    and q: "split_once (CHR '':'') rest = Some (lr_list_uuid r, lr_creator r)"
    and v: "is_valid_list_uuid (lr_list_uuid r)" "is_valid_agent_id_hex (lr_creator r)"
    by (auto simp: parse_list_ref_def split: if_splits)
  from strip_prefix_SomeD [OF p] split_once_SomeD [OF q] v show ?R
    by (simp add: to_ref_string_def)
next
  assume ?R
  then show ?L
    by (simp add: parse_list_ref_def to_ref_string_def valid_list_uuid_no_colon)
qed

section \<open>What a verified envelope establishes\<close>

lemma decode_envelope_OkD: "decode_envelope P bs = Ok env \<Longrightarrow> json_envelope P bs = Ok env \<and> ee_schema env = V2_SCHEMA"
  by (auto simp: decode_envelope_def split: if_splits)

lemma verify_envelope_OkD:
  assumes "verify_envelope P env ctx = Ok (payload, h)"
  shows "ee_context env = ctx" and "ee_schema env = V2_SCHEMA"
    and "b64_decode P (ee_payload_b64 env) = Ok payload" and "payload \<noteq> []"
    and "h = sha256_hex P payload"
    and "\<exists>sig pk. b64_decode P (ee_signature_b64 env) = Ok sig \<and> b64_decode P (ee_public_key_b64 env) = Ok pk \<and>
           verify_external_signature P ctx payload sig pk = Ok () \<and>
           derive_agent_id_hex P pk = ee_signer_agent_id env"
  using assms
  by (auto simp: verify_envelope_def payload_bytes_def decode_b64_def Let_def split: if_splits)

end
