(* ===== verification/Fold_Types.thy ===== *)
theory Fold_Types
  imports Events
begin

text \<open>
  The data of the v2 fold (\<^verbatim>\<open>v2/fold.rs\<close>): author streams and resource budgets on the input side,
  refusals, rejections, fork evidence, folded issue state and the fold output on the other side,
  and the admitted record that flows from phase 1 to phase 2. The two read-only queries on a fold
  output, \<open>next_chain_link\<close> and \<open>unconsumed_approvals\<close>, are here too.
\<close>

section \<open>Input\<close>

definition LAMPORT_MAX_SKEW :: u64 where
  "LAMPORT_MAX_SKEW = 64"

record store_record =
  sr_key :: string
  sr_value :: bytes

record author_stream =
  as_owner :: string
  as_card_self :: "bytes option"
  as_records :: "store_record list"

record fold_limits =
  max_roster_members :: usize
  max_records_per_stream :: usize
  max_record_bytes :: usize

definition default_fold_limits :: fold_limits where
  "default_fold_limits =
     \<lparr>max_roster_members = 256, max_records_per_stream = 4096, max_record_bytes = 256 * 1024\<rparr>"

record fold_input =
  fi_list_uuid :: string
  fi_creator :: string
  fi_streams :: "author_stream list"
  fi_limits :: fold_limits

section \<open>Refusals and diagnostics\<close>

datatype list_refusal =
    MissingCreatorStream string
  | MissingGenesis
  | InvalidGenesis string
  | BudgetExceeded string

record fork_evidence =
  fe_author :: string
  fe_author_seq :: u64
  fe_event_hashes :: "string list"

datatype rejection_phase = Admission | StateMachine

record rejection =
  rj_author :: string
  rj_key :: string
  rj_phase :: rejection_phase
  rj_reason :: string

definition admission_rejection :: "string \<Rightarrow> string \<Rightarrow> string \<Rightarrow> rejection" where
  "admission_rejection author key why =
     \<lparr>rj_author = author, rj_key = key, rj_phase = Admission, rj_reason = why\<rparr>"

section \<open>Folded state\<close>

text \<open>\<open>StClaimed claimant claim_nonce claim_event_hash\<close>;
  \<open>StBlocked claimant claim_nonce claim_event_hash block_event_hash reason\<close>;
  \<open>StDone completed_by complete_event_hash\<close>.\<close>

datatype issue_status_v2 =
    StOpen
  | StClaimed string string string
  | StBlocked string string string string block_reason
  | StDone string string

record issue_state_v2 =
  is_issue_id :: string
  is_title :: string
  is_spec :: string
  is_opened_by :: string
  is_open_event_hash :: string
  is_status :: issue_status_v2
  is_applied :: "string list"

record handoff_record_v2 =
  hr_event_hash :: string
  hr_handoff :: handoff_event_v2

record chain_tip_v2 =
  ct_author_seq :: u64
  ct_last_event_hash :: string

record admitted_approval_v2 =
  aa_event_hash :: string
  aa_approval :: approval_event_v2

record effective_consume_v2 =
  ec_event_hash :: string
  ec_consume :: consume_event_v2

record consume_diagnostic =
  cd_author :: string
  cd_key :: string
  cd_event_hash :: string
  cd_approval_event_hash :: string
  cd_reason :: string

datatype chained_payload =
    ChTransition transition_event_v2
  | ChApproval approval_event_v2
  | ChConsume consume_event_v2
  | ChHandoff handoff_event_v2

record admitted =
  ad_author :: string
  ad_key :: string
  ad_event_hash :: string
  ad_lamport :: u64
  ad_author_seq :: u64
  ad_prev_own_event_hash :: string
  ad_payload :: chained_payload

record fold_output =
  fo_genesis :: genesis_manifest_v2
  fo_genesis_hash :: string
  fo_latest_roster_epoch :: u64
  fo_current_roster :: "string btree_set"
  fo_issues :: "(string, issue_state_v2) btree_map"
  fo_max_admitted_lamport :: u64
  fo_rejections :: "rejection list"
  fo_forks :: "fork_evidence list"
  fo_approvals :: "(string, admitted_approval_v2) btree_map"
  fo_effective_consumes :: "(string, effective_consume_v2) btree_map"
  fo_losing_consumes :: "consume_diagnostic list"
  fo_handoffs :: "(string, handoff_record_v2 list) btree_map"
  fo_author_chain_tips :: "(string, chain_tip_v2) btree_map"

section \<open>Queries on a fold output\<close>

definition next_chain_link :: "fold_output \<Rightarrow> string \<Rightarrow> u64 \<times> string" where
  "next_chain_link out author =
     (case bt_get (fo_author_chain_tips out) author of
        None \<Rightarrow> (1, fo_genesis_hash out)
      | Some tip \<Rightarrow> (ct_author_seq tip + 1, ct_last_event_hash tip))"

text \<open>An admitted approval that binds the current content of \<open>issue\<close> with verdict \<open>v\<close>.\<close>

definition binds_content :: "issue_state_v2 \<Rightarrow> string \<Rightarrow> approval_verdict_v2 \<Rightarrow> admitted_approval_v2 \<Rightarrow> bool" where
  "binds_content issue issue_id v a =
     (ae_issue_id (aa_approval a) = issue_id \<and>
      ae_open_event_hash (aa_approval a) = is_open_event_hash issue \<and> ae_verdict (aa_approval a) = v)"

definition unconsumed_approvals :: "fold_output \<Rightarrow> string \<Rightarrow> admitted_approval_v2 list" where
  "unconsumed_approvals out issue_id =
     (case bt_get (fo_issues out) issue_id of
        None \<Rightarrow> []
      | Some issue \<Rightarrow>
          if list_ex (binds_content issue issue_id Deny) (bt_values (fo_approvals out)) then []
          else filter (\<lambda>a. binds_content issue issue_id Approve a \<and>
                 \<not> bt_contains_key (fo_effective_consumes out) (aa_event_hash a))
               (bt_values (fo_approvals out)))"

section \<open>Lemmas\<close>

lemma unconsumed_approvals_mem:
  assumes "a \<in> set (unconsumed_approvals out i)"
  shows "\<exists>issue. bt_get (fo_issues out) i = Some issue \<and> binds_content issue i Approve a \<and>
           a \<in> set (bt_values (fo_approvals out)) \<and>
           \<not> bt_contains_key (fo_effective_consumes out) (aa_event_hash a) \<and>
           \<not> list_ex (binds_content issue i Deny) (bt_values (fo_approvals out))"
proof (cases "bt_get (fo_issues out) i")
  case None
  with assms show ?thesis by (simp add: unconsumed_approvals_def)
next
  case (Some issue)
  with assms show ?thesis by (auto simp: unconsumed_approvals_def split: if_splits)
qed

lemma unconsumed_approvals_denied:
  assumes "bt_get (fo_issues out) i = Some issue" and "d \<in> set (bt_values (fo_approvals out))"
    and "binds_content issue i Deny d"
  shows "unconsumed_approvals out i = []"
  using assms by (auto simp: unconsumed_approvals_def list_ex_iff)

end
