(* ===== verification/Fold_Admission.thy ===== *)
theory Fold_Admission
  imports Fold_Types
begin

text \<open>
  Phase 1 of the v2 fold (\<^verbatim>\<open>v2/fold.rs\<close>), up to per-record admission: canonicalisation of the input
  streams, the self-certifying author card, genesis verification, the creator-signed roster chain
  and the admission checks of the four chained record types. The code pushes rejections and fork
  evidence onto vectors it was given; the model returns what is pushed and the caller appends it.

  Lemmas: canonicalisation depends on the set of records and cards of each owner only; an admitted
  record is bound four ways (store owner, author card, envelope signer, payload actor), to this
  list and genesis, to its content address and to the roster of the epoch it names.
\<close>

section \<open>Canonical streams\<close>

definition record_order :: "store_record \<Rightarrow> string \<times> bytes" where
  "record_order r = (sr_key r, sr_value r)"

definition merge_stream ::
  "(string, author_stream) btree_map \<times> (string, bytes btree_set) btree_map \<Rightarrow> author_stream \<Rightarrow>
   (string, author_stream) btree_map \<times> (string, bytes btree_set) btree_map" where
  "merge_stream = (\<lambda>(merged, cards) stream.
     let entry = (case bt_get merged (as_owner stream) of
           None \<Rightarrow> \<lparr>as_owner = as_owner stream, as_card_self = None, as_records = []\<rparr>
         | Some e \<Rightarrow> e);
         entry = (if as_card_self entry = None then entry\<lparr>as_card_self := as_card_self stream\<rparr> else entry);
         cards = (case as_card_self stream of
           None \<Rightarrow> cards
         | Some acard \<Rightarrow> bt_insert (as_owner stream)
             (bset_insert acard (bt_get_list cards (as_owner stream))) cards);
         entry = entry\<lparr>as_records := as_records entry @ as_records stream\<rparr>
     in (bt_insert (as_owner stream) entry merged, cards))"

text \<open>Sort a merged stream by \<^verbatim>\<open>(key, value)\<close> and drop duplicates.\<close>

definition canonical_stream :: "author_stream \<Rightarrow> author_stream" where
  "canonical_stream s = s\<lparr>as_records := sort_dedup record_order (as_records s)\<rparr>"

definition card_candidates :: "(string, bytes btree_set) btree_map \<Rightarrow> author_stream \<Rightarrow> bytes btree_set" where
  "card_candidates cards s =
     bset_extend (bt_get_list cards (as_owner s))
       (map sr_value (filter (\<lambda>r. sr_key r = CARD_SELF_KEY) (as_records s)))"

definition canonical_streams ::
  "prims \<Rightarrow> author_stream list \<Rightarrow> (string, author_stream) btree_map \<times> (string, string) btree_map" where
  "canonical_streams P streams =
     (let (merged, cards) = foldl merge_stream ([], []) streams;
          merged = map (\<lambda>(k, s). (k, canonical_stream s)) merged;
          conflicted = foldl (\<lambda>conflicted s.
            let candidates = card_candidates cards s in
            if length candidates > 1
            then bt_insert (as_owner s) (err_card_conflict (map (sha256_hex P) candidates)) conflicted
            else conflicted) [] (bt_values merged)
      in (merged, conflicted))"

section \<open>Author card and genesis\<close>

definition verified_card :: "prims \<Rightarrow> author_stream \<Rightarrow> (bytes, string) result" where
  "verified_card P stream =
     and_then (ok_or
       (case as_card_self stream of
          Some acard \<Rightarrow> Some acard
        | None \<Rightarrow> map_option sr_value (find (\<lambda>r. sr_key r = CARD_SELF_KEY) (as_records stream)))
       err_card_missing) (\<lambda>acard.
     let derived = derive_agent_id_hex P acard in
     if derived \<noteq> as_owner stream then Err (err_card_derives derived (as_owner stream))
     else Ok acard)"

definition check_envelope_key :: "prims \<Rightarrow> event_envelope \<Rightarrow> string \<Rightarrow> bytes \<Rightarrow> (unit, string) result" where
  "check_envelope_key P env expected_signer acard =
     (if ee_signer_agent_id env \<noteq> expected_signer
      then Err (err_envelope_signer (ee_signer_agent_id env) expected_signer)
      else and_then (decode_b64 P ''public_key_b64'' (ee_public_key_b64 env)) (\<lambda>key.
        if key \<noteq> acard then Err err_envelope_key_differs else Ok ()))"

definition verify_genesis ::
  "prims \<Rightarrow> store_record \<Rightarrow> string \<Rightarrow> string \<Rightarrow> bytes \<Rightarrow> (genesis_manifest_v2 \<times> string, string) result" where
  "verify_genesis P rec list_uuid creator creator_card =
     and_then (decode_envelope P (sr_value rec)) (\<lambda>env.
     and_then (verify_envelope P env GENESIS_CONTEXT_V2) (\<lambda>(payload, hash).
     and_then (check_envelope_key P env creator creator_card) (\<lambda>_.
     and_then (map_err err_genesis_decode_failed (json_genesis P payload)) (\<lambda>genesis.
     if gm_schema genesis \<noteq> V2_SCHEMA then Err (err_genesis_schema (gm_schema genesis))
     else if gm_kind genesis \<noteq> ''genesis'' then Err (err_genesis_kind (gm_kind genesis))
     else if gm_list_uuid genesis \<noteq> list_uuid then Err (err_genesis_list (gm_list_uuid genesis) list_uuid)
     else if gm_creator genesis \<noteq> creator then Err (err_genesis_creator (gm_creator genesis) creator)
     else if gm_roster genesis = [] then Err err_genesis_roster_empty
     else Ok (genesis, hash)))))"

section \<open>The roster chain\<close>

type_synonym roster_candidate = "string \<times> roster_event_v2 \<times> string"

definition verify_roster_record ::
  "prims \<Rightarrow> string \<Rightarrow> string \<Rightarrow> bytes \<Rightarrow> string \<Rightarrow> store_record \<Rightarrow> (roster_event_v2 \<times> string, string) result" where
  "verify_roster_record P list_uuid creator creator_card genesis_hash rec =
     and_then (decode_envelope P (sr_value rec)) (\<lambda>env.
     and_then (verify_envelope P env ROSTER_CONTEXT_V2) (\<lambda>(payload, hash).
     and_then (check_envelope_key P env creator creator_card) (\<lambda>_.
     and_then (map_err err_roster_decode_failed (json_roster P payload)) (\<lambda>roster.
     if re_schema roster \<noteq> V2_SCHEMA \<or> re_kind roster \<noteq> ''roster'' then Err err_roster_schema_kind
     else if re_list_uuid roster \<noteq> list_uuid \<or> re_genesis_manifest_hash roster \<noteq> genesis_hash
     then Err err_roster_binding
     else if re_actor roster \<noteq> creator then Err (err_roster_actor (re_actor roster))
     else if re_roster_epoch roster = 0 then Err err_roster_epoch_zero
     else if re_roster roster = [] then Err err_roster_update_empty
     else Ok (roster, hash)))))"

fun collect_rosters ::
  "prims \<Rightarrow> string \<Rightarrow> string \<Rightarrow> bytes \<Rightarrow> string \<Rightarrow> usize \<Rightarrow> store_record list \<Rightarrow>
   (u64, roster_candidate list) btree_map \<Rightarrow> rejection list \<Rightarrow>
   ((u64, roster_candidate list) btree_map \<times> rejection list, list_refusal) result" where
  "collect_rosters P list_uuid creator acard genesis_hash max_members [] by_epoch rejections =
     Ok (by_epoch, rejections)"
| "collect_rosters P list_uuid creator acard genesis_hash max_members (rec # recs) by_epoch rejections =
     (if \<not> prefix ROSTER_KEY_PREFIX (sr_key rec)
      then collect_rosters P list_uuid creator acard genesis_hash max_members recs by_epoch rejections
      else case verify_roster_record P list_uuid creator acard genesis_hash rec of
        Ok (roster, hash) \<Rightarrow>
          if length (re_roster roster) > unat max_members
          then Err (BudgetExceeded
            (budget_roster_update_too_large (sr_key rec) (length (re_roster roster)) max_members))
          else collect_rosters P list_uuid creator acard genesis_hash max_members recs
            (bt_push (re_roster_epoch roster) (sr_key rec, roster, hash) by_epoch) rejections
      | Err why \<Rightarrow>
          collect_rosters P list_uuid creator acard genesis_hash max_members recs by_epoch
            (rejections @ [admission_rejection creator (sr_key rec) why]))"

definition linked_candidates :: "string \<Rightarrow> roster_candidate list \<Rightarrow> roster_candidate list" where
  "linked_candidates prev_hash candidates =
     dedup_key (\<lambda>c. snd (snd c))
       (sort_key (\<lambda>c. snd (snd c))
         (filter (\<lambda>c. re_prev_roster_hash (fst (snd c)) = prev_hash) candidates))"

definition unlinked_rejections :: "string \<Rightarrow> string \<Rightarrow> roster_candidate list \<Rightarrow> rejection list" where
  "unlinked_rejections creator prev_hash candidates =
     map (\<lambda>c. admission_rejection creator (fst c) err_roster_prev_hash)
       (filter (\<lambda>c. re_prev_roster_hash (fst (snd c)) \<noteq> prev_hash) candidates)"

text \<open>
  The \<^verbatim>\<open>while let Some(candidates) = by_epoch.get(&epoch)\<close> loop. Each round uses up one key of
  \<open>by_epoch\<close>, so \<open>length by_epoch\<close> rounds are enough (\<open>walk_rosters_fuel\<close> below); the result is the
  first unreached epoch, the rosters by epoch, and the diagnostics pushed.
\<close>

fun walk_rosters ::
  "nat \<Rightarrow> string \<Rightarrow> usize \<Rightarrow> (u64, roster_candidate list) btree_map \<Rightarrow> string btree_set \<Rightarrow> string \<Rightarrow> u64 \<Rightarrow>
   string btree_set list \<Rightarrow> rejection list \<Rightarrow> fork_evidence list \<Rightarrow>
   (u64 \<times> string btree_set list \<times> rejection list \<times> fork_evidence list, list_refusal) result" where
  "walk_rosters 0 creator max_members by_epoch cumulative prev_hash epoch rosters rejections forks =
     Ok (epoch, rosters, rejections, forks)"
| "walk_rosters (Suc fuel) creator max_members by_epoch cumulative prev_hash epoch rosters rejections forks =
     (case bt_get by_epoch epoch of
        None \<Rightarrow> Ok (epoch, rosters, rejections, forks)
      | Some candidates \<Rightarrow>
          let rejections = rejections @ unlinked_rejections creator prev_hash candidates in
          (case linked_candidates prev_hash candidates of
             [] \<Rightarrow> Ok (epoch, rosters, rejections, forks)
           | [c] \<Rightarrow>
               let cumulative = bset_extend cumulative (re_roster (fst (snd c))) in
               if length cumulative > unat max_members
               then Err (BudgetExceeded (budget_cumulative_roster_too_large (length cumulative) max_members))
               else walk_rosters fuel creator max_members by_epoch cumulative (snd (snd c)) (epoch + 1)
                 (rosters @ [bset_of_list (re_roster (fst (snd c)))]) rejections forks
           | many \<Rightarrow>
               Ok (epoch, rosters,
                 rejections @ map (\<lambda>c. admission_rejection creator (fst c) (err_roster_fork epoch)) many,
                 forks @ [\<lparr>fe_author = creator, fe_author_seq = epoch,
                   fe_event_hashes = map (\<lambda>c. snd (snd c)) many\<rparr>])))"

definition unreachable_rejections ::
  "string \<Rightarrow> u64 \<Rightarrow> (u64, roster_candidate list) btree_map \<Rightarrow> rejection list" where
  "unreachable_rejections creator epoch by_epoch =
     concat (map (\<lambda>(e, candidates).
       if e \<ge> epoch
       then map (\<lambda>c. admission_rejection creator (fst c) (err_roster_unreachable e)) candidates
       else []) by_epoch)"

definition build_roster_chain ::
  "prims \<Rightarrow> author_stream \<Rightarrow> string \<Rightarrow> string \<Rightarrow> bytes \<Rightarrow> string \<Rightarrow> usize \<Rightarrow> string btree_set \<Rightarrow>
   (string btree_set list \<times> rejection list \<times> fork_evidence list, list_refusal) result" where
  "build_roster_chain P creator_stream list_uuid creator creator_card genesis_hash max_members genesis_roster =
     and_then (collect_rosters P list_uuid creator creator_card genesis_hash max_members
       (as_records creator_stream) [] []) (\<lambda>(by_epoch, rejections).
     and_then (walk_rosters (length by_epoch) creator max_members by_epoch genesis_roster genesis_hash 1
       [genesis_roster] rejections []) (\<lambda>(epoch, rosters, rejections, forks).
     Ok (rosters, rejections @ unreachable_rejections creator epoch by_epoch, forks)))"

section \<open>Admission of chained records\<close>

definition is_chained_key :: "string \<Rightarrow> bool" where
  "is_chained_key key = (prefix EVENT_KEY_PREFIX key \<or> prefix APPROVAL_KEY_PREFIX key \<or>
     prefix CONSUME_KEY_PREFIX key \<or> prefix HANDOFF_KEY_PREFIX key)"

definition event_records :: "author_stream \<Rightarrow> store_record list" where
  "event_records stream = filter (\<lambda>r. is_chained_key (sr_key r)) (as_records stream)"

record chained_bindings =
  cb_record_key :: string
  cb_expected_key :: string
  cb_schema :: u32
  cb_event_list_uuid :: string
  cb_event_genesis :: string
  cb_roster_epoch :: u64
  cb_actor :: string

text \<open>\<^verbatim>\<open>usize::try_from(roster_epoch)\<close> cannot fail on a 64-bit target.\<close>

definition check_chained_common ::
  "chained_bindings \<Rightarrow> string \<Rightarrow> string \<Rightarrow> string \<Rightarrow> string btree_set list \<Rightarrow> (string btree_set, string) result" where
  "check_chained_common b owner list_uuid genesis_hash rosters =
     (if cb_actor b \<noteq> owner then Err (err_actor_not_owner (cb_actor b) owner)
      else if cb_schema b \<noteq> V2_SCHEMA then Err (err_event_schema (cb_schema b))
      else if cb_event_list_uuid b \<noteq> list_uuid then Err (err_event_list (cb_event_list_uuid b) list_uuid)
      else if cb_event_genesis b \<noteq> genesis_hash then Err err_event_genesis
      else if cb_record_key b \<noteq> cb_expected_key b
      then Err (err_key_mismatch (cb_record_key b) (cb_expected_key b))
      else and_then (ok_or (nth_opt rosters (unat (cb_roster_epoch b)))
          (err_unknown_roster_epoch (cb_roster_epoch b))) (\<lambda>roster.
        if cb_actor b \<notin> set roster then Err (err_not_roster_member (cb_actor b) (cb_roster_epoch b))
        else Ok roster))"

definition admit_handoff ::
  "prims \<Rightarrow> store_record \<Rightarrow> string \<Rightarrow> bytes \<Rightarrow> string \<Rightarrow> string \<Rightarrow> string btree_set list \<Rightarrow> (admitted, string) result" where
  "admit_handoff P rec owner acard list_uuid genesis_hash rosters =
     and_then (decode_envelope P (sr_value rec)) (\<lambda>env.
     and_then (verify_envelope P env HANDOFF_CONTEXT_V2) (\<lambda>(payload, event_hash).
     and_then (check_envelope_key P env owner acard) (\<lambda>_.
     and_then (decode_handoff P payload) (\<lambda>event.
     if he_kind event \<noteq> ''handoff'' then Err (err_handoff_kind (he_kind event))
     else and_then (check_chained_common
       \<lparr>cb_record_key = sr_key rec, cb_expected_key = handoff_key (he_issue_id event) event_hash,
        cb_schema = he_schema event, cb_event_list_uuid = he_list_uuid event,
        cb_event_genesis = he_genesis_manifest_hash event, cb_roster_epoch = he_roster_epoch event,
        cb_actor = he_actor event\<rparr> owner list_uuid genesis_hash rosters) (\<lambda>_.
     Ok \<lparr>ad_author = owner, ad_key = sr_key rec, ad_event_hash = event_hash, ad_lamport = he_lamport event,
         ad_author_seq = he_author_seq event, ad_prev_own_event_hash = he_prev_own_event_hash event,
         ad_payload = ChHandoff event\<rparr>)))))"

definition admit_approval ::
  "prims \<Rightarrow> store_record \<Rightarrow> string \<Rightarrow> bytes \<Rightarrow> string \<Rightarrow> string \<Rightarrow> string btree_set list \<Rightarrow> (admitted, string) result" where
  "admit_approval P rec owner acard list_uuid genesis_hash rosters =
     and_then (decode_envelope P (sr_value rec)) (\<lambda>env.
     and_then (verify_envelope P env APPROVAL_CONTEXT_V2) (\<lambda>(payload, event_hash).
     and_then (check_envelope_key P env owner acard) (\<lambda>_.
     and_then (decode_approval P payload) (\<lambda>event.
     if ae_kind event \<noteq> ''dispatch_approval'' then Err (err_approval_kind (ae_kind event))
     else and_then (check_chained_common
       \<lparr>cb_record_key = sr_key rec, cb_expected_key = approval_key (ae_issue_id event) event_hash,
        cb_schema = ae_schema event, cb_event_list_uuid = ae_list_uuid event,
        cb_event_genesis = ae_genesis_manifest_hash event, cb_roster_epoch = ae_roster_epoch event,
        cb_actor = ae_actor event\<rparr> owner list_uuid genesis_hash rosters) (\<lambda>_.
     Ok \<lparr>ad_author = owner, ad_key = sr_key rec, ad_event_hash = event_hash, ad_lamport = ae_lamport event,
         ad_author_seq = ae_author_seq event, ad_prev_own_event_hash = ae_prev_own_event_hash event,
         ad_payload = ChApproval event\<rparr>)))))"

definition admit_consume ::
  "prims \<Rightarrow> store_record \<Rightarrow> string \<Rightarrow> bytes \<Rightarrow> string \<Rightarrow> string \<Rightarrow> string btree_set list \<Rightarrow> (admitted, string) result" where
  "admit_consume P rec owner acard list_uuid genesis_hash rosters =
     and_then (decode_envelope P (sr_value rec)) (\<lambda>env.
     and_then (verify_envelope P env CONSUME_CONTEXT_V2) (\<lambda>(payload, event_hash).
     and_then (check_envelope_key P env owner acard) (\<lambda>_.
     and_then (decode_consume P payload) (\<lambda>event.
     if ce_kind event \<noteq> ''consume'' then Err (err_consume_kind (ce_kind event))
     else if ce_approval_payload_sha256 event \<noteq> ce_approval_event_hash event
     then Err err_consume_hashes_disagree
     else and_then (check_chained_common
       \<lparr>cb_record_key = sr_key rec, cb_expected_key = consume_key (ce_issue_id event) event_hash,
        cb_schema = ce_schema event, cb_event_list_uuid = ce_list_uuid event,
        cb_event_genesis = ce_genesis_manifest_hash event, cb_roster_epoch = ce_roster_epoch event,
        cb_actor = ce_actor event\<rparr> owner list_uuid genesis_hash rosters) (\<lambda>_.
     Ok \<lparr>ad_author = owner, ad_key = sr_key rec, ad_event_hash = event_hash, ad_lamport = ce_lamport event,
         ad_author_seq = ce_author_seq event, ad_prev_own_event_hash = ce_prev_own_event_hash event,
         ad_payload = ChConsume event\<rparr>)))))"

text \<open>The C6 checks on the justification of a requeue, at the requeue's roster \<open>roster\<close>.\<close>

definition check_requeue_justification ::
  "prims \<Rightarrow> string \<Rightarrow> string \<Rightarrow> string btree_set \<Rightarrow> transition_event_v2 \<Rightarrow> requeue_justification \<Rightarrow> (unit, string) result" where
  "check_requeue_justification P list_uuid genesis_hash roster event j =
     and_then (map_err err_requeue_envelope (verify_envelope P (rq_approval j) APPROVAL_CONTEXT_V2))
       (\<lambda>(approval_payload, approval_hash).
     if approval_hash \<noteq> rq_approval_event_hash j then Err err_requeue_event_hash
     else if approval_hash \<noteq> rq_approval_payload_sha256 j then Err err_requeue_payload_hash
     else and_then (map_err err_approval_decode_failed (json_approval_payload P approval_payload)) (\<lambda>approval.
     if apl_schema approval \<noteq> V2_SCHEMA \<or> apl_kind approval \<noteq> ''approval'' then Err err_approval_schema_kind
     else if apl_list_uuid approval \<noteq> list_uuid \<or> apl_genesis_manifest_hash approval \<noteq> genesis_hash
     then Err err_approval_binding
     else if apl_issue_id approval \<noteq> te_issue_id event then Err err_approval_issue
     else if apl_approver approval \<noteq> rq_approver j then Err err_approval_approver
     else if ee_signer_agent_id (rq_approval j) \<noteq> apl_approver approval then Err err_approval_signer
     else if apl_block_event_hash approval \<noteq> rq_block_event_hash j then Err err_approval_block
     else if apl_claim_nonce approval \<noteq> rq_claim_nonce j then Err err_approval_nonce
     else if apl_approver approval \<notin> set roster
     then Err (err_approver_not_member (apl_approver approval) (te_roster_epoch event))
     else Ok ()))"

definition check_transition_content ::
  "prims \<Rightarrow> string \<Rightarrow> string \<Rightarrow> string btree_set \<Rightarrow> transition_event_v2 \<Rightarrow> (unit, string) result" where
  "check_transition_content P list_uuid genesis_hash roster event =
     (case te_kind event of
        TkOpen title spec title_sha256 spec_sha256 \<Rightarrow>
          if title_sha256 \<noteq> sha256_hex P (as_bytes title) then Err err_open_title_digest
          else if spec_sha256 \<noteq> sha256_hex P (as_bytes spec) then Err err_open_spec_digest
          else Ok ()
      | TkRequeue j \<Rightarrow> check_requeue_justification P list_uuid genesis_hash roster event j
      | _ \<Rightarrow> Ok ())"

definition admit_transition ::
  "prims \<Rightarrow> store_record \<Rightarrow> string \<Rightarrow> bytes \<Rightarrow> string \<Rightarrow> string \<Rightarrow> string btree_set list \<Rightarrow> (admitted, string) result" where
  "admit_transition P rec owner acard list_uuid genesis_hash rosters =
     and_then (decode_envelope P (sr_value rec)) (\<lambda>env.
     and_then (verify_envelope P env TRANSITION_CONTEXT_V2) (\<lambda>(payload, event_hash).
     and_then (check_envelope_key P env owner acard) (\<lambda>_.
     and_then (decode_transition P payload) (\<lambda>event.
     and_then (check_chained_common
       \<lparr>cb_record_key = sr_key rec, cb_expected_key = event_key (te_issue_id event) event_hash,
        cb_schema = te_schema event, cb_event_list_uuid = te_list_uuid event,
        cb_event_genesis = te_genesis_manifest_hash event, cb_roster_epoch = te_roster_epoch event,
        cb_actor = te_actor event\<rparr> owner list_uuid genesis_hash rosters) (\<lambda>roster.
     and_then (check_transition_content P list_uuid genesis_hash roster event) (\<lambda>_.
     Ok \<lparr>ad_author = owner, ad_key = sr_key rec, ad_event_hash = event_hash, ad_lamport = te_lamport event,
         ad_author_seq = te_author_seq event, ad_prev_own_event_hash = te_prev_own_event_hash event,
         ad_payload = ChTransition event\<rparr>))))))"

definition admit_event ::
  "prims \<Rightarrow> store_record \<Rightarrow> string \<Rightarrow> bytes \<Rightarrow> string \<Rightarrow> string \<Rightarrow> string btree_set list \<Rightarrow> (admitted, string) result" where
  "admit_event P rec owner acard list_uuid genesis_hash rosters =
     (if prefix EVENT_KEY_PREFIX (sr_key rec)
      then admit_transition P rec owner acard list_uuid genesis_hash rosters
      else if prefix APPROVAL_KEY_PREFIX (sr_key rec)
      then admit_approval P rec owner acard list_uuid genesis_hash rosters
      else if prefix CONSUME_KEY_PREFIX (sr_key rec)
      then admit_consume P rec owner acard list_uuid genesis_hash rosters
      else if prefix HANDOFF_KEY_PREFIX (sr_key rec)
      then admit_handoff P rec owner acard list_uuid genesis_hash rosters
      else Err err_not_chained_record)"

section \<open>What admission establishes\<close>

lemma check_envelope_key_OkD:
  "check_envelope_key P env signer acard = Ok u \<Longrightarrow>
     ee_signer_agent_id env = signer \<and> b64_decode P (ee_public_key_b64 env) = Ok acard"
  by (auto simp: check_envelope_key_def decode_b64_def split: if_splits)

lemma check_chained_common_OkD:
  "check_chained_common b owner l g rosters = Ok roster \<Longrightarrow>
     cb_actor b = owner \<and> cb_schema b = V2_SCHEMA \<and> cb_event_list_uuid b = l \<and> cb_event_genesis b = g \<and>
     cb_record_key b = cb_expected_key b \<and>
     nth_opt rosters (unat (cb_roster_epoch b)) = Some roster \<and> owner \<in> set roster"
  by (auto simp: check_chained_common_def split: if_splits)

text \<open>The common fields of the four chained payloads, their content addresses, their signing
  contexts and their decoders.\<close>

fun pl_actor :: "chained_payload \<Rightarrow> string" where
  "pl_actor (ChTransition e) = te_actor e"
| "pl_actor (ChApproval e) = ae_actor e"
| "pl_actor (ChConsume e) = ce_actor e"
| "pl_actor (ChHandoff e) = he_actor e"

fun pl_list_uuid :: "chained_payload \<Rightarrow> string" where
  "pl_list_uuid (ChTransition e) = te_list_uuid e"
| "pl_list_uuid (ChApproval e) = ae_list_uuid e"
| "pl_list_uuid (ChConsume e) = ce_list_uuid e"
| "pl_list_uuid (ChHandoff e) = he_list_uuid e"

fun pl_genesis :: "chained_payload \<Rightarrow> string" where
  "pl_genesis (ChTransition e) = te_genesis_manifest_hash e"
| "pl_genesis (ChApproval e) = ae_genesis_manifest_hash e"
| "pl_genesis (ChConsume e) = ce_genesis_manifest_hash e"
| "pl_genesis (ChHandoff e) = he_genesis_manifest_hash e"

fun pl_roster_epoch :: "chained_payload \<Rightarrow> u64" where
  "pl_roster_epoch (ChTransition e) = te_roster_epoch e"
| "pl_roster_epoch (ChApproval e) = ae_roster_epoch e"
| "pl_roster_epoch (ChConsume e) = ce_roster_epoch e"
| "pl_roster_epoch (ChHandoff e) = he_roster_epoch e"

fun pl_chain :: "chained_payload \<Rightarrow> u64 \<times> u64 \<times> string" where
  "pl_chain (ChTransition e) = (te_lamport e, te_author_seq e, te_prev_own_event_hash e)"
| "pl_chain (ChApproval e) = (ae_lamport e, ae_author_seq e, ae_prev_own_event_hash e)"
| "pl_chain (ChConsume e) = (ce_lamport e, ce_author_seq e, ce_prev_own_event_hash e)"
| "pl_chain (ChHandoff e) = (he_lamport e, he_author_seq e, he_prev_own_event_hash e)"

fun pl_key :: "chained_payload \<Rightarrow> string \<Rightarrow> string" where
  "pl_key (ChTransition e) h = event_key (te_issue_id e) h"
| "pl_key (ChApproval e) h = approval_key (ae_issue_id e) h"
| "pl_key (ChConsume e) h = consume_key (ce_issue_id e) h"
| "pl_key (ChHandoff e) h = handoff_key (he_issue_id e) h"

fun pl_context :: "chained_payload \<Rightarrow> string" where
  "pl_context (ChTransition e) = TRANSITION_CONTEXT_V2"
| "pl_context (ChApproval e) = APPROVAL_CONTEXT_V2"
| "pl_context (ChConsume e) = CONSUME_CONTEXT_V2"
| "pl_context (ChHandoff e) = HANDOFF_CONTEXT_V2"

fun pl_decoded :: "prims \<Rightarrow> bytes \<Rightarrow> chained_payload \<Rightarrow> bool" where
  "pl_decoded P bs (ChTransition e) = (json_transition P bs = Ok e)"
| "pl_decoded P bs (ChApproval e) = (json_approval P bs = Ok e)"
| "pl_decoded P bs (ChConsume e) = (json_consume P bs = Ok e)"
| "pl_decoded P bs (ChHandoff e) = (json_handoff P bs = Ok e)"

text \<open>
  The specification of an admitted record: the envelope is signed, under the context of its record
  type, by the key of the author's card; that key derives to the owner of the store; the payload
  names that owner as its actor, this list and this genesis; the record's key is the content
  address of the payload; and the owner is a member of the roster of the epoch the payload names.
\<close>

definition signed_by :: "prims \<Rightarrow> bytes \<Rightarrow> string \<Rightarrow> bytes \<Rightarrow> string \<Rightarrow> bytes \<Rightarrow> bool" where
  "signed_by P record_bytes ctx acard signer payload \<longleftrightarrow>
     derive_agent_id_hex P acard = signer \<and> payload \<noteq> [] \<and>
     (\<exists>env sig. json_envelope P record_bytes = Ok env \<and> ee_context env = ctx \<and> ee_signer_agent_id env = signer \<and>
        b64_decode P (ee_payload_b64 env) = Ok payload \<and> b64_decode P (ee_public_key_b64 env) = Ok acard \<and>
        b64_decode P (ee_signature_b64 env) = Ok sig \<and> verify_external_signature P ctx payload sig acard = Ok ())"

definition bound_record ::
  "prims \<Rightarrow> string \<Rightarrow> bytes \<Rightarrow> string \<Rightarrow> string \<Rightarrow> string btree_set list \<Rightarrow> store_record \<Rightarrow> admitted \<Rightarrow> bool" where
  "bound_record P owner acard l g rosters rec adm \<longleftrightarrow>
     (\<exists>payload. signed_by P (sr_value rec) (pl_context (ad_payload adm)) acard owner payload \<and>
        pl_decoded P payload (ad_payload adm) \<and> ad_event_hash adm = sha256_hex P payload) \<and>
     ad_author adm = owner \<and> pl_actor (ad_payload adm) = owner \<and>
     pl_list_uuid (ad_payload adm) = l \<and> pl_genesis (ad_payload adm) = g \<and>
     ad_key adm = sr_key rec \<and> ad_key adm = pl_key (ad_payload adm) (ad_event_hash adm) \<and>
     pl_chain (ad_payload adm) = (ad_lamport adm, ad_author_seq adm, ad_prev_own_event_hash adm) \<and>
     (\<exists>roster. nth_opt rosters (unat (pl_roster_epoch (ad_payload adm))) = Some roster \<and> owner \<in> set roster)"

lemma signed_byI:
  assumes "decode_envelope P bs = Ok env" and "verify_envelope P env ctx = Ok (payload, h)"
    and "check_envelope_key P env owner acard = Ok u"
  shows "signed_by P bs ctx acard owner payload \<and> h = sha256_hex P payload"
  using decode_envelope_OkD [OF assms(1)] verify_envelope_OkD [OF assms(2)] check_envelope_key_OkD [OF assms(3)]
  by (auto simp: signed_by_def)

lemma admit_transition_bound:
  assumes "admit_transition P rec owner acard l g rosters = Ok adm"
  shows "bound_record P owner acard l g rosters rec adm"
  using assms
  by (auto simp: admit_transition_def decode_transition_def bound_record_def
      dest!: signed_byI check_chained_common_OkD)

lemma admit_approval_bound:
  assumes "admit_approval P rec owner acard l g rosters = Ok adm"
  shows "bound_record P owner acard l g rosters rec adm"
  using assms
  by (auto simp: admit_approval_def decode_approval_def bound_record_def split: if_splits
      dest!: signed_byI check_chained_common_OkD)

lemma admit_consume_bound:
  assumes "admit_consume P rec owner acard l g rosters = Ok adm"
  shows "bound_record P owner acard l g rosters rec adm"
  using assms
  by (auto simp: admit_consume_def decode_consume_def bound_record_def split: if_splits
      dest!: signed_byI check_chained_common_OkD)

lemma admit_handoff_bound:
  assumes "admit_handoff P rec owner acard l g rosters = Ok adm"
  shows "bound_record P owner acard l g rosters rec adm"
  using assms
  by (auto simp: admit_handoff_def decode_handoff_def bound_record_def split: if_splits
      dest!: signed_byI check_chained_common_OkD)

lemma admit_event_bound:
  "admit_event P rec owner acard l g rosters = Ok adm \<Longrightarrow> bound_record P owner acard l g rosters rec adm"
  by (auto simp: admit_event_def split: if_splits
      intro: admit_transition_bound admit_approval_bound admit_consume_bound admit_handoff_bound)

end
