(* ===== verification/Fold_Roster.thy ===== *)
theory Fold_Roster
  imports Fold_Admission
begin

text \<open>
  Correctness of the roster chain (\<open>build_roster_chain\<close> of \<^verbatim>\<open>v2/fold.rs\<close>): the walk over the epochs ends
  within the fuel the model gives it; the rosters it accepts form a hash chain of creator-signed
  records anchored at the genesis hash, each the only candidate that extends its predecessor; and the
  union of all accepted rosters stays within the member budget.
\<close>

section \<open>Enough fuel\<close>

text \<open>The roster walk visits ascending epochs, so it makes at most one round per key.\<close>

definition epochs_ahead :: "(u64, 'a) btree_map \<Rightarrow> u64 \<Rightarrow> u64 set" where
  "epochs_ahead m e = {k \<in> fst ` set m. e \<le> k \<and> e \<noteq> 0}"

lemma epochs_ahead_step:
  assumes "bt_get m e = Some x" and "e \<noteq> 0" and "card (epochs_ahead m e) \<le> Suc n"
  shows "card (epochs_ahead m (e + 1)) \<le> n"
proof -
  have "e \<le> k \<and> k \<noteq> e" if "e + 1 \<le> k" "e + 1 \<noteq> 0" for k
    using that unatSuc [of e] by (auto simp: word_le_nat_alt add.commute)
  then have "epochs_ahead m (e + 1) \<subseteq> epochs_ahead m e - {e}"
    using assms(2) by (auto simp: epochs_ahead_def)
  moreover have "e \<in> epochs_ahead m e" and "finite (epochs_ahead m e)"
    using assms(1,2) bt_get_keys [of m e] by (auto simp: epochs_ahead_def)
  ultimately have "card (epochs_ahead m (e + 1)) < card (epochs_ahead m e)"
    by (intro psubset_card_mono) auto
  with assms(3) show ?thesis by simp
qed

lemma walk_rosters_fuel:
  assumes "bt_get m 0 = None" and "card (epochs_ahead m e) \<le> n"
  shows "walk_rosters (n + d) creator mx m cum prev e rs rej forks = walk_rosters n creator mx m cum prev e rs rej forks"
  using assms
proof (induction n arbitrary: cum prev e rs rej forks)
  case 0
  then have "epochs_ahead m e = {}" by (simp add: epochs_ahead_def)
  then have "bt_get m e = None" using 0(1) bt_get_keys [of m e] by (auto simp: epochs_ahead_def)
  then show ?case by (cases d) simp_all
next
  case (Suc n)
  show ?case
  proof (cases "bt_get m e")
    case (Some cs)
    with Suc.prems have "e \<noteq> 0" by auto
    note IH = Suc.IH [OF Suc.prems(1) epochs_ahead_step [OF Some this Suc.prems(2)]]
    show ?thesis by (simp add: Some IH Let_def split: list.split)
  qed simp
qed

lemma card_epochs_ahead: "bt_wf m \<Longrightarrow> card (epochs_ahead m e) \<le> length m"
  by (rule order_trans [OF card_mono [of "fst ` set m"]])
    (auto simp: epochs_ahead_def intro: order_trans [OF card_image_le card_length])

section \<open>What the walk accepts\<close>

text \<open>A chain of rosters: each is the only one that names its predecessor's hash at its epoch.\<close>

fun roster_links ::
  "(u64, roster_candidate list) btree_map \<Rightarrow> string \<Rightarrow> u64 \<Rightarrow> string btree_set list \<Rightarrow> bool" where
  "roster_links m prev e [] \<longleftrightarrow> True"
| "roster_links m prev e (r # rs) \<longleftrightarrow> (\<exists>c \<in> set (bt_get_list m e).
     re_prev_roster_hash (fst (snd c)) = prev \<and> r = bset_of_list (re_roster (fst (snd c))) \<and>
     (\<forall>c' \<in> set (bt_get_list m e). re_prev_roster_hash (fst (snd c')) = prev \<longrightarrow> snd (snd c') = snd (snd c)) \<and>
     roster_links m (snd (snd c)) (e + 1) rs)"

lemma linked_candidates_single:
  assumes "linked_candidates prev cs = [c]"
  shows "c \<in> set cs" and "re_prev_roster_hash (fst (snd c)) = prev"
    and "\<forall>c' \<in> set cs. re_prev_roster_hash (fst (snd c')) = prev \<longrightarrow> snd (snd c') = snd (snd c)"
proof -
  let ?h = "\<lambda>c :: roster_candidate. snd (snd c)"
  let ?l = "sort_key ?h (filter (\<lambda>c. re_prev_roster_hash (fst (snd c)) = prev) cs)"
  have eq: "dedup_key ?h ?l = [c]" using assms by (simp add: linked_candidates_def)
  with set_dedup_key_subset [of ?h ?l] show "c \<in> set cs" and "re_prev_roster_hash (fst (snd c)) = prev" by auto
  have "?h ` set ?l = {?h c}" using image_dedup_key [of ?h ?l] eq by simp
  then show "\<forall>c' \<in> set cs. re_prev_roster_hash (fst (snd c')) = prev \<longrightarrow> ?h c' = ?h c" by auto
qed

lemma walk_rosters_sound:
  assumes "walk_rosters n creator mx m cum prev e rosters rej forks = Ok (e', rosters', rej', forks')"
    and "bset_wf cum" and "length cum \<le> unat mx"
  shows "\<exists>rs. rosters' = rosters @ rs \<and> e' = e + of_nat (length rs) \<and> roster_links m prev e rs \<and>
           card (set cum \<union> \<Union> (set ` set rs)) \<le> unat mx"
  using assms
proof (induction n arbitrary: cum prev e rosters rej forks)
  case 0
  then show ?case by (intro exI [of _ "[]"]) (auto simp: length_bset)
next
  case (Suc n)
  have stop: "\<exists>rs. rosters' = rosters @ rs \<and> e' = e + of_nat (length rs) \<and> roster_links m prev e rs \<and>
           card (set cum \<union> \<Union> (set ` set rs)) \<le> unat mx" if "rosters' = rosters" "e' = e"
    using that Suc.prems by (intro exI [of _ "[]"]) (auto simp: length_bset)
  show ?case
  proof (cases "bt_get m e")
    case None
    with Suc.prems stop show ?thesis by simp
  next
    case (Some cs)
    then have cs: "bt_get_list m e = cs" by (simp add: bt_get_list_def)
    consider "\<nexists>c. linked_candidates prev cs = [c]" | c where "linked_candidates prev cs = [c]" by blast
    then show ?thesis
    proof cases
      case 1
      with Suc.prems(1) Some have "rosters' = rosters" "e' = e"
        by (auto simp: Let_def split: list.splits)
      then show ?thesis by (rule stop)
    next
      case 2
      let ?cum = "bset_extend cum (re_roster (fst (snd c)))"
      from 2 Suc.prems(1) Some have le: "length ?cum \<le> unat mx"
        and rec: "walk_rosters n creator mx m ?cum (snd (snd c)) (e + 1)
           (rosters @ [bset_of_list (re_roster (fst (snd c)))]) (rej @ unlinked_rejections creator prev cs) forks =
           Ok (e', rosters', rej', forks')"
        by (auto simp: Let_def split: if_splits)
      from Suc.IH [OF rec _ le] Suc.prems(2) obtain rs where
        rs: "rosters' = (rosters @ [bset_of_list (re_roster (fst (snd c)))]) @ rs" "e' = e + 1 + of_nat (length rs)"
          "roster_links m (snd (snd c)) (e + 1) rs" "card (set ?cum \<union> \<Union> (set ` set rs)) \<le> unat mx"
        by auto
      let ?rs = "bset_of_list (re_roster (fst (snd c))) # rs"
      have "roster_links m prev e ?rs"
        unfolding roster_links.simps cs using linked_candidates_single [OF 2] rs(3) by blast
      moreover have "e' = e + of_nat (length ?rs)" using rs(2) by simp
      moreover have "card (set cum \<union> \<Union> (set ` set ?rs)) \<le> unat mx" using rs(4) by (simp add: Un_assoc)
      ultimately show ?thesis using rs(1) by (intro exI [of _ ?rs]) simp
    qed
  qed
qed

section \<open>The chain over the creator's records\<close>

text \<open>What \<open>collect_rosters\<close> collected: the verified roster records, by epoch.\<close>

definition roster_record ::
  "prims \<Rightarrow> string \<Rightarrow> string \<Rightarrow> bytes \<Rightarrow> string \<Rightarrow> store_record set \<Rightarrow> u64 \<Rightarrow> roster_candidate \<Rightarrow> bool" where
  "roster_record P l creator acard g recs e c \<longleftrightarrow> (\<exists>rec \<in> recs. prefix ROSTER_KEY_PREFIX (sr_key rec) \<and>
     fst c = sr_key rec \<and> verify_roster_record P l creator acard g rec = Ok (fst (snd c), snd (snd c)) \<and>
     re_roster_epoch (fst (snd c)) = e)"

lemma verify_roster_record_OkD:
  assumes "verify_roster_record P l creator acard g rec = Ok (ev, h)"
  shows "re_roster_epoch ev \<noteq> 0" and "re_list_uuid ev = l" and "re_genesis_manifest_hash ev = g" and "re_actor ev = creator"
    and "\<exists>payload. signed_by P (sr_value rec) ROSTER_CONTEXT_V2 acard creator payload \<and>
           json_roster P payload = Ok ev \<and> h = sha256_hex P payload"
  using assms by (auto simp: verify_roster_record_def split: if_splits dest!: signed_byI)

lemma collect_rosters_Ok:
  assumes "collect_rosters P l creator acard g mx recs m rej = Ok (m', rej')"
    and "bt_wf m" and "bt_get m 0 = None"
  shows "bt_wf m' \<and> bt_get m' 0 = None \<and> (\<forall>e c. c \<in> set (bt_get_list m' e) \<longleftrightarrow>
           c \<in> set (bt_get_list m e) \<or> roster_record P l creator acard g (set recs) e c)"
  using assms
proof (induction recs arbitrary: m rej)
  case Nil
  then show ?case by (simp add: roster_record_def)
next
  case (Cons rec recs)
  show ?case
  proof (cases "prefix ROSTER_KEY_PREFIX (sr_key rec) \<and> is_ok (verify_roster_record P l creator acard g rec)")
    case False
    then have "roster_record P l creator acard g (set (rec # recs)) e c = roster_record P l creator acard g (set recs) e c" for e c
      by (auto simp: roster_record_def)
    with False Cons.prems show ?thesis
      using Cons.IH [of m] by (auto split: if_splits result.splits)
  next
    case True
    then obtain ev h where v: "verify_roster_record P l creator acard g rec = Ok (ev, h)"
      by (cases "verify_roster_record P l creator acard g rec") auto
    let ?c = "(sr_key rec, ev, h)"
    let ?m = "bt_push (re_roster_epoch ev) ?c m"
    have rr: "roster_record P l creator acard g (insert rec (set recs)) e c \<longleftrightarrow>
        (e = re_roster_epoch ev \<and> c = ?c) \<or> roster_record P l creator acard g (set recs) e c" for e c
      using True v by (cases c) (auto simp: roster_record_def)
    have "bt_get ?m 0 = None" using verify_roster_record_OkD(1) [OF v] Cons.prems(3) by (simp add: bt_push_def)
    with Cons.IH [of ?m rej] Cons.prems v True show ?thesis
      by (auto simp: rr bt_get_list_push split: if_splits)
  qed
qed

fun roster_chain ::
  "prims \<Rightarrow> string \<Rightarrow> string \<Rightarrow> bytes \<Rightarrow> string \<Rightarrow> store_record set \<Rightarrow> string \<Rightarrow> u64 \<Rightarrow> string btree_set list \<Rightarrow> bool" where
  "roster_chain P l creator acard g recs prev e [] \<longleftrightarrow> True"
| "roster_chain P l creator acard g recs prev e (r # rs) \<longleftrightarrow> (\<exists>key ev h.
     roster_record P l creator acard g recs e (key, ev, h) \<and> re_prev_roster_hash ev = prev \<and>
     r = bset_of_list (re_roster ev) \<and>
     (\<forall>key' ev' h'. roster_record P l creator acard g recs e (key', ev', h') \<and> re_prev_roster_hash ev' = prev \<longrightarrow> h' = h) \<and>
     roster_chain P l creator acard g recs h (e + 1) rs)"

lemma roster_links_chain:
  assumes "\<And>e c. c \<in> set (bt_get_list m e) \<longleftrightarrow> roster_record P l creator acard g recs e c"
  shows "roster_links m prev e rs \<Longrightarrow> roster_chain P l creator acard g recs prev e rs"
proof (induction rs arbitrary: prev e)
  case (Cons r rs)
  then obtain c where "c \<in> set (bt_get_list m e)" and prev: "re_prev_roster_hash (fst (snd c)) = prev"
    and r: "r = bset_of_list (re_roster (fst (snd c)))" and links: "roster_links m (snd (snd c)) (e + 1) rs"
    and only: "\<forall>c' \<in> set (bt_get_list m e). re_prev_roster_hash (fst (snd c')) = prev \<longrightarrow> snd (snd c') = snd (snd c)"
    unfolding roster_links.simps by blast
  moreover obtain key ev h where "c = (key, ev, h)" by (cases c)
  ultimately have "roster_record P l creator acard g recs e (key, ev, h)" "re_prev_roster_hash ev = prev"
    "r = bset_of_list (re_roster ev)" "roster_chain P l creator acard g recs h (e + 1) rs"
    and "\<forall>key' ev' h'. roster_record P l creator acard g recs e (key', ev', h') \<and>
           re_prev_roster_hash ev' = prev \<longrightarrow> h' = h"
    using Cons.IH by (auto simp flip: assms)
  then show ?case unfolding roster_chain.simps by blast
qed simp

lemma build_roster_chain_sound:
  assumes "build_roster_chain P s l creator acard g mx gr = Ok (rosters, rej, forks)"
    and "bset_wf gr" and "length gr \<le> unat mx"
  shows "\<exists>rs. rosters = gr # rs \<and> roster_chain P l creator acard g (set (as_records s)) g 1 rs \<and>
           card (\<Union> (set ` set rosters)) \<le> unat mx"
proof -
  from assms(1) obtain m rej0 e' rej1 where
    c: "collect_rosters P l creator acard g mx (as_records s) [] [] = Ok (m, rej0)"
    and w: "walk_rosters (length m) creator mx m gr g 1 [gr] rej0 [] = Ok (e', rosters, rej1, forks)"
    by (auto simp: build_roster_chain_def)
  have m: "c \<in> set (bt_get_list m e) \<longleftrightarrow> roster_record P l creator acard g (set (as_records s)) e c" for e c
    using collect_rosters_Ok [OF c] by (cases c) simp
  from walk_rosters_sound [OF w assms(2,3)] obtain rs where
    "rosters = [gr] @ rs" "roster_links m g 1 rs" "card (set gr \<union> \<Union> (set ` set rs)) \<le> unat mx" by blast
  with roster_links_chain [OF m] show ?thesis by auto
qed

text \<open>The fuel of \<open>build_roster_chain\<close> is enough: more of it changes nothing.\<close>

lemma collect_walk_fuel:
  assumes "collect_rosters P l creator acard g mx recs [] [] = Ok (m, rej)"
  shows "walk_rosters (length m + d) creator mx m cum prev 1 rs rej forks =
         walk_rosters (length m) creator mx m cum prev 1 rs rej forks"
  using collect_rosters_Ok [OF assms] by (intro walk_rosters_fuel card_epochs_ahead) auto

end
