(* ===== verification/Fold_Chain.thy ===== *)
theory Fold_Chain
  imports Fold_Roster
begin

text \<open>
  The end of phase 1 of the v2 fold (\<^verbatim>\<open>v2/fold.rs\<close>): the per-author hash chains (\<open>chain_author\<close>) and
  the lamport future-dating cap (\<open>apply_lamport_cap\<close>). As in \<open>Fold_Admission\<close>, what the code pushes
  onto its output vectors is returned.

  Lemmas: the records kept of an author are sequence numbers 1 to n, hash-linked to the genesis;
  the cap reaches a fixpoint, in which every survivor is within the skew of the survivors before it,
  and it only cuts tails off author chains.
\<close>

section \<open>Per-author hash chains\<close>

text \<open>One group of \<open>by_seq\<close>: sorted by event hash, duplicates of a hash dropped.\<close>

definition seq_group :: "admitted list \<Rightarrow> admitted list" where
  "seq_group cands = dedup_key ad_event_hash (sort_key ad_event_hash cands)"

definition reject_group :: "string \<Rightarrow> string \<Rightarrow> admitted list \<Rightarrow> rejection list" where
  "reject_group author why grp = map (\<lambda>c. admission_rejection author (ad_key c) why) grp"

text \<open>The loop over the groups; \<open>broken\<close> is the reason of the first gap, fork or link break.\<close>

fun walk_chain ::
  "string \<Rightarrow> u64 \<Rightarrow> string \<Rightarrow> string option \<Rightarrow> (u64, admitted list) btree_map \<Rightarrow>
   admitted list \<times> rejection list \<times> fork_evidence list" where
  "walk_chain author expected_seq prev_hash broken [] = ([], [], [])"
| "walk_chain author expected_seq prev_hash broken ((seq, grp) # groups) =
     (case broken of
        Some why \<Rightarrow>
          let (ch, rej, fk) = walk_chain author expected_seq prev_hash broken groups
          in (ch, reject_group author why grp @ rej, fk)
      | None \<Rightarrow>
          if seq \<noteq> expected_seq then
            let why = err_chain_gap expected_seq seq;
                (ch, rej, fk) = walk_chain author expected_seq prev_hash (Some why) groups
            in (ch, reject_group author why grp @ rej, fk)
          else if length grp > 1 then
            let why = err_chain_fork seq;
                (ch, rej, fk) = walk_chain author expected_seq prev_hash (Some why) groups
            in (ch, reject_group author why grp @ rej,
                \<lparr>fe_author = author, fe_author_seq = seq, fe_event_hashes = map ad_event_hash grp\<rparr> # fk)
          else if ad_prev_own_event_hash (hd grp) \<noteq> prev_hash then
            let why = err_chain_link_break seq;
                (ch, rej, fk) = walk_chain author expected_seq prev_hash (Some why) groups
            in (ch, admission_rejection author (ad_key (hd grp)) why # rej, fk)
          else
            let (ch, rej, fk) = walk_chain author (expected_seq + 1) (ad_event_hash (hd grp)) None groups
            in (hd grp # ch, rej, fk))"

definition chain_author ::
  "string \<Rightarrow> admitted list \<Rightarrow> string \<Rightarrow> admitted list \<times> rejection list \<times> fork_evidence list" where
  "chain_author author candidates genesis_hash =
     walk_chain author 1 genesis_hash None
       (map (\<lambda>(seq, grp). (seq, seq_group grp)) (bt_group ad_author_seq candidates))"

section \<open>The lamport cap\<close>

definition fold_order :: "admitted \<Rightarrow> u64 \<times> string \<times> string" where
  "fold_order a = (ad_lamport a, ad_author a, ad_event_hash a)"

text \<open>The marking pass: which survivors exceed the running maximum plus the skew, and from which
  sequence number on an author is truncated.\<close>

fun lamport_pass ::
  "u64 \<Rightarrow> (string, u64) btree_map \<Rightarrow> admitted list \<Rightarrow> bool list \<times> (string, u64) btree_map" where
  "lamport_pass running_max truncate_from [] = ([], truncate_from)"
| "lamport_pass running_max truncate_from (cand # cands) =
     (if ad_lamport cand > sat_add running_max LAMPORT_MAX_SKEW then
        let entry = (case bt_get truncate_from (ad_author cand) of None \<Rightarrow> ad_author_seq cand | Some e \<Rightarrow> e);
            (marks, tf) = lamport_pass running_max
              (bt_insert (ad_author cand) (min entry (ad_author_seq cand)) truncate_from) cands
        in (True # marks, tf)
      else
        let (marks, tf) = lamport_pass (max running_max (ad_lamport cand)) truncate_from cands
        in (False # marks, tf))"

definition truncated :: "(string, u64) btree_map \<Rightarrow> admitted \<Rightarrow> bool" where
  "truncated truncate_from cand =
     (case bt_get truncate_from (ad_author cand) of None \<Rightarrow> False | Some from_seq \<Rightarrow> ad_author_seq cand \<ge> from_seq)"

text \<open>The removing pass: the survivors of the next round and the rejections pushed.\<close>

fun lamport_remove ::
  "(string, u64) btree_map \<Rightarrow> (bool \<times> admitted) list \<Rightarrow> admitted list \<times> rejection list" where
  "lamport_remove truncate_from [] = ([], [])"
| "lamport_remove truncate_from ((marked, cand) # rest) =
     (let (keep, rej) = lamport_remove truncate_from rest in
      if marked then
        (keep, admission_rejection (ad_author cand) (ad_key cand) (err_lamport_exceeds (ad_lamport cand)) # rej)
      else if truncated truncate_from cand then
        (keep, admission_rejection (ad_author cand) (ad_key cand) err_lamport_truncated # rej)
      else (cand # keep, rej))"

lemma lamport_pass_length [simp]: "length (fst (lamport_pass r t cs)) = length cs"
  by (induction r t cs rule: lamport_pass.induct) (auto simp: Let_def split: prod.splits)

lemma lamport_remove_length: "length (fst (lamport_remove t mcs)) \<le> length mcs"
  by (induction t mcs rule: lamport_remove.induct) (auto simp: Let_def split: prod.splits)

lemma lamport_remove_marked:
  "True \<in> set (map fst mcs) \<Longrightarrow> length (fst (lamport_remove t mcs)) < length mcs"
proof (induction t mcs rule: lamport_remove.induct)
  case (2 t m c rest)
  then show ?case using lamport_remove_length [of t rest]
    by (cases m) (auto simp: Let_def split: prod.splits)
qed simp

lemma lamport_pass_marked:
  "snd (lamport_pass r t cs) \<noteq> t \<Longrightarrow> True \<in> set (fst (lamport_pass r t cs))"
  by (induction r t cs rule: lamport_pass.induct) (auto simp: Let_def split: prod.splits if_splits)

function lamport_fixpoint :: "admitted list \<Rightarrow> admitted list \<times> rejection list" where
  "lamport_fixpoint survivors =
     (let (marks, truncate_from) = lamport_pass 0 [] survivors in
      if truncate_from = [] then (survivors, [])
      else
        let (nxt, rej) = lamport_remove truncate_from (zip marks survivors);
            (final, rej') = lamport_fixpoint nxt
        in (final, rej @ rej'))"
  by pat_completeness auto

termination
proof (relation "measure length", simp)
  fix survivors :: "admitted list" and x marks tf y nxt rej
  assume p: "x = lamport_pass 0 [] survivors" "(marks, tf) = x" and ne: "tf \<noteq> []"
    and r: "y = lamport_remove tf (zip marks survivors)" "(nxt, rej) = y"
  have tf: "tf = snd (lamport_pass 0 [] survivors)" and marks: "marks = fst (lamport_pass 0 [] survivors)"
    using p by (metis fst_conv snd_conv)+
  have "True \<in> set marks" unfolding marks by (rule lamport_pass_marked) (use ne tf in auto)
  then have "length (fst (lamport_remove tf (zip marks survivors))) < length (zip marks survivors)"
    by (intro lamport_remove_marked) (simp add: marks)
  then show "(nxt, survivors) \<in> measure length" using r by (metis in_measure fst_conv length_zip marks lamport_pass_length min.idem)
qed

declare lamport_fixpoint.simps [simp del]

definition apply_lamport_cap :: "admitted list \<Rightarrow> admitted list \<times> rejection list" where
  "apply_lamport_cap candidates = lamport_fixpoint (sort_key fold_order candidates)"

section \<open>What a chained author keeps\<close>

fun hash_chain :: "string \<Rightarrow> u64 \<Rightarrow> admitted list \<Rightarrow> bool" where
  "hash_chain prev seq [] \<longleftrightarrow> True"
| "hash_chain prev seq (a # as) \<longleftrightarrow>
     ad_author_seq a = seq \<and> ad_prev_own_event_hash a = prev \<and> hash_chain (ad_event_hash a) (seq + 1) as"

text \<open>The shape of the groups the walk is given.\<close>

definition seq_groups :: "(u64, admitted list) btree_map \<Rightarrow> bool" where
  "seq_groups groups \<longleftrightarrow> bt_wf groups \<and>
     (\<forall>(seq, grp) \<in> set groups. grp \<noteq> [] \<and> distinct (map ad_event_hash grp) \<and> (\<forall>c \<in> set grp. ad_author_seq c = seq))"

lemma seq_groups_Cons:
  "seq_groups ((seq, grp) # groups) \<longleftrightarrow> seq_groups groups \<and> (\<forall>g \<in> set groups. seq < fst g) \<and>
     grp \<noteq> [] \<and> distinct (map ad_event_hash grp) \<and> (\<forall>c \<in> set grp. ad_author_seq c = seq)"
  by (auto simp: seq_groups_def bt_wf_Cons)

lemma seq_group_props:
  "seq_group cs = [] \<longleftrightarrow> cs = []" "distinct (map ad_event_hash (seq_group cs))" "set (seq_group cs) \<subseteq> set cs"
  "ad_event_hash ` set (seq_group cs) = ad_event_hash ` set cs"
  using set_dedup_key_subset [of ad_event_hash "sort_key ad_event_hash cs"]
    image_dedup_key [of ad_event_hash "sort_key ad_event_hash cs"]
  by (auto simp: seq_group_def distinct_dedup_key)

lemma seq_groups_bt_group:
  "seq_groups (map (\<lambda>(seq, grp). (seq, seq_group grp)) (bt_group ad_author_seq cands))"
proof -
  have "grp = filter (\<lambda>c. ad_author_seq c = seq) cands \<and> grp \<noteq> []"
    if "(seq, grp) \<in> set (bt_group ad_author_seq cands)" for seq grp
    using that bt.in_entries_iff [of "bt_group ad_author_seq cands"]
    by (auto simp: bt_get_group filter_empty_conv split: if_splits)
  then show ?thesis
    using seq_group_props bt_wf_map_values [of "bt_group ad_author_seq cands" "\<lambda>_. seq_group"]
    by (fastforce simp: seq_groups_def)
qed

lemma walk_chain_broken: "fst (walk_chain author s h (Some why) groups) = []"
  by (induction groups) (auto simp: Let_def split: prod.splits)

lemma walk_chain_Cons:
  "grp \<noteq> [] \<Longrightarrow> fst (walk_chain author seq prev None ((s, grp) # groups)) =
     (if s = seq \<and> length grp = 1 \<and> ad_prev_own_event_hash (hd grp) = prev
      then hd grp # fst (walk_chain author (seq + 1) (ad_event_hash (hd grp)) None groups) else [])"
  by (cases grp) (simp_all add: Let_def case_prod_unfold walk_chain_broken)

lemma hash_chain_seq_ge:
  "hash_chain prev seq as \<Longrightarrow> unat seq + length as \<le> 2 ^ 64 \<Longrightarrow> a \<in> set as \<Longrightarrow> seq \<le> ad_author_seq a"
proof (induction as arbitrary: prev seq)
  case (Cons b as)
  show ?case
  proof (cases "a \<in> set as")
    case True
    then have "as \<noteq> []" by auto
    then have "unat seq + 1 < 2 ^ 64" using Cons.prems(2) by (cases as) auto
    then have s: "unat (seq + 1) = Suc (unat seq)" by (simp add: unat_word_ariths)
    with Cons.prems True have "seq + 1 \<le> ad_author_seq a" by (intro Cons.IH) auto
    with s show ?thesis by (simp add: word_le_nat_alt)
  qed (use Cons.prems in auto)
qed simp

lemma walk_chain_sound:
  "seq_groups groups \<Longrightarrow> hash_chain prev seq (fst (walk_chain author seq prev None groups)) \<and>
     (\<forall>a \<in> set (fst (walk_chain author seq prev None groups)). (ad_author_seq a, [a]) \<in> set groups)"
proof (induction groups arbitrary: seq prev)
  case (Cons g groups)
  obtain s grp where g: "g = (s, grp)" by force
  from Cons.prems g have grp: "grp \<noteq> []" "\<forall>c \<in> set grp. ad_author_seq c = s" and gs: "seq_groups groups"
    by (auto simp: seq_groups_Cons)
  note IH = Cons.IH [OF gs, of "ad_event_hash (hd grp)" "seq + 1"]
  show ?case
  proof (cases "s = seq \<and> length grp = 1 \<and> ad_prev_own_event_hash (hd grp) = prev")
    case True
    then obtain a where "grp = [a]" by (cases grp) auto
    with True g grp IH show ?thesis by (auto simp: walk_chain_Cons simp del: walk_chain.simps)
  qed (use g grp in \<open>auto simp: walk_chain_Cons simp del: walk_chain.simps\<close>)
qed simp

text \<open>The chain ends at the first break only: whatever unforked chain the candidates contain is kept.\<close>

lemma walk_chain_complete:
  assumes "seq_groups groups" and "\<forall>g \<in> set groups. seq \<le> fst g"
    and "hash_chain prev seq bs" and "unat seq + length bs \<le> 2 ^ 64" and "\<forall>b \<in> set bs. (ad_author_seq b, [b]) \<in> set groups"
  shows "prefix bs (fst (walk_chain author seq prev None groups))"
  using assms
proof (induction groups arbitrary: seq prev bs)
  case (Cons g groups)
  obtain s grp where g: "g = (s, grp)" by force
  show ?case
  proof (cases bs)
    case (Cons b bs')
    with Cons.prems(3) have b: "ad_author_seq b = seq" "ad_prev_own_event_hash b = prev"
      and bs': "hash_chain (ad_event_hash b) (seq + 1) bs'" by auto
    have lt: "s < fst g'" if "g' \<in> set groups" for g'
      using Cons.prems(1) that by (auto simp: g seq_groups_Cons)
    have "(seq, [b]) \<in> set (g # groups)" using Cons.prems(5) b Cons by auto
    with Cons.prems(2) g lt have s: "s = seq" "grp = [b]" by force+
    have succ: "seq + 1 \<le> fst g'" if "g' \<in> set groups" for g'
      using lt [OF that] s(1) by (simp add: inc_le)
    have next_seq: "unat (seq + 1) = Suc (unat seq)" if "bs' \<noteq> []"
      using that Cons.prems(4) Cons by (cases bs') (auto simp: unat_word_ariths)
    have mem: "(ad_author_seq c, [c]) \<in> set groups" if "c \<in> set bs'" for c
    proof -
      have n: "unat (seq + 1) = Suc (unat seq)" using next_seq that by (cases bs') auto
      then have "seq + 1 \<le> ad_author_seq c"
        using hash_chain_seq_ge [OF bs' _ that] Cons.prems(4) Cons by simp
      with n have "ad_author_seq c \<noteq> seq" by (auto simp: word_le_nat_alt)
      with Cons.prems(5) that g s(1) Cons show ?thesis by auto
    qed
    have "prefix bs' (fst (walk_chain author (seq + 1) (ad_event_hash b) None groups))"
    proof (cases "bs' = []")
      case False
      with next_seq Cons.prems(4) Cons have "unat (seq + 1) + length bs' \<le> 2 ^ 64" by simp
      with Cons.IH [of "seq + 1" "ad_event_hash b" bs'] Cons.prems(1) succ bs' mem g show ?thesis
        by (auto simp: seq_groups_Cons)
    qed simp
    with b s g Cons show ?thesis by (simp add: walk_chain_Cons del: walk_chain.simps)
  qed simp
qed (cases bs; simp)

lemma chain_group_mem:
  "(seq, grp) \<in> set (map (\<lambda>(seq, grp). (seq, seq_group grp)) (bt_group ad_author_seq cands)) \<longleftrightarrow>
     seq \<in> ad_author_seq ` set cands \<and> grp = seq_group (filter (\<lambda>c. ad_author_seq c = seq) cands)"
  (is "_ \<in> set (map _ ?m) \<longleftrightarrow> _")
proof -
  have "(seq, grp) \<in> set (map (\<lambda>(seq, grp). (seq, seq_group grp)) ?m) \<longleftrightarrow> (\<exists>g. bt_get ?m seq = Some g \<and> grp = seq_group g)"
    using bt.in_entries_iff [of ?m] by force
  then show ?thesis by (auto simp: bt_get_group)
qed

text \<open>An event no other candidate of its author contests: the only hash at its sequence number.\<close>

definition uncontested :: "admitted list \<Rightarrow> admitted \<Rightarrow> bool" where
  "uncontested cands a \<longleftrightarrow> a \<in> set cands \<and> (\<forall>c \<in> set cands. ad_author_seq c = ad_author_seq a \<longrightarrow> ad_event_hash c = ad_event_hash a)"

lemma seq_group_single:
  assumes "seq_group cs = [a]" shows "a \<in> set cs" and "\<forall>c \<in> set cs. ad_event_hash c = ad_event_hash a"
  using seq_group_props(3,4) [of cs] assms by auto

lemma chain_author_chain:
  assumes "chain_author author cands g = (chained, rej, forks)"
  shows "hash_chain g 1 chained" and "\<forall>a \<in> set chained. uncontested cands a"
proof -
  let ?groups = "map (\<lambda>(seq, grp). (seq, seq_group grp)) (bt_group ad_author_seq cands)"
  have c: "chained = fst (walk_chain author 1 g None ?groups)"
    using assms by (simp add: chain_author_def)
  note ws = walk_chain_sound [OF seq_groups_bt_group [of cands], of g 1 author]
  show "hash_chain g 1 chained" unfolding c by (rule conjunct1 [OF ws])
  show "\<forall>a \<in> set chained. uncontested cands a"
  proof
    fix a assume "a \<in> set chained"
    then have "(ad_author_seq a, [a]) \<in> set ?groups" using conjunct2 [OF ws] unfolding c by blast
    then have "seq_group (filter (\<lambda>c. ad_author_seq c = ad_author_seq a) cands) = [a]"
      unfolding chain_group_mem by simp
    note s = seq_group_single [OF this]
    show "uncontested cands a" unfolding uncontested_def
    proof (intro conjI ballI impI)
      show "a \<in> set cands" using s(1) by simp
    next
      fix c assume "c \<in> set cands" "ad_author_seq c = ad_author_seq a"
      then show "ad_event_hash c = ad_event_hash a" using s(2) by simp
    qed
  qed
qed

lemma seq_group_all_eq: "cs \<noteq> [] \<Longrightarrow> \<forall>c \<in> set cs. c = a \<Longrightarrow> seq_group cs = [a]"
proof -
  assume "cs \<noteq> []" and "\<forall>c \<in> set cs. c = a"
  then have "seq_group cs \<noteq> []" "\<forall>c \<in> set (seq_group cs). c = a" "distinct (map ad_event_hash (seq_group cs))"
    using seq_group_props [of cs] by auto
  then show ?thesis by (cases "seq_group cs" rule: remdups_adj.cases) auto
qed

lemma chain_author_longest:
  assumes "chain_author author cands g = (chained, rej, forks)" and "\<forall>c \<in> set cands. ad_author_seq c \<noteq> 0"
    and "hash_chain g 1 bs" and "length bs < 2 ^ 64 - 1"
    and only: "\<forall>b \<in> set bs. b \<in> set cands \<and> (\<forall>c \<in> set cands. ad_author_seq c = ad_author_seq b \<longrightarrow> c = b)"
  shows "prefix bs chained"
proof -
  let ?groups = "map (\<lambda>(seq, grp). (seq, seq_group grp)) (bt_group ad_author_seq cands)"
  have c: "chained = fst (walk_chain author 1 g None ?groups)"
    using assms(1) by (simp add: chain_author_def)
  have "(ad_author_seq b, [b]) \<in> set ?groups" if "b \<in> set bs" for b
  proof -
    have "seq_group (filter (\<lambda>c. ad_author_seq c = ad_author_seq b) cands) = [b]"
      using only that by (intro seq_group_all_eq) (auto simp: filter_empty_conv)
    then show ?thesis unfolding chain_group_mem using only that by auto
  qed
  moreover have "1 \<le> fst p" if "p \<in> set ?groups" for p
  proof -
    from that have "fst p \<noteq> 0" using assms(2) chain_group_mem [of "fst p" "snd p" cands] by auto
    then show ?thesis by (simp add: word_le_nat_alt unat_gt_0 Suc_le_eq)
  qed
  ultimately show ?thesis
    unfolding c using assms(3,4) by (intro walk_chain_complete seq_groups_bt_group) auto
qed
section \<open>The lamport cap is the greatest admissible subset\<close>

text \<open>The records a marking pass marks, and what it means that it marks none.\<close>

fun overs :: "u64 \<Rightarrow> admitted list \<Rightarrow> admitted list" where
  "overs r [] = []"
| "overs r (c # cs) =
     (if ad_lamport c > sat_add r LAMPORT_MAX_SKEW then c # overs r cs else overs (max r (ad_lamport c)) cs)"

fun within_cap :: "u64 \<Rightarrow> admitted list \<Rightarrow> bool" where
  "within_cap r [] \<longleftrightarrow> True"
| "within_cap r (c # cs) \<longleftrightarrow> ad_lamport c \<le> sat_add r LAMPORT_MAX_SKEW \<and> within_cap (max r (ad_lamport c)) cs"

lemma overs_Nil_iff: "overs r cs = [] \<longleftrightarrow> within_cap r cs"
  by (induction r cs rule: overs.induct) auto

lemma set_overs: "set (overs r cs) \<subseteq> set cs"
  by (induction r cs rule: overs.induct) auto

lemma lamport_pass_marks: "map snd (filter fst (zip (fst (lamport_pass r t cs)) cs)) = overs r cs"
  by (induction r t cs rule: lamport_pass.induct) (auto simp: Let_def case_prod_unfold)

lemma lamport_pass_Nil_iff: "snd (lamport_pass r t cs) = [] \<longleftrightarrow> t = [] \<and> overs r cs = []"
proof (induction r t cs rule: lamport_pass.induct)
  case (2 r t c cs)
  have "bt_insert k v t \<noteq> []" for k v by (cases t) auto
  with 2 show ?case by (simp add: Let_def case_prod_unfold)
qed simp

lemma truncated_insert:
  "truncated (bt_insert (ad_author c) (min (case bt_get t (ad_author c) of None \<Rightarrow> ad_author_seq c | Some e \<Rightarrow> e)
      (ad_author_seq c)) t) d \<longleftrightarrow>
   truncated t d \<or> (ad_author c = ad_author d \<and> ad_author_seq c \<le> ad_author_seq d)"
  by (auto simp: truncated_def min_le_iff_disj split: option.splits)

lemma truncated_lamport_pass:
  "truncated (snd (lamport_pass r t cs)) d \<longleftrightarrow>
     truncated t d \<or> (\<exists>x \<in> set (overs r cs). ad_author x = ad_author d \<and> ad_author_seq x \<le> ad_author_seq d)"
  by (induction r t cs rule: lamport_pass.induct)
    (auto simp: Let_def case_prod_unfold truncated_insert)

lemma lamport_remove_fst:
  "fst (lamport_remove t mcs) = map snd (filter (\<lambda>(m, c). \<not> m \<and> \<not> truncated t c) mcs)"
  by (induction t mcs rule: lamport_remove.induct) (auto simp: Let_def case_prod_unfold)

text \<open>A marked record is truncated too, so a round keeps exactly the records that are not truncated.\<close>

lemma lamport_round:
  assumes "lamport_pass 0 [] cs = (marks, tf)"
  shows "fst (lamport_remove tf (zip marks cs)) = filter (\<lambda>c. \<not> truncated tf c) cs"
    and "truncated tf d \<longleftrightarrow> (\<exists>x \<in> set (overs 0 cs). ad_author x = ad_author d \<and> ad_author_seq x \<le> ad_author_seq d)"
proof -
  show tr: "truncated tf d \<longleftrightarrow> (\<exists>x \<in> set (overs 0 cs). ad_author x = ad_author d \<and> ad_author_seq x \<le> ad_author_seq d)" for d
    using truncated_lamport_pass [of 0 "[]" cs d] assms by (simp add: truncated_def)
  have len: "length marks = length cs" using lamport_pass_length [of 0 "[]" cs] assms by simp
  have "truncated tf c" if "(True, c) \<in> set (zip marks cs)" for c
  proof -
    have "c \<in> snd ` {p \<in> set (zip marks cs). fst p}" using that by force
    then have "c \<in> set (overs 0 cs)" using lamport_pass_marks [of 0 "[]" cs] assms
      by (metis (mono_tags) fst_conv set_filter set_map)
    then show ?thesis unfolding tr by blast
  qed
  then have "filter (\<lambda>(m, c). \<not> m \<and> \<not> truncated tf c) (zip marks cs) = filter (\<lambda>p. \<not> truncated tf (snd p)) (zip marks cs)"
    by (intro filter_cong) auto
  moreover have "filter (\<lambda>c. \<not> truncated tf c) (map snd (zip marks cs)) =
      map snd (filter (\<lambda>p. \<not> truncated tf (snd p)) (zip marks cs))"
    by (simp add: filter_map comp_def)
  ultimately show "fst (lamport_remove tf (zip marks cs)) = filter (\<lambda>c. \<not> truncated tf c) cs"
    using len by (simp add: lamport_remove_fst map_snd_zip)
qed

text \<open>
  A set of records is admissible when it is closed under the earlier records of an author and
  when, walked in fold order on its own, none of its records exceeds the running maximum plus the skew.
\<close>

definition cap_admissible :: "admitted list \<Rightarrow> admitted set \<Rightarrow> bool" where
  "cap_admissible cs S \<longleftrightarrow> S \<subseteq> set cs \<and>
     (\<forall>a \<in> S. \<forall>b \<in> set cs. ad_author b = ad_author a \<and> ad_author_seq b \<le> ad_author_seq a \<longrightarrow> b \<in> S) \<and>
     within_cap 0 (filter (\<lambda>c. c \<in> S) cs)"

lemma admissible_unmarked:
  "within_cap r' (filter (\<lambda>c. c \<in> S) cs) \<Longrightarrow> r' \<le> r \<Longrightarrow> set (overs r cs) \<inter> S = {}"
proof (induction r cs arbitrary: r' rule: overs.induct)
  case (2 r c cs)
  show ?case
  proof (cases "c \<in> S")
    case True
    with 2(3) have c: "ad_lamport c \<le> sat_add r' LAMPORT_MAX_SKEW"
      and cs: "within_cap (max r' (ad_lamport c)) (filter (\<lambda>c. c \<in> S) cs)" by auto
    have "\<not> sat_add r LAMPORT_MAX_SKEW < ad_lamport c"
      using order_trans [OF c sat_add_mono [OF 2(4)]] by simp
    then show ?thesis using 2(2) [OF _ cs] 2(4) by (simp add: max.coboundedI1)
  next
    case False
    with 2(3) have cs: "within_cap r' (filter (\<lambda>c. c \<in> S) cs)" by simp
    show ?thesis
    proof (cases "sat_add r LAMPORT_MAX_SKEW < ad_lamport c")
      case True
      with 2(1) [OF _ cs 2(4)] False show ?thesis by simp
    next
      case unmarked: False
      with 2(2) [OF _ cs] 2(4) show ?thesis by (simp add: max.coboundedI1)
    qed
  qed
qed simp

lemma cap_admissible_round:
  assumes p: "lamport_pass 0 [] cs = (marks, tf)" and S: "cap_admissible cs S"
  shows "S \<subseteq> {c \<in> set cs. \<not> truncated tf c}" and "cap_admissible (filter (\<lambda>c. \<not> truncated tf c) cs) S"
proof -
  have un: "set (overs 0 cs) \<inter> S = {}"
    using S by (intro admissible_unmarked [of 0]) (auto simp: cap_admissible_def)
  show sub: "S \<subseteq> {c \<in> set cs. \<not> truncated tf c}"
    using S un set_overs [of 0 cs] unfolding lamport_round(2) [OF p] cap_admissible_def by blast
  then have "filter (\<lambda>c. c \<in> S) (filter (\<lambda>c. \<not> truncated tf c) cs) = filter (\<lambda>c. c \<in> S) cs"
    by (auto intro: filter_cong)
  with S sub show "cap_admissible (filter (\<lambda>c. \<not> truncated tf c) cs) S"
    by (auto simp: cap_admissible_def)
qed

lemma lamport_fixpoint_greatest:
  "\<exists>S. fst (lamport_fixpoint cs) = filter (\<lambda>c. c \<in> S) cs \<and> cap_admissible cs S \<and> (\<forall>T. cap_admissible cs T \<longrightarrow> T \<subseteq> S)"
proof (induction cs rule: lamport_fixpoint.induct)
  case (1 cs)
  obtain marks tf where p: "lamport_pass 0 [] cs = (marks, tf)" by force
  show ?case
  proof (cases "tf = []")
    case True
    then have "within_cap 0 cs" using p lamport_pass_Nil_iff [of 0 "[]" cs] overs_Nil_iff by simp
    moreover have "filter (\<lambda>c. c \<in> set cs) cs = cs" by simp
    ultimately have "cap_admissible cs (set cs)" by (simp add: cap_admissible_def)
    with p True show ?thesis
      by (intro exI [of _ "set cs"]) (auto simp: lamport_fixpoint.simps [of cs] cap_admissible_def)
  next
    case False
    let ?cs = "filter (\<lambda>c. \<not> truncated tf c) cs"
    have fx: "fst (lamport_fixpoint cs) = fst (lamport_fixpoint ?cs)"
      using p False lamport_round(1) [OF p]
      by (simp add: lamport_fixpoint.simps [of cs] Let_def case_prod_unfold)
    obtain rej where "lamport_remove tf (zip marks cs) = (?cs, rej)" using lamport_round(1) [OF p] by (metis prod.collapse)
    from 1 [OF p [symmetric] refl False this [symmetric] refl] obtain S where
      S: "fst (lamport_fixpoint ?cs) = filter (\<lambda>c. c \<in> S) ?cs" "cap_admissible ?cs S"
        "\<forall>T. cap_admissible ?cs T \<longrightarrow> T \<subseteq> S" by blast
    have fl: "filter (\<lambda>c. c \<in> S) ?cs = filter (\<lambda>c. c \<in> S) cs"
      using S(2) by (auto simp: cap_admissible_def intro: filter_cong)
    have "truncated tf a" if "truncated tf b" "ad_author b = ad_author a" "ad_author_seq b \<le> ad_author_seq a" for a b
      using that unfolding lamport_round(2) [OF p] by force
    with S(2) fl have "cap_admissible cs S" by (fastforce simp: cap_admissible_def)
    moreover have "T \<subseteq> S" if "cap_admissible cs T" for T
      using S(3) cap_admissible_round(2) [OF p that] by blast
    ultimately show ?thesis using fx S(1) fl by auto
  qed
qed

lemma within_cap_bound:
  "within_cap r cs \<Longrightarrow> c \<in> set cs \<Longrightarrow> unat (ad_lamport c) \<le> unat r + 64 * length cs"
proof (induction r cs rule: within_cap.induct)
  case (2 r d cs)
  have d: "unat (ad_lamport d) \<le> unat r + 64"
    using 2(2) by (auto simp: word_le_nat_alt unat_sat_add LAMPORT_MAX_SKEW_def)
  show ?case
  proof (cases "c = d")
    case False
    with 2 have "unat (ad_lamport c) \<le> unat (max r (ad_lamport d)) + 64 * length cs" by auto
    also have "unat (max r (ad_lamport d)) \<le> unat r + 64" using d by (auto simp: max_def)
    finally show ?thesis by simp
  qed (use d in simp)
qed simp
section \<open>Hash chains\<close>

lemma hash_chain_take: "hash_chain p s as \<Longrightarrow> hash_chain p s (take k as)"
  by (induction as arbitrary: p s k) (auto simp: take_Cons split: nat.splits)

lemma hash_chain_snoc:
  "hash_chain p s (as @ [b]) \<longleftrightarrow> hash_chain p s as \<and> ad_author_seq b = s + of_nat (length as) \<and>
     ad_prev_own_event_hash b = (if as = [] then p else ad_event_hash (last as))"
  by (induction as arbitrary: p s) (auto simp: algebra_simps)

lemma hash_chain_sorted:
  "hash_chain p s as \<Longrightarrow> unat s + length as \<le> 2 ^ 64 \<Longrightarrow> sorted_wrt (<) (map ad_author_seq as)"
proof (induction as arbitrary: p s)
  case (Cons b as)
  show ?case
  proof (cases "as = []")
    case False
    then have "unat s + 1 < 2 ^ 64" using Cons.prems(2) by (cases as) auto
    then have s: "unat (s + 1) = Suc (unat s)" by (simp add: unat_word_ariths)
    have "s < ad_author_seq a" if "a \<in> set as" for a
      using hash_chain_seq_ge [of "ad_event_hash b" "s + 1" as a] Cons.prems that s
      by (simp add: word_le_nat_alt word_less_nat_alt)
    moreover have "sorted_wrt (<) (map ad_author_seq as)" using Cons s by (intro Cons.IH) auto
    ultimately show ?thesis using Cons.prems(1) by auto
  qed simp
qed simp

lemma length_walk_chain: "length (fst (walk_chain author s p br groups)) \<le> length groups"
  by (induction author s p br groups rule: walk_chain.induct)
    (auto simp: Let_def case_prod_unfold split: option.splits)

lemma length_chain_author: "length (fst (chain_author author cs g)) \<le> length cs"
  unfolding chain_author_def using length_walk_chain length_bt_group by (metis (no_types, lifting) length_map order_trans)

end
