(* ===== verification/Fold_State.thy ===== *)
theory Fold_State
  imports Fold_Chain
begin

text \<open>
  Phase 2 of the v2 fold (\<^verbatim>\<open>v2/fold.rs\<close>): the deterministic issue state machine. An issue is opened,
  claimed, released, blocked, completed or requeued; consumes and handoffs are effective only under
  the winning claim. Mutation through \<^verbatim>\<open>issue_mut\<close> is a functional update of the issue map; an
  error leaves the map as it was.

  The lemmas are invariants of the walk: they are proved per step and lifted to whole runs by the
  interpretations of \<open>loop_invariant\<close>.
\<close>

section \<open>Transitions\<close>

definition check_claim_fence :: "issue_state_v2 \<Rightarrow> string \<Rightarrow> string \<Rightarrow> string \<Rightarrow> (unit, string) result" where
  "check_claim_fence issue actor claim_nonce claimed_event_hash =
     (case is_status issue of
        StClaimed claimant current_nonce claim_event_hash \<Rightarrow>
          if claimant \<noteq> actor then Err (err_not_claimant actor claimant)
          else if current_nonce \<noteq> claim_nonce then Err err_nonce_mismatch
          else if claim_event_hash \<noteq> claimed_event_hash then Err err_claim_hash_mismatch
          else Ok ()
      | _ \<Rightarrow> Err err_not_claimed)"

type_synonym issues = "(string, issue_state_v2) btree_map"

definition issue_mut :: "issues \<Rightarrow> string \<Rightarrow> (issue_state_v2, string) result" where
  "issue_mut issues issue_id = ok_or (bt_get issues issue_id) err_issue_missing"

text \<open>Setting the status and pushing the event hash on \<open>applied\<close>, as every arm does.\<close>

definition move_issue :: "issue_status_v2 \<Rightarrow> string \<Rightarrow> issue_state_v2 \<Rightarrow> issue_state_v2" where
  "move_issue st event_hash issue = issue\<lparr>is_status := st, is_applied := is_applied issue @ [event_hash]\<rparr>"

definition apply_requeue ::
  "issue_state_v2 \<Rightarrow> requeue_justification \<Rightarrow> string \<Rightarrow> (issue_state_v2, string) result" where
  "apply_requeue issue justification event_hash =
     (case is_status issue of
        StBlocked claimant claim_nonce claim_event_hash block_event_hash reason \<Rightarrow>
          if reason \<noteq> AwaitingApproval then Err err_requeue_not_awaiting
          else if rq_block_event_hash justification \<noteq> block_event_hash then Err err_requeue_other_block
          else if rq_claim_nonce justification \<noteq> claim_nonce then Err err_requeue_other_nonce
          else Ok (move_issue StOpen event_hash issue)
      | _ \<Rightarrow> Err err_requeue_not_blocked)"

definition apply_transition :: "issues \<Rightarrow> admitted \<Rightarrow> transition_event_v2 \<Rightarrow> (issues, string) result" where
  "apply_transition issues adm event =
     (case te_kind event of
        TkOpen title spec _ _ \<Rightarrow>
          if bt_contains_key issues (te_issue_id event) then Err err_issue_exists
          else Ok (bt_insert (te_issue_id event)
            \<lparr>is_issue_id = te_issue_id event, is_title = title, is_spec = spec, is_opened_by = te_actor event,
             is_open_event_hash = ad_event_hash adm, is_status = StOpen, is_applied = [ad_event_hash adm]\<rparr> issues)
      | TkClaim claim_nonce \<Rightarrow>
          and_then (issue_mut issues (te_issue_id event)) (\<lambda>issue.
          case is_status issue of
            StOpen \<Rightarrow> Ok (bt_insert (te_issue_id event)
              (move_issue (StClaimed (te_actor event) claim_nonce (ad_event_hash adm)) (ad_event_hash adm) issue) issues)
          | _ \<Rightarrow> Err err_not_claimable)
      | TkRelease claim_nonce claimed_event_hash \<Rightarrow>
          and_then (issue_mut issues (te_issue_id event)) (\<lambda>issue.
          and_then (check_claim_fence issue (te_actor event) claim_nonce claimed_event_hash) (\<lambda>_.
          Ok (bt_insert (te_issue_id event) (move_issue StOpen (ad_event_hash adm) issue) issues)))
      | TkBlock claim_nonce claimed_event_hash reason \<Rightarrow>
          and_then (issue_mut issues (te_issue_id event)) (\<lambda>issue.
          and_then (check_claim_fence issue (te_actor event) claim_nonce claimed_event_hash) (\<lambda>_.
          Ok (bt_insert (te_issue_id event)
            (move_issue (StBlocked (te_actor event) claim_nonce claimed_event_hash (ad_event_hash adm) reason)
              (ad_event_hash adm) issue) issues)))
      | TkComplete claim_nonce claimed_event_hash \<Rightarrow>
          and_then (issue_mut issues (te_issue_id event)) (\<lambda>issue.
          and_then (check_claim_fence issue (te_actor event) claim_nonce claimed_event_hash) (\<lambda>_.
          Ok (bt_insert (te_issue_id event)
            (move_issue (StDone (te_actor event) (ad_event_hash adm)) (ad_event_hash adm) issue) issues)))
      | TkRequeue justification \<Rightarrow>
          and_then (issue_mut issues (te_issue_id event)) (\<lambda>issue.
          and_then (apply_requeue issue justification (ad_event_hash adm)) (\<lambda>issue.
          Ok (bt_insert (te_issue_id event) issue issues))))"

section \<open>Consumes and handoffs\<close>

definition consume_effectiveness ::
  "issues \<Rightarrow> (string, admitted_approval_v2) btree_map \<Rightarrow> (string, effective_consume_v2) btree_map \<Rightarrow>
   consume_event_v2 \<Rightarrow> (unit, string) result" where
  "consume_effectiveness issues approvals effective_consumes consume =
     (case bt_get approvals (ce_approval_event_hash consume) of
        None \<Rightarrow> Err err_consume_unknown_approval
      | Some adm \<Rightarrow>
          let approval = aa_approval adm in
          if ae_issue_id approval \<noteq> ce_issue_id consume then Err err_consume_issue
          else if ae_actor approval \<noteq> ce_approver consume then Err err_consume_approver
          else if ae_verdict approval \<noteq> Approve then Err err_consume_denial
          else (case bt_get issues (ce_issue_id consume) of
            None \<Rightarrow> Err err_consume_issue_missing
          | Some issue \<Rightarrow>
              if ae_open_event_hash approval \<noteq> is_open_event_hash issue then Err err_consume_content
              else (case is_status issue of
                StClaimed claimant claim_nonce claim_event_hash \<Rightarrow>
                  if claimant \<noteq> ce_actor consume \<or> claim_nonce \<noteq> ce_claim_nonce consume \<or>
                     claim_event_hash \<noteq> ce_claimed_event_hash consume
                  then Err err_consume_not_fenced
                  else if bt_contains_key effective_consumes (ce_approval_event_hash consume)
                  then Err err_consume_already
                  else Ok ()
              | _ \<Rightarrow> Err err_consume_not_claimed)))"

definition handoff_fence :: "issues \<Rightarrow> handoff_event_v2 \<Rightarrow> (unit, string) result" where
  "handoff_fence issues handoff =
     (case bt_get issues (he_issue_id handoff) of
        None \<Rightarrow> Err err_handoff_issue_missing
      | Some issue \<Rightarrow>
          check_claim_fence issue (he_actor handoff) (he_claim_nonce handoff) (he_claimed_event_hash handoff))"

section \<open>The ordered walk\<close>

record phase2 =
  p2_issues :: issues
  p2_consumes :: "(string, effective_consume_v2) btree_map"
  p2_losing :: "consume_diagnostic list"
  p2_handoffs :: "(string, handoff_record_v2 list) btree_map"
  p2_rejections :: "rejection list"

definition state_rejection :: "admitted \<Rightarrow> string \<Rightarrow> rejection" where
  "state_rejection adm why =
     \<lparr>rj_author = ad_author adm, rj_key = ad_key adm, rj_phase = StateMachine, rj_reason = why\<rparr>"

definition collect_approvals :: "admitted list \<Rightarrow> (string, admitted_approval_v2) btree_map" where
  "collect_approvals ordered = foldl (\<lambda>approvals adm.
     case ad_payload adm of
       ChApproval approval \<Rightarrow>
         bt_insert (ad_event_hash adm) \<lparr>aa_event_hash = ad_event_hash adm, aa_approval = approval\<rparr> approvals
     | _ \<Rightarrow> approvals) [] ordered"

definition phase2_step :: "(string, admitted_approval_v2) btree_map \<Rightarrow> phase2 \<Rightarrow> admitted \<Rightarrow> phase2" where
  "phase2_step approvals st adm =
     (case ad_payload adm of
        ChTransition event \<Rightarrow>
          (case apply_transition (p2_issues st) adm event of
             Ok issues \<Rightarrow> st\<lparr>p2_issues := issues\<rparr>
           | Err why \<Rightarrow> st\<lparr>p2_rejections := p2_rejections st @ [state_rejection adm why]\<rparr>)
      | ChApproval _ \<Rightarrow> st
      | ChConsume consume \<Rightarrow>
          (case consume_effectiveness (p2_issues st) approvals (p2_consumes st) consume of
             Ok _ \<Rightarrow> st\<lparr>p2_consumes := bt_insert (ce_approval_event_hash consume)
               \<lparr>ec_event_hash = ad_event_hash adm, ec_consume = consume\<rparr> (p2_consumes st)\<rparr>
           | Err why \<Rightarrow> st\<lparr>p2_losing := p2_losing st @ [
               \<lparr>cd_author = ad_author adm, cd_key = ad_key adm, cd_event_hash = ad_event_hash adm,
                cd_approval_event_hash = ce_approval_event_hash consume, cd_reason = why\<rparr>]\<rparr>)
      | ChHandoff handoff \<Rightarrow>
          (case handoff_fence (p2_issues st) handoff of
             Ok _ \<Rightarrow> st\<lparr>p2_handoffs := bt_push (he_issue_id handoff)
               \<lparr>hr_event_hash = ad_event_hash adm, hr_handoff = handoff\<rparr> (p2_handoffs st)\<rparr>
           | Err why \<Rightarrow> st\<lparr>p2_rejections := p2_rejections st @ [state_rejection adm why]\<rparr>))"

definition phase2_init :: "rejection list \<Rightarrow> phase2" where
  "phase2_init rejections =
     \<lparr>p2_issues = [], p2_consumes = [], p2_losing = [], p2_handoffs = [], p2_rejections = rejections\<rparr>"

definition phase2_run :: "rejection list \<Rightarrow> admitted list \<Rightarrow> phase2" where
  "phase2_run rejections ordered = foldl (phase2_step (collect_approvals ordered)) (phase2_init rejections) ordered"

section \<open>The abstract issue machine\<close>

text \<open>The moves of one issue: actor, kind and hash of the event, status before and after.\<close>

inductive issue_step :: "string \<Rightarrow> transition_kind \<Rightarrow> string \<Rightarrow> issue_status_v2 \<Rightarrow> issue_status_v2 \<Rightarrow> bool" where
  claim: "issue_step a (TkClaim n) h StOpen (StClaimed a n h)"
| release: "issue_step a (TkRelease n c) h (StClaimed a n c) StOpen"
| block: "issue_step a (TkBlock n c r) h (StClaimed a n c) (StBlocked a n c h r)"
| complete: "issue_step a (TkComplete n c) h (StClaimed a n c) (StDone a h)"
| requeue: "rq_block_event_hash j = b \<Longrightarrow> rq_claim_nonce j = n \<Longrightarrow>
    issue_step a (TkRequeue j) h (StBlocked c n k b AwaitingApproval) StOpen"

inductive_cases issue_step_doneE [elim!]: "issue_step a k h (StDone c d) s"
inductive_cases issue_step_claimedE: "issue_step a k h (StClaimed c n d) s"
inductive_cases issue_step_openE: "issue_step a k h StOpen s"
inductive_simps issue_step_simps:
  "issue_step a (TkOpen t u v w) h s s'" "issue_step a (TkClaim n) h s s'" "issue_step a (TkRelease n c) h s s'"
  "issue_step a (TkBlock n c r) h s s'" "issue_step a (TkComplete n c) h s s'" "issue_step a (TkRequeue j) h s s'"

lemma check_claim_fence_Ok_iff:
  "check_claim_fence issue a n c = Ok u \<longleftrightarrow> is_status issue = StClaimed a n c"
  by (auto simp: check_claim_fence_def split: issue_status_v2.splits)

lemma apply_requeue_Ok_iff:
  "apply_requeue issue j h = Ok issue' \<longleftrightarrow>
     (\<exists>s. issue_step a (TkRequeue j) h (is_status issue) s \<and> issue' = move_issue s h issue)"
  by (auto simp: apply_requeue_def issue_step_simps split: issue_status_v2.splits)

lemma claim_arm_Ok_iff:
  "(case s of StOpen \<Rightarrow> Ok y | StClaimed _ _ _ \<Rightarrow> Err z | StBlocked _ _ _ _ _ \<Rightarrow> Err z | StDone _ _ \<Rightarrow> Err z) = Ok w \<longleftrightarrow>
     s = StOpen \<and> y = w"
  by (cases s) auto

definition opened_issue :: "admitted \<Rightarrow> transition_event_v2 \<Rightarrow> string \<Rightarrow> string \<Rightarrow> issue_state_v2" where
  "opened_issue adm e title spec =
     \<lparr>is_issue_id = te_issue_id e, is_title = title, is_spec = spec, is_opened_by = te_actor e,
      is_open_event_hash = ad_event_hash adm, is_status = StOpen, is_applied = [ad_event_hash adm]\<rparr>"

text \<open>Refinement: the code applies a transition exactly when it opens an unknown issue or when the
  abstract machine of its issue has the move, and it changes nothing else.\<close>

lemma apply_transition_Ok_iff:
  "apply_transition issues adm e = Ok issues' \<longleftrightarrow>
     (\<exists>t u v w. te_kind e = TkOpen t u v w \<and> bt_get issues (te_issue_id e) = None \<and>
        issues' = bt_insert (te_issue_id e) (opened_issue adm e t u) issues) \<or>
     (\<exists>issue s. bt_get issues (te_issue_id e) = Some issue \<and>
        issue_step (te_actor e) (te_kind e) (ad_event_hash adm) (is_status issue) s \<and>
        issues' = bt_insert (te_issue_id e) (move_issue s (ad_event_hash adm) issue) issues)"
proof (cases "te_kind e")
  case (TkOpen t u v w)
  then show ?thesis
    by (auto simp: apply_transition_def opened_issue_def bt_contains_key_def issue_step_simps)
next
  case (TkClaim n)
  then show ?thesis
    by (auto simp: apply_transition_def issue_mut_def issue_step_simps claim_arm_Ok_iff)
next
  case (TkRequeue j)
  then show ?thesis
    by (auto simp: apply_transition_def issue_mut_def apply_requeue_Ok_iff [where a = "te_actor e"])
qed (auto simp: apply_transition_def issue_mut_def check_claim_fence_Ok_iff issue_step_simps)

lemma move_issue_sel [simp]:
  "is_status (move_issue s h i) = s" "is_issue_id (move_issue s h i) = is_issue_id i"
  "is_title (move_issue s h i) = is_title i" "is_spec (move_issue s h i) = is_spec i"
  "is_opened_by (move_issue s h i) = is_opened_by i" "is_open_event_hash (move_issue s h i) = is_open_event_hash i"
  "is_applied (move_issue s h i) = is_applied i @ [h]"
  by (simp_all add: move_issue_def)

lemma opened_issue_sel [simp]:
  "is_status (opened_issue a e t u) = StOpen" "is_issue_id (opened_issue a e t u) = te_issue_id e"
  "is_title (opened_issue a e t u) = t" "is_spec (opened_issue a e t u) = u"
  "is_opened_by (opened_issue a e t u) = te_actor e" "is_open_event_hash (opened_issue a e t u) = ad_event_hash a"
  "is_applied (opened_issue a e t u) = [ad_event_hash a]"
  by (simp_all add: opened_issue_def)

text \<open>What a transition does to the entry of an issue.\<close>

lemma apply_transition_get:
  assumes "apply_transition issues adm e = Ok issues'"
  shows "bt_wf issues \<Longrightarrow> bt_wf issues'"
    and "j \<noteq> te_issue_id e \<Longrightarrow> bt_get issues' j = bt_get issues j"
    and "bt_get issues (te_issue_id e) = Some issue \<Longrightarrow>
      \<exists>s. issue_step (te_actor e) (te_kind e) (ad_event_hash adm) (is_status issue) s \<and>
        bt_get issues' (te_issue_id e) = Some (move_issue s (ad_event_hash adm) issue)"
    and "bt_get issues (te_issue_id e) = None \<Longrightarrow>
      \<exists>t u v w. te_kind e = TkOpen t u v w \<and> bt_get issues' (te_issue_id e) = Some (opened_issue adm e t u)"
  using assms unfolding apply_transition_Ok_iff by auto

lemma consume_effectiveness_Ok_iff:
  "consume_effectiveness issues aps ecs c = Ok u \<longleftrightarrow>
     (\<exists>ap issue. bt_get aps (ce_approval_event_hash c) = Some ap \<and> ae_issue_id (aa_approval ap) = ce_issue_id c \<and>
        ae_actor (aa_approval ap) = ce_approver c \<and> ae_verdict (aa_approval ap) = Approve \<and>
        bt_get issues (ce_issue_id c) = Some issue \<and>
        ae_open_event_hash (aa_approval ap) = is_open_event_hash issue \<and>
        is_status issue = StClaimed (ce_actor c) (ce_claim_nonce c) (ce_claimed_event_hash c) \<and>
        bt_get ecs (ce_approval_event_hash c) = None)"
  by (auto simp: consume_effectiveness_def Let_def bt_contains_key_def split: option.splits issue_status_v2.splits)

lemma handoff_fence_Ok_iff:
  "handoff_fence issues ho = Ok u \<longleftrightarrow>
     (\<exists>issue. bt_get issues (he_issue_id ho) = Some issue \<and>
        is_status issue = StClaimed (he_actor ho) (he_claim_nonce ho) (he_claimed_event_hash ho))"
  by (auto simp: handoff_fence_def check_claim_fence_Ok_iff split: option.splits)

section \<open>Invariants of the walk\<close>

text \<open>A transition event of the universe \<open>U\<close> on issue \<open>i\<close>.\<close>

definition transition_in :: "admitted set \<Rightarrow> string \<Rightarrow> string \<Rightarrow> transition_kind \<Rightarrow> string \<Rightarrow> bool" where
  "transition_in U i a k h \<longleftrightarrow>
     (\<exists>x \<in> U. \<exists>e. ad_payload x = ChTransition e \<and> ad_event_hash x = h \<and> te_issue_id e = i \<and> te_actor e = a \<and> te_kind e = k)"

fun status_traced :: "admitted set \<Rightarrow> string \<Rightarrow> issue_status_v2 \<Rightarrow> bool" where
  "status_traced U i StOpen \<longleftrightarrow> True"
| "status_traced U i (StClaimed a n c) \<longleftrightarrow> transition_in U i a (TkClaim n) c"
| "status_traced U i (StBlocked a n c b r) \<longleftrightarrow>
     transition_in U i a (TkClaim n) c \<and> transition_in U i a (TkBlock n c r) b"
| "status_traced U i (StDone a d) \<longleftrightarrow>
     (\<exists>n c. transition_in U i a (TkClaim n) c \<and> transition_in U i a (TkComplete n c) d)"

text \<open>Every part of an issue's state comes from a transition event of the universe on that issue.\<close>

definition issue_traced :: "admitted set \<Rightarrow> issue_state_v2 \<Rightarrow> bool" where
  "issue_traced U issue \<longleftrightarrow> status_traced U (is_issue_id issue) (is_status issue) \<and>
     (\<exists>v w. transition_in U (is_issue_id issue) (is_opened_by issue)
        (TkOpen (is_title issue) (is_spec issue) v w) (is_open_event_hash issue)) \<and>
     (\<forall>h \<in> set (is_applied issue). \<exists>a k. transition_in U (is_issue_id issue) a k h) \<and>
     is_applied issue \<noteq> [] \<and> hd (is_applied issue) = is_open_event_hash issue"

definition consume_valid ::
  "admitted set \<Rightarrow> (string, admitted_approval_v2) btree_map \<Rightarrow> issues \<Rightarrow> string \<Rightarrow> effective_consume_v2 \<Rightarrow> bool" where
  "consume_valid U aps issues k ec \<longleftrightarrow> ce_approval_event_hash (ec_consume ec) = k \<and>
     (\<exists>x \<in> U. ad_payload x = ChConsume (ec_consume ec) \<and> ad_event_hash x = ec_event_hash ec) \<and>
     (\<exists>ap issue. bt_get aps k = Some ap \<and> ae_verdict (aa_approval ap) = Approve \<and>
        ae_issue_id (aa_approval ap) = ce_issue_id (ec_consume ec) \<and>
        ae_actor (aa_approval ap) = ce_approver (ec_consume ec) \<and>
        bt_get issues (ce_issue_id (ec_consume ec)) = Some issue \<and>
        ae_open_event_hash (aa_approval ap) = is_open_event_hash issue) \<and>
     transition_in U (ce_issue_id (ec_consume ec)) (ce_actor (ec_consume ec))
       (TkClaim (ce_claim_nonce (ec_consume ec))) (ce_claimed_event_hash (ec_consume ec))"

definition handoff_valid :: "admitted set \<Rightarrow> string \<Rightarrow> handoff_record_v2 \<Rightarrow> bool" where
  "handoff_valid U i hr \<longleftrightarrow> he_issue_id (hr_handoff hr) = i \<and>
     (\<exists>x \<in> U. ad_payload x = ChHandoff (hr_handoff hr) \<and> ad_event_hash x = hr_event_hash hr) \<and>
     transition_in U i (he_actor (hr_handoff hr)) (TkClaim (he_claim_nonce (hr_handoff hr)))
       (he_claimed_event_hash (hr_handoff hr))"

definition p2_inv :: "admitted set \<Rightarrow> (string, admitted_approval_v2) btree_map \<Rightarrow> phase2 \<Rightarrow> bool" where
  "p2_inv U aps st \<longleftrightarrow> bt_wf (p2_issues st) \<and> bt_wf (p2_consumes st) \<and> bt_wf (p2_handoffs st) \<and>
     (\<forall>i issue. bt_get (p2_issues st) i = Some issue \<longrightarrow> is_issue_id issue = i \<and> issue_traced U issue) \<and>
     (\<forall>k ec. bt_get (p2_consumes st) k = Some ec \<longrightarrow> consume_valid U aps (p2_issues st) k ec) \<and>
     (\<forall>i. \<forall>hr \<in> set (bt_get_list (p2_handoffs st) i). handoff_valid U i hr)"

lemma status_traced_step:
  assumes "issue_step a k h s s'" and "status_traced U i s" and "transition_in U i a k h"
  shows "status_traced U i s'"
  using assms by cases auto

lemma issue_traced_move:
  assumes "issue_traced U issue" and "issue_step a k h (is_status issue) s" and "transition_in U (is_issue_id issue) a k h"
  shows "issue_traced U (move_issue s h issue)"
  using assms status_traced_step [OF assms(2)] by (auto simp: issue_traced_def)

lemma issue_traced_opened:
  "te_kind e = TkOpen t u v w \<Longrightarrow> transition_in U (te_issue_id e) (te_actor e) (te_kind e) (ad_event_hash x) \<Longrightarrow>
   issue_traced U (opened_issue x e t u)"
  by (auto simp: issue_traced_def)

text \<open>An issue never disappears and its content never changes.\<close>

definition same_issue_content :: "issue_state_v2 \<Rightarrow> issue_state_v2 \<Rightarrow> bool" where
  "same_issue_content a b \<longleftrightarrow> is_issue_id a = is_issue_id b \<and> is_title a = is_title b \<and> is_spec a = is_spec b \<and>
     is_opened_by a = is_opened_by b \<and> is_open_event_hash a = is_open_event_hash b"

lemma apply_transition_content:
  assumes "apply_transition issues adm e = Ok issues'" and "bt_get issues i = Some issue"
  shows "\<exists>issue'. bt_get issues' i = Some issue' \<and> same_issue_content issue issue'"
proof (cases "i = te_issue_id e")
  case True
  with apply_transition_get(3) [OF assms(1), of issue] assms(2) show ?thesis
    by (auto simp: same_issue_content_def)
next
  case False
  with apply_transition_get(2) [OF assms(1) False] assms(2) show ?thesis by (auto simp: same_issue_content_def)
qed

lemma consume_valid_mono:
  assumes "consume_valid U aps issues k ec" and "apply_transition issues adm e = Ok issues'"
  shows "consume_valid U aps issues' k ec"
  using assms(1) apply_transition_content [OF assms(2)]
  unfolding consume_valid_def same_issue_content_def by metis

lemma p2_inv_transition:
  assumes inv: "p2_inv U aps st" and x: "x \<in> U" "ad_payload x = ChTransition e"
    and ap: "apply_transition (p2_issues st) x e = Ok issues'"
  shows "p2_inv U aps (st\<lparr>p2_issues := issues'\<rparr>)"
proof -
  have tr: "transition_in U (te_issue_id e) (te_actor e) (te_kind e) (ad_event_hash x)"
    using x by (auto simp: transition_in_def)
  have traced: "is_issue_id issue = i \<and> issue_traced U issue" if "bt_get issues' i = Some issue" for i issue
  proof (cases "i = te_issue_id e")
    case False
    with that inv apply_transition_get(2) [OF ap False] show ?thesis by (simp add: p2_inv_def)
  next
    case True
    show ?thesis
    proof (cases "bt_get (p2_issues st) (te_issue_id e)")
      case None
      with apply_transition_get(4) [OF ap None] that True tr show ?thesis by (auto intro: issue_traced_opened)
    next
      case (Some old)
      with inv have "is_issue_id old = te_issue_id e" "issue_traced U old" by (auto simp: p2_inv_def)
      with apply_transition_get(3) [OF ap Some] that True tr show ?thesis by (auto intro: issue_traced_move)
    qed
  qed
  show ?thesis
    using inv traced apply_transition_get(1) [OF ap] consume_valid_mono [OF _ ap] by (auto simp: p2_inv_def)
qed

lemma status_claimed_traced:
  "p2_inv U aps st \<Longrightarrow> bt_get (p2_issues st) i = Some issue \<Longrightarrow> is_status issue = StClaimed a n c \<Longrightarrow>
   transition_in U i a (TkClaim n) c"
  by (metis p2_inv_def issue_traced_def status_traced.simps(2))

lemma p2_inv_step:
  assumes inv: "p2_inv U aps st" and x: "x \<in> U"
  shows "p2_inv U aps (phase2_step aps st x)"
proof (cases "ad_payload x")
  case (ChTransition e)
  show ?thesis
  proof (cases "apply_transition (p2_issues st) x e")
    case (Ok issues')
    with p2_inv_transition [OF inv x ChTransition Ok] ChTransition show ?thesis by (simp add: phase2_step_def)
  qed (use inv ChTransition in \<open>simp add: phase2_step_def p2_inv_def\<close>)
next
  case (ChConsume c)
  show ?thesis
  proof (cases "consume_effectiveness (p2_issues st) aps (p2_consumes st) c")
    case (Ok u)
    then have "consume_valid U aps (p2_issues st) (ce_approval_event_hash c) \<lparr>ec_event_hash = ad_event_hash x, ec_consume = c\<rparr>"
      using status_claimed_traced [OF inv] x ChConsume
      unfolding consume_effectiveness_Ok_iff consume_valid_def by auto
    with inv Ok ChConsume show ?thesis by (simp add: phase2_step_def p2_inv_def)
  qed (use inv ChConsume in \<open>simp add: phase2_step_def p2_inv_def\<close>)
next
  case (ChHandoff ho)
  show ?thesis
  proof (cases "handoff_fence (p2_issues st) ho")
    case (Ok u)
    then have "handoff_valid U (he_issue_id ho) \<lparr>hr_event_hash = ad_event_hash x, hr_handoff = ho\<rparr>"
      using status_claimed_traced [OF inv] x ChHandoff
      unfolding handoff_fence_Ok_iff handoff_valid_def by auto
    with inv Ok ChHandoff show ?thesis by (auto simp: phase2_step_def p2_inv_def bt_get_list_push)
  qed (use inv ChHandoff in \<open>simp add: phase2_step_def p2_inv_def\<close>)
qed (use inv in \<open>simp add: phase2_step_def\<close>)

interpretation p2: loop_invariant "phase2_step aps" "\<lambda>x. x \<in> U" "p2_inv U aps" for aps U
  by unfold_locales (rule p2_inv_step)

lemma p2_inv_init: "p2_inv U aps (phase2_init rej)"
  by (simp add: p2_inv_def phase2_init_def)

lemma phase2_run_inv: "p2_inv (set ordered) (collect_approvals ordered) (phase2_run rej ordered)"
  unfolding phase2_run_def by (rule p2.run_invar [OF p2_inv_init])

text \<open>A completed issue, an effective consume and the content of an issue are final.\<close>

definition done_issue :: "string \<Rightarrow> issue_state_v2 \<Rightarrow> phase2 \<Rightarrow> bool" where
  "done_issue i issue st \<longleftrightarrow> bt_get (p2_issues st) i = Some issue \<and> (\<exists>a h. is_status issue = StDone a h)"

lemma done_issue_step: "done_issue i issue st \<Longrightarrow> done_issue i issue (phase2_step aps st x)"
proof -
  assume d: "done_issue i issue st"
  have "bt_get issues' i = Some issue" if "apply_transition (p2_issues st) x e = Ok issues'" for e issues'
    using apply_transition_get(2,3) [OF that] d by (cases "i = te_issue_id e") (auto simp: done_issue_def)
  with d show ?thesis
    by (auto simp: done_issue_def phase2_step_def split: chained_payload.splits result.splits)
qed

interpretation done_final: loop_invariant "phase2_step aps" "\<lambda>_. True" "done_issue i issue" for aps i issue
  by unfold_locales (rule done_issue_step)

definition consumed_by :: "string \<Rightarrow> effective_consume_v2 \<Rightarrow> phase2 \<Rightarrow> bool" where
  "consumed_by k ec st \<longleftrightarrow> bt_get (p2_consumes st) k = Some ec"

lemma consumed_by_step: "consumed_by k ec st \<Longrightarrow> consumed_by k ec (phase2_step aps st x)"
  by (auto simp: consumed_by_def phase2_step_def consume_effectiveness_Ok_iff split: chained_payload.splits result.splits)

interpretation consume_final: loop_invariant "phase2_step aps" "\<lambda>_. True" "consumed_by k ec" for aps k ec
  by unfold_locales (rule consumed_by_step)

definition has_content :: "string \<Rightarrow> issue_state_v2 \<Rightarrow> phase2 \<Rightarrow> bool" where
  "has_content i issue st \<longleftrightarrow> (\<exists>issue'. bt_get (p2_issues st) i = Some issue' \<and> same_issue_content issue issue')"

lemma has_content_step: "has_content i issue st \<Longrightarrow> has_content i issue (phase2_step aps st x)"
proof -
  assume "has_content i issue st"
  then obtain old where old: "bt_get (p2_issues st) i = Some old" "same_issue_content issue old"
    by (auto simp: has_content_def)
  have "\<exists>issue'. bt_get issues' i = Some issue' \<and> same_issue_content issue issue'"
    if "apply_transition (p2_issues st) x e = Ok issues'" for e issues'
    using apply_transition_content [OF that old(1)] old(2) by (auto simp: same_issue_content_def)
  with old show ?thesis
    by (auto simp: has_content_def phase2_step_def split: chained_payload.splits result.splits)
qed

interpretation content_final: loop_invariant "phase2_step aps" "\<lambda>_. True" "has_content i issue" for aps i issue
  by unfold_locales (rule has_content_step)

text \<open>The traces grow with the universe of events.\<close>

lemma transition_in_mono: "transition_in U i a k h \<Longrightarrow> U \<subseteq> V \<Longrightarrow> transition_in V i a k h"
  by (auto simp: transition_in_def)

lemma issue_traced_mono: "issue_traced U issue \<Longrightarrow> U \<subseteq> V \<Longrightarrow> issue_traced V issue"
proof -
  assume t: "issue_traced U issue" and s: "U \<subseteq> V"
  have "status_traced V i st" if "status_traced U i st" for i st
    using that transition_in_mono [OF _ s] by (cases st) (auto, blast)
  with t s show ?thesis unfolding issue_traced_def by (meson transition_in_mono)
qed

lemma consume_valid_universe: "consume_valid U aps issues k ec \<Longrightarrow> U \<subseteq> V \<Longrightarrow> consume_valid V aps issues k ec"
  unfolding consume_valid_def by (meson transition_in_mono subsetD)

lemma handoff_valid_universe: "handoff_valid U i hr \<Longrightarrow> U \<subseteq> V \<Longrightarrow> handoff_valid V i hr"
  unfolding handoff_valid_def by (meson transition_in_mono subsetD)


end
