(* ===== verification/Fold_Canonical.thy ===== *)
theory Fold_Canonical
  imports Fold_Admission
begin

text \<open>
  Canonicalisation of the input streams (\<open>canonical_streams\<close> of \<^verbatim>\<open>v2/fold.rs\<close>) depends on the content
  of the input only: on the set of owners, and for each owner on the set of records and the set of
  cards that any copy of its stream carries. Neither the order of the streams, nor how often a
  stream is repeated, nor how its records are split over copies makes a difference. This is the
  first half of the convergence theorem of \<open>Fold\<close>.
\<close>

section \<open>What each merged stream holds\<close>

text \<open>The records and the cards the input carries for an owner, over all of its stream copies.\<close>

definition owner_records :: "author_stream list \<Rightarrow> string \<Rightarrow> store_record set" where
  "owner_records streams owner = (\<Union>s \<in> {s \<in> set streams. as_owner s = owner}. set (as_records s))"

definition owner_cards :: "author_stream list \<Rightarrow> string \<Rightarrow> bytes set" where
  "owner_cards streams owner = {c. \<exists>s \<in> set streams. as_owner s = owner \<and> as_card_self s = Some c}"

definition owners :: "author_stream list \<Rightarrow> string set" where
  "owners streams = as_owner ` set streams"

lemma owner_records_snoc:
  "owner_records (ss @ [s]) k = owner_records ss k \<union> (if as_owner s = k then set (as_records s) else {})"
  by (auto simp: owner_records_def)

lemma owner_cards_snoc:
  "owner_cards (ss @ [s]) k = owner_cards ss k \<union>
     (case as_card_self s of Some c \<Rightarrow> if as_owner s = k then {c} else {} | None \<Rightarrow> {})"
  by (auto simp: owner_cards_def split: option.splits)

text \<open>The invariant of the merging loop, for the streams processed so far.\<close>

definition merge_inv ::
  "author_stream list \<Rightarrow> (string, author_stream) btree_map \<times> (string, bytes btree_set) btree_map \<Rightarrow> bool" where
  "merge_inv ss st = (case st of (m, c) \<Rightarrow> bt_wf m \<and>
     (\<forall>k. bset_wf (bt_get_list c k) \<and> set (bt_get_list c k) = owner_cards ss k) \<and>
     (\<forall>k. bt_get m k = None \<longleftrightarrow> k \<notin> owners ss) \<and>
     (\<forall>k e. bt_get m k = Some e \<longrightarrow> as_owner e = k \<and> set (as_records e) = owner_records ss k \<and>
        (as_card_self e = None \<longrightarrow> owner_cards ss k = {}) \<and>
        (\<forall>x. as_card_self e = Some x \<longrightarrow> x \<in> owner_cards ss k)))"

lemma merge_inv_step:
  assumes inv: "merge_inv ss (m, c)"
  shows "merge_inv (ss @ [s]) (merge_stream (m, c) s)"
proof -
  let ?o = "as_owner s"
  obtain m' c' where st: "merge_stream (m, c) s = (m', c')" by force
  define e0 where "e0 = (case bt_get m ?o of None \<Rightarrow> \<lparr>as_owner = ?o, as_card_self = None, as_records = []\<rparr> | Some e \<Rightarrow> e)"
  define e1 where "e1 = (if as_card_self e0 = None then e0\<lparr>as_card_self := as_card_self s\<rparr> else e0)"
  have m': "m' = bt_insert ?o (e1\<lparr>as_records := as_records e1 @ as_records s\<rparr>) m"
    using st by (auto simp: merge_stream_def Let_def e0_def e1_def)
  have c': "c' = (case as_card_self s of None \<Rightarrow> c | Some x \<Rightarrow> bt_insert ?o (bset_insert x (bt_get_list c ?o)) c)"
    using st by (auto simp: merge_stream_def Let_def)
  have none: "owner_records ss ?o = {}" "owner_cards ss ?o = {}" if "bt_get m ?o = None"
  proof -
    have "?o \<notin> owners ss" using inv that by (simp add: merge_inv_def)
    then show "owner_records ss ?o = {}" and "owner_cards ss ?o = {}"
      by (auto simp: owners_def owner_records_def owner_cards_def image_iff)
  qed
  have e0: "as_owner e0 = ?o" "set (as_records e0) = owner_records ss ?o"
    "as_card_self e0 = None \<Longrightarrow> owner_cards ss ?o = {}"
    "as_card_self e0 = Some x \<Longrightarrow> x \<in> owner_cards ss ?o" for x
    using inv none by (auto simp: e0_def merge_inv_def split: option.splits)
  have cards: "bset_wf (bt_get_list c' k) \<and> set (bt_get_list c' k) = owner_cards (ss @ [s]) k" for k
  proof -
    have "bset_wf (bt_get_list c k)" "set (bt_get_list c k) = owner_cards ss k"
      "bset_wf (bt_get_list c ?o)" "set (bt_get_list c ?o) = owner_cards ss ?o"
      using inv by (simp_all add: merge_inv_def)
    moreover have "bt_get_list c' k = (case as_card_self s of None \<Rightarrow> bt_get_list c k
        | Some x \<Rightarrow> if k = ?o then bset_insert x (bt_get_list c ?o) else bt_get_list c k)"
      by (simp add: c' bt_get_list_def split: option.splits)
    ultimately show ?thesis by (auto simp: owner_cards_snoc split: option.splits)
  qed
  show ?thesis
    unfolding st merge_inv_def prod.case
    using inv cards e0
    by (auto simp: m' e1_def merge_inv_def owners_def owner_records_snoc owner_cards_snoc split: option.splits)
qed

lemma merge_inv: "merge_inv ss (foldl merge_stream ([], []) ss)"
proof (induction ss rule: rev_induct)
  case Nil
  show ?case by (simp add: merge_inv_def owners_def owner_records_def owner_cards_def bt_get_list_def)
next
  case (snoc s ss)
  then show ?case using merge_inv_step [of ss _ _ s] by (cases "foldl merge_stream ([], []) ss") simp
qed

section \<open>Canonicalisation depends on the content of the input only\<close>

lemma inj_record_order: "inj_on record_order A"
  by (auto simp: inj_on_def record_order_def)

text \<open>The same owners, and for every owner the same set of records and of cards.\<close>

definition same_content :: "author_stream list \<Rightarrow> author_stream list \<Rightarrow> bool" where
  "same_content ss ss' \<longleftrightarrow> owners ss = owners ss' \<and>
     (\<forall>k. owner_records ss k = owner_records ss' k) \<and> (\<forall>k. owner_cards ss k = owner_cards ss' k)"

text \<open>All card values an owner's input carries, in the explicit fields and in the records.\<close>

definition all_cards :: "author_stream list \<Rightarrow> string \<Rightarrow> bytes set" where
  "all_cards ss k = owner_cards ss k \<union> sr_value ` {r \<in> owner_records ss k. sr_key r = CARD_SELF_KEY}"

lemma canonical_stream_sel [simp]:
  "as_owner (canonical_stream s) = as_owner s" "as_card_self (canonical_stream s) = as_card_self s"
  "as_records (canonical_stream s) = sort_dedup record_order (as_records s)"
  by (simp_all add: canonical_stream_def)

lemma card_candidates_spec:
  assumes "merge_inv ss (m, c)" and "as_owner e = k" and "set (as_records e) = owner_records ss k"
  shows "card_candidates c e = sorted_list_of_set (all_cards ss k)" and "finite (all_cards ss k)"
proof -
  have s: "set (card_candidates c e) = all_cards ss k"
    using assms by (auto simp: card_candidates_def merge_inv_def all_cards_def)
  show "finite (all_cards ss k)" by (simp flip: s)
  have "bset_wf (card_candidates c e)"
    using assms by (simp add: card_candidates_def merge_inv_def)
  with s show "card_candidates c e = sorted_list_of_set (all_cards ss k)"
    using bset_unique by metis
qed

lemma canonical_streams_fst:
  assumes "foldl merge_stream ([], []) ss = (m, c)"
  shows "fst (canonical_streams P ss) = map (\<lambda>(k, s). (k, canonical_stream s)) m"
  using assms by (simp add: canonical_streams_def Let_def)

lemma canonical_streams_get:
  assumes "bt_get (fst (canonical_streams P ss)) k = Some e"
  shows "as_owner e = k" and "set (as_records e) = owner_records ss k"
    and "as_records e = sort_dedup record_order (as_records e)"
    and "as_card_self e = None \<Longrightarrow> owner_cards ss k = {}"
    and "as_card_self e = Some x \<Longrightarrow> x \<in> owner_cards ss k"
proof -
  obtain m c where fold: "foldl merge_stream ([], []) ss = (m, c)" by force
  with merge_inv [of ss] have inv: "merge_inv ss (m, c)" by simp
  from assms obtain e' where e': "bt_get m k = Some e'" and e: "e = canonical_stream e'"
    by (auto simp: canonical_streams_fst [OF fold] bt_get_map_values)
  show "as_owner e = k" and "set (as_records e) = owner_records ss k"
    and "as_card_self e = None \<Longrightarrow> owner_cards ss k = {}"
    and "as_card_self e = Some x \<Longrightarrow> x \<in> owner_cards ss k"
    using inv e' by (auto simp: e merge_inv_def)
  show "as_records e = sort_dedup record_order (as_records e)"
    unfolding e canonical_stream_sel by (rule sort_dedup_canonical) (simp_all add: inj_record_order)
qed

lemma canonical_streams_wf: "bt_wf (fst (canonical_streams P ss))"
proof -
  obtain m c where fold: "foldl merge_stream ([], []) ss = (m, c)" by force
  with merge_inv [of ss] have "bt_wf m" by (simp add: merge_inv_def)
  then show ?thesis using bt_wf_map_values [of m "\<lambda>_. canonical_stream"] by (simp add: canonical_streams_fst [OF fold])
qed

lemma canonical_streams_dom: "bt_get (fst (canonical_streams P ss)) k = None \<longleftrightarrow> k \<notin> owners ss"
proof -
  obtain m c where fold: "foldl merge_stream ([], []) ss = (m, c)" by force
  with merge_inv [of ss] show ?thesis
    by (simp add: canonical_streams_fst [OF fold] bt_get_map_values merge_inv_def)
qed

lemma canonical_streams_conflicted:
  "bt_get (snd (canonical_streams P ss)) k =
     (if k \<in> owners ss \<and> 1 < card (all_cards ss k)
      then Some (err_card_conflict (map (sha256_hex P) (sorted_list_of_set (all_cards ss k)))) else None)"
  and canonical_streams_conflicted_wf: "bt_wf (snd (canonical_streams P ss))"
proof -
  obtain m c where fold: "foldl merge_stream ([], []) ss = (m, c)" by force
  with merge_inv [of ss] have inv: "merge_inv ss (m, c)" by simp
  let ?m = "fst (canonical_streams P ss)"
  let ?Q = "\<lambda>s. length (card_candidates c s) > 1"
  let ?g = "\<lambda>s. err_card_conflict (map (sha256_hex P) (card_candidates c s))"
  have cf: "snd (canonical_streams P ss) =
      foldl (\<lambda>m s. if ?Q s then bt_insert (as_owner s) (?g s) m else m) [] (bt_values ?m)"
    by (simp add: canonical_streams_def fold Let_def bt_values_def)
  show "bt_wf (snd (canonical_streams P ss))" unfolding cf by (rule bt_wf_cond_build) simp
  have keys: "map as_owner (bt_values ?m) = map fst ?m"
    unfolding bt_values_def using canonical_streams_get(1) [of P ss] bt.in_entries_iff [OF canonical_streams_wf]
    by (auto simp: comp_def)
  then have dist: "distinct (map as_owner (bt_values ?m))"
    using bt.entries_distinct [OF canonical_streams_wf] by metis
  show "bt_get (snd (canonical_streams P ss)) k =
     (if k \<in> owners ss \<and> 1 < card (all_cards ss k)
      then Some (err_card_conflict (map (sha256_hex P) (sorted_list_of_set (all_cards ss k)))) else None)"
  proof (cases "bt_get ?m k")
    case None
    then have "k \<notin> as_owner ` set (bt_values ?m)"
      using canonical_streams_get(1) bt_values_get [OF canonical_streams_wf] by (metis (no_types, lifting) imageE option.distinct(1))
    with None show ?thesis unfolding cf by (simp add: bt_get_cond_build_notin canonical_streams_dom)
  next
    case (Some e)
    have e: "as_owner e = k" "set (as_records e) = owner_records ss k"
      using canonical_streams_get [OF Some] by auto
    note cc = card_candidates_spec [OF inv e]
    have "k \<in> owners ss" using canonical_streams_dom [of P ss k] Some by auto
    then show ?thesis unfolding cf
      using bt_get_cond_build [OF dist bt_values_mem [OF Some], of ?Q ?g] cc e by simp
  qed
qed

text \<open>The card of a conflicted owner is never read; without it the canonical streams are a
  function of the content of the input.\<close>

definition erase_conflicted ::
  "(string, string) btree_map \<Rightarrow> (string, author_stream) btree_map \<Rightarrow> (string, author_stream) btree_map" where
  "erase_conflicted cf m =
     map (\<lambda>(k, s). (k, if bt_contains_key cf k then s\<lparr>as_card_self := None\<rparr> else s)) m"

lemma same_content_all_cards: "same_content ss ss' \<Longrightarrow> all_cards ss k = all_cards ss' k"
  by (simp add: same_content_def all_cards_def)

lemma canonical_streams_same_conflicted:
  "same_content ss ss' \<Longrightarrow> snd (canonical_streams P ss) = snd (canonical_streams P ss')"
  by (rule bt.map_eqI) (simp_all add: canonical_streams_conflicted_wf canonical_streams_conflicted
      same_content_all_cards fun_eq_iff, simp add: same_content_def)

lemma owner_card_unique:
  assumes "bt_get (fst (canonical_streams P ss)) k = Some e"
    and "\<not> bt_contains_key (snd (canonical_streams P ss)) k"
    and "x \<in> all_cards ss k" and "y \<in> all_cards ss k"
  shows "x = y"
proof -
  obtain m c where "foldl merge_stream ([], []) ss = (m, c)" by force
  with merge_inv [of ss] have "merge_inv ss (m, c)" by simp
  from card_candidates_spec(2) [OF this] have fin: "finite (all_cards ss k)"
    using canonical_streams_get [OF assms(1)] by blast
  have "k \<in> owners ss" using canonical_streams_dom [of P ss k] assms(1) by auto
  with assms(2) have "card (all_cards ss k) \<le> 1"
    by (auto simp: bt_contains_key_def canonical_streams_conflicted split: if_splits)
  with fin assms(3,4) show ?thesis by (metis card_le_Suc0_iff_eq One_nat_def)
qed

lemma canonical_streams_same:
  assumes same: "same_content ss ss'"
  shows "erase_conflicted (snd (canonical_streams P ss)) (fst (canonical_streams P ss)) =
         erase_conflicted (snd (canonical_streams P ss')) (fst (canonical_streams P ss'))"
    (is "erase_conflicted ?cf ?m = erase_conflicted ?cf' ?m'")
proof (rule bt.map_eqI)
  show "bt_wf (erase_conflicted ?cf ?m)" "bt_wf (erase_conflicted ?cf' ?m')"
    unfolding erase_conflicted_def by (rule bt_wf_map_values [OF canonical_streams_wf])+
  have cf: "?cf' = ?cf" using canonical_streams_same_conflicted [OF same] by metis
  show "bt_get (erase_conflicted ?cf ?m) = bt_get (erase_conflicted ?cf' ?m')"
  proof
    fix k
    have dom: "bt_get ?m k = None \<longleftrightarrow> bt_get ?m' k = None"
      using same by (simp add: canonical_streams_dom same_content_def)
    show "bt_get (erase_conflicted ?cf ?m) k = bt_get (erase_conflicted ?cf' ?m') k"
    proof (cases "bt_get ?m k")
      case None
      with dom show ?thesis unfolding erase_conflicted_def bt_get_map_values by simp
    next
      case (Some e)
      with dom obtain e' where e': "bt_get ?m' k = Some e'" by auto
      note g = canonical_streams_get [OF Some] and g' = canonical_streams_get [OF e']
      have recs: "as_records e = as_records e'"
        using g(2,3) g'(2,3) same sort_dedup_canonical [OF _ inj_record_order, of "as_records e" "as_records e'"]
        by (simp add: same_content_def)
      have cards: "as_card_self e = as_card_self e'" if "\<not> bt_contains_key ?cf k"
      proof -
        have sub: "\<forall>x \<in> owner_cards ss k. \<forall>y \<in> owner_cards ss k. x = y"
          using owner_card_unique [OF Some that] by (auto simp: all_cards_def)
        have same': "owner_cards ss' k = owner_cards ss k" using same by (simp add: same_content_def)
        show ?thesis
        proof (cases "as_card_self e")
          case None
          then have "owner_cards ss' k = {}" using g(4) same' by simp
          with g'(5) None show ?thesis by (cases "as_card_self e'") auto
        next
          case (Some x)
          then have "x \<in> owner_cards ss k" using g(5) by simp
          with g'(4,5) Some sub same' show ?thesis by (cases "as_card_self e'") auto
        qed
      qed
      show ?thesis
        unfolding erase_conflicted_def bt_get_map_values
        using Some e' recs cards g(1) g'(1) cf by (cases e, cases e') auto
    qed
  qed
qed

end
