(* ===== verification/Fold.thy ===== *)
theory Fold
  imports Fold_State Fold_Canonical
begin

text \<open>
  The v2 fold itself (\<open>fold_v2\<close> of \<^verbatim>\<open>v2/fold.rs\<close>): the budget checks on the raw and on the merged
  streams, genesis resolution, the roster chain, admission of every stream, author chains, the lamport
  cap, chain tips and the phase-2 walk.
\<close>

section \<open>Budgets\<close>

fun check_raw_streams :: "fold_limits \<Rightarrow> author_stream list \<Rightarrow> (unit, list_refusal) result" where
  "check_raw_streams limits [] = Ok ()"
| "check_raw_streams limits (stream # streams) =
     (if length (as_records stream) > unat (max_records_per_stream limits)
      then Err (BudgetExceeded (budget_too_many_raw_records (as_owner stream) (length (as_records stream))
             (max_records_per_stream limits)))
      else case find (\<lambda>r. length (sr_value r) > unat (max_record_bytes limits)) (as_records stream) of
        Some rec \<Rightarrow> Err (BudgetExceeded (budget_record_too_large (sr_key rec) (as_owner stream)
             (length (sr_value rec)) (max_record_bytes limits)))
      | None \<Rightarrow> check_raw_streams limits streams)"

definition check_raw_budget :: "fold_limits \<Rightarrow> author_stream list \<Rightarrow> (unit, list_refusal) result" where
  "check_raw_budget limits streams =
     (if length streams > unat (sat_add (max_roster_members limits) 1)
      then Err (BudgetExceeded (budget_too_many_streams (length streams) (max_roster_members limits)))
      else check_raw_streams limits streams)"

fun check_merged_budget :: "fold_limits \<Rightarrow> (string, author_stream) btree_map \<Rightarrow> (unit, list_refusal) result" where
  "check_merged_budget limits [] = Ok ()"
| "check_merged_budget limits ((owner, stream) # streams) =
     (if length (as_records stream) > unat (max_records_per_stream limits)
      then Err (BudgetExceeded (budget_too_many_merged_records owner (length (as_records stream))
             (max_records_per_stream limits)))
      else check_merged_budget limits streams)"

section \<open>Admission of a stream and of all streams\<close>

fun admit_records ::
  "prims \<Rightarrow> string \<Rightarrow> bytes \<Rightarrow> string \<Rightarrow> string \<Rightarrow> string btree_set list \<Rightarrow> store_record list \<Rightarrow>
   admitted list \<times> rejection list" where
  "admit_records P owner acard list_uuid genesis_hash rosters [] = ([], [])"
| "admit_records P owner acard list_uuid genesis_hash rosters (rec # recs) =
     (let (cands, rej) = admit_records P owner acard list_uuid genesis_hash rosters recs in
      case admit_event P rec owner acard list_uuid genesis_hash rosters of
        Ok adm \<Rightarrow> (adm # cands, rej)
      | Err why \<Rightarrow> (cands, admission_rejection owner (sr_key rec) why # rej))"

definition reject_stream :: "string \<Rightarrow> author_stream \<Rightarrow> string \<Rightarrow> rejection list" where
  "reject_stream owner stream why = map (\<lambda>r. admission_rejection owner (sr_key r) why) (event_records stream)"

definition admit_stream ::
  "prims \<Rightarrow> (string, string) btree_map \<Rightarrow> string \<Rightarrow> string \<Rightarrow> string btree_set list \<Rightarrow> string \<Rightarrow> author_stream \<Rightarrow>
   admitted list option \<times> rejection list" where
  "admit_stream P conflicted list_uuid genesis_hash rosters owner stream =
     (case bt_get conflicted owner of
        Some why \<Rightarrow> (None, reject_stream owner stream why)
      | None \<Rightarrow>
          (case verified_card P stream of
             Err why \<Rightarrow> (None, reject_stream owner stream why)
           | Ok acard \<Rightarrow>
               let (cands, rej) = admit_records P owner acard list_uuid genesis_hash rosters (event_records stream)
               in (Some cands, rej)))"

fun admit_streams ::
  "prims \<Rightarrow> (string, string) btree_map \<Rightarrow> string \<Rightarrow> string \<Rightarrow> string btree_set list \<Rightarrow>
   (string, author_stream) btree_map \<Rightarrow> (string, admitted list) btree_map \<Rightarrow> rejection list \<Rightarrow>
   (string, admitted list) btree_map \<times> rejection list" where
  "admit_streams P conflicted list_uuid genesis_hash rosters [] per_author rejections = (per_author, rejections)"
| "admit_streams P conflicted list_uuid genesis_hash rosters ((owner, stream) # streams) per_author rejections =
     (let (cands, rej) = admit_stream P conflicted list_uuid genesis_hash rosters owner stream in
      admit_streams P conflicted list_uuid genesis_hash rosters streams
        (case cands of None \<Rightarrow> per_author | Some cs \<Rightarrow> bt_insert owner cs per_author) (rejections @ rej))"

text \<open>The loop over \<open>per_author\<close> that calls \<open>chain_author\<close>.\<close>

fun chain_authors ::
  "string \<Rightarrow> (string, admitted list) btree_map \<Rightarrow> admitted list \<times> rejection list \<times> fork_evidence list" where
  "chain_authors genesis_hash [] = ([], [], [])"
| "chain_authors genesis_hash ((author, candidates) # rest) =
     (let (ch, rej, fk) = chain_author author candidates genesis_hash;
          (ch', rej', fk') = chain_authors genesis_hash rest
      in (ch @ ch', rej @ rej', fk @ fk'))"

section \<open>Chain tips and diagnostics\<close>

definition chain_tip_step :: "(string, chain_tip_v2) btree_map \<Rightarrow> admitted \<Rightarrow> (string, chain_tip_v2) btree_map" where
  "chain_tip_step tips adm =
     (let tip = (case bt_get tips (ad_author adm) of
           None \<Rightarrow> \<lparr>ct_author_seq = ad_author_seq adm, ct_last_event_hash = ad_event_hash adm\<rparr>
         | Some tip \<Rightarrow> tip);
          tip = (if ad_author_seq adm \<ge> ct_author_seq tip
            then \<lparr>ct_author_seq = ad_author_seq adm, ct_last_event_hash = ad_event_hash adm\<rparr> else tip)
      in bt_insert (ad_author adm) tip tips)"

definition author_chain_tips :: "admitted list \<Rightarrow> (string, chain_tip_v2) btree_map" where
  "author_chain_tips adms = foldl chain_tip_step [] adms"

definition max_lamport :: "admitted list \<Rightarrow> u64" where
  "max_lamport adms = foldl max 0 (map ad_lamport adms)"

definition sort_rejections :: "rejection list \<Rightarrow> rejection list" where
  "sort_rejections rejections = sort_dedup (\<lambda>r. (rj_author r, rj_key r, rj_reason r)) rejections"

definition sort_forks :: "fork_evidence list \<Rightarrow> fork_evidence list" where
  "sort_forks forks = sort_dedup (\<lambda>f. (fe_author f, fe_author_seq f)) forks"

section \<open>The fold\<close>

text \<open>Genesis resolution: the creator's card, the genesis manifest and its hash.\<close>

definition resolve_genesis ::
  "prims \<Rightarrow> fold_input \<Rightarrow> (string, author_stream) btree_map \<Rightarrow> (string, string) btree_map \<Rightarrow>
   (author_stream \<times> bytes \<times> genesis_manifest_v2 \<times> string, list_refusal) result" where
  "resolve_genesis P inp streams conflicted =
     (case bt_get conflicted (fi_creator inp) of
        Some why \<Rightarrow> Err (InvalidGenesis (''creator card-self conflict: '' @ why))
      | None \<Rightarrow>
          and_then (ok_or (bt_get streams (fi_creator inp)) (MissingCreatorStream (fi_creator inp))) (\<lambda>creator_stream.
          and_then (map_err (\<lambda>e. InvalidGenesis (''creator card-self: '' @ e)) (verified_card P creator_stream)) (\<lambda>creator_card.
          and_then (ok_or (find (\<lambda>r. sr_key r = GENESIS_KEY) (as_records creator_stream)) MissingGenesis) (\<lambda>rec.
          and_then (map_err InvalidGenesis
              (verify_genesis P rec (fi_list_uuid inp) (fi_creator inp) creator_card)) (\<lambda>(genesis, genesis_hash).
          if length (gm_roster genesis) > unat (max_roster_members (fi_limits inp))
          then Err (BudgetExceeded (budget_genesis_roster_too_large (length (gm_roster genesis))
                 (max_roster_members (fi_limits inp))))
          else Ok (creator_stream, creator_card, genesis, genesis_hash))))))"

text \<open>
  Phase 1 on canonical streams: genesis, roster chain, admission, author chains and lamport cap. What
  the rest of the function needs is collected in a record.
\<close>

record phase1 =
  p1_genesis :: genesis_manifest_v2
  p1_genesis_hash :: string
  p1_rosters :: "string btree_set list"
  p1_admitted :: "admitted list"
  p1_rejections :: "rejection list"
  p1_forks :: "fork_evidence list"

definition fold_phase1 ::
  "prims \<Rightarrow> fold_input \<Rightarrow> (string, author_stream) btree_map \<Rightarrow> (string, string) btree_map \<Rightarrow>
   (phase1, list_refusal) result" where
  "fold_phase1 P inp streams conflicted =
     and_then (resolve_genesis P inp streams conflicted) (\<lambda>(creator_stream, creator_card, genesis, genesis_hash).
     and_then (build_roster_chain P creator_stream (fi_list_uuid inp) (fi_creator inp) creator_card genesis_hash
       (max_roster_members (fi_limits inp)) (bset_of_list (gm_roster genesis))) (\<lambda>(rosters, rejections, forks).
     let (per_author, rejections) = admit_streams P conflicted (fi_list_uuid inp) genesis_hash rosters streams [] rejections;
         (chained, rej, fk) = chain_authors genesis_hash per_author;
         (adms, rej') = apply_lamport_cap chained
     in Ok \<lparr>p1_genesis = genesis, p1_genesis_hash = genesis_hash, p1_rosters = rosters, p1_admitted = adms,
            p1_rejections = rejections @ rej @ rej', p1_forks = forks @ fk\<rparr>))"

text \<open>Phase 2 and the output.\<close>

definition fold_phase2 :: "phase1 \<Rightarrow> fold_output" where
  "fold_phase2 p =
     (let ordered = sort_key fold_order (p1_admitted p);
          st = phase2_run (p1_rejections p) ordered
      in \<lparr>fo_genesis = p1_genesis p,
          fo_genesis_hash = p1_genesis_hash p,
          fo_latest_roster_epoch = sat_sub (of_nat (length (p1_rosters p))) 1,
          fo_current_roster = (if p1_rosters p = [] then [] else last (p1_rosters p)),
          fo_issues = p2_issues st,
          fo_max_admitted_lamport = max_lamport (p1_admitted p),
          fo_rejections = sort_rejections (p2_rejections st),
          fo_forks = sort_forks (p1_forks p),
          fo_approvals = collect_approvals ordered,
          fo_effective_consumes = p2_consumes st,
          fo_losing_consumes = p2_losing st,
          fo_handoffs = p2_handoffs st,
          fo_author_chain_tips = author_chain_tips (p1_admitted p)\<rparr>)"

definition fold_admission :: "prims \<Rightarrow> fold_input \<Rightarrow> (phase1, list_refusal) result" where
  "fold_admission P inp =
     and_then (check_raw_budget (fi_limits inp) (fi_streams inp)) (\<lambda>_.
     let (streams, conflicted) = canonical_streams P (fi_streams inp) in
     and_then (check_merged_budget (fi_limits inp) streams) (\<lambda>_.
     fold_phase1 P inp streams conflicted))"

definition fold_v2 :: "prims \<Rightarrow> fold_input \<Rightarrow> (fold_output, list_refusal) result" where
  "fold_v2 P inp = and_then (fold_admission P inp) (\<lambda>p. Ok (fold_phase2 p))"

section \<open>Convergence\<close>

text \<open>Nothing after canonicalisation reads the card of a conflicted owner.\<close>

lemma erase_conflicted_Cons:
  "erase_conflicted cf ((k, s) # m) =
     (k, if bt_contains_key cf k then s\<lparr>as_card_self := None\<rparr> else s) # erase_conflicted cf m"
  by (simp add: erase_conflicted_def)

lemma bt_get_erase:
  "bt_get (erase_conflicted cf m) k =
     map_option (\<lambda>s. if bt_contains_key cf k then s\<lparr>as_card_self := None\<rparr> else s) (bt_get m k)"
  unfolding erase_conflicted_def by (rule bt_get_map_values)

lemma check_merged_budget_erase: "check_merged_budget lim (erase_conflicted cf m) = check_merged_budget lim m"
  by (induction lim m rule: check_merged_budget.induct) (auto simp: erase_conflicted_Cons, simp add: erase_conflicted_def)

lemma admit_stream_erase:
  "admit_stream P cf l g rosters k (if bt_contains_key cf k then s\<lparr>as_card_self := c\<rparr> else s) =
   admit_stream P cf l g rosters k s"
  by (auto simp: admit_stream_def bt_contains_key_def reject_stream_def event_records_def)

lemma admit_streams_erase:
  "admit_streams P cf l g rosters (erase_conflicted cf m) pa rej = admit_streams P cf l g rosters m pa rej"
  by (induction m arbitrary: pa rej)
    (auto simp: erase_conflicted_Cons admit_stream_erase simp del: if_split, simp add: erase_conflicted_def)

lemma resolve_genesis_erase:
  "resolve_genesis P inp (erase_conflicted cf m) cf = resolve_genesis P inp m cf"
  by (cases "bt_get cf (fi_creator inp)")
    (simp_all add: resolve_genesis_def bt_get_erase bt_contains_key_def option.map_ident)

lemma fold_phase1_erase:
  "fold_phase1 P inp (erase_conflicted cf m) cf = fold_phase1 P inp m cf"
  by (simp add: fold_phase1_def resolve_genesis_erase admit_streams_erase)

text \<open>The fold reads the list address, the creator and the limits of its input besides the streams.\<close>

lemma fold_phase1_streams_indep: "fold_phase1 P (inp\<lparr>fi_streams := ss\<rparr>) m cf = fold_phase1 P inp m cf"
proof -
  have "resolve_genesis P (inp\<lparr>fi_streams := ss\<rparr>) m cf = resolve_genesis P inp m cf"
    by (simp add: resolve_genesis_def cong: option.case_cong if_cong)
  then show ?thesis by (simp add: fold_phase1_def)
qed

lemma fold_v2_same_content:
  assumes same: "same_content ss ss'"
    and "check_raw_budget (fi_limits inp) ss = Ok ()" and "check_raw_budget (fi_limits inp) ss' = Ok ()"
  shows "fold_v2 P (inp\<lparr>fi_streams := ss\<rparr>) = fold_v2 P (inp\<lparr>fi_streams := ss'\<rparr>)"
proof -
  obtain m cf where c: "canonical_streams P ss = (m, cf)" by force
  obtain m' cf' where c': "canonical_streams P ss' = (m', cf')" by force
  have cf: "cf' = cf" using canonical_streams_same_conflicted [OF same, of P] c c' by simp
  have e: "erase_conflicted cf m = erase_conflicted cf m'"
    using canonical_streams_same [OF same, of P] c c' cf by simp
  have "check_merged_budget (fi_limits inp) m = check_merged_budget (fi_limits inp) m'"
    by (metis check_merged_budget_erase e)
  moreover have "fold_phase1 P inp m cf = fold_phase1 P inp m' cf"
    by (metis fold_phase1_erase e)
  ultimately show ?thesis
    using assms(2,3) by (simp add: fold_v2_def fold_admission_def c c' cf fold_phase1_streams_indep)
qed

lemma check_raw_streams_Ok_iff:
  "check_raw_streams lim ss = Ok u \<longleftrightarrow>
     (\<forall>s \<in> set ss. length (as_records s) \<le> unat (max_records_per_stream lim) \<and>
        (\<forall>r \<in> set (as_records s). length (sr_value r) \<le> unat (max_record_bytes lim)))"
proof (induction lim ss rule: check_raw_streams.induct)
  case (2 lim s ss)
  let ?big = "\<lambda>r. length (sr_value r) > unat (max_record_bytes lim)"
  show ?case
  proof (cases "find ?big (as_records s)")
    case None
    then have "\<forall>r \<in> set (as_records s). length (sr_value r) \<le> unat (max_record_bytes lim)"
      by (auto simp: find_None_iff not_less)
    with None 2 show ?thesis by (auto simp: not_less)
  next
    case (Some r)
    then have "r \<in> set (as_records s)" "?big r" by (auto simp: find_Some_iff)
    with Some show ?thesis by (auto simp: not_le)
  qed
qed simp

lemma check_raw_streams_Err: "check_raw_streams lim ss = Err e \<Longrightarrow> \<exists>why. e = BudgetExceeded why"
  by (induction lim ss rule: check_raw_streams.induct) (auto split: if_splits option.splits)

lemma check_raw_budget_Ok_iff:
  "check_raw_budget lim ss = Ok u \<longleftrightarrow> length ss \<le> unat (sat_add (max_roster_members lim) 1) \<and>
     (\<forall>s \<in> set ss. length (as_records s) \<le> unat (max_records_per_stream lim) \<and>
        (\<forall>r \<in> set (as_records s). length (sr_value r) \<le> unat (max_record_bytes lim)))"
  by (auto simp: check_raw_budget_def check_raw_streams_Ok_iff)

lemma check_raw_budget_Err: "check_raw_budget lim ss = Err e \<Longrightarrow> \<exists>why. e = BudgetExceeded why"
  by (auto simp: check_raw_budget_def split: if_splits dest: check_raw_streams_Err)

lemma same_content_mset: "mset ss = mset ss' \<Longrightarrow> same_content ss ss'"
  using mset_eq_setD [of ss ss'] by (simp add: same_content_def owners_def owner_records_def owner_cards_def)

lemma check_raw_budget_mset:
  "mset ss = mset ss' \<Longrightarrow> check_raw_budget lim ss = Ok u \<longleftrightarrow> check_raw_budget lim ss' = Ok u"
  using mset_eq_setD [of ss ss'] mset_eq_length [of ss ss'] by (simp add: check_raw_budget_Ok_iff)

lemma fold_v2_permutation:
  assumes m: "mset ss = mset ss'"
  shows "fold_v2 P (inp\<lparr>fi_streams := ss\<rparr>) = fold_v2 P (inp\<lparr>fi_streams := ss'\<rparr>) \<or>
    (\<exists>w w'. fold_v2 P (inp\<lparr>fi_streams := ss\<rparr>) = Err (BudgetExceeded w) \<and> fold_v2 P (inp\<lparr>fi_streams := ss'\<rparr>) = Err (BudgetExceeded w'))"
proof (cases "check_raw_budget (fi_limits inp) ss")
  case (Ok u)
  then have "check_raw_budget (fi_limits inp) ss' = Ok u" using check_raw_budget_mset [OF m] by blast
  with Ok fold_v2_same_content [OF same_content_mset [OF m]] show ?thesis by auto
next
  case (Err e)
  then obtain e' where e': "check_raw_budget (fi_limits inp) ss' = Err e'"
    using check_raw_budget_mset [OF m, of "fi_limits inp" "()"] by (cases "check_raw_budget (fi_limits inp) ss'") auto
  with Err show ?thesis using check_raw_budget_Err by (fastforce simp: fold_v2_def fold_admission_def)
qed
end
