(* ===== verification/Fold_Correct.thy ===== *)
theory Fold_Correct
  imports Fold
begin

text \<open>
  Correctness of the v2 fold (\<open>fold_v2\<close> of \<^verbatim>\<open>v2/fold.rs\<close>) as a whole: what an admitted event is
  authenticated by, that the admitted events of each author form a hash chain from the genesis, that
  \<open>next_chain_link\<close> is the link that extends it, that streams of owners outside the rosters have no
  influence on the folded state, and that the folded state is traced back to admitted events.
\<close>

section \<open>What phase 1 admits\<close>

text \<open>The candidates of one stream.\<close>

definition stream_candidates ::
  "prims \<Rightarrow> (string, string) btree_map \<Rightarrow> string \<Rightarrow> string \<Rightarrow> string btree_set list \<Rightarrow> string \<Rightarrow> author_stream \<Rightarrow> admitted list" where
  "stream_candidates P cf l g rosters owner stream =
     (case fst (admit_stream P cf l g rosters owner stream) of None \<Rightarrow> [] | Some cs \<Rightarrow> cs)"

lemma admit_records_mem:
  "a \<in> set (fst (admit_records P owner acard l g rosters recs)) \<longleftrightarrow>
     (\<exists>rec \<in> set recs. admit_event P rec owner acard l g rosters = Ok a)"
  by (induction recs) (auto simp: Let_def case_prod_unfold split: result.splits)

lemma length_admit_records: "length (fst (admit_records P owner acard l g rosters recs)) \<le> length recs"
  by (induction recs) (auto simp: Let_def case_prod_unfold split: result.splits)

lemma stream_candidates_mem:
  assumes "a \<in> set (stream_candidates P cf l g rosters owner stream)"
  shows "bt_get cf owner = None \<and> (\<exists>acard. verified_card P stream = Ok acard \<and>
           (\<exists>rec \<in> set (as_records stream). bound_record P owner acard l g rosters rec a))"
  using assms admit_event_bound
  by (fastforce simp: stream_candidates_def admit_stream_def Let_def case_prod_unfold admit_records_mem event_records_def
      split: option.splits result.splits)

lemma length_stream_candidates: "length (stream_candidates P cf l g rosters owner stream) \<le> length (as_records stream)"
  using length_admit_records [of P owner _ l g rosters "event_records stream"]
  by (auto simp: stream_candidates_def admit_stream_def Let_def case_prod_unfold event_records_def
      split: option.splits result.splits intro: order_trans [OF _ length_filter_le])

lemma chain_author_Nil [simp]: "chain_author author [] g = ([], [], [])"
  by (simp add: chain_author_def bt_group_def)

text \<open>On an ascending map the inserts go to the end, so the result lists the streams in order.\<close>

lemma bt_insert_last: "\<forall>e \<in> set m. fst e < k \<Longrightarrow> bt_insert k v m = m @ [(k, v)]"
  by (induction m) auto

lemma per_author_concat_aux:
  assumes "bt_wf (pre @ m)" and "fst ` set pa \<subseteq> fst ` set pre" and h: "\<And>ow. h ow [] = []"
  shows "concat (map (\<lambda>(ow, cs). h ow cs) (fst (admit_streams P cf l g rosters m pa rej))) =
     concat (map (\<lambda>(ow, cs). h ow cs) pa) @ concat (map (\<lambda>(ow, s). h ow (stream_candidates P cf l g rosters ow s)) m)"
  using assms(1,2)
proof (induction m arbitrary: pre pa rej)
  case (Cons e m)
  obtain owner s where e: "e = (owner, s)" by force
  have below: "\<forall>x \<in> set pa. fst x < owner"
    using Cons.prems by (fastforce simp: e bt_wf_def sorted_wrt_append)
  have wf: "bt_wf ((pre @ [e]) @ m)" using Cons.prems by simp
  show ?case
  proof (cases "fst (admit_stream P cf l g rosters owner s)")
    case None
    moreover have "fst ` set pa \<subseteq> fst ` set (pre @ [e])" using Cons.prems(2) by auto
    ultimately show ?thesis
      using Cons.IH [OF wf, of pa] h by (simp add: e Let_def case_prod_unfold stream_candidates_def)
  next
    case (Some cs)
    have "fst ` set (bt_insert owner cs pa) \<subseteq> fst ` set (pre @ [e])"
      using Cons.prems(2) e fst_bt_insert [of owner cs pa] by auto
    with Some show ?thesis
      using Cons.IH [OF wf, of "bt_insert owner cs pa"]
      by (simp add: e Let_def case_prod_unfold stream_candidates_def bt_insert_last [OF below])
  qed
qed simp

lemma per_author_concat:
  assumes "bt_wf m" and "\<And>ow. h ow [] = []"
  shows "concat (map (\<lambda>(ow, cs). h ow cs) (fst (admit_streams P cf l g rosters m [] rej))) =
     concat (map (\<lambda>(ow, s). h ow (stream_candidates P cf l g rosters ow s)) m)"
  using per_author_concat_aux [of "[]" m "[]" h] assms by simp

lemma chain_authors_conv:
  "fst (chain_authors g m) = concat (map (\<lambda>(ow, cs). fst (chain_author ow cs g)) m)"
  "snd (snd (chain_authors g m)) = concat (map (\<lambda>(ow, cs). snd (snd (chain_author ow cs g))) m)"
  by (induction m) (auto simp: Let_def case_prod_unfold)

text \<open>The chained events and the fork evidence of all streams.\<close>

abbreviation chained_of ::
  "prims \<Rightarrow> (string, string) btree_map \<Rightarrow> string \<Rightarrow> string \<Rightarrow> string btree_set list \<Rightarrow> (string, author_stream) btree_map \<Rightarrow> admitted list" where
  "chained_of P cf l g rosters m \<equiv>
     concat (map (\<lambda>(ow, s). fst (chain_author ow (stream_candidates P cf l g rosters ow s) g)) m)"

abbreviation forks_of ::
  "prims \<Rightarrow> (string, string) btree_map \<Rightarrow> string \<Rightarrow> string \<Rightarrow> string btree_set list \<Rightarrow> (string, author_stream) btree_map \<Rightarrow> fork_evidence list" where
  "forks_of P cf l g rosters m \<equiv>
     concat (map (\<lambda>(ow, s). snd (snd (chain_author ow (stream_candidates P cf l g rosters ow s) g))) m)"

text \<open>The stages of a successful admission.\<close>

lemma fold_phase1_Ok_iff:
  assumes "bt_wf streams"
  shows "fold_phase1 P inp streams cf = Ok p \<longleftrightarrow> (\<exists>creator_stream acard rej forks.
    resolve_genesis P inp streams cf = Ok (creator_stream, acard, p1_genesis p, p1_genesis_hash p) \<and>
    build_roster_chain P creator_stream (fi_list_uuid inp) (fi_creator inp) acard (p1_genesis_hash p)
       (max_roster_members (fi_limits inp)) (bset_of_list (gm_roster (p1_genesis p))) = Ok (p1_rosters p, rej, forks) \<and>
    p1_admitted p = fst (apply_lamport_cap (chained_of P cf (fi_list_uuid inp) (p1_genesis_hash p) (p1_rosters p) streams)) \<and>
    p1_forks p = forks @ forks_of P cf (fi_list_uuid inp) (p1_genesis_hash p) (p1_rosters p) streams \<and>
    p1_rejections p = (let (pa, r) = admit_streams P cf (fi_list_uuid inp) (p1_genesis_hash p) (p1_rosters p) streams [] rej
      in r @ fst (snd (chain_authors (p1_genesis_hash p) pa)) @ snd (apply_lamport_cap (fst (chain_authors (p1_genesis_hash p) pa)))))"
  using per_author_concat [OF assms, of "\<lambda>ow cs. fst (chain_author ow cs _)"]
    per_author_concat [OF assms, of "\<lambda>ow cs. snd (snd (chain_author ow cs _))"]
  by (cases p) (auto simp: fold_phase1_def Let_def case_prod_unfold chain_authors_conv; metis)

lemma fold_admission_OkE:
  assumes "fold_admission P inp = Ok p"
  obtains streams cf creator_stream acard rej forks where
    "check_raw_budget (fi_limits inp) (fi_streams inp) = Ok ()"
    "canonical_streams P (fi_streams inp) = (streams, cf)"
    "check_merged_budget (fi_limits inp) streams = Ok ()"
    "resolve_genesis P inp streams cf = Ok (creator_stream, acard, p1_genesis p, p1_genesis_hash p)"
    "build_roster_chain P creator_stream (fi_list_uuid inp) (fi_creator inp) acard (p1_genesis_hash p)
       (max_roster_members (fi_limits inp)) (bset_of_list (gm_roster (p1_genesis p))) = Ok (p1_rosters p, rej, forks)"
    "p1_admitted p = fst (apply_lamport_cap (chained_of P cf (fi_list_uuid inp) (p1_genesis_hash p) (p1_rosters p) streams))"
    "p1_forks p = forks @ forks_of P cf (fi_list_uuid inp) (p1_genesis_hash p) (p1_rosters p) streams"
proof -
  obtain streams cf where c: "canonical_streams P (fi_streams inp) = (streams, cf)" by force
  have wf: "bt_wf streams" using canonical_streams_wf [of P "fi_streams inp"] c by simp
  from assms c have b: "check_raw_budget (fi_limits inp) (fi_streams inp) = Ok ()"
    "check_merged_budget (fi_limits inp) streams = Ok ()" and p: "fold_phase1 P inp streams cf = Ok p"
    by (auto simp: fold_admission_def)
  with that [OF b(1) c b(2)] show thesis unfolding fold_phase1_Ok_iff [OF wf] by blast
qed

lemma check_merged_budget_Ok_iff:
  "check_merged_budget lim m = Ok u \<longleftrightarrow> (\<forall>(k, s) \<in> set m. length (as_records s) \<le> unat (max_records_per_stream lim))"
  by (induction lim m rule: check_merged_budget.induct) auto

lemma fold_v2_Ok_iff: "fold_v2 P inp = Ok out \<longleftrightarrow> (\<exists>p. fold_admission P inp = Ok p \<and> out = fold_phase2 p)"
  by (auto simp: fold_v2_def)

section \<open>Authentication of admitted events\<close>

lemma chain_author_subset: "set (fst (chain_author a cs g)) \<subseteq> set cs"
  using chain_author_chain(2) [of a cs g] by (cases "chain_author a cs g") (auto simp: uncontested_def)

lemma apply_lamport_cap_subset: "set (fst (apply_lamport_cap cs)) \<subseteq> set cs"
  using lamport_fixpoint_greatest [of "sort_key fold_order cs"] by (auto simp: apply_lamport_cap_def)

text \<open>
  An event is authenticated when a record of the input, in a store of its author, carries it under
  an envelope signed with the key that derives to the author's id, bound to this list, this genesis
  and the roster of its epoch.
\<close>

definition authenticated :: "prims \<Rightarrow> fold_input \<Rightarrow> string \<Rightarrow> string btree_set list \<Rightarrow> admitted \<Rightarrow> bool" where
  "authenticated P inp g rosters a \<longleftrightarrow>
     (\<exists>acard rec. rec \<in> owner_records (fi_streams inp) (ad_author a) \<and>
        bound_record P (ad_author a) acard (fi_list_uuid inp) g rosters rec a)"

lemma chained_authenticated:
  assumes c: "canonical_streams P (fi_streams inp) = (streams, cf)" and "(owner, s) \<in> set streams"
    and "a \<in> set (stream_candidates P cf (fi_list_uuid inp) g rosters owner s)"
  shows "ad_author a = owner" and "authenticated P inp g rosters a"
proof -
  from stream_candidates_mem [OF assms(3)] obtain acard rec where
    rec: "rec \<in> set (as_records s)" "bound_record P owner acard (fi_list_uuid inp) g rosters rec a" by blast
  then show owner: "ad_author a = owner" by (simp add: bound_record_def)
  have "bt_get streams owner = Some s"
    using assms(2) canonical_streams_wf [of P "fi_streams inp"] c bt.in_entries_iff by force
  then have "set (as_records s) = owner_records (fi_streams inp) owner"
    using canonical_streams_get(2) [of P "fi_streams inp"] c by simp
  with rec owner show "authenticated P inp g rosters a" by (auto simp: authenticated_def)
qed

text \<open>The stream an admitted event comes from.\<close>

lemma admitted_origin:
  assumes "fold_admission P inp = Ok p" and "a \<in> set (p1_admitted p)"
  obtains streams cf owner s where "canonical_streams P (fi_streams inp) = (streams, cf)" and "(owner, s) \<in> set streams"
    and "a \<in> set (stream_candidates P cf (fi_list_uuid inp) (p1_genesis_hash p) (p1_rosters p) owner s)"
  using assms(1)
proof (rule fold_admission_OkE)
  fix streams cf creator_stream acard rej forks
  let ?g = "p1_genesis_hash p" and ?r = "p1_rosters p"
  assume c: "canonical_streams P (fi_streams inp) = (streams, cf)"
    and adm: "p1_admitted p = fst (apply_lamport_cap (chained_of P cf (fi_list_uuid inp) ?g ?r streams))"
  from assms(2) have "a \<in> set (chained_of P cf (fi_list_uuid inp) ?g ?r streams)"
    unfolding adm by (rule subsetD [OF apply_lamport_cap_subset])
  then obtain owner s where "(owner, s) \<in> set streams"
    "a \<in> set (fst (chain_author owner (stream_candidates P cf (fi_list_uuid inp) ?g ?r owner s) ?g))"
    by auto
  with chain_author_subset that [OF c] show thesis by blast
qed

lemma fold_admission_authenticated:
  assumes "fold_admission P inp = Ok p" and "a \<in> set (p1_admitted p)"
  shows "authenticated P inp (p1_genesis_hash p) (p1_rosters p) a"
  using assms by (rule admitted_origin) (rule chained_authenticated(2))

lemma fold_admission_not_conflicted:
  assumes "fold_admission P inp = Ok p" and "a \<in> set (p1_admitted p)"
  shows "card (all_cards (fi_streams inp) (ad_author a)) \<le> 1"
  using assms
proof (rule admitted_origin)
  fix streams cf owner s
  assume c: "canonical_streams P (fi_streams inp) = (streams, cf)" and s: "(owner, s) \<in> set streams"
    and a: "a \<in> set (stream_candidates P cf (fi_list_uuid inp) (p1_genesis_hash p) (p1_rosters p) owner s)"
  have "ad_author a = owner" by (rule chained_authenticated(1) [OF c s a])
  moreover have "bt_get cf owner = None" using stream_candidates_mem [OF a] by blast
  moreover have "owner \<in> owners (fi_streams inp)"
    using canonical_streams_dom [of P "fi_streams inp" owner] s c by (auto simp: bt_get_keys [symmetric] image_iff)
      (metis bt_get_keys fst_conv image_eqI)
  ultimately show ?thesis
    using canonical_streams_conflicted [of P "fi_streams inp" owner] c by (auto split: if_splits)
qed

section \<open>The chain of each author\<close>

text \<open>The admitted events of an author in sequence order.\<close>

definition author_events :: "phase1 \<Rightarrow> string \<Rightarrow> admitted list" where
  "author_events p a = sort_key ad_author_seq (filter (\<lambda>x. ad_author x = a) (p1_admitted p))"

lemma filter_concat_key:
  assumes "distinct (map fst m)" and "\<And>k v x. (k, v) \<in> set m \<Longrightarrow> x \<in> set (f k v) \<Longrightarrow> h x = k"
  shows "filter (\<lambda>x. h x = a) (concat (map (\<lambda>(k, v). f k v) m)) = (case map_of m a of None \<Rightarrow> [] | Some v \<Rightarrow> f a v)"
  using assms
proof (induction m)
  case (Cons e m)
  obtain k v where e: "e = (k, v)" by force
  have IH: "filter (\<lambda>x. h x = a) (concat (map (\<lambda>(k, v). f k v) m)) = (case map_of m a of None \<Rightarrow> [] | Some v \<Rightarrow> f a v)"
    using Cons by auto
  have hd: "h x = k" if "x \<in> set (f k v)" for x using Cons.prems(2) [of k v x] e that by simp
  show ?case
  proof (cases "k = a")
    case True
    then have "map_of m a = None" using Cons.prems(1) e by (auto simp: map_of_eq_None_iff)
    with IH hd True e show ?thesis by (simp add: filter_id_conv)
  next
    case False
    with hd have "filter (\<lambda>x. h x = a) (f k v) = []" by (auto simp: filter_empty_conv)
    with IH False e show ?thesis by simp
  qed
qed simp

lemma author_chain_before_cap:
  fixes a g :: string and rosters :: "string btree_set list" and inp :: fold_input
  assumes c: "canonical_streams P (fi_streams inp) = (streams, cf)" and b: "check_merged_budget lim streams = Ok ()"
  defines "evs \<equiv> filter (\<lambda>x. ad_author x = a) (chained_of P cf (fi_list_uuid inp) g rosters streams)"
  shows "hash_chain g 1 evs" and "length evs < 2 ^ 64"
proof -
  let ?cands = "stream_candidates P cf (fi_list_uuid inp) g rosters"
  let ?f = "\<lambda>owner s. fst (chain_author owner (?cands owner s) g)"
  have wf: "bt_wf streams" using canonical_streams_wf [of P "fi_streams inp"] c by simp
  have own: "ad_author x = k" if "(k, s) \<in> set streams" "x \<in> set (?f k s)" for k s x
    using that chain_author_subset chained_authenticated(1) [OF c] by blast
  have evs: "evs = (case map_of streams a of None \<Rightarrow> [] | Some s \<Rightarrow> ?f a s)"
    unfolding evs_def using filter_concat_key [OF bt.entries_distinct [OF wf], of ?f ad_author a] own by blast
  show "hash_chain g 1 evs" using chain_author_chain(1) [of a _ g]
    by (auto simp: evs split: option.splits) (metis prod.collapse)
  have "length evs < 2 ^ 64" if s: "map_of streams a = Some s" for s
  proof -
    have "length evs \<le> length (as_records s)"
      using s length_chain_author [of a "?cands a s" g] length_stream_candidates [of P cf _ g _ a s]
      by (simp add: evs) (meson order_trans)
    also have "\<dots> \<le> unat (max_records_per_stream lim)"
      using b map_of_SomeD [OF s] by (auto simp: check_merged_budget_Ok_iff)
    also have "\<dots> < 2 ^ LENGTH(64)" by (rule unsigned_less)
    finally show ?thesis by simp
  qed
  then show "length evs < 2 ^ 64" by (cases "map_of streams a") (simp_all add: evs)
qed

text \<open>The cap keeps a prefix of an author's chain.\<close>

lemma cap_keeps_prefix:
  assumes "hash_chain g 1 (filter (\<lambda>x. ad_author x = a) cs)" and "length (filter (\<lambda>x. ad_author x = a) cs) < 2 ^ 64"
  shows "\<exists>k. sort_key ad_author_seq (filter (\<lambda>x. ad_author x = a) (fst (apply_lamport_cap cs))) =
           take k (filter (\<lambda>x. ad_author x = a) cs)"
proof -
  let ?evs = "filter (\<lambda>x. ad_author x = a) cs"
  have sorted: "sorted_wrt (<) (map ad_author_seq ?evs)"
    using assms by (intro hash_chain_sorted) auto
  obtain S where S: "fst (apply_lamport_cap cs) = filter (\<lambda>x. x \<in> S) (sort_key fold_order cs)"
    "cap_admissible (sort_key fold_order cs) S"
    using lamport_fixpoint_greatest [of "sort_key fold_order cs"] by (auto simp: apply_lamport_cap_def)
  have "\<exists>k. filter (\<lambda>x. x \<in> S) ?evs = take k ?evs"
  proof (rule filter_downset [OF sorted])
    fix x y assume "x \<in> set ?evs" "y \<in> set ?evs" "ad_author_seq y \<le> ad_author_seq x" "x \<in> S"
    with S(2) show "y \<in> S" unfolding cap_admissible_def by auto
  qed
  then obtain k where k: "filter (\<lambda>x. x \<in> S) ?evs = take k ?evs" ..
  have "mset (filter (\<lambda>x. ad_author x = a) (fst (apply_lamport_cap cs))) = mset (filter (\<lambda>x. x \<in> S) ?evs)"
    by (simp add: S(1) filter_filter conj_commute)
  moreover have "sorted_wrt (<) (map ad_author_seq (take k ?evs))"
    using sorted by (metis sorted_wrt_take take_map)
  ultimately show ?thesis by (intro exI [of _ k]) (simp only: k [symmetric] sort_key_unique)
qed

lemma fold_admission_author_chain:
  assumes "fold_admission P inp = Ok p"
  shows "hash_chain (p1_genesis_hash p) 1 (author_events p a) \<and> length (author_events p a) < 2 ^ 64"
  using assms
proof (rule fold_admission_OkE)
  fix streams cf creator_stream acard rej forks
  assume c: "canonical_streams P (fi_streams inp) = (streams, cf)"
    and b: "check_merged_budget (fi_limits inp) streams = Ok ()"
    and adm: "p1_admitted p = fst (apply_lamport_cap (chained_of P cf (fi_list_uuid inp) (p1_genesis_hash p) (p1_rosters p) streams))"
  define evs where "evs = filter (\<lambda>x. ad_author x = a)
    (chained_of P cf (fi_list_uuid inp) (p1_genesis_hash p) (p1_rosters p) streams)"
  note ch = author_chain_before_cap [OF c b, where a = a and g = "p1_genesis_hash p" and rosters = "p1_rosters p", folded evs_def]
  obtain k where k: "author_events p a = take k evs"
    using cap_keeps_prefix [OF ch [unfolded evs_def]] unfolding author_events_def adm evs_def by (rule exE)
  have "length (take k evs) \<le> length evs" by simp
  with ch(2) have "length (take k evs) < 2 ^ 64" by (rule le_less_trans [rotated])
  then show ?thesis unfolding k using hash_chain_take [OF ch(1)] by blast
qed

section \<open>Chain tips\<close>

lemma author_chain_tips_snoc: "author_chain_tips (xs @ [x]) = chain_tip_step (author_chain_tips xs) x"
  by (simp add: author_chain_tips_def)

lemma author_chain_tips_get:
  "(case bt_get (author_chain_tips xs) a of
      None \<Rightarrow> \<forall>x \<in> set xs. ad_author x \<noteq> a
    | Some tip \<Rightarrow> (\<exists>x \<in> set xs. ad_author x = a \<and> ct_author_seq tip = ad_author_seq x \<and> ct_last_event_hash tip = ad_event_hash x) \<and>
        (\<forall>x \<in> set xs. ad_author x = a \<longrightarrow> ad_author_seq x \<le> ct_author_seq tip))"
proof (induction xs rule: rev_induct)
  case (snoc y xs)
  then show ?case
  proof (cases "ad_author y = a")
    case True
    with snoc show ?thesis
      by (auto simp: author_chain_tips_snoc chain_tip_step_def Let_def split: option.splits)
  next
    case False
    then have "bt_get (author_chain_tips (xs @ [y])) a = bt_get (author_chain_tips xs) a"
      by (auto simp: author_chain_tips_snoc chain_tip_step_def Let_def)
    with snoc False show ?thesis by (auto split: option.splits)
  qed
qed (simp add: author_chain_tips_def)

lemma last_greatest: "sorted_wrt (<) (map (f :: 'a \<Rightarrow> 'k::linorder) xs) \<Longrightarrow> x \<in> set xs \<Longrightarrow> \<forall>y \<in> set xs. f y \<le> f x \<Longrightarrow> x = last xs"
proof (induction xs)
  case (Cons y xs)
  then show ?case by (cases "xs = []") (auto, metis last_in_set leD)
qed simp

lemma next_chain_link_events:
  assumes "fold_admission P inp = Ok p"
  shows "next_chain_link (fold_phase2 p) a =
    (of_nat (length (author_events p a)) + 1,
     if author_events p a = [] then p1_genesis_hash p else ad_event_hash (last (author_events p a)))"
proof -
  let ?evs = "author_events p a"
  note ch = fold_admission_author_chain [OF assms, of a]
  have sorted: "sorted_wrt (<) (map ad_author_seq ?evs)" using ch by (intro hash_chain_sorted [OF conjunct1]) auto
  have set: "set ?evs = {x \<in> set (p1_admitted p). ad_author x = a}" by (simp add: author_events_def)
  show ?thesis
  proof (cases "bt_get (author_chain_tips (p1_admitted p)) a")
    case None
    with author_chain_tips_get [of "p1_admitted p" a] set have "set ?evs = {}" by simp
    then have "?evs = []" by simp
    with None show ?thesis by (simp add: next_chain_link_def fold_phase2_def Let_def)
  next
    case (Some tip)
    with author_chain_tips_get [of "p1_admitted p" a] set obtain x where
      x: "x \<in> set ?evs" "ct_author_seq tip = ad_author_seq x" "ct_last_event_hash tip = ad_event_hash x"
      and gr: "\<forall>y \<in> set ?evs. ad_author_seq y \<le> ad_author_seq x" by auto
    then have "x = last ?evs" "?evs \<noteq> []" using last_greatest [OF sorted] by auto
    moreover from this obtain es where es: "?evs = es @ [x]" by (metis append_butlast_last_id)
    with ch have "ad_author_seq x = 1 + of_nat (length es)" by (simp add: hash_chain_snoc)
    with es have "ad_author_seq x = of_nat (length ?evs)" by simp
    ultimately show ?thesis using Some x by (simp add: next_chain_link_def fold_phase2_def Let_def)
  qed
qed

section \<open>Genesis, cap and clock of a successful admission\<close>

lemma resolve_genesis_OkD:
  assumes "resolve_genesis P inp streams cf = Ok (creator_stream, acard, genesis, gh)"
  shows "bt_get streams (fi_creator inp) = Some creator_stream \<and>
    length (gm_roster genesis) \<le> unat (max_roster_members (fi_limits inp)) \<and>
    (\<exists>rec payload. rec \<in> set (as_records creator_stream) \<and> sr_key rec = GENESIS_KEY \<and>
      signed_by P (sr_value rec) GENESIS_CONTEXT_V2 acard (fi_creator inp) payload \<and>
      json_genesis P payload = Ok genesis \<and> gh = sha256_hex P payload \<and>
      gm_list_uuid genesis = fi_list_uuid inp \<and> gm_creator genesis = fi_creator inp \<and> gm_roster genesis \<noteq> [])"
proof -
  from assms obtain rec where cs: "bt_get streams (fi_creator inp) = Some creator_stream"
    and f: "find (\<lambda>r. sr_key r = GENESIS_KEY) (as_records creator_stream) = Some rec"
    and v: "verify_genesis P rec (fi_list_uuid inp) (fi_creator inp) acard = Ok (genesis, gh)"
    and len: "length (gm_roster genesis) \<le> unat (max_roster_members (fi_limits inp))"
    by (auto simp: resolve_genesis_def split: option.splits if_splits)
  from f have "rec \<in> set (as_records creator_stream)" "sr_key rec = GENESIS_KEY" by (auto simp: find_Some_iff)
  moreover from v obtain env payload where "decode_envelope P (sr_value rec) = Ok env"
    "verify_envelope P env GENESIS_CONTEXT_V2 = Ok (payload, gh)"
    "check_envelope_key P env (fi_creator inp) acard = Ok ()" "json_genesis P payload = Ok genesis"
    "gm_list_uuid genesis = fi_list_uuid inp" "gm_creator genesis = fi_creator inp" "gm_roster genesis \<noteq> []"
    by (auto simp: verify_genesis_def split: if_splits)
  ultimately show ?thesis using cs len signed_byI by blast
qed

lemma fold_admission_within_cap:
  assumes "fold_admission P inp = Ok p"
  shows "within_cap 0 (p1_admitted p)"
  using assms
proof (rule fold_admission_OkE)
  fix streams cf
  assume adm: "p1_admitted p = fst (apply_lamport_cap (chained_of P cf (fi_list_uuid inp) (p1_genesis_hash p) (p1_rosters p) streams))"
  show ?thesis unfolding adm apply_lamport_cap_def
    using lamport_fixpoint_greatest [of "sort_key fold_order (chained_of P cf (fi_list_uuid inp) (p1_genesis_hash p) (p1_rosters p) streams)"]
    by (auto simp: cap_admissible_def)
qed

lemma max_lamport_le:
  assumes "\<And>a. a \<in> set as \<Longrightarrow> unat (ad_lamport a) \<le> n"
  shows "unat (max_lamport as) \<le> n"
proof -
  have "unat (foldl max m (map ad_lamport as)) \<le> n" if "unat m \<le> n" for m
    using that assms by (induction as arbitrary: m) (auto simp: max_def)
  from this [of 0] show ?thesis by (simp add: max_lamport_def)
qed


section \<open>The folded issues\<close>

lemma folded_issue_traced:
  assumes "fold_admission P inp = Ok p" and "bt_get (fo_issues (fold_phase2 p)) i = Some issue"
  shows "is_issue_id issue = i \<and> issue_traced {a. authenticated P inp (p1_genesis_hash p) (p1_rosters p) a} issue"
proof -
  have "is_issue_id issue = i \<and> issue_traced (set (p1_admitted p)) issue"
    using phase2_run_inv [of "sort_key fold_order (p1_admitted p)" "p1_rejections p"] assms(2)
    by (auto simp: p2_inv_def fold_phase2_def Let_def)
  then show ?thesis
    using issue_traced_mono fold_admission_authenticated [OF assms(1)] by (metis mem_Collect_eq subsetI)
qed

end
