(* ===== verification/Fold_Outsiders.thy ===== *)
theory Fold_Outsiders
  imports Fold_Correct
begin

text \<open>
  Non-interference of the v2 fold (\<open>fold_v2\<close> of \<^verbatim>\<open>v2/fold.rs\<close>): two inputs that agree on the streams of the
  creator and of the roster members fold to the same output, up to the list of rejections, whatever
  the streams of other owners contain, as long as both are within the budgets.
\<close>

section \<open>Streams outside the rosters do not matter\<close>

text \<open>Two inputs carry the same content for one owner.\<close>

definition same_for :: "string \<Rightarrow> author_stream list \<Rightarrow> author_stream list \<Rightarrow> bool" where
  "same_for k ss ss' \<longleftrightarrow> (k \<in> owners ss \<longleftrightarrow> k \<in> owners ss') \<and>
     owner_records ss k = owner_records ss' k \<and> owner_cards ss k = owner_cards ss' k"

text \<open>Everyone who is on some accepted roster.\<close>

definition roster_members :: "string btree_set list \<Rightarrow> string set" where
  "roster_members rosters = (\<Union>r \<in> set rosters. set r)"

lemma canonical_same_for:
  assumes s: "same_for k ss ss'"
  shows "bt_get (snd (canonical_streams P ss)) k = bt_get (snd (canonical_streams P ss')) k"
    and "bt_get (snd (canonical_streams P ss)) k = None \<Longrightarrow>
      bt_get (fst (canonical_streams P ss)) k = bt_get (fst (canonical_streams P ss')) k"
proof -
  have ac: "all_cards ss k = all_cards ss' k" using s by (simp add: all_cards_def same_for_def)
  show cf: "bt_get (snd (canonical_streams P ss)) k = bt_get (snd (canonical_streams P ss')) k"
    using s by (simp add: canonical_streams_conflicted ac same_for_def)
  assume none: "bt_get (snd (canonical_streams P ss)) k = None"
  have dom: "bt_get (fst (canonical_streams P ss)) k = None \<longleftrightarrow> bt_get (fst (canonical_streams P ss')) k = None"
    using s by (simp add: canonical_streams_dom same_for_def)
  show "bt_get (fst (canonical_streams P ss)) k = bt_get (fst (canonical_streams P ss')) k"
  proof (cases "bt_get (fst (canonical_streams P ss)) k")
    case None
    with dom show ?thesis by simp
  next
    case (Some e)
    with dom obtain e' where e': "bt_get (fst (canonical_streams P ss')) k = Some e'" by auto
    note g = canonical_streams_get [OF Some] and g' = canonical_streams_get [OF e']
    have "as_records e = as_records e'"
      using g(2,3) g'(2,3) s sort_dedup_canonical [OF _ inj_record_order, of "as_records e" "as_records e'"]
      by (simp add: same_for_def)
    moreover have "as_card_self e = as_card_self e'"
    proof -
      have u: "x = y" if "x \<in> owner_cards ss k" "y \<in> owner_cards ss k" for x y
        using owner_card_unique [OF Some] none that by (auto simp: bt_contains_key_def all_cards_def)
      have oc: "owner_cards ss' k = owner_cards ss k" using s by (simp add: same_for_def)
      show ?thesis
      proof (cases "as_card_self e")
        case None
        then have "owner_cards ss' k = {}" using g(4) oc by simp
        with g'(5) None show ?thesis by (cases "as_card_self e'") auto
      next
        case (Some x)
        then have "x \<in> owner_cards ss k" using g(5) by simp
        with g'(4,5) Some u oc show ?thesis by (cases "as_card_self e'") auto
      qed
    qed
    ultimately show ?thesis using Some e' g(1) g'(1) by (cases e, cases e') auto
  qed
qed

lemma stream_candidates_outsider:
  assumes "owner \<notin> roster_members rosters"
  shows "stream_candidates P cf l g rosters owner s = []"
proof (rule ccontr)
  assume "stream_candidates P cf l g rosters owner s \<noteq> []"
  then obtain a where "a \<in> set (stream_candidates P cf l g rosters owner s)" by (meson list.set_sel(1))
  then obtain acard rec where "bound_record P owner acard l g rosters rec a" using stream_candidates_mem by blast
  then show False using assms by (auto simp: bound_record_def roster_members_def nth_opt_Some_iff)
qed

lemma stream_candidates_same:
  assumes "bt_get cf k = bt_get cf' k" and "bt_get cf k = None \<Longrightarrow> s = s'"
  shows "stream_candidates P cf l g rosters k s = stream_candidates P cf' l g rosters k s'"
  using assms by (cases "bt_get cf' k") (simp_all add: stream_candidates_def admit_stream_def)

lemma concat_keys:
  assumes "bt_wf m" and "\<And>k v. (k, v) \<in> set m \<Longrightarrow> k \<notin> M \<Longrightarrow> f k v = []"
  shows "concat (map (\<lambda>(k, v). f k v) m) =
    concat (map (\<lambda>k. case bt_get m k of None \<Rightarrow> [] | Some v \<Rightarrow> f k v) (filter (\<lambda>k. k \<in> M) (map fst m)))"
proof -
  have get: "bt_get m k = Some v" if "(k, v) \<in> set m" for k v using that bt.in_entries_iff [OF assms(1)] by simp
  have "concat (map (\<lambda>(k, v). f k v) xs) =
    concat (map (\<lambda>k. case bt_get m k of None \<Rightarrow> [] | Some v \<Rightarrow> f k v) (filter (\<lambda>k. k \<in> M) (map fst xs)))"
    if "set xs \<subseteq> set m" for xs
    using that by (induction xs) (auto simp: get assms(2))
  then show ?thesis by simp
qed

lemma concat_same:
  assumes wf: "bt_wf m" "bt_wf m'"
    and out: "\<And>k v. k \<notin> M \<Longrightarrow> f k v = []" "\<And>k v. k \<notin> M \<Longrightarrow> f' k v = []"
    and dom: "\<And>k. k \<in> M \<Longrightarrow> bt_get m k = None \<longleftrightarrow> bt_get m' k = None"
    and val: "\<And>k v v'. k \<in> M \<Longrightarrow> bt_get m k = Some v \<Longrightarrow> bt_get m' k = Some v' \<Longrightarrow> f k v = f' k v'"
  shows "concat (map (\<lambda>(k, v). f k v) m) = concat (map (\<lambda>(k, v). f' k v) m')"
proof -
  have "k \<in> fst ` set m \<longleftrightarrow> k \<in> fst ` set m'" if "k \<in> M" for k
    using dom [OF that] bt_get_keys [of m k] bt_get_keys [of m' k] by blast
  then have "set (filter (\<lambda>k. k \<in> M) (map fst m)) = set (filter (\<lambda>k. k \<in> M) (map fst m'))"
    unfolding set_filter set_map by blast
  moreover have "sorted_wrt (<) (filter (\<lambda>k. k \<in> M) (map fst m))" "sorted_wrt (<) (filter (\<lambda>k. k \<in> M) (map fst m'))"
    using wf by (auto simp: bt_wf_def intro: sorted_wrt_filter)
  ultimately have "filter (\<lambda>k. k \<in> M) (map fst m) = filter (\<lambda>k. k \<in> M) (map fst m')"
    by (intro strict_sorted_equal)
  moreover have "(case bt_get m k of None \<Rightarrow> [] | Some v \<Rightarrow> f k v) = (case bt_get m' k of None \<Rightarrow> [] | Some v \<Rightarrow> f' k v)"
    if "k \<in> M" for k
    using dom [OF that] val [OF that] by (auto split: option.splits)
  ultimately have "concat (map (\<lambda>k. case bt_get m k of None \<Rightarrow> [] | Some v \<Rightarrow> f k v) (filter (\<lambda>k. k \<in> M) (map fst m))) =
    concat (map (\<lambda>k. case bt_get m' k of None \<Rightarrow> [] | Some v \<Rightarrow> f' k v) (filter (\<lambda>k. k \<in> M) (map fst m')))"
    by (intro arg_cong [of _ _ concat] map_cong) auto
  then show ?thesis
    using concat_keys [of m M f, OF wf(1) out(1)] concat_keys [of m' M f', OF wf(2) out(2)] by metis
qed

lemma fold_admission_outsiders:
  assumes p: "fold_admission P inp = Ok p" and creator: "same_for (fi_creator inp) (fi_streams inp) ss'"
    and members: "\<And>k. k \<in> roster_members (p1_rosters p) \<Longrightarrow> same_for k (fi_streams inp) ss'"
    and raw: "check_raw_budget (fi_limits inp) ss' = Ok ()"
    and merged: "check_merged_budget (fi_limits inp) (fst (canonical_streams P ss')) = Ok ()"
  shows "\<exists>rej. fold_admission P (inp\<lparr>fi_streams := ss'\<rparr>) = Ok (p\<lparr>p1_rejections := rej\<rparr>)"
  using p
proof (rule fold_admission_OkE)
  let ?g = "p1_genesis_hash p" and ?r = "p1_rosters p"
  fix m cf creator_stream acard rej forks
  assume c: "canonical_streams P (fi_streams inp) = (m, cf)"
    and res: "resolve_genesis P inp m cf = Ok (creator_stream, acard, p1_genesis p, ?g)"
    and ros: "build_roster_chain P creator_stream (fi_list_uuid inp) (fi_creator inp) acard ?g
       (max_roster_members (fi_limits inp)) (bset_of_list (gm_roster (p1_genesis p))) = Ok (?r, rej, forks)"
    and adm: "p1_admitted p = fst (apply_lamport_cap (chained_of P cf (fi_list_uuid inp) ?g ?r m))"
    and fk: "p1_forks p = forks @ forks_of P cf (fi_list_uuid inp) ?g ?r m"
  obtain m' cf' where c': "canonical_streams P ss' = (m', cf')" by force
  have wf: "bt_wf m" "bt_wf m'" using canonical_streams_wf [of P] c c' by (metis fst_conv)+
  note same = canonical_same_for [where P = P and ss = "fi_streams inp" and ss' = ss', unfolded c c', simplified]
  have "bt_get cf (fi_creator inp) = None"
    using res by (cases "bt_get cf (fi_creator inp)") (auto simp: resolve_genesis_def)
  with same [OF creator] have "bt_get cf (fi_creator inp) = None" "bt_get cf' (fi_creator inp) = None"
    "bt_get m (fi_creator inp) = bt_get m' (fi_creator inp)" by auto
  then have "resolve_genesis P inp m' cf' = resolve_genesis P inp m cf"
    by (simp add: resolve_genesis_def)
  moreover have cand: "stream_candidates P cf (fi_list_uuid inp) ?g ?r k s = stream_candidates P cf' (fi_list_uuid inp) ?g ?r k s'"
    if "k \<in> roster_members ?r" "bt_get m k = Some s" "bt_get m' k = Some s'" for k s s'
    using same [OF members [OF that(1)]] that by (intro stream_candidates_same) auto
  moreover have dom: "bt_get m k = None \<longleftrightarrow> bt_get m' k = None" if "k \<in> roster_members ?r" for k
    using members [OF that] canonical_streams_dom [of P "fi_streams inp" k] canonical_streams_dom [of P ss' k] c c'
    by (simp add: same_for_def)
  have "chained_of P cf (fi_list_uuid inp) ?g ?r m = chained_of P cf' (fi_list_uuid inp) ?g ?r m'"
    by (rule concat_same [OF wf, where M = "roster_members ?r"])
      (auto simp: stream_candidates_outsider dom cand)
  moreover have "forks_of P cf (fi_list_uuid inp) ?g ?r m = forks_of P cf' (fi_list_uuid inp) ?g ?r m'"
    by (rule concat_same [OF wf, where M = "roster_members ?r"])
      (auto simp: stream_candidates_outsider dom cand)
  ultimately have "\<exists>rej. fold_phase1 P inp m' cf' = Ok (p\<lparr>p1_rejections := rej\<rparr>)"
    unfolding fold_phase1_Ok_iff [OF wf(2)] using res ros adm fk by simp
  then show ?thesis
    using raw merged by (auto simp: fold_admission_def c' fold_phase1_streams_indep)
qed

lemma phase2_step_rejections:
  "phase2_step aps (st\<lparr>p2_rejections := r\<rparr>) a = (phase2_step aps st a)\<lparr>p2_rejections := r @ drop (length (p2_rejections st)) (p2_rejections (phase2_step aps st a))\<rparr>"
  by (simp add: phase2_step_def split: chained_payload.split result.split)

lemma phase2_run_rejections_indep:
  "\<exists>r. phase2_run rej' ordered = (phase2_run rej ordered)\<lparr>p2_rejections := r\<rparr>"
proof -
  have "\<exists>r. foldl (phase2_step aps) (st\<lparr>p2_rejections := r0\<rparr>) xs = (foldl (phase2_step aps) st xs)\<lparr>p2_rejections := r\<rparr>" for aps st r0 xs
  proof (induction xs arbitrary: st r0)
    case (Cons x xs)
    then show ?case by (simp add: phase2_step_rejections)
  qed auto
  then show ?thesis by (metis phase2_run_def phase2_init_def phase2.update_convs(5))
qed

lemma fold_phase2_rejections_indep:
  "\<exists>r. fold_phase2 (p\<lparr>p1_rejections := rej\<rparr>) = (fold_phase2 p)\<lparr>fo_rejections := r\<rparr>"
proof -
  obtain r where "phase2_run rej (sort_key fold_order (p1_admitted p)) =
      (phase2_run (p1_rejections p) (sort_key fold_order (p1_admitted p)))\<lparr>p2_rejections := r\<rparr>"
    using phase2_run_rejections_indep by blast
  then show ?thesis by (simp add: fold_phase2_def Let_def)
qed

end
