(* ===== verification/Demo.thy ===== *)
theory Demo
  imports Fold_Outsiders
begin

text \<open>
  A concrete list on which the properties of the fold are instantiated. The third-party primitives
  are small executable functions: the digest of a byte string is its last byte, a signature is
  accepted when key and signature have the sizes of ML-DSA-65, a record's bytes name its envelope
  and a payload's bytes name its event. Two agents take part: the creator \<open>07\<close> opens, claims and
  completes issue \<open>i\<close>, and \<open>09\<close> approves its dispatch.
\<close>

definition demo_key :: "u8 \<Rightarrow> bytes" where
  "demo_key n = replicate 1951 0 @ [n]"

definition demo_b64 :: "string \<Rightarrow> (bytes, string) result" where
  "demo_b64 s = (if s = ''k7'' then Ok (demo_key 7) else if s = ''k9'' then Ok (demo_key 9)
     else if s = ''sig'' then Ok (replicate 3309 0)
     else if prefix ''=='' s then Ok (as_bytes (drop 2 s)) else Ok (as_bytes s))"

definition demo_envelope :: "string \<Rightarrow> string \<Rightarrow> string \<Rightarrow> string \<Rightarrow> event_envelope" where
  "demo_envelope ctx payload key signer =
     \<lparr>ee_schema = 2, ee_context = ctx, ee_algorithm = V2_SIGN_ALGORITHM, ee_payload_b64 = payload,
      ee_public_key_b64 = key, ee_signature_b64 = ''sig'', ee_signer_agent_id = signer\<rparr>"

text \<open>The approval embedded in a requeue, and its justification.\<close>

definition demo_approval_payload :: approval_payload_v2 where
  "demo_approval_payload = \<lparr>apl_schema = 2, apl_kind = ''approval'', apl_list_uuid = ''u'', apl_genesis_manifest_hash = ''31'',
     apl_issue_id = ''i'', apl_block_event_hash = ''40'', apl_claim_nonce = ''6d'', apl_approver = ''09'', apl_approved_at = 0\<rparr>"

definition demo_justification :: requeue_justification where
  "demo_justification = \<lparr>rq_block_event_hash = ''40'', rq_claim_nonce = ''6d'', rq_approval_event_hash = ''61'',
     rq_approval_payload_sha256 = ''61'', rq_approver = ''09'',
     rq_approval = demo_envelope APPROVAL_CONTEXT_V2 ''a'' ''k9'' ''09''\<rparr>"

definition demo_json_envelope :: "bytes \<Rightarrow> (event_envelope, string) result" where
  "demo_json_envelope bs =
     (if bs = as_bytes ''1'' then Ok (demo_envelope GENESIS_CONTEXT_V2 ''1'' ''k7'' ''07'')
      else if bs = as_bytes ''2'' then Ok (demo_envelope TRANSITION_CONTEXT_V2 ''2'' ''k7'' ''07'')
      else if bs = as_bytes ''3'' then Ok (demo_envelope TRANSITION_CONTEXT_V2 ''3'' ''k7'' ''07'')
      else if bs = as_bytes ''4'' then Ok (demo_envelope APPROVAL_CONTEXT_V2 ''4'' ''k9'' ''09'')
      else if bs = as_bytes ''5'' then Ok (demo_envelope CONSUME_CONTEXT_V2 ''5'' ''k7'' ''07'')
      else if bs = as_bytes ''6'' then Ok (demo_envelope TRANSITION_CONTEXT_V2 ''6'' ''k7'' ''07'')
      else if bs = as_bytes ''7'' then Ok (demo_envelope HANDOFF_CONTEXT_V2 ''7'' ''k7'' ''07'')
      else if bs = as_bytes ''8'' then Ok (demo_envelope TRANSITION_CONTEXT_V2 ''8'' ''k7'' ''07'')
      else Err ''expected value'')"

definition demo_genesis :: genesis_manifest_v2 where
  "demo_genesis = \<lparr>gm_schema = 2, gm_kind = ''genesis'', gm_list_uuid = ''u'', gm_creator = ''07'',
     gm_roster = [''07'', ''09''], gm_policy = \<lparr>gp_required_trust = None\<rparr>, gm_created_at = 0\<rparr>"

definition demo_transition :: "transition_kind \<Rightarrow> u64 \<Rightarrow> u64 \<Rightarrow> string \<Rightarrow> transition_event_v2" where
  "demo_transition k lamport seq prev = \<lparr>te_schema = 2, te_list_uuid = ''u'', te_genesis_manifest_hash = ''31'',
     te_roster_epoch = 0, te_issue_id = ''i'', te_actor = ''07'', te_lamport = lamport, te_author_seq = seq,
     te_prev_own_event_hash = prev, te_kind = k\<rparr>"

definition demo_approval :: approval_event_v2 where
  "demo_approval = \<lparr>ae_schema = 2, ae_kind = ''dispatch_approval'', ae_list_uuid = ''u'', ae_genesis_manifest_hash = ''31'',
     ae_roster_epoch = 0, ae_issue_id = ''i'', ae_open_event_hash = ''32'', ae_actor = ''09'', ae_lamport = 3, ae_author_seq = 1,
     ae_prev_own_event_hash = ''31'', ae_verdict = Approve, ae_entropy = '''', ae_approved_at = 0, ae_v1_record_json = ''''\<rparr>"

definition demo_consume :: consume_event_v2 where
  "demo_consume = \<lparr>ce_schema = 2, ce_kind = ''consume'', ce_list_uuid = ''u'', ce_genesis_manifest_hash = ''31'',
     ce_roster_epoch = 0, ce_issue_id = ''i'', ce_actor = ''07'', ce_lamport = 4, ce_author_seq = 3,
     ce_prev_own_event_hash = ''33'', ce_approval_event_hash = ''34'', ce_approval_payload_sha256 = ''34'',
     ce_approver = ''09'', ce_claim_nonce = ''6d'', ce_claimed_event_hash = ''33'', ce_entropy = ''65'', ce_v1_record_json = ''''\<rparr>"

definition demo_handoff :: handoff_event_v2 where
  "demo_handoff = \<lparr>he_schema = 2, he_kind = ''handoff'', he_list_uuid = ''u'', he_genesis_manifest_hash = ''31'',
     he_roster_epoch = 0, he_issue_id = ''i'', he_actor = ''07'', he_lamport = 5, he_author_seq = 4,
     he_prev_own_event_hash = ''35'', he_claim_nonce = ''6d'', he_claimed_event_hash = ''33'', 
     he_summary = ''runner '' @ [CHR 0x27] @ ''shell'' @ [CHR 0x27] @ '' succeeded after 1 attempt(s)'',
     he_files_changed = [], he_validation = [], he_follow_up = [], he_proofs_dir = Some ''proofs''\<rparr>"

definition demo_json_transition :: "bytes \<Rightarrow> (transition_event_v2, string) result" where
  "demo_json_transition bs =
     (if bs = as_bytes ''2'' then Ok (demo_transition (TkOpen ''t'' ''s'' ''74'' ''73'') 1 1 ''31'')
      else if bs = as_bytes ''3'' then Ok (demo_transition (TkClaim ''6d'') 2 2 ''32'')
      else if bs = as_bytes ''6'' then Ok (demo_transition (TkComplete ''6d'' ''33'') 6 5 ''37'')
      else if bs = as_bytes ''8'' then Ok (demo_transition (TkRequeue demo_justification) 7 6 ''36'')
      else Err ''expected value'')"

definition demo_prims :: prims where
  "demo_prims =
     \<lparr>sha256 = (\<lambda>bs. [foldl (\<lambda>_ b. b) 0 bs]), b64_decode = demo_b64, mldsa_public_key = Ok, mldsa_signature = Ok,
      mldsa_verify = (\<lambda>k m s. Ok True), json_envelope = demo_json_envelope,
      json_genesis = (\<lambda>bs. if bs = as_bytes ''1'' then Ok demo_genesis else Err ''expected value''),
      json_roster = (\<lambda>bs. Err ''expected value''), json_transition = demo_json_transition,
      json_approval = (\<lambda>bs. if bs = as_bytes ''4'' then Ok demo_approval else Err ''expected value''),
      json_consume = (\<lambda>bs. if bs = as_bytes ''5'' then Ok demo_consume else Err ''expected value''),
      json_handoff = (\<lambda>bs. if bs = as_bytes ''7'' then Ok demo_handoff else Err ''expected value''),
      json_approval_payload = (\<lambda>bs. if bs = as_bytes ''a'' then Ok demo_approval_payload else Err ''expected value'')\<rparr>"

definition demo_record :: "string \<Rightarrow> string \<Rightarrow> store_record" where
  "demo_record k v = \<lparr>sr_key = k, sr_value = as_bytes v\<rparr>"

definition demo_creator :: author_stream where
  "demo_creator = \<lparr>as_owner = ''07'', as_card_self = Some (demo_key 7), as_records =
     [demo_record ''genesis'' ''1'', demo_record ''ev-i-32'' ''2'', demo_record ''ev-i-33'' ''3'',
      demo_record ''cs-i-35'' ''5'', demo_record ''ho-i-37'' ''7'', demo_record ''ev-i-36'' ''6'']\<rparr>"

definition demo_approver :: author_stream where
  "demo_approver = \<lparr>as_owner = ''09'', as_card_self = Some (demo_key 9), as_records = [demo_record ''ap-i-34'' ''4'']\<rparr>"

text \<open>A stream of an owner that is on no roster.\<close>

definition demo_outsider :: author_stream where
  "demo_outsider = \<lparr>as_owner = ''0b'', as_card_self = None, as_records = [demo_record ''ev-i-32'' ''2'']\<rparr>"

definition demo_input :: "author_stream list \<Rightarrow> fold_input" where
  "demo_input streams =
     \<lparr>fi_list_uuid = ''u'', fi_creator = ''07'', fi_streams = streams, fi_limits = default_fold_limits\<rparr>"

section \<open>Evaluation\<close>

lemma demo_derive:
  "derive_agent_id_hex demo_prims (demo_key 7) = ''07''" "derive_agent_id_hex demo_prims (demo_key 9) = ''09''"
proof -
  have "derive_agent_id_hex demo_prims (demo_key n) = hex_byte n" for n
    by (simp add: derive_agent_id_hex_def sha256_hex_def demo_prims_def demo_key_def)
  moreover have "hex_byte 7 = ''07''" "hex_byte 9 = ''09''" by code_simp+
  ultimately show "derive_agent_id_hex demo_prims (demo_key 7) = ''07''" "derive_agent_id_hex demo_prims (demo_key 9) = ''09''"
    by simp_all
qed

lemma demo_b64_simps:
  "b64_decode demo_prims ''k7'' = Ok (demo_key 7)" "b64_decode demo_prims ''k9'' = Ok (demo_key 9)"
  "b64_decode demo_prims ''sig'' = Ok (replicate 3309 0)" "length s = 1 \<Longrightarrow> b64_decode demo_prims s = Ok (as_bytes s)"
  by (auto simp: demo_prims_def demo_b64_def prefix_def)

lemma demo_signature: "verify_external_signature demo_prims c p (replicate 3309 0) (demo_key n) = Ok ()"
  by (simp add: verify_external_signature_def ML_DSA_65_PUBLIC_KEY_SIZE_def ML_DSA_65_SIGNATURE_SIZE_def demo_key_def)
    (auto simp: demo_prims_def)

lemma demo_verify:
  assumes "length p = 1" and "b64_decode demo_prims k = Ok (demo_key n)" and "derive_agent_id_hex demo_prims (demo_key n) = signer"
  shows "verify_envelope demo_prims (demo_envelope ctx p k signer) ctx = Ok (as_bytes p, sha256_hex demo_prims (as_bytes p))"
proof -
  have "as_bytes p \<noteq> []" using assms(1) by (auto simp: as_bytes_def)
  with assms show ?thesis
    by (simp add: verify_envelope_def demo_envelope_def payload_bytes_def decode_b64_def demo_b64_simps demo_signature V2_SCHEMA_def Let_def)
qed

lemma demo_envelope_key:
  "b64_decode demo_prims k = Ok (demo_key n) \<Longrightarrow> check_envelope_key demo_prims (demo_envelope ctx p k signer) signer (demo_key n) = Ok ()"
  by (simp add: check_envelope_key_def demo_envelope_def decode_b64_def)

lemma demo_decode:
  "decode_envelope demo_prims (as_bytes ''1'') = Ok (demo_envelope GENESIS_CONTEXT_V2 ''1'' ''k7'' ''07'')"
  "decode_envelope demo_prims (as_bytes ''2'') = Ok (demo_envelope TRANSITION_CONTEXT_V2 ''2'' ''k7'' ''07'')"
  "decode_envelope demo_prims (as_bytes ''3'') = Ok (demo_envelope TRANSITION_CONTEXT_V2 ''3'' ''k7'' ''07'')"
  "decode_envelope demo_prims (as_bytes ''4'') = Ok (demo_envelope APPROVAL_CONTEXT_V2 ''4'' ''k9'' ''09'')"
  "decode_envelope demo_prims (as_bytes ''5'') = Ok (demo_envelope CONSUME_CONTEXT_V2 ''5'' ''k7'' ''07'')"
  "decode_envelope demo_prims (as_bytes ''6'') = Ok (demo_envelope TRANSITION_CONTEXT_V2 ''6'' ''k7'' ''07'')"
  "decode_envelope demo_prims (as_bytes ''7'') = Ok (demo_envelope HANDOFF_CONTEXT_V2 ''7'' ''k7'' ''07'')"
  "decode_envelope demo_prims (as_bytes ''8'') = Ok (demo_envelope TRANSITION_CONTEXT_V2 ''8'' ''k7'' ''07'')"
  by (simp_all add: decode_envelope_def demo_prims_def demo_json_envelope_def demo_envelope_def V2_SCHEMA_def)

lemma demo_digest:
  "sha256_hex demo_prims (as_bytes ''1'') = ''31''" "sha256_hex demo_prims (as_bytes ''2'') = ''32''"
  "sha256_hex demo_prims (as_bytes ''3'') = ''33''" "sha256_hex demo_prims (as_bytes ''4'') = ''34''"
  "sha256_hex demo_prims (as_bytes ''5'') = ''35''" "sha256_hex demo_prims (as_bytes ''6'') = ''36''"
  "sha256_hex demo_prims (as_bytes ''7'') = ''37''" "sha256_hex demo_prims (as_bytes ''t'') = ''74''"
  "sha256_hex demo_prims (as_bytes ''s'') = ''73''" "sha256_hex demo_prims (as_bytes ''8'') = ''38''"
  "sha256_hex demo_prims (as_bytes ''a'') = ''61''"
  by code_simp+

definition demo_rosters :: "string btree_set list" where
  "demo_rosters = [[''07'', ''09'']]"

definition demo_admitted :: "string \<Rightarrow> string \<Rightarrow> string \<Rightarrow> chained_payload \<Rightarrow> admitted" where
  "demo_admitted author key hash pl = (case pl_chain pl of (lamport, seq, prev) \<Rightarrow>
     \<lparr>ad_author = author, ad_key = key, ad_event_hash = hash, ad_lamport = lamport, ad_author_seq = seq,
      ad_prev_own_event_hash = prev, ad_payload = pl\<rparr>)"

definition demo_open :: admitted where
  "demo_open = demo_admitted ''07'' ''ev-i-32'' ''32'' (ChTransition (demo_transition (TkOpen ''t'' ''s'' ''74'' ''73'') 1 1 ''31''))"

definition demo_claim :: admitted where
  "demo_claim = demo_admitted ''07'' ''ev-i-33'' ''33'' (ChTransition (demo_transition (TkClaim ''6d'') 2 2 ''32''))"

definition demo_approve :: admitted where
  "demo_approve = demo_admitted ''09'' ''ap-i-34'' ''34'' (ChApproval demo_approval)"

definition demo_consumed :: admitted where
  "demo_consumed = demo_admitted ''07'' ''cs-i-35'' ''35'' (ChConsume demo_consume)"

definition demo_handed :: admitted where
  "demo_handed = demo_admitted ''07'' ''ho-i-37'' ''37'' (ChHandoff demo_handoff)"

definition demo_complete :: admitted where
  "demo_complete = demo_admitted ''07'' ''ev-i-36'' ''36'' (ChTransition (demo_transition (TkComplete ''6d'' ''33'') 6 5 ''37''))"

lemmas demo_eval = demo_record_def demo_decode demo_verify [OF _ demo_b64_simps(1) demo_derive(1)]
  demo_verify [OF _ demo_b64_simps(2) demo_derive(2)] demo_envelope_key [OF demo_b64_simps(1)]
  demo_envelope_key [OF demo_b64_simps(2)] demo_digest

lemma demo_json:
  "decode_transition demo_prims (as_bytes ''2'') = Ok (demo_transition (TkOpen ''t'' ''s'' ''74'' ''73'') 1 1 ''31'')"
  "decode_transition demo_prims (as_bytes ''3'') = Ok (demo_transition (TkClaim ''6d'') 2 2 ''32'')"
  "decode_transition demo_prims (as_bytes ''6'') = Ok (demo_transition (TkComplete ''6d'' ''33'') 6 5 ''37'')"
  "decode_approval demo_prims (as_bytes ''4'') = Ok demo_approval"
  "decode_consume demo_prims (as_bytes ''5'') = Ok demo_consume"
  "decode_handoff demo_prims (as_bytes ''7'') = Ok demo_handoff"
  "json_genesis demo_prims (as_bytes ''1'') = Ok demo_genesis"
  "decode_transition demo_prims (as_bytes ''8'') = Ok (demo_transition (TkRequeue demo_justification) 7 6 ''36'')"
  "json_approval_payload demo_prims (as_bytes ''a'') = Ok demo_approval_payload"
  by (simp_all add: decode_transition_def decode_approval_def decode_consume_def decode_handoff_def demo_prims_def demo_json_transition_def)

lemma demo_common:
  "check_chained_common \<lparr>cb_record_key = key, cb_expected_key = key, cb_schema = V2_SCHEMA, cb_event_list_uuid = ''u'',
     cb_event_genesis = ''31'', cb_roster_epoch = 0, cb_actor = ''07''\<rparr> ''07'' ''u'' ''31'' demo_rosters = Ok [''07'', ''09'']"
  "check_chained_common \<lparr>cb_record_key = key, cb_expected_key = key, cb_schema = V2_SCHEMA, cb_event_list_uuid = ''u'',
     cb_event_genesis = ''31'', cb_roster_epoch = 0, cb_actor = ''09''\<rparr> ''09'' ''u'' ''31'' demo_rosters = Ok [''07'', ''09'']"
  by (simp_all add: check_chained_common_def nth_opt_def demo_rosters_def)

lemma demo_keys:
  "event_key ''i'' h = ''ev-i-'' @ h" "approval_key ''i'' h = ''ap-i-'' @ h" "consume_key ''i'' h = ''cs-i-'' @ h"
  "handoff_key ''i'' h = ''ho-i-'' @ h"
  by (simp_all add: event_key_def approval_key_def consume_key_def handoff_key_def EVENT_KEY_PREFIX_def
      APPROVAL_KEY_PREFIX_def CONSUME_KEY_PREFIX_def HANDOFF_KEY_PREFIX_def)

lemma demo_admit:
  "admit_event demo_prims (demo_record ''ev-i-32'' ''2'') ''07'' (demo_key 7) ''u'' ''31'' demo_rosters = Ok demo_open"
  "admit_event demo_prims (demo_record ''ev-i-33'' ''3'') ''07'' (demo_key 7) ''u'' ''31'' demo_rosters = Ok demo_claim"
  "admit_event demo_prims (demo_record ''ap-i-34'' ''4'') ''09'' (demo_key 9) ''u'' ''31'' demo_rosters = Ok demo_approve"
  "admit_event demo_prims (demo_record ''cs-i-35'' ''5'') ''07'' (demo_key 7) ''u'' ''31'' demo_rosters = Ok demo_consumed"
  "admit_event demo_prims (demo_record ''ev-i-36'' ''6'') ''07'' (demo_key 7) ''u'' ''31'' demo_rosters = Ok demo_complete"
  "admit_event demo_prims (demo_record ''ho-i-37'' ''7'') ''07'' (demo_key 7) ''u'' ''31'' demo_rosters = Ok demo_handed"
  by (simp_all add: admit_event_def EVENT_KEY_PREFIX_def APPROVAL_KEY_PREFIX_def CONSUME_KEY_PREFIX_def HANDOFF_KEY_PREFIX_def
      admit_transition_def admit_approval_def admit_consume_def admit_handoff_def demo_eval demo_json demo_keys
      demo_common [unfolded V2_SCHEMA_def] demo_transition_def demo_approval_def demo_consume_def demo_handoff_def
      check_transition_content_def demo_open_def demo_claim_def demo_approve_def demo_consumed_def demo_handed_def demo_complete_def
      demo_admitted_def)

lemma demo_envelope_signer [simp]: "ee_signer_agent_id (demo_envelope ctx p k s) = s"
  by (simp add: demo_envelope_def)

lemma demo_admit_requeue:
  "admit_transition demo_prims (demo_record ''ev-i-38'' ''8'') ''07'' (demo_key 7) ''u'' ''31'' demo_rosters =
     Ok (demo_admitted ''07'' ''ev-i-38'' ''38'' (ChTransition (demo_transition (TkRequeue demo_justification) 7 6 ''36'')))"
  by (simp add: admit_transition_def demo_eval demo_json demo_keys demo_common [unfolded V2_SCHEMA_def] demo_transition_def
      check_transition_content_def check_requeue_justification_def demo_justification_def demo_approval_payload_def V2_SCHEMA_def
      demo_admitted_def)

definition demo_issue :: "issue_status_v2 \<Rightarrow> issue_state_v2" where
  "demo_issue st = \<lparr>is_issue_id = ''i'', is_title = ''t'', is_spec = ''s'', is_opened_by = ''07'', is_open_event_hash = ''32'',
     is_status = st, is_applied = [''32'', ''33'']\<rparr>"

definition demo_streams :: "(string, author_stream) btree_map" where
  "demo_streams = [(''07'', \<lparr>as_owner = ''07'', as_card_self = Some (demo_key 7), as_records =
     [demo_record ''cs-i-35'' ''5'', demo_record ''ev-i-32'' ''2'', demo_record ''ev-i-33'' ''3'',
      demo_record ''ev-i-36'' ''6'', demo_record ''genesis'' ''1'', demo_record ''ho-i-37'' ''7'']\<rparr>),
    (''09'', demo_approver)]"

text \<open>The cards are not inspected here, so the streams are canonicalised for arbitrary cards.\<close>

lemma demo_canonical_any:
  "canonical_streams P
     [\<lparr>as_owner = ''07'', as_card_self = Some k7, as_records =
        [demo_record ''genesis'' ''1'', demo_record ''ev-i-32'' ''2'', demo_record ''ev-i-33'' ''3'',
         demo_record ''cs-i-35'' ''5'', demo_record ''ho-i-37'' ''7'', demo_record ''ev-i-36'' ''6'']\<rparr>,
      \<lparr>as_owner = ''09'', as_card_self = Some k9, as_records = [demo_record ''ap-i-34'' ''4'']\<rparr>] =
     ([(''07'', \<lparr>as_owner = ''07'', as_card_self = Some k7, as_records =
        [demo_record ''cs-i-35'' ''5'', demo_record ''ev-i-32'' ''2'', demo_record ''ev-i-33'' ''3'',
         demo_record ''ev-i-36'' ''6'', demo_record ''genesis'' ''1'', demo_record ''ho-i-37'' ''7'']\<rparr>),
       (''09'', \<lparr>as_owner = ''09'', as_card_self = Some k9, as_records = [demo_record ''ap-i-34'' ''4'']\<rparr>)], [])"
  by code_simp

lemma demo_canonical: "canonical_streams demo_prims [demo_creator, demo_approver] = (demo_streams, [])"
  unfolding demo_creator_def demo_approver_def demo_streams_def by (rule demo_canonical_any)

lemma demo_budget:
  "check_raw_budget default_fold_limits [demo_creator, demo_approver] = Ok ()"
  "check_merged_budget default_fold_limits demo_streams = Ok ()"
  by (simp_all add: check_raw_budget_Ok_iff check_merged_budget_Ok_iff default_fold_limits_def demo_creator_def
      demo_approver_def demo_streams_def demo_record_def unat_sat_add as_bytes_def)

lemma demo_resolve:
  "resolve_genesis demo_prims (demo_input ss) demo_streams [] =
     Ok (snd (hd demo_streams), demo_key 7, demo_genesis, ''31'')"
  by (simp add: resolve_genesis_def demo_input_def demo_streams_def bt_get_def verified_card_def demo_derive Let_def
      GENESIS_KEY_def verify_genesis_def demo_eval demo_json demo_genesis_def V2_SCHEMA_def default_fold_limits_def)

lemma demo_roster_chain:
  "build_roster_chain demo_prims (snd (hd demo_streams)) ''u'' ''07'' (demo_key 7) ''31'' 256
     (bset_of_list (gm_roster demo_genesis)) = Ok (demo_rosters, [], [])"
proof -
  have "bset_of_list (gm_roster demo_genesis) = [''07'', ''09'']" by code_simp
  then show ?thesis
    by (simp add: build_roster_chain_def demo_streams_def demo_record_def ROSTER_KEY_PREFIX_def demo_rosters_def
        unreachable_rejections_def)
qed

lemma demo_verified_card:
  "verified_card demo_prims (snd (hd demo_streams)) = Ok (demo_key 7)" "verified_card demo_prims demo_approver = Ok (demo_key 9)"
  by (simp_all add: verified_card_def demo_streams_def demo_approver_def demo_derive)

lemma demo_candidates:
  "fst (admit_stream demo_prims [] ''u'' ''31'' demo_rosters ''07'' (snd (hd demo_streams))) =
     Some [demo_consumed, demo_open, demo_claim, demo_complete, demo_handed]"
  "snd (admit_stream demo_prims [] ''u'' ''31'' demo_rosters ''07'' (snd (hd demo_streams))) = []"
  "admit_stream demo_prims [] ''u'' ''31'' demo_rosters ''09'' demo_approver = (Some [demo_approve], [])"
proof -
  have "event_records (snd (hd demo_streams)) =
    [demo_record ''cs-i-35'' ''5'', demo_record ''ev-i-32'' ''2'', demo_record ''ev-i-33'' ''3'',
     demo_record ''ev-i-36'' ''6'', demo_record ''ho-i-37'' ''7'']"
    "event_records demo_approver = [demo_record ''ap-i-34'' ''4'']"
    by (simp_all add: event_records_def demo_streams_def demo_approver_def is_chained_key_def demo_record_def
      EVENT_KEY_PREFIX_def APPROVAL_KEY_PREFIX_def CONSUME_KEY_PREFIX_def HANDOFF_KEY_PREFIX_def)
  then show "fst (admit_stream demo_prims [] ''u'' ''31'' demo_rosters ''07'' (snd (hd demo_streams))) =
     Some [demo_consumed, demo_open, demo_claim, demo_complete, demo_handed]"
  "snd (admit_stream demo_prims [] ''u'' ''31'' demo_rosters ''07'' (snd (hd demo_streams))) = []"
  "admit_stream demo_prims [] ''u'' ''31'' demo_rosters ''09'' demo_approver = (Some [demo_approve], [])"
    by (simp_all add: admit_stream_def demo_verified_card demo_admit)
qed

definition demo_events :: "admitted list" where
  "demo_events = [demo_open, demo_claim, demo_approve, demo_consumed, demo_handed, demo_complete]"

lemma demo_chain:
  "chain_authors ''31'' [(''07'', [demo_consumed, demo_open, demo_claim, demo_complete, demo_handed]), (''09'', [demo_approve])] =
     ([demo_open, demo_claim, demo_consumed, demo_handed, demo_complete, demo_approve], [], [])"
  by code_simp

lemma demo_cap:
  "apply_lamport_cap [demo_open, demo_claim, demo_consumed, demo_handed, demo_complete, demo_approve] = (demo_events, [])"
proof -
  have "sort_key fold_order [demo_open, demo_claim, demo_consumed, demo_handed, demo_complete, demo_approve] = demo_events"
    by code_simp
  moreover have "lamport_pass 0 [] demo_events = (replicate 6 False, [])" by code_simp
  ultimately show ?thesis by (simp add: apply_lamport_cap_def lamport_fixpoint.simps)
qed

definition demo_phase1 :: phase1 where
  "demo_phase1 = \<lparr>p1_genesis = demo_genesis, p1_genesis_hash = ''31'', p1_rosters = demo_rosters,
     p1_admitted = demo_events, p1_rejections = [], p1_forks = []\<rparr>"

lemma demo_admission: "fold_admission demo_prims (demo_input [demo_creator, demo_approver]) = Ok demo_phase1"
proof -
  have st: "demo_streams = [(''07'', snd (hd demo_streams)), (''09'', demo_approver)]"
    by (simp add: demo_streams_def)
  have "admit_streams demo_prims [] ''u'' ''31'' demo_rosters demo_streams [] [] =
    ([(''07'', [demo_consumed, demo_open, demo_claim, demo_complete, demo_handed]), (''09'', [demo_approve])], [])"
    using demo_candidates by (subst st) (simp add: case_prod_unfold)
  moreover have "fi_list_uuid (demo_input ss) = ''u''" "fi_creator (demo_input ss) = ''07''"
    "fi_streams (demo_input ss) = ss" "fi_limits (demo_input ss) = default_fold_limits"
    "max_roster_members default_fold_limits = 256" for ss
    by (simp_all add: demo_input_def default_fold_limits_def)
  ultimately show ?thesis
    by (simp add: fold_admission_def demo_budget demo_canonical fold_phase1_def demo_resolve demo_roster_chain
        demo_chain demo_cap demo_phase1_def del: chain_authors.simps)
qed

lemma demo_output_issues: "fo_issues (fold_phase2 demo_phase1) =
  [(''i'', \<lparr>is_issue_id = ''i'', is_title = ''t'', is_spec = ''s'', is_opened_by = ''07'', is_open_event_hash = ''32'',
     is_status = StDone ''07'' ''36'', is_applied = [''32'', ''33'', ''36'']\<rparr>)]"
  by code_simp


section \<open>A list whose second member shows two cards\<close>

definition demo_founder :: author_stream where
  "demo_founder = \<lparr>as_owner = ''07'', as_card_self = Some (demo_key 7), as_records = [demo_record ''genesis'' ''1'']\<rparr>"

definition demo_two_cards :: author_stream where
  "demo_two_cards = \<lparr>as_owner = ''09'', as_card_self = None, as_records =
     [demo_record ''card-self'' ''a'', demo_record ''card-self'' ''b'', demo_record ''ap-i-34'' ''4'']\<rparr>"

lemma demo_conflict_any:
  "fst (canonical_streams demo_prims
     [\<lparr>as_owner = ''07'', as_card_self = Some k7, as_records = [demo_record ''genesis'' ''1'']\<rparr>, demo_two_cards]) =
     [(''07'', \<lparr>as_owner = ''07'', as_card_self = Some k7, as_records = [demo_record ''genesis'' ''1'']\<rparr>),
      (''09'', \<lparr>as_owner = ''09'', as_card_self = None, as_records =
        [demo_record ''ap-i-34'' ''4'', demo_record ''card-self'' ''a'', demo_record ''card-self'' ''b'']\<rparr>)]"
  "map fst (snd (canonical_streams demo_prims
     [\<lparr>as_owner = ''07'', as_card_self = Some k7, as_records = [demo_record ''genesis'' ''1'']\<rparr>, demo_two_cards])) = [''09'']"
  by code_simp+

lemma demo_conflict_admission:
  "\<exists>p. fold_admission demo_prims (demo_input [demo_founder, demo_two_cards]) = Ok p"
proof -
  obtain m cf where c: "canonical_streams demo_prims [demo_founder, demo_two_cards] = (m, cf)" by force
  have m: "m = [(''07'', demo_founder), (''09'', \<lparr>as_owner = ''09'', as_card_self = None, as_records =
        [demo_record ''ap-i-34'' ''4'', demo_record ''card-self'' ''a'', demo_record ''card-self'' ''b'']\<rparr>)]"
    and cf: "map fst cf = [''09'']"
    using demo_conflict_any [of "demo_key 7"] c by (simp_all add: demo_founder_def)
  have "set (map fst cf) = {''09''}" by (simp only: cf list.set)
  then have "''07'' \<notin> fst ` set cf" by simp
  then have none: "bt_get cf ''07'' = None" using bt_get_keys [of cf "''07''"] by blast
  have raw: "check_raw_budget default_fold_limits [demo_founder, demo_two_cards] = Ok ()"
    by (simp add: check_raw_budget_Ok_iff default_fold_limits_def demo_founder_def demo_two_cards_def demo_record_def
        unat_sat_add as_bytes_def)
  have merged: "check_merged_budget default_fold_limits m = Ok ()"
    by (simp add: check_merged_budget_Ok_iff default_fold_limits_def m demo_founder_def)
  have res: "resolve_genesis demo_prims (demo_input ss) m cf = Ok (demo_founder, demo_key 7, demo_genesis, ''31'')" for ss
    using none by (simp add: resolve_genesis_def demo_input_def m bt_get_def verified_card_def demo_derive Let_def demo_founder_def
      GENESIS_KEY_def verify_genesis_def demo_eval demo_json demo_genesis_def V2_SCHEMA_def default_fold_limits_def)
  have ros: "build_roster_chain demo_prims demo_founder ''u'' ''07'' (demo_key 7) ''31'' 256 gr = Ok ([gr], [], [])" for gr
    by (simp add: build_roster_chain_def demo_founder_def demo_record_def ROSTER_KEY_PREFIX_def unreachable_rejections_def)
  show ?thesis
    by (simp add: fold_admission_def c fold_phase1_def demo_input_def raw merged res [unfolded demo_input_def] ros
        default_fold_limits_def [THEN arg_cong [where f = max_roster_members]] case_prod_unfold Let_def)
qed

lemma demo_two_cards_all: "card (all_cards [demo_founder, demo_two_cards] ''09'') = 2"
proof -
  have "all_cards [demo_founder, demo_two_cards] ''09'' = {as_bytes ''a'', as_bytes ''b''}"
  proof -
    have one: "{s \<in> set [demo_founder, demo_two_cards]. as_owner s = ''09''} = {demo_two_cards}"
      by (auto simp: demo_founder_def demo_two_cards_def)
    have "owner_records [demo_founder, demo_two_cards] ''09'' = set (as_records demo_two_cards)"
      unfolding owner_records_def one by simp
    moreover have "owner_cards [demo_founder, demo_two_cards] ''09'' = {}"
      by (auto simp: owner_cards_def demo_founder_def demo_two_cards_def)
    moreover have "{r \<in> set (as_records demo_two_cards). sr_key r = CARD_SELF_KEY} =
        {demo_record ''card-self'' ''a'', demo_record ''card-self'' ''b''}"
      by (auto simp: demo_two_cards_def demo_record_def CARD_SELF_KEY_def)
    ultimately show ?thesis by (simp add: all_cards_def demo_record_def)
  qed
  then show ?thesis by simp
qed

section \<open>A list with a stream of an outsider\<close>

lemma demo_outsider_any:
  "fst (canonical_streams P
     [\<lparr>as_owner = ''07'', as_card_self = Some k7, as_records =
        [demo_record ''genesis'' ''1'', demo_record ''ev-i-32'' ''2'', demo_record ''ev-i-33'' ''3'',
         demo_record ''cs-i-35'' ''5'', demo_record ''ho-i-37'' ''7'', demo_record ''ev-i-36'' ''6'']\<rparr>,
      \<lparr>as_owner = ''09'', as_card_self = Some k9, as_records = [demo_record ''ap-i-34'' ''4'']\<rparr>, demo_outsider]) =
     [(''07'', \<lparr>as_owner = ''07'', as_card_self = Some k7, as_records =
        [demo_record ''cs-i-35'' ''5'', demo_record ''ev-i-32'' ''2'', demo_record ''ev-i-33'' ''3'',
         demo_record ''ev-i-36'' ''6'', demo_record ''genesis'' ''1'', demo_record ''ho-i-37'' ''7'']\<rparr>),
       (''09'', \<lparr>as_owner = ''09'', as_card_self = Some k9, as_records = [demo_record ''ap-i-34'' ''4'']\<rparr>),
       (''0b'', demo_outsider)]"
  by code_simp

lemma demo_outsider_budget:
  "check_raw_budget default_fold_limits [demo_creator, demo_approver, demo_outsider] = Ok ()"
  "check_merged_budget default_fold_limits (fst (canonical_streams demo_prims [demo_creator, demo_approver, demo_outsider])) = Ok ()"
proof -
  have "fst (canonical_streams demo_prims [demo_creator, demo_approver, demo_outsider]) = demo_streams @ [(''0b'', demo_outsider)]"
    unfolding demo_creator_def demo_approver_def demo_outsider_any by (simp add: demo_streams_def demo_approver_def)
  then show "check_merged_budget default_fold_limits (fst (canonical_streams demo_prims [demo_creator, demo_approver, demo_outsider])) = Ok ()"
    by (simp add: check_merged_budget_Ok_iff default_fold_limits_def demo_approver_def demo_streams_def demo_outsider_def)
qed (simp add: check_raw_budget_Ok_iff default_fold_limits_def demo_creator_def demo_approver_def demo_outsider_def demo_record_def
    unat_sat_add as_bytes_def)

end
