(* ===== verification/Fold_Properties.thy ===== *)
theory Fold_Properties
  imports Demo
begin

text \<open>
  The properties of the v2 fold (\<^verbatim>\<open>v2/fold.rs\<close>): convergence, authentication of what is admitted, author
  chains, genesis and rosters, non-interference of outsiders, the lamport cap, and the state machine.
  Each property with a hypothesis is followed by an instance on the concrete list of \<open>Demo\<close>.
\<close>

section \<open>Convergence\<close>

text \<open>
  C1: The fold converges: two replicas whose inputs carry, for every owner, the same set of records
  and the same set of cards compute the same result, whatever the order of the streams, the number
  of copies of a stream and the split of its records over the copies, provided both inputs are
  within the raw budgets.
\<close>

theorem fold_converges:
  assumes "same_content ss ss'"
    and "check_raw_budget (fi_limits inp) ss = Ok ()" and "check_raw_budget (fi_limits inp) ss' = Ok ()"
  shows "fold_v2 P (inp\<lparr>fi_streams := ss\<rparr>) = fold_v2 P (inp\<lparr>fi_streams := ss'\<rparr>)"
  using assms by (rule fold_v2_same_content)

theorem fold_converges_witness:
  "fold_v2 demo_prims (demo_input [demo_approver, demo_creator, demo_approver]) = Ok (fold_phase2 demo_phase1)"
proof -
  have "same_content [demo_creator, demo_approver] [demo_approver, demo_creator, demo_approver]"
    by (auto simp: same_content_def owners_def owner_records_def owner_cards_def)
  moreover have "check_raw_budget default_fold_limits [demo_approver, demo_creator, demo_approver] = Ok ()"
    by (simp add: check_raw_budget_Ok_iff default_fold_limits_def demo_creator_def demo_approver_def demo_record_def
        unat_sat_add as_bytes_def)
  ultimately show ?thesis
    using fold_converges [of "[demo_creator, demo_approver]" "[demo_approver, demo_creator, demo_approver]" "demo_input []" demo_prims]
      demo_budget(1) demo_admission
    by (simp add: demo_input_def fold_v2_def)
qed

text \<open>
  Permuting the input streams changes the result of the fold at most in the wording of a budget
  refusal: either the results are equal, or both inputs are refused as over budget.
\<close>

theorem fold_permutation:
  assumes "mset ss = mset ss'"
  shows "fold_v2 P (inp\<lparr>fi_streams := ss\<rparr>) = fold_v2 P (inp\<lparr>fi_streams := ss'\<rparr>) \<or>
    (\<exists>w w'. fold_v2 P (inp\<lparr>fi_streams := ss\<rparr>) = Err (BudgetExceeded w) \<and>
      fold_v2 P (inp\<lparr>fi_streams := ss'\<rparr>) = Err (BudgetExceeded w'))"
  using assms by (rule fold_v2_permutation)

theorem fold_permutation_witness:
  "fold_v2 demo_prims (demo_input [demo_approver, demo_creator]) = Ok (fold_phase2 demo_phase1)"
  using fold_permutation [of "[demo_creator, demo_approver]" "[demo_approver, demo_creator]" demo_prims "demo_input []"]
    demo_admission by (simp add: demo_input_def fold_v2_def add_mset_commute)

section \<open>Authentication\<close>

text \<open>
  C2: Every event that phase 1 admits is authenticated: a record of the input, stored under the
  event's author, carries it in an envelope signed (in the context of its record type) with the key
  that derives to that author; the payload names the same author, this list and this genesis; the
  record's key is the content address; and the author is a member of the roster of the epoch named.
\<close>

theorem admitted_authenticated:
  assumes "fold_admission P inp = Ok p" and "a \<in> set (p1_admitted p)"
  shows "authenticated P inp (p1_genesis_hash p) (p1_rosters p) a"
  using assms by (rule fold_admission_authenticated)

theorem admitted_authenticated_witness:
  "authenticated demo_prims (demo_input [demo_creator, demo_approver]) ''31'' demo_rosters demo_complete"
proof -
  have "demo_complete \<in> set (p1_admitted demo_phase1)" by (simp add: demo_phase1_def demo_events_def)
  from admitted_authenticated [OF demo_admission this] show ?thesis by (simp add: demo_phase1_def)
qed

section \<open>Author chains\<close>

text \<open>
  C4: The admitted events of every author, in sequence order, are numbered 1, 2, 3 and so on without
  a gap and each names the hash of its predecessor, the first one the genesis hash.
\<close>

theorem author_chain_linked:
  assumes "fold_admission P inp = Ok p"
  shows "hash_chain (p1_genesis_hash p) 1 (author_events p a)"
  using fold_admission_author_chain [OF assms] by blast

theorem author_chain_linked_witness:
  "hash_chain ''31'' 1 (author_events demo_phase1 ''07'') \<and> length (author_events demo_phase1 ''07'') = 5"
proof -
  have "length (author_events demo_phase1 ''07'') = 5" by code_simp
  with author_chain_linked [OF demo_admission, of "''07''"] show ?thesis by (simp add: demo_phase1_def)
qed

text \<open>
  The link a writer obtains from \<^verbatim>\<open>next_chain_link\<close> extends its chain: an event with that sequence
  number and predecessor hash, appended to the author's admitted events, gives a linked chain again.
\<close>

theorem next_chain_link_extends:
  assumes "fold_admission P inp = Ok p"
    and "next_chain_link (fold_phase2 p) a = (ad_author_seq e, ad_prev_own_event_hash e)"
  shows "hash_chain (p1_genesis_hash p) 1 (author_events p a @ [e])"
  using fold_admission_author_chain [OF assms(1), of a] next_chain_link_events [OF assms(1), of a] assms(2)
  by (auto simp: hash_chain_snoc)

theorem next_chain_link_extends_witness:
  "hash_chain ''31'' 1 (author_events demo_phase1 ''09'' @ [demo_open\<lparr>ad_author_seq := 2, ad_prev_own_event_hash := ''34''\<rparr>])"
proof -
  let ?e = "demo_open\<lparr>ad_author_seq := 2, ad_prev_own_event_hash := ''34''\<rparr>"
  have "next_chain_link (fold_phase2 demo_phase1) ''09'' = (ad_author_seq ?e, ad_prev_own_event_hash ?e)" by code_simp
  from next_chain_link_extends [OF demo_admission this] show ?thesis by (simp add: demo_phase1_def)
qed

text \<open>
  An owner for whom the input carries two different cards is locked out: none of its events is
  admitted.
\<close>

theorem conflicted_owner_excluded:
  assumes "fold_admission P inp = Ok p" and "1 < card (all_cards (fi_streams inp) k)"
  shows "author_events p k = []"
proof -
  have "a \<in> set (p1_admitted p) \<Longrightarrow> ad_author a \<noteq> k" for a
  proof
    assume "a \<in> set (p1_admitted p)" "ad_author a = k"
    then show False using fold_admission_not_conflicted [OF assms(1)] assms(2) by fastforce
  qed
  then show ?thesis by (simp add: author_events_def filter_empty_conv)
qed

theorem conflicted_owner_excluded_witness:
  "\<exists>p. fold_admission demo_prims (demo_input [demo_founder, demo_two_cards]) = Ok p \<and> author_events p ''09'' = []"
proof -
  obtain p where p: "fold_admission demo_prims (demo_input [demo_founder, demo_two_cards]) = Ok p"
    using demo_conflict_admission ..
  have "1 < card (all_cards (fi_streams (demo_input [demo_founder, demo_two_cards])) ''09'')"
    by (simp add: demo_input_def demo_two_cards_all)
  from conflicted_owner_excluded [OF p this] p show ?thesis by blast
qed

section \<open>Genesis and rosters\<close>

text \<open>
  A list folds only under a genesis manifest that the creator signed: the creator's stream holds a
  record with key \<^verbatim>\<open>genesis\<close> whose envelope is signed in the genesis context by the key that derives to the
  creator's id, the genesis hash is the digest of its payload, and the manifest names this list, this
  creator and a roster that is not empty and within the budget.
\<close>

theorem genesis_signed_by_creator:
  assumes "fold_admission P inp = Ok p"
  shows "\<exists>rec payload acard. rec \<in> owner_records (fi_streams inp) (fi_creator inp) \<and> sr_key rec = GENESIS_KEY \<and>
      signed_by P (sr_value rec) GENESIS_CONTEXT_V2 acard (fi_creator inp) payload \<and>
      json_genesis P payload = Ok (p1_genesis p) \<and> p1_genesis_hash p = sha256_hex P payload \<and>
      gm_list_uuid (p1_genesis p) = fi_list_uuid inp \<and> gm_creator (p1_genesis p) = fi_creator inp \<and>
      gm_roster (p1_genesis p) \<noteq> [] \<and> length (gm_roster (p1_genesis p)) \<le> unat (max_roster_members (fi_limits inp))"
  using assms
proof (rule fold_admission_OkE)
  fix streams cf creator_stream acard rej forks
  assume c: "canonical_streams P (fi_streams inp) = (streams, cf)"
    and res: "resolve_genesis P inp streams cf = Ok (creator_stream, acard, p1_genesis p, p1_genesis_hash p)"
  from resolve_genesis_OkD [OF res] obtain rec payload where
    cs: "bt_get streams (fi_creator inp) = Some creator_stream" and rec: "rec \<in> set (as_records creator_stream)"
    and r: "sr_key rec = GENESIS_KEY" "signed_by P (sr_value rec) GENESIS_CONTEXT_V2 acard (fi_creator inp) payload"
      "json_genesis P payload = Ok (p1_genesis p)" "p1_genesis_hash p = sha256_hex P payload"
      "gm_list_uuid (p1_genesis p) = fi_list_uuid inp" "gm_creator (p1_genesis p) = fi_creator inp"
      "gm_roster (p1_genesis p) \<noteq> []" "length (gm_roster (p1_genesis p)) \<le> unat (max_roster_members (fi_limits inp))"
    by blast
  have "rec \<in> owner_records (fi_streams inp) (fi_creator inp)"
    using canonical_streams_get(2) [of P "fi_streams inp" "fi_creator inp" creator_stream] c cs rec by simp
  with r show ?thesis by blast
qed

theorem genesis_signed_by_creator_witness:
  "\<exists>rec payload acard. rec \<in> owner_records [demo_creator, demo_approver] ''07'' \<and>
     signed_by demo_prims (sr_value rec) GENESIS_CONTEXT_V2 acard ''07'' payload \<and> json_genesis demo_prims payload = Ok demo_genesis"
  using genesis_signed_by_creator [OF demo_admission] by (auto simp: demo_input_def demo_phase1_def)



section \<open>Non-interference\<close>

text \<open>
  C3: Streams of owners outside the rosters have no influence: whatever they contain, an input that
  agrees on the creator and on all roster members and stays within the budgets folds to the same output,
  rejections apart.
\<close>

theorem outsiders_do_not_interfere:
  assumes "fold_admission P inp = Ok p" and "same_for (fi_creator inp) (fi_streams inp) ss'"
    and "\<And>k. k \<in> roster_members (p1_rosters p) \<Longrightarrow> same_for k (fi_streams inp) ss'"
    and "check_raw_budget (fi_limits inp) ss' = Ok ()"
    and "check_merged_budget (fi_limits inp) (fst (canonical_streams P ss')) = Ok ()"
  shows "\<exists>rej. fold_v2 P (inp\<lparr>fi_streams := ss'\<rparr>) = Ok ((fold_phase2 p)\<lparr>fo_rejections := rej\<rparr>)"
proof -
  from fold_admission_outsiders [OF assms] obtain rej where
    "fold_admission P (inp\<lparr>fi_streams := ss'\<rparr>) = Ok (p\<lparr>p1_rejections := rej\<rparr>)" ..
  with fold_phase2_rejections_indep [where p = p and rej = rej] show ?thesis by (auto simp: fold_v2_def)
qed

theorem outsiders_do_not_interfere_witness:
  "\<exists>rej. fold_v2 demo_prims (demo_input [demo_creator, demo_approver, demo_outsider]) = Ok ((fold_phase2 demo_phase1)\<lparr>fo_rejections := rej\<rparr>)"
proof -
  have same: "same_for k [demo_creator, demo_approver] [demo_creator, demo_approver, demo_outsider]" if "k \<noteq> ''0b''" for k
    using that by (auto simp: same_for_def owners_def owner_records_def owner_cards_def demo_outsider_def)
  have members: "k \<noteq> ''0b''" if "k \<in> roster_members (p1_rosters demo_phase1)" for k
    using that by (auto simp: demo_phase1_def demo_rosters_def roster_members_def)
  have i: "fi_streams (demo_input ss) = ss" "fi_creator (demo_input ss) = ''07''" "fi_limits (demo_input ss) = default_fold_limits"
    "(demo_input ss)\<lparr>fi_streams := ss'\<rparr> = demo_input ss'" for ss ss'
    by (simp_all add: demo_input_def)
  show ?thesis
    using outsiders_do_not_interfere [OF demo_admission, of "[demo_creator, demo_approver, demo_outsider]", unfolded i]
      same members demo_outsider_budget by simp
qed

section \<open>The lamport cap\<close>

text \<open>
  C5: The lamport cap is exactly the greatest admissible selection: of all sets of chained events that
  are closed under the earlier events of an author and in which, walked in fold order, no event is
  more than the skew above the largest lamport value before it, the code keeps the largest one.
\<close>

theorem lamport_cap_greatest:
  "set (fst (apply_lamport_cap cs)) = \<Union> {S. cap_admissible (sort_key fold_order cs) S} \<and>
   cap_admissible (sort_key fold_order cs) (set (fst (apply_lamport_cap cs))) \<and>
   fst (apply_lamport_cap cs) = filter (\<lambda>c. c \<in> set (fst (apply_lamport_cap cs))) (sort_key fold_order cs)"
proof -
  obtain S where S: "fst (apply_lamport_cap cs) = filter (\<lambda>c. c \<in> S) (sort_key fold_order cs)"
    "cap_admissible (sort_key fold_order cs) S" "\<forall>T. cap_admissible (sort_key fold_order cs) T \<longrightarrow> T \<subseteq> S"
    using lamport_fixpoint_greatest [of "sort_key fold_order cs"] by (auto simp: apply_lamport_cap_def)
  then have "set (fst (apply_lamport_cap cs)) = S" by (auto simp: cap_admissible_def)
  with S show ?thesis by auto
qed

text \<open>
  No author can run the lamport clock away: the largest admitted lamport value is at most 64 per
  admitted event.
\<close>

theorem max_lamport_bounded:
  assumes "fold_admission P inp = Ok p"
  shows "unat (fo_max_admitted_lamport (fold_phase2 p)) \<le> 64 * length (p1_admitted p)"
proof -
  have "within_cap 0 (p1_admitted p)"
    using fold_admission_within_cap [OF assms] .
  then show ?thesis using max_lamport_le [of "p1_admitted p"] within_cap_bound [of 0 "p1_admitted p"]
    by (simp add: fold_phase2_def Let_def)
qed

theorem max_lamport_bounded_witness: "unat (fo_max_admitted_lamport (fold_phase2 demo_phase1)) \<le> 384"
  using max_lamport_bounded [OF demo_admission] by (simp add: demo_phase1_def demo_events_def)

section \<open>Folded state\<close>

text \<open>
  C7: Every folded issue is traced back to authenticated events: the title, specification and opener
  come from an open event, each applied hash is an event on that issue, a claim is a claim event by the
  claimant with the recorded nonce and hash, a block or completion is an event by that claimant under
  that claim.
\<close>

theorem issues_traced:
  assumes "fold_admission P inp = Ok p" and "bt_get (fo_issues (fold_phase2 p)) i = Some issue"
  shows "is_issue_id issue = i \<and> issue_traced {a. authenticated P inp (p1_genesis_hash p) (p1_rosters p) a} issue"
  using assms by (rule folded_issue_traced)

theorem issues_traced_witness:
  "issue_traced {a. authenticated demo_prims (demo_input [demo_creator, demo_approver]) ''31'' demo_rosters a}
     \<lparr>is_issue_id = ''i'', is_title = ''t'', is_spec = ''s'', is_opened_by = ''07'', is_open_event_hash = ''32'',
      is_status = StDone ''07'' ''36'', is_applied = [''32'', ''33'', ''36'']\<rparr>"
proof -
  have "bt_get (fo_issues (fold_phase2 demo_phase1)) ''i'' = Some
     \<lparr>is_issue_id = ''i'', is_title = ''t'', is_spec = ''s'', is_opened_by = ''07'', is_open_event_hash = ''32'',
      is_status = StDone ''07'' ''36'', is_applied = [''32'', ''33'', ''36'']\<rparr>"
    by (simp add: demo_output_issues bt_get_def)
  from issues_traced [OF demo_admission this] show ?thesis by (simp add: demo_phase1_def)
qed

text \<open>
  C8: An approval is consumed at most once and only under a claim: every effective consume is an
  authenticated consume event, its approval is an admitted approval with verdict approve, of the same
  issue, by the approver the consume names, for the content the issue was opened with, and the
  consumer's claim event on that issue is authenticated too.
\<close>

theorem effective_consumes_valid:
  assumes "fold_admission P inp = Ok p" and "bt_get (fo_effective_consumes (fold_phase2 p)) k = Some ec"
  shows "consume_valid {a. authenticated P inp (p1_genesis_hash p) (p1_rosters p) a}
           (fo_approvals (fold_phase2 p)) (fo_issues (fold_phase2 p)) k ec"
proof -
  have "consume_valid (set (p1_admitted p)) (fo_approvals (fold_phase2 p)) (fo_issues (fold_phase2 p)) k ec"
    using phase2_run_inv [of "sort_key fold_order (p1_admitted p)" "p1_rejections p"] assms(2)
    by (auto simp: p2_inv_def fold_phase2_def Let_def)
  then show ?thesis
    using consume_valid_universe fold_admission_authenticated [OF assms(1)] by (metis mem_Collect_eq subsetI)
qed

theorem effective_consumes_valid_witness:
  "consume_valid {a. authenticated demo_prims (demo_input [demo_creator, demo_approver]) ''31'' demo_rosters a}
     (fo_approvals (fold_phase2 demo_phase1)) (fo_issues (fold_phase2 demo_phase1)) ''34''
     \<lparr>ec_event_hash = ''35'', ec_consume = demo_consume\<rparr>"
proof -
  have "bt_get (fo_effective_consumes (fold_phase2 demo_phase1)) ''34'' = Some \<lparr>ec_event_hash = ''35'', ec_consume = demo_consume\<rparr>"
    by code_simp
  from effective_consumes_valid [OF demo_admission this] show ?thesis by (simp add: demo_phase1_def)
qed

text \<open>
  A handoff is recorded for an issue only if it is an authenticated handoff event on that issue
  by the author of an authenticated claim event with the nonce and the hash the handoff names.
\<close>

theorem handoffs_valid:
  assumes "fold_admission P inp = Ok p" and "hr \<in> set (bt_get_list (fo_handoffs (fold_phase2 p)) i)"
  shows "handoff_valid {a. authenticated P inp (p1_genesis_hash p) (p1_rosters p) a} i hr"
proof -
  have "handoff_valid (set (p1_admitted p)) i hr"
    using phase2_run_inv [of "sort_key fold_order (p1_admitted p)" "p1_rejections p"] assms(2)
    by (auto simp: p2_inv_def fold_phase2_def Let_def)
  then show ?thesis
    using handoff_valid_universe fold_admission_authenticated [OF assms(1)] by (metis mem_Collect_eq subsetI)
qed

theorem handoffs_valid_witness:
  "handoff_valid {a. authenticated demo_prims (demo_input [demo_creator, demo_approver]) ''31'' demo_rosters a} ''i''
     \<lparr>hr_event_hash = ''37'', hr_handoff = demo_handoff\<rparr>"
proof -
  have "bt_get_list (fo_handoffs (fold_phase2 demo_phase1)) ''i'' = [\<lparr>hr_event_hash = ''37'', hr_handoff = demo_handoff\<rparr>]"
    by code_simp
  then have "\<lparr>hr_event_hash = ''37'', hr_handoff = demo_handoff\<rparr> \<in> set (bt_get_list (fo_handoffs (fold_phase2 demo_phase1)) ''i'')"
    by simp
  from handoffs_valid [OF demo_admission this] show ?thesis by (simp add: demo_phase1_def)
qed

section \<open>The state machine\<close>

text \<open>
  C6: Applying a transition refines the abstract issue machine: the code accepts an event exactly when
  it opens an issue that does not exist or when the machine of its issue has a move with that actor,
  kind and hash; the accepted event updates that one entry and nothing else.
\<close>

theorem transition_refines_machine:
  "apply_transition issues adm e = Ok issues' \<longleftrightarrow>
     (\<exists>t u v w. te_kind e = TkOpen t u v w \<and> bt_get issues (te_issue_id e) = None \<and>
        issues' = bt_insert (te_issue_id e) (opened_issue adm e t u) issues) \<or>
     (\<exists>issue s. bt_get issues (te_issue_id e) = Some issue \<and>
        issue_step (te_actor e) (te_kind e) (ad_event_hash adm) (is_status issue) s \<and>
        issues' = bt_insert (te_issue_id e) (move_issue s (ad_event_hash adm) issue) issues)"
  by (rule apply_transition_Ok_iff)

text \<open>
  Mutual exclusion: while an issue is claimed, a transition that changes it is a release, block or
  completion by the claimant that names the claim's nonce and the claim's event hash.
\<close>

theorem claimed_issue_fenced:
  assumes "apply_transition issues adm e = Ok issues'" and "bt_get issues i = Some issue"
    and "is_status issue = StClaimed c n h" and "bt_get issues' i \<noteq> Some issue"
  shows "te_issue_id e = i \<and> te_actor e = c \<and>
    (te_kind e = TkRelease n h \<or> te_kind e = TkComplete n h \<or> (\<exists>r. te_kind e = TkBlock n h r))"
proof -
  have i: "i = te_issue_id e" using apply_transition_get(2) [OF assms(1)] assms(2,4) by metis
  with apply_transition_get(3) [OF assms(1)] assms(2,3) obtain s where
    "issue_step (te_actor e) (te_kind e) (ad_event_hash adm) (StClaimed c n h) s" by metis
  then show ?thesis using i by (auto elim: issue_step_claimedE)
qed

theorem claimed_issue_fenced_witness:
  "bt_get [(''i'', demo_issue (StClaimed ''07'' ''6d'' ''33''))] ''i'' = Some (demo_issue (StClaimed ''07'' ''6d'' ''33'')) \<and>
   te_issue_id (demo_transition (TkComplete ''6d'' ''33'') 6 5 ''37'') = ''i'' \<and>
   te_actor (demo_transition (TkComplete ''6d'' ''33'') 6 5 ''37'') = ''07''"
proof -
  let ?e = "demo_transition (TkComplete ''6d'' ''33'') 6 5 ''37''"
  have "apply_transition [(''i'', demo_issue (StClaimed ''07'' ''6d'' ''33''))] demo_complete ?e =
      Ok [(''i'', (demo_issue (StDone ''07'' ''36''))\<lparr>is_applied := [''32'', ''33'', ''36'']\<rparr>)]"
    by code_simp
  from claimed_issue_fenced [OF this, of "''i''" "demo_issue (StClaimed ''07'' ''6d'' ''33'')" "''07''" "''6d''" "''33''"]
  show ?thesis by (simp add: bt_get_def demo_issue_def)
qed

text \<open>
  Completion is final: once an issue is done, no later event of the walk changes its entry.
\<close>

theorem done_is_final:
  assumes "bt_get (p2_issues (foldl (phase2_step aps) st xs)) i = Some issue" and "is_status issue = StDone a h"
  shows "bt_get (p2_issues (foldl (phase2_step aps) st (xs @ ys))) i = Some issue"
  using done_final.run_invar [of i issue "foldl (phase2_step aps) st xs" ys aps] assms by (auto simp: done_issue_def)

theorem done_is_final_witness:
  "bt_get (p2_issues (foldl (phase2_step []) (phase2_init []) ([demo_open, demo_claim, demo_complete] @ [demo_claim]))) ''i'' =
     Some ((demo_issue (StDone ''07'' ''36''))\<lparr>is_applied := [''32'', ''33'', ''36'']\<rparr>)"
proof (rule done_is_final)
  show "bt_get (p2_issues (foldl (phase2_step []) (phase2_init []) [demo_open, demo_claim, demo_complete])) ''i'' =
     Some ((demo_issue (StDone ''07'' ''36''))\<lparr>is_applied := [''32'', ''33'', ''36'']\<rparr>)" by code_simp
qed (simp add: demo_issue_def)

text \<open>
  The first effective consume of an approval in fold order wins: no later event replaces or removes
  it.
\<close>

theorem first_consume_wins:
  assumes "bt_get (p2_consumes (foldl (phase2_step aps) st xs)) k = Some ec"
  shows "bt_get (p2_consumes (foldl (phase2_step aps) st (xs @ ys))) k = Some ec"
  using consume_final.run_invar [of k ec "foldl (phase2_step aps) st xs" ys aps] assms by (simp add: consumed_by_def)

theorem first_consume_wins_witness:
  "bt_get (p2_consumes (foldl (phase2_step (collect_approvals [demo_approve])) (phase2_init [])
     ([demo_open, demo_claim, demo_consumed] @ [demo_consumed\<lparr>ad_event_hash := ''39''\<rparr>]))) ''34'' =
   Some \<lparr>ec_event_hash = ''35'', ec_consume = demo_consume\<rparr>"
  by (rule first_consume_wins) code_simp

text \<open>
  The content of an issue is immutable: from the event that opens it on, it stays in the map with
  the same title, specification, opener and open-event hash.
\<close>

theorem issue_content_immutable:
  assumes "bt_get (p2_issues (foldl (phase2_step aps) st xs)) i = Some issue"
  shows "\<exists>issue'. bt_get (p2_issues (foldl (phase2_step aps) st (xs @ ys))) i = Some issue' \<and> same_issue_content issue issue'"
  using content_final.run_invar [of i issue "foldl (phase2_step aps) st xs" ys aps] assms
  by (auto simp: has_content_def same_issue_content_def)

theorem issue_content_immutable_witness:
  "\<exists>issue'. bt_get (p2_issues (foldl (phase2_step []) (phase2_init []) ([demo_open] @ [demo_claim, demo_complete]))) ''i'' = Some issue' \<and>
     is_title issue' = ''t''"
proof -
  have "bt_get (p2_issues (foldl (phase2_step []) (phase2_init []) [demo_open])) ''i'' =
      Some ((demo_issue StOpen)\<lparr>is_applied := [''32'']\<rparr>)" by code_simp
  from issue_content_immutable [OF this, of "[demo_claim, demo_complete]"] show ?thesis
    by (auto simp: same_issue_content_def demo_issue_def)
qed

text \<open>
  A consume is effective exactly when its approval is admitted, approves the same issue and its
  current content, was given by the approver the consume names, is not yet consumed, and the consumer
  holds the winning claim with the nonce and hash the consume names.
\<close>

theorem consume_effective_iff:
  "consume_effectiveness issues aps ecs c = Ok () \<longleftrightarrow>
     (\<exists>ap issue. bt_get aps (ce_approval_event_hash c) = Some ap \<and> ae_issue_id (aa_approval ap) = ce_issue_id c \<and>
        ae_actor (aa_approval ap) = ce_approver c \<and> ae_verdict (aa_approval ap) = Approve \<and>
        bt_get issues (ce_issue_id c) = Some issue \<and>
        ae_open_event_hash (aa_approval ap) = is_open_event_hash issue \<and>
        is_status issue = StClaimed (ce_actor c) (ce_claim_nonce c) (ce_claimed_event_hash c) \<and>
        bt_get ecs (ce_approval_event_hash c) = None)"
  by (rule consume_effectiveness_Ok_iff)

text \<open>
  A requeue is admitted only with proof of approval: its justification embeds an envelope signed, in
  the approval context, by a key that derives to the approver; the approval names this list, this
  genesis, the issue, the block event and the claim nonce of the justification; the hashes of the
  justification are the digest of the approval; and the approver is on the roster of the requeue's epoch.
\<close>

theorem requeue_admitted_justified:
  assumes "admit_transition P rec owner acard l g rosters = Ok adm"
    and "ad_payload adm = ChTransition e" and "te_kind e = TkRequeue j"
  shows "\<exists>payload ap roster. verify_envelope P (rq_approval j) APPROVAL_CONTEXT_V2 = Ok (payload, rq_approval_event_hash j) \<and>
     rq_approval_payload_sha256 j = rq_approval_event_hash j \<and> json_approval_payload P payload = Ok ap \<and>
     ee_signer_agent_id (rq_approval j) = rq_approver j \<and> apl_approver ap = rq_approver j \<and>
     apl_list_uuid ap = l \<and> apl_genesis_manifest_hash ap = g \<and> apl_issue_id ap = te_issue_id e \<and>
     apl_block_event_hash ap = rq_block_event_hash j \<and> apl_claim_nonce ap = rq_claim_nonce j \<and>
     nth_opt rosters (unat (te_roster_epoch e)) = Some roster \<and> rq_approver j \<in> set roster"
proof -
  from assms obtain roster where c: "check_requeue_justification P l g roster e j = Ok ()"
    and r: "nth_opt rosters (unat (te_roster_epoch e)) = Some roster"
    by (auto simp: admit_transition_def check_transition_content_def dest!: check_chained_common_OkD)
  from c r show ?thesis
    by (auto simp: check_requeue_justification_def split: if_splits)
qed
theorem requeue_admitted_justified_witness:
  "\<exists>payload ap roster. verify_envelope demo_prims (rq_approval demo_justification) APPROVAL_CONTEXT_V2 = Ok (payload, ''61'') \<and>
     json_approval_payload demo_prims payload = Ok ap \<and> nth_opt demo_rosters 0 = Some roster \<and> ''09'' \<in> set roster"
  using requeue_admitted_justified [OF demo_admit_requeue, of _ demo_justification]
  by (auto simp: demo_admitted_def demo_transition_def demo_justification_def)

end
