(* ===== verification/Effects.thy ===== *)
theory Effects
  imports Prelude
begin

text \<open>
  Operations that call a service. An operation takes a world \<open>'w\<close> and returns its result with the new
  world; \<open>io_bind\<close> is an await followed by the question-mark operator. The types of the signing client
  (\<^verbatim>\<open>x0x-symphony-signing\<close>) that several components share are here too.
\<close>

section \<open>Effects\<close>

type_synonym ('w, 'a, 'e) io = "'w \<Rightarrow> ('a, 'e) result \<times> 'w"

definition io_bind :: "('w, 'a, 'e) io \<Rightarrow> ('a \<Rightarrow> ('w, 'b, 'e) io) \<Rightarrow> ('w, 'b, 'e) io" where
  "io_bind m f w = (case m w of (Ok x, w') \<Rightarrow> f x w' | (Err e, w') \<Rightarrow> (Err e, w'))"

definition io_lift :: "('a, 'e) result \<Rightarrow> ('w, 'a, 'e) io" where
  "io_lift r w = (r, w)"

definition io_map_err :: "('e \<Rightarrow> 'f) \<Rightarrow> ('w, 'a, 'e) io \<Rightarrow> ('w, 'a, 'f) io" where
  "io_map_err g m w = (case m w of (r, w') \<Rightarrow> (map_err g r, w'))"

section \<open>Reasoning about effects\<close>

lemma io_bind_Ok_iff:
  "io_bind m f w = (Ok y, w') \<longleftrightarrow> (\<exists>x w1. m w = (Ok x, w1) \<and> f x w1 = (Ok y, w'))"
  by (auto simp: io_bind_def split: prod.splits result.splits)

lemma io_lift_iff [simp]: "io_lift r w = (r', w') \<longleftrightarrow> r = r' \<and> w' = w"
  by (auto simp: io_lift_def)

lemma io_map_err_Ok_iff [simp]: "io_map_err g m w = (Ok x, w') \<longleftrightarrow> m w = (Ok x, w')"
  by (auto simp: io_map_err_def split: prod.splits)

lemma io_bind_assoc: "io_bind (io_bind m f) g = io_bind m (\<lambda>x. io_bind (f x) g)"
  by (auto simp: io_bind_def fun_eq_iff split: prod.splits result.splits)

lemma io_bind_option_iff:
  "io_bind m (case_option (io_lift (Ok a)) f) w = (Ok b, w') \<longleftrightarrow>
     m w = (Ok None, w') \<and> a = b \<or> (\<exists>x w1. m w = (Ok (Some x), w1) \<and> f x w1 = (Ok b, w'))"
  unfolding io_bind_Ok_iff by (auto split: option.splits)

section \<open>The signing client\<close>

text \<open>Errors and responses of the signing service; foreign error values are opaque strings.\<close>

datatype signing_error =
    SeBuildClient string
  | SeRequest string string
  | SeDecode string string
  | SeHttp "16 word" string
  | SeBase64 string string
  | SeInvalidResponse string
  | SePayloadTooLarge usize usize
  | SeUntrustedKey string

record sign_response =
  sg_agent_id :: string
  sg_public_key_b64 :: string
  sg_signature_b64 :: string
  sg_algorithm :: string
  sg_context :: string

datatype verify_outcome = VoValid | VoInvalid string | VoTransportError string

end
