(* ===== verification/Text.thy ===== *)
theory Text
  imports Prelude
begin

text \<open>
  Operations of Rust's standard library on text that the source uses beyond the prelude:
  \<^verbatim>\<open>str::trim\<close>, \<^verbatim>\<open>to_ascii_lowercase\<close> and \<^verbatim>\<open>String::from_utf8\<close>. A string is the list of the bytes of its UTF-8
  encoding, so the Unicode white space that \<^verbatim>\<open>trim\<close> removes is a set of byte sequences.
\<close>

section \<open>Trimming\<close>

definition whitespace :: "string list" where
  "whitespace =
     [[CHR 0x09], [CHR 0x0A], [CHR 0x0B], [CHR 0x0C], [CHR 0x0D], [CHR 0x20],
      [CHR 0xC2, CHR 0x85], [CHR 0xC2, CHR 0xA0], [CHR 0xE1, CHR 0x9A, CHR 0x80],
      [CHR 0xE2, CHR 0x80, CHR 0x80], [CHR 0xE2, CHR 0x80, CHR 0x81], [CHR 0xE2, CHR 0x80, CHR 0x82], [CHR 0xE2, CHR 0x80, CHR 0x83],
      [CHR 0xE2, CHR 0x80, CHR 0x84], [CHR 0xE2, CHR 0x80, CHR 0x85], [CHR 0xE2, CHR 0x80, CHR 0x86], [CHR 0xE2, CHR 0x80, CHR 0x87],
      [CHR 0xE2, CHR 0x80, CHR 0x88], [CHR 0xE2, CHR 0x80, CHR 0x89], [CHR 0xE2, CHR 0x80, CHR 0x8A], [CHR 0xE2, CHR 0x80, CHR 0xA8],
      [CHR 0xE2, CHR 0x80, CHR 0xA9], [CHR 0xE2, CHR 0x80, CHR 0xAF], [CHR 0xE2, CHR 0x81, CHR 0x9F], [CHR 0xE3, CHR 0x80, CHR 0x80]]"

text \<open>Removes leading occurrences of the non-empty words \<open>ws\<close>.\<close>

function strip_all :: "string list \<Rightarrow> string \<Rightarrow> string" where
  "strip_all ws s =
     (case find (\<lambda>w. w \<noteq> [] \<and> prefix w s) ws of None \<Rightarrow> s | Some w \<Rightarrow> strip_all ws (drop (length w) s))"
  by auto
termination
proof (relation "measure (\<lambda>(ws, s). length s)")
  fix ws s w
  assume "find (\<lambda>w. w \<noteq> [] \<and> prefix w s) ws = Some w"
  then have "w \<noteq> []" "prefix w s" by (auto simp: find_Some_iff)
  then have "0 < length w" "length w \<le> length s" by (auto dest: prefix_length_le)
  then have "length s - length w < length s" by linarith
  then show "((ws, drop (length w) s), (ws, s)) \<in> measure (\<lambda>(ws, s). length s)" by simp
qed simp

declare strip_all.simps [simp del]

definition trim_start :: "string \<Rightarrow> string" where
  "trim_start s = strip_all whitespace s"

definition trim_end :: "string \<Rightarrow> string" where
  "trim_end s = rev (strip_all (map rev whitespace) (rev s))"

definition trim :: "string \<Rightarrow> string" where
  "trim s = trim_start (trim_end s)"

lemma strip_all_suffix: "suffix (strip_all ws s) s"
proof (induction ws s rule: strip_all.induct)
  case (1 ws s)
  then show ?case
    by (subst strip_all.simps) (auto split: option.splits intro: suffix_drop suffix_order.trans)
qed

lemma strip_all_clean: "\<lbrakk>w \<in> set ws; w \<noteq> []\<rbrakk> \<Longrightarrow> \<not> prefix w (strip_all ws s)"
proof (induction ws s rule: strip_all.induct)
  case (1 ws s)
  then show ?case
    by (subst strip_all.simps) (auto split: option.splits simp: find_None_iff)
qed

lemma strip_all_id: "(\<And>w. w \<in> set ws \<Longrightarrow> w \<noteq> [] \<Longrightarrow> \<not> prefix w s) \<Longrightarrow> strip_all ws s = s"
  by (subst strip_all.simps) (auto split: option.splits simp: find_Some_iff)

lemma trim_end_id: "(\<And>w. w \<in> set whitespace \<Longrightarrow> w \<noteq> [] \<Longrightarrow> \<not> suffix w s) \<Longrightarrow> trim_end s = s"
  unfolding trim_end_def by (subst strip_all_id) (auto simp: suffix_to_prefix)

lemma trim_idempotent [simp]: "trim (trim s) = trim s"
proof -
  have "\<not> suffix w (trim s)" if w: "w \<in> set whitespace" "w \<noteq> []" for w
  proof
    assume "suffix w (trim s)"
    then have "suffix w (trim_end s)"
      unfolding trim_def trim_start_def using strip_all_suffix suffix_order.trans by blast
    then have "prefix (rev w) (strip_all (map rev whitespace) (rev s))"
      by (simp add: trim_end_def suffix_to_prefix)
    moreover have "rev w \<in> set (map rev whitespace)" "rev w \<noteq> []" using w by auto
    ultimately show False using strip_all_clean by blast
  qed
  then have "trim_end (trim s) = trim s" by (rule trim_end_id)
  moreover have "trim_start (trim s) = trim s"
    unfolding trim_def trim_start_def by (rule strip_all_id) (rule strip_all_clean)
  ultimately show ?thesis by (simp add: trim_def [of "trim s"])
qed

lemma trim_Nil [simp]: "trim [] = []"
  by (simp add: trim_def trim_start_def trim_end_def strip_all_id)

text \<open>Evaluation: text that begins and ends with a graphic ASCII character is its own trimming.\<close>

fun ascii_graphic :: "char \<Rightarrow> bool" where
  "ascii_graphic (Char b0 b1 b2 b3 b4 b5 b6 b7) = (\<not> b7 \<and> (b6 \<or> b5 \<and> (b0 \<or> b1 \<or> b2 \<or> b3 \<or> b4)))"

definition plain_ends :: "string \<Rightarrow> bool" where
  "plain_ends s = (case s of [] \<Rightarrow> True | c # _ \<Rightarrow> ascii_graphic c \<and> ascii_graphic (last s))"

lemma whitespace_not_graphic: "w \<in> set whitespace \<Longrightarrow> w \<noteq> [] \<and> \<not> ascii_graphic (hd w) \<and> \<not> ascii_graphic (last w)"
  by (auto simp: whitespace_def)

lemma trim_plain: "plain_ends s \<Longrightarrow> trim s = s"
proof (cases "s = []")
  case False
  assume "plain_ends s"
  then have g: "ascii_graphic (hd s)" "ascii_graphic (last s)" using False by (auto simp: plain_ends_def split: list.splits)
  have "\<not> prefix w s \<and> \<not> suffix w s" if "w \<in> set whitespace" for w
    using whitespace_not_graphic [OF that] g by (auto simp: prefix_def suffix_def)
  then show ?thesis by (simp add: trim_def trim_start_def trim_end_id strip_all_id)
qed simp

lemma trim_code [code]: "trim s = (if plain_ends s then s else trim_start (trim_end s))"
  by (simp add: trim_plain) (simp add: trim_def)

section \<open>ASCII case\<close>

definition to_ascii_lowercase :: "string \<Rightarrow> string" where
  "to_ascii_lowercase s = map (\<lambda>c. if of_char c \<in> {65..90 :: nat} then char_of (of_char c + 32 :: nat) else c) s"

lemma length_to_ascii_lowercase [simp]: "length (to_ascii_lowercase s) = length s"
  by (simp add: to_ascii_lowercase_def)

fun lower_char :: "char \<Rightarrow> char" where
  "lower_char (Char b0 b1 b2 b3 b4 b5 b6 b7) =
     Char b0 b1 b2 b3 b4 (b5 \<or> \<not> b7 \<and> b6 \<and> (b0 \<or> b1 \<or> b2 \<or> b3 \<or> b4) \<and> \<not> (b4 \<and> b3 \<and> (b2 \<or> b1 \<and> b0))) b6 b7"

lemma lower_char: "(if of_char c \<in> {65..90 :: nat} then char_of (of_char c + 32 :: nat) else c) = lower_char c"
proof (cases c)
  case (Char b0 b1 b2 b3 b4 b5 b6 b7)
  show ?thesis unfolding Char
    by (cases b7; cases b6; cases b5; cases b4; cases b3; cases b2; cases b1; cases b0)
      (simp_all add: char_of_def bit_0)
qed

lemma to_ascii_lowercase_code [code]: "to_ascii_lowercase s = map lower_char s"
  unfolding to_ascii_lowercase_def lower_char ..

section \<open>UTF-8\<close>

text \<open>\<^verbatim>\<open>String::from_utf8\<close>: the length of the well-formed UTF-8 sequence a byte string starts with, 0 when
  there is none, and the whole text when it consists of such sequences.\<close>

definition is_continuation :: "u8 \<Rightarrow> bool" where
  "is_continuation b = (0x80 \<le> b \<and> b \<le> 0xBF)"

fun utf8_char_len :: "bytes \<Rightarrow> nat" where
  "utf8_char_len (a # bs) =
     (if a < 0x80 then 1
      else if 0xC2 \<le> a \<and> a \<le> 0xDF then
        (case bs of b # _ \<Rightarrow> if is_continuation b then 2 else 0 | _ \<Rightarrow> 0)
      else if 0xE0 \<le> a \<and> a \<le> 0xEF then
        (case bs of b # c # _ \<Rightarrow>
           if is_continuation b \<and> is_continuation c \<and> (a = 0xE0 \<longrightarrow> 0xA0 \<le> b) \<and> (a = 0xED \<longrightarrow> b \<le> 0x9F) then 3 else 0
         | _ \<Rightarrow> 0)
      else if 0xF0 \<le> a \<and> a \<le> 0xF4 then
        (case bs of b # c # d # _ \<Rightarrow>
           if is_continuation b \<and> is_continuation c \<and> is_continuation d \<and> (a = 0xF0 \<longrightarrow> 0x90 \<le> b) \<and> (a = 0xF4 \<longrightarrow> b \<le> 0x8F)
           then 4 else 0
         | _ \<Rightarrow> 0)
      else 0)"
| "utf8_char_len [] = 0"

function utf8_valid :: "bytes \<Rightarrow> bool" where
  "utf8_valid bs =
     (if bs = [] then True else if utf8_char_len bs = 0 then False else utf8_valid (drop (utf8_char_len bs) bs))"
  by auto
termination by (relation "measure length") auto

declare utf8_valid.simps [simp del]

definition string_from_utf8 :: "bytes \<Rightarrow> string option" where
  "string_from_utf8 bs = (if utf8_valid bs then Some (map (\<lambda>b. char_of (unat b)) bs) else None)"

end
