(* ===== verification/Store.thy ===== *)
theory Store
  imports Fold_Correct Effects Text
begin

text \<open>
  Per-author event stores (\<^verbatim>\<open>v2/store.rs\<close>): anchoring, creation, joining, signing, write-once records,
  the append operations and the bounded reader that assembles the input of the fold.

  The daemon behind the trait \<^verbatim>\<open>V2StoreApi\<close> and the signer behind \<^verbatim>\<open>SigningClient\<close> are services. They are
  fields of the record \<open>store_api\<close>, functions on a world \<open>'w\<close> that they may change; nothing is assumed
  of them except where a lemma says so. The JSON and base64 encoders are fields of \<open>codecs\<close>.
  An operation of the manager takes the world and returns its result with the new world.

  Lemmas: \<open>put_once\<close> never overwrites; whatever the reader returns is anchored and within the budgets
  that the fold checks; and a record the append operations wrote is admitted by the fold when the
  signer and the encoders do what they document.
\<close>

section \<open>Services and codecs\<close>

text \<open>The errors of the REST client; foreign error values are opaque strings.\<close>

datatype client_error =
    CeBuildClient string
  | CeRequest string string
  | CeDecode string string
  | CeHttp "16 word" string
  | CeBase64 string string

record store_detail_entry =
  sd_id :: string
  sd_owner :: "string option"
  sd_policy :: "string option"

record 'w store_api =
  api_create :: "string \<Rightarrow> string \<Rightarrow> string option \<Rightarrow> ('w, unit, client_error) io"
  api_join :: "string \<Rightarrow> string \<Rightarrow> ('w, unit, client_error) io"
  api_detail :: "string \<Rightarrow> ('w, store_detail_entry option, client_error) io"
  api_list_keys :: "string \<Rightarrow> ('w, string list, client_error) io"
  api_get :: "string \<Rightarrow> string \<Rightarrow> ('w, bytes option, client_error) io"
  api_put :: "string \<Rightarrow> string \<Rightarrow> bytes \<Rightarrow> string \<Rightarrow> ('w, unit, client_error) io"
  api_sign :: "string \<Rightarrow> bytes \<Rightarrow> ('w, sign_response, signing_error) io"

record codecs =
  b64_encode :: "bytes \<Rightarrow> string"
  enc_envelope :: "event_envelope \<Rightarrow> (bytes, string) result"
  enc_genesis :: "genesis_manifest_v2 \<Rightarrow> (bytes, string) result"
  enc_roster :: "roster_event_v2 \<Rightarrow> (bytes, string) result"
  enc_transition :: "transition_event_v2 \<Rightarrow> (bytes, string) result"
  enc_approval :: "approval_event_v2 \<Rightarrow> (bytes, string) result"
  enc_consume :: "consume_event_v2 \<Rightarrow> (bytes, string) result"
  enc_handoff :: "handoff_event_v2 \<Rightarrow> (bytes, string) result"

definition encode_envelope :: "codecs \<Rightarrow> event_envelope \<Rightarrow> (bytes, string) result" where
  "encode_envelope K env = map_err (\<lambda>e. ''envelope encode failed: '' @ e) (enc_envelope K env)"

definition transition_to_signed_bytes :: "codecs \<Rightarrow> transition_event_v2 \<Rightarrow> (bytes, string) result" where
  "transition_to_signed_bytes K ev = map_err (\<lambda>e. ''transition encode failed: '' @ e) (enc_transition K ev)"

definition approval_to_signed_bytes :: "codecs \<Rightarrow> approval_event_v2 \<Rightarrow> (bytes, string) result" where
  "approval_to_signed_bytes K ev = map_err (\<lambda>e. ''approval encode failed: '' @ e) (enc_approval K ev)"

definition consume_to_signed_bytes :: "codecs \<Rightarrow> consume_event_v2 \<Rightarrow> (bytes, string) result" where
  "consume_to_signed_bytes K ev = map_err (\<lambda>e. ''consume encode failed: '' @ e) (enc_consume K ev)"

definition handoff_to_signed_bytes :: "codecs \<Rightarrow> handoff_event_v2 \<Rightarrow> (bytes, string) result" where
  "handoff_to_signed_bytes K ev = map_err (\<lambda>e. ''handoff encode failed: '' @ e) (enc_handoff K ev)"

section \<open>The manager\<close>

definition BOOTSTRAP_CONTEXT_V2 :: string where
  "BOOTSTRAP_CONTEXT_V2 = ''x0x-symphony-bootstrap-v2''"

definition V2_ENVELOPE_CONTENT_TYPE :: string where
  "V2_ENVELOPE_CONTENT_TYPE = ''application/x0x-symphony-v2+json''"

definition CARD_SELF_CONTENT_TYPE :: string where
  "CARD_SELF_CONTENT_TYPE = ''application/octet-stream''"

datatype store_policy_mode = AppendOnly | SignedFallback

definition policy_from_config_value :: "string \<Rightarrow> store_policy_mode option" where
  "policy_from_config_value v =
     (if v = ''append_only'' then Some AppendOnly else if v = ''signed'' then Some SignedFallback else None)"

fun policy_as_str :: "store_policy_mode \<Rightarrow> string" where
  "policy_as_str AppendOnly = ''append_only''"
| "policy_as_str SignedFallback = ''signed''"

text \<open>\<open>SeAnchorMismatch topic reported expected\<close> holds the values its message is formatted from.\<close>

datatype v2_store_error =
    SeClient client_error
  | SeSigning signing_error
  | SePolicyNotHonored string "string option"
  | SeImmutableConflict string string
  | SeSignerMismatch string
  | SeInvalid string
  | SeNotFound string
  | SeAnchorMismatch string "string option" string
  | SeRefused list_refusal

record own_event_store =
  os_list_uuid :: string
  os_agent_id :: string
  os_public_key :: bytes
  os_topic :: string
  os_policy :: store_policy_mode

record v2_store_manager =
  sm_mode :: store_policy_mode
  sm_limits :: fold_limits

definition new_store_manager :: "store_policy_mode \<Rightarrow> v2_store_manager" where
  "new_store_manager mode = \<lparr>sm_mode = mode, sm_limits = default_fold_limits\<rparr>"

definition with_limits :: "v2_store_manager \<Rightarrow> fold_limits \<Rightarrow> v2_store_manager" where
  "with_limits M limits = M\<lparr>sm_limits := limits\<rparr>"

text \<open>HTTP 409 and 404.\<close>

definition is_conflict :: "client_error \<Rightarrow> bool" where
  "is_conflict e = (case e of CeHttp status _ \<Rightarrow> status = 409 | _ \<Rightarrow> False)"

definition is_http_not_found :: "client_error \<Rightarrow> bool" where
  "is_http_not_found e = (case e of CeHttp status _ \<Rightarrow> status = 404 | _ \<Rightarrow> False)"

text \<open>The match that treats a conflict as success.\<close>

definition tolerate_conflict :: "('w, unit, client_error) io \<Rightarrow> ('w, unit, v2_store_error) io" where
  "tolerate_conflict m w = (case m w of
     (Ok _, w') \<Rightarrow> (Ok (), w')
   | (Err e, w') \<Rightarrow> if is_conflict e then (Ok (), w') else (Err (SeClient e), w'))"

definition verify_store_anchor ::
  "'w store_api \<Rightarrow> v2_store_manager \<Rightarrow> string \<Rightarrow> string \<Rightarrow> ('w, unit, v2_store_error) io" where
  "verify_store_anchor A M topic expected_owner =
     io_bind (io_map_err SeClient (api_detail A topic)) (\<lambda>d.
     io_bind (io_lift (ok_or d (SeNotFound topic))) (\<lambda>detail.
     io_lift
       (if sd_owner detail \<noteq> Some expected_owner
        then Err (SeAnchorMismatch topic (sd_owner detail) expected_owner)
        else if sm_mode M = AppendOnly \<and> sd_policy detail \<noteq> Some ''append_only''
        then Err (SePolicyNotHonored topic (sd_policy detail))
        else Ok ())))"

definition bootstrap_payload :: bytes where
  "bootstrap_payload = as_bytes ''x0x-symphony-v2-key-bootstrap''"

definition ensure_own_store ::
  "prims \<Rightarrow> 'w store_api \<Rightarrow> v2_store_manager \<Rightarrow> string \<Rightarrow> ('w, own_event_store, v2_store_error) io" where
  "ensure_own_store P A M list_uuid =
     io_bind (io_map_err SeSigning (api_sign A BOOTSTRAP_CONTEXT_V2 bootstrap_payload)) (\<lambda>sign.
     io_bind (io_lift (map_err SeInvalid (decode_b64 P ''public_key_b64'' (sg_public_key_b64 sign)))) (\<lambda>public_key.
     let derived = derive_agent_id_hex P public_key in
     if derived \<noteq> sg_agent_id sign
     then io_lift (Err (SeSignerMismatch (''x0xd reports agent '' @ sg_agent_id sign @ '' but its key derives to '' @ derived)))
     else
       let topic = event_store_topic list_uuid (sg_agent_id sign);
           requested_policy = (case sm_mode M of AppendOnly \<Rightarrow> Some ''append_only'' | SignedFallback \<Rightarrow> None)
       in io_bind (tolerate_conflict (api_create A topic topic requested_policy)) (\<lambda>_.
          io_bind (verify_store_anchor A M topic (sg_agent_id sign)) (\<lambda>_.
          io_bind (io_map_err SeClient (api_get A topic CARD_SELF_KEY)) (\<lambda>existing.
          io_bind (case existing of
              Some v \<Rightarrow> if v = public_key then io_lift (Ok ()) else io_lift (Err (SeImmutableConflict topic CARD_SELF_KEY))
            | None \<Rightarrow> io_map_err SeClient (api_put A topic CARD_SELF_KEY public_key CARD_SELF_CONTENT_TYPE)) (\<lambda>_.
          io_lift (Ok \<lparr>os_list_uuid = list_uuid, os_agent_id = sg_agent_id sign, os_public_key = public_key,
             os_topic = topic, os_policy = sm_mode M\<rparr>)))))))"

definition join_peer_store ::
  "'w store_api \<Rightarrow> v2_store_manager \<Rightarrow> string \<Rightarrow> string \<Rightarrow> ('w, string, v2_store_error) io" where
  "join_peer_store A M list_uuid peer_agent_id =
     (let topic = event_store_topic list_uuid peer_agent_id in
      io_bind (tolerate_conflict (api_join A topic peer_agent_id)) (\<lambda>_.
      io_bind (verify_store_anchor A M topic peer_agent_id) (\<lambda>_.
      io_lift (Ok topic))))"

fun join_roster_stores ::
  "'w store_api \<Rightarrow> v2_store_manager \<Rightarrow> string \<Rightarrow> string list \<Rightarrow> string \<Rightarrow> ('w, string list, v2_store_error) io" where
  "join_roster_stores A M list_uuid [] own_agent_id = io_lift (Ok [])"
| "join_roster_stores A M list_uuid (peer # roster) own_agent_id =
     (if peer = own_agent_id then join_roster_stores A M list_uuid roster own_agent_id
      else io_bind (join_peer_store A M list_uuid peer) (\<lambda>topic.
           io_bind (join_roster_stores A M list_uuid roster own_agent_id) (\<lambda>topics.
           io_lift (Ok (topic # topics)))))"

definition sign_envelope ::
  "codecs \<Rightarrow> 'w store_api \<Rightarrow> own_event_store \<Rightarrow> string \<Rightarrow> bytes \<Rightarrow> ('w, event_envelope, v2_store_error) io" where
  "sign_envelope K A own context payload =
     io_bind (io_map_err SeSigning (api_sign A context payload)) (\<lambda>sign.
     io_lift
       (if sg_agent_id sign \<noteq> os_agent_id own
        then Err (SeSignerMismatch (''x0xd signed as '' @ sg_agent_id sign @ '' but the bound store owner is '' @ os_agent_id own))
        else Ok \<lparr>ee_schema = V2_SCHEMA, ee_context = context, ee_algorithm = sg_algorithm sign,
                ee_payload_b64 = b64_encode K payload, ee_public_key_b64 = sg_public_key_b64 sign,
                ee_signature_b64 = sg_signature_b64 sign, ee_signer_agent_id = sg_agent_id sign\<rparr>))"

definition put_once ::
  "codecs \<Rightarrow> 'w store_api \<Rightarrow> string \<Rightarrow> string \<Rightarrow> event_envelope \<Rightarrow> ('w, unit, v2_store_error) io" where
  "put_once K A topic key envelope =
     io_bind (io_lift (map_err SeInvalid (encode_envelope K envelope))) (\<lambda>bs.
     io_bind (io_map_err SeClient (api_get A topic key)) (\<lambda>existing.
     case existing of
       Some v \<Rightarrow> io_lift (if v = bs then Ok () else Err (SeImmutableConflict topic key))
     | None \<Rightarrow> io_map_err (\<lambda>e. if is_conflict e then SeImmutableConflict topic key else SeClient e)
         (api_put A topic key bs V2_ENVELOPE_CONTENT_TYPE)))"

section \<open>Publishing\<close>

definition publish_genesis ::
  "prims \<Rightarrow> codecs \<Rightarrow> 'w store_api \<Rightarrow> own_event_store \<Rightarrow> string list \<Rightarrow> string option \<Rightarrow> u64 \<Rightarrow>
   ('w, genesis_manifest_v2 \<times> string, v2_store_error) io" where
  "publish_genesis P K A own roster required_trust created_at =
     (let manifest = \<lparr>gm_schema = V2_SCHEMA, gm_kind = ''genesis'', gm_list_uuid = os_list_uuid own,
            gm_creator = os_agent_id own, gm_roster = roster,
            gm_policy = \<lparr>gp_required_trust = required_trust\<rparr>, gm_created_at = created_at\<rparr> in
      io_bind (io_lift (map_err (\<lambda>e. SeInvalid (''genesis encode failed: '' @ e)) (enc_genesis K manifest))) (\<lambda>payload.
      io_bind (sign_envelope K A own GENESIS_CONTEXT_V2 payload) (\<lambda>envelope.
      io_bind (put_once K A (os_topic own) GENESIS_KEY envelope) (\<lambda>_.
      io_lift (Ok (manifest, sha256_hex P payload))))))"

definition publish_roster_update ::
  "prims \<Rightarrow> codecs \<Rightarrow> 'w store_api \<Rightarrow> own_event_store \<Rightarrow> string \<Rightarrow> u64 \<Rightarrow> string \<Rightarrow> string list \<Rightarrow>
   ('w, string, v2_store_error) io" where
  "publish_roster_update P K A own genesis_manifest_hash roster_epoch prev_roster_hash roster =
     (let event = \<lparr>re_schema = V2_SCHEMA, re_kind = ''roster'', re_list_uuid = os_list_uuid own,
            re_genesis_manifest_hash = genesis_manifest_hash, re_roster_epoch = roster_epoch,
            re_prev_roster_hash = prev_roster_hash, re_roster = roster, re_actor = os_agent_id own\<rparr> in
      io_bind (io_lift (map_err (\<lambda>e. SeInvalid (''roster encode failed: '' @ e)) (enc_roster K event))) (\<lambda>payload.
      let hash = sha256_hex P payload in
      io_bind (sign_envelope K A own ROSTER_CONTEXT_V2 payload) (\<lambda>envelope.
      io_bind (put_once K A (os_topic own) (roster_key roster_epoch hash) envelope) (\<lambda>_.
      io_lift (Ok hash)))))"

text \<open>The shared shape of the four append operations: guards, payload, signature, write-once record.\<close>

definition append_record ::
  "prims \<Rightarrow> codecs \<Rightarrow> 'w store_api \<Rightarrow> own_event_store \<Rightarrow> string \<Rightarrow> string \<Rightarrow> string \<Rightarrow> (bytes, string) result \<Rightarrow>
   string \<Rightarrow> (string \<Rightarrow> string) \<Rightarrow> ('w, string, v2_store_error) io" where
  "append_record P K A own what actor list_uuid encoded context key_of =
     (if actor \<noteq> os_agent_id own
      then io_lift (Err (SeInvalid (what @ '' actor '' @ actor @ '' is not the local author '' @ os_agent_id own)))
      else if list_uuid \<noteq> os_list_uuid own
      then io_lift (Err (SeInvalid (what @ '' names list '' @ list_uuid @ '' but this store serves '' @ os_list_uuid own)))
      else io_bind (io_lift (map_err SeInvalid encoded)) (\<lambda>payload.
        let hash = sha256_hex P payload in
        io_bind (sign_envelope K A own context payload) (\<lambda>envelope.
        io_bind (put_once K A (os_topic own) (key_of hash) envelope) (\<lambda>_.
        io_lift (Ok hash)))))"

definition append_transition ::
  "prims \<Rightarrow> codecs \<Rightarrow> 'w store_api \<Rightarrow> own_event_store \<Rightarrow> transition_event_v2 \<Rightarrow> ('w, string, v2_store_error) io" where
  "append_transition P K A own event =
     append_record P K A own ''event'' (te_actor event) (te_list_uuid event) (transition_to_signed_bytes K event)
       TRANSITION_CONTEXT_V2 (event_key (te_issue_id event))"

definition append_approval ::
  "prims \<Rightarrow> codecs \<Rightarrow> 'w store_api \<Rightarrow> own_event_store \<Rightarrow> approval_event_v2 \<Rightarrow> ('w, string, v2_store_error) io" where
  "append_approval P K A own event =
     append_record P K A own ''approval'' (ae_actor event) (ae_list_uuid event) (approval_to_signed_bytes K event)
       APPROVAL_CONTEXT_V2 (approval_key (ae_issue_id event))"

definition append_consume ::
  "prims \<Rightarrow> codecs \<Rightarrow> 'w store_api \<Rightarrow> own_event_store \<Rightarrow> consume_event_v2 \<Rightarrow> ('w, string, v2_store_error) io" where
  "append_consume P K A own event =
     append_record P K A own ''consume'' (ce_actor event) (ce_list_uuid event) (consume_to_signed_bytes K event)
       CONSUME_CONTEXT_V2 (consume_key (ce_issue_id event))"

definition append_handoff ::
  "prims \<Rightarrow> codecs \<Rightarrow> 'w store_api \<Rightarrow> own_event_store \<Rightarrow> handoff_event_v2 \<Rightarrow> ('w, string, v2_store_error) io" where
  "append_handoff P K A own event =
     append_record P K A own ''handoff'' (he_actor event) (he_list_uuid event) (handoff_to_signed_bytes K event)
       HANDOFF_CONTEXT_V2 (handoff_key (he_issue_id event))"

definition sign_approval_payload ::
  "codecs \<Rightarrow> 'w store_api \<Rightarrow> own_event_store \<Rightarrow> bytes \<Rightarrow> ('w, event_envelope, v2_store_error) io" where
  "sign_approval_payload K A own payload = sign_envelope K A own APPROVAL_CONTEXT_V2 payload"

definition derive_claim_nonce :: "prims \<Rightarrow> string \<Rightarrow> u64 \<Rightarrow> u64 \<Rightarrow> string \<Rightarrow> string" where
  "derive_claim_nonce P author author_seq lamport issue_id =
     sha256_hex P (as_bytes (author @ '':'' @ show_word author_seq @ '':'' @ show_word lamport @ '':'' @ issue_id @ '':claim''))"

section \<open>Reading\<close>

text \<open>The loop over the listed keys; the accumulator is the card and the records read so far.\<close>

fun read_records ::
  "'w store_api \<Rightarrow> fold_limits \<Rightarrow> string \<Rightarrow> string \<Rightarrow> string list \<Rightarrow> bytes option \<Rightarrow> store_record list \<Rightarrow>
   ('w, bytes option \<times> store_record list, v2_store_error) io" where
  "read_records A lim author topic [] acard recs = io_lift (Ok (acard, recs))"
| "read_records A lim author topic (k # ks) acard recs =
     io_bind (io_map_err SeClient (api_get A topic k)) (\<lambda>got.
     case got of
       None \<Rightarrow> read_records A lim author topic ks acard recs
     | Some v \<Rightarrow>
         if length v > unat (max_record_bytes lim)
         then io_lift (Err (SeInvalid (''record '' @ k @ '' in stream '' @ author @ '' is '' @ show_nat (length v) @
                '' bytes (budget '' @ show_word (max_record_bytes lim) @ ''); refusing the read'')))
         else read_records A lim author topic ks (if k = CARD_SELF_KEY then Some v else acard)
                (recs @ [\<lparr>sr_key = k, sr_value = v\<rparr>]))"

definition read_author_stream ::
  "'w store_api \<Rightarrow> v2_store_manager \<Rightarrow> string \<Rightarrow> string \<Rightarrow> ('w, author_stream, v2_store_error) io" where
  "read_author_stream A M list_uuid author =
     (let topic = event_store_topic list_uuid author in
      io_bind (verify_store_anchor A M topic author) (\<lambda>_.
      io_bind (io_map_err SeClient (api_list_keys A topic)) (\<lambda>ks.
      if length ks > unat (max_records_per_stream (sm_limits M))
      then io_lift (Err (SeInvalid (''stream '' @ author @ '' lists '' @ show_nat (length ks) @ '' records (budget '' @
             show_word (max_records_per_stream (sm_limits M)) @ ''); refusing the read'')))
      else io_bind (read_records A (sm_limits M) author topic ks None []) (\<lambda>(acard, recs).
        io_lift (Ok \<lparr>as_owner = author, as_card_self = acard, as_records = recs\<rparr>)))))"

text \<open>The members that a genesis or roster record of the creator names, unverified.\<close>

definition named_members :: "prims \<Rightarrow> store_record \<Rightarrow> string list" where
  "named_members P rec =
     (let is_genesis = (sr_key rec = GENESIS_KEY); is_roster = prefix ROSTER_KEY_PREFIX (sr_key rec) in
      if \<not> is_genesis \<and> \<not> is_roster then []
      else case decode_envelope P (sr_value rec) of
        Err _ \<Rightarrow> []
      | Ok envelope \<Rightarrow>
          (case payload_bytes P envelope of
             Err _ \<Rightarrow> []
           | Ok payload \<Rightarrow>
               if is_genesis
               then (case json_genesis P payload of Ok genesis \<Rightarrow> gm_roster genesis | Err _ \<Rightarrow> [])
               else (case json_roster P payload of Ok roster \<Rightarrow> re_roster roster | Err _ \<Rightarrow> [])))"

definition roster_members_named :: "prims \<Rightarrow> store_record list \<Rightarrow> string btree_set" where
  "roster_members_named P recs = foldl (\<lambda>members rec. bset_extend members (named_members P rec)) [] recs"

fun read_member_streams ::
  "'w store_api \<Rightarrow> v2_store_manager \<Rightarrow> string \<Rightarrow> string \<Rightarrow> string list \<Rightarrow> author_stream list \<Rightarrow>
   ('w, author_stream list, v2_store_error) io" where
  "read_member_streams A M list_uuid creator [] streams = io_lift (Ok streams)"
| "read_member_streams A M list_uuid creator (member # members) streams =
     (if member = creator then read_member_streams A M list_uuid creator members streams
      else (\<lambda>w. case read_author_stream A M list_uuid member w of
        (Ok stream, w') \<Rightarrow> read_member_streams A M list_uuid creator members (streams @ [stream]) w'
      | (Err e, w') \<Rightarrow>
          (case e of
             SeClient ce \<Rightarrow> if is_http_not_found ce then read_member_streams A M list_uuid creator members streams w'
                           else (Err e, w')
           | SeNotFound _ \<Rightarrow> read_member_streams A M list_uuid creator members streams w'
           | _ \<Rightarrow> (Err e, w'))))"

definition read_fold_input ::
  "prims \<Rightarrow> 'w store_api \<Rightarrow> v2_store_manager \<Rightarrow> string \<Rightarrow> string \<Rightarrow> ('w, fold_input, v2_store_error) io" where
  "read_fold_input P A M list_uuid creator =
     io_bind (read_author_stream A M list_uuid creator) (\<lambda>creator_stream.
     let members = roster_members_named P (as_records creator_stream) in
     if length members > unat (max_roster_members (sm_limits M))
     then io_lift (Err (SeInvalid (''roster payloads name '' @ show_nat (length members) @ '' members (budget '' @
            show_word (max_roster_members (sm_limits M)) @ ''); refusing the read'')))
     else io_bind (read_member_streams A M list_uuid creator members [creator_stream]) (\<lambda>streams.
       io_lift (Ok \<lparr>fi_list_uuid = list_uuid, fi_creator = creator, fi_streams = streams, fi_limits = sm_limits M\<rparr>)))"

section \<open>Heartbeats\<close>

definition heartbeat_key :: "string \<Rightarrow> string" where
  "heartbeat_key issue_id = ''hb-'' @ issue_id"

definition put_heartbeat ::
  "'w store_api \<Rightarrow> own_event_store \<Rightarrow> string \<Rightarrow> string \<Rightarrow> ('w, unit, v2_store_error) io" where
  "put_heartbeat A own issue_id heartbeat_at =
     (let topic = heartbeat_store_topic (os_list_uuid own) (os_agent_id own) in
      io_bind (tolerate_conflict (api_create A topic topic None)) (\<lambda>_.
      io_map_err SeClient (api_put A topic (heartbeat_key issue_id) (as_bytes heartbeat_at) ''text/plain'')))"

definition read_heartbeat :: "'w store_api \<Rightarrow> string \<Rightarrow> string \<Rightarrow> string \<Rightarrow> 'w \<Rightarrow> string option \<times> 'w" where
  "read_heartbeat A list_uuid author_agent_id issue_id w =
     (case api_get A (heartbeat_store_topic list_uuid author_agent_id) (heartbeat_key issue_id) w of
        (Ok (Some v), w') \<Rightarrow> (string_from_utf8 v, w')
      | (_, w') \<Rightarrow> (None, w'))"

definition join_peer_heartbeats ::
  "'w store_api \<Rightarrow> string \<Rightarrow> string \<Rightarrow> ('w, unit, v2_store_error) io" where
  "join_peer_heartbeats A list_uuid peer_agent_id =
     tolerate_conflict (api_join A (heartbeat_store_topic list_uuid peer_agent_id) peer_agent_id)"


section \<open>Write-once records\<close>

text \<open>The world \<open>w'\<close> is reached by a read that found these bytes at the key, or by the accepted write
  of them to a key that was free.\<close>

definition stored :: "'w store_api \<Rightarrow> string \<Rightarrow> string \<Rightarrow> bytes \<Rightarrow> 'w \<Rightarrow> bool" where
  "stored A topic key bs w' \<longleftrightarrow> (\<exists>w. api_get A topic key w = (Ok (Some bs), w')) \<or>
     (\<exists>w w1. api_get A topic key w = (Ok None, w1) \<and> api_put A topic key bs V2_ENVELOPE_CONTENT_TYPE w1 = (Ok (), w'))"

lemma put_once_Ok:
  assumes "put_once K A topic key env w = (Ok (), w')"
  shows "\<exists>bs. enc_envelope K env = Ok bs \<and> stored A topic key bs w'"
proof -
  from assms obtain bs existing w1 where "enc_envelope K env = Ok bs" "api_get A topic key w = (Ok existing, w1)"
    "(case existing of Some v \<Rightarrow> io_lift (if v = bs then Ok () else Err (SeImmutableConflict topic key))
      | None \<Rightarrow> io_map_err (\<lambda>e. if is_conflict e then SeImmutableConflict topic key else SeClient e)
          (api_put A topic key bs V2_ENVELOPE_CONTENT_TYPE)) w1 = (Ok (), w')"
    unfolding put_once_def io_bind_Ok_iff encode_envelope_def by auto
  then show ?thesis unfolding stored_def by (cases existing) (auto split: if_splits)
qed

lemma put_once_existing:
  assumes "api_get A topic key w = (Ok (Some old), w1)" and "enc_envelope K env = Ok bs"
  shows "put_once K A topic key env w = (if old = bs then Ok () else Err (SeImmutableConflict topic key), w1)"
  using assms by (simp add: put_once_def io_bind_def io_lift_def io_map_err_def encode_envelope_def)

section \<open>Anchored, bounded reads\<close>

text \<open>The daemon reported \<open>owner\<close> as the owner of the store and, when required, the append-only policy.\<close>

definition anchored :: "'w store_api \<Rightarrow> store_policy_mode \<Rightarrow> string \<Rightarrow> string \<Rightarrow> bool" where
  "anchored A mode topic owner \<longleftrightarrow> (\<exists>w w' d. api_detail A topic w = (Ok (Some d), w') \<and> sd_owner d = Some owner \<and>
     (mode = AppendOnly \<longrightarrow> sd_policy d = Some ''append_only''))"

lemma verify_store_anchor_Ok: "verify_store_anchor A M topic owner w = (Ok (), w') \<Longrightarrow> anchored A (sm_mode M) topic owner"
  by (auto simp: verify_store_anchor_def io_bind_Ok_iff anchored_def split: if_splits)

lemma read_records_Ok:
  assumes "read_records A lim author topic ks acard recs w = (Ok (acard', recs'), w')"
    and "\<forall>r \<in> set recs. length (sr_value r) \<le> unat (max_record_bytes lim)"
  shows "length recs' \<le> length recs + length ks \<and> (\<forall>r \<in> set recs'. length (sr_value r) \<le> unat (max_record_bytes lim))"
  using assms
proof (induction ks arbitrary: acard recs w)
  case (Cons k ks)
  from Cons.prems(1) obtain got w1 where "api_get A topic k w = (Ok got, w1)"
    and rest: "(case got of None \<Rightarrow> read_records A lim author topic ks acard recs
       | Some v \<Rightarrow> if length v > unat (max_record_bytes lim)
           then io_lift (Err (SeInvalid (''record '' @ k @ '' in stream '' @ author @ '' is '' @ show_nat (length v) @
                '' bytes (budget '' @ show_word (max_record_bytes lim) @ ''); refusing the read'')))
           else read_records A lim author topic ks (if k = CARD_SELF_KEY then Some v else acard)
                (recs @ [\<lparr>sr_key = k, sr_value = v\<rparr>])) w1 = (Ok (acard', recs'), w')"
    unfolding read_records.simps io_bind_Ok_iff by auto
  show ?case
  proof (cases got)
    case None
    with rest Cons.IH [of acard recs w1] Cons.prems(2) show ?thesis by auto
  next
    case (Some v)
    with rest have len: "length v \<le> unat (max_record_bytes lim)"
      and r: "read_records A lim author topic ks (if k = CARD_SELF_KEY then Some v else acard)
          (recs @ [\<lparr>sr_key = k, sr_value = v\<rparr>]) w1 = (Ok (acard', recs'), w')"
      by (auto split: if_splits)
    from Cons.IH [OF r] len Cons.prems(2) show ?thesis by auto
  qed
qed simp

lemma read_author_stream_Ok:
  assumes "read_author_stream A M list_uuid author w = (Ok s, w')"
  shows "as_owner s = author \<and> anchored A (sm_mode M) (event_store_topic list_uuid author) author \<and>
    length (as_records s) \<le> unat (max_records_per_stream (sm_limits M)) \<and>
    (\<forall>r \<in> set (as_records s). length (sr_value r) \<le> unat (max_record_bytes (sm_limits M)))"
proof -
  from assms obtain w1 w2 ks acard recs where
    "verify_store_anchor A M (event_store_topic list_uuid author) author w = (Ok (), w1)"
    and "length ks \<le> unat (max_records_per_stream (sm_limits M))"
    and r: "read_records A (sm_limits M) author (event_store_topic list_uuid author) ks None [] w2 = (Ok (acard, recs), w')"
    and s: "s = \<lparr>as_owner = author, as_card_self = acard, as_records = recs\<rparr>"
    by (auto simp: read_author_stream_def Let_def io_bind_Ok_iff not_less split: if_splits)
  with verify_store_anchor_Ok read_records_Ok [OF r] show ?thesis by fastforce
qed

text \<open>Every stream of the result was read, and the new ones are streams of different members.\<close>

lemma read_member_streams_Ok:
  assumes "read_member_streams A M list_uuid creator members streams w = (Ok streams', w')"
  shows "\<exists>new. streams' = streams @ new \<and> subseq (map as_owner new) (filter (\<lambda>m. m \<noteq> creator) members) \<and>
    (\<forall>s \<in> set new. \<exists>w w'. read_author_stream A M list_uuid (as_owner s) w = (Ok s, w'))"
  using assms
proof (induction members arbitrary: streams w)
  case (Cons m members)
  have skip: "?case" if "read_member_streams A M list_uuid creator members streams w1 = (Ok streams', w')" for w1
    using Cons.IH [OF that] by (auto intro: subseq_Cons')
  show ?case
  proof (cases "m = creator")
    case True
    with Cons.prems show ?thesis by (intro skip [of w]) simp
  next
    case False
    obtain r w1 where rd: "read_author_stream A M list_uuid m w = (r, w1)" by force
    show ?thesis
    proof (cases r)
      case (Ok s)
      with Cons.prems False rd have "read_member_streams A M list_uuid creator members (streams @ [s]) w1 = (Ok streams', w')"
        by simp
      from Cons.IH [OF this] obtain new where new: "streams' = (streams @ [s]) @ new"
        "subseq (map as_owner new) (filter (\<lambda>m. m \<noteq> creator) members)"
        "\<forall>s \<in> set new. \<exists>w w'. read_author_stream A M list_uuid (as_owner s) w = (Ok s, w')" by blast
      have "as_owner s = m" using read_author_stream_Ok [of A M list_uuid m w s w1] rd Ok by simp
      with new rd Ok False show ?thesis by (intro exI [of _ "s # new"]) auto
    next
      case (Err e)
      with Cons.prems False rd have "read_member_streams A M list_uuid creator members streams w1 = (Ok streams', w')"
        by (auto split: v2_store_error.splits if_splits)
      then show ?thesis by (rule skip)
    qed
  qed
qed simp

lemma distinct_of_subseq: "subseq xs ys \<Longrightarrow> distinct ys \<Longrightarrow> distinct xs"
  by (metis distinct_nthsI subseq_conv_nths)

lemma bset_wf_roster_members_named: "bset_wf (roster_members_named P recs)"
proof -
  have "bset_wf (foldl (\<lambda>members rec. bset_extend members (named_members P rec)) ms recs)" if "bset_wf ms" for ms
    using that by (induction recs arbitrary: ms) auto
  then show ?thesis by (simp add: roster_members_named_def)
qed

lemma read_fold_input_Ok:
  assumes "read_fold_input P A M list_uuid creator w = (Ok inp, w')"
  shows "\<exists>cs new. fi_streams inp = cs # new \<and> as_owner cs = creator \<and> fi_limits inp = sm_limits M \<and>
    fi_list_uuid inp = list_uuid \<and> fi_creator inp = creator \<and>
    distinct (map as_owner (fi_streams inp)) \<and> length new \<le> unat (max_roster_members (sm_limits M)) \<and>
    (\<forall>s \<in> set (fi_streams inp). \<exists>w w'. read_author_stream A M list_uuid (as_owner s) w = (Ok s, w'))"
proof -
  from assms obtain cs w1 streams where cs: "read_author_stream A M list_uuid creator w = (Ok cs, w1)"
    and len: "length (roster_members_named P (as_records cs)) \<le> unat (max_roster_members (sm_limits M))"
    and ms: "read_member_streams A M list_uuid creator (roster_members_named P (as_records cs)) [cs] w1 = (Ok streams, w')"
    and inp: "inp = \<lparr>fi_list_uuid = list_uuid, fi_creator = creator, fi_streams = streams, fi_limits = sm_limits M\<rparr>"
    by (auto simp: read_fold_input_def Let_def io_bind_Ok_iff not_less split: if_splits)
  have owner: "as_owner cs = creator" using read_author_stream_Ok [OF cs] by blast
  from read_member_streams_Ok [OF ms] obtain new where new: "streams = [cs] @ new"
    "subseq (map as_owner new) (filter (\<lambda>m. m \<noteq> creator) (roster_members_named P (as_records cs)))"
    "\<forall>s \<in> set new. \<exists>w w'. read_author_stream A M list_uuid (as_owner s) w = (Ok s, w')" by blast
  have "distinct (roster_members_named P (as_records cs))"
    using bset_wf_roster_members_named [of P "as_records cs"] by (simp add: bset_wf_def strict_sorted_iff)
  then have "distinct (map as_owner new)" using new(2) by (meson distinct_filter distinct_of_subseq)
  moreover have "set (map as_owner new) \<subseteq> set (filter (\<lambda>m. m \<noteq> creator) (roster_members_named P (as_records cs)))"
    using new(2) by (metis notin_set_nthsI subseq_conv_nths subsetI)
  then have "creator \<notin> set (map as_owner new)" by auto
  moreover have "length new \<le> unat (max_roster_members (sm_limits M))"
    using list_emb_length [OF new(2)] len length_filter_le le_trans by (metis (no_types, lifting) length_map)
  ultimately show ?thesis using inp new(1,3) owner cs by (auto intro!: exI [of _ cs])
qed

text \<open>What the reader assembles is within the raw budgets the fold checks.\<close>

lemma length_le_sat_add_1:
  assumes "n \<le> unat a" and "a \<noteq> -1"
  shows "Suc n \<le> unat (sat_add a 1)"
proof -
  have "unat (a + 1) = Suc (unat a)" using assms(2) by (metis add.commute add_eq_0_iff2 unatSuc)
  then have "a \<le> a + 1" by (simp add: word_le_nat_alt)
  then show ?thesis using assms(1) \<open>unat (a + 1) = Suc (unat a)\<close> by (simp add: sat_add_def)
qed

lemma read_fold_input_within_budget:
  assumes "read_fold_input P A M list_uuid creator w = (Ok inp, w')"
    and "max_roster_members (sm_limits M) \<noteq> -1"
  shows "check_raw_budget (fi_limits inp) (fi_streams inp) = Ok ()"
proof -
  from read_fold_input_Ok [OF assms(1)] obtain cs new where i: "fi_streams inp = cs # new" "fi_limits inp = sm_limits M"
    "length new \<le> unat (max_roster_members (sm_limits M))"
    and rd: "\<forall>s \<in> set (fi_streams inp). \<exists>w w'. read_author_stream A M list_uuid (as_owner s) w = (Ok s, w')" by blast
  have "length (fi_streams inp) \<le> unat (sat_add (max_roster_members (sm_limits M)) 1)"
    using length_le_sat_add_1 [OF i(3) assms(2)] i(1) by simp
  moreover have "length (as_records s) \<le> unat (max_records_per_stream (sm_limits M)) \<and>
      (\<forall>r \<in> set (as_records s). length (sr_value r) \<le> unat (max_record_bytes (sm_limits M)))"
    if "s \<in> set (fi_streams inp)" for s
    using rd [rule_format, OF that] by (elim exE) (drule read_author_stream_Ok, blast)
  ultimately show ?thesis unfolding check_raw_budget_Ok_iff i(2) by simp
qed


section \<open>What the append operations write is admitted\<close>

text \<open>Documented behaviour of the services: the daemon signs with the key whose agent id it reports,
  under the v2 algorithm, and its signatures verify; base64 and serde decode what they encoded.\<close>

definition honest_signer :: "prims \<Rightarrow> 'w store_api \<Rightarrow> own_event_store \<Rightarrow> bool" where
  "honest_signer P A own \<longleftrightarrow> derive_agent_id_hex P (os_public_key own) = os_agent_id own \<and>
     (\<forall>context payload w r w'. api_sign A context payload w = (Ok r, w') \<longrightarrow>
        sg_algorithm r = V2_SIGN_ALGORITHM \<and> b64_decode P (sg_public_key_b64 r) = Ok (os_public_key own) \<and>
        (\<exists>signature. b64_decode P (sg_signature_b64 r) = Ok signature \<and>
           verify_external_signature P context payload signature (os_public_key own) = Ok ()))"

definition codec_roundtrip :: "prims \<Rightarrow> codecs \<Rightarrow> bool" where
  "codec_roundtrip P K \<longleftrightarrow>
     (\<forall>bs. b64_decode P (b64_encode K bs) = Ok bs) \<and>
     (\<forall>env bs. enc_envelope K env = Ok bs \<longrightarrow> json_envelope P bs = Ok env) \<and>
     (\<forall>ev bs. enc_genesis K ev = Ok bs \<longrightarrow> json_genesis P bs = Ok ev \<and> bs \<noteq> []) \<and>
     (\<forall>ev bs. enc_transition K ev = Ok bs \<longrightarrow> json_transition P bs = Ok ev \<and> bs \<noteq> []) \<and>
     (\<forall>ev bs. enc_approval K ev = Ok bs \<longrightarrow> json_approval P bs = Ok ev \<and> bs \<noteq> []) \<and>
     (\<forall>ev bs. enc_consume K ev = Ok bs \<longrightarrow> json_consume P bs = Ok ev \<and> bs \<noteq> []) \<and>
     (\<forall>ev bs. enc_handoff K ev = Ok bs \<longrightarrow> json_handoff P bs = Ok ev \<and> bs \<noteq> [])"

lemma signed_envelope_verifies:
  assumes "honest_signer P A own" and "codec_roundtrip P K" and "payload \<noteq> []"
    and "sign_envelope K A own context payload w = (Ok env, w')"
  shows "verify_envelope P env context = Ok (payload, sha256_hex P payload) \<and>
    check_envelope_key P env (os_agent_id own) (os_public_key own) = Ok () \<and> ee_schema env = V2_SCHEMA"
proof -
  from assms(4) obtain r where r: "api_sign A context payload w = (Ok r, w')" and a: "sg_agent_id r = os_agent_id own"
    and env: "env = \<lparr>ee_schema = V2_SCHEMA, ee_context = context, ee_algorithm = sg_algorithm r,
                ee_payload_b64 = b64_encode K payload, ee_public_key_b64 = sg_public_key_b64 r,
                ee_signature_b64 = sg_signature_b64 r, ee_signer_agent_id = sg_agent_id r\<rparr>"
    by (auto simp: sign_envelope_def io_bind_Ok_iff split: if_splits)
  from assms(1) r obtain signature where s: "sg_algorithm r = V2_SIGN_ALGORITHM"
    "b64_decode P (sg_public_key_b64 r) = Ok (os_public_key own)" "b64_decode P (sg_signature_b64 r) = Ok signature"
    "verify_external_signature P context payload signature (os_public_key own) = Ok ()"
    and k: "derive_agent_id_hex P (os_public_key own) = os_agent_id own"
    unfolding honest_signer_def by blast
  have "b64_decode P (b64_encode K payload) = Ok payload" using assms(2) by (simp add: codec_roundtrip_def)
  with s k a assms(3) show ?thesis
    by (simp add: env verify_envelope_def check_envelope_key_def payload_bytes_def decode_b64_def)
qed

text \<open>One lemma for the four append operations: the record at the content address of the payload
  decodes to an envelope that verifies under the store's own key.\<close>

lemma append_record_Ok:
  assumes "honest_signer P A own" and "codec_roundtrip P K"
    and "append_record P K A own what actor list_uuid encoded context key_of w = (Ok h, w')"
    and "\<And>payload. encoded = Ok payload \<Longrightarrow> payload \<noteq> []"
  shows "\<exists>payload env bs. actor = os_agent_id own \<and> list_uuid = os_list_uuid own \<and> encoded = Ok payload \<and>
    h = sha256_hex P payload \<and> stored A (os_topic own) (key_of h) bs w' \<and> decode_envelope P bs = Ok env \<and>
    verify_envelope P env context = Ok (payload, h) \<and> check_envelope_key P env (os_agent_id own) (os_public_key own) = Ok ()"
proof -
  from assms(3) obtain payload env w1 where p: "actor = os_agent_id own" "list_uuid = os_list_uuid own" "encoded = Ok payload"
    "h = sha256_hex P payload" and sg: "sign_envelope K A own context payload w = (Ok env, w1)"
    and put: "put_once K A (os_topic own) (key_of h) env w1 = (Ok (), w')"
    unfolding append_record_def by (cases encoded) (auto simp: io_bind_Ok_iff Let_def split: if_splits)
  from put_once_Ok [OF put] obtain bs where bs: "enc_envelope K env = Ok bs" "stored A (os_topic own) (key_of h) bs w'" by blast
  then have "json_envelope P bs = Ok env" using assms(2) by (simp add: codec_roundtrip_def)
  with signed_envelope_verifies [OF assms(1,2) assms(4) [OF p(3)] sg] have "decode_envelope P bs = Ok env"
    by (simp add: decode_envelope_def)
  with signed_envelope_verifies [OF assms(1,2) assms(4) [OF p(3)] sg] bs p show ?thesis by blast
qed

lemma append_record_stored:
  assumes "append_record P K A own what actor list_uuid encoded context key_of w = (Ok h, w')"
  shows "\<exists>bs. stored A (os_topic own) (key_of h) bs w'"
proof -
  from assms obtain env w1 where "put_once K A (os_topic own) (key_of h) env w1 = (Ok (), w')"
    unfolding append_record_def by (cases encoded) (auto simp: io_bind_Ok_iff Let_def split: if_splits)
  from put_once_Ok [OF this] show ?thesis by blast
qed

lemma prefix_keys [simp]:
  "prefix EVENT_KEY_PREFIX (event_key i h)" "prefix APPROVAL_KEY_PREFIX (approval_key i h)"
  "prefix CONSUME_KEY_PREFIX (consume_key i h)" "prefix HANDOFF_KEY_PREFIX (handoff_key i h)"
  "\<not> prefix EVENT_KEY_PREFIX (approval_key i h)" "\<not> prefix EVENT_KEY_PREFIX (consume_key i h)"
  "\<not> prefix EVENT_KEY_PREFIX (handoff_key i h)" "\<not> prefix APPROVAL_KEY_PREFIX (consume_key i h)"
  "\<not> prefix APPROVAL_KEY_PREFIX (handoff_key i h)" "\<not> prefix CONSUME_KEY_PREFIX (handoff_key i h)"
  by (simp_all add: event_key_def approval_key_def consume_key_def handoff_key_def
      EVENT_KEY_PREFIX_def APPROVAL_KEY_PREFIX_def CONSUME_KEY_PREFIX_def HANDOFF_KEY_PREFIX_def)

lemma append_transition_admitted:
  assumes "honest_signer P A own" and "codec_roundtrip P K"
    and "append_transition P K A own event w = (Ok h, w')"
    and "te_schema event = V2_SCHEMA" and "nth_opt rosters (unat (te_roster_epoch event)) = Some roster"
    and "os_agent_id own \<in> set roster"
    and "check_transition_content P (os_list_uuid own) (te_genesis_manifest_hash event) roster event = Ok ()"
  shows "\<exists>bs. stored A (os_topic own) (event_key (te_issue_id event) h) bs w' \<and>
    admit_event P \<lparr>sr_key = event_key (te_issue_id event) h, sr_value = bs\<rparr> (os_agent_id own) (os_public_key own)
      (os_list_uuid own) (te_genesis_manifest_hash event) rosters =
    Ok \<lparr>ad_author = os_agent_id own, ad_key = event_key (te_issue_id event) h, ad_event_hash = h,
      ad_lamport = te_lamport event, ad_author_seq = te_author_seq event,
      ad_prev_own_event_hash = te_prev_own_event_hash event, ad_payload = ChTransition event\<rparr>"
proof -
  have enc: "json_transition P payload = Ok event \<and> payload \<noteq> []" if "transition_to_signed_bytes K event = Ok payload" for payload
    using that assms(2) by (auto simp: transition_to_signed_bytes_def codec_roundtrip_def)
  from append_record_Ok [OF assms(1,2) assms(3) [unfolded append_transition_def]] enc
  obtain payload env bs where p: "te_actor event = os_agent_id own" "te_list_uuid event = os_list_uuid own"
    "transition_to_signed_bytes K event = Ok payload"
    and st: "stored A (os_topic own) (event_key (te_issue_id event) h) bs w'"
    and env: "decode_envelope P bs = Ok env" "verify_envelope P env TRANSITION_CONTEXT_V2 = Ok (payload, h)"
      "check_envelope_key P env (os_agent_id own) (os_public_key own) = Ok ()" by blast
  with enc [OF p(3)] assms(4-7) show ?thesis
    by (intro exI [of _ bs]) (simp add: admit_event_def admit_transition_def decode_transition_def check_chained_common_def)
qed

lemma append_consume_admitted:
  assumes "honest_signer P A own" and "codec_roundtrip P K"
    and "append_consume P K A own event w = (Ok h, w')"
    and "ce_schema event = V2_SCHEMA" and "ce_kind event = ''consume''"
    and "ce_approval_payload_sha256 event = ce_approval_event_hash event"
    and "nth_opt rosters (unat (ce_roster_epoch event)) = Some roster" and "os_agent_id own \<in> set roster"
  shows "\<exists>bs. stored A (os_topic own) (consume_key (ce_issue_id event) h) bs w' \<and>
    admit_event P \<lparr>sr_key = consume_key (ce_issue_id event) h, sr_value = bs\<rparr> (os_agent_id own) (os_public_key own)
      (os_list_uuid own) (ce_genesis_manifest_hash event) rosters =
    Ok \<lparr>ad_author = os_agent_id own, ad_key = consume_key (ce_issue_id event) h, ad_event_hash = h,
      ad_lamport = ce_lamport event, ad_author_seq = ce_author_seq event,
      ad_prev_own_event_hash = ce_prev_own_event_hash event, ad_payload = ChConsume event\<rparr>"
proof -
  have enc: "json_consume P payload = Ok event \<and> payload \<noteq> []" if "consume_to_signed_bytes K event = Ok payload" for payload
    using that assms(2) by (auto simp: consume_to_signed_bytes_def codec_roundtrip_def)
  from append_record_Ok [OF assms(1,2) assms(3) [unfolded append_consume_def]] enc
  obtain payload env bs where p: "ce_actor event = os_agent_id own" "ce_list_uuid event = os_list_uuid own"
    "consume_to_signed_bytes K event = Ok payload"
    and st: "stored A (os_topic own) (consume_key (ce_issue_id event) h) bs w'"
    and env: "decode_envelope P bs = Ok env" "verify_envelope P env CONSUME_CONTEXT_V2 = Ok (payload, h)"
      "check_envelope_key P env (os_agent_id own) (os_public_key own) = Ok ()" by blast
  with enc [OF p(3)] assms(4-8) show ?thesis
    by (intro exI [of _ bs]) (simp add: admit_event_def admit_consume_def decode_consume_def check_chained_common_def)
qed

lemma publish_genesis_verified:
  assumes "honest_signer P A own" and "codec_roundtrip P K" and "roster \<noteq> []"
    and "publish_genesis P K A own roster trust created_at w = (Ok (manifest, h), w')"
  shows "\<exists>bs. stored A (os_topic own) GENESIS_KEY bs w' \<and> gm_roster manifest = roster \<and>
    verify_genesis P \<lparr>sr_key = GENESIS_KEY, sr_value = bs\<rparr> (os_list_uuid own) (os_agent_id own) (os_public_key own) =
      Ok (manifest, h)"
proof -
  from assms(4) obtain payload env w1 where p: "enc_genesis K manifest = Ok payload" "h = sha256_hex P payload"
    and m: "manifest = \<lparr>gm_schema = V2_SCHEMA, gm_kind = ''genesis'', gm_list_uuid = os_list_uuid own,
            gm_creator = os_agent_id own, gm_roster = roster, gm_policy = \<lparr>gp_required_trust = trust\<rparr>, gm_created_at = created_at\<rparr>"
    and sg: "sign_envelope K A own GENESIS_CONTEXT_V2 payload w = (Ok env, w1)"
    and put: "put_once K A (os_topic own) GENESIS_KEY env w1 = (Ok (), w')"
    unfolding publish_genesis_def Let_def io_bind_Ok_iff io_lift_iff map_err_Ok_iff by auto
  have g: "json_genesis P payload = Ok manifest" "payload \<noteq> []" using assms(2) p(1) by (simp_all add: codec_roundtrip_def)
  from put_once_Ok [OF put] obtain bs where bs: "enc_envelope K env = Ok bs" "stored A (os_topic own) GENESIS_KEY bs w'" by blast
  then have "json_envelope P bs = Ok env" using assms(2) by (simp add: codec_roundtrip_def)
  with signed_envelope_verifies [OF assms(1,2) g(2) sg] g bs p m assms(3) show ?thesis
    by (intro exI [of _ bs]) (simp add: verify_genesis_def decode_envelope_def)
qed

end
