(* ===== verification/Gate.thy ===== *)
theory Gate
  imports Store
begin

text \<open>
  The approval-consumption gate (\<^verbatim>\<open>v2/gate.rs\<close>): read, fold, pick an approval, durably append a
  consume, settle, read and fold again, and proceed only when that consume is the effective one.
  \<open>sleep\<close> is the passage of time between append and confirming read: any change of the world.

  Lemmas: what a decision to proceed establishes of the two folds, and that the other decisions of
  the first half are reached without a write.
\<close>

section \<open>Operations\<close>

text \<open>A \<^verbatim>\<open>Duration\<close> in nanoseconds.\<close>

type_synonym duration = nat

definition duration_from_secs :: "nat \<Rightarrow> duration" where
  "duration_from_secs s = s * 1000000000"

record v2_gate_config =
  gc_approval_ttl_secs :: u64
  gc_settle :: duration

definition default_gate_config :: v2_gate_config where
  "default_gate_config = \<lparr>gc_approval_ttl_secs = 3600, gc_settle = duration_from_secs 2\<rparr>"

datatype v2_gate_decision =
    Proceed string string
  | PendingApproval
  | Denied
  | NotClaimWinner
  | AbortCompetingConsume string string string
  | AbortIneffective string

definition confirm_decision :: "fold_output \<Rightarrow> string \<Rightarrow> string \<Rightarrow> v2_gate_decision" where
  "confirm_decision confirm approval_event_hash my_consume_hash =
     (case bt_get (fo_effective_consumes confirm) approval_event_hash of
        Some winner \<Rightarrow>
          if ec_event_hash winner = my_consume_hash then Proceed approval_event_hash my_consume_hash
          else AbortCompetingConsume approval_event_hash (ce_actor (ec_consume winner)) (ec_event_hash winner)
      | None \<Rightarrow> AbortIneffective
          (case find (\<lambda>d. cd_event_hash d = my_consume_hash) (fo_losing_consumes confirm) of
             None \<Rightarrow> ''consume did not take effect''
           | Some d \<Rightarrow> cd_reason d))"

text \<open>The approval is consumed only within its time to live.\<close>

definition approval_unexpired :: "v2_gate_config \<Rightarrow> u64 \<Rightarrow> admitted_approval_v2 \<Rightarrow> bool" where
  "approval_unexpired cfg now_secs a = (sat_add (ae_approved_at (aa_approval a)) (gc_approval_ttl_secs cfg) \<ge> now_secs)"

definition gate_consume ::
  "prims \<Rightarrow> own_event_store \<Rightarrow> string \<Rightarrow> string \<Rightarrow> fold_output \<Rightarrow> string \<Rightarrow> string \<Rightarrow> admitted_approval_v2 \<Rightarrow> consume_event_v2" where
  "gate_consume P own issue_id entropy_seed out claim_nonce claim_event_hash candidate =
     (case next_chain_link out (os_agent_id own) of (author_seq, prev_own_event_hash) \<Rightarrow>
      \<lparr>ce_schema = V2_SCHEMA, ce_kind = ''consume'', ce_list_uuid = os_list_uuid own,
       ce_genesis_manifest_hash = fo_genesis_hash out, ce_roster_epoch = fo_latest_roster_epoch out,
       ce_issue_id = issue_id, ce_actor = os_agent_id own,
       ce_lamport = sat_add (fo_max_admitted_lamport out) 1, ce_author_seq = author_seq,
       ce_prev_own_event_hash = prev_own_event_hash,
       ce_approval_event_hash = aa_event_hash candidate, ce_approval_payload_sha256 = aa_event_hash candidate,
       ce_approver = ae_actor (aa_approval candidate), ce_claim_nonce = claim_nonce,
       ce_claimed_event_hash = claim_event_hash,
       ce_entropy = sha256_hex P (as_bytes (os_agent_id own @ '':'' @ show_word author_seq @ '':'' @ entropy_seed @ '':consume'')),
       ce_v1_record_json = ''''\<rparr>)"

text \<open>The part between the two reads: a decision, or the approval to consume with the consume event.\<close>

definition gate_candidate ::
  "prims \<Rightarrow> v2_gate_config \<Rightarrow> own_event_store \<Rightarrow> string \<Rightarrow> u64 \<Rightarrow> string \<Rightarrow> fold_output \<Rightarrow>
   (v2_gate_decision + string \<times> consume_event_v2, v2_store_error) result" where
  "gate_candidate P cfg own issue_id now_secs entropy_seed out =
     (case bt_get (fo_issues out) issue_id of
        None \<Rightarrow> Err (SeInvalid (''issue '' @ issue_id @ '' does not exist in the folded list''))
      | Some issue \<Rightarrow>
          (case is_status issue of
             StClaimed claimant claim_nonce claim_event_hash \<Rightarrow>
               if claimant \<noteq> os_agent_id own then Ok (Inl NotClaimWinner)
               else if list_ex (binds_content issue issue_id Deny) (bt_values (fo_approvals out)) then Ok (Inl Denied)
               else (case find (approval_unexpired cfg now_secs) (unconsumed_approvals out issue_id) of
                       None \<Rightarrow> Ok (Inl PendingApproval)
                     | Some candidate \<Rightarrow> Ok (Inr (aa_event_hash candidate,
                         gate_consume P own issue_id entropy_seed out claim_nonce claim_event_hash candidate)))
           | _ \<Rightarrow> Ok (Inl NotClaimWinner)))"

definition evaluate_and_consume ::
  "prims \<Rightarrow> codecs \<Rightarrow> 'w store_api \<Rightarrow> (duration \<Rightarrow> 'w \<Rightarrow> 'w) \<Rightarrow> v2_store_manager \<Rightarrow> v2_gate_config \<Rightarrow> own_event_store \<Rightarrow>
   string \<Rightarrow> string \<Rightarrow> u64 \<Rightarrow> string \<Rightarrow> ('w, v2_gate_decision, v2_store_error) io" where
  "evaluate_and_consume P K A sleep M cfg own creator issue_id now_secs entropy_seed =
     io_bind (read_fold_input P A M (os_list_uuid own) creator) (\<lambda>input.
     io_bind (io_lift (map_err SeRefused (fold_v2 P input))) (\<lambda>out.
     io_bind (io_lift (gate_candidate P cfg own issue_id now_secs entropy_seed out)) (\<lambda>r.
     case r of
       Inl decision \<Rightarrow> io_lift (Ok decision)
     | Inr (approval_event_hash, consume) \<Rightarrow>
         io_bind (append_consume P K A own consume) (\<lambda>my_consume_hash.
         io_bind (\<lambda>w. (Ok (), if gc_settle cfg = 0 then w else sleep (gc_settle cfg) w)) (\<lambda>_.
         io_bind (read_fold_input P A M (os_list_uuid own) creator) (\<lambda>input'.
         io_bind (io_lift (map_err SeRefused (fold_v2 P input'))) (\<lambda>confirm.
         io_lift (Ok (confirm_decision confirm approval_event_hash my_consume_hash)))))))))"

definition build_claim_transition ::
  "prims \<Rightarrow> fold_output \<Rightarrow> string \<Rightarrow> string \<Rightarrow> string \<Rightarrow> transition_event_v2" where
  "build_claim_transition P out list_uuid agent_id issue_id =
     (case next_chain_link out agent_id of (author_seq, prev_own_event_hash) \<Rightarrow>
      let lamport = sat_add (fo_max_admitted_lamport out) 1 in
      \<lparr>te_schema = V2_SCHEMA, te_list_uuid = list_uuid, te_genesis_manifest_hash = fo_genesis_hash out,
       te_roster_epoch = fo_latest_roster_epoch out, te_issue_id = issue_id, te_actor = agent_id,
       te_lamport = lamport, te_author_seq = author_seq, te_prev_own_event_hash = prev_own_event_hash,
       te_kind = TkClaim (derive_claim_nonce P agent_id author_seq lamport issue_id)\<rparr>)"

section \<open>Lemmas\<close>

lemma confirm_decision_Proceed_iff:
  "confirm_decision confirm a c = Proceed a' c' \<longleftrightarrow> a' = a \<and> c' = c \<and>
     (\<exists>winner. bt_get (fo_effective_consumes confirm) a = Some winner \<and> ec_event_hash winner = c)"
  by (auto simp: confirm_decision_def split: option.splits if_splits)

text \<open>When the gate spends an approval: own claim, no denial, an unconsumed unexpired approval of the
  current content.\<close>

lemma gate_candidate_Inr_iff:
  "gate_candidate P cfg own issue_id now_secs seed out = Ok (Inr (a, ev)) \<longleftrightarrow>
     (\<exists>issue nonce ch cand. bt_get (fo_issues out) issue_id = Some issue \<and> is_status issue = StClaimed (os_agent_id own) nonce ch \<and>
        \<not> list_ex (binds_content issue issue_id Deny) (bt_values (fo_approvals out)) \<and>
        find (approval_unexpired cfg now_secs) (unconsumed_approvals out issue_id) = Some cand \<and> a = aa_event_hash cand \<and>
        ev = gate_consume P own issue_id seed out nonce ch cand)"
  by (auto simp: gate_candidate_def split: option.splits issue_status_v2.splits if_splits)

lemma gate_candidate_Inl:
  "gate_candidate P cfg own issue_id now_secs seed out = Ok (Inl d) \<Longrightarrow> d \<in> {NotClaimWinner, Denied, PendingApproval}"
  by (auto simp: gate_candidate_def split: option.splits issue_status_v2.splits if_splits)

lemma evaluate_and_consume_cases:
  assumes "evaluate_and_consume P K A sleep M cfg own creator issue_id now_secs seed w = (Ok d, w')"
  obtains (early) input w1 out where "read_fold_input P A M (os_list_uuid own) creator w = (Ok input, w1)"
    "fold_v2 P input = Ok out" "gate_candidate P cfg own issue_id now_secs seed out = Ok (Inl d)" "w' = w1"
  | (consumed) input w1 out a ev c w2 w3 input' confirm where
    "read_fold_input P A M (os_list_uuid own) creator w = (Ok input, w1)" "fold_v2 P input = Ok out"
    "gate_candidate P cfg own issue_id now_secs seed out = Ok (Inr (a, ev))"
    "append_consume P K A own ev w1 = (Ok c, w2)"
    "w3 = (if gc_settle cfg = 0 then w2 else sleep (gc_settle cfg) w2)"
    "read_fold_input P A M (os_list_uuid own) creator w3 = (Ok input', w')"
    "fold_v2 P input' = Ok confirm" "d = confirm_decision confirm a c"
proof -
  from assms obtain input w1 out r where 1: "read_fold_input P A M (os_list_uuid own) creator w = (Ok input, w1)"
    "fold_v2 P input = Ok out" "gate_candidate P cfg own issue_id now_secs seed out = Ok r"
    and rest: "(case r of Inl decision \<Rightarrow> io_lift (Ok decision)
       | Inr (approval_event_hash, consume) \<Rightarrow>
         io_bind (append_consume P K A own consume) (\<lambda>my_consume_hash.
         io_bind (\<lambda>w. (Ok (), if gc_settle cfg = 0 then w else sleep (gc_settle cfg) w)) (\<lambda>_.
         io_bind (read_fold_input P A M (os_list_uuid own) creator) (\<lambda>input'.
         io_bind (io_lift (map_err SeRefused (fold_v2 P input'))) (\<lambda>confirm.
         io_lift (Ok (confirm_decision confirm approval_event_hash my_consume_hash))))))) w1 = (Ok d, w')"
    unfolding evaluate_and_consume_def io_bind_Ok_iff io_lift_iff map_err_Ok_iff by blast
  show thesis
  proof (cases r)
    case (Inl d')
    with 1 rest early show thesis by auto
  next
    case (Inr p)
    obtain a ev where p: "p = (a, ev)" by force
    from rest Inr p obtain c w2 input' confirm where "append_consume P K A own ev w1 = (Ok c, w2)"
      "read_fold_input P A M (os_list_uuid own) creator (if gc_settle cfg = 0 then w2 else sleep (gc_settle cfg) w2) = (Ok input', w')"
      "fold_v2 P input' = Ok confirm" "d = confirm_decision confirm a c"
      by (auto simp: io_bind_Ok_iff)
    with 1 Inr p consumed show thesis by blast
  qed
qed

section \<open>Reads leave the world alone\<close>

definition reads_pure :: "'w store_api \<Rightarrow> bool" where
  "reads_pure A \<longleftrightarrow> (\<forall>t w r w'. api_detail A t w = (r, w') \<longrightarrow> w' = w) \<and>
     (\<forall>t w r w'. api_list_keys A t w = (r, w') \<longrightarrow> w' = w) \<and> (\<forall>t k w r w'. api_get A t k w = (r, w') \<longrightarrow> w' = w)"

lemma read_records_pure:
  assumes "reads_pure A" and "read_records A lim author topic ks acard recs w = (r, w')"
  shows "w' = w"
  using assms(2)
proof (induction ks arbitrary: acard recs)
  case (Cons k ks)
  obtain g w1 where g: "api_get A topic k w = (g, w1)" by force
  with assms(1) have "w1 = w" by (auto simp: reads_pure_def)
  with Cons.prems Cons.IH g show ?case
    by (auto simp: io_bind_def io_map_err_def split: result.splits option.splits if_splits)
qed simp

lemma verify_store_anchor_pure: "reads_pure A \<Longrightarrow> verify_store_anchor A M t x w = (r, w') \<Longrightarrow> w' = w"
  by (cases "api_detail A t w")
    (auto simp: verify_store_anchor_def io_bind_def io_map_err_def io_lift_def reads_pure_def
      split: result.splits)

lemma read_author_stream_pure:
  assumes "reads_pure A" and "read_author_stream A M u author w = (r, w')"
  shows "w' = w"
proof -
  define t where "t = event_store_topic u author"
  obtain r1 w1 where v: "verify_store_anchor A M t author w = (r1, w1)" by force
  then have w1: "w1 = w" by (rule verify_store_anchor_pure [OF assms(1)])
  obtain ks w2 where l: "api_list_keys A t w = (ks, w2)" by force
  then have w2: "w2 = w" using assms(1) by (simp add: reads_pure_def)
  show ?thesis
    using assms(2) v l unfolding w1 w2 read_author_stream_def Let_def t_def [symmetric]
    by (auto simp: io_bind_def io_map_err_def split: result.splits if_splits prod.splits dest: read_records_pure [OF assms(1)])
qed

lemma read_member_streams_pure:
  assumes "reads_pure A" and "read_member_streams A M u creator ms ss w = (r, w')"
  shows "w' = w"
  using assms(2)
proof (induction ms arbitrary: ss)
  case (Cons m ms)
  obtain r1 w1 where rd: "read_author_stream A M u m w = (r1, w1)" by force
  then have "w1 = w" by (rule read_author_stream_pure [OF assms(1)])
  with Cons.prems Cons.IH rd show ?case
    by (auto split: result.splits if_splits v2_store_error.splits)
qed simp

lemma read_fold_input_pure:
  assumes "reads_pure A" and "read_fold_input P A M u creator w = (r, w')"
  shows "w' = w"
proof -
  obtain r1 w1 where rd: "read_author_stream A M u creator w = (r1, w1)" by force
  then have "w1 = w" by (rule read_author_stream_pure [OF assms(1)])
  with assms(2) rd show ?thesis unfolding read_fold_input_def Let_def
    by (auto simp: io_bind_def split: result.splits if_splits prod.splits dest: read_member_streams_pure [OF assms(1)])
qed

end
