(* ===== verification/Store_Demo.thy ===== *)
theory Store_Demo
  imports Demo Gate
begin

text \<open>
  A concrete daemon for the list of \<open>Demo\<close>: an association list from topic and key to bytes. It runs
  the gate of agent \<open>07\<close> on the claimed issue \<open>i\<close>, approved by \<open>09\<close>, from the first read to the
  confirming read, and discharges the hypotheses on the services for the instances of the properties.
\<close>

section \<open>A daemon\<close>

type_synonym demo_world = "((string \<times> string) \<times> bytes) list"

text \<open>The signer signs as \<open>07\<close>; a topic ends with the two characters of its owner.\<close>

definition demo_api :: "demo_world store_api" where
  "demo_api =
     \<lparr>api_create = (\<lambda>name topic policy w. (Ok (), w)), api_join = (\<lambda>topic peer w. (Ok (), w)),
      api_detail = (\<lambda>topic w. (Ok (Some \<lparr>sd_id = topic, sd_owner = Some (drop (length topic - 2) topic),
        sd_policy = Some ''append_only''\<rparr>), w)),
      api_list_keys = (\<lambda>topic w. (Ok (map (snd \<circ> fst) (filter (\<lambda>e. fst (fst e) = topic) w)), w)),
      api_get = (\<lambda>topic key w. (Ok (map_of w (topic, key)), w)),
      api_put = (\<lambda>topic key value ct w. (Ok (), w @ [((topic, key), value)])),
      api_sign = (\<lambda>context payload w. (Ok \<lparr>sg_agent_id = ''07'', sg_public_key_b64 = ''k7'', sg_signature_b64 = ''sig'',
        sg_algorithm = V2_SIGN_ALGORITHM, sg_context = context\<rparr>, w))\<rparr>"

definition demo_b64_encode :: "bytes \<Rightarrow> string" where
  "demo_b64_encode bs = (let s = map (\<lambda>b. char_of (unat b)) bs in if length s = 1 then s else ''=='' @ s)"

definition demo_codecs :: codecs where
  "demo_codecs =
     \<lparr>b64_encode = demo_b64_encode,
      enc_envelope = (\<lambda>env. if env = demo_envelope CONSUME_CONTEXT_V2 ''5'' ''k7'' ''07'' then Ok (as_bytes ''5'')
        else if env = demo_envelope TRANSITION_CONTEXT_V2 ''3'' ''k7'' ''07'' then Ok (as_bytes ''3'')
        else if env = demo_envelope HANDOFF_CONTEXT_V2 ''7'' ''k7'' ''07'' then Ok (as_bytes ''7'')
        else if env = demo_envelope TRANSITION_CONTEXT_V2 ''6'' ''k7'' ''07'' then Ok (as_bytes ''6'')
        else if env = demo_envelope GENESIS_CONTEXT_V2 ''1'' ''k7'' ''07'' then Ok (as_bytes ''1'')
        else Err ''key must be a string''),
      enc_genesis = (\<lambda>ev. if ev = demo_genesis then Ok (as_bytes ''1'') else Err ''key must be a string''),
      enc_roster = (\<lambda>ev. Err ''key must be a string''),
      enc_transition = (\<lambda>ev. if ev = demo_transition (TkClaim ''6d'') 2 2 ''32'' then Ok (as_bytes ''3'')
        else if ev = demo_transition (TkComplete ''6d'' ''33'') 6 5 ''37'' then Ok (as_bytes ''6'') else Err ''key must be a string''),
      enc_approval = (\<lambda>ev. Err ''key must be a string''),
      enc_consume = (\<lambda>ev. if ev = demo_consume then Ok (as_bytes ''5'') else Err ''key must be a string''),
      enc_handoff = (\<lambda>ev. if ev = demo_handoff then Ok (as_bytes ''7'') else Err ''key must be a string'')\<rparr>"

definition demo_own :: own_event_store where
  "demo_own = \<lparr>os_list_uuid = ''u'', os_agent_id = ''07'', os_public_key = demo_key 7,
     os_topic = event_store_topic ''u'' ''07'', os_policy = AppendOnly\<rparr>"

definition demo_manager :: v2_store_manager where
  "demo_manager = new_store_manager AppendOnly"

lemma demo_honest_signer: "honest_signer demo_prims demo_api demo_own"
  using demo_signature demo_derive
  by (simp add: honest_signer_def demo_api_def demo_own_def demo_b64_simps)

lemma as_bytes_chars: "as_bytes (map (\<lambda>b. char_of (unat b)) bs) = (bs :: bytes)"
proof -
  have "(of_char (char_of (unat b)) :: u8) = b" for b :: u8
  proof -
    have "unat b < 2 ^ LENGTH(8)" by (rule unsigned_less)
    then have "(of_char (char_of (unat b)) :: nat) = unat b" by simp
    then have "(of_nat (of_char (char_of (unat b)) :: nat) :: u8) = b" by simp
    then show ?thesis by (simp only: of_nat_of_char)
  qed
  then show ?thesis by (induction bs) (simp_all add: as_bytes_def)
qed

lemma demo_b64_roundtrip: "b64_decode demo_prims (demo_b64_encode bs) = Ok bs"
  by (auto simp: demo_b64_encode_def demo_prims_def demo_b64_def as_bytes_chars Let_def prefix_def)

lemma demo_codec_roundtrip: "codec_roundtrip demo_prims demo_codecs"
proof -
  have "\<forall>env bs. enc_envelope demo_codecs env = Ok bs \<longrightarrow> json_envelope demo_prims bs = Ok env"
    by (simp add: demo_codecs_def demo_prims_def demo_json_envelope_def as_bytes_def)
  moreover have "\<forall>ev bs. enc_transition demo_codecs ev = Ok bs \<longrightarrow> json_transition demo_prims bs = Ok ev \<and> bs \<noteq> []"
    by (simp add: demo_codecs_def demo_prims_def demo_json_transition_def as_bytes_def)
  ultimately show ?thesis
    by (simp add: codec_roundtrip_def demo_b64_roundtrip)
      (simp add: demo_codecs_def demo_b64_roundtrip demo_prims_def [THEN arg_cong [where f = json_genesis]]
        demo_prims_def [THEN arg_cong [where f = json_consume]] demo_prims_def [THEN arg_cong [where f = json_handoff]] as_bytes_def)
qed

lemma demo_reads_pure: "reads_pure demo_api"
  by (simp add: reads_pure_def demo_api_def)

section \<open>The world before and after the consume\<close>

definition demo_records :: "bool \<Rightarrow> store_record list" where
  "demo_records consumed = [\<lparr>sr_key = ''card-self'', sr_value = demo_key 7\<rparr>, demo_record ''genesis'' ''1'', demo_record ''ev-i-32'' ''2'',
     demo_record ''ev-i-33'' ''3''] @ (if consumed then [demo_record ''cs-i-35'' ''5''] else [])"

definition demo_approver_records :: "store_record list" where
  "demo_approver_records = [\<lparr>sr_key = ''card-self'', sr_value = demo_key 9\<rparr>, demo_record ''ap-i-34'' ''4'']"

definition demo_entries :: "string \<Rightarrow> store_record list \<Rightarrow> demo_world" where
  "demo_entries agent recs = map (\<lambda>r. ((event_store_topic ''u'' agent, sr_key r), sr_value r)) recs"

definition demo_world :: "bool \<Rightarrow> demo_world" where
  "demo_world consumed = demo_entries ''09'' demo_approver_records @ demo_entries ''07'' (demo_records consumed)"

definition demo_own_stream :: "bool \<Rightarrow> author_stream" where
  "demo_own_stream consumed = \<lparr>as_owner = ''07'', as_card_self = Some (demo_key 7), as_records = demo_records consumed\<rparr>"

definition demo_peer_stream :: author_stream where
  "demo_peer_stream = \<lparr>as_owner = ''09'', as_card_self = Some (demo_key 9), as_records = demo_approver_records\<rparr>"

lemma demo_length_key [simp]: "length (demo_key n) = 1952"
  by (simp add: demo_key_def)

lemma demo_anchor:
  "drop (length t - 2) t = owner \<Longrightarrow> verify_store_anchor demo_api demo_manager t owner w = (Ok (), w)"
  by (simp add: verify_store_anchor_def io_bind_def io_map_err_def io_lift_def demo_api_def)

lemma demo_topics: "event_store_topic ''u'' ''07'' = ''symphony2-ev-u-07''" "event_store_topic ''u'' ''09'' = ''symphony2-ev-u-09''"
  by (simp_all add: event_store_topic_def)

lemma demo_manager_limits: "sm_limits demo_manager = default_fold_limits" "sm_mode demo_manager = AppendOnly"
  by (simp_all add: demo_manager_def new_store_manager_def)

lemma demo_read_own:
  "read_author_stream demo_api demo_manager ''u'' ''07'' (demo_world consumed) = (Ok (demo_own_stream consumed), demo_world consumed)"
  by (simp add: read_author_stream_def Let_def io_bind_def io_map_err_def io_lift_def demo_anchor demo_topics demo_manager_limits
      demo_api_def [THEN arg_cong [where f = api_list_keys]] demo_api_def [THEN arg_cong [where f = api_get]]
      demo_world_def demo_entries_def demo_records_def demo_approver_records_def demo_record_def demo_own_stream_def
      default_fold_limits_def CARD_SELF_KEY_def as_bytes_def)

lemma demo_read_peer:
  "read_author_stream demo_api demo_manager ''u'' ''09'' (demo_world consumed) = (Ok demo_peer_stream, demo_world consumed)"
  by (simp add: read_author_stream_def Let_def io_bind_def io_map_err_def io_lift_def demo_anchor demo_topics demo_manager_limits
      demo_api_def [THEN arg_cong [where f = api_list_keys]] demo_api_def [THEN arg_cong [where f = api_get]]
      demo_world_def demo_entries_def demo_records_def demo_approver_records_def demo_record_def demo_peer_stream_def
      default_fold_limits_def CARD_SELF_KEY_def as_bytes_def)

lemma demo_members: "roster_members_named demo_prims (demo_records consumed) = [''07'', ''09'']"
proof -
  have "named_members demo_prims (demo_record ''genesis'' ''1'') = [''07'', ''09'']"
    by (simp add: named_members_def demo_record_def GENESIS_KEY_def ROSTER_KEY_PREFIX_def demo_decode Let_def)
      (simp add: payload_bytes_def decode_b64_def demo_envelope_def demo_b64_simps demo_json demo_genesis_def)
  moreover have "named_members demo_prims (demo_record k v) = []" if "k \<in> {''ev-i-32'', ''ev-i-33'', ''cs-i-35''}" for k v
    using that by (auto simp: named_members_def demo_record_def GENESIS_KEY_def ROSTER_KEY_PREFIX_def)
  moreover have "named_members demo_prims \<lparr>sr_key = ''card-self'', sr_value = v\<rparr> = []" for v
    by (auto simp: named_members_def GENESIS_KEY_def ROSTER_KEY_PREFIX_def)
  moreover have "bset_extend [] [''07'', ''09''] = [''07'', ''09'']" by code_simp
  moreover have "bset_extend ms [] = ms" for ms :: "string btree_set" by (simp add: bset_extend_def)
  ultimately show ?thesis by (cases consumed) (simp_all add: roster_members_named_def demo_records_def)
qed

lemma demo_read:
  "read_fold_input demo_prims demo_api demo_manager ''u'' ''07'' (demo_world consumed) =
     (Ok (demo_input [demo_own_stream consumed, demo_peer_stream]), demo_world consumed)"
  by (simp add: read_fold_input_def io_bind_def io_lift_def demo_read_own demo_read_peer Let_def demo_own_stream_def demo_members
      demo_manager_limits default_fold_limits_def demo_input_def)


section \<open>The two folds\<close>

definition demo_own_canonical :: "bool \<Rightarrow> author_stream" where
  "demo_own_canonical consumed = \<lparr>as_owner = ''07'', as_card_self = Some (demo_key 7), as_records =
     [\<lparr>sr_key = ''card-self'', sr_value = demo_key 7\<rparr>] @ (if consumed then [demo_record ''cs-i-35'' ''5''] else []) @
     [demo_record ''ev-i-32'' ''2'', demo_record ''ev-i-33'' ''3'', demo_record ''genesis'' ''1'']\<rparr>"

definition demo_peer_canonical :: author_stream where
  "demo_peer_canonical = \<lparr>as_owner = ''09'', as_card_self = Some (demo_key 9), as_records =
     [demo_record ''ap-i-34'' ''4'', \<lparr>sr_key = ''card-self'', sr_value = demo_key 9\<rparr>]\<rparr>"

definition demo_gate_streams :: "bool \<Rightarrow> (string, author_stream) btree_map" where
  "demo_gate_streams consumed = [(''07'', demo_own_canonical consumed), (''09'', demo_peer_canonical)]"

lemma demo_gate_canonical_any:
  "canonical_streams P
     [\<lparr>as_owner = ''07'', as_card_self = Some k7, as_records =
        [\<lparr>sr_key = ''card-self'', sr_value = k7\<rparr>, demo_record ''genesis'' ''1'', demo_record ''ev-i-32'' ''2'', demo_record ''ev-i-33'' ''3'']\<rparr>,
      \<lparr>as_owner = ''09'', as_card_self = Some k9, as_records = [\<lparr>sr_key = ''card-self'', sr_value = k9\<rparr>, demo_record ''ap-i-34'' ''4'']\<rparr>] =
     ([(''07'', \<lparr>as_owner = ''07'', as_card_self = Some k7, as_records =
        [\<lparr>sr_key = ''card-self'', sr_value = k7\<rparr>, demo_record ''ev-i-32'' ''2'', demo_record ''ev-i-33'' ''3'', demo_record ''genesis'' ''1'']\<rparr>),
      (''09'', \<lparr>as_owner = ''09'', as_card_self = Some k9, as_records = [demo_record ''ap-i-34'' ''4'', \<lparr>sr_key = ''card-self'', sr_value = k9\<rparr>]\<rparr>)], [])"
  "canonical_streams P
     [\<lparr>as_owner = ''07'', as_card_self = Some k7, as_records =
        [\<lparr>sr_key = ''card-self'', sr_value = k7\<rparr>, demo_record ''genesis'' ''1'', demo_record ''ev-i-32'' ''2'', demo_record ''ev-i-33'' ''3'',
         demo_record ''cs-i-35'' ''5'']\<rparr>,
      \<lparr>as_owner = ''09'', as_card_self = Some k9, as_records = [\<lparr>sr_key = ''card-self'', sr_value = k9\<rparr>, demo_record ''ap-i-34'' ''4'']\<rparr>] =
     ([(''07'', \<lparr>as_owner = ''07'', as_card_self = Some k7, as_records =
        [\<lparr>sr_key = ''card-self'', sr_value = k7\<rparr>, demo_record ''cs-i-35'' ''5'', demo_record ''ev-i-32'' ''2'', demo_record ''ev-i-33'' ''3'',
         demo_record ''genesis'' ''1'']\<rparr>),
      (''09'', \<lparr>as_owner = ''09'', as_card_self = Some k9, as_records = [demo_record ''ap-i-34'' ''4'', \<lparr>sr_key = ''card-self'', sr_value = k9\<rparr>]\<rparr>)], [])"
  by code_simp+

lemma demo_gate_canonical:
  "canonical_streams demo_prims [demo_own_stream consumed, demo_peer_stream] = (demo_gate_streams consumed, [])"
  by (cases consumed)
    (simp_all add: demo_own_stream_def demo_peer_stream_def demo_records_def demo_approver_records_def demo_gate_canonical_any
      demo_gate_streams_def demo_own_canonical_def demo_peer_canonical_def)

lemma demo_gate_budget:
  "check_raw_budget default_fold_limits [demo_own_stream consumed, demo_peer_stream] = Ok ()"
  "check_merged_budget default_fold_limits (demo_gate_streams consumed) = Ok ()"
  by (simp_all add: check_raw_budget_Ok_iff check_merged_budget_Ok_iff default_fold_limits_def demo_own_stream_def demo_peer_stream_def
      demo_records_def demo_approver_records_def demo_gate_streams_def demo_own_canonical_def demo_peer_canonical_def demo_record_def
      unat_sat_add as_bytes_def)

lemma demo_gate_resolve:
  "resolve_genesis demo_prims (demo_input ss) (demo_gate_streams consumed) [] =
     Ok (demo_own_canonical consumed, demo_key 7, demo_genesis, ''31'')"
  by (simp add: resolve_genesis_def demo_input_def demo_gate_streams_def demo_own_canonical_def bt_get_def verified_card_def demo_derive Let_def
      GENESIS_KEY_def verify_genesis_def demo_eval demo_json demo_genesis_def V2_SCHEMA_def default_fold_limits_def)

lemma demo_gate_roster:
  "build_roster_chain demo_prims (demo_own_canonical consumed) ''u'' ''07'' (demo_key 7) ''31'' 256
     (bset_of_list (gm_roster demo_genesis)) = Ok (demo_rosters, [], [])"
proof -
  have "bset_of_list (gm_roster demo_genesis) = [''07'', ''09'']" by code_simp
  then show ?thesis
    by (simp add: build_roster_chain_def demo_own_canonical_def demo_record_def ROSTER_KEY_PREFIX_def demo_rosters_def
        unreachable_rejections_def)
qed

lemma demo_gate_admit:
  "admit_stream demo_prims [] ''u'' ''31'' demo_rosters ''07'' (demo_own_canonical consumed) =
     (Some ((if consumed then [demo_consumed] else []) @ [demo_open, demo_claim]), [])"
  "admit_stream demo_prims [] ''u'' ''31'' demo_rosters ''09'' demo_peer_canonical = (Some [demo_approve], [])"
proof -
  have "event_records (demo_own_canonical consumed) =
    (if consumed then [demo_record ''cs-i-35'' ''5''] else []) @ [demo_record ''ev-i-32'' ''2'', demo_record ''ev-i-33'' ''3'']"
    "event_records demo_peer_canonical = [demo_record ''ap-i-34'' ''4'']"
    by (simp_all add: event_records_def demo_own_canonical_def demo_peer_canonical_def is_chained_key_def demo_record_def
      EVENT_KEY_PREFIX_def APPROVAL_KEY_PREFIX_def CONSUME_KEY_PREFIX_def HANDOFF_KEY_PREFIX_def)
  moreover have "verified_card demo_prims (demo_own_canonical consumed) = Ok (demo_key 7)"
    "verified_card demo_prims demo_peer_canonical = Ok (demo_key 9)"
    by (simp_all add: verified_card_def demo_own_canonical_def demo_peer_canonical_def demo_derive)
  ultimately show "admit_stream demo_prims [] ''u'' ''31'' demo_rosters ''07'' (demo_own_canonical consumed) =
     (Some ((if consumed then [demo_consumed] else []) @ [demo_open, demo_claim]), [])"
    "admit_stream demo_prims [] ''u'' ''31'' demo_rosters ''09'' demo_peer_canonical = (Some [demo_approve], [])"
    by (simp_all add: admit_stream_def demo_admit)
qed

definition demo_gate_events :: "bool \<Rightarrow> admitted list" where
  "demo_gate_events consumed = [demo_open, demo_claim, demo_approve] @ (if consumed then [demo_consumed] else [])"

lemma demo_gate_chain:
  "chain_authors ''31'' [(''07'', [demo_open, demo_claim]), (''09'', [demo_approve])] = ([demo_open, demo_claim, demo_approve], [], [])"
  "chain_authors ''31'' [(''07'', [demo_consumed, demo_open, demo_claim]), (''09'', [demo_approve])] =
     ([demo_open, demo_claim, demo_consumed, demo_approve], [], [])"
  by code_simp+

lemma demo_gate_cap:
  "apply_lamport_cap [demo_open, demo_claim, demo_approve] = (demo_gate_events False, [])"
  "apply_lamport_cap [demo_open, demo_claim, demo_consumed, demo_approve] = (demo_gate_events True, [])"
proof -
  have "sort_key fold_order [demo_open, demo_claim, demo_approve] = demo_gate_events False"
    "sort_key fold_order [demo_open, demo_claim, demo_consumed, demo_approve] = demo_gate_events True" by code_simp+
  moreover have "lamport_pass 0 [] (demo_gate_events False) = (replicate 3 False, [])"
    "lamport_pass 0 [] (demo_gate_events True) = (replicate 4 False, [])" by code_simp+
  ultimately show "apply_lamport_cap [demo_open, demo_claim, demo_approve] = (demo_gate_events False, [])"
    "apply_lamport_cap [demo_open, demo_claim, demo_consumed, demo_approve] = (demo_gate_events True, [])"
    by (simp_all add: apply_lamport_cap_def lamport_fixpoint.simps)
qed

definition demo_gate_phase1 :: "bool \<Rightarrow> phase1" where
  "demo_gate_phase1 consumed = \<lparr>p1_genesis = demo_genesis, p1_genesis_hash = ''31'', p1_rosters = demo_rosters,
     p1_admitted = demo_gate_events consumed, p1_rejections = [], p1_forks = []\<rparr>"

lemma demo_gate_fold:
  "fold_v2 demo_prims (demo_input [demo_own_stream consumed, demo_peer_stream]) = Ok (fold_phase2 (demo_gate_phase1 consumed))"
proof -
  have "admit_streams demo_prims [] ''u'' ''31'' demo_rosters (demo_gate_streams consumed) [] [] =
    ([(''07'', (if consumed then [demo_consumed] else []) @ [demo_open, demo_claim]), (''09'', [demo_approve])], [])"
    by (simp add: demo_gate_streams_def demo_gate_admit)
  moreover have "fi_list_uuid (demo_input ss) = ''u''" "fi_creator (demo_input ss) = ''07''"
    "fi_streams (demo_input ss) = ss" "fi_limits (demo_input ss) = default_fold_limits"
    "max_roster_members default_fold_limits = 256" for ss
    by (simp_all add: demo_input_def default_fold_limits_def)
  ultimately show ?thesis
    by (cases consumed)
      (simp_all add: fold_v2_def fold_admission_def demo_gate_budget demo_gate_canonical fold_phase1_def demo_gate_resolve demo_gate_roster
        demo_gate_chain demo_gate_cap demo_gate_phase1_def del: chain_authors.simps)
qed

section \<open>One run of the gate\<close>

lemma demo_gate_candidate:
  "gate_candidate demo_prims default_gate_config demo_own ''i'' 1000 ''e'' (fold_phase2 (demo_gate_phase1 False)) =
     Ok (Inr (''34'', demo_consume))"
proof -
  let ?out = "fold_phase2 (demo_gate_phase1 False)"
  have i: "bt_get (fo_issues ?out) ''i'' = Some (demo_issue (StClaimed ''07'' ''6d'' ''33''))" by code_simp
  have n: "list_ex (binds_content (demo_issue (StClaimed ''07'' ''6d'' ''33'')) ''i'' Deny) (bt_values (fo_approvals ?out)) = False" by code_simp
  have u: "unconsumed_approvals ?out ''i'' = [\<lparr>aa_event_hash = ''34'', aa_approval = demo_approval\<rparr>]" by code_simp
  have x: "approval_unexpired default_gate_config 1000 \<lparr>aa_event_hash = ''34'', aa_approval = demo_approval\<rparr>"
    by (simp add: approval_unexpired_def default_gate_config_def demo_approval_def sat_add_def)
  have l: "next_chain_link ?out ''07'' = (3, ''33'')" "sat_add (fo_max_admitted_lamport ?out) 1 = 4"
    "fo_genesis_hash ?out = ''31''" "fo_latest_roster_epoch ?out = 0" by code_simp+
  have "sha256_hex demo_prims (as_bytes (s @ '':consume'')) = ''65''" for s
    by (simp add: sha256_hex_def demo_prims_def as_bytes_def) code_simp
  from this [of "''07:'' @ show_word (3 :: u64) @ '':e''"] show ?thesis
    by (simp add: gate_candidate_def i n u x gate_consume_def l demo_own_def demo_consume_def V2_SCHEMA_def
        demo_issue_def [THEN arg_cong [where f = is_status]] demo_approval_def [THEN arg_cong [where f = ae_actor]])
qed

lemma demo_append: "append_consume demo_prims demo_codecs demo_api demo_own demo_consume (demo_world False) = (Ok ''35'', demo_world True)"
proof -
  have "append_consume demo_prims demo_codecs demo_api demo_own demo_consume w =
    io_bind (put_once demo_codecs demo_api (event_store_topic ''u'' ''07'') ''cs-i-35'' (demo_envelope CONSUME_CONTEXT_V2 ''5'' ''k7'' ''07''))
      (\<lambda>_. io_lift (Ok ''35'')) w" for w
  proof -
    have "consume_to_signed_bytes demo_codecs demo_consume = Ok (as_bytes ''5'')"
      by (simp add: consume_to_signed_bytes_def demo_codecs_def)
    moreover have "demo_b64_encode (as_bytes ''5'') = ''5''" by code_simp
    ultimately show ?thesis
      by (simp add: append_consume_def append_record_def sign_envelope_def demo_own_def io_bind_def io_lift_def io_map_err_def demo_digest
          demo_keys demo_consume_def demo_api_def demo_codecs_def demo_envelope_def V2_SCHEMA_def Let_def)
  qed
  moreover have "enc_envelope demo_codecs (demo_envelope CONSUME_CONTEXT_V2 ''5'' ''k7'' ''07'') = Ok (as_bytes ''5'')"
    by (simp add: demo_codecs_def)
  ultimately show ?thesis
    by (simp add: put_once_def io_bind_def io_lift_def io_map_err_def encode_envelope_def demo_api_def demo_world_def demo_entries_def
        demo_records_def demo_approver_records_def demo_record_def demo_topics)
qed

lemma demo_confirm: "confirm_decision (fold_phase2 (demo_gate_phase1 True)) ''34'' ''35'' = Proceed ''34'' ''35''"
  by code_simp

lemma demo_gate_run:
  "evaluate_and_consume demo_prims demo_codecs demo_api (\<lambda>d w. w) demo_manager default_gate_config demo_own ''07'' ''i'' 1000 ''e''
     (demo_world False) = (Ok (Proceed ''34'' ''35''), demo_world True)"
proof -
  have "os_list_uuid demo_own = ''u''" by (simp add: demo_own_def)
  then show ?thesis
    by (simp add: evaluate_and_consume_def io_bind_def io_lift_def demo_read demo_gate_fold demo_gate_candidate demo_append demo_confirm)
qed

end
