(* ===== verification/Gate_Properties.thy ===== *)
theory Gate_Properties
  imports Store_Demo
begin

text \<open>
  The properties of the event stores (\<^verbatim>\<open>v2/store.rs\<close>) and of the approval gate (\<^verbatim>\<open>v2/gate.rs\<close>), each with
  an instance on the daemon of \<open>Store_Demo\<close>.
\<close>

section \<open>The gate\<close>

text \<open>
  C10: Consume, then execute: when the gate lets an issue proceed, its first read folded to a state in
  which the local agent holds the claim, no denial covers the content, and the approval is an
  admitted, unconsumed approval of that content within its time to live; the consume record was
  accepted by the store at its content address; and the confirming read folded to a state in which
  exactly that consume is the effective one.
\<close>

theorem gate_proceed_sound:
  assumes "evaluate_and_consume P K A sleep M cfg own creator issue_id now_secs seed w = (Ok (Proceed a c), w')"
  shows "\<exists>input w1 out issue nonce ch cand bs w2 input' confirm winner.
    read_fold_input P A M (os_list_uuid own) creator w = (Ok input, w1) \<and> fold_v2 P input = Ok out \<and>
    bt_get (fo_issues out) issue_id = Some issue \<and> is_status issue = StClaimed (os_agent_id own) nonce ch \<and>
    (\<forall>d \<in> set (bt_values (fo_approvals out)). \<not> binds_content issue issue_id Deny d) \<and>
    cand \<in> set (bt_values (fo_approvals out)) \<and> binds_content issue issue_id Approve cand \<and> aa_event_hash cand = a \<and>
    now_secs \<le> sat_add (ae_approved_at (aa_approval cand)) (gc_approval_ttl_secs cfg) \<and>
    bt_get (fo_effective_consumes out) a = None \<and>
    stored A (os_topic own) (consume_key issue_id c) bs w2 \<and>
    read_fold_input P A M (os_list_uuid own) creator (if gc_settle cfg = 0 then w2 else sleep (gc_settle cfg) w2) = (Ok input', w') \<and> fold_v2 P input' = Ok confirm \<and>
    bt_get (fo_effective_consumes confirm) a = Some winner \<and> ec_event_hash winner = c"
  using assms
proof (cases rule: evaluate_and_consume_cases)
  case (early input w1 out)
  then show ?thesis using gate_candidate_Inl by fastforce
next
  case (consumed input w1 out a' ev c' w2 w3 input' confirm)
  from consumed(8) obtain winner where win: "a' = a" "c' = c" "bt_get (fo_effective_consumes confirm) a = Some winner" "ec_event_hash winner = c"
    by (metis confirm_decision_Proceed_iff)
  from consumed(3) obtain issue nonce ch cand where i: "bt_get (fo_issues out) issue_id = Some issue"
    "is_status issue = StClaimed (os_agent_id own) nonce ch"
    "\<not> list_ex (binds_content issue issue_id Deny) (bt_values (fo_approvals out))"
    "find (approval_unexpired cfg now_secs) (unconsumed_approvals out issue_id) = Some cand" "a = aa_event_hash cand"
    "ev = gate_consume P own issue_id seed out nonce ch cand"
    unfolding gate_candidate_Inr_iff win(1) by blast
  have cand: "cand \<in> set (unconsumed_approvals out issue_id)" "approval_unexpired cfg now_secs cand"
    using i(4) by (auto simp: find_Some_iff)
  have "ce_issue_id ev = issue_id" by (simp add: i(6) gate_consume_def case_prod_unfold)
  then obtain bs where "stored A (os_topic own) (consume_key issue_id c) bs w2"
    using append_record_stored [OF consumed(4) [unfolded append_consume_def]] win(2) by auto
  moreover have "cand \<in> set (bt_values (fo_approvals out))" "binds_content issue issue_id Approve cand"
    "bt_get (fo_effective_consumes out) a = None"
    using cand(1) i(1,3,5) by (auto simp: unconsumed_approvals_def bt_contains_key_def split: if_splits)
  moreover have "now_secs \<le> sat_add (ae_approved_at (aa_approval cand)) (gc_approval_ttl_secs cfg)"
    using cand(2) by (simp add: approval_unexpired_def)
  moreover have "\<forall>d \<in> set (bt_values (fo_approvals out)). \<not> binds_content issue issue_id Deny d"
    using i(3) by (simp add: list_ex_iff)
  ultimately show ?thesis using consumed(1,2,7) consumed(6) [unfolded consumed(5)] i(1,2) i(5) [symmetric] win(3,4)
    by (intro exI [of _ input] exI [of _ w1] exI [of _ out] exI [of _ issue] exI [of _ nonce] exI [of _ ch] exI [of _ cand]
        exI [of _ bs] exI [of _ w2] exI [of _ input'] exI [of _ confirm] exI [of _ winner] conjI)
qed

theorem gate_proceed_sound_witness:
  "\<exists>bs w2. stored demo_api ''symphony2-ev-u-07'' ''cs-i-35'' bs w2 \<and>
     read_fold_input demo_prims demo_api demo_manager ''u'' ''07'' w2 = (Ok (demo_input [demo_own_stream True, demo_peer_stream]), demo_world True)"
proof -
  have "os_topic demo_own = ''symphony2-ev-u-07''" by (simp add: demo_own_def demo_topics)
  moreover have "os_list_uuid demo_own = ''u''" by (simp add: demo_own_def)
  moreover from gate_proceed_sound [OF demo_gate_run] obtain bs w2 input' where
    "stored demo_api (os_topic demo_own) (consume_key ''i'' ''35'') bs w2"
    "read_fold_input demo_prims demo_api demo_manager (os_list_uuid demo_own) ''07'' w2 = (Ok input', demo_world True)" by auto
  moreover from this(2) have "w2 = demo_world True" using read_fold_input_pure [OF demo_reads_pure] by metis
  ultimately show ?thesis using demo_read [of True] by (auto simp: demo_keys)
qed

text \<open>
  An approval is executed at most once over converged replicas: when the confirming folds of two
  gates saw the same records and cards of every owner, within the budgets, and both gates proceed on
  the same approval, they proceed on the same consume event.
\<close>

theorem gate_proceed_unique:
  assumes "same_content ss ss'"
    and "check_raw_budget (fi_limits inp) ss = Ok ()" and "check_raw_budget (fi_limits inp) ss' = Ok ()"
    and "fold_v2 P (inp\<lparr>fi_streams := ss\<rparr>) = Ok out" and "fold_v2 P (inp\<lparr>fi_streams := ss'\<rparr>) = Ok out'"
    and "confirm_decision out a c = Proceed a c" and "confirm_decision out' a c' = Proceed a c'"
  shows "c = c'"
  using fold_v2_same_content [OF assms(1-3), of P] assms(4-7) by (auto simp: confirm_decision_Proceed_iff)

theorem gate_proceed_unique_witness:
  "fold_v2 demo_prims (demo_input [demo_peer_stream, demo_own_stream True]) = Ok (fold_phase2 (demo_gate_phase1 True)) \<and>
   confirm_decision (fold_phase2 (demo_gate_phase1 True)) ''34'' ''35'' = Proceed ''34'' ''35'' \<and>
   confirm_decision (fold_phase2 (demo_gate_phase1 True)) ''34'' ''99'' \<noteq> Proceed ''34'' ''99''"
proof -
  have same: "same_content [demo_own_stream True, demo_peer_stream] [demo_peer_stream, demo_own_stream True]"
    by (auto simp: same_content_def owners_def owner_records_def owner_cards_def)
  have budget: "check_raw_budget default_fold_limits [demo_peer_stream, demo_own_stream True] = Ok ()"
    using demo_gate_budget(1) [of True] by (simp add: check_raw_budget_Ok_iff conj_commute)
  have fold: "fold_v2 demo_prims (demo_input [demo_peer_stream, demo_own_stream True]) = Ok (fold_phase2 (demo_gate_phase1 True))"
    using fold_v2_same_content [OF same, of "demo_input []" demo_prims] demo_gate_budget(1) budget demo_gate_fold [of True]
    by (simp add: demo_input_def)
  have "c = ''35''" if "confirm_decision (fold_phase2 (demo_gate_phase1 True)) ''34'' c = Proceed ''34'' c" for c
    using gate_proceed_unique [OF same, of "demo_input []" demo_prims, OF _ _ _ _ demo_confirm that]
      demo_gate_budget(1) budget demo_gate_fold [of True] fold by (simp add: demo_input_def)
  from this [of "''99''"] fold demo_confirm show ?thesis by auto
qed

text \<open>
  The gate spends nothing it does not execute on: when the decision is that the claim is not
  held, that the content is denied, or that no approval is available, the world is as before,
  provided the daemon's read operations have no effect.
\<close>

theorem gate_refusal_writes_nothing:
  assumes "reads_pure A" and "d \<in> {NotClaimWinner, Denied, PendingApproval}"
    and "evaluate_and_consume P K A sleep M cfg own creator issue_id now_secs seed w = (Ok d, w')"
  shows "w' = w"
  using assms(3)
proof (cases rule: evaluate_and_consume_cases)
  case (early input w1 out)
  then show ?thesis using read_fold_input_pure [OF assms(1)] by metis
next
  case (consumed input w1 out a ev c w2 w3 input' confirm)
  with assms(2) show ?thesis by (auto simp: confirm_decision_def split: option.splits if_splits)
qed

theorem gate_refusal_writes_nothing_witness:
  "evaluate_and_consume demo_prims demo_codecs demo_api (\<lambda>d w. w) demo_manager default_gate_config demo_own ''07'' ''i'' 1000 ''e''
     (demo_world True) = (Ok PendingApproval, demo_world True)"
proof -
  let ?out = "fold_phase2 (demo_gate_phase1 True)"
  let ?run = "evaluate_and_consume demo_prims demo_codecs demo_api (\<lambda>d w. w) demo_manager default_gate_config demo_own ''07'' ''i'' 1000 ''e''
     (demo_world True)"
  have i: "bt_get (fo_issues ?out) ''i'' = Some (demo_issue (StClaimed ''07'' ''6d'' ''33''))" by code_simp
  have n: "list_ex (binds_content (demo_issue (StClaimed ''07'' ''6d'' ''33'')) ''i'' Deny) (bt_values (fo_approvals ?out)) = False" by code_simp
  have u: "unconsumed_approvals ?out ''i'' = []" by code_simp
  have "gate_candidate demo_prims default_gate_config demo_own ''i'' 1000 ''e'' ?out = Ok (Inl PendingApproval)"
    by (simp add: gate_candidate_def i n u demo_own_def demo_issue_def [THEN arg_cong [where f = is_status]])
  moreover have "os_list_uuid demo_own = ''u''" by (simp add: demo_own_def)
  ultimately have "fst ?run = Ok PendingApproval"
    by (simp add: evaluate_and_consume_def io_bind_def io_lift_def demo_read demo_gate_fold)
  then have run: "?run = (Ok PendingApproval, snd ?run)" by (simp add: prod_eq_iff)
  then have "snd ?run = demo_world True" by (rule gate_refusal_writes_nothing [OF demo_reads_pure, rotated]) simp
  with run show ?thesis by simp
qed

section \<open>Event stores\<close>

text \<open>
  Write-once records: a record already present at the key is never written over. The operation
  answers success when the bytes are the same and a conflict otherwise, and in both cases the only
  effect is that of the read.
\<close>

theorem put_once_never_overwrites:
  assumes "api_get A topic key w = (Ok (Some old), w1)" and "enc_envelope K env = Ok bs"
  shows "put_once K A topic key env w = (if old = bs then Ok () else Err (SeImmutableConflict topic key), w1)"
  using assms by (rule put_once_existing)

theorem put_once_never_overwrites_witness:
  "put_once demo_codecs demo_api ''symphony2-ev-u-07'' ''cs-i-35'' (demo_envelope TRANSITION_CONTEXT_V2 ''3'' ''k7'' ''07'') (demo_world True) =
     (Err (SeImmutableConflict ''symphony2-ev-u-07'' ''cs-i-35''), demo_world True)"
proof -
  have "api_get demo_api ''symphony2-ev-u-07'' ''cs-i-35'' (demo_world True) = (Ok (Some (as_bytes ''5'')), demo_world True)"
    by (simp add: demo_api_def demo_world_def demo_entries_def demo_records_def demo_approver_records_def demo_record_def demo_topics)
  moreover have "enc_envelope demo_codecs (demo_envelope TRANSITION_CONTEXT_V2 ''3'' ''k7'' ''07'') = Ok (as_bytes ''3'')"
    by (simp add: demo_codecs_def demo_envelope_def TRANSITION_CONTEXT_V2_def CONSUME_CONTEXT_V2_def)
  ultimately show ?thesis by (subst put_once_never_overwrites) (assumption | simp add: as_bytes_def)+
qed

text \<open>
  C11: Sign, store, fold: a transition that the local author appended is a record of its store, at its
  content address, that every reader who knows the author's card and the rosters admits as exactly
  that event, provided the signer and the codecs behave as documented.
\<close>

theorem appended_transition_admitted:
  assumes "honest_signer P A own" and "codec_roundtrip P K"
    and "append_transition P K A own event w = (Ok h, w')"
    and "te_schema event = V2_SCHEMA" and "nth_opt rosters (unat (te_roster_epoch event)) = Some roster"
    and "os_agent_id own \<in> set roster"
    and "check_transition_content P (os_list_uuid own) (te_genesis_manifest_hash event) roster event = Ok ()"
  shows "\<exists>bs. stored A (os_topic own) (event_key (te_issue_id event) h) bs w' \<and>
    admit_event P \<lparr>sr_key = event_key (te_issue_id event) h, sr_value = bs\<rparr> (os_agent_id own) (os_public_key own)
      (os_list_uuid own) (te_genesis_manifest_hash event) rosters =
    Ok \<lparr>ad_author = os_agent_id own, ad_key = event_key (te_issue_id event) h, ad_event_hash = h,
      ad_lamport = te_lamport event, ad_author_seq = te_author_seq event,
      ad_prev_own_event_hash = te_prev_own_event_hash event, ad_payload = ChTransition event\<rparr>"
  using assms by (rule append_transition_admitted)

theorem appended_transition_admitted_witness:
  "\<exists>bs. stored demo_api ''symphony2-ev-u-07'' ''ev-i-33'' bs [((''symphony2-ev-u-07'', ''ev-i-33''), as_bytes ''3'')] \<and>
     admit_event demo_prims \<lparr>sr_key = ''ev-i-33'', sr_value = bs\<rparr> ''07'' (demo_key 7) ''u'' ''31'' demo_rosters = Ok demo_claim"
proof -
  let ?ev = "demo_transition (TkClaim ''6d'') 2 2 ''32''"
  have run: "append_transition demo_prims demo_codecs demo_api demo_own ?ev [] =
      (Ok ''33'', [((''symphony2-ev-u-07'', ''ev-i-33''), as_bytes ''3'')])"
  proof -
    have "transition_to_signed_bytes demo_codecs ?ev = Ok (as_bytes ''3'')"
      by (simp add: transition_to_signed_bytes_def demo_codecs_def)
    moreover have "enc_envelope demo_codecs (demo_envelope TRANSITION_CONTEXT_V2 ''3'' ''k7'' ''07'') = Ok (as_bytes ''3'')"
      by (simp add: demo_codecs_def demo_envelope_def TRANSITION_CONTEXT_V2_def CONSUME_CONTEXT_V2_def)
    moreover have "demo_b64_encode (as_bytes ''3'') = ''3''" by code_simp
    moreover have "b64_encode demo_codecs = demo_b64_encode" by (simp add: demo_codecs_def)
    moreover have "te_actor ?ev = ''07''" "te_list_uuid ?ev = ''u''" "te_issue_id ?ev = ''i''" by (simp_all add: demo_transition_def)
    ultimately show ?thesis
      by (simp add: append_transition_def append_record_def sign_envelope_def put_once_def encode_envelope_def demo_own_def demo_api_def
          io_bind_def io_lift_def io_map_err_def demo_digest demo_keys demo_topics demo_envelope_def V2_SCHEMA_def Let_def)
  qed
  have "nth_opt demo_rosters (unat (te_roster_epoch ?ev)) = Some [''07'', ''09'']"
    by (simp add: demo_transition_def demo_rosters_def nth_opt_def)
  from appended_transition_admitted [OF demo_honest_signer demo_codec_roundtrip run _ this]
  show ?thesis
    by (simp add: demo_own_def demo_topics demo_keys demo_transition_def V2_SCHEMA_def check_transition_content_def
        demo_claim_def demo_admitted_def)
qed

text \<open>
  The genesis a creator publishes verifies: what \<^verbatim>\<open>publish_genesis\<close> stored under the genesis key is
  accepted by the fold's genesis check as the returned manifest with the returned hash, provided the
  roster is not empty and the signer and the codecs behave as documented.
\<close>

theorem published_genesis_verified:
  assumes "honest_signer P A own" and "codec_roundtrip P K" and "roster \<noteq> []"
    and "publish_genesis P K A own roster trust created_at w = (Ok (manifest, h), w')"
  shows "\<exists>bs. stored A (os_topic own) GENESIS_KEY bs w' \<and> gm_roster manifest = roster \<and>
    verify_genesis P \<lparr>sr_key = GENESIS_KEY, sr_value = bs\<rparr> (os_list_uuid own) (os_agent_id own) (os_public_key own) =
      Ok (manifest, h)"
  using assms by (rule publish_genesis_verified)

theorem published_genesis_verified_witness:
  "\<exists>bs. verify_genesis demo_prims \<lparr>sr_key = GENESIS_KEY, sr_value = bs\<rparr> ''u'' ''07'' (demo_key 7) = Ok (demo_genesis, ''31'')"
proof -
  have "publish_genesis demo_prims demo_codecs demo_api demo_own [''07'', ''09''] None 0 [] =
      (Ok (demo_genesis, ''31''), [((''symphony2-ev-u-07'', GENESIS_KEY), as_bytes ''1'')])"
  proof -
    have "enc_genesis demo_codecs demo_genesis = Ok (as_bytes ''1'')" by (simp add: demo_codecs_def)
    moreover have "enc_envelope demo_codecs (demo_envelope GENESIS_CONTEXT_V2 ''1'' ''k7'' ''07'') = Ok (as_bytes ''1'')"
      by (simp add: demo_codecs_def demo_envelope_def TRANSITION_CONTEXT_V2_def CONSUME_CONTEXT_V2_def GENESIS_CONTEXT_V2_def)
    moreover have "demo_b64_encode (as_bytes ''1'') = ''1''" by code_simp
    moreover have "b64_encode demo_codecs = demo_b64_encode" by (simp add: demo_codecs_def)
    ultimately show ?thesis
      by (simp add: publish_genesis_def sign_envelope_def put_once_def encode_envelope_def demo_own_def demo_api_def
          io_bind_def io_lift_def io_map_err_def demo_digest demo_topics demo_envelope_def V2_SCHEMA_def Let_def demo_genesis_def)
  qed
  from published_genesis_verified [OF demo_honest_signer demo_codec_roundtrip _ this] show ?thesis by (auto simp: demo_own_def)
qed

text \<open>
  C12: What the reader assembles is within the raw budgets of the fold and anchored: for every stream the
  daemon reported the claimed owner (and the append-only policy where the manager requires it), the
  owners are distinct, the first one is the creator, and the fold's raw budget check accepts.
\<close>

theorem reader_bounded_and_anchored:
  assumes "read_fold_input P A M list_uuid creator w = (Ok inp, w')"
    and "max_roster_members (sm_limits M) \<noteq> -1"
  shows "check_raw_budget (fi_limits inp) (fi_streams inp) = Ok () \<and> distinct (map as_owner (fi_streams inp)) \<and>
    as_owner (hd (fi_streams inp)) = creator \<and>
    (\<forall>s \<in> set (fi_streams inp). anchored A (sm_mode M) (event_store_topic list_uuid (as_owner s)) (as_owner s))"
proof -
  from read_fold_input_Ok [OF assms(1)] obtain cs new where i: "fi_streams inp = cs # new" "as_owner cs = creator"
    "distinct (map as_owner (fi_streams inp))"
    and rd: "\<forall>s \<in> set (fi_streams inp). \<exists>w w'. read_author_stream A M list_uuid (as_owner s) w = (Ok s, w')" by blast
  have "anchored A (sm_mode M) (event_store_topic list_uuid (as_owner s)) (as_owner s)" if "s \<in> set (fi_streams inp)" for s
    using rd [rule_format, OF that] by (elim exE) (drule read_author_stream_Ok, blast)
  with i read_fold_input_within_budget [OF assms] show ?thesis by simp
qed

theorem reader_bounded_and_anchored_witness:
  "check_raw_budget default_fold_limits [demo_own_stream True, demo_peer_stream] = Ok () \<and>
   anchored demo_api AppendOnly (event_store_topic ''u'' ''09'') ''09''"
proof -
  have "max_roster_members (sm_limits demo_manager) \<noteq> -1" by (simp add: demo_manager_limits default_fold_limits_def)
  from reader_bounded_and_anchored [OF demo_read this] show ?thesis
    by (simp add: demo_input_def demo_manager_limits demo_peer_stream_def)
qed

end
