(* ===== verification/Core_Types.thy ===== *)
theory Core_Types
  imports Identity Text BTree
begin

text \<open>
  The domain types of \<^verbatim>\<open>x0x-symphony-core\<close>: identifiers and states, claims and shards, signature
  envelopes, handoffs, issues and their provenance, release reasons (\<^verbatim>\<open>issue.rs\<close>, \<^verbatim>\<open>claim.rs\<close>,
  \<^verbatim>\<open>signing.rs\<close>, \<^verbatim>\<open>handoff.rs\<close>, \<^verbatim>\<open>tracker.rs\<close>, \<^verbatim>\<open>error.rs\<close>). Newtypes over \<^verbatim>\<open>String\<close> are strings; their
  constructors are the functions \<open>issue_id_new\<close>, \<open>agent_id_new\<close> and \<open>issue_state_new\<close>.
\<close>

section \<open>Errors and JSON\<close>

datatype symphony_error =
    SyValidation string string
  | SyTracker string
  | SyUnsupported string
  | SyRunner string
  | SyWorkspace string
  | SyWorkflow string
  | SyIo string
  | SyJson string

text \<open>\<^verbatim>\<open>serde_json::Value\<close>; numbers are only carried, never inspected.\<close>

datatype json_value =
    JNull
  | JBool bool
  | JNumber string
  | JString string
  | JArray "json_value list"
  | JObject "(string \<times> json_value) list"

fun json_as_str :: "json_value \<Rightarrow> string option" where
  "json_as_str (JString s) = Some s"
| "json_as_str _ = None"

fun json_as_array :: "json_value \<Rightarrow> json_value list option" where
  "json_as_array (JArray xs) = Some xs"
| "json_as_array _ = None"

section \<open>Identifiers and states\<close>

definition issue_id_new :: "string \<Rightarrow> (string, symphony_error) result" where
  "issue_id_new v = (if trim v = [] then Err (SyValidation ''issue.id'' ''must not be empty'') else Ok v)"

definition agent_id_new :: "string \<Rightarrow> (string, symphony_error) result" where
  "agent_id_new v = (if trim v = [] then Err (SyValidation ''agent.id'' ''must not be empty'') else Ok v)"

definition issue_state_new :: "string \<Rightarrow> (string, symphony_error) result" where
  "issue_state_new v =
     (let normalized = to_ascii_lowercase (trim v) in
      if normalized = [] then Err (SyValidation ''issue.state'' ''must not be empty'') else Ok normalized)"

section \<open>Signatures\<close>

definition SIGN_ALGORITHM :: string where
  "SIGN_ALGORITHM = ''x0x.agent-sign.v2.ml-dsa-65''"

definition CLAIM_CONTEXT :: string where
  "CLAIM_CONTEXT = ''x0x-symphony-claim-v1''"

definition HANDOFF_CONTEXT :: string where
  "HANDOFF_CONTEXT = ''x0x-symphony-handoff-v1''"

definition ISSUE_PROVENANCE_CONTEXT :: string where
  "ISSUE_PROVENANCE_CONTEXT = ''x0x-symphony-issue-provenance-v1''"

record signature_envelope =
  sge_algorithm :: string
  sge_context :: string
  sge_public_key_b64 :: string
  sge_signature_b64 :: string
  sge_payload_sha256 :: string
  sge_signer_agent_id :: string

text \<open>Both sides are digested before they are compared in constant time.\<close>

definition constant_time_eq :: "'x crypto_scheme \<Rightarrow> bytes \<Rightarrow> bytes \<Rightarrow> bool" where
  "constant_time_eq C a b = (sha256 C a = sha256 C b)"

section \<open>Claims and shards\<close>

datatype shard_role = RolePrimary | RoleBackup usize | RoleManualM1

fun role_rank :: "shard_role \<Rightarrow> usize" where
  "role_rank RolePrimary = 0"
| "role_rank (RoleBackup index) = sat_add index 1"
| "role_rank RoleManualM1 = -1"

record shard =
  sh_primary :: string
  sh_backups :: "string list"
  sh_claim_ttl_ms :: u64
  sh_created_view_epoch :: u64

record claim =
  cl_issue_id :: "string option"
  cl_by :: string
  cl_at :: string
  cl_heartbeat_at :: string
  cl_shard_role :: shard_role
  cl_signature :: "signature_envelope option"

definition claim_new :: "string option \<Rightarrow> string \<Rightarrow> string \<Rightarrow> shard_role \<Rightarrow> claim" where
  "claim_new issue_id agent at_ts role =
     \<lparr>cl_issue_id = issue_id, cl_by = agent, cl_at = at_ts, cl_heartbeat_at = at_ts, cl_shard_role = role, cl_signature = None\<rparr>"

definition with_heartbeat :: "claim \<Rightarrow> string \<Rightarrow> claim" where
  "with_heartbeat c heartbeat_at = c\<lparr>cl_heartbeat_at := heartbeat_at\<rparr>"

section \<open>Handoffs\<close>

datatype validation_status = ValPassed | ValFailed | ValSkipped

fun validation_status_str :: "validation_status \<Rightarrow> string" where
  "validation_status_str ValPassed = ''passed''"
| "validation_status_str ValFailed = ''failed''"
| "validation_status_str ValSkipped = ''skipped''"

record validation_result =
  vr_command :: string
  vr_status :: validation_status
  vr_exit_code :: "32 word option"

definition validation_result_new :: "string \<Rightarrow> validation_status \<Rightarrow> validation_result" where
  "validation_result_new command status = \<lparr>vr_command = command, vr_status = status, vr_exit_code = None\<rparr>"

record handoff =
  ho_summary :: string
  ho_files_changed :: "string list"
  ho_validation :: "validation_result list"
  ho_follow_up :: "string list"
  ho_proofs_dir :: "string option"
  ho_issue_id :: "string option"
  ho_signer_agent_id :: "string option"
  ho_signature :: "signature_envelope option"

definition handoff_new :: "string \<Rightarrow> handoff" where
  "handoff_new summary = \<lparr>ho_summary = summary, ho_files_changed = [], ho_validation = [], ho_follow_up = [], ho_proofs_dir = None,
     ho_issue_id = None, ho_signer_agent_id = None, ho_signature = None\<rparr>"

definition with_files_changed :: "handoff \<Rightarrow> string list \<Rightarrow> handoff" where
  "with_files_changed h files = h\<lparr>ho_files_changed := ho_files_changed h @ files\<rparr>"

definition with_validation :: "handoff \<Rightarrow> validation_result \<Rightarrow> handoff" where
  "with_validation h v = h\<lparr>ho_validation := ho_validation h @ [v]\<rparr>"

definition with_follow_ups :: "handoff \<Rightarrow> string list \<Rightarrow> handoff" where
  "with_follow_ups h notes = h\<lparr>ho_follow_up := ho_follow_up h @ notes\<rparr>"

definition with_issue_id :: "handoff \<Rightarrow> string \<Rightarrow> handoff" where
  "with_issue_id h issue_id = h\<lparr>ho_issue_id := Some issue_id\<rparr>"

definition with_signer_agent_id :: "handoff \<Rightarrow> string \<Rightarrow> handoff" where
  "with_signer_agent_id h signer = h\<lparr>ho_signer_agent_id := Some signer\<rparr>"

definition with_proofs_dir :: "handoff \<Rightarrow> string \<Rightarrow> handoff" where
  "with_proofs_dir h dir = h\<lparr>ho_proofs_dir := Some dir\<rparr>"

section \<open>Issues\<close>

datatype signature_provenance =
    ProvVerified string
  | ProvInvalid string
  | ProvTransportError string

fun verified_signer :: "signature_provenance \<Rightarrow> string option" where
  "verified_signer (ProvVerified signer) = Some signer"
| "verified_signer _ = None"

datatype verification_notice_kind = BadClaim | ForkEvidenceNotice

record verification_notice =
  vn_kind :: verification_notice_kind
  vn_claimant :: "string option"
  vn_reason :: string

record issue_ref =
  ref_id :: string
  ref_identifier :: string
  ref_state :: string

record issue =
  iss_schema_version :: u32
  iss_id :: string
  iss_identifier :: string
  iss_title :: string
  iss_description :: string
  iss_priority :: "u8 option"
  iss_state :: string
  iss_branch_name :: "string option"
  iss_url :: "string option"
  iss_labels :: "string list"
  iss_blocked_by :: "issue_ref list"
  iss_shard :: "shard option"
  iss_claim :: "claim option"
  iss_handoff :: "handoff option"
  iss_signature_provenance :: "signature_provenance option"
  iss_verification_notices :: "verification_notice list"
  iss_created_at :: string
  iss_updated_at :: string
  iss_extra :: "(string, json_value) btree_map"

definition ISSUE_SCHEMA_VERSION_V1 :: u32 where
  "ISSUE_SCHEMA_VERSION_V1 = 1"

definition issue_new :: "string \<Rightarrow> string \<Rightarrow> string \<Rightarrow> string \<Rightarrow> string \<Rightarrow> (issue, symphony_error) result" where
  "issue_new issue_id identifier title state created_at =
     (if trim identifier = [] then Err (SyValidation ''issue.identifier'' ''must not be empty'')
      else if trim title = [] then Err (SyValidation ''issue.title'' ''must not be empty'')
      else if trim created_at = [] then Err (SyValidation ''issue.created_at'' ''must not be empty'')
      else Ok \<lparr>iss_schema_version = ISSUE_SCHEMA_VERSION_V1, iss_id = issue_id, iss_identifier = identifier, iss_title = title,
        iss_description = [], iss_priority = None, iss_state = state, iss_branch_name = None, iss_url = None, iss_labels = [],
        iss_blocked_by = [], iss_shard = None, iss_claim = None, iss_handoff = None, iss_signature_provenance = None,
        iss_verification_notices = [], iss_created_at = created_at, iss_updated_at = created_at, iss_extra = []\<rparr>)"

definition state_is_any :: "issue \<Rightarrow> string list \<Rightarrow> bool" where
  "state_is_any i states = list_ex (\<lambda>st. st = iss_state i) states"

record issue_draft =
  dr_title :: string
  dr_description :: "string option"
  dr_priority :: "32 word option"
  dr_labels :: "string list"

section \<open>Issue source\<close>

datatype issue_source = SrcLocal | SrcNetworkSourced

fun issue_source_str :: "issue_source \<Rightarrow> string" where
  "issue_source_str SrcLocal = ''local''"
| "issue_source_str SrcNetworkSourced = ''network_sourced''"

definition source_from_marker :: "string \<Rightarrow> issue_source option" where
  "source_from_marker v =
     (let normalized = map (\<lambda>c. if c = CHR ''-'' then CHR ''_'' else c) (to_ascii_lowercase (trim v)) in
      if normalized = ''local'' then Some SrcLocal
      else if normalized \<in> {''network'', ''network_sourced'', ''x0x'', ''x0x_crdt''} then Some SrcNetworkSourced
      else None)"

definition source_from_json_value :: "json_value \<Rightarrow> issue_source option" where
  "source_from_json_value v = Option.bind (json_as_str v) source_from_marker"

fun find_map :: "('a \<Rightarrow> 'b option) \<Rightarrow> 'a list \<Rightarrow> 'b option" where
  "find_map f [] = None"
| "find_map f (x # xs) = (case f x of Some y \<Rightarrow> Some y | None \<Rightarrow> find_map f xs)"

definition source_from_issue :: "issue \<Rightarrow> issue_source" where
  "source_from_issue i =
     (case find_map source_from_json_value (List.map_filter (bt_get (iss_extra i)) [''issue_source'', ''source'']) of
        Some src \<Rightarrow> src | None \<Rightarrow> SrcLocal)"

definition source_for_execution :: "issue \<Rightarrow> issue_source" where
  "source_for_execution i =
     (if source_from_issue i = SrcNetworkSourced \<or> iss_signature_provenance i \<noteq> None then SrcNetworkSourced else SrcLocal)"

section \<open>Release reasons\<close>

datatype release_reason_code =
    RcOperatorCancelled | RcRunnerFailed | RcExpiredHeartbeat | RcConflict | RcRetryExhausted | RcInsufficientTrust
  | RcNetworkDispatchDisabled | RcAwaitingApproval | RcApprovalVerifierUnconfigured | RcMissingVerifiedSignature
  | RcInvalidSignature | RcVerifyTransportError | RcUnknownSigner | RcUntrustedSigner | RcBlockedSigner | RcShutdown | RcOther

fun release_reason_str :: "release_reason_code \<Rightarrow> string" where
  "release_reason_str RcOperatorCancelled = ''operator_cancelled''"
| "release_reason_str RcRunnerFailed = ''runner_failed''"
| "release_reason_str RcExpiredHeartbeat = ''expired_heartbeat''"
| "release_reason_str RcConflict = ''conflict''"
| "release_reason_str RcRetryExhausted = ''retry_exhausted''"
| "release_reason_str RcInsufficientTrust = ''insufficient_trust''"
| "release_reason_str RcNetworkDispatchDisabled = ''network_dispatch_disabled''"
| "release_reason_str RcAwaitingApproval = ''awaiting_approval''"
| "release_reason_str RcApprovalVerifierUnconfigured = ''approval_verifier_unconfigured''"
| "release_reason_str RcMissingVerifiedSignature = ''missing_verified_signature''"
| "release_reason_str RcInvalidSignature = ''invalid_signature''"
| "release_reason_str RcVerifyTransportError = ''verify_transport_error''"
| "release_reason_str RcUnknownSigner = ''unknown_signer''"
| "release_reason_str RcUntrustedSigner = ''untrusted_signer''"
| "release_reason_str RcBlockedSigner = ''blocked_signer''"
| "release_reason_str RcShutdown = ''shutdown''"
| "release_reason_str RcOther = ''other''"

record release_reason =
  rr_code :: release_reason_code
  rr_message :: string

record poll_context =
  pc_active_states :: "string list"
  pc_terminal_states :: "string list"
  pc_agent_id :: "string option"

section \<open>Lemmas\<close>

lemma agent_id_new_trim: "trim v \<noteq> [] \<Longrightarrow> agent_id_new (trim v) = Ok (trim v)"
  by (simp add: agent_id_new_def)

lemma source_for_execution_provenance: "iss_signature_provenance i \<noteq> None \<Longrightarrow> source_for_execution i = SrcNetworkSourced"
  by (simp add: source_for_execution_def)

lemma role_rank_primary_least: "role_rank RolePrimary \<le> role_rank r"
  by simp

end
