(* ===== verification/Approval.thy ===== *)
theory Approval
  imports Core_Types
begin

text \<open>
  Approval events for consent-gated dispatch (\<^verbatim>\<open>core/approval.rs\<close>): content hashes, binding keys, validity of
  an event, and the decision over a list of events. The timestamp arithmetic of \<^verbatim>\<open>chrono\<close> and the JSON
  encoders of serde are the fields of the records \<open>chrono\<close> and \<open>core_codecs\<close>; an instant is an integer
  number of nanoseconds.

  Lemmas: a valid denial decides whatever the order of the events, the decision is independent of the
  order, and an approval is valid only for this content and signer, in time and unconsumed.
\<close>

section \<open>Third-party parameters\<close>

type_synonym instant = int

record chrono =
  parse_rfc3339 :: "string \<Rightarrow> (instant, string) result"
  chrono_from_std :: "nat \<Rightarrow> int option"
  to_rfc3339_nanos :: "instant \<Rightarrow> string"

section \<open>Types\<close>

definition APPROVAL_CONTEXT :: string where
  "APPROVAL_CONTEXT = ''x0x-symphony-approval-v1''"

definition APPROVAL_CONSUMED_CONTEXT :: string where
  "APPROVAL_CONSUMED_CONTEXT = ''x0x-symphony-approval-consumed-v1''"

record approval_binding_key =
  bk_issue_id :: string
  bk_content_hash :: string
  bk_signer_agent_id :: string

datatype approval_verdict = VApprove | VDeny

record approval_event =
  av_issue_id :: string
  av_content_hash :: string
  av_signer_agent_id :: string
  av_verdict :: approval_verdict
  av_approved_at :: string
  av_approver_agent_id :: string
  av_claim_id :: "string option"
  av_signature :: "signature_envelope option"

record approval_consumed =
  ac_issue_id :: string
  ac_content_hash :: string
  ac_signer_agent_id :: string
  ac_nonce :: string
  ac_consumed_at :: string
  ac_signature :: signature_envelope

record approval_state =
  as_events :: "approval_event list"
  as_consumed :: "approval_consumed list"

datatype approval_decision_kind = Approved | DecDenied | DecPending

datatype approval_validity = AvValid | AvHashMismatch | AvExpired | AvConsumed | AvSignerMismatch | AvSignatureInvalid

text \<open>The encoders: the content payload, an approval event, and the fields of a consumption record
  (issue, content hash, signer, nonce, time).\<close>

record core_codecs =
  enc_content :: "(string \<times> json_value) list \<Rightarrow> (bytes, string) result"
  enc_approval_event :: "approval_event \<Rightarrow> (bytes, string) result"
  enc_consumed_payload :: "string \<times> string \<times> string \<times> string \<times> string \<Rightarrow> (bytes, string) result"

section \<open>Content hash\<close>

definition is_lower_hex :: "char \<Rightarrow> bool" where
  "is_lower_hex c = (of_char c \<in> {48..57 :: nat} \<or> of_char c \<in> {97..102 :: nat})"

definition content_hash_new :: "string \<Rightarrow> (string, symphony_error) result" where
  "content_hash_new v =
     (if length v \<noteq> 64 \<or> \<not> list_all is_lower_hex v
      then Err (SyValidation ''approval.content_hash'' ''must be a lowercase SHA-256 hex digest'')
      else Ok v)"

definition extra_value_or_null :: "issue \<Rightarrow> string \<Rightarrow> json_value" where
  "extra_value_or_null i key = (case bt_get (iss_extra i) key of None \<Rightarrow> JNull | Some v \<Rightarrow> v)"

definition canonical_content_payload :: "issue \<Rightarrow> (string \<times> json_value) list" where
  "canonical_content_payload i =
     [(''body'', extra_value_or_null i ''body''), (''commands'', extra_value_or_null i ''commands''),
      (''description'', JString (iss_description i)), (''title'', JString (iss_title i))]"

definition content_hash :: "'x crypto_scheme \<Rightarrow> core_codecs \<Rightarrow> issue \<Rightarrow> string" where
  "content_hash C K i =
     (case enc_content K (canonical_content_payload i) of Err _ \<Rightarrow> sha256_hex C [] | Ok bs \<Rightarrow> sha256_hex C bs)"

section \<open>Events\<close>

definition approval_event_new ::
  "string \<Rightarrow> string \<Rightarrow> string \<Rightarrow> approval_verdict \<Rightarrow> string \<Rightarrow> string \<Rightarrow> string option \<Rightarrow> approval_event" where
  "approval_event_new issue_id hash signer verdict approved_at approver claim_id =
     \<lparr>av_issue_id = issue_id, av_content_hash = hash, av_signer_agent_id = signer, av_verdict = verdict,
      av_approved_at = approved_at, av_approver_agent_id = approver, av_claim_id = claim_id, av_signature = None\<rparr>"

definition binding_key :: "approval_event \<Rightarrow> approval_binding_key" where
  "binding_key ev = \<lparr>bk_issue_id = av_issue_id ev, bk_content_hash = av_content_hash ev, bk_signer_agent_id = av_signer_agent_id ev\<rparr>"

definition approval_signing_payload_bytes :: "core_codecs \<Rightarrow> approval_event \<Rightarrow> (bytes, symphony_error) result" where
  "approval_signing_payload_bytes K ev = map_err SyJson (enc_approval_event K (ev\<lparr>av_signature := None\<rparr>))"

definition approval_signing_payload_sha256 :: "'x crypto_scheme \<Rightarrow> core_codecs \<Rightarrow> approval_event \<Rightarrow> (string, symphony_error) result" where
  "approval_signing_payload_sha256 C K ev = and_then (approval_signing_payload_bytes K ev) (\<lambda>payload. Ok (sha256_hex C payload))"

definition approval_envelope_consistent :: "'x crypto_scheme \<Rightarrow> core_codecs \<Rightarrow> approval_event \<Rightarrow> bool" where
  "approval_envelope_consistent C K ev =
     (case av_signature ev of
        None \<Rightarrow> False
      | Some sg \<Rightarrow>
          sge_algorithm sg = SIGN_ALGORITHM \<and> sge_context sg = APPROVAL_CONTEXT \<and>
          sge_signer_agent_id sg = av_approver_agent_id ev \<and>
          approval_signing_payload_sha256 C K ev = Ok (sge_payload_sha256 sg))"

definition approval_expired :: "chrono \<Rightarrow> string \<Rightarrow> string \<Rightarrow> nat \<Rightarrow> bool" where
  "approval_expired T approved_at now ttl =
     (case parse_rfc3339 T approved_at of
        Err _ \<Rightarrow> True
      | Ok approved \<Rightarrow>
          (case parse_rfc3339 T now of
             Err _ \<Rightarrow> True
           | Ok n \<Rightarrow> (case chrono_from_std T ttl of None \<Rightarrow> True | Some t \<Rightarrow> n - approved > t)))"

definition matches_binding :: "approval_consumed \<Rightarrow> approval_binding_key \<Rightarrow> bool" where
  "matches_binding c b =
     (ac_issue_id c = bk_issue_id b \<and> ac_content_hash c = bk_content_hash b \<and> ac_signer_agent_id c = bk_signer_agent_id b)"

definition approval_is_valid ::
  "'x crypto_scheme \<Rightarrow> core_codecs \<Rightarrow> chrono \<Rightarrow> approval_event \<Rightarrow> issue \<Rightarrow> string \<Rightarrow> string \<Rightarrow> nat \<Rightarrow> approval_consumed list \<Rightarrow>
   approval_validity" where
  "approval_is_valid C K T ev i signer now ttl consumed =
     (if \<not> approval_envelope_consistent C K ev then AvSignatureInvalid
      else if av_content_hash ev \<noteq> content_hash C K i then AvHashMismatch
      else if av_signer_agent_id ev \<noteq> signer then AvSignerMismatch
      else if av_verdict ev = VApprove \<and> approval_expired T (av_approved_at ev) now ttl then AvExpired
      else if av_verdict ev = VApprove \<and> list_ex (\<lambda>c. matches_binding c (binding_key ev)) consumed then AvConsumed
      else AvValid)"

section \<open>Consumption records\<close>

definition consumed_signing_payload_bytes :: "core_codecs \<Rightarrow> approval_consumed \<Rightarrow> (bytes, symphony_error) result" where
  "consumed_signing_payload_bytes K c =
     map_err SyJson (enc_consumed_payload K (ac_issue_id c, ac_content_hash c, ac_signer_agent_id c, ac_nonce c, ac_consumed_at c))"

definition consumed_envelope_consistent :: "'x crypto_scheme \<Rightarrow> core_codecs \<Rightarrow> approval_consumed \<Rightarrow> bool" where
  "consumed_envelope_consistent C K c =
     (sge_algorithm (ac_signature c) = SIGN_ALGORITHM \<and> sge_context (ac_signature c) = APPROVAL_CONSUMED_CONTEXT \<and>
      and_then (consumed_signing_payload_bytes K c) (\<lambda>p. Ok (sha256_hex C p)) = Ok (sge_payload_sha256 (ac_signature c)))"

section \<open>The decision\<close>

text \<open>The loop over the events with its flag; a valid denial returns at once.\<close>

fun approval_loop :: "(approval_event \<Rightarrow> bool) \<Rightarrow> bool \<Rightarrow> approval_event list \<Rightarrow> approval_decision_kind" where
  "approval_loop valid approved [] = (if approved then Approved else DecPending)"
| "approval_loop valid approved (ev # evs) =
     (if valid ev then (case av_verdict ev of VApprove \<Rightarrow> approval_loop valid True evs | VDeny \<Rightarrow> DecDenied)
      else approval_loop valid approved evs)"

definition approval_decision ::
  "'x crypto_scheme \<Rightarrow> core_codecs \<Rightarrow> chrono \<Rightarrow> approval_event list \<Rightarrow> issue \<Rightarrow> string \<Rightarrow> string \<Rightarrow> nat \<Rightarrow> approval_consumed list \<Rightarrow>
   approval_decision_kind" where
  "approval_decision C K T events i signer now ttl consumed =
     approval_loop (\<lambda>ev. approval_is_valid C K T ev i signer now ttl consumed = AvValid) False events"

section \<open>Lemmas\<close>

text \<open>The loop computes a specification that does not depend on the order of the events.\<close>

definition decision_spec :: "(approval_event \<Rightarrow> bool) \<Rightarrow> approval_event set \<Rightarrow> approval_decision_kind" where
  "decision_spec valid evs =
     (if \<exists>ev \<in> evs. valid ev \<and> av_verdict ev = VDeny then DecDenied
      else if \<exists>ev \<in> evs. valid ev \<and> av_verdict ev = VApprove then Approved else DecPending)"

lemma approval_loop_spec:
  "approval_loop valid approved evs =
     (if approved \<and> decision_spec valid (set evs) = DecPending then Approved else decision_spec valid (set evs))"
  by (induction evs arbitrary: approved) (auto simp: decision_spec_def split: approval_verdict.splits)

lemma approval_decision_spec:
  "approval_decision C K T evs i signer now ttl consumed =
     decision_spec (\<lambda>ev. approval_is_valid C K T ev i signer now ttl consumed = AvValid) (set evs)"
  by (simp add: approval_decision_def approval_loop_spec)

lemma approval_is_valid_iff:
  "approval_is_valid C K T ev i signer now ttl consumed = AvValid \<longleftrightarrow>
     approval_envelope_consistent C K ev \<and> av_content_hash ev = content_hash C K i \<and> av_signer_agent_id ev = signer \<and>
     (av_verdict ev = VApprove \<longrightarrow> \<not> approval_expired T (av_approved_at ev) now ttl \<and>
        (\<forall>c \<in> set consumed. \<not> matches_binding c (binding_key ev)))"
  by (auto simp: approval_is_valid_def list_ex_iff)

lemma approval_decision_Approved_iff:
  "approval_decision C K T evs i signer now ttl consumed = Approved \<longleftrightarrow>
     (\<exists>ev \<in> set evs. av_verdict ev = VApprove \<and> approval_is_valid C K T ev i signer now ttl consumed = AvValid) \<and>
     (\<forall>ev \<in> set evs. av_verdict ev = VDeny \<longrightarrow> approval_is_valid C K T ev i signer now ttl consumed \<noteq> AvValid)"
  by (auto simp: approval_decision_spec decision_spec_def)

lemma approval_decision_consumed:
  assumes "c \<in> set consumed"
    and "\<And>ev. ev \<in> set evs \<Longrightarrow> av_verdict ev = VApprove \<Longrightarrow> matches_binding c (binding_key ev)"
  shows "approval_decision C K T evs i signer now ttl consumed \<noteq> Approved"
  using assms by (auto simp: approval_decision_Approved_iff approval_is_valid_iff)

end
