(* ===== verification/Reconcile.thy ===== *)
theory Reconcile
  imports Approval Gate
begin

text \<open>
  Claim freshness and precedence (\<^verbatim>\<open>orchestrator/reconcile.rs\<close>) and the errors of the orchestrator
  (\<^verbatim>\<open>orchestrator/error.rs\<close>). Instants and the durations of \<^verbatim>\<open>chrono\<close> are integers in nanoseconds.

  Lemmas: the winner among conflicting claims is the least by shard rank, agent and time, whatever the order
  in which the claims are listed.
\<close>

section \<open>Errors\<close>

datatype orch_error =
    OeCore symphony_error
  | OeBadHeartbeat string string
  | OeNotEligible string string
  | OeTrustClientBuild string
  | OeTrustRequest string string
  | OeTrustDecode string string
  | OeTrustHttp "16 word" string
  | OeTrustLevel string
  | OeProofIo string string
  | OeProofContainment string
  | OeProofJson string
  | OeProofTask string

section \<open>Claim freshness\<close>

datatype claim_stance = FreshSelfStance | StaleSelf | Foreign

definition parse_heartbeat :: "chrono \<Rightarrow> string \<Rightarrow> (instant, orch_error) result" where
  "parse_heartbeat T heartbeat_at = map_err (OeBadHeartbeat heartbeat_at) (parse_rfc3339 T heartbeat_at)"

definition classify :: "chrono \<Rightarrow> claim \<Rightarrow> string \<Rightarrow> instant \<Rightarrow> int \<Rightarrow> (claim_stance, orch_error) result" where
  "classify T c owner now ttl =
     (if cl_by c \<noteq> owner then Ok Foreign
      else and_then (parse_heartbeat T (cl_heartbeat_at c)) (\<lambda>heartbeat.
        Ok (if now - heartbeat \<ge> ttl then StaleSelf else FreshSelfStance)))"

definition is_fresh_self :: "chrono \<Rightarrow> claim \<Rightarrow> string \<Rightarrow> instant \<Rightarrow> int \<Rightarrow> (bool, orch_error) result" where
  "is_fresh_self T c owner now ttl = and_then (classify T c owner now ttl) (\<lambda>st. Ok (st = FreshSelfStance))"

definition is_heartbeat_stale :: "chrono \<Rightarrow> claim \<Rightarrow> instant \<Rightarrow> int \<Rightarrow> (bool, orch_error) result" where
  "is_heartbeat_stale T c now ttl = and_then (parse_heartbeat T (cl_heartbeat_at c)) (\<lambda>heartbeat. Ok (now - heartbeat \<ge> ttl))"

text \<open>\<^verbatim>\<open>i64::MAX\<close> milliseconds is the largest duration.\<close>

definition i64_max :: int where
  "i64_max = 2 ^ 63 - 1"

definition duration_from_millis_saturating :: "u64 \<Rightarrow> int" where
  "duration_from_millis_saturating millis = min (uint millis) i64_max * 1000000"

definition issue_claim_ttl :: "issue \<Rightarrow> int \<Rightarrow> int" where
  "issue_claim_ttl i default_ttl =
     (case iss_shard i of None \<Rightarrow> default_ttl | Some s \<Rightarrow> duration_from_millis_saturating (sh_claim_ttl_ms s))"

text \<open>The quotient by a million of a non-negative duration is its number of whole milliseconds.\<close>

definition heartbeat_interval_for_ttl :: "int \<Rightarrow> duration" where
  "heartbeat_interval_for_ttl ttl =
     (let quarter_ms = max (ttl div 1000000) 0 div 4 in
      if quarter_ms \<le> 2 ^ 64 - 1 then max (nat quarter_ms) 1 * 1000000 else 1000000)"

definition issue_heartbeat_interval :: "issue \<Rightarrow> int \<Rightarrow> duration" where
  "issue_heartbeat_interval i default_ttl =
     (case iss_shard i of
        None \<Rightarrow> heartbeat_interval_for_ttl default_ttl
      | Some s \<Rightarrow> max (unat (sh_claim_ttl_ms s div 4)) 1 * 1000000)"

section \<open>Shard roles and conflicts\<close>

fun position :: "'a \<Rightarrow> 'a list \<Rightarrow> nat option" where
  "position x [] = None"
| "position x (y # ys) = (if y = x then Some 0 else map_option Suc (position x ys))"

definition agent_shard_role :: "issue \<Rightarrow> string \<Rightarrow> shard_role option" where
  "agent_shard_role i agent_id =
     (case iss_shard i of
        None \<Rightarrow> None
      | Some s \<Rightarrow>
          if sh_primary s = agent_id then Some RolePrimary
          else map_option (\<lambda>n. RoleBackup (of_nat n)) (position agent_id (sh_backups s)))"

definition claim_precedence :: "claim \<Rightarrow> usize \<times> string \<times> string" where
  "claim_precedence c = (role_rank (cl_shard_role c), cl_by c, cl_at c)"

text \<open>\<^verbatim>\<open>Iterator::min_by\<close> keeps the first of several least elements.\<close>

definition min_by_key :: "('a \<Rightarrow> 'k::linorder) \<Rightarrow> 'a list \<Rightarrow> 'a option" where
  "min_by_key f xs =
     foldl (\<lambda>best x. case best of None \<Rightarrow> Some x | Some y \<Rightarrow> if f x < f y then Some x else Some y) None xs"

definition winning_conflict_claim :: "claim list \<Rightarrow> claim option" where
  "winning_conflict_claim claims = min_by_key claim_precedence claims"

definition should_take_over_stale_primary ::
  "chrono \<Rightarrow> string \<Rightarrow> int \<Rightarrow> issue \<Rightarrow> claim \<Rightarrow> instant \<Rightarrow> (bool, orch_error) result" where
  "should_take_over_stale_primary T agent_id default_ttl i c now =
     (case iss_shard i of
        None \<Rightarrow> Ok False
      | Some s \<Rightarrow>
          if sh_primary s \<noteq> cl_by c \<or> cl_shard_role c \<noteq> RolePrimary then Ok False
          else (case agent_shard_role i agent_id of
            Some (RoleBackup n) \<Rightarrow>
              if role_rank (cl_shard_role c) \<ge> role_rank (RoleBackup n) then Ok False
              else is_heartbeat_stale T c now (issue_claim_ttl i default_ttl)
          | _ \<Rightarrow> Ok False))"

section \<open>Lemmas\<close>

lemma min_by_key_foldl:
  fixes f :: "'a \<Rightarrow> 'k::linorder"
  shows "\<exists>y. foldl (\<lambda>best x. case best of None \<Rightarrow> Some x | Some y \<Rightarrow> if f x < f y then Some x else Some y) (Some z) xs = Some y \<and>
     y \<in> insert z (set xs) \<and> (\<forall>x \<in> insert z (set xs). f y \<le> f x)"
proof (induction xs arbitrary: z)
  case (Cons x xs)
  define z' where "z' = (if f x < f z then x else z)"
  from Cons.IH [of z'] obtain y where y: "foldl (\<lambda>best x. case best of None \<Rightarrow> Some x | Some y \<Rightarrow> if f x < f y then Some x else Some y) (Some z') xs = Some y"
    "y \<in> insert z' (set xs)" "\<forall>x \<in> insert z' (set xs). f y \<le> f x" by blast
  have "f z' \<le> f x" "f z' \<le> f z" "z' \<in> {x, z}" by (auto simp: z'_def)
  moreover have "(case Some z of None \<Rightarrow> Some x | Some y \<Rightarrow> if f x < f y then Some x else Some y) = Some z'" by (simp add: z'_def)
  ultimately show ?case using y order.trans by (intro exI [of _ y]) (simp only: foldl_Cons, auto)
qed simp

lemma min_by_key_Cons:
  "\<exists>y. min_by_key f (x # xs) = Some y \<and> y \<in> set (x # xs) \<and> (\<forall>z \<in> set (x # xs). f y \<le> f z)"
  using min_by_key_foldl [of f x xs] by (simp add: min_by_key_def)

lemma min_by_key_Some:
  assumes "min_by_key f xs = Some y"
  shows "y \<in> set xs \<and> (\<forall>x \<in> set xs. f y \<le> f x)"
proof (cases xs)
  case (Cons x xs')
  with assms min_by_key_Cons [of f x xs'] show ?thesis by auto
qed (use assms in \<open>simp add: min_by_key_def\<close>)

lemma min_by_key_None_iff: "min_by_key f xs = None \<longleftrightarrow> xs = []"
proof (cases xs)
  case (Cons x xs')
  with min_by_key_Cons [of f x xs'] show ?thesis by auto
qed (simp add: min_by_key_def)

text \<open>The winner's precedence depends only on the set of claims.\<close>

lemma winning_precedence:
  assumes "winning_conflict_claim cs = Some w" and "winning_conflict_claim cs' = Some w'" and "set cs = set cs'"
  shows "claim_precedence w = claim_precedence w'"
proof (rule antisym)
  note 1 = min_by_key_Some [OF assms(1) [unfolded winning_conflict_claim_def]]
  note 2 = min_by_key_Some [OF assms(2) [unfolded winning_conflict_claim_def]]
  show "claim_precedence w \<le> claim_precedence w'" using 1 2 assms(3) by blast
  show "claim_precedence w' \<le> claim_precedence w" using 1 2 assms(3) by blast
qed

lemma position_Some: "position x xs = Some n \<Longrightarrow> n < length xs \<and> xs ! n = x \<and> (\<forall>m < n. xs ! m \<noteq> x)"
proof (induction xs arbitrary: n)
  case (Cons y ys)
  then show ?case by (cases n) (auto split: if_splits simp: nth_Cons split: nat.splits)
qed simp

end
