(* ===== verification/Dispatch_Gate.thy ===== *)
theory Dispatch_Gate
  imports Reconcile Effects
begin

text \<open>
  The network-dispatch gate of the orchestrator (\<^verbatim>\<open>orchestrator/dispatch.rs\<close>, \<^verbatim>\<open>orchestrator/trust_gate.rs\<close>): the
  decision whether a claimed issue may execute at all. Tracker, trust store, signer, key resolver, clock,
  random source and event sink are services: the fields of the record \<open>orch_services\<close>, operations on a world.

  Lemmas: what a decision to proceed establishes on each of its ways (local issue, self-authored, automatic
  policy, approved), including the verified approval and the stored consumption record.
\<close>

section \<open>Trust levels and policies\<close>

datatype trust_level = TrustBlocked | TrustUnknown | TrustKnown | TrustTrusted

fun trust_rank :: "trust_level \<Rightarrow> nat" where
  "trust_rank TrustBlocked = 0"
| "trust_rank TrustUnknown = 1"
| "trust_rank TrustKnown = 2"
| "trust_rank TrustTrusted = 3"

instantiation trust_level :: linorder
begin

definition less_eq_trust_level :: "trust_level \<Rightarrow> trust_level \<Rightarrow> bool" where
  "less_eq_trust_level a b \<longleftrightarrow> trust_rank a \<le> trust_rank b"

definition less_trust_level :: "trust_level \<Rightarrow> trust_level \<Rightarrow> bool" where
  "less_trust_level a b \<longleftrightarrow> trust_rank a < trust_rank b"

instance
proof
  fix x y :: trust_level
  assume "x \<le> y" "y \<le> x"
  then show "x = y" by (cases x; cases y) (simp_all add: less_eq_trust_level_def)
qed (auto simp: less_eq_trust_level_def less_trust_level_def)

end

fun trust_level_str :: "trust_level \<Rightarrow> string" where
  "trust_level_str TrustBlocked = ''blocked''"
| "trust_level_str TrustUnknown = ''unknown''"
| "trust_level_str TrustKnown = ''known''"
| "trust_level_str TrustTrusted = ''trusted''"

definition trust_level_from_str :: "string \<Rightarrow> (trust_level, string) result" where
  "trust_level_from_str v =
     (let t = to_ascii_lowercase (trim v) in
      if t = ''blocked'' then Ok TrustBlocked else if t = ''unknown'' then Ok TrustUnknown
      else if t = ''known'' then Ok TrustKnown else if t = ''trusted'' then Ok TrustTrusted else Err v)"

datatype network_dispatch_policy = PolicyOff | PolicyApprove | PolicyAuto

fun network_dispatch_policy_str :: "network_dispatch_policy \<Rightarrow> string" where
  "network_dispatch_policy_str PolicyOff = ''off''"
| "network_dispatch_policy_str PolicyApprove = ''approve''"
| "network_dispatch_policy_str PolicyAuto = ''auto''"

definition network_dispatch_policy_from_str :: "string \<Rightarrow> (network_dispatch_policy, string) result" where
  "network_dispatch_policy_from_str v =
     (let t = to_ascii_lowercase (trim v) in
      if t = ''off'' then Ok PolicyOff else if t = ''approve'' then Ok PolicyApprove
      else if t = ''auto'' then Ok PolicyAuto else Err v)"

text \<open>The lookup in the daemon's contact list, given the decoded response.\<close>

definition contact_trust_level :: "(string \<times> string) list \<Rightarrow> string \<Rightarrow> (trust_level, orch_error) result" where
  "contact_trust_level contacts agent_id =
     (case find (\<lambda>c. fst c = agent_id) contacts of
        None \<Rightarrow> Ok TrustUnknown
      | Some c \<Rightarrow> map_err OeTrustLevel (trust_level_from_str (snd c)))"

section \<open>Services\<close>

datatype dispatch_event =
    ApprovalRequested string string
  | ApprovalExpired string

record 'w signing_client =
  sc_sign :: "string \<Rightarrow> bytes \<Rightarrow> ('w, sign_response, signing_error) io"
  sc_verify :: "string \<Rightarrow> bytes \<Rightarrow> bytes \<Rightarrow> bytes \<Rightarrow> ('w, verify_outcome, signing_error) io"

record 'w orch_services =
  tr_fetch_candidates :: "poll_context \<Rightarrow> ('w, issue list, symphony_error) io"
  tr_fetch_by_ids :: "string list \<Rightarrow> ('w, issue list, symphony_error) io"
  tr_fetch_claimed :: "('w, issue list, symphony_error) io"
  tr_claim :: "string \<Rightarrow> string \<Rightarrow> ('w, claim, symphony_error) io"
  tr_release :: "claim \<Rightarrow> release_reason \<Rightarrow> ('w, unit, symphony_error) io"
  tr_handoff :: "claim \<Rightarrow> handoff \<Rightarrow> ('w, unit, symphony_error) io"
  tr_block :: "claim \<Rightarrow> release_reason \<Rightarrow> ('w, unit, symphony_error) io"
  tr_load_approval_state :: "string \<Rightarrow> ('w, approval_state, symphony_error) io"
  tr_store_consumed :: "approval_consumed \<Rightarrow> ('w, unit, symphony_error) io"
  trust_lookup :: "string \<Rightarrow> ('w, trust_level, orch_error) io"
  signing :: "'w signing_client option"
  key_resolver :: "(string \<Rightarrow> ('w, bytes, signing_error) io) option"
  clock_now :: "'w \<Rightarrow> instant \<times> 'w"
  random_u128 :: "'w \<Rightarrow> nat \<times> 'w"
  emit :: "dispatch_event \<Rightarrow> 'w \<Rightarrow> 'w"
  cancel_heartbeat :: "'w \<Rightarrow> 'w"
  spawn_heartbeat :: "claim \<Rightarrow> duration \<Rightarrow> 'w \<Rightarrow> 'w"
  shutdown_flag :: "'w \<Rightarrow> bool"
  set_shutdown :: "'w \<Rightarrow> 'w"

text \<open>The primitives of third-party crates that the gate uses, and the part of the configuration it reads.\<close>

record gate_prims =
  gp_crypto :: crypto
  gp_codecs :: core_codecs
  gp_chrono :: chrono
  gp_show_signing_error :: "signing_error \<Rightarrow> string"

record gate_settings =
  gs_agent_id :: string
  gs_required_trust :: trust_level
  gs_network_dispatch :: network_dispatch_policy
  gs_approval_ttl :: duration

datatype dispatch_gate_outcome = GateProceed | GateBlocked | GatePendingApproval

datatype crypto_verify = CryptoValid | CryptoInvalid | CryptoTransportError

section \<open>Verification of stored records\<close>

definition signing_error_is_transport :: "signing_error \<Rightarrow> bool" where
  "signing_error_is_transport e = (case e of SeRequest _ _ \<Rightarrow> True | SeDecode _ _ \<Rightarrow> True | SeHttp _ _ \<Rightarrow> True | _ \<Rightarrow> False)"

definition crypto_of_error :: "signing_error \<Rightarrow> crypto_verify" where
  "crypto_of_error e = (if signing_error_is_transport e then CryptoTransportError else CryptoInvalid)"

text \<open>The common part: verify a payload with a base64 signature under a resolved key.\<close>

definition verify_payload ::
  "gate_prims \<Rightarrow> 'w signing_client \<Rightarrow> string \<Rightarrow> bytes \<Rightarrow> string \<Rightarrow> bytes \<Rightarrow> 'w \<Rightarrow> crypto_verify \<times> 'w" where
  "verify_payload P sc context payload signature_b64 public_key w =
     (case b64_decode (gp_crypto P) signature_b64 of
        Err _ \<Rightarrow> (CryptoInvalid, w)
      | Ok signature_bytes \<Rightarrow>
          (case sc_verify sc context payload signature_bytes public_key w of
             (Ok VoValid, w') \<Rightarrow> (CryptoValid, w')
           | (Ok (VoInvalid _), w') \<Rightarrow> (CryptoInvalid, w')
           | (Ok (VoTransportError _), w') \<Rightarrow> (CryptoTransportError, w')
           | (Err e, w') \<Rightarrow> (crypto_of_error e, w')))"

definition verify_approval_signature ::
  "gate_prims \<Rightarrow> 'w signing_client \<Rightarrow> (string \<Rightarrow> ('w, bytes, signing_error) io) \<Rightarrow> approval_event \<Rightarrow> 'w \<Rightarrow> crypto_verify \<times> 'w" where
  "verify_approval_signature P sc resolve ev w =
     (case resolve (av_approver_agent_id ev) w of
        (Err e, w') \<Rightarrow> (crypto_of_error e, w')
      | (Ok public_key, w') \<Rightarrow>
          (case approval_signing_payload_bytes (gp_codecs P) ev of
             Err _ \<Rightarrow> (CryptoInvalid, w')
           | Ok payload \<Rightarrow>
               (case av_signature ev of
                  None \<Rightarrow> (CryptoInvalid, w')
                | Some sg \<Rightarrow> verify_payload P sc APPROVAL_CONTEXT payload (sge_signature_b64 sg) public_key w')))"

definition verify_consumed_signature ::
  "gate_prims \<Rightarrow> 'w signing_client \<Rightarrow> (string \<Rightarrow> ('w, bytes, signing_error) io) \<Rightarrow> approval_consumed \<Rightarrow> 'w \<Rightarrow> crypto_verify \<times> 'w" where
  "verify_consumed_signature P sc resolve c w =
     (if \<not> consumed_envelope_consistent (gp_crypto P) (gp_codecs P) c then (CryptoInvalid, w)
      else (case resolve (sge_signer_agent_id (ac_signature c)) w of
        (Err e, w') \<Rightarrow> (crypto_of_error e, w')
      | (Ok public_key, w') \<Rightarrow>
          (case consumed_signing_payload_bytes (gp_codecs P) c of
             Err _ \<Rightarrow> (CryptoInvalid, w')
           | Ok payload \<Rightarrow>
               verify_payload P sc APPROVAL_CONSUMED_CONTEXT payload (sge_signature_b64 (ac_signature c)) public_key w')))"

section \<open>Refusals\<close>

definition io_of_core :: "('w, 'a, symphony_error) io \<Rightarrow> ('w, 'a, orch_error) io" where
  "io_of_core m = io_map_err OeCore m"

definition block_for_dispatch_refusal ::
  "'w orch_services \<Rightarrow> claim \<Rightarrow> release_reason_code \<Rightarrow> string \<Rightarrow> ('w, unit, orch_error) io" where
  "block_for_dispatch_refusal S cl code detail =
     (\<lambda>w. io_of_core (tr_block S cl \<lparr>rr_code = code, rr_message = detail\<rparr>) (cancel_heartbeat S w))"

definition park_awaiting_approval :: "'w orch_services \<Rightarrow> claim \<Rightarrow> string \<Rightarrow> ('w, dispatch_gate_outcome, orch_error) io" where
  "park_awaiting_approval S cl detail =
     io_bind (block_for_dispatch_refusal S cl RcAwaitingApproval detail) (\<lambda>_. io_lift (Ok GatePendingApproval))"

section \<open>The approval gate\<close>

text \<open>\<open>None\<close>: the claim was parked.\<close>

definition require_approval_crypto ::
  "'w orch_services \<Rightarrow> claim \<Rightarrow> ('w, ('w signing_client \<times> (string \<Rightarrow> ('w, bytes, signing_error) io)) option, orch_error) io" where
  "require_approval_crypto S cl =
     (case (signing S, key_resolver S) of
        (Some sc, Some resolve) \<Rightarrow> io_lift (Ok (Some (sc, resolve)))
      | _ \<Rightarrow> io_bind (block_for_dispatch_refusal S cl RcApprovalVerifierUnconfigured
               ''approval verifier not configured for Approve-policy dispatch'') (\<lambda>_. io_lift (Ok None)))"

fun verified_consumed_records ::
  "gate_prims \<Rightarrow> 'w orch_services \<Rightarrow> claim \<Rightarrow> 'w signing_client \<Rightarrow> (string \<Rightarrow> ('w, bytes, signing_error) io) \<Rightarrow>
   approval_consumed list \<Rightarrow> approval_consumed list \<Rightarrow> ('w, approval_consumed list option, orch_error) io" where
  "verified_consumed_records P S cl sc resolve [] verified = io_lift (Ok (Some verified))"
| "verified_consumed_records P S cl sc resolve (c # cs) verified = (\<lambda>w.
     case verify_consumed_signature P sc resolve c w of
       (CryptoValid, w') \<Rightarrow> verified_consumed_records P S cl sc resolve cs (verified @ [c]) w'
     | (CryptoInvalid, w') \<Rightarrow>
         io_bind (block_for_dispatch_refusal S cl RcInvalidSignature
           ''approval consumption record failed signature verification; consumption state is unverifiable'') (\<lambda>_. io_lift (Ok None)) w'
     | (CryptoTransportError, w') \<Rightarrow>
         io_bind (block_for_dispatch_refusal S cl RcVerifyTransportError
           ''approval consumption signature verification transport failed'') (\<lambda>_. io_lift (Ok None)) w')"

text \<open>The loop over the stored events; the flag remembers whether an expiry was reported.\<close>

fun verified_approval_events ::
  "gate_prims \<Rightarrow> 'w orch_services \<Rightarrow> gate_settings \<Rightarrow> claim \<Rightarrow> issue \<Rightarrow> string \<Rightarrow> string \<Rightarrow> approval_consumed list \<Rightarrow>
   'w signing_client \<Rightarrow> (string \<Rightarrow> ('w, bytes, signing_error) io) \<Rightarrow> approval_event list \<Rightarrow> approval_event list \<Rightarrow> bool \<Rightarrow>
   ('w, approval_event list option, orch_error) io" where
  "verified_approval_events P S G cl i signer now consumed sc resolve [] kept emitted = io_lift (Ok (Some kept))"
| "verified_approval_events P S G cl i signer now consumed sc resolve (ev # evs) kept emitted = (\<lambda>w.
     let validity = approval_is_valid (gp_crypto P) (gp_codecs P) (gp_chrono P) ev i signer now (gs_approval_ttl G) consumed;
         report = (validity = AvExpired \<and> \<not> emitted);
         w1 = (if report then emit S (ApprovalExpired (iss_id i)) w else w);
         emitted1 = (emitted \<or> report)
     in if validity \<noteq> AvValid then verified_approval_events P S G cl i signer now consumed sc resolve evs kept emitted1 w1
        else (case verify_approval_signature P sc resolve ev w1 of
          (CryptoValid, w2) \<Rightarrow> verified_approval_events P S G cl i signer now consumed sc resolve evs (kept @ [ev]) emitted1 w2
        | (CryptoInvalid, w2) \<Rightarrow> verified_approval_events P S G cl i signer now consumed sc resolve evs kept emitted1 w2
        | (CryptoTransportError, w2) \<Rightarrow>
            io_bind (block_for_dispatch_refusal S cl RcVerifyTransportError ''approval signature verification transport failed'')
              (\<lambda>_. io_lift (Ok None)) w2))"

text \<open>Lowercase hexadecimal rendering, as \<^verbatim>\<open>{:032x}\<close> formats an integer.\<close>

definition hex_digit :: "nat \<Rightarrow> char" where
  "hex_digit d = (if d < 10 then char_of (48 + d) else char_of (87 + d))"

fun show_hex :: "nat \<Rightarrow> string" where
  "show_hex n = (if n < 16 then [hex_digit n] else show_hex (n div 16) @ [hex_digit (n mod 16)])"

declare show_hex.simps [simp del]

definition signed_consumed_event ::
  "gate_prims \<Rightarrow> 'w orch_services \<Rightarrow> gate_settings \<Rightarrow> 'w signing_client \<Rightarrow> issue \<Rightarrow> string \<Rightarrow> string \<Rightarrow>
   ('w, approval_consumed, orch_error) io" where
  "signed_consumed_event P S G sc i signer consumed_at = (\<lambda>w.
     let hash = content_hash (gp_crypto P) (gp_codecs P) i;
         (entropy, w1) = random_u128 S w;
         nonce = sha256_hex (gp_crypto P) (as_bytes (iss_id i @ '':'' @ hash @ '':'' @ signer @ '':'' @ consumed_at @ '':'' @
           gs_agent_id G @ '':'' @ pad_zeros 32 (show_hex entropy)));
         placeholder = \<lparr>sge_algorithm = SIGN_ALGORITHM, sge_context = APPROVAL_CONSUMED_CONTEXT, sge_public_key_b64 = [],
           sge_signature_b64 = [], sge_payload_sha256 = ''unsigned'', sge_signer_agent_id = gs_agent_id G\<rparr>;
         consumed = \<lparr>ac_issue_id = iss_id i, ac_content_hash = hash, ac_signer_agent_id = signer, ac_nonce = nonce,
           ac_consumed_at = consumed_at, ac_signature = placeholder\<rparr>
     in io_bind (io_lift (map_err OeCore (consumed_signing_payload_bytes (gp_codecs P) consumed))) (\<lambda>payload.
        io_bind (io_map_err (\<lambda>e. OeCore (SyTracker (''approval-consumption signing failed: '' @ gp_show_signing_error P e)))
          (sc_sign sc APPROVAL_CONSUMED_CONTEXT payload)) (\<lambda>response.
        io_lift
          (if sg_algorithm response \<noteq> SIGN_ALGORITHM
           then Err (OeCore (SyTracker (''approval-consumption sign response algorithm '' @ sg_algorithm response @
                  '' did not match '' @ SIGN_ALGORITHM)))
           else if sg_context response \<noteq> APPROVAL_CONSUMED_CONTEXT
           then Err (OeCore (SyTracker (''approval-consumption sign response context '' @ sg_context response @
                  '' did not match '' @ APPROVAL_CONSUMED_CONTEXT)))
           else Ok (consumed\<lparr>ac_signature := \<lparr>sge_algorithm = sg_algorithm response, sge_context = sg_context response,
                  sge_public_key_b64 = sg_public_key_b64 response, sge_signature_b64 = sg_signature_b64 response,
                  sge_payload_sha256 = sha256_hex (gp_crypto P) payload, sge_signer_agent_id = sg_agent_id response\<rparr>\<rparr>)))) w1)"

text \<open>The message of the refusal contains the rendered error, which is a parameter here.\<close>

definition consume_approval_and_proceed ::
  "gate_prims \<Rightarrow> (orch_error \<Rightarrow> string) \<Rightarrow> 'w orch_services \<Rightarrow> gate_settings \<Rightarrow> claim \<Rightarrow> issue \<Rightarrow> string \<Rightarrow> string \<Rightarrow> 'w signing_client \<Rightarrow>
   ('w, dispatch_gate_outcome, orch_error) io" where
  "consume_approval_and_proceed P show_err S G cl i signer now sc = (\<lambda>w.
     case signed_consumed_event P S G sc i signer now w of
       (Err e, w') \<Rightarrow>
         io_bind (block_for_dispatch_refusal S cl RcVerifyTransportError
           (''failed to sign approval-consumption record: '' @ show_err e @ ''; refusing dispatch'')) (\<lambda>_.
         io_lift (Ok GatePendingApproval)) w'
     | (Ok consumed, w') \<Rightarrow>
         io_bind (io_of_core (tr_store_consumed S consumed)) (\<lambda>_. io_lift (Ok GateProceed)) w')"

definition conclude_approval ::
  "gate_prims \<Rightarrow> (orch_error \<Rightarrow> string) \<Rightarrow> 'w orch_services \<Rightarrow> gate_settings \<Rightarrow> claim \<Rightarrow> issue \<Rightarrow> string \<Rightarrow> string \<Rightarrow>
   approval_consumed list \<Rightarrow> 'w signing_client \<Rightarrow> approval_event list \<Rightarrow> ('w, dispatch_gate_outcome, orch_error) io" where
  "conclude_approval P show_err S G cl i signer now consumed sc kept =
     (case approval_decision (gp_crypto P) (gp_codecs P) (gp_chrono P) kept i signer now (gs_approval_ttl G) consumed of
        Approved \<Rightarrow> consume_approval_and_proceed P show_err S G cl i signer now sc
      | DecDenied \<Rightarrow> park_awaiting_approval S cl
          (''network-sourced dispatch was denied for signer '' @ signer @ '' and current payload'')
      | DecPending \<Rightarrow> park_awaiting_approval S cl
          (''network-sourced dispatch requires a valid approval for signer '' @ signer @ '' and current payload''))"

definition approval_gate_decision ::
  "gate_prims \<Rightarrow> (orch_error \<Rightarrow> string) \<Rightarrow> 'w orch_services \<Rightarrow> gate_settings \<Rightarrow> claim \<Rightarrow> issue \<Rightarrow> string \<Rightarrow>
   ('w, dispatch_gate_outcome, orch_error) io" where
  "approval_gate_decision P show_err S G cl i signer =
     io_bind (io_of_core (tr_load_approval_state S (iss_id i))) (\<lambda>state.
     io_bind (\<lambda>w. case clock_now S w of (t, w') \<Rightarrow> (Ok (to_rfc3339_nanos (gp_chrono P) t), w')) (\<lambda>now.
     io_bind (require_approval_crypto S cl) (\<lambda>cr. case cr of
       None \<Rightarrow> io_lift (Ok GatePendingApproval)
     | Some (sc, resolve) \<Rightarrow>
         io_bind (verified_consumed_records P S cl sc resolve (as_consumed state) []) (\<lambda>vc. case vc of
           None \<Rightarrow> io_lift (Ok GatePendingApproval)
         | Some consumed \<Rightarrow>
             io_bind (verified_approval_events P S G cl i signer now consumed sc resolve (as_events state) [] False) (\<lambda>ke. case ke of
               None \<Rightarrow> io_lift (Ok GatePendingApproval)
             | Some kept \<Rightarrow> conclude_approval P show_err S G cl i signer now consumed sc kept)))))"

section \<open>The network gate\<close>

definition is_network_sourced :: "issue \<Rightarrow> bool" where
  "is_network_sourced i = (source_from_issue i = SrcNetworkSourced \<or> iss_signature_provenance i \<noteq> None)"

definition self_authored :: "gate_settings \<Rightarrow> issue \<Rightarrow> bool" where
  "self_authored G i =
     (case iss_signature_provenance i of
        Some (ProvVerified s) \<Rightarrow> trim s \<noteq> [] \<and> trim s = gs_agent_id G
      | _ \<Rightarrow> False)"

text \<open>The signer to look up, or the refusal when the provenance is missing, invalid or unverifiable.\<close>

definition gate_signer :: "issue \<Rightarrow> (string, release_reason_code \<times> string) result" where
  "gate_signer i =
     (case iss_signature_provenance i of
        Some (ProvVerified s) \<Rightarrow>
          if trim s \<noteq> [] then Ok (trim s)
          else Err (RcMissingVerifiedSignature, ''network-sourced issue lacks verified ML-DSA-65 signature provenance'')
      | None \<Rightarrow> Err (RcMissingVerifiedSignature, ''network-sourced issue lacks verified ML-DSA-65 signature provenance'')
      | Some (ProvInvalid reason) \<Rightarrow> Err (RcInvalidSignature, ''network-sourced issue signature is invalid: '' @ reason)
      | Some (ProvTransportError reason) \<Rightarrow>
          Err (RcVerifyTransportError, ''network-sourced issue signature verification transport failed: '' @ reason))"

definition trust_refusal :: "trust_level \<Rightarrow> trust_level \<Rightarrow> string \<Rightarrow> (release_reason_code \<times> string) option" where
  "trust_refusal required level signer =
     (if level = TrustBlocked then Some (RcBlockedSigner, ''network-sourced issue signer '' @ signer @ '' is blocked in x0xd contacts'')
      else if level = TrustUnknown
      then Some (RcUnknownSigner, ''network-sourced issue signer '' @ signer @ '' is unknown to x0xd contacts'')
      else if level < required
      then Some (RcUntrustedSigner, ''network-sourced issue signer '' @ signer @ '' has trust '' @ trust_level_str level @
             ''; required '' @ trust_level_str required)
      else None)"

definition block_if_network_dispatch_refused ::
  "gate_prims \<Rightarrow> (orch_error \<Rightarrow> string) \<Rightarrow> 'w orch_services \<Rightarrow> gate_settings \<Rightarrow> claim \<Rightarrow> issue \<Rightarrow>
   ('w, dispatch_gate_outcome, orch_error) io" where
  "block_if_network_dispatch_refused P show_err S G cl i =
     (if \<not> is_network_sourced i then io_lift (Ok GateProceed)
      else if self_authored G i then io_lift (Ok GateProceed)
      else if gs_network_dispatch G = PolicyOff
      then io_bind (block_for_dispatch_refusal S cl RcNetworkDispatchDisabled
             ''network-sourced dispatch is disabled by security.network_dispatch_enabled'') (\<lambda>_. io_lift (Ok GateBlocked))
      else case gate_signer i of
        Err (code, detail) \<Rightarrow> io_bind (block_for_dispatch_refusal S cl code detail) (\<lambda>_. io_lift (Ok GateBlocked))
      | Ok s \<Rightarrow>
          io_bind (io_lift (map_err OeCore (agent_id_new s))) (\<lambda>signer.
          io_bind (trust_lookup S signer) (\<lambda>level.
          case trust_refusal (gs_required_trust G) level signer of
            Some (code, detail) \<Rightarrow> io_bind (block_for_dispatch_refusal S cl code detail) (\<lambda>_. io_lift (Ok GateBlocked))
          | None \<Rightarrow>
              (case gs_network_dispatch G of
                 PolicyAuto \<Rightarrow> io_lift (Ok GateProceed)
               | PolicyApprove \<Rightarrow> approval_gate_decision P show_err S G cl i signer
               | PolicyOff \<Rightarrow> io_lift (Ok GateBlocked)))))"


section \<open>Lemmas\<close>

lemma verified_consumed_records_Some:
  assumes "verified_consumed_records P S cl sc resolve cs verified w = (Ok (Some out), w')"
  shows "out = verified @ cs \<and> (\<forall>c \<in> set cs. \<exists>w w'. verify_consumed_signature P sc resolve c w = (CryptoValid, w'))"
  using assms
proof (induction cs arbitrary: verified w)
  case (Cons c cs)
  obtain v w1 where v: "verify_consumed_signature P sc resolve c w = (v, w1)" by force
  with Cons.prems have "v = CryptoValid" "verified_consumed_records P S cl sc resolve cs (verified @ [c]) w1 = (Ok (Some out), w')"
    by (cases v; auto simp: io_bind_Ok_iff)+
  with Cons.IH [of "verified @ [c]" w1] v show ?case by auto
qed simp

text \<open>The events that are kept are valid and their signatures verified; a valid event that is not kept
  failed verification.\<close>

lemma verified_approval_events_Some:
  assumes "verified_approval_events P S G cl i signer now consumed sc resolve evs kept emitted w = (Ok (Some out), w')"
  shows "\<exists>new. out = kept @ new \<and>
    (\<forall>ev \<in> set new. ev \<in> set evs \<and>
       approval_is_valid (gp_crypto P) (gp_codecs P) (gp_chrono P) ev i signer now (gs_approval_ttl G) consumed = AvValid \<and>
       (\<exists>w w'. verify_approval_signature P sc resolve ev w = (CryptoValid, w'))) \<and>
    (\<forall>ev \<in> set evs. approval_is_valid (gp_crypto P) (gp_codecs P) (gp_chrono P) ev i signer now (gs_approval_ttl G) consumed = AvValid \<longrightarrow>
       ev \<in> set new \<or> (\<exists>w w'. verify_approval_signature P sc resolve ev w = (CryptoInvalid, w')))"
  using assms
proof (induction evs arbitrary: kept emitted w)
  case (Cons ev evs)
  define valid where "valid ev \<longleftrightarrow>
    approval_is_valid (gp_crypto P) (gp_codecs P) (gp_chrono P) ev i signer now (gs_approval_ttl G) consumed = AvValid" for ev
  define validity where "validity = approval_is_valid (gp_crypto P) (gp_codecs P) (gp_chrono P) ev i signer now (gs_approval_ttl G) consumed"
  define w1 where "w1 = (if validity = AvExpired \<and> \<not> emitted then emit S (ApprovalExpired (iss_id i)) w else w)"
  define em where "em = (emitted \<or> validity = AvExpired \<and> \<not> emitted)"
  note unfolded = Cons.prems [unfolded verified_approval_events.simps Let_def, folded validity_def, folded w1_def em_def]
  note IH = Cons.IH [folded valid_def]
  show ?case unfolding valid_def [symmetric]
  proof (cases "validity = AvValid")
    case False
    then have "\<not> valid ev" by (simp add: valid_def validity_def)
    moreover from False unfolded have "verified_approval_events P S G cl i signer now consumed sc resolve evs kept em w1 = (Ok (Some out), w')" by simp
    ultimately show "\<exists>new. out = kept @ new \<and>
        (\<forall>e \<in> set new. e \<in> set (ev # evs) \<and> valid e \<and> (\<exists>w w'. verify_approval_signature P sc resolve e w = (CryptoValid, w'))) \<and>
        (\<forall>e \<in> set (ev # evs). valid e \<longrightarrow> e \<in> set new \<or> (\<exists>w w'. verify_approval_signature P sc resolve e w = (CryptoInvalid, w')))"
      using IH [of kept em w1] by (metis list.set_intros(2) set_ConsD)
  next
    case True
    then have va: "valid ev" by (simp add: valid_def validity_def)
    obtain v w2 where v: "verify_approval_signature P sc resolve ev w1 = (v, w2)" by force
    show "\<exists>new. out = kept @ new \<and>
        (\<forall>e \<in> set new. e \<in> set (ev # evs) \<and> valid e \<and> (\<exists>w w'. verify_approval_signature P sc resolve e w = (CryptoValid, w'))) \<and>
        (\<forall>e \<in> set (ev # evs). valid e \<longrightarrow> e \<in> set new \<or> (\<exists>w w'. verify_approval_signature P sc resolve e w = (CryptoInvalid, w')))"
    proof (cases v)
      case CryptoValid
      with True unfolded v have "verified_approval_events P S G cl i signer now consumed sc resolve evs (kept @ [ev]) em w2 = (Ok (Some out), w')"
        by simp
      from IH [OF this] obtain new where "out = (kept @ [ev]) @ new"
        "\<forall>e \<in> set new. e \<in> set evs \<and> valid e \<and> (\<exists>w w'. verify_approval_signature P sc resolve e w = (CryptoValid, w'))"
        "\<forall>e \<in> set evs. valid e \<longrightarrow> e \<in> set new \<or> (\<exists>w w'. verify_approval_signature P sc resolve e w = (CryptoInvalid, w'))" by blast
      with va v CryptoValid show ?thesis by (intro exI [of _ "ev # new"]) auto
    next
      case CryptoInvalid
      with True unfolded v have "verified_approval_events P S G cl i signer now consumed sc resolve evs kept em w2 = (Ok (Some out), w')"
        by simp
      from IH [OF this] obtain new where "out = kept @ new"
        "\<forall>e \<in> set new. e \<in> set evs \<and> valid e \<and> (\<exists>w w'. verify_approval_signature P sc resolve e w = (CryptoValid, w'))"
        "\<forall>e \<in> set evs. valid e \<longrightarrow> e \<in> set new \<or> (\<exists>w w'. verify_approval_signature P sc resolve e w = (CryptoInvalid, w'))" by blast
      with va v CryptoInvalid show ?thesis by (intro exI [of _ new]) auto
    next
      case CryptoTransportError
      with True unfolded v show ?thesis by (auto simp: io_bind_Ok_iff)
    qed
  qed
qed simp

text \<open>A consumption record that the gate signs is bound to issue, content and signer, and its envelope
  is consistent.\<close>

lemma signed_consumed_event_Ok:
  assumes "signed_consumed_event P S G sc i signer at w = (Ok c, w')"
  shows "ac_issue_id c = iss_id i \<and> ac_content_hash c = content_hash (gp_crypto P) (gp_codecs P) i \<and> ac_signer_agent_id c = signer \<and>
    ac_consumed_at c = at \<and> consumed_envelope_consistent (gp_crypto P) (gp_codecs P) c"
  using assms unfolding signed_consumed_event_def Let_def case_prod_unfold io_bind_Ok_iff
  by (auto simp: consumed_envelope_consistent_def consumed_signing_payload_bytes_def split: if_splits)

lemma consume_approval_and_proceed_Proceed:
  assumes "consume_approval_and_proceed P show_err S G cl i signer now sc w = (Ok GateProceed, w')"
  shows "\<exists>w1 w2 c. signed_consumed_event P S G sc i signer now w1 = (Ok c, w2) \<and> tr_store_consumed S c w2 = (Ok (), w')"
proof -
  obtain r w1 where r: "signed_consumed_event P S G sc i signer now w = (r, w1)" by force
  show ?thesis
  proof (cases r)
    case (Ok c)
    with assms r have "tr_store_consumed S c w1 = (Ok (), w')"
      by (simp add: consume_approval_and_proceed_def io_bind_Ok_iff io_of_core_def)
    with r Ok show ?thesis by blast
  next
    case (Err e)
    with assms r show ?thesis by (auto simp: consume_approval_and_proceed_def io_bind_Ok_iff)
  qed
qed

text \<open>What the approval gate established when it lets the issue proceed, over the approval state \<open>st\<close>
  it loaded and the time \<open>now\<close> it read.\<close>

definition approval_authorised ::
  "gate_prims \<Rightarrow> gate_settings \<Rightarrow> 'w signing_client \<Rightarrow> (string \<Rightarrow> ('w, bytes, signing_error) io) \<Rightarrow> approval_state \<Rightarrow> string \<Rightarrow> issue \<Rightarrow> string \<Rightarrow>
   bool" where
  "approval_authorised P G sc resolve st now i signer \<longleftrightarrow>
     (\<forall>c \<in> set (as_consumed st). \<exists>w w'. verify_consumed_signature P sc resolve c w = (CryptoValid, w')) \<and>
     (\<exists>ev \<in> set (as_events st). av_verdict ev = VApprove \<and>
        approval_is_valid (gp_crypto P) (gp_codecs P) (gp_chrono P) ev i signer now (gs_approval_ttl G) (as_consumed st) = AvValid \<and>
        (\<exists>w w'. verify_approval_signature P sc resolve ev w = (CryptoValid, w'))) \<and>
     (\<forall>ev \<in> set (as_events st). av_verdict ev = VDeny \<longrightarrow>
        approval_is_valid (gp_crypto P) (gp_codecs P) (gp_chrono P) ev i signer now (gs_approval_ttl G) (as_consumed st) = AvValid \<longrightarrow>
        (\<exists>w w'. verify_approval_signature P sc resolve ev w = (CryptoInvalid, w')))"

lemma approval_gate_Proceed:
  assumes "approval_gate_decision P show_err S G cl i signer w = (Ok GateProceed, w')"
  shows "\<exists>w0 w1 st now sc resolve w2 w3 c. tr_load_approval_state S (iss_id i) w0 = (Ok st, w1) \<and>
    signing S = Some sc \<and> key_resolver S = Some resolve \<and> approval_authorised P G sc resolve st now i signer \<and>
    signed_consumed_event P S G sc i signer now w2 = (Ok c, w3) \<and> tr_store_consumed S c w3 = (Ok (), w')"
proof -
  from assms obtain st w1 now w1' w2 sc resolve consumed w3 kept w4 where
    load: "tr_load_approval_state S (iss_id i) w = (Ok st, w1)"
    and cr: "require_approval_crypto S cl w1' = (Ok (Some (sc, resolve)), w2)"
    and vc: "verified_consumed_records P S cl sc resolve (as_consumed st) [] w2 = (Ok (Some consumed), w3)"
    and ke: "verified_approval_events P S G cl i signer now consumed sc resolve (as_events st) [] False w3 = (Ok (Some kept), w4)"
    and fin: "conclude_approval P show_err S G cl i signer now consumed sc kept w4 = (Ok GateProceed, w')"
    unfolding approval_gate_decision_def by (auto simp: io_bind_Ok_iff io_of_core_def case_prod_unfold split: option.splits)
  from cr have svc: "signing S = Some sc" "key_resolver S = Some resolve"
    by (auto simp: require_approval_crypto_def io_bind_Ok_iff split: option.splits)
  from verified_consumed_records_Some [OF vc] have cons: "consumed = as_consumed st"
    "\<forall>c \<in> set (as_consumed st). \<exists>w w'. verify_consumed_signature P sc resolve c w = (CryptoValid, w')" by simp_all
  have dec: "approval_decision (gp_crypto P) (gp_codecs P) (gp_chrono P) kept i signer now (gs_approval_ttl G) (as_consumed st) = Approved"
    and run: "consume_approval_and_proceed P show_err S G cl i signer now sc w4 = (Ok GateProceed, w')"
    using fin cons(1)
    by (auto simp: conclude_approval_def park_awaiting_approval_def io_bind_Ok_iff split: approval_decision_kind.splits)
  define valid where "valid ev \<longleftrightarrow>
    approval_is_valid (gp_crypto P) (gp_codecs P) (gp_chrono P) ev i signer now (gs_approval_ttl G) (as_consumed st) = AvValid" for ev
  from verified_approval_events_Some [OF ke, unfolded cons(1), folded valid_def]
  have kept: "\<forall>ev \<in> set kept. ev \<in> set (as_events st) \<and> valid ev \<and> (\<exists>w w'. verify_approval_signature P sc resolve ev w = (CryptoValid, w'))"
    "\<forall>ev \<in> set (as_events st). valid ev \<longrightarrow> ev \<in> set kept \<or> (\<exists>w w'. verify_approval_signature P sc resolve ev w = (CryptoInvalid, w'))"
    by auto
  have "\<exists>ev \<in> set kept. av_verdict ev = VApprove \<and> valid ev" "\<forall>ev \<in> set kept. av_verdict ev = VDeny \<longrightarrow> \<not> valid ev"
    using dec unfolding approval_decision_Approved_iff valid_def by blast+
  with kept cons(2) have "approval_authorised P G sc resolve st now i signer"
    unfolding approval_authorised_def valid_def [symmetric] by metis
  with load svc consume_approval_and_proceed_Proceed [OF run] show ?thesis by blast
qed

text \<open>What a decision to proceed rests on: the issue is local or the daemon's own, or the daemon dispatches
  network work and the verified signer's trust is sufficient; under the approve policy there is in addition
  an authorisation that has been spent in a stored consumption record.\<close>

definition approval_spent :: "gate_prims \<Rightarrow> 'w orch_services \<Rightarrow> gate_settings \<Rightarrow> issue \<Rightarrow> string \<Rightarrow> bool" where
  "approval_spent P S G i signer \<longleftrightarrow>
     (\<exists>st now sc resolve c. signing S = Some sc \<and> key_resolver S = Some resolve \<and>
        (\<exists>w w'. tr_load_approval_state S (iss_id i) w = (Ok st, w')) \<and>
        approval_authorised P G sc resolve st now i signer \<and>
        ac_issue_id c = iss_id i \<and> ac_content_hash c = content_hash (gp_crypto P) (gp_codecs P) i \<and> ac_signer_agent_id c = signer \<and>
        consumed_envelope_consistent (gp_crypto P) (gp_codecs P) c \<and> (\<exists>w w'. tr_store_consumed S c w = (Ok (), w')))"

definition dispatch_authorised :: "gate_prims \<Rightarrow> 'w orch_services \<Rightarrow> gate_settings \<Rightarrow> issue \<Rightarrow> bool" where
  "dispatch_authorised P S G i \<longleftrightarrow>
     \<not> is_network_sourced i \<or> self_authored G i \<or>
     (gs_network_dispatch G \<noteq> PolicyOff \<and>
      (\<exists>signer level. iss_signature_provenance i \<noteq> None \<and> gate_signer i = Ok signer \<and>
         (\<exists>w w'. trust_lookup S signer w = (Ok level, w')) \<and>
         gs_required_trust G \<le> level \<and> level \<noteq> TrustBlocked \<and> level \<noteq> TrustUnknown \<and>
         (gs_network_dispatch G = PolicyApprove \<longrightarrow> approval_spent P S G i signer)))"

lemma approval_gate_spent:
  assumes "approval_gate_decision P show_err S G cl i signer w = (Ok GateProceed, w')"
  shows "approval_spent P S G i signer"
proof -
  from approval_gate_Proceed [OF assms] obtain w0 w1 st now sc resolve w2 w3 c where
    "tr_load_approval_state S (iss_id i) w0 = (Ok st, w1)" "signing S = Some sc" "key_resolver S = Some resolve"
    "approval_authorised P G sc resolve st now i signer" and c: "signed_consumed_event P S G sc i signer now w2 = (Ok c, w3)"
    "tr_store_consumed S c w3 = (Ok (), w')" by blast
  with signed_consumed_event_Ok [OF c(1)] show ?thesis unfolding approval_spent_def by blast
qed

lemma gate_signer_Ok: "gate_signer i = Ok s \<Longrightarrow> iss_signature_provenance i \<noteq> None \<and> agent_id_new s = Ok s"
  by (auto simp: gate_signer_def agent_id_new_def trim_idempotent split: option.splits signature_provenance.splits if_splits)

lemma trust_refusal_None: "trust_refusal required level signer = None \<longleftrightarrow> required \<le> level \<and> level \<noteq> TrustBlocked \<and> level \<noteq> TrustUnknown"
  by (auto simp: trust_refusal_def not_less)

lemma network_gate_Proceed:
  assumes "block_if_network_dispatch_refused P show_err S G cl i w = (Ok GateProceed, w')"
  shows "dispatch_authorised P S G i"
proof (cases "\<not> is_network_sourced i \<or> self_authored G i")
  case False
  with assms have pol: "gs_network_dispatch G \<noteq> PolicyOff"
    by (auto simp: block_if_network_dispatch_refused_def io_bind_Ok_iff split: if_splits)
  obtain signer where s: "gate_signer i = Ok signer"
    using assms False pol by (cases "gate_signer i") (auto simp: block_if_network_dispatch_refused_def io_bind_Ok_iff split: prod.splits)
  from gate_signer_Ok [OF s] have ok: "iss_signature_provenance i \<noteq> None" "agent_id_new signer = Ok signer" by auto
  obtain level w1 where lookup: "trust_lookup S signer w = (Ok level, w1)"
    and case_refusal: "(case trust_refusal (gs_required_trust G) level signer of
          Some (code, detail) \<Rightarrow> io_bind (block_for_dispatch_refusal S cl code detail) (\<lambda>_. io_lift (Ok GateBlocked))
        | None \<Rightarrow> (case gs_network_dispatch G of PolicyAuto \<Rightarrow> io_lift (Ok GateProceed)
            | PolicyApprove \<Rightarrow> approval_gate_decision P show_err S G cl i signer | PolicyOff \<Rightarrow> io_lift (Ok GateBlocked))) w1 = (Ok GateProceed, w')"
    using assms False pol s ok by (auto simp: block_if_network_dispatch_refused_def io_bind_Ok_iff)
  then have l: "trust_refusal (gs_required_trust G) level signer = None"
    by (cases "trust_refusal (gs_required_trust G) level signer") (auto simp: io_bind_Ok_iff)
  with case_refusal have rest: "(case gs_network_dispatch G of PolicyAuto \<Rightarrow> io_lift (Ok GateProceed) | PolicyApprove \<Rightarrow> approval_gate_decision P show_err S G cl i signer
         | PolicyOff \<Rightarrow> io_lift (Ok GateBlocked)) w1 = (Ok GateProceed, w')" by simp
  have "approval_spent P S G i signer" if "gs_network_dispatch G = PolicyApprove"
    using rest that by (auto intro: approval_gate_spent)
  with pol s ok(1) lookup l show ?thesis unfolding dispatch_authorised_def trust_refusal_None by blast
qed (auto simp: dispatch_authorised_def)

end
