(* ===== verification/Concurrency.thy ===== *)
theory Concurrency
  imports Core_Types
begin

text \<open>
  Concurrency accounting of the orchestrator (\<^verbatim>\<open>orchestrator/concurrency.rs\<close>): a global cap on runs in flight
  and optional caps per issue state, with saturating counters.

  Specification: a multiset of the states whose slots are held. The locale \<open>slot_pool\<close> states the contract
  of such an accounting; the budget is shown to implement it, so the caps hold in every reachable state.
\<close>

section \<open>Operations\<close>

record headroom =
  hr_global :: usize
  hr_per_state :: usize

definition available :: "headroom \<Rightarrow> usize" where
  "available h = min (hr_global h) (hr_per_state h)"

definition is_open :: "headroom \<Rightarrow> bool" where
  "is_open h = (available h > 0)"

record budget =
  bu_global_cap :: usize
  bu_global_used :: usize
  bu_per_state_caps :: "(string, usize) btree_map"
  bu_per_state_used :: "(string, usize) btree_map"

definition budget_new :: "usize \<Rightarrow> (string, usize) btree_map \<Rightarrow> budget" where
  "budget_new global_cap per_state_caps =
     \<lparr>bu_global_cap = global_cap, bu_global_used = 0, bu_per_state_caps = per_state_caps, bu_per_state_used = []\<rparr>"

definition budget_headroom :: "budget \<Rightarrow> string \<Rightarrow> headroom" where
  "budget_headroom b st =
     \<lparr>hr_global = sat_sub (bu_global_cap b) (bu_global_used b),
      hr_per_state = (case bt_get (bu_per_state_caps b) st of
          Some cap \<Rightarrow> sat_sub cap (case bt_get (bu_per_state_used b) st of Some v \<Rightarrow> v | None \<Rightarrow> 0)
        | None \<Rightarrow> -1)\<rparr>"

definition try_acquire :: "budget \<Rightarrow> string \<Rightarrow> bool \<times> budget" where
  "try_acquire b st =
     (if \<not> is_open (budget_headroom b st) then (False, b)
      else let b1 = b\<lparr>bu_global_used := sat_add (bu_global_used b) 1\<rparr>;
               b2 = (if bt_contains_key (bu_per_state_caps b1) st
                     then b1\<lparr>bu_per_state_used := bt_insert st
                            (sat_add (case bt_get (bu_per_state_used b1) st of Some v \<Rightarrow> v | None \<Rightarrow> 0) 1) (bu_per_state_used b1)\<rparr>
                     else b1)
           in (True, b2))"

definition release :: "budget \<Rightarrow> string \<Rightarrow> budget" where
  "release b st =
     (let b1 = b\<lparr>bu_global_used := sat_sub (bu_global_used b) 1\<rparr> in
      case bt_get (bu_per_state_used b1) st of
        Some v \<Rightarrow> b1\<lparr>bu_per_state_used := bt_insert st (sat_sub v 1) (bu_per_state_used b1)\<rparr>
      | None \<Rightarrow> b1)"

definition in_flight :: "budget \<Rightarrow> usize" where
  "in_flight b = bu_global_used b"

section \<open>The contract of a slot pool\<close>

text \<open>\<open>tracks b held\<close> relates an implementation state to the multiset of held slots; \<open>fits held s\<close> says whether
  one more slot for \<open>s\<close> is allowed. The laws: an acquisition succeeds exactly when the slot fits and then
  adds it, a refused one changes nothing, and releasing a held slot removes it.\<close>

locale slot_pool =
  fixes tracks :: "'b \<Rightarrow> 's multiset \<Rightarrow> bool"
    and fits :: "'s multiset \<Rightarrow> 's \<Rightarrow> bool"
    and acquire :: "'b \<Rightarrow> 's \<Rightarrow> bool \<times> 'b"
    and free :: "'b \<Rightarrow> 's \<Rightarrow> 'b"
  assumes acquire_fits: "tracks b held \<Longrightarrow> fits held s \<Longrightarrow> \<exists>b'. acquire b s = (True, b') \<and> tracks b' (add_mset s held)"
    and acquire_refused: "tracks b held \<Longrightarrow> \<not> fits held s \<Longrightarrow> acquire b s = (False, b)"
    and free_held: "tracks b (add_mset s held) \<Longrightarrow> tracks (free b s) held"
begin

text \<open>One operation of a client that frees only slots it holds.\<close>

inductive pool_step :: "'b \<times> 's multiset \<Rightarrow> 'b \<times> 's multiset \<Rightarrow> bool" where
  take_slot: "acquire b s = (True, b') \<Longrightarrow> pool_step (b, held) (b', add_mset s held)"
| refuse_slot: "acquire b s = (False, b') \<Longrightarrow> pool_step (b, held) (b', held)"
| give_back: "pool_step (b, add_mset s held) (free b s, held)"

inductive_simps pool_step_simps: "pool_step (b, held) (b', held')"

lemma pool_step_tracks:
  assumes "pool_step p p'" and "tracks (fst p) (snd p)"
  shows "tracks (fst p') (snd p')"
  using assms
proof cases
  case (take_slot b s b' held)
  then have t: "tracks b held" using assms(2) by simp
  then have "fits held s" using acquire_refused [OF t] take_slot(3) by fastforce
  then show ?thesis using acquire_fits [OF t] take_slot by fastforce
next
  case (refuse_slot b s b' held)
  then have t: "tracks b held" using assms(2) by simp
  then have "\<not> fits held s" using acquire_fits [OF t] refuse_slot(3) by fastforce
  then show ?thesis using acquire_refused [OF t] refuse_slot t by fastforce
next
  case (give_back b s held)
  then show ?thesis using assms(2) free_held by simp
qed

lemma pool_reachable_tracks:
  assumes "pool_step\<^sup>*\<^sup>* p p'" and "tracks (fst p) (snd p)"
  shows "tracks (fst p') (snd p')"
  using assms by (induction rule: rtranclp_induct) (auto intro: pool_step_tracks)

text \<open>Acquire and give back restores room for the same slot.\<close>

lemma acquire_free_fits:
  assumes "tracks b held" and "acquire b s = (True, b')"
  shows "tracks (free b' s) held"
  using assms acquire_fits acquire_refused free_held by (metis fst_conv prod.inject)

end

section \<open>The budget implements the contract\<close>

definition used_of :: "(string, usize) btree_map \<Rightarrow> string \<Rightarrow> usize" where
  "used_of used st = (case bt_get used st of Some v \<Rightarrow> v | None \<Rightarrow> 0)"

text \<open>The counter of one state is right: it counts the \<open>n\<close> held slots of a capped state and is absent
  for a state without a cap.\<close>

definition state_tracks :: "(string, usize) btree_map \<Rightarrow> (string, usize) btree_map \<Rightarrow> nat \<Rightarrow> string \<Rightarrow> bool" where
  "state_tracks caps used n st \<longleftrightarrow>
     (case bt_get caps st of Some c \<Rightarrow> unat (used_of used st) = n \<and> n \<le> unat c | None \<Rightarrow> bt_get used st = None)"

definition budget_tracks :: "usize \<Rightarrow> (string, usize) btree_map \<Rightarrow> budget \<Rightarrow> string multiset \<Rightarrow> bool" where
  "budget_tracks cap caps b held \<longleftrightarrow>
     bu_global_cap b = cap \<and> bu_per_state_caps b = caps \<and>
     unat (bu_global_used b) = size held \<and> size held \<le> unat cap \<and>
     (\<forall>st. state_tracks caps (bu_per_state_used b) (count held st) st)"

definition budget_fits :: "usize \<Rightarrow> (string, usize) btree_map \<Rightarrow> string multiset \<Rightarrow> string \<Rightarrow> bool" where
  "budget_fits cap caps held st \<longleftrightarrow> size held < unat cap \<and>
     (case bt_get caps st of Some c \<Rightarrow> count held st < unat c | None \<Rightarrow> True)"

lemma unat_sat_add_1: "unat (a :: 'a::len word) < unat (c :: 'a word) \<Longrightarrow> unat (sat_add a 1) = Suc (unat a)"
proof -
  assume "unat a < unat c"
  then have "a < c" by (simp add: word_less_nat_alt)
  then have "a \<noteq> -1" by auto
  then have "unat (a + 1) = Suc (unat a)" by (metis add.commute add_eq_0_iff2 unatSuc)
  then show ?thesis by (simp add: sat_add_def word_le_nat_alt)
qed

lemma state_tracks_None: "bt_get caps st = None \<Longrightarrow> state_tracks caps used n st \<longleftrightarrow> bt_get used st = None"
  by (simp add: state_tracks_def)

lemma state_tracks_Some:
  "bt_get caps st = Some c \<Longrightarrow> state_tracks caps used n st \<longleftrightarrow> unat (used_of used st) = n \<and> n \<le> unat c"
  by (simp add: state_tracks_def)

lemma state_tracks_other: "bt_get used st = bt_get used' st \<Longrightarrow> state_tracks caps used n st \<longleftrightarrow> state_tracks caps used' n st"
  by (simp add: state_tracks_def used_of_def split: option.split)

lemma budget_tracksD: "budget_tracks cap caps b held \<Longrightarrow> state_tracks caps (bu_per_state_used b) (count held st) st"
  by (simp add: budget_tracks_def)

lemma used_of_insert: "used_of (bt_insert k v m) k = v"
  by (simp add: used_of_def)

lemma budget_headroom_eq:
  "budget_headroom b st = \<lparr>hr_global = sat_sub (bu_global_cap b) (bu_global_used b),
     hr_per_state = (case bt_get (bu_per_state_caps b) st of Some cap \<Rightarrow> sat_sub cap (used_of (bu_per_state_used b) st) | None \<Rightarrow> -1)\<rparr>"
  by (simp add: budget_headroom_def used_of_def split: option.split)

lemma is_open_headroom:
  assumes "budget_tracks cap caps b held"
  shows "is_open (budget_headroom b st) \<longleftrightarrow> budget_fits cap caps held st"
proof -
  have pos: "0 < w \<longleftrightarrow> 0 < unat w" for w :: usize by (simp add: unat_gt_0 word_gt_0)
  have "0 < min (x :: usize) y \<longleftrightarrow> 0 < x \<and> 0 < y" for x y by (auto simp: min_def)
  then have "is_open (budget_headroom b st) \<longleftrightarrow>
      0 < unat (hr_global (budget_headroom b st)) \<and> 0 < unat (hr_per_state (budget_headroom b st))"
    by (simp add: is_open_def available_def pos)
  moreover have "unat (hr_global (budget_headroom b st)) = unat cap - size held"
    using assms by (simp add: budget_headroom_eq unat_sat_sub budget_tracks_def)
  moreover have "0 < unat (hr_per_state (budget_headroom b st)) \<longleftrightarrow>
      (case bt_get caps st of Some c \<Rightarrow> count held st < unat c | None \<Rightarrow> True)"
  proof (cases "bt_get caps st")
    case None
    have "0 < unat (-1 :: usize)" by (simp only: unat_gt_0) simp
    with None show ?thesis using assms by (simp add: budget_headroom_eq budget_tracks_def)
  next
    case (Some c)
    then have "unat (used_of (bu_per_state_used b) st) = count held st"
      using budget_tracksD [OF assms, of st] by (simp add: state_tracks_Some)
    with Some show ?thesis using assms by (auto simp: budget_headroom_eq budget_tracks_def unat_sat_sub)
  qed
  ultimately show ?thesis by (auto simp: budget_fits_def)
qed

lemma try_acquire_fits:
  assumes t: "budget_tracks cap caps b held" and f: "budget_fits cap caps held st"
  shows "\<exists>b'. try_acquire b st = (True, b') \<and> budget_tracks cap caps b' (add_mset st held)"
proof -
  have caps: "bu_per_state_caps b = caps" using t by (simp add: budget_tracks_def)
  have gl: "unat (sat_add (bu_global_used b) 1) = Suc (size held)" "Suc (size held) \<le> unat cap"
    using t f unat_sat_add_1 [of "bu_global_used b" cap] by (simp_all add: budget_tracks_def budget_fits_def)
  define used where "used = bu_per_state_used b"
  define used' where "used' = (if bt_contains_key caps st then bt_insert st (sat_add (used_of used st) 1) used else used)"
  define b' where "b' = b\<lparr>bu_global_used := sat_add (bu_global_used b) 1, bu_per_state_used := used'\<rparr>"
  have "try_acquire b st = (True, b')"
    using is_open_headroom [OF t, of st] f caps
    by (simp add: try_acquire_def b'_def used'_def used_def used_of_def)
  moreover have "state_tracks caps used' (count (add_mset st held) x) x" for x
  proof (cases "x = st")
    case False
    then have "bt_get used' x = bt_get used x" by (simp add: used'_def)
    with False t show ?thesis using state_tracks_other [of used' x used] budget_tracksD [OF t, of x] by (simp add: used_def)
  next
    case True
    show ?thesis
    proof (cases "bt_get caps st")
      case None
      with True budget_tracksD [OF t, of st] show ?thesis by (simp add: used'_def used_def state_tracks_None bt_contains_key_def)
    next
      case (Some c)
      then have "unat (used_of used st) = count held st" "count held st < unat c"
        using budget_tracksD [OF t, of st] f by (simp_all add: budget_fits_def state_tracks_Some used_def)
      then have "unat (sat_add (used_of used st) 1) = Suc (count held st)" "Suc (count held st) \<le> unat c"
        using unat_sat_add_1 [of "used_of used st" c] by simp_all
      with True Some show ?thesis by (simp add: state_tracks_Some used'_def bt_contains_key_def used_of_insert)
    qed
  qed
  ultimately show ?thesis using t gl by (auto simp: budget_tracks_def b'_def)
qed

lemma try_acquire_refused:
  "budget_tracks cap caps b held \<Longrightarrow> \<not> budget_fits cap caps held st \<Longrightarrow> try_acquire b st = (False, b)"
  by (simp add: try_acquire_def is_open_headroom)

lemma release_held:
  assumes t: "budget_tracks cap caps b (add_mset st held)"
  shows "budget_tracks cap caps (release b st) held"
proof -
  define used where "used = bu_per_state_used b"
  define used' where "used' = (case bt_get used st of Some v \<Rightarrow> bt_insert st (sat_sub v 1) used | None \<Rightarrow> used)"
  have r: "release b st = b\<lparr>bu_global_used := sat_sub (bu_global_used b) 1, bu_per_state_used := used'\<rparr>"
    by (simp add: release_def used'_def used_def split: option.splits)
  have "state_tracks caps used' (count held x) x" for x
  proof (cases "x = st")
    case False
    then have "bt_get used' x = bt_get used x" by (simp add: used'_def split: option.splits)
    moreover have "state_tracks caps used (count held x) x"
      using budget_tracksD [OF t, of x] False by (simp add: used_def)
    ultimately show ?thesis using state_tracks_other by blast
  next
    case True
    have s: "state_tracks caps used (Suc (count held st)) st" using budget_tracksD [OF t, of st] by (simp add: used_def)
    show ?thesis
    proof (cases "bt_get caps st")
      case None
      with s True show ?thesis by (simp add: state_tracks_None used'_def)
    next
      case (Some c)
      with s obtain v where "bt_get used st = Some v" "unat v = Suc (count held st)" "Suc (count held st) \<le> unat c"
        by (auto simp: state_tracks_Some used_of_def split: option.splits)
      with Some True show ?thesis by (simp add: state_tracks_Some used'_def used_of_insert unat_sat_sub)
    qed
  qed
  then show ?thesis using t by (simp add: r budget_tracks_def unat_sat_sub)
qed

interpretation bp: slot_pool "budget_tracks cap caps" "budget_fits cap caps" try_acquire release for cap caps
  by unfold_locales (auto intro: try_acquire_fits try_acquire_refused release_held)

lemma budget_new_tracks: "budget_tracks cap caps (budget_new cap caps) {#}"
  by (auto simp: budget_tracks_def budget_new_def state_tracks_def used_of_def split: option.splits)

end
