(* ===== verification/Retry.thy ===== *)
theory Retry
  imports Gate
begin

text \<open>
  Retry policy of the orchestrator (\<^verbatim>\<open>orchestrator/retry.rs\<close>): exponential backoff with a cap and a maximal number
  of attempts. A \<^verbatim>\<open>Duration\<close> is a number of nanoseconds; the 64-bit and 128-bit steps of the computation
  are written out.
\<close>

record retry_policy =
  rp_base :: duration
  rp_max :: duration
  rp_max_attempts :: u32

definition duration_from_millis :: "nat \<Rightarrow> duration" where
  "duration_from_millis ms = ms * 1000000"

definition retry_policy_new :: "duration \<Rightarrow> duration \<Rightarrow> u32 \<Rightarrow> retry_policy" where
  "retry_policy_new base mx max_attempts =
     \<lparr>rp_base = max base (duration_from_millis 1), rp_max = mx, rp_max_attempts = max max_attempts 1\<rparr>"

definition u64_max :: nat where
  "u64_max = 2 ^ 64 - 1"

definition u128_max :: nat where
  "u128_max = 2 ^ 128 - 1"

text \<open>Taking the low eight of the sixteen little-endian bytes is the remainder modulo \<open>2 ^ 64\<close>.\<close>

definition backoff_after :: "retry_policy \<Rightarrow> u32 \<Rightarrow> duration" where
  "backoff_after p attempt =
     (let factor = min (unat (sat_sub attempt 1)) 31;
          multiplier = 2 ^ factor;
          base_nanos = min (rp_base p) u64_max;
          raw_nanos = min (base_nanos * multiplier) u128_max;
          capped = min raw_nanos u64_max;
          nanos = capped mod (u64_max + 1)
      in min nanos (rp_max p))"

definition is_exhausted :: "retry_policy \<Rightarrow> u32 \<Rightarrow> bool" where
  "is_exhausted p attempts_so_far = (attempts_so_far \<ge> rp_max_attempts p)"

definition default_retry_policy :: retry_policy where
  "default_retry_policy = retry_policy_new (duration_from_secs 5) (duration_from_secs 300) 3"

section \<open>Lemmas\<close>

text \<open>No step of the computation loses anything but the final caps.\<close>

lemma u64_max_le_u128_max: "u64_max \<le> u128_max"
  unfolding u64_max_def u128_max_def by (rule diff_le_mono) (rule power_increasing, simp_all)

lemma backoff_after_closed:
  "backoff_after p attempt = min (min (rp_base p * 2 ^ min (unat attempt - 1) 31) u64_max) (rp_max p)"
proof -
  have f: "unat (sat_sub attempt 1) = unat attempt - 1"
    by (auto simp: sat_sub_def unat_sub word_le_nat_alt)
  define m :: nat where "m = 2 ^ min (unat attempt - 1) 31"
  have m: "m \<ge> 1" by (simp add: m_def)
  have 1: "min (min (rp_base p) u64_max * m) u64_max = min (rp_base p * m) u64_max"
  proof (cases "rp_base p \<le> u64_max")
    case False
    then have "rp_base p \<le> rp_base p * m" "u64_max \<le> u64_max * m" using m by auto
    with False show ?thesis by linarith
  qed simp
  have 2: "min (min x u128_max) u64_max = min x u64_max" for x
    using u64_max_le_u128_max by linarith
  have 3: "min x u64_max mod (u64_max + 1) = min x u64_max" for x by (rule mod_less) linarith
  show ?thesis unfolding backoff_after_def Let_def f m_def [symmetric] 2 1 3 by (rule refl)
qed

lemma backoff_after_mono: "a \<le> b \<Longrightarrow> backoff_after p a \<le> backoff_after p b"
proof -
  assume "a \<le> b"
  then have "min (unat a - 1) 31 \<le> min (unat b - 1) 31" by (auto simp: word_le_nat_alt)
  then have "rp_base p * 2 ^ min (unat a - 1) 31 \<le> rp_base p * 2 ^ min (unat b - 1) 31"
    by (intro mult_le_mono2 power_increasing) simp_all
  then show ?thesis unfolding backoff_after_closed by linarith
qed

end
