(* ===== verification/Orchestrator.thy ===== *)
theory Orchestrator
  imports Dispatch_Gate Concurrency Retry
begin

text \<open>
  The orchestrator (\<^verbatim>\<open>orchestrator/lib.rs\<close>, \<^verbatim>\<open>orchestrator/dispatch.rs\<close>): claiming under the concurrency
  budget, running a claimed issue through the dispatch gate, the hooks and the retry loop to a resolution,
  and startup reconciliation. Tracker, runner, workspace, proof files and processes are services on a world
  \<open>'w\<close>; the orchestrator's own state (budget and in-flight map, behind a mutex in the code) is explicit.

  Lemmas: the in-flight map and the budget agree, every exit of a run frees its slot, and a run makes at most
  the configured number of attempts.
\<close>

section \<open>State and configuration\<close>

fun bt_remove :: "'k \<Rightarrow> ('k, 'v) btree_map \<Rightarrow> ('k, 'v) btree_map" where
  "bt_remove k [] = []"
| "bt_remove k ((k', v) # m) = (if k' = k then m else (k', v) # bt_remove k m)"

record orch_state =
  ost_budget :: budget
  ost_in_flight :: "(string, string) btree_map"

datatype hook_name = AfterCreate | BeforeRun | AfterRun | BeforeRemove

fun hook_name_str :: "hook_name \<Rightarrow> string" where
  "hook_name_str AfterCreate = ''after_create''"
| "hook_name_str BeforeRun = ''before_run''"
| "hook_name_str AfterRun = ''after_run''"
| "hook_name_str BeforeRemove = ''before_remove''"

record hook =
  hk_name :: hook_name
  hk_script :: string
  hk_timeout_ms :: u64

record lifecycle_hooks =
  lh_timeout_ms :: u32
  lh_after_create :: "string option"
  lh_before_run :: "string option"
  lh_after_run :: "string option"
  lh_before_remove :: "string option"

definition hooks_hook :: "lifecycle_hooks \<Rightarrow> hook_name \<Rightarrow> hook option" where
  "hooks_hook hs name =
     (case (case name of AfterCreate \<Rightarrow> lh_after_create hs | BeforeRun \<Rightarrow> lh_before_run hs | AfterRun \<Rightarrow> lh_after_run hs
            | BeforeRemove \<Rightarrow> lh_before_remove hs) of
        None \<Rightarrow> None
      | Some script \<Rightarrow>
          if trim script = [] then None
          else Some \<lparr>hk_name = name, hk_script = script, hk_timeout_ms = ucast (lh_timeout_ms hs)\<rparr>)"

datatype hook_status = HookSucceeded | HookFailed | HookTimedOut

fun hook_status_name :: "hook_status \<Rightarrow> string" where
  "hook_status_name HookSucceeded = ''succeeded''"
| "hook_status_name HookFailed = ''failed''"
| "hook_status_name HookTimedOut = ''timed_out''"

record hook_outcome =
  hko_status :: hook_status
  hko_exit_code :: "int option"

record workspace_handle =
  wh_issue_id :: string
  wh_path :: string
  wh_created_now :: bool

datatype turn_status = TurnSucceeded | TurnFailed | TurnTimedOut | TurnCancelled

datatype resolution = Completed | Blocked | PendingApprovalRes | ShutdownReleased

record completed_turn =
  ct_status :: turn_status
  ct_summary :: "string option"

text \<open>The outcome of the race between a shutdown request and one runner turn.\<close>

datatype run_selection = SelShutdown | SelTurn "(completed_turn, symphony_error) result"

record proof_run =
  pr_relative_dir :: string
  pr_hooks :: "string list"

record orch_config =
  oc_gate :: gate_settings
  oc_active_states :: "string list"
  oc_terminal_states :: "string list"
  oc_retry :: retry_policy
  oc_hooks :: lifecycle_hooks
  oc_validation_commands :: "string list"
  oc_claim_ttl :: int
  oc_polling_interval :: duration

record 'w run_services =
  rs_orch :: "'w orch_services"
  rn_name :: string
  rn_start_session :: "issue \<Rightarrow> string \<Rightarrow> issue_source \<Rightarrow> ('w, string, symphony_error) io"
  rn_select :: "string \<Rightarrow> string \<Rightarrow> 'w \<Rightarrow> run_selection \<times> 'w"
  rn_stop_session :: "string \<Rightarrow> 'w \<Rightarrow> 'w"
  ws_create :: "issue \<Rightarrow> ('w, workspace_handle, symphony_error) io"
  ws_run_hook_in :: "workspace_handle \<Rightarrow> hook \<Rightarrow> (string, string) btree_map \<Rightarrow> ('w, hook_outcome, symphony_error) io"
  ws_destroy :: "workspace_handle \<Rightarrow> ('w, unit, symphony_error) io"
  pf_start :: "issue \<Rightarrow> instant \<Rightarrow> ('w, string, orch_error) io"
  pf_spawn_event_writer :: "string \<Rightarrow> 'w \<Rightarrow> 'w"
  pf_join_event_writer :: "('w, unit, orch_error) io"
  pf_finish :: "proof_run \<Rightarrow> int \<Rightarrow> instant \<Rightarrow> ('w, unit, orch_error) io"
  px_status :: "string \<Rightarrow> string \<Rightarrow> ('w, bool \<times> 32 word option, string) io"
  px_git_diff :: "string \<Rightarrow> 'w \<Rightarrow> string option \<times> 'w"
  rs_sleep :: "duration \<Rightarrow> 'w \<Rightarrow> 'w"
  rs_show_error :: "orch_error \<Rightarrow> string"
  rs_poll_wait :: "duration \<Rightarrow> 'w \<Rightarrow> bool \<times> 'w"
  pf_write_abandoned :: "issue \<Rightarrow> claim \<Rightarrow> release_reason \<Rightarrow> claim \<Rightarrow> instant \<Rightarrow> ('w, unit, orch_error) io"

section \<open>Exit codes, validation commands and follow-ups\<close>

text \<open>\<^verbatim>\<open>str::lines\<close>: the parts between line feeds, each without the carriage return before its line
  feed; no part after a final line feed.\<close>

fun split_char :: "char \<Rightarrow> string \<Rightarrow> string list" where
  "split_char c [] = [[]]"
| "split_char c (x # xs) =
     (if x = c then [] # split_char c xs
      else case split_char c xs of [] \<Rightarrow> [[x]] | y # ys \<Rightarrow> (x # y) # ys)"

definition strip_cr :: "string \<Rightarrow> string" where
  "strip_cr l = (if l \<noteq> [] \<and> last l = CHR 0x0D then butlast l else l)"

definition str_lines :: "string \<Rightarrow> string list" where
  "str_lines s =
     (let parts = split_char (CHR 0x0A) s in map strip_cr (butlast parts) @ (if last parts = [] then [] else [last parts]))"

text \<open>Splitting at every white-space character, comma or semicolon.\<close>

definition separators :: "string list" where
  "separators = whitespace @ ['','', '';'']"

function split_seps :: "string \<Rightarrow> string \<Rightarrow> string list" where
  "split_seps acc s =
     (case s of
        [] \<Rightarrow> [acc]
      | c # rest \<Rightarrow>
          (case find (\<lambda>w. w \<noteq> [] \<and> prefix w s) separators of
             Some w \<Rightarrow> acc # split_seps [] (drop (length w) s)
           | None \<Rightarrow> split_seps (acc @ [c]) rest))"
  by auto
termination
proof (relation "measure (\<lambda>(acc, s). length s)")
  fix acc s c rest w
  assume "s = c # rest" and "find (\<lambda>w. w \<noteq> [] \<and> prefix w s) separators = Some w"
  then have "w \<noteq> []" by (auto simp: find_Some_iff)
  then have "0 < length w" by simp
  then have "length s - length w < length s" using \<open>s = c # rest\<close> by simp
  then show "(([], drop (length w) s), (acc, s)) \<in> measure (\<lambda>(acc, s). length s)" by simp
qed simp_all

declare split_seps.simps [simp del]

fun parse_digits :: "int \<Rightarrow> string \<Rightarrow> int option" where
  "parse_digits acc [] = Some acc"
| "parse_digits acc (c # cs) =
     (if of_char c \<in> {48..57 :: nat} then parse_digits (10 * acc + (of_char c - 48)) cs else None)"

text \<open>\<^verbatim>\<open>str::parse::<i32>\<close>: an optional sign, at least one digit, within range.\<close>

definition parse_i32 :: "string \<Rightarrow> int option" where
  "parse_i32 s =
     (let (sign, ds) = (case s of c # cs \<Rightarrow> if c = CHR ''-'' then (-1, cs) else if c = CHR ''+'' then (1, cs) else (1, s) | [] \<Rightarrow> (1, s)) in
      if ds = [] then None
      else case parse_digits 0 ds of
        None \<Rightarrow> None
      | Some n \<Rightarrow> if - (2 ^ 31) \<le> sign * n \<and> sign * n < 2 ^ 31 then Some (sign * n) else None)"

definition parse_exit_code :: "string option \<Rightarrow> int option" where
  "parse_exit_code summary =
     Option.bind summary (\<lambda>s. find_map (\<lambda>part. Option.bind (strip_prefix ''exit_code='' part) parse_i32) (split_seps [] s))"

definition turn_exit_code :: "turn_status \<Rightarrow> string option \<Rightarrow> int" where
  "turn_exit_code status summary =
     (case status of
        TurnSucceeded \<Rightarrow> (case parse_exit_code summary of Some c \<Rightarrow> c | None \<Rightarrow> 0)
      | _ \<Rightarrow> (case parse_exit_code summary of Some c \<Rightarrow> if c \<noteq> 0 then c else 1 | None \<Rightarrow> 1))"

definition issue_extra_string_list :: "issue \<Rightarrow> string \<Rightarrow> string list" where
  "issue_extra_string_list i key =
     (case bt_get (iss_extra i) key of
        None \<Rightarrow> []
      | Some v \<Rightarrow> filter (\<lambda>s. s \<noteq> []) (map trim (List.map_filter json_as_str (case json_as_array v of Some xs \<Rightarrow> xs | None \<Rightarrow> []))))"

definition first_prefixed :: "string list \<Rightarrow> string \<Rightarrow> string option" where
  "first_prefixed ps entry =
     find_map (\<lambda>p. case strip_prefix p entry of
        None \<Rightarrow> None
      | Some rest \<Rightarrow> if trim rest \<noteq> [] then Some (trim rest) else None) ps"

definition acceptance_validation_command :: "string \<Rightarrow> string option" where
  "acceptance_validation_command entry = first_prefixed [''validation:'', ''validation command:'', ''command:''] entry"

definition configured_validation_commands :: "string list \<Rightarrow> issue \<Rightarrow> string list" where
  "configured_validation_commands configured i =
     (if configured \<noteq> [] then configured
      else if issue_extra_string_list i ''validation'' \<noteq> [] then issue_extra_string_list i ''validation''
      else List.map_filter acceptance_validation_command (issue_extra_string_list i ''acceptance''))"

definition follow_up_line :: "string \<Rightarrow> string option" where
  "follow_up_line line = first_prefixed [''follow_up:'', ''follow-up:'', ''follow_up=''] line"

definition follow_ups_from_summary :: "string option \<Rightarrow> string list" where
  "follow_ups_from_summary summary =
     (case summary of None \<Rightarrow> [] | Some s \<Rightarrow> List.map_filter (\<lambda>l. follow_up_line (trim l)) (str_lines s))"

definition approval_request_signer :: "issue \<Rightarrow> string option" where
  "approval_request_signer i =
     (case iss_signature_provenance i of
        Some (ProvVerified s) \<Rightarrow>
          if trim s = [] then None else (case agent_id_new (trim s) of Ok a \<Rightarrow> Some a | Err _ \<Rightarrow> None)
      | _ \<Rightarrow> None)"

section \<open>Hooks\<close>

definition describe_hook_outcome :: "hook_outcome \<Rightarrow> (int \<Rightarrow> string) \<Rightarrow> string" where
  "describe_hook_outcome h show_int =
     (case hko_exit_code h of
        Some code \<Rightarrow> ''status='' @ hook_status_name (hko_status h) @ '', exit_code='' @ show_int code
      | None \<Rightarrow> ''status='' @ hook_status_name (hko_status h))"

definition show_int :: "int \<Rightarrow> string" where
  "show_int n = (if n < 0 then ''-'' @ show_nat (nat (- n)) else show_nat (nat n))"

definition claim_env_id :: "claim \<Rightarrow> string" where
  "claim_env_id c =
     (case cl_issue_id c of
        Some issue_id \<Rightarrow> issue_id @ '':'' @ cl_by c @ '':'' @ cl_at c
      | None \<Rightarrow> cl_by c @ '':'' @ cl_at c)"

definition hook_env :: "orch_config \<Rightarrow> claim \<Rightarrow> workspace_handle \<Rightarrow> string \<Rightarrow> (string, string) btree_map" where
  "hook_env cfg c h phase_name =
     bt_insert ''HOOK_PHASE'' phase_name (bt_insert ''CLAIM_ID'' (claim_env_id c)
       (bt_insert ''WORKSPACE_DIR'' (wh_path h) (bt_insert ''AGENT_ID'' (gs_agent_id (oc_gate cfg))
         (bt_insert ''ISSUE_ID'' (wh_issue_id h) []))))"

definition run_hook_phase ::
  "'w run_services \<Rightarrow> orch_config \<Rightarrow> claim \<Rightarrow> workspace_handle \<Rightarrow> hook_name \<Rightarrow> ('w, hook_outcome option, orch_error) io" where
  "run_hook_phase R cfg c h phase =
     (case hooks_hook (oc_hooks cfg) phase of
        None \<Rightarrow> io_lift (Ok None)
      | Some hk \<Rightarrow> io_bind (io_of_core (ws_run_hook_in R h hk (hook_env cfg c h (hook_name_str (hk_name hk))))) (\<lambda>outcome.
          io_lift (Ok (Some outcome))))"

definition record_hook :: "proof_run \<Rightarrow> string \<Rightarrow> string \<Rightarrow> proof_run" where
  "record_hook pf phase_name status = pf\<lparr>pr_hooks := pr_hooks pf @ [phase_name @ '':'' @ status]\<rparr>"

definition block_for_hook_failure :: "'w run_services \<Rightarrow> claim \<Rightarrow> string \<Rightarrow> string \<Rightarrow> ('w, unit, orch_error) io" where
  "block_for_hook_failure R c phase_name detail = (\<lambda>w.
     io_of_core (tr_block (rs_orch R) c \<lparr>rr_code = RcOther, rr_message = phase_name @ '' hook failed: '' @ detail\<rparr>)
       (cancel_heartbeat (rs_orch R) w))"

text \<open>The result says whether the issue was blocked, and carries the proof record.\<close>

definition block_if_hook_failed ::
  "'w run_services \<Rightarrow> orch_config \<Rightarrow> claim \<Rightarrow> workspace_handle \<Rightarrow> hook_name \<Rightarrow> proof_run \<Rightarrow> ('w, bool \<times> proof_run, orch_error) io" where
  "block_if_hook_failed R cfg c h phase pf = (\<lambda>w.
     let phase_name = hook_name_str phase in
     case run_hook_phase R cfg c h phase w of
       (Ok None, w') \<Rightarrow> (Ok (False, pf), w')
     | (Ok (Some outcome), w') \<Rightarrow>
         let pf' = record_hook pf phase_name (hook_status_name (hko_status outcome)) in
         if hko_status outcome = HookSucceeded then (Ok (False, pf'), w')
         else io_bind (block_for_hook_failure R c phase_name (describe_hook_outcome outcome show_int)) (\<lambda>_. io_lift (Ok (True, pf'))) w'
     | (Err e, w') \<Rightarrow>
         io_bind (block_for_hook_failure R c phase_name (rs_show_error R e)) (\<lambda>_.
           io_lift (Ok (True, record_hook pf phase_name ''errored''))) w')"

definition warn_after_run_hook_failure ::
  "'w run_services \<Rightarrow> orch_config \<Rightarrow> claim \<Rightarrow> workspace_handle \<Rightarrow> proof_run \<Rightarrow> 'w \<Rightarrow> proof_run \<times> 'w" where
  "warn_after_run_hook_failure R cfg c h pf w =
     (case run_hook_phase R cfg c h AfterRun w of
        (Ok None, w') \<Rightarrow> (pf, w')
      | (Ok (Some outcome), w') \<Rightarrow> (record_hook pf (hook_name_str AfterRun) (hook_status_name (hko_status outcome)), w')
      | (Err e, w') \<Rightarrow> (record_hook pf (hook_name_str AfterRun) ''errored'', w'))"

definition before_remove_allows_cleanup ::
  "'w run_services \<Rightarrow> orch_config \<Rightarrow> claim \<Rightarrow> workspace_handle \<Rightarrow> proof_run \<Rightarrow> 'w \<Rightarrow> (bool \<times> proof_run) \<times> 'w" where
  "before_remove_allows_cleanup R cfg c h pf w =
     (case run_hook_phase R cfg c h BeforeRemove w of
        (Ok None, w') \<Rightarrow> ((True, pf), w')
      | (Ok (Some outcome), w') \<Rightarrow>
          ((hko_status outcome = HookSucceeded, record_hook pf (hook_name_str BeforeRemove) (hook_status_name (hko_status outcome))), w')
      | (Err e, w') \<Rightarrow> ((False, record_hook pf (hook_name_str BeforeRemove) ''errored''), w'))"

definition cleanup_if_terminal ::
  "'w run_services \<Rightarrow> orch_config \<Rightarrow> claim \<Rightarrow> workspace_handle \<Rightarrow> string \<Rightarrow> proof_run \<Rightarrow> ('w, proof_run, orch_error) io" where
  "cleanup_if_terminal R cfg c h state_name pf = (\<lambda>w.
     if \<not> list_ex (\<lambda>st. st = state_name) (oc_terminal_states cfg) then (Ok pf, w)
     else case before_remove_allows_cleanup R cfg c h pf w of
       ((allowed, pf'), w') \<Rightarrow>
         if allowed then io_bind (io_of_core (ws_destroy R h)) (\<lambda>_. io_lift (Ok pf')) w' else (Ok pf', w'))"

section \<open>One attempt\<close>

definition now_io :: "'w run_services \<Rightarrow> ('w, instant, orch_error) io" where
  "now_io R = (\<lambda>w. case clock_now (rs_orch R) w of (t, w') \<Rightarrow> (Ok t, w'))"

definition finish_proof :: "'w run_services \<Rightarrow> proof_run \<Rightarrow> int \<Rightarrow> ('w, unit, orch_error) io" where
  "finish_proof R pf exit_code = io_bind (now_io R) (\<lambda>t. pf_finish R pf exit_code t)"

text \<open>\<open>None\<close>: the claim was released because of a shutdown.\<close>

definition run_attempt ::
  "'w run_services \<Rightarrow> claim \<Rightarrow> issue \<Rightarrow> string \<Rightarrow> proof_run \<Rightarrow> ('w, completed_turn option, orch_error) io" where
  "run_attempt R c i workspace_path pf =
     io_bind (io_of_core (rn_start_session R i workspace_path (source_for_execution i))) (\<lambda>session.
     (\<lambda>w. case rn_select R session (iss_description i) (pf_spawn_event_writer R workspace_path w) of
        (SelShutdown, w') \<Rightarrow>
          io_bind (pf_join_event_writer R) (\<lambda>_. (\<lambda>w.
          io_bind (io_of_core (tr_release (rs_orch R) c \<lparr>rr_code = RcShutdown, rr_message = ''graceful shutdown''\<rparr>)) (\<lambda>_.
          io_bind (finish_proof R pf 1) (\<lambda>_. io_lift (Ok None))) (cancel_heartbeat (rs_orch R) w))) (rn_stop_session R session w')
      | (SelTurn (Err e), w') \<Rightarrow>
          io_bind (pf_join_event_writer R) (\<lambda>_. io_lift (Err (OeCore e))) (rn_stop_session R session w')
      | (SelTurn (Ok outcome), w') \<Rightarrow>
          io_bind (pf_join_event_writer R) (\<lambda>_. io_lift (Ok (Some outcome))) (rn_stop_session R session w')))"

section \<open>The handoff\<close>

definition run_validation_command :: "'w run_services \<Rightarrow> string \<Rightarrow> string \<Rightarrow> 'w \<Rightarrow> validation_result \<times> 'w" where
  "run_validation_command R workspace_path command w =
     (case px_status R workspace_path command w of
        (Ok (success, code), w') \<Rightarrow>
          ((validation_result_new command (if success then ValPassed else ValFailed))\<lparr>vr_exit_code := code\<rparr>, w')
      | (Err _, w') \<Rightarrow> (validation_result_new command ValFailed, w'))"

fun run_validation_commands :: "'w run_services \<Rightarrow> string \<Rightarrow> string list \<Rightarrow> 'w \<Rightarrow> validation_result list \<times> 'w" where
  "run_validation_commands R workspace_path [] w = ([], w)"
| "run_validation_commands R workspace_path (command # commands) w =
     (if trim command = [] then run_validation_commands R workspace_path commands w
      else case run_validation_command R workspace_path (trim command) w of
        (r, w') \<Rightarrow> (case run_validation_commands R workspace_path commands w' of (rs, w'') \<Rightarrow> (r # rs, w'')))"

definition changed_files_from_git_diff :: "'w run_services \<Rightarrow> string \<Rightarrow> 'w \<Rightarrow> string list \<times> 'w" where
  "changed_files_from_git_diff R workspace_path w =
     (case px_git_diff R workspace_path w of
        (None, w') \<Rightarrow> ([], w')
      | (Some out, w') \<Rightarrow> (filter (\<lambda>l. l \<noteq> []) (map trim (str_lines out)), w'))"

definition runner_message :: "'w run_services \<Rightarrow> string \<Rightarrow> nat \<Rightarrow> string" where
  "runner_message R verb attempts =
     ''runner '' @ [CHR 0x27] @ rn_name R @ [CHR 0x27] @ '' '' @ verb @ '' after '' @ show_nat attempts @ '' attempt(s)''"

definition build_success_handoff ::
  "'w run_services \<Rightarrow> orch_config \<Rightarrow> issue \<Rightarrow> string \<Rightarrow> proof_run \<Rightarrow> nat \<Rightarrow> completed_turn \<Rightarrow> 'w \<Rightarrow> handoff \<times> 'w" where
  "build_success_handoff R cfg i workspace_path pf attempts outcome w =
     (case run_validation_commands R workspace_path (configured_validation_commands (oc_validation_commands cfg) i) w of
        (validation, w1) \<Rightarrow>
          (case changed_files_from_git_diff R workspace_path w1 of
             (files_changed, w2) \<Rightarrow>
               let h = with_proofs_dir (with_follow_ups (with_files_changed
                     (handoff_new (runner_message R ''succeeded'' attempts)) files_changed) (follow_ups_from_summary (ct_summary outcome))) (pr_relative_dir pf)
               in (foldl with_validation h validation, w2)))"

section \<open>The retry loop\<close>

definition block_and_finish ::
  "'w run_services \<Rightarrow> orch_config \<Rightarrow> claim \<Rightarrow> workspace_handle \<Rightarrow> proof_run \<Rightarrow> int \<Rightarrow> ('w, resolution, orch_error) io" where
  "block_and_finish R cfg c h pf exit_code =
     io_bind (cleanup_if_terminal R cfg c h ''blocked'' pf) (\<lambda>pf'.
     io_bind (finish_proof R pf' exit_code) (\<lambda>_. io_lift (Ok Blocked)))"

definition complete_run ::
  "'w run_services \<Rightarrow> orch_config \<Rightarrow> claim \<Rightarrow> issue \<Rightarrow> workspace_handle \<Rightarrow> proof_run \<Rightarrow> nat \<Rightarrow> completed_turn \<Rightarrow> int \<Rightarrow>
   ('w, resolution, orch_error) io" where
  "complete_run R cfg c i h pf attempts outcome exit_code = (\<lambda>w.
     case build_success_handoff R cfg i (wh_path h) pf attempts outcome w of
       (ho, w') \<Rightarrow>
         io_bind (io_of_core (tr_handoff (rs_orch R) c ho)) (\<lambda>_.
         io_bind (cleanup_if_terminal R cfg c h ''review'' pf) (\<lambda>pf'.
         io_bind (finish_proof R pf' exit_code) (\<lambda>_. io_lift (Ok Completed)))) (cancel_heartbeat (rs_orch R) w'))"

definition exhaust_run ::
  "'w run_services \<Rightarrow> orch_config \<Rightarrow> claim \<Rightarrow> workspace_handle \<Rightarrow> proof_run \<Rightarrow> nat \<Rightarrow> int \<Rightarrow> ('w, resolution, orch_error) io" where
  "exhaust_run R cfg c h pf attempts exit_code = (\<lambda>w.
     io_bind (io_of_core (tr_block (rs_orch R) c \<lparr>rr_code = RcRetryExhausted, rr_message = runner_message R ''failed'' attempts\<rparr>)) (\<lambda>_.
     block_and_finish R cfg c h pf exit_code) (cancel_heartbeat (rs_orch R) w))"

text \<open>One pass of the loop up to the classification of the turn: a resolution, or the completed turn.\<close>

definition attempt_turn ::
  "'w run_services \<Rightarrow> orch_config \<Rightarrow> claim \<Rightarrow> issue \<Rightarrow> workspace_handle \<Rightarrow> proof_run \<Rightarrow>
   ('w, resolution + completed_turn \<times> proof_run, orch_error) io" where
  "attempt_turn R cfg c i h pf =
     io_bind (block_if_hook_failed R cfg c h BeforeRun pf) (\<lambda>(blocked, pf1).
     if blocked then io_bind (block_and_finish R cfg c h pf1 1) (\<lambda>r. io_lift (Ok (Inl r)))
     else io_bind (run_attempt R c i (wh_path h) pf1) (\<lambda>t.
       case t of
         None \<Rightarrow> io_lift (Ok (Inl ShutdownReleased))
       | Some outcome \<Rightarrow> (\<lambda>w. case warn_after_run_hook_failure R cfg c h pf1 w of (pf2, w') \<Rightarrow> (Ok (Inr (outcome, pf2)), w'))))"

text \<open>\<open>attempts\<close> counts the passes made so far; it stays below the 32-bit limit of the policy, so the code's
  counter does not overflow.\<close>

function run_loop ::
  "'w run_services \<Rightarrow> orch_config \<Rightarrow> claim \<Rightarrow> issue \<Rightarrow> workspace_handle \<Rightarrow> nat \<Rightarrow> proof_run \<Rightarrow> 'w \<Rightarrow>
   (resolution, orch_error) result \<times> 'w" where
  "run_loop R cfg c i h attempts pf w =
     (case attempt_turn R cfg c i h pf w of
        (Err e, w') \<Rightarrow> (Err e, w')
      | (Ok (Inl r), w') \<Rightarrow> (Ok r, w')
      | (Ok (Inr (outcome, pf')), w') \<Rightarrow>
          let exit_code = turn_exit_code (ct_status outcome) (ct_summary outcome) in
          if ct_status outcome = TurnSucceeded then complete_run R cfg c i h pf' (Suc attempts) outcome exit_code w'
          else if Suc attempts \<ge> unat (rp_max_attempts (oc_retry cfg)) then exhaust_run R cfg c h pf' (Suc attempts) exit_code w'
          else run_loop R cfg c i h (Suc attempts) pf' (rs_sleep R (backoff_after (oc_retry cfg) (of_nat (Suc attempts))) w'))"
  by pat_completeness auto
termination by (relation "measure (\<lambda>(R, cfg, c, i, h, attempts, pf, w). unat (rp_max_attempts (oc_retry cfg)) - attempts)") auto

declare run_loop.simps [simp del]

section \<open>Running a claim\<close>

definition fetch_claim_issue :: "'w orch_services \<Rightarrow> claim \<Rightarrow> ('w, issue, orch_error) io" where
  "fetch_claim_issue S c =
     io_bind (io_lift (ok_or (cl_issue_id c) (OeNotEligible ''(no issue)'' ''claim carries no issue id''))) (\<lambda>issue_id.
     io_bind (io_of_core (tr_fetch_by_ids S [issue_id])) (\<lambda>issues.
     io_lift (case issues of i # _ \<Rightarrow> Ok i | [] \<Rightarrow> Err (OeNotEligible issue_id ''issue behind claim not found''))))"

definition pending_approval_resolution :: "'w orch_services \<Rightarrow> issue \<Rightarrow> 'w \<Rightarrow> resolution \<times> 'w" where
  "pending_approval_resolution S i w =
     (case approval_request_signer i of
        Some signer \<Rightarrow> (PendingApprovalRes, emit S (ApprovalRequested (iss_id i) signer) w)
      | None \<Rightarrow> (PendingApprovalRes, w))"

definition dispatch_gate_resolution ::
  "gate_prims \<Rightarrow> 'w run_services \<Rightarrow> orch_config \<Rightarrow> claim \<Rightarrow> issue \<Rightarrow> ('w, resolution option, orch_error) io" where
  "dispatch_gate_resolution P R cfg c i =
     io_bind (block_if_network_dispatch_refused P (rs_show_error R) (rs_orch R) (oc_gate cfg) c i) (\<lambda>g.
     case g of
       GateProceed \<Rightarrow> io_lift (Ok None)
     | GateBlocked \<Rightarrow> io_lift (Ok (Some Blocked))
     | GatePendingApproval \<Rightarrow> (\<lambda>w. case pending_approval_resolution (rs_orch R) i w of (r, w') \<Rightarrow> (Ok (Some r), w')))"

definition run_claim_body ::
  "gate_prims \<Rightarrow> 'w run_services \<Rightarrow> orch_config \<Rightarrow> claim \<Rightarrow> ('w, resolution, orch_error) io" where
  "run_claim_body P R cfg c =
     io_bind (fetch_claim_issue (rs_orch R) c) (\<lambda>i.
     io_bind (dispatch_gate_resolution P R cfg c i) (\<lambda>g.
     case g of
       Some r \<Rightarrow> io_lift (Ok r)
     | None \<Rightarrow>
         io_bind (\<lambda>w. (Ok (), spawn_heartbeat (rs_orch R) c (issue_heartbeat_interval i (oc_claim_ttl cfg)) w)) (\<lambda>_.
         io_bind (now_io R) (\<lambda>t.
         io_bind (pf_start R i t) (\<lambda>dir.
         io_bind (io_of_core (ws_create R i)) (\<lambda>h.
         io_bind (block_if_hook_failed R cfg c h AfterCreate \<lparr>pr_relative_dir = dir, pr_hooks = []\<rparr>) (\<lambda>(blocked, pf).
         if blocked then block_and_finish R cfg c h pf 1
         else run_loop R cfg c i h 0 pf)))))))"

text \<open>Dropping the guard at the end of \<^verbatim>\<open>run_claim\<close>, on every path, aborts the heartbeat task and frees the slot.\<close>

definition release_slot :: "claim \<Rightarrow> orch_state \<Rightarrow> orch_state" where
  "release_slot c st =
     (case cl_issue_id c of
        None \<Rightarrow> st
      | Some issue_id \<Rightarrow>
          (case bt_get (ost_in_flight st) issue_id of
             None \<Rightarrow> st
           | Some held \<Rightarrow> st\<lparr>ost_in_flight := bt_remove issue_id (ost_in_flight st), ost_budget := release (ost_budget st) held\<rparr>))"

definition run_claim ::
  "gate_prims \<Rightarrow> 'w run_services \<Rightarrow> orch_config \<Rightarrow> claim \<Rightarrow> ('w \<times> orch_state, resolution, orch_error) io" where
  "run_claim P R cfg c = (\<lambda>(w, st).
     case run_claim_body P R cfg c w of (r, w') \<Rightarrow> (r, (cancel_heartbeat (rs_orch R) w', release_slot c st)))"

section \<open>Claiming\<close>

datatype claimable = Free | FreshSelf

definition claimable_for ::
  "gate_prims \<Rightarrow> 'w orch_services \<Rightarrow> issue \<Rightarrow> string \<Rightarrow> int \<Rightarrow> ('w, claimable option, orch_error) io" where
  "claimable_for P S i owner ttl = (\<lambda>w.
     case iss_claim i of
       None \<Rightarrow> (Ok (Some Free), w)
     | Some c \<Rightarrow>
         (case clock_now S w of
            (t, w') \<Rightarrow> (and_then (is_fresh_self (gp_chrono P) c owner t ttl) (\<lambda>fresh. Ok (if fresh then Some FreshSelf else None)), w')))"

fun claim_candidates ::
  "gate_prims \<Rightarrow> 'w orch_services \<Rightarrow> orch_config \<Rightarrow> issue list \<Rightarrow> ('w \<times> orch_state, claim option, orch_error) io" where
  "claim_candidates P S cfg [] = io_lift (Ok None)"
| "claim_candidates P S cfg (i # is) = (\<lambda>(w, st).
     case claimable_for P S i (gs_agent_id (oc_gate cfg)) (issue_claim_ttl i (oc_claim_ttl cfg)) w of
       (Err e, w') \<Rightarrow> (Err e, (w', st))
     | (Ok None, w') \<Rightarrow> claim_candidates P S cfg is (w', st)
     | (Ok (Some _), w') \<Rightarrow>
         (case try_acquire (ost_budget st) (iss_state i) of
            (False, _) \<Rightarrow> (Ok None, (w', st))
          | (True, b) \<Rightarrow>
              (case tr_claim S (iss_id i) (gs_agent_id (oc_gate cfg)) w' of
                 (Ok c, w'') \<Rightarrow>
                   (Ok (Some c), (w'', st\<lparr>ost_budget := b, ost_in_flight := bt_insert (iss_id i) (iss_state i) (ost_in_flight st)\<rparr>))
               | (Err _, w'') \<Rightarrow> claim_candidates P S cfg is (w'', st\<lparr>ost_budget := release b (iss_state i)\<rparr>))))"

definition claim_next ::
  "gate_prims \<Rightarrow> 'w orch_services \<Rightarrow> orch_config \<Rightarrow> ('w \<times> orch_state, claim option, orch_error) io" where
  "claim_next P S cfg = (\<lambda>(w, st).
     if shutdown_flag S w then (Ok None, (w, st))
     else case io_of_core (tr_fetch_candidates S
         \<lparr>pc_active_states = oc_active_states cfg, pc_terminal_states = oc_terminal_states cfg,
          pc_agent_id = Some (gs_agent_id (oc_gate cfg))\<rparr>) w of
       (Err e, w') \<Rightarrow> (Err e, (w', st))
     | (Ok candidates, w') \<Rightarrow> claim_candidates P S cfg candidates (w', st))"

definition run_once ::
  "gate_prims \<Rightarrow> 'w run_services \<Rightarrow> orch_config \<Rightarrow> ('w \<times> orch_state, resolution option, orch_error) io" where
  "run_once P R cfg =
     io_bind (claim_next P (rs_orch R) cfg) (\<lambda>c.
     case c of
       None \<Rightarrow> io_lift (Ok None)
     | Some cl \<Rightarrow> io_bind (run_claim P R cfg cl) (\<lambda>r. io_lift (Ok (Some r))))"

end
