(* ===== verification/Daemon.thy ===== *)
theory Daemon
  imports Orchestrator
begin

text \<open>
  The daemon's outer operations (\<^verbatim>\<open>orchestrator/lib.rs\<close>): startup reconciliation, the drain of claimable work,
  shutdown, and the \<^verbatim>\<open>run\<close> loop. The loops may run for ever, so they are partial functions whose value is
  \<open>None\<close> when they do not return.

  Lemmas: the in-flight map and the budget agree in every state, each run frees the slot it took, a drain that
  returns leaves the in-flight map as it was, and what a completed run rests on.
\<close>

section \<open>Startup reconciliation\<close>

record reconcile_summary =
  rsum_resumed :: nat
  rsum_released :: nat
  rsum_taken_over :: nat
  rsum_conflicts_abandoned :: nat

definition reconcile_summary_default :: reconcile_summary where
  "reconcile_summary_default = \<lparr>rsum_resumed = 0, rsum_released = 0, rsum_taken_over = 0, rsum_conflicts_abandoned = 0\<rparr>"

definition conflict_reason :: "claim \<Rightarrow> release_reason" where
  "conflict_reason winner = \<lparr>rr_code = RcConflict,
     rr_message = ''duplicate claim abandoned; winner '' @ cl_by winner @ '' has shard rank '' @ show_nat (unat (role_rank (cl_shard_role winner)))\<rparr>"

fun abandon_losing_claims ::
  "'w run_services \<Rightarrow> string \<Rightarrow> claim \<Rightarrow> instant \<Rightarrow> issue list \<Rightarrow> reconcile_summary \<Rightarrow> ('w, reconcile_summary, orch_error) io" where
  "abandon_losing_claims R agent winner now [] summary = io_lift (Ok summary)"
| "abandon_losing_claims R agent winner now (i # is) summary =
     (case iss_claim i of
        None \<Rightarrow> abandon_losing_claims R agent winner now is summary
      | Some c \<Rightarrow>
          if c \<noteq> winner \<and> cl_by c = agent
          then io_bind (io_of_core (tr_release (rs_orch R) c (conflict_reason winner))) (\<lambda>_.
               io_bind (pf_write_abandoned R i c (conflict_reason winner) winner now) (\<lambda>_.
               abandon_losing_claims R agent winner now is
                 (summary\<lparr>rsum_conflicts_abandoned := Suc (rsum_conflicts_abandoned summary)\<rparr>)))
          else abandon_losing_claims R agent winner now is summary)"

text \<open>\<open>None\<close>: there is no conflict. Otherwise the updated summary.\<close>

definition reconcile_conflict ::
  "'w run_services \<Rightarrow> string \<Rightarrow> issue list \<Rightarrow> reconcile_summary \<Rightarrow> instant \<Rightarrow> ('w, reconcile_summary option, orch_error) io" where
  "reconcile_conflict R agent issues summary now =
     (let claims = List.map_filter iss_claim issues in
      if length claims \<le> 1 then io_lift (Ok None)
      else case winning_conflict_claim claims of
        None \<Rightarrow> io_lift (Ok (Some summary))
      | Some winner \<Rightarrow> io_bind (abandon_losing_claims R agent winner now issues summary) (\<lambda>s. io_lift (Ok (Some s))))"

definition reconcile_stance ::
  "gate_prims \<Rightarrow> 'w run_services \<Rightarrow> orch_config \<Rightarrow> issue \<Rightarrow> claim \<Rightarrow> instant \<Rightarrow> reconcile_summary \<Rightarrow> ('w, reconcile_summary, orch_error) io" where
  "reconcile_stance P R cfg i c now summary =
     (let agent = gs_agent_id (oc_gate cfg) in
      io_bind (io_lift (classify (gp_chrono P) c agent now (issue_claim_ttl i (oc_claim_ttl cfg)))) (\<lambda>stance.
      case stance of
        FreshSelfStance \<Rightarrow> io_lift (Ok (summary\<lparr>rsum_resumed := Suc (rsum_resumed summary)\<rparr>))
      | StaleSelf \<Rightarrow>
          io_bind (io_of_core (tr_release (rs_orch R) c \<lparr>rr_code = RcExpiredHeartbeat, rr_message = ''stale claim on startup''\<rparr>)) (\<lambda>_.
          io_lift (Ok (summary\<lparr>rsum_released := Suc (rsum_released summary)\<rparr>)))
      | Foreign \<Rightarrow>
          io_bind (io_lift (should_take_over_stale_primary (gp_chrono P) agent (oc_claim_ttl cfg) i c now)) (\<lambda>take_over.
          if take_over
          then io_bind (io_of_core (tr_release (rs_orch R) c
                 \<lparr>rr_code = RcExpiredHeartbeat, rr_message = ''stale primary heartbeat; backup taking over''\<rparr>)) (\<lambda>_.
               io_bind (io_of_core (tr_claim (rs_orch R) (iss_id i) agent)) (\<lambda>_.
               io_lift (Ok (summary\<lparr>rsum_taken_over := Suc (rsum_taken_over summary)\<rparr>))))
          else io_lift (Ok summary))))"

fun reconcile_groups ::
  "gate_prims \<Rightarrow> 'w run_services \<Rightarrow> orch_config \<Rightarrow> instant \<Rightarrow> issue list list \<Rightarrow> reconcile_summary \<Rightarrow> ('w, reconcile_summary, orch_error) io" where
  "reconcile_groups P R cfg now [] summary = io_lift (Ok summary)"
| "reconcile_groups P R cfg now (issues # groups) summary =
     io_bind (reconcile_conflict R (gs_agent_id (oc_gate cfg)) issues summary now) (\<lambda>conflict.
     case conflict of
       Some summary' \<Rightarrow> reconcile_groups P R cfg now groups summary'
     | None \<Rightarrow>
         (case issues of
            [] \<Rightarrow> reconcile_groups P R cfg now groups summary
          | i # _ \<Rightarrow>
              (case iss_claim i of
                 None \<Rightarrow> reconcile_groups P R cfg now groups summary
               | Some c \<Rightarrow> io_bind (reconcile_stance P R cfg i c now summary) (\<lambda>s. reconcile_groups P R cfg now groups s))))"

definition reconcile :: "gate_prims \<Rightarrow> 'w run_services \<Rightarrow> orch_config \<Rightarrow> ('w, reconcile_summary, orch_error) io" where
  "reconcile P R cfg =
     io_bind (io_of_core (tr_fetch_claimed (rs_orch R))) (\<lambda>claimed.
     io_bind (now_io R) (\<lambda>now.
     reconcile_groups P R cfg now (bt_values (bt_group iss_id (filter (\<lambda>i. iss_claim i \<noteq> None) claimed))) reconcile_summary_default))"

section \<open>Shutdown and the run loop\<close>

definition current_load :: "orch_state \<Rightarrow> u32" where
  "current_load st = (if length (ost_in_flight st) < 2 ^ 32 then of_nat (length (ost_in_flight st)) else -1)"

definition in_flight_issue_ids :: "orch_state \<Rightarrow> string list" where
  "in_flight_issue_ids st = map fst (ost_in_flight st)"

text \<open>The request itself: the flag is set and the number of signalled runs returned. The wait for other tasks
  to drain, bounded by the grace period, changes neither.\<close>

definition shutdown :: "'w orch_services \<Rightarrow> 'w \<times> orch_state \<Rightarrow> nat \<times> ('w \<times> orch_state)" where
  "shutdown S = (\<lambda>(w, st). (length (ost_in_flight st), (set_shutdown S w, st)))"

partial_function (option) drain ::
  "gate_prims \<Rightarrow> 'w run_services \<Rightarrow> orch_config \<Rightarrow> 'w \<times> orch_state \<Rightarrow> ((unit, orch_error) result \<times> ('w \<times> orch_state)) option" where
  "drain G R cfg s =
     (case claim_next G (rs_orch R) cfg s of (r, s1) \<Rightarrow>
        (case r of
           Err e \<Rightarrow> Some (Err e, s1)
         | Ok c \<Rightarrow>
             (case c of
                None \<Rightarrow> Some (Ok (), s1)
              | Some cl \<Rightarrow>
                  (case run_claim G R cfg cl s1 of (r', s2) \<Rightarrow>
                     (case r' of Err e \<Rightarrow> Some (Err e, s2) | Ok _ \<Rightarrow> drain G R cfg s2)))))"

partial_function (option) run_daemon_loop ::
  "gate_prims \<Rightarrow> 'w run_services \<Rightarrow> orch_config \<Rightarrow> 'w \<times> orch_state \<Rightarrow> ((unit, orch_error) result \<times> ('w \<times> orch_state)) option" where
  "run_daemon_loop G R cfg s =
     (if shutdown_flag (rs_orch R) (fst s) then Some (Ok (), snd (shutdown (rs_orch R) s))
      else Option.bind (drain G R cfg s) (\<lambda>(r, (w1, st1)).
        case r of
          Err e \<Rightarrow> Some (Err e, (w1, st1))
        | Ok _ \<Rightarrow>
            (case rs_poll_wait R (oc_polling_interval cfg) w1 of (signalled, w2) \<Rightarrow>
               if signalled then Some (Ok (), snd (shutdown (rs_orch R) (w2, st1)))
               else run_daemon_loop G R cfg (w2, st1))))"

definition run_daemon ::
  "gate_prims \<Rightarrow> 'w run_services \<Rightarrow> orch_config \<Rightarrow> 'w \<times> orch_state \<Rightarrow> ((unit, orch_error) result \<times> ('w \<times> orch_state)) option" where
  "run_daemon P R cfg = (\<lambda>(w, st). run_daemon_loop P R cfg (snd (reconcile P R cfg w), st))"

section \<open>Slots\<close>

text \<open>The critical sections of the orchestrator's mutex, one step each, over its state, the multiset of reservations
  between \<^verbatim>\<open>try_acquire\<close> and the registration of the claim, and the multiset of lost slots. Any number of tasks may
  interleave. The registration is unconditional, as in the code: when the issue is already in flight, its old entry is
  overwritten and the slot that entry stood for is lost, since no later step releases it.\<close>

type_synonym slot_state = "orch_state \<times> string multiset \<times> string multiset"

definition displaced :: "orch_state \<Rightarrow> string \<Rightarrow> string multiset" where
  "displaced st issue_id = (case bt_get (ost_in_flight st) issue_id of None \<Rightarrow> {#} | Some held \<Rightarrow> {#held#})"

inductive locked_step :: "slot_state \<Rightarrow> slot_state \<Rightarrow> bool" where
  reserve: "try_acquire (ost_budget st) s = (True, b) \<Longrightarrow> locked_step (st, pend, lost) (st\<lparr>ost_budget := b\<rparr>, add_mset s pend, lost)"
| refuse: "try_acquire (ost_budget st) s = (False, b) \<Longrightarrow> locked_step (st, pend, lost) (st\<lparr>ost_budget := b\<rparr>, pend, lost)"
| register: "locked_step (st, add_mset s pend, lost)
    (st\<lparr>ost_in_flight := bt_insert issue_id s (ost_in_flight st)\<rparr>, pend, lost + displaced st issue_id)"
| give_up: "locked_step (st, add_mset s pend, lost) (st\<lparr>ost_budget := release (ost_budget st) s\<rparr>, pend, lost)"
| finish: "locked_step (st, pend, lost) (release_slot c st, pend, lost)"

definition orch_new :: "usize \<Rightarrow> (string, usize) btree_map \<Rightarrow> orch_state" where
  "orch_new cap caps = \<lparr>ost_budget = budget_new cap caps, ost_in_flight = []\<rparr>"

definition slots_ok :: "usize \<Rightarrow> (string, usize) btree_map \<Rightarrow> slot_state \<Rightarrow> bool" where
  "slots_ok cap caps = (\<lambda>(st, pend, lost). bt_wf (ost_in_flight st) \<and>
     budget_tracks cap caps (ost_budget st) (mset (bt_values (ost_in_flight st)) + pend + lost))"

lemma bt_values_insert_old:
  "bt_wf m \<Longrightarrow> bt_get m k = Some held \<Longrightarrow> add_mset held (mset (bt_values (bt_insert k v m))) = add_mset v (mset (bt_values m))"
  by (induction k v m rule: bt_insert.induct)
     (force simp: bt_values_def bt_get_def bt_wf_Cons add_mset_commute split: if_splits dest!: map_of_SomeD)+

lemma bt_values_insert_new: "bt_wf m \<Longrightarrow> bt_get m k = None \<Longrightarrow> mset (bt_values (bt_insert k v m)) = add_mset v (mset (bt_values m))"
  by (induction k v m rule: bt_insert.induct)
     (auto simp: bt_values_def bt_get_def bt_wf_Cons split: if_splits)

lemma bt_values_remove: "bt_get m k = Some v \<Longrightarrow> mset (bt_values m) = add_mset v (mset (bt_values (bt_remove k m)))"
  by (induction k m rule: bt_remove.induct) (auto simp: bt_values_def bt_get_def split: if_splits)

lemma set_bt_remove: "set (bt_remove k m) \<subseteq> set m"
  by (induction k m rule: bt_remove.induct) auto

lemma bt_wf_remove: "bt_wf m \<Longrightarrow> bt_wf (bt_remove k m)"
proof (induction k m rule: bt_remove.induct)
  case (2 k k' v m)
  then show ?case using set_bt_remove [of k m] by (auto simp: bt_wf_Cons)
qed simp

lemma bt_values_insert:
  assumes "bt_wf (ost_in_flight st)"
  shows "mset (bt_values (bt_insert k v (ost_in_flight st))) + displaced st k = add_mset v (mset (bt_values (ost_in_flight st)))"
  using bt_values_insert_new [OF assms] bt_values_insert_old [OF assms] by (simp add: displaced_def split: option.split)

lemma slots_ok_new: "slots_ok cap caps (orch_new cap caps, {#}, {#})"
  by (simp add: slots_ok_def orch_new_def bt_values_def budget_new_tracks)

lemma slots_ok_release: "slots_ok cap caps (st, pend, lost) \<Longrightarrow> slots_ok cap caps (release_slot c st, pend, lost)"
  using bp.free_held [of cap caps "ost_budget st"]
  by (auto simp: slots_ok_def release_slot_def bt_values_remove bt_wf_remove split: option.split)

lemma slots_ok_step:
  assumes "locked_step p p'" and "slots_ok cap caps p"
  shows "slots_ok cap caps p'"
  using assms
proof cases
  case (reserve st s b pend lost)
  then show ?thesis using assms(2) bp.pool_step_tracks [OF bp.take_slot, of "ost_budget st" s b cap caps]
    by (simp add: slots_ok_def)
next
  case (refuse st s b pend lost)
  then show ?thesis using assms(2) bp.pool_step_tracks [OF bp.refuse_slot, of "ost_budget st" s b cap caps]
    by (simp add: slots_ok_def)
next
  case (register st s pend lost issue_id)
  then have wf: "bt_wf (ost_in_flight st)" using assms(2) by (simp add: slots_ok_def)
  have "mset (bt_values (bt_insert issue_id s (ost_in_flight st))) + pend + (lost + displaced st issue_id) =
      mset (bt_values (bt_insert issue_id s (ost_in_flight st))) + displaced st issue_id + (pend + lost)" by (simp add: ac_simps)
  also have "\<dots> = mset (bt_values (ost_in_flight st)) + add_mset s pend + lost" by (simp add: bt_values_insert [OF wf])
  finally have "mset (bt_values (bt_insert issue_id s (ost_in_flight st))) + pend + (lost + displaced st issue_id) =
      mset (bt_values (ost_in_flight st)) + add_mset s pend + lost" .
  moreover have "budget_tracks cap caps (ost_budget st) (mset (bt_values (ost_in_flight st)) + add_mset s pend + lost)"
    using register assms(2) by (simp add: slots_ok_def)
  ultimately have "budget_tracks cap caps (ost_budget st)
      (mset (bt_values (bt_insert issue_id s (ost_in_flight st))) + pend + (lost + displaced st issue_id))" by (simp only:)
  then show ?thesis unfolding register(2) using wf by (simp add: slots_ok_def bt_wf_insert)
next
  case (give_up st s pend lost)
  then show ?thesis using assms(2) bp.free_held [of cap caps "ost_budget st" s] by (simp add: slots_ok_def)
next
  case (finish st pend lost c)
  then show ?thesis using assms(2) slots_ok_release by simp
qed

lemma slots_ok_reachable: "locked_step\<^sup>*\<^sup>* p p' \<Longrightarrow> slots_ok cap caps p \<Longrightarrow> slots_ok cap caps p'"
  by (induction rule: rtranclp_induct) (auto intro: slots_ok_step)

lemma slots_ok_caps:
  assumes "slots_ok cap caps (st, pend, lost)"
  shows "length (ost_in_flight st) + size pend + size lost \<le> unat cap"
    and "bt_get caps s = Some c \<Longrightarrow> count (mset (bt_values (ost_in_flight st))) s + count pend s + count lost s \<le> unat c"
    and "unat (in_flight (ost_budget st)) = length (ost_in_flight st) + size pend + size lost"
proof -
  have t: "budget_tracks cap caps (ost_budget st) (mset (bt_values (ost_in_flight st)) + pend + lost)"
    using assms by (simp add: slots_ok_def)
  then show "length (ost_in_flight st) + size pend + size lost \<le> unat cap"
    and "unat (in_flight (ost_budget st)) = length (ost_in_flight st) + size pend + size lost"
    by (auto simp: budget_tracks_def bt_values_def in_flight_def)
  show "count (mset (bt_values (ost_in_flight st))) s + count pend s + count lost s \<le> unat c" if "bt_get caps s = Some c"
    using budget_tracksD [OF t, of s] that by (simp add: state_tracks_Some)
qed

text \<open>Claiming is a sequence of critical sections; no slot is lost when no issue in flight is claimed again.\<close>

definition no_reclaim :: "'w orch_services \<Rightarrow> string \<Rightarrow> orch_state \<Rightarrow> bool" where
  "no_reclaim S agent st \<longleftrightarrow>
     (\<forall>issue_id w c w'. tr_claim S issue_id agent w = (Ok c, w') \<longrightarrow> bt_get (ost_in_flight st) issue_id = None)"

lemma claim_candidates_steps:
  assumes "claim_candidates P S cfg is (w, st) = (r, (w', st'))"
  shows "\<exists>more. locked_step\<^sup>*\<^sup>* (st, pend, lost) (st', pend, lost + more) \<and> (no_reclaim S (gs_agent_id (oc_gate cfg)) st \<longrightarrow> more = {#})"
  using assms
proof (induction "is" arbitrary: w st)
  case (Cons i "is")
  let ?agent = "gs_agent_id (oc_gate cfg)"
  obtain q w1 where q: "claimable_for P S i ?agent (issue_claim_ttl i (oc_claim_ttl cfg)) w = (q, w1)" by force
  obtain ok b where a: "try_acquire (ost_budget st) (iss_state i) = (ok, b)" by force
  obtain t w2 where t: "tr_claim S (iss_id i) ?agent w1 = (t, w2)" by force
  note unf = Cons.prems(1) [unfolded claim_candidates.simps prod.case q a t]
  consider (err) e where "q = Err e" | (skip) "q = Ok None" | (attempt) x where "q = Ok (Some x)"
    by (cases q) auto
  then show ?case
  proof cases
    case attempt
    show ?thesis
    proof (cases ok)
      case True
      let ?st1 = "st\<lparr>ost_budget := b\<rparr>"
      have r1: "locked_step (st, pend, lost) (?st1, add_mset (iss_state i) pend, lost)" using a True locked_step.reserve by fastforce
      show ?thesis
      proof (cases t)
        case (Ok c)
        have "locked_step (?st1, add_mset (iss_state i) pend, lost)
            (?st1\<lparr>ost_in_flight := bt_insert (iss_id i) (iss_state i) (ost_in_flight ?st1)\<rparr>, pend, lost + displaced ?st1 (iss_id i))"
          by (rule locked_step.register)
        with r1 have "locked_step\<^sup>*\<^sup>* (st, pend, lost) (st', pend, lost + displaced ?st1 (iss_id i))"
          using unf attempt True Ok by (auto intro: converse_rtranclp_into_rtranclp)
        moreover have "displaced ?st1 (iss_id i) = {#}" if "no_reclaim S ?agent st"
        proof -
          from that t [unfolded Ok] have "bt_get (ost_in_flight st) (iss_id i) = None" unfolding no_reclaim_def by blast
          then show ?thesis by (simp add: displaced_def)
        qed
        ultimately show ?thesis by blast
      next
        case (Err e)
        let ?st2 = "st\<lparr>ost_budget := release b (iss_state i)\<rparr>"
        have r2: "locked_step (?st1, add_mset (iss_state i) pend, lost) (?st2, pend, lost)"
          using locked_step.give_up [of ?st1 "iss_state i" pend lost] by simp
        have "no_reclaim S ?agent ?st2 \<longleftrightarrow> no_reclaim S ?agent st" by (simp add: no_reclaim_def)
        then obtain more where "locked_step\<^sup>*\<^sup>* (?st2, pend, lost) (st', pend, lost + more)" "no_reclaim S ?agent st \<longrightarrow> more = {#}"
          using Cons.IH [of w2 ?st2] unf attempt True Err by auto
        with r1 r2 show ?thesis by (intro exI [of _ more]) (blast intro: converse_rtranclp_into_rtranclp)
      qed
    next
      case False
      with unf attempt show ?thesis by (auto intro!: exI [of _ "{#}"])
    qed
  next
    case err
    with unf show ?thesis by (auto intro!: exI [of _ "{#}"])
  qed (use unf Cons.IH [of w1 st] in simp)
qed (auto intro!: exI [of _ "{#}"])

text \<open>The tracker returns claims that name the issue they were made for.\<close>

definition names_claims :: "'w orch_services \<Rightarrow> string \<Rightarrow> bool" where
  "names_claims S agent \<longleftrightarrow> (\<forall>issue_id w c w'. tr_claim S issue_id agent w = (Ok c, w') \<longrightarrow> cl_issue_id c = Some issue_id)"

text \<open>What a claiming pass does to the in-flight map: a claim adds the entry of its issue, anything else
  changes nothing.\<close>

definition claim_registered :: "(string, string) btree_map \<Rightarrow> (claim option, orch_error) result \<Rightarrow> (string, string) btree_map \<Rightarrow> bool" where
  "claim_registered m r m' \<longleftrightarrow>
     (case r of
        Ok (Some c) \<Rightarrow> \<exists>issue_id s. cl_issue_id c = Some issue_id \<and> bt_get m issue_id = None \<and> m' = bt_insert issue_id s m
      | _ \<Rightarrow> m' = m)"

lemma claim_candidates_registers:
  assumes "claim_candidates P S cfg is (w, st) = (r, (w', st'))" and "names_claims S (gs_agent_id (oc_gate cfg))"
    and "no_reclaim S (gs_agent_id (oc_gate cfg)) st"
  shows "claim_registered (ost_in_flight st) r (ost_in_flight st')"
  using assms
proof (induction "is" arbitrary: w st)
  case (Cons i "is")
  let ?agent = "gs_agent_id (oc_gate cfg)"
  obtain q w1 where q: "claimable_for P S i ?agent (issue_claim_ttl i (oc_claim_ttl cfg)) w = (q, w1)" by force
  obtain ok b where a: "try_acquire (ost_budget st) (iss_state i) = (ok, b)" by force
  obtain t w2 where t: "tr_claim S (iss_id i) ?agent w1 = (t, w2)" by force
  note unf = Cons.prems(1) [unfolded claim_candidates.simps prod.case q a t]
  have reclaim: "no_reclaim S ?agent (st\<lparr>ost_budget := b'\<rparr>)" for b' using Cons.prems(3) by (simp add: no_reclaim_def)
  have here: "cl_issue_id c = Some (iss_id i) \<and> bt_get (ost_in_flight st) (iss_id i) = None" if "t = Ok c" for c
    using t [unfolded that] Cons.prems(2, 3) unfolding names_claims_def no_reclaim_def by blast
  consider "\<exists>e. q = Err e" | "q = Ok None" | x where "q = Ok (Some x)" "\<not> ok" | x c where "q = Ok (Some x)" ok "t = Ok c"
    | x e where "q = Ok (Some x)" ok "t = Err e"
    by (cases q; cases t) auto
  then show ?case
  proof cases
    case (4 x c)
    with unf here [of c] show ?thesis by (auto simp: claim_registered_def)
  next
    case (5 x e)
    with unf Cons.IH [of w2 "st\<lparr>ost_budget := release b (iss_state i)\<rparr>", OF _ Cons.prems(2) reclaim] show ?thesis by simp
  qed (use unf Cons.IH [of w1 st, OF _ Cons.prems(2, 3)] in \<open>auto simp: claim_registered_def\<close>)
qed (auto simp: claim_registered_def)

lemma bt_remove_insert_new: "bt_get m k = None \<Longrightarrow> bt_remove k (bt_insert k v m) = m"
  by (induction k v m rule: bt_insert.induct) (auto simp: bt_get_def split: if_splits)

lemma release_registered:
  assumes "cl_issue_id c = Some issue_id" and "ost_in_flight st1 = bt_insert issue_id s m" and "bt_get m issue_id = None"
  shows "ost_in_flight (release_slot c st1) = m"
  using assms by (simp add: release_slot_def bt_remove_insert_new)

lemma claim_next_moves:
  assumes "claim_next P S cfg (w, st) = (r, (w', st'))"
  shows "\<exists>more. locked_step\<^sup>*\<^sup>* (st, pend, lost) (st', pend, lost + more) \<and> (no_reclaim S (gs_agent_id (oc_gate cfg)) st \<longrightarrow> more = {#})"
proof -
  consider "st' = st" | "is" w1 where "claim_candidates P S cfg is (w1, st) = (r, (w', st'))"
    using assms by (auto simp: claim_next_def split: if_splits prod.splits result.splits)
  then show ?thesis
  proof cases
    case 1
    then show ?thesis by (auto intro!: exI [of _ "{#}"])
  qed (rule claim_candidates_steps)
qed

lemma claim_next_registers:
  assumes "claim_next P S cfg (w, st) = (r, (w', st'))" and "names_claims S (gs_agent_id (oc_gate cfg))"
    and "no_reclaim S (gs_agent_id (oc_gate cfg)) st"
  shows "case r of Ok (Some c) \<Rightarrow> ost_in_flight (release_slot c st') = ost_in_flight st | _ \<Rightarrow> ost_in_flight st' = ost_in_flight st"
proof -
  consider "st' = st" "r = Ok None \<or> (\<exists>e. r = Err e)"
    | "is" w1 where "claim_candidates P S cfg is (w1, st) = (r, (w', st'))"
    using assms(1) by (auto simp: claim_next_def split: if_splits prod.splits result.splits)
  then show ?thesis
  proof cases
    case 2
    from claim_candidates_registers [OF this assms(2, 3)] show ?thesis
      by (auto simp: claim_registered_def release_registered split: result.splits option.splits)
  qed (auto split: option.splits)
qed

lemma claim_next_steps:
  assumes "claim_next P S cfg (w, st) = (r, (w', st'))" and "names_claims S (gs_agent_id (oc_gate cfg))"
    and "no_reclaim S (gs_agent_id (oc_gate cfg)) st"
  shows "locked_step\<^sup>*\<^sup>* (st, {#}, {#}) (st', {#}, {#})"
    and "case r of
      Ok (Some c) \<Rightarrow> ost_in_flight (release_slot c st') = ost_in_flight st
    | _ \<Rightarrow> ost_in_flight st' = ost_in_flight st"
  using claim_next_moves [OF assms(1), of "{#}" "{#}"] claim_next_registers [OF assms] assms(3) by auto

text \<open>A claim that is run to any end, success or error, leaves the slots as it found them.\<close>

lemma run_claim_finishes:
  "run_claim P R cfg c (w, st) = (r, (w', st')) \<Longrightarrow> st' = release_slot c st \<and> locked_step (st, pend, lost) (st', pend, lost)"
  by (auto simp: run_claim_def intro: locked_step.finish split: prod.splits)

lemma claim_and_run_steps:
  assumes "claim_next P (rs_orch R) cfg (w, st) = (Ok (Some c), (w1, st1))" and "run_claim P R cfg c (w1, st1) = (r, (w2, st2))"
    and "names_claims (rs_orch R) (gs_agent_id (oc_gate cfg))" and "no_reclaim (rs_orch R) (gs_agent_id (oc_gate cfg)) st"
  shows "locked_step\<^sup>*\<^sup>* (st, {#}, {#}) (st2, {#}, {#}) \<and> ost_in_flight st2 = ost_in_flight st"
proof -
  show ?thesis using claim_next_steps [OF assms(1, 3, 4)] run_claim_finishes [OF assms(2), of "{#}" "{#}"]
    by (auto intro: rtranclp.rtrancl_into_rtrancl)
qed

lemma no_reclaim_cong: "ost_in_flight st = ost_in_flight st' \<Longrightarrow> no_reclaim S agent st \<longleftrightarrow> no_reclaim S agent st'"
  by (simp add: no_reclaim_def)

lemma run_once_steps:
  assumes "run_once P R cfg (w, st) = (r, (w', st'))" and "names_claims (rs_orch R) (gs_agent_id (oc_gate cfg))"
    and "no_reclaim (rs_orch R) (gs_agent_id (oc_gate cfg)) st"
  shows "locked_step\<^sup>*\<^sup>* (st, {#}, {#}) (st', {#}, {#}) \<and> ost_in_flight st' = ost_in_flight st"
proof -
  obtain q w1 st1 where q: "claim_next P (rs_orch R) cfg (w, st) = (q, (w1, st1))" by (metis surj_pair)
  show ?thesis
  proof (cases "\<exists>c. q = Ok (Some c)")
    case True
    then obtain c where c: "q = Ok (Some c)" ..
    obtain t w2 st2 where t: "run_claim P R cfg c (w1, st1) = (t, (w2, st2))" by (metis surj_pair)
    then have "(w2, st2) = (w', st')" using assms(1) q c by (cases t) (auto simp: run_once_def io_bind_def io_lift_def)
    then show ?thesis using claim_and_run_steps [OF q [unfolded c] t assms(2, 3)] by simp
  next
    case False
    then have "(w1, st1) = (w', st')" using assms(1) q by (cases q) (auto simp: run_once_def io_bind_def io_lift_def split: option.splits)
    then show ?thesis using claim_next_steps [OF q assms(2, 3)] False by (auto split: result.splits option.splits)
  qed
qed

text \<open>The invariant rule of the drain loop.\<close>

lemma drain_invariant:
  assumes ret: "drain P R cfg s = Some (r, s')" and "I s"
    and pass: "\<And>s c s1 x s2. I s \<Longrightarrow> claim_next P (rs_orch R) cfg s = (Ok (Some c), s1) \<Longrightarrow> run_claim P R cfg c s1 = (x, s2) \<Longrightarrow> I s2"
    and stop: "\<And>s q s1. I s \<Longrightarrow> claim_next P (rs_orch R) cfg s = (q, s1) \<Longrightarrow> (\<And>c. q \<noteq> Ok (Some c)) \<Longrightarrow> I s1"
  shows "I s'"
proof -
  have "P = P \<longrightarrow> R = R \<longrightarrow> cfg = cfg \<longrightarrow> I s \<longrightarrow> I (snd (r, s'))"
  proof (rule drain.raw_induct [where P = "\<lambda>P' R' cfg' s p. P' = P \<longrightarrow> R' = R \<longrightarrow> cfg' = cfg \<longrightarrow> I s \<longrightarrow> I (snd p)", OF _ ret],
      intro impI, goal_cases)
    case (1 f P' R' cfg' s p)
    note same = 1(3-5) and I = 1(6)
    obtain q s1 where q: "claim_next P (rs_orch R) cfg s = (q, s1)" by (metis surj_pair)
    show ?case
    proof (cases "\<exists>c. q = Ok (Some c)")
      case True
      then obtain c where c: "q = Ok (Some c)" ..
      obtain x s2 where x: "run_claim P R cfg c s1 = (x, s2)" by (metis surj_pair)
      from pass [OF I q [unfolded c] x] have "I s2" .
      then show ?thesis using 1(1) [of P R cfg s2 p] 1(2) q c x same by (cases x) auto
    next
      case False
      then have "snd p = s1" using 1(2) q same by (auto split: result.splits option.splits)
      with stop [OF I q] False show ?thesis by blast
    qed
  qed
  with \<open>I s\<close> show ?thesis by simp
qed

lemma drain_steps:
  assumes "drain P R cfg (w, st) = Some (r, (w', st'))" and "names_claims (rs_orch R) (gs_agent_id (oc_gate cfg))"
    and nr: "no_reclaim (rs_orch R) (gs_agent_id (oc_gate cfg)) st"
  shows "locked_step\<^sup>*\<^sup>* (st, {#}, {#}) (st', {#}, {#}) \<and> ost_in_flight st' = ost_in_flight st"
proof -
  define I where "I s \<longleftrightarrow> locked_step\<^sup>*\<^sup>* (st, {#}, {#}) (snd s, {#}, {#}) \<and> ost_in_flight (snd s) = ost_in_flight st" for s :: "'a \<times> orch_state"
  have nr: "no_reclaim (rs_orch R) (gs_agent_id (oc_gate cfg)) (snd s)" if "I s" for s
    using nr that no_reclaim_cong by (auto simp: I_def)
  have "I (w', st')"
  proof (rule drain_invariant [OF assms(1)])
    fix s c s1 x s2
    assume "I s" "claim_next P (rs_orch R) cfg s = (Ok (Some c), s1)" "run_claim P R cfg c s1 = (x, s2)"
    then show "I s2" using claim_and_run_steps [of P R cfg "fst s" "snd s" c "fst s1" "snd s1" x "fst s2" "snd s2", OF _ _ assms(2) nr]
      by (auto simp: I_def intro: rtranclp_trans)
  next
    fix s q s1
    assume "I s" "claim_next P (rs_orch R) cfg s = (q, s1)" and stop: "\<And>c. q \<noteq> Ok (Some c)"
    then show "I s1" using claim_next_steps [of P "rs_orch R" cfg "fst s" "snd s" q "fst s1" "snd s1", OF _ assms(2) nr]
      by (auto simp: I_def intro: rtranclp_trans split: result.splits option.splits)
  qed (simp add: I_def)
  then show ?thesis by (simp add: I_def)
qed

section \<open>The retry loop is bounded\<close>

text \<open>The loop of \<^verbatim>\<open>run_claim\<close> unrolled at most \<open>n\<close> times; \<open>None\<close> when it would begin another pass.\<close>

fun run_passes ::
  "'w run_services \<Rightarrow> orch_config \<Rightarrow> claim \<Rightarrow> issue \<Rightarrow> workspace_handle \<Rightarrow> nat \<Rightarrow> nat \<Rightarrow> proof_run \<Rightarrow> 'w \<Rightarrow>
   ((resolution, orch_error) result \<times> 'w) option" where
  "run_passes R cfg c i h attempts 0 pf w = None"
| "run_passes R cfg c i h attempts (Suc n) pf w =
     (case attempt_turn R cfg c i h pf w of
        (Err e, w') \<Rightarrow> Some (Err e, w')
      | (Ok (Inl r), w') \<Rightarrow> Some (Ok r, w')
      | (Ok (Inr (outcome, pf')), w') \<Rightarrow>
          let exit_code = turn_exit_code (ct_status outcome) (ct_summary outcome) in
          if ct_status outcome = TurnSucceeded then Some (complete_run R cfg c i h pf' (Suc attempts) outcome exit_code w')
          else if Suc attempts \<ge> unat (rp_max_attempts (oc_retry cfg)) then Some (exhaust_run R cfg c h pf' (Suc attempts) exit_code w')
          else run_passes R cfg c i h (Suc attempts) n pf' (rs_sleep R (backoff_after (oc_retry cfg) (of_nat (Suc attempts))) w'))"

lemma run_passes_enough:
  "0 < n \<Longrightarrow> unat (rp_max_attempts (oc_retry cfg)) \<le> attempts + n \<Longrightarrow>
   run_passes R cfg c i h attempts n pf w = Some (run_loop R cfg c i h attempts pf w)"
proof (induction n arbitrary: attempts pf w)
  case (Suc n)
  obtain r w1 where r: "attempt_turn R cfg c i h pf w = (r, w1)" by force
  have "run_passes R cfg c i h (Suc attempts) n pf' w' = Some (run_loop R cfg c i h (Suc attempts) pf' w')"
    if "Suc attempts < unat (rp_max_attempts (oc_retry cfg))" for pf' w'
    using Suc.IH [of "Suc attempts" pf' w'] Suc.prems that by simp
  then show ?case
    by (subst run_loop.simps) (simp add: r Let_def not_le split: result.split sum.split prod.split)
qed simp

section \<open>What a completed run establishes\<close>

lemma block_and_finish_Ok: "block_and_finish R cfg c h pf x w = (Ok r, w') \<Longrightarrow> r = Blocked"
  by (auto simp: block_and_finish_def io_bind_Ok_iff)

lemma attempt_turn_Inl: "attempt_turn R cfg c i h pf w = (Ok (Inl r), w') \<Longrightarrow> r = Blocked \<or> r = ShutdownReleased"
  by (auto simp: attempt_turn_def io_bind_Ok_iff split: if_splits option.splits prod.splits dest: block_and_finish_Ok)

lemma run_attempt_Some:
  assumes "run_attempt R c i path pf w = (Ok (Some outcome), w')"
  shows "\<exists>session w1 w2 w3 w4. rn_start_session R i path (source_for_execution i) w1 = (Ok session, w2) \<and>
    rn_select R session (iss_description i) w3 = (SelTurn (Ok outcome), w4)"
proof -
  from assms obtain session w1 where start: "rn_start_session R i path (source_for_execution i) w = (Ok session, w1)"
    unfolding run_attempt_def io_of_core_def by (auto simp: io_bind_Ok_iff)
  obtain sel w2 where sel: "rn_select R session (iss_description i) (pf_spawn_event_writer R path w1) = (sel, w2)" by force
  have "sel = SelTurn (Ok outcome)"
    using assms start sel unfolding run_attempt_def io_of_core_def
    by (auto simp: io_bind_Ok_iff split: run_selection.splits result.splits)
  with start sel show ?thesis by blast
qed

lemma attempt_turn_Inr:
  assumes "attempt_turn R cfg c i h pf w = (Ok (Inr (outcome, pf')), w')"
  shows "\<exists>session w1 w2 w3 w4. rn_start_session R i (wh_path h) (source_for_execution i) w1 = (Ok session, w2) \<and>
    rn_select R session (iss_description i) w3 = (SelTurn (Ok outcome), w4)"
proof -
  from assms obtain pf1 wa wb where "run_attempt R c i (wh_path h) pf1 wa = (Ok (Some outcome), wb)"
    by (auto simp: attempt_turn_def io_bind_Ok_iff case_prod_unfold split: if_splits option.splits)
  then show ?thesis by (rule run_attempt_Some)
qed

text \<open>The evidence of a completed run: a session started for this issue whose turn succeeded, and a handoff
  that the tracker accepted.\<close>

definition completed_evidence :: "'w run_services \<Rightarrow> claim \<Rightarrow> issue \<Rightarrow> bool" where
  "completed_evidence R c i \<longleftrightarrow>
     (\<exists>path session outcome w1 w2 w3 w4. rn_start_session R i path (source_for_execution i) w1 = (Ok session, w2) \<and>
        rn_select R session (iss_description i) w3 = (SelTurn (Ok outcome), w4) \<and> ct_status outcome = TurnSucceeded) \<and>
     (\<exists>ho w5 w6. tr_handoff (rs_orch R) c ho w5 = (Ok (), w6))"

lemma run_loop_Completed:
  assumes "run_loop R cfg c i h attempts pf w = (Ok Completed, w')"
  shows "completed_evidence R c i"
  using assms
proof (induction R cfg c i h attempts pf w rule: run_loop.induct)
  case (1 R cfg c i h attempts pf w)
  obtain q w1 where q: "attempt_turn R cfg c i h pf w = (q, w1)" by force
  note unf = 1(2) [unfolded run_loop.simps [of R cfg c i h attempts pf w] q prod.case]
  obtain outcome pf' where o: "q = Ok (Inr (outcome, pf'))"
    using unf attempt_turn_Inl [of R cfg c i h pf w] q by (auto split: result.splits sum.splits)
  from attempt_turn_Inr [OF q [unfolded o]] obtain session wa wb wc wd where
    s: "rn_start_session R i (wh_path h) (source_for_execution i) wa = (Ok session, wb)"
    "rn_select R session (iss_description i) wc = (SelTurn (Ok outcome), wd)" by blast
  consider (succeeded) "ct_status outcome = TurnSucceeded"
    | (exhausted) "ct_status outcome \<noteq> TurnSucceeded" "Suc attempts \<ge> unat (rp_max_attempts (oc_retry cfg))"
    | (again) "ct_status outcome \<noteq> TurnSucceeded" "\<not> Suc attempts \<ge> unat (rp_max_attempts (oc_retry cfg))" by blast
  then show ?case
  proof cases
    case succeeded
    with unf o have "complete_run R cfg c i h pf' (Suc attempts) outcome (turn_exit_code (ct_status outcome) (ct_summary outcome)) w1 = (Ok Completed, w')"
      by simp
    then have "\<exists>ho w5 w6. tr_handoff (rs_orch R) c ho w5 = (Ok (), w6)"
      by (auto simp: complete_run_def io_bind_Ok_iff io_of_core_def split: prod.splits)
    with s succeeded show ?thesis unfolding completed_evidence_def by blast
  next
    case exhausted
    with unf o show ?thesis by (auto simp: exhaust_run_def io_bind_Ok_iff dest: block_and_finish_Ok)
  next
    case again
    with unf o show ?thesis by (intro 1(1) [OF q [symmetric] o refl refl refl]) simp_all
  qed
qed

lemma dispatch_gate_resolution_Ok:
  assumes "dispatch_gate_resolution P R cfg c i w = (Ok g, w')"
  shows "g = None \<and> block_if_network_dispatch_refused P (rs_show_error R) (rs_orch R) (oc_gate cfg) c i w = (Ok GateProceed, w') \<or>
    g = Some Blocked \<or> g = Some PendingApprovalRes"
proof -
  from assms obtain q w1 where q: "block_if_network_dispatch_refused P (rs_show_error R) (rs_orch R) (oc_gate cfg) c i w = (Ok q, w1)"
    by (auto simp: dispatch_gate_resolution_def io_bind_Ok_iff)
  with assms show ?thesis
    by (cases q) (auto simp: dispatch_gate_resolution_def io_bind_def pending_approval_resolution_def split: option.splits)
qed

lemma dispatch_gate_unauthorised:
  assumes "\<not> dispatch_authorised P (rs_orch R) (oc_gate cfg) i" and "dispatch_gate_resolution P R cfg c i w = (g, w')"
  shows "(\<exists>e. g = Err e) \<or> g = Ok (Some Blocked) \<or> g = Ok (Some PendingApprovalRes)"
proof (cases g)
  case (Ok x)
  note x = dispatch_gate_resolution_Ok [OF assms(2) [unfolded Ok]]
  have "\<not> block_if_network_dispatch_refused P (rs_show_error R) (rs_orch R) (oc_gate cfg) c i w = (Ok GateProceed, w')"
    using assms(1) by (auto dest: network_gate_Proceed)
  with x Ok show ?thesis by simp
qed simp

lemma run_claim_body_Completed:
  assumes "run_claim_body P R cfg c w = (Ok Completed, w')"
  shows "\<exists>issue_id i is w1. cl_issue_id c = Some issue_id \<and> tr_fetch_by_ids (rs_orch R) [issue_id] w = (Ok (i # is), w1) \<and>
    dispatch_authorised P (rs_orch R) (oc_gate cfg) i \<and> completed_evidence R c i"
proof -
  from assms obtain i w1 g w2 where f: "fetch_claim_issue (rs_orch R) c w = (Ok i, w1)"
    and g: "dispatch_gate_resolution P R cfg c i w1 = (Ok g, w2)" unfolding run_claim_body_def io_bind_Ok_iff by blast
  from f obtain issue_id issues where issues: "cl_issue_id c = Some issue_id" "tr_fetch_by_ids (rs_orch R) [issue_id] w = (Ok issues, w1)"
    "(case issues of i # _ \<Rightarrow> Ok i | [] \<Rightarrow> Err (OeNotEligible issue_id ''issue behind claim not found'')) = Ok i"
    by (auto simp: fetch_claim_issue_def io_bind_Ok_iff io_of_core_def)
  then obtain "is" where i: "cl_issue_id c = Some issue_id" "tr_fetch_by_ids (rs_orch R) [issue_id] w = (Ok (i # is), w1)"
    by (cases issues) auto
  have "g = None" using dispatch_gate_resolution_Ok [OF g] assms f g
    by (auto simp: run_claim_body_def io_bind_def)
  then have auth: "dispatch_authorised P (rs_orch R) (oc_gate cfg) i"
    using dispatch_gate_resolution_Ok [OF g] by (auto intro: network_gate_Proceed)
  have "\<exists>h pf w5. run_loop R cfg c i h 0 pf w5 = (Ok Completed, w')"
    using assms f g \<open>g = None\<close> unfolding run_claim_body_def io_bind_Ok_iff
    by (auto simp: io_bind_Ok_iff split: if_splits dest: block_and_finish_Ok)
  then have "completed_evidence R c i" by (auto dest: run_loop_Completed)
  with auth i show ?thesis by blast
qed

end
