(* ===== verification/Dispatch_Demo.thy ===== *)
theory Dispatch_Demo
  imports Daemon Shard
begin

text \<open>
  A concrete orchestrator for the instances of its properties: a tracker with a number of open network issues
  that carry a verified signature, one stored approval, a runner whose turns succeed, and a trust store that
  knows the signer.
\<close>

record demo_orch_world =
  dw_open :: nat
  dw_consumed :: "approval_consumed list"
  dw_handoffs :: nat

definition demo_crypto :: crypto where
  "demo_crypto = \<lparr>sha256 = (\<lambda>bs. take 1 (rev bs)), b64_decode = (\<lambda>_. Ok []), mldsa_public_key = Ok, mldsa_signature = Ok,
     mldsa_verify = (\<lambda>_ _ _. Ok True)\<rparr>"

definition demo_core_codecs :: core_codecs where
  "demo_core_codecs = \<lparr>enc_content = (\<lambda>_. Ok [1]), enc_approval_event = (\<lambda>_. Ok [2]), enc_consumed_payload = (\<lambda>_. Ok [3])\<rparr>"

definition demo_chrono :: chrono where
  "demo_chrono = \<lparr>parse_rfc3339 = (\<lambda>_. Ok 0), chrono_from_std = (\<lambda>n. Some (int n)), to_rfc3339_nanos = (\<lambda>_. ''t'')\<rparr>"

definition demo_gate_prims :: gate_prims where
  "demo_gate_prims = \<lparr>gp_crypto = demo_crypto, gp_codecs = demo_core_codecs, gp_chrono = demo_chrono, gp_show_signing_error = (\<lambda>_. ''signing'')\<rparr>"

definition demo_net_issue :: issue where
  "demo_net_issue = \<lparr>iss_schema_version = 1, iss_id = ''i'', iss_identifier = ''I-1'', iss_title = ''t'',
     iss_description = ''work'', iss_priority = None, iss_state = ''todo'', iss_branch_name = None, iss_url = None, iss_labels = [],
     iss_blocked_by = [], iss_shard = None, iss_claim = None, iss_handoff = None, iss_signature_provenance = Some (ProvVerified ''bob''),
     iss_verification_notices = [], iss_created_at = ''t'', iss_updated_at = ''t'', iss_extra = []\<rparr>"

definition demo_sig :: "string \<Rightarrow> string \<Rightarrow> bytes \<Rightarrow> signature_envelope" where
  "demo_sig ctx signer payload = \<lparr>sge_algorithm = SIGN_ALGORITHM, sge_context = ctx, sge_public_key_b64 = [], sge_signature_b64 = [],
     sge_payload_sha256 = sha256_hex demo_crypto payload, sge_signer_agent_id = signer\<rparr>"

definition demo_consent :: "approval_verdict \<Rightarrow> approval_event" where
  "demo_consent v = \<lparr>av_issue_id = ''i'', av_content_hash = sha256_hex demo_crypto [1], av_signer_agent_id = ''bob'', av_verdict = v,
     av_approved_at = ''t'', av_approver_agent_id = ''alice'', av_claim_id = None, av_signature = Some (demo_sig APPROVAL_CONTEXT ''alice'' [2])\<rparr>"

definition demo_signing :: "demo_orch_world signing_client" where
  "demo_signing = \<lparr>sc_sign = (\<lambda>ctx p w. (Ok \<lparr>sg_agent_id = ''me'', sg_public_key_b64 = [], sg_signature_b64 = [], sg_algorithm = SIGN_ALGORITHM, sg_context = ctx\<rparr>, w)),
     sc_verify = (\<lambda>_ _ _ _ w. (Ok VoValid, w))\<rparr>"

definition demo_orch :: "approval_verdict \<Rightarrow> demo_orch_world orch_services" where
  "demo_orch v =
     \<lparr>tr_fetch_candidates = (\<lambda>_ w. (Ok (if dw_open w > 0 then [demo_net_issue] else []), w)),
      tr_fetch_by_ids = (\<lambda>_ w. (Ok [demo_net_issue], w)),
      tr_fetch_claimed = (\<lambda>w. (Ok [], w)),
      tr_claim = (\<lambda>issue_id agent w. if dw_open w > 0 then (Ok (claim_new (Some issue_id) agent ''t'' RoleManualM1), w\<lparr>dw_open := dw_open w - 1\<rparr>)
         else (Err (SyTracker ''taken''), w)),
      tr_release = (\<lambda>_ _ w. (Ok (), w)),
      tr_handoff = (\<lambda>_ _ w. (Ok (), w\<lparr>dw_handoffs := Suc (dw_handoffs w)\<rparr>)),
      tr_block = (\<lambda>_ _ w. (Ok (), w)),
      tr_load_approval_state = (\<lambda>_ w. (Ok \<lparr>as_events = [demo_consent v], as_consumed = dw_consumed w\<rparr>, w)),
      tr_store_consumed = (\<lambda>c w. (Ok (), w\<lparr>dw_consumed := c # dw_consumed w\<rparr>)),
      trust_lookup = (\<lambda>_ w. (Ok TrustKnown, w)),
      signing = Some demo_signing,
      key_resolver = Some (\<lambda>_ w. (Ok [], w)),
      clock_now = (\<lambda>w. (0, w)),
      random_u128 = (\<lambda>w. (7, w)),
      emit = (\<lambda>_ w. w),
      cancel_heartbeat = (\<lambda>w. w),
      spawn_heartbeat = (\<lambda>_ _ w. w),
      shutdown_flag = (\<lambda>_. False),
      set_shutdown = (\<lambda>w. w)\<rparr>"

definition demo_run :: "approval_verdict \<Rightarrow> turn_status \<Rightarrow> demo_orch_world run_services" where
  "demo_run v turn =
     \<lparr>rs_orch = demo_orch v, rn_name = ''shell'',
      rn_start_session = (\<lambda>_ _ _ w. (Ok ''s'', w)),
      rn_select = (\<lambda>_ _ w. (SelTurn (Ok \<lparr>ct_status = turn, ct_summary = None\<rparr>), w)),
      rn_stop_session = (\<lambda>_ w. w),
      ws_create = (\<lambda>i w. (Ok \<lparr>wh_issue_id = iss_id i, wh_path = ''/ws'', wh_created_now = True\<rparr>, w)),
      ws_run_hook_in = (\<lambda>_ _ _ w. (Ok \<lparr>hko_status = HookSucceeded, hko_exit_code = Some 0\<rparr>, w)),
      ws_destroy = (\<lambda>_ w. (Ok (), w)),
      pf_start = (\<lambda>_ _ w. (Ok ''proofs'', w)),
      pf_spawn_event_writer = (\<lambda>_ w. w),
      pf_join_event_writer = (\<lambda>w. (Ok (), w)),
      pf_finish = (\<lambda>_ _ _ w. (Ok (), w)),
      px_status = (\<lambda>_ _ w. (Ok (True, Some 0), w)),
      px_git_diff = (\<lambda>_ w. (None, w)),
      rs_sleep = (\<lambda>_ w. w),
      rs_show_error = (\<lambda>_. ''error''),
      rs_poll_wait = (\<lambda>_ w. (True, w)),
      pf_write_abandoned = (\<lambda>_ _ _ _ _ w. (Ok (), w))\<rparr>"

definition demo_settings :: gate_settings where
  "demo_settings = \<lparr>gs_agent_id = ''me'', gs_required_trust = TrustKnown, gs_network_dispatch = PolicyApprove, gs_approval_ttl = 10\<rparr>"

definition demo_config :: orch_config where
  "demo_config = \<lparr>oc_gate = demo_settings, oc_active_states = [''todo''], oc_terminal_states = [''done''],
     oc_retry = \<lparr>rp_base = 1, rp_max = 1, rp_max_attempts = 2\<rparr>,
     oc_hooks = \<lparr>lh_timeout_ms = 1, lh_after_create = None, lh_before_run = None, lh_after_run = None, lh_before_remove = None\<rparr>,
     oc_validation_commands = [], oc_claim_ttl = 10, oc_polling_interval = 1\<rparr>"

definition demo_start :: demo_orch_world where
  "demo_start = \<lparr>dw_open = 1, dw_consumed = [], dw_handoffs = 0\<rparr>"

definition demo_state :: orch_state where
  "demo_state = orch_new 1 []"

section \<open>Runs\<close>

definition demo_claim_rec :: claim where
  "demo_claim_rec = claim_new (Some ''i'') ''me'' ''t'' RoleManualM1"

definition demo_claimed :: demo_orch_world where
  "demo_claimed = demo_start\<lparr>dw_open := 0\<rparr>"

text \<open>The world after the gate has spent the approval.\<close>

definition demo_spent :: demo_orch_world where
  "demo_spent = snd (block_if_network_dispatch_refused demo_gate_prims (\<lambda>_. ''error'') (demo_orch VApprove) demo_settings demo_claim_rec demo_net_issue demo_claimed)"

lemma demo_gate: "block_if_network_dispatch_refused demo_gate_prims (\<lambda>_. ''error'') (demo_orch VApprove) demo_settings demo_claim_rec demo_net_issue demo_claimed =
  (Ok GateProceed, demo_spent)"
proof -
  have "fst (block_if_network_dispatch_refused demo_gate_prims (\<lambda>_. ''error'') (demo_orch VApprove) demo_settings demo_claim_rec demo_net_issue demo_claimed) =
    Ok GateProceed" by code_simp
  then show ?thesis by (simp add: demo_spent_def prod_eq_iff)
qed

lemma demo_fields:
  "rs_orch (demo_run v t) = demo_orch v" "rs_show_error (demo_run v t) = (\<lambda>_. ''error'')" "oc_gate demo_config = demo_settings"
  "gs_agent_id demo_settings = ''me''" "iss_id demo_net_issue = ''i''" "cl_issue_id demo_claim_rec = Some ''i''"
  by (simp_all add: demo_run_def demo_config_def demo_settings_def demo_net_issue_def demo_claim_rec_def claim_new_def)

lemma demo_net:
  "is_network_sourced demo_net_issue" "\<not> self_authored demo_settings demo_net_issue" "gate_signer demo_net_issue = Ok ''bob''"
  "gs_network_dispatch demo_settings = PolicyApprove"
  by code_simp+

lemma demo_fetch: "fetch_claim_issue (demo_orch v) demo_claim_rec w = (Ok demo_net_issue, w)"
  by (simp add: fetch_claim_issue_def demo_fields demo_orch_def io_bind_def io_lift_def io_of_core_def io_map_err_def)

lemma demo_resolution: "dispatch_gate_resolution demo_gate_prims (demo_run VApprove t) demo_config demo_claim_rec demo_net_issue demo_claimed = (Ok None, demo_spent)"
  using demo_gate by (simp add: dispatch_gate_resolution_def demo_fields io_bind_def io_lift_def)

text \<open>The world after the run: the handoff is counted.\<close>

definition demo_done :: demo_orch_world where
  "demo_done = snd (run_loop (demo_run VApprove TurnSucceeded) demo_config demo_claim_rec demo_net_issue
     \<lparr>wh_issue_id = ''i'', wh_path = ''/ws'', wh_created_now = True\<rparr> 0 \<lparr>pr_relative_dir = ''proofs'', pr_hooks = []\<rparr> demo_spent)"

lemma demo_loop: "run_loop (demo_run VApprove TurnSucceeded) demo_config demo_claim_rec demo_net_issue
     \<lparr>wh_issue_id = ''i'', wh_path = ''/ws'', wh_created_now = True\<rparr> 0 \<lparr>pr_relative_dir = ''proofs'', pr_hooks = []\<rparr> demo_spent = (Ok Completed, demo_done)"
proof -
  have "fst (run_loop (demo_run VApprove TurnSucceeded) demo_config demo_claim_rec demo_net_issue
     \<lparr>wh_issue_id = ''i'', wh_path = ''/ws'', wh_created_now = True\<rparr> 0 \<lparr>pr_relative_dir = ''proofs'', pr_hooks = []\<rparr> demo_spent) = Ok Completed"
    by code_simp
  then show ?thesis by (simp add: demo_done_def prod_eq_iff)
qed

lemma demo_hooks: "block_if_hook_failed (demo_run v t) demo_config c h AfterCreate pf w = (Ok (False, pf), w)"
  by (simp add: block_if_hook_failed_def run_hook_phase_def hooks_hook_def demo_config_def io_lift_def)

lemma demo_run_body: "run_claim_body demo_gate_prims (demo_run VApprove TurnSucceeded) demo_config demo_claim_rec demo_claimed = (Ok Completed, demo_done)"
proof -
  have "spawn_heartbeat (demo_orch v) = (\<lambda>_ _ w. w)" "clock_now (demo_orch v) = (\<lambda>w. (0, w))" for v by (simp_all add: demo_orch_def)
  moreover have "pf_start (demo_run v t) = (\<lambda>_ _ w. (Ok ''proofs'', w))"
    "ws_create (demo_run v t) = (\<lambda>i w. (Ok \<lparr>wh_issue_id = iss_id i, wh_path = ''/ws'', wh_created_now = True\<rparr>, w))" for v t
    by (simp_all add: demo_run_def)
  ultimately show ?thesis
    by (simp add: run_claim_body_def io_bind_def [abs_def] demo_fetch demo_resolution demo_fields now_io_def io_of_core_def io_map_err_def
        demo_hooks demo_loop)
qed

text \<open>Each claim takes an open issue.\<close>

lemma demo_claims:
  assumes "claim_next P (demo_orch v) cfg s = (Ok (Some c), s1)"
  shows "dw_open (fst s1) < dw_open (fst s)"
proof -
  obtain w st where s: "s = (w, st)" by force
  have S: "shutdown_flag (demo_orch v) w = False" "tr_fetch_candidates (demo_orch v) = (\<lambda>_ w. (Ok (if dw_open w > 0 then [demo_net_issue] else []), w))"
    "tr_claim (demo_orch v) issue_id agent w = (if dw_open w > 0 then (Ok (claim_new (Some issue_id) agent ''t'' RoleManualM1), w\<lparr>dw_open := dw_open w - 1\<rparr>)
         else (Err (SyTracker ''taken''), w))" for issue_id agent by (simp_all add: demo_orch_def)
  have i: "iss_claim demo_net_issue = None" by (simp add: demo_net_issue_def)
  obtain ok b where a: "try_acquire (ost_budget st) (iss_state demo_net_issue) = (ok, b)" by force
  from assms show ?thesis
    by (cases "dw_open w > 0"; cases ok)
       (auto simp: s claim_next_def S i a io_of_core_def io_map_err_def claimable_for_def io_lift_def)
qed

end
