(* ===== verification/Dispatch_Properties.thy ===== *)
theory Dispatch_Properties
  imports Dispatch_Demo
begin

text \<open>
  The properties of the orchestrator and of the core rules it applies (approval, sharding, concurrency,
  retry, reconciliation), each with an instance on the orchestrator of \<open>Dispatch_Demo\<close>.
\<close>

section \<open>Nothing runs without authorisation\<close>

text \<open>
  C13: When the issue behind a claim is not authorised (it is network-sourced, not the daemon's own, and its
  signer's trust is insufficient, network dispatch is off, or under the approve policy no verified approval
  was spent), running the claim neither creates a workspace nor runs a hook, starts a session or takes a
  turn: the run is the same whatever these services do, and it does not complete.
\<close>

theorem unauthorised_never_executes:
  assumes "fetch_claim_issue (rs_orch R) c w = (Ok i, w1)"
    and "\<not> dispatch_authorised P (rs_orch R) (oc_gate cfg) i"
  shows "run_claim P (R\<lparr>ws_create := create, ws_run_hook_in := hook, rn_start_session := start, rn_select := select,
      px_status := status, pf_start := proof_start\<rparr>) cfg c (w, st) = run_claim P R cfg c (w, st) \<and>
    fst (run_claim P R cfg c (w, st)) \<noteq> Ok Completed"
proof -
  let ?R = "R\<lparr>ws_create := create, ws_run_hook_in := hook, rn_start_session := start, rn_select := select,
      px_status := status, pf_start := proof_start\<rparr>"
  have same: "dispatch_gate_resolution P ?R cfg c i = dispatch_gate_resolution P R cfg c i"
    by (simp add: dispatch_gate_resolution_def cong: dispatch_gate_outcome.case_cong)
  obtain g w2 where g: "dispatch_gate_resolution P R cfg c i w1 = (g, w2)" by force
  from dispatch_gate_unauthorised [OF assms(2) g] consider e where "g = Err e" | x where "g = Ok (Some x)" "x \<noteq> Completed" by auto
  then show ?thesis
    by cases (use assms(1) g same in \<open>simp_all add: run_claim_def run_claim_body_def io_bind_def io_lift_def\<close>)
qed

theorem unauthorised_never_executes_witness:
  "fst (run_claim demo_gate_prims ((demo_run VDeny TurnSucceeded)\<lparr>ws_create := \<lambda>_ w. (Err (SyWorkspace ''full''), w),
     ws_run_hook_in := \<lambda>_ _ _ w. (Err (SyWorkspace ''full''), w), rn_start_session := \<lambda>_ _ _ w. (Err (SyRunner ''none''), w),
     rn_select := \<lambda>_ _ w. (SelShutdown, w), px_status := \<lambda>_ _ w. (Err ''none'', w), pf_start := \<lambda>_ _ w. (Err (OeProofTask ''none''), w)\<rparr>)
     demo_config demo_claim_rec (demo_claimed, demo_state)) = Ok PendingApprovalRes"
proof -
  have "\<not> approval_spent demo_gate_prims (demo_orch VDeny) demo_settings demo_net_issue s" for s
    by (auto simp: approval_spent_def approval_authorised_def demo_orch_def demo_consent_def)
  then have refused: "\<not> dispatch_authorised demo_gate_prims (rs_orch (demo_run VDeny TurnSucceeded)) (oc_gate demo_config) demo_net_issue"
    using demo_net by (auto simp: dispatch_authorised_def demo_fields demo_net)
  have fetch: "fetch_claim_issue (rs_orch (demo_run VDeny TurnSucceeded)) demo_claim_rec demo_claimed = (Ok demo_net_issue, demo_claimed)"
    by (simp add: demo_fetch demo_fields)
  have "run_claim demo_gate_prims ((demo_run VDeny TurnSucceeded)\<lparr>ws_create := \<lambda>_ w. (Err (SyWorkspace ''full''), w),
     ws_run_hook_in := \<lambda>_ _ _ w. (Err (SyWorkspace ''full''), w), rn_start_session := \<lambda>_ _ _ w. (Err (SyRunner ''none''), w),
     rn_select := \<lambda>_ _ w. (SelShutdown, w), px_status := \<lambda>_ _ w. (Err ''none'', w), pf_start := \<lambda>_ _ w. (Err (OeProofTask ''none''), w)\<rparr>)
     demo_config demo_claim_rec (demo_claimed, demo_state) =
     run_claim demo_gate_prims (demo_run VDeny TurnSucceeded) demo_config demo_claim_rec (demo_claimed, demo_state)"
    by (rule unauthorised_never_executes [OF fetch refused, THEN conjunct1])
  moreover have "fst (dispatch_gate_resolution demo_gate_prims (demo_run VDeny TurnSucceeded) demo_config demo_claim_rec demo_net_issue demo_claimed) =
    Ok (Some PendingApprovalRes)" by code_simp
  ultimately show ?thesis
    by (simp add: run_claim_def run_claim_body_def io_bind_def [abs_def] io_lift_def demo_fetch demo_fields prod_eq_iff split: prod.splits)
qed

text \<open>
  A run that ends as completed ran an authorised issue: the issue behind the claim passed the gate, a
  session was started for it under the source classification of its provenance, one of its turns succeeded,
  and the tracker accepted the handoff.
\<close>

theorem completed_run_authorised:
  assumes "run_claim P R cfg c (w, st) = (Ok Completed, (w', st'))"
  shows "\<exists>issue_id i is w1. cl_issue_id c = Some issue_id \<and> tr_fetch_by_ids (rs_orch R) [issue_id] w = (Ok (i # is), w1) \<and>
    dispatch_authorised P (rs_orch R) (oc_gate cfg) i \<and> completed_evidence R c i"
proof -
  from assms obtain w2 where "run_claim_body P R cfg c w = (Ok Completed, w2)"
    by (auto simp: run_claim_def split: prod.splits)
  then show ?thesis by (rule run_claim_body_Completed)
qed

theorem completed_run_authorised_witness:
  "approval_spent demo_gate_prims (demo_orch VApprove) demo_settings demo_net_issue ''bob'' \<and>
   completed_evidence (demo_run VApprove TurnSucceeded) demo_claim_rec demo_net_issue"
proof -
  have run: "run_claim demo_gate_prims (demo_run VApprove TurnSucceeded) demo_config demo_claim_rec (demo_claimed, demo_state) =
    (Ok Completed, (cancel_heartbeat (demo_orch VApprove) demo_done, release_slot demo_claim_rec demo_state))"
    by (simp add: run_claim_def demo_run_body demo_fields)
  have "tr_fetch_by_ids (demo_orch VApprove) = (\<lambda>_ w. (Ok [demo_net_issue], w))" by (simp add: demo_orch_def)
  with completed_run_authorised [OF run]
  have "dispatch_authorised demo_gate_prims (demo_orch VApprove) demo_settings demo_net_issue"
    "completed_evidence (demo_run VApprove TurnSucceeded) demo_claim_rec demo_net_issue" by (auto simp: demo_fields)
  with demo_net show ?thesis by (auto simp: dispatch_authorised_def)
qed

section \<open>Approvals\<close>

text \<open>
  A spent approval authorises nothing more: when the approval state that the gate loads holds a
  consumption record for this issue, content and signer, and the stored events are about this issue,
  the approval gate does not let the issue proceed.
\<close>

theorem spent_approval_not_reused:
  assumes "\<And>st w w'. tr_load_approval_state S (iss_id i) w = (Ok st, w') \<Longrightarrow>
      (\<exists>c \<in> set (as_consumed st). ac_issue_id c = iss_id i \<and> ac_content_hash c = content_hash (gp_crypto P) (gp_codecs P) i \<and> ac_signer_agent_id c = signer) \<and>
      (\<forall>ev \<in> set (as_events st). av_issue_id ev = iss_id i)"
  shows "fst (approval_gate_decision P show_err S G cl i signer w) \<noteq> Ok GateProceed"
proof
  assume "fst (approval_gate_decision P show_err S G cl i signer w) = Ok GateProceed"
  then obtain w' where "approval_gate_decision P show_err S G cl i signer w = (Ok GateProceed, w')" by (metis prod.collapse)
  from approval_gate_Proceed [OF this] obtain w0 w1 st now sc resolve where load: "tr_load_approval_state S (iss_id i) w0 = (Ok st, w1)"
    and auth: "signing S = Some sc" "approval_authorised P G sc resolve st now i signer" by blast
  from auth(2) obtain ev where ev: "ev \<in> set (as_events st)" "av_verdict ev = VApprove"
    "approval_is_valid (gp_crypto P) (gp_codecs P) (gp_chrono P) ev i signer now (gs_approval_ttl G) (as_consumed st) = AvValid"
    unfolding approval_authorised_def by blast
  with assms [OF load] show False
    by (auto simp: approval_is_valid_iff matches_binding_def binding_key_def)
qed

theorem spent_approval_not_reused_witness:
  "fst (approval_gate_decision demo_gate_prims (\<lambda>_. ''error'')
     ((demo_orch VApprove)\<lparr>tr_load_approval_state := \<lambda>_ w. (Ok \<lparr>as_events = [demo_consent VApprove],
        as_consumed = [\<lparr>ac_issue_id = ''i'', ac_content_hash = sha256_hex demo_crypto [1], ac_signer_agent_id = ''bob'', ac_nonce = ''n'',
          ac_consumed_at = ''t'', ac_signature = demo_sig APPROVAL_CONSUMED_CONTEXT ''me'' [3]\<rparr>]\<rparr>, w)\<rparr>)
     demo_settings demo_claim_rec demo_net_issue ''bob'' demo_claimed) \<noteq> Ok GateProceed"
  by (rule spent_approval_not_reused)
     (auto simp: demo_fields content_hash_def demo_gate_prims_def demo_core_codecs_def demo_consent_def)

text \<open>
  The approval decision does not depend on the order of the events, and a valid denial decides: the
  decision is denied exactly when some event is a valid denial, otherwise approved exactly when some event
  is a valid approval, otherwise pending.
\<close>

theorem approval_decision_denial_wins:
  "approval_decision C K T evs i signer now ttl consumed =
     (if \<exists>ev \<in> set evs. approval_is_valid C K T ev i signer now ttl consumed = AvValid \<and> av_verdict ev = VDeny then DecDenied
      else if \<exists>ev \<in> set evs. approval_is_valid C K T ev i signer now ttl consumed = AvValid \<and> av_verdict ev = VApprove then Approved
      else DecPending)"
  by (simp add: approval_decision_spec decision_spec_def)

text \<open>
  C18: The issue identifier is not part of the validity check: an event is as valid for one issue as for any other
  with the same content, and a consumption record that the gate writes for an issue does not spend an
  event that names another issue.
\<close>

theorem approval_of_other_issue_never_spent:
  assumes "av_issue_id ev \<noteq> iss_id i" and "ac_issue_id c = iss_id i"
  shows "approval_is_valid C K T ev (i\<lparr>iss_id := other\<rparr>) signer now ttl consumed = approval_is_valid C K T ev i signer now ttl consumed \<and>
    approval_is_valid C K T ev i signer now ttl (c # consumed) = approval_is_valid C K T ev i signer now ttl consumed"
proof
  have "content_hash C K (i\<lparr>iss_id := other\<rparr>) = content_hash C K i"
    by (simp add: content_hash_def canonical_content_payload_def extra_value_or_null_def)
  then show "approval_is_valid C K T ev (i\<lparr>iss_id := other\<rparr>) signer now ttl consumed = approval_is_valid C K T ev i signer now ttl consumed"
    by (simp add: approval_is_valid_def)
  have "\<not> matches_binding c (binding_key ev)" using assms by (auto simp: matches_binding_def binding_key_def)
  then show "approval_is_valid C K T ev i signer now ttl (c # consumed) = approval_is_valid C K T ev i signer now ttl consumed"
    by (simp add: approval_is_valid_def)
qed

theorem approval_of_other_issue_never_spent_witness:
  "approval_is_valid demo_crypto demo_core_codecs demo_chrono ((demo_consent VApprove)\<lparr>av_issue_id := ''other''\<rparr>) demo_net_issue ''bob'' ''t'' 10
     [\<lparr>ac_issue_id = ''i'', ac_content_hash = sha256_hex demo_crypto [1], ac_signer_agent_id = ''bob'', ac_nonce = ''n'',
       ac_consumed_at = ''t'', ac_signature = demo_sig APPROVAL_CONSUMED_CONTEXT ''me'' [3]\<rparr>] = AvValid"
proof -
  have "approval_is_valid demo_crypto demo_core_codecs demo_chrono ((demo_consent VApprove)\<lparr>av_issue_id := ''other''\<rparr>) demo_net_issue ''bob'' ''t'' 10 [] = AvValid"
    by code_simp
  then show ?thesis by (subst approval_of_other_issue_never_spent [THEN conjunct2]) (simp_all add: demo_consent_def demo_fields)
qed

section \<open>Concurrency\<close>

text \<open>
  C14: However tasks interleave at the orchestrator's mutex, the caps hold: in every state reachable from a new
  orchestrator the runs in flight, the pending reservations and the lost slots together are within the global cap
  and within the cap of each issue state, and the budget's counter is exactly their number. A pass of
  \<^verbatim>\<open>claim_next\<close> and the end of a run move only through these critical sections, leave the reservations of other
  tasks alone, and lose a slot only when the tracker grants a claim on an issue that is in flight already: the
  registration overwrites the old entry, whose slot no later step frees.
\<close>

theorem concurrency_caps_hold:
  assumes "locked_step\<^sup>*\<^sup>* (orch_new cap caps, {#}, {#}) (st, pend, lost)"
  shows "length (ost_in_flight st) + size pend + size lost \<le> unat cap \<and>
    (\<forall>s c. bt_get caps s = Some c \<longrightarrow> count (mset (bt_values (ost_in_flight st))) s + count pend s + count lost s \<le> unat c) \<and>
    unat (in_flight (ost_budget st)) = length (ost_in_flight st) + size pend + size lost \<and>
    (\<forall>S w r w' st'. claim_next P S cfg (w, st) = (r, (w', st')) \<longrightarrow>
       (\<exists>more. locked_step\<^sup>*\<^sup>* (st, pend, lost) (st', pend, lost + more) \<and> (no_reclaim S (gs_agent_id (oc_gate cfg)) st \<longrightarrow> more = {#}))) \<and>
    (\<forall>R c w r w' st'. run_claim P R cfg c (w, st) = (r, (w', st')) \<longrightarrow> locked_step (st, pend, lost) (st', pend, lost))"
proof (intro conjI allI impI)
  note caps = slots_ok_caps [OF slots_ok_reachable [OF assms slots_ok_new]]
  show "length (ost_in_flight st) + size pend + size lost \<le> unat cap" using caps(1) .
  show "count (mset (bt_values (ost_in_flight st))) s + count pend s + count lost s \<le> unat c" if "bt_get caps s = Some c" for s c
    using caps(2) that .
  show "unat (in_flight (ost_budget st)) = length (ost_in_flight st) + size pend + size lost" using caps(3) .
qed (erule claim_next_moves, erule run_claim_finishes [THEN conjunct2])

text \<open>Two claims of one issue under a cap of two: one entry is in flight and one slot is lost.\<close>

lemma demo_reclaim:
  "\<exists>st. locked_step\<^sup>*\<^sup>* (orch_new 2 [], {#}, {#}) (st, {#}, {#''todo''#}) \<and> ost_in_flight st = [(''i'', ''todo'')]"
proof -
  define b1 where "b1 = snd (try_acquire (budget_new 2 []) ''todo'')"
  define b2 where "b2 = snd (try_acquire b1 ''todo'')"
  have take: "try_acquire (budget_new 2 []) ''todo'' = (True, b1)" "try_acquire b1 ''todo'' = (True, b2)"
    unfolding b2_def b1_def by code_simp+
  let ?s = "\<lambda>b m. \<lparr>ost_budget = b, ost_in_flight = m\<rparr>"
  have s1: "locked_step (?s (budget_new 2 []) [], {#}, {#}) (?s b1 [], {#''todo''#}, {#})"
    using locked_step.reserve [of "?s (budget_new 2 []) []" "''todo''" b1 "{#}" "{#}"] take by simp
  have s2: "locked_step (?s b1 [], {#''todo''#}, {#}) (?s b1 [(''i'', ''todo'')], {#}, {#})"
    using locked_step.register [of "?s b1 []" "''todo''" "{#}" "{#}" "''i''"] by (simp add: displaced_def bt_get_def)
  have s3: "locked_step (?s b1 [(''i'', ''todo'')], {#}, {#}) (?s b2 [(''i'', ''todo'')], {#''todo''#}, {#})"
    using locked_step.reserve [of "?s b1 [(''i'', ''todo'')]" "''todo''" b2 "{#}" "{#}"] take by simp
  have s4: "locked_step (?s b2 [(''i'', ''todo'')], {#''todo''#}, {#}) (?s b2 [(''i'', ''todo'')], {#}, {#''todo''#})"
    using locked_step.register [of "?s b2 [(''i'', ''todo'')]" "''todo''" "{#}" "{#}" "''i''"] by (simp add: displaced_def bt_get_def)
  have "locked_step\<^sup>*\<^sup>* (?s (budget_new 2 []) [], {#}, {#}) (?s b1 [(''i'', ''todo'')], {#}, {#})"
    by (rule rtranclp_trans [OF r_into_rtranclp r_into_rtranclp], rule s1, rule s2)
  moreover have "locked_step\<^sup>*\<^sup>* (?s b1 [(''i'', ''todo'')], {#}, {#}) (?s b2 [(''i'', ''todo'')], {#}, {#''todo''#})"
    by (rule rtranclp_trans [OF r_into_rtranclp r_into_rtranclp], rule s3, rule s4)
  ultimately have "locked_step\<^sup>*\<^sup>* (?s (budget_new 2 []) [], {#}, {#}) (?s b2 [(''i'', ''todo'')], {#}, {#''todo''#})"
    by (rule rtranclp_trans)
  then show ?thesis by (intro exI [of _ "?s b2 [(''i'', ''todo'')]"]) (simp add: orch_new_def)
qed

theorem concurrency_caps_hold_witness:
  "\<exists>st :: orch_state. ost_in_flight st = [(''i'', ''todo'')] \<and> unat (in_flight (ost_budget st)) = 2 \<and>
     (\<nexists>st'. locked_step\<^sup>*\<^sup>* (orch_new 1 [], {#}, {#}) (st', {#''todo'', ''todo''#}, {#}))"
proof -
  from demo_reclaim obtain st where st: "locked_step\<^sup>*\<^sup>* (orch_new 2 [], {#}, {#}) (st, {#}, {#''todo''#})" "ost_in_flight st = [(''i'', ''todo'')]"
    by blast
  from concurrency_caps_hold [OF st(1), THEN conjunct2, THEN conjunct2, THEN conjunct1] st(2) have "unat (in_flight (ost_budget st)) = 2" by simp
  moreover have "\<not> locked_step\<^sup>*\<^sup>* (orch_new 1 [], {#}, {#}) (st', {#''todo'', ''todo''#}, {#})" for st'
    using concurrency_caps_hold [of 1 "[]" st' "{#''todo'', ''todo''#}" "{#}", THEN conjunct1] by auto
  ultimately show ?thesis using st(2) by (intro exI [of _ st]) simp
qed

text \<open>
  C15: One cycle of the orchestrator leaves the slots as it found them on every exit, whether the run completes,
  is refused, is blocked, is shut down or fails with an error: it moves only through critical sections, and
  the in-flight map is the one before. The tracker is assumed to return claims that name the issue they were
  made for and to refuse an issue that is in flight.
\<close>

theorem run_once_frees_slot:
  assumes "run_once P R cfg (w, st) = (r, (w', st'))" and "slots_ok cap caps (st, {#}, {#})"
    and "names_claims (rs_orch R) (gs_agent_id (oc_gate cfg))" and "no_reclaim (rs_orch R) (gs_agent_id (oc_gate cfg)) st"
  shows "locked_step\<^sup>*\<^sup>* (st, {#}, {#}) (st', {#}, {#}) \<and> slots_ok cap caps (st', {#}, {#}) \<and> ost_in_flight st' = ost_in_flight st \<and>
    in_flight (ost_budget st') = in_flight (ost_budget st)"
proof -
  note steps = run_once_steps [OF assms(1, 3, 4)]
  then have ok: "slots_ok cap caps (st', {#}, {#})" using slots_ok_reachable assms(2) by blast
  then have "unat (in_flight (ost_budget st')) = unat (in_flight (ost_budget st))"
    using slots_ok_caps(3) [OF ok] slots_ok_caps(3) [OF assms(2)] steps by simp
  with steps ok show ?thesis by (simp add: word_unat_eq_iff)
qed

theorem run_once_frees_slot_witness:
  "in_flight (ost_budget (snd (snd (run_once demo_gate_prims (demo_run VApprove TurnFailed) demo_config (demo_start, demo_state))))) = 0"
proof -
  obtain r w' st' where run: "run_once demo_gate_prims (demo_run VApprove TurnFailed) demo_config (demo_start, demo_state) = (r, (w', st'))"
    by (metis surj_pair)
  have "names_claims (demo_orch VApprove) a" for a by (auto simp: names_claims_def demo_orch_def claim_new_def split: if_splits)
  moreover have "no_reclaim S a demo_state" for S :: "demo_orch_world orch_services" and a
    by (simp add: no_reclaim_def demo_state_def orch_new_def)
  moreover have "slots_ok 1 [] (demo_state, {#}, {#})" using slots_ok_new by (simp add: demo_state_def)
  ultimately have "in_flight (ost_budget st') = in_flight (ost_budget demo_state)"
    using run_once_frees_slot [OF run, of 1 "[]"] by (simp add: demo_fields)
  moreover have "in_flight (ost_budget demo_state) = 0" by (simp add: demo_state_def orch_new_def in_flight_def budget_new_def)
  ultimately show ?thesis by (simp add: run)
qed

section \<open>Loops\<close>

text \<open>
  C16: The retry loop makes at most the configured number of attempts (at least one): unrolled that many times
  it has returned.
\<close>

theorem retry_loop_bounded:
  "run_passes R cfg c i h 0 (max 1 (unat (rp_max_attempts (oc_retry cfg)))) pf w = Some (run_loop R cfg c i h 0 pf w)"
  by (rule run_passes_enough) simp_all

section \<open>Reconciliation\<close>

text \<open>
  C17: Startup reconciliation of duplicate claims abandons only this agent's own losing claims: the winner and
  the claims of other agents are never released, so whatever releasing them would do has no effect; and
  daemons that see the same claims, in any order, agree on the winner when no two claims tie.
\<close>

theorem reconcile_releases_own_losers:
  assumes "winning_conflict_claim (List.map_filter iss_claim issues) = Some winner"
    and "\<And>c r. c \<noteq> winner \<Longrightarrow> cl_by c = agent \<Longrightarrow> release' c r = tr_release (rs_orch R) c r"
    and "set (List.map_filter iss_claim issues') = set (List.map_filter iss_claim issues)"
    and "inj_on claim_precedence (set (List.map_filter iss_claim issues))"
  shows "reconcile_conflict (R\<lparr>rs_orch := (rs_orch R)\<lparr>tr_release := release'\<rparr>\<rparr>) agent issues summary now =
      reconcile_conflict R agent issues summary now \<and>
    winning_conflict_claim (List.map_filter iss_claim issues') = Some winner"
proof
  have "abandon_losing_claims (R\<lparr>rs_orch := (rs_orch R)\<lparr>tr_release := release'\<rparr>\<rparr>) agent winner now is s =
      abandon_losing_claims R agent winner now is s" for "is" s
    by (induction "is" arbitrary: s) (auto simp: assms(2) split: option.split)
  then show "reconcile_conflict (R\<lparr>rs_orch := (rs_orch R)\<lparr>tr_release := release'\<rparr>\<rparr>) agent issues summary now =
      reconcile_conflict R agent issues summary now"
    by (simp add: reconcile_conflict_def Let_def assms(1))
  have "List.map_filter iss_claim issues \<noteq> []" using assms(1) by (auto simp: winning_conflict_claim_def min_by_key_def)
  then have "List.map_filter iss_claim issues' \<noteq> []" using assms(3) by auto
  then obtain winner' where w': "winning_conflict_claim (List.map_filter iss_claim issues') = Some winner'"
    by (cases "winning_conflict_claim (List.map_filter iss_claim issues')") (auto simp: winning_conflict_claim_def min_by_key_None_iff)
  have "winner \<in> set (List.map_filter iss_claim issues)" "winner' \<in> set (List.map_filter iss_claim issues)"
    using min_by_key_Some [OF assms(1) [unfolded winning_conflict_claim_def]] min_by_key_Some [OF w' [unfolded winning_conflict_claim_def]] assms(3)
    by simp_all
  with winning_precedence [OF assms(1) w' assms(3) [symmetric]] assms(4) w'
  show "winning_conflict_claim (List.map_filter iss_claim issues') = Some winner" by (auto dest: inj_onD)
qed

theorem reconcile_releases_own_losers_witness:
  "let mine = claim_new (Some ''i'') ''me'' ''t'' (RoleBackup 0); theirs = claim_new (Some ''i'') ''you'' ''t'' RolePrimary;
       a = demo_net_issue\<lparr>iss_claim := Some mine\<rparr>; b = demo_net_issue\<lparr>iss_claim := Some theirs\<rparr>
   in winning_conflict_claim (List.map_filter iss_claim [b, a]) = Some theirs"
proof -
  define mine theirs where "mine = claim_new (Some ''i'') ''me'' ''t'' (RoleBackup 0)" and "theirs = claim_new (Some ''i'') ''you'' ''t'' RolePrimary"
  define a b where "a = demo_net_issue\<lparr>iss_claim := Some mine\<rparr>" and "b = demo_net_issue\<lparr>iss_claim := Some theirs\<rparr>"
  have f: "List.map_filter iss_claim [a, b] = [mine, theirs]" "List.map_filter iss_claim [b, a] = [theirs, mine]"
    by (simp_all add: a_def b_def map_filter_simps)
  have p: "claim_precedence mine = (1, ''me'', ''t'')" "claim_precedence theirs = (0, ''you'', ''t'')"
    by (simp_all add: claim_precedence_def mine_def theirs_def claim_new_def sat_add_def)
  have "winning_conflict_claim (List.map_filter iss_claim [a, b]) = Some theirs"
    unfolding f winning_conflict_claim_def min_by_key_def by (simp add: p)
  then have "winning_conflict_claim (List.map_filter iss_claim [b, a]) = Some theirs"
  proof (rule reconcile_releases_own_losers [THEN conjunct2])
    show "tr_release (demo_orch VApprove) c r = tr_release (rs_orch (demo_run VApprove TurnSucceeded)) c r" for c r by (simp add: demo_fields)
    show "inj_on claim_precedence (set (List.map_filter iss_claim [a, b]))" unfolding f using p by (auto simp: inj_on_def)
  qed (simp only: f, auto)
  then show ?thesis by (simp add: Let_def a_def b_def mine_def theirs_def)
qed

section \<open>Sharding and backoff\<close>

text \<open>
  Shard assignment depends only on the set of workers, not on their order or repetition. The slate (primary
  and backups) is duplicate free, ordered by distance, as large as the replication factor allows, and no
  worker left out is nearer than one on it.
\<close>

theorem shard_slate_nearest:
  assumes "set ws = set ws'" and "assign C issue_id ws k = Some s"
  shows "assign C issue_id ws' k = Some s \<and> distinct (slate s) \<and> set (slate s) \<subseteq> set ws \<and>
    length (slate s) = min (max 1 k) (card (set ws)) \<and> sorted (map (worker_rank C issue_id) (slate s)) \<and>
    (\<forall>x \<in> set (slate s). \<forall>y \<in> set ws - set (slate s). worker_rank C issue_id x \<le> worker_rank C issue_id y)"
proof -
  let ?r = "ranked_workers C issue_id ws"
  have sl: "slate s = map snd (take (max 1 k) ?r)" using assms(2) assign_slate unfolding assign_def by blast
  have same: "assign C issue_id ws' k = Some s"
    using assms by (simp add: assign_def assign_with_metadata_def ranked_workers_eq unique_workers_cong [OF assms(1)])
  have rank: "map (worker_rank C issue_id) (slate s) = take (max 1 k) ?r"
    using ranked_workers_snd [of _ C issue_id ws] by (auto simp: sl intro!: map_idI dest: in_set_takeD)
  have len: "length ?r = card (set ws)"
    using distinct_card [OF unique_workers_distinct [of ws]] by (simp add: ranked_workers_eq)
  have "distinct (slate s)" using distinct_ranked [of C issue_id ws] by (simp add: sl take_map [symmetric])
  moreover have "set (slate s) \<subseteq> set ws" using ranked_workers_snd [of _ C issue_id ws] by (auto simp: sl dest: in_set_takeD)
  moreover have "worker_rank C issue_id x \<le> worker_rank C issue_id y" if "x \<in> set (slate s)" "y \<in> set ws - set (slate s)" for x y
  proof -
    have "worker_rank C issue_id x \<in> set (take (max 1 k) ?r)" using that(1) rank by (metis image_eqI set_map)
    moreover have "worker_rank C issue_id y \<notin> set (take (max 1 k) ?r)"
      using that(2) rank by (metis Diff_iff imageE set_map snd_conv worker_rank_def)
    ultimately show ?thesis using that(2) by (auto simp: ranked_workers_eq intro: sorted_take_nearest)
  qed
  moreover have "sorted (map (worker_rank C issue_id) (slate s))" unfolding rank by (simp add: ranked_workers_eq)
  moreover have "length (slate s) = min (max 1 k) (card (set ws))" by (simp add: sl len)
  ultimately show ?thesis using same by blast
qed

theorem shard_slate_nearest_witness:
  "assign demo_crypto ''a'' [''c'', ''b'', ''c''] 2 = assign demo_crypto ''a'' [''b'', ''c''] 2 \<and>
   map_option slate (assign demo_crypto ''a'' [''b'', ''c''] 2) = Some [''c'', ''b'']"
proof -
  have s: "map_option slate (assign demo_crypto ''a'' [''b'', ''c''] 2) = Some [''c'', ''b'']" by code_simp
  then obtain sh where "assign demo_crypto ''a'' [''b'', ''c''] 2 = Some sh" by (cases "assign demo_crypto ''a'' [''b'', ''c''] 2") auto
  with shard_slate_nearest [of "[''b'', ''c'']" "[''c'', ''b'', ''c'']" demo_crypto "''a''" 2 sh] s show ?thesis by auto
qed

text \<open>
  The backoff doubles with each attempt up to the caps: no step of the 64-bit and 128-bit computation
  wraps, the delay never exceeds the maximum, and it never shrinks from one attempt to a later one.
\<close>

theorem backoff_doubles_within_caps:
  assumes "a \<le> b"
  shows "backoff_after p a = min (min (rp_base p * 2 ^ min (unat a - 1) 31) u64_max) (rp_max p) \<and>
    backoff_after p a \<le> rp_max p \<and> backoff_after p a \<le> backoff_after p b"
  using backoff_after_closed [of p a] backoff_after_mono [OF assms, of p] by simp

theorem backoff_doubles_within_caps_witness:
  "backoff_after \<lparr>rp_base = 2, rp_max = 5, rp_max_attempts = 3\<rparr> 2 = 4 \<and>
   backoff_after \<lparr>rp_base = 2, rp_max = 5, rp_max_attempts = 3\<rparr> 2 \<le> backoff_after \<lparr>rp_base = 2, rp_max = 5, rp_max_attempts = 3\<rparr> 3"
proof -
  have "5 \<le> u64_max" by (simp add: u64_max_def)
  with backoff_doubles_within_caps [of 2 3 "\<lparr>rp_base = 2, rp_max = 5, rp_max_attempts = 3\<rparr>"] show ?thesis by simp
qed

end
