(* ===== verification/X0xd_Client.thy ===== *)
theory X0xd_Client
  imports Store Core_Types
begin

text \<open>
  The task-list and key-value surface of the x0xd REST client (\<^verbatim>\<open>client.rs\<close>): its data and, as the record
  \<open>x0xd_api\<close>, the operations of the trait \<^verbatim>\<open>X0xdApi\<close> that the trackers call. The HTTP transport behind them is a
  service on a world.
\<close>

record task_list_entry =
  tl_id :: string
  tl_topic :: string

record named_group_entry =
  ng_group_id :: string
  ng_name :: string

record named_group_member =
  nm_agent_id :: string
  nm_state :: "string option"

record named_group_details =
  nd_group_id :: string
  nd_name :: string
  nd_members :: "named_group_member list"

record joined_group =
  jg_group_id :: string
  jg_group_name :: "string option"

record task_entry =
  tk_id :: string
  tk_title :: string
  tk_description :: string
  tk_state :: string
  tk_assignee :: "string option"
  tk_priority :: u8

record add_task_draft =
  atd_title :: string
  atd_description :: "string option"

definition add_task_draft_new :: "string \<Rightarrow> add_task_draft" where
  "add_task_draft_new title = \<lparr>atd_title = title, atd_description = None\<rparr>"

definition with_description :: "add_task_draft \<Rightarrow> string \<Rightarrow> add_task_draft" where
  "with_description d description = d\<lparr>atd_description := Some description\<rparr>"

datatype task_action = ActClaim | ActComplete

fun task_action_str :: "task_action \<Rightarrow> string" where
  "task_action_str ActClaim = ''claim''"
| "task_action_str ActComplete = ''complete''"

record kv_key_entry =
  ke_key :: string
  ke_content_type :: "string option"
  ke_content_hash :: "string option"
  ke_size :: usize
  ke_updated_at :: "u64 option"

record kv_value =
  kv_key :: string
  kv_value :: bytes
  kv_content_type :: "string option"
  kv_content_hash :: "string option"
  kv_created_at :: "u64 option"
  kv_updated_at :: "u64 option"

record 'w x0xd_api =
  xd_list_task_lists :: "('w, task_list_entry list, client_error) io"
  xd_create_task_list :: "string \<Rightarrow> string \<Rightarrow> ('w, string, client_error) io"
  xd_list_named_groups :: "('w, named_group_entry list, client_error) io"
  xd_get_named_group :: "string \<Rightarrow> ('w, named_group_details, client_error) io"
  xd_join_group :: "string \<Rightarrow> string option \<Rightarrow> ('w, joined_group, client_error) io"
  xd_list_tasks :: "string \<Rightarrow> ('w, task_entry list, client_error) io"
  xd_add_task :: "string \<Rightarrow> add_task_draft \<Rightarrow> ('w, string, client_error) io"
  xd_update_task :: "string \<Rightarrow> string \<Rightarrow> task_action \<Rightarrow> ('w, unit, client_error) io"
  xd_list_kv_stores :: "('w, task_list_entry list, client_error) io"
  xd_create_kv_store :: "string \<Rightarrow> string \<Rightarrow> ('w, string, client_error) io"
  xd_list_kv_keys :: "string \<Rightarrow> ('w, kv_key_entry list, client_error) io"
  xd_put_kv :: "string \<Rightarrow> string \<Rightarrow> bytes \<Rightarrow> string \<Rightarrow> ('w, unit, client_error) io"
  xd_get_kv :: "string \<Rightarrow> string \<Rightarrow> ('w, kv_value option, client_error) io"

end
