(* ===== verification/V2_Tracker.thy ===== *)
theory V2_Tracker
  imports Gate Approval X0xd_Client
begin

text \<open>
  The v2 tracker (\<^verbatim>\<open>v2/tracker.rs\<close>): the \<^verbatim>\<open>Tracker\<close> operations that the orchestrator calls, each a read of the event
  stores, the fold, and at most a few appended events. The lazily initialised cells of the struct (own store,
  display list, joined members) are the record \<open>v2_cells\<close>; an operation runs on the world of the services
  together with these cells. Clocks, the settle sleep and the display task list are services, JSON carriers
  and debug renderings parameters. Log output is left out.
\<close>

section \<open>State, services and parameters\<close>

record v2_tracker =
  vt_manager :: v2_store_manager
  vt_list_ref :: v2_list_ref
  vt_agent_id :: string
  vt_settle :: duration

record v2_cells =
  vc_own :: "own_event_store option"
  vc_display_list :: "string option"
  vc_joined :: "string btree_set"

definition v2_cells_new :: v2_cells where
  "v2_cells_new = \<lparr>vc_own = None, vc_display_list = None, vc_joined = []\<rparr>"

record 'w tracker_services =
  ts_api :: "'w store_api"
  ts_display :: "'w x0xd_api option"
  ts_now_utc :: "'w \<Rightarrow> string \<times> 'w"
  ts_now_timestamp :: "'w \<Rightarrow> int \<times> 'w"
  ts_sleep :: "duration \<Rightarrow> 'w \<Rightarrow> 'w"

record tracker_prims =
  tp_prims :: prims
  tp_codecs :: codecs
  tp_core :: core_codecs
  tp_show_store_error :: "v2_store_error \<Rightarrow> string"
  tp_show_status :: "issue_status_v2 \<Rightarrow> string"
  tp_show_refusal :: "list_refusal \<Rightarrow> string"
  tp_enc_requeue_approval :: "approval_payload_v2 \<Rightarrow> (bytes, string) result"
  tp_enc_v1_approval :: "approval_event \<Rightarrow> (string, string) result"
  tp_dec_v1_approval :: "string \<Rightarrow> (approval_event, string) result"
  tp_enc_v1_consumed :: "approval_consumed \<Rightarrow> (string, string) result"
  tp_dec_v1_consumed :: "string \<Rightarrow> (approval_consumed, string) result"
  tp_timestamp :: "string \<Rightarrow> (int, string) result"

type_synonym 'w tw = "'w \<times> v2_cells"

definition EPOCH_RFC3339 :: string where
  "EPOCH_RFC3339 = ''1970-01-01T00:00:00Z''"

definition DISPLAY_MARKER :: string where
  "DISPLAY_MARKER = ''[x0x-symphony-v2 issue ''"

definition terr :: "string \<Rightarrow> symphony_error" where
  "terr msg = SyTracker msg"

definition store_err :: "tracker_prims \<Rightarrow> v2_store_error \<Rightarrow> symphony_error" where
  "store_err P e = SyTracker (''v2 store: '' @ tp_show_store_error P e)"

text \<open>An operation of the store manager, called from the tracker with \<^verbatim>\<open>map_err(store_err)\<close>.\<close>

definition on_store :: "tracker_prims \<Rightarrow> ('w, 'a, v2_store_error) io \<Rightarrow> ('w tw, 'a, symphony_error) io" where
  "on_store P m = (\<lambda>(w, c). case m w of (r, w') \<Rightarrow> (map_err (store_err P) r, (w', c)))"

definition tracker_now_utc :: "'w tracker_services \<Rightarrow> ('w tw, string, symphony_error) io" where
  "tracker_now_utc S = (\<lambda>(w, c). case ts_now_utc S w of (t, w') \<Rightarrow> (Ok t, (w', c)))"

text \<open>\<^verbatim>\<open>u64::try_from(timestamp).unwrap_or(0)\<close> on a signed 64-bit timestamp.\<close>

definition timestamp_secs :: "int \<Rightarrow> u64" where
  "timestamp_secs t = (if 0 \<le> t then word_of_int t else 0)"

definition tracker_now_secs :: "'w tracker_services \<Rightarrow> ('w tw, u64, symphony_error) io" where
  "tracker_now_secs S = (\<lambda>(w, c). case ts_now_timestamp S w of (t, w') \<Rightarrow> (Ok (timestamp_secs t), (w', c)))"

section \<open>Own store and folded views\<close>

definition v2_own :: "tracker_prims \<Rightarrow> 'w tracker_services \<Rightarrow> v2_tracker \<Rightarrow> ('w tw, own_event_store, symphony_error) io" where
  "v2_own P S V = (\<lambda>(w, c).
     case vc_own c of
       Some own \<Rightarrow> (Ok own, (w, c))
     | None \<Rightarrow>
         (case ensure_own_store (tp_prims P) (ts_api S) (vt_manager V) (lr_list_uuid (vt_list_ref V)) w of
            (Err e, w') \<Rightarrow> (Err (store_err P e), (w', c))
          | (Ok own, w') \<Rightarrow>
              if os_agent_id own \<noteq> vt_agent_id V
              then (Err (terr (''x0xd signs as agent '' @ os_agent_id own @ '' but this tracker is configured for '' @ vt_agent_id V)), (w', c))
              else (Ok own, (w', c\<lparr>vc_own := Some own\<rparr>))))"

definition read_and_fold :: "tracker_prims \<Rightarrow> 'w tracker_services \<Rightarrow> v2_tracker \<Rightarrow> ('w tw, fold_output, symphony_error) io" where
  "read_and_fold P S V =
     io_bind (on_store P (read_fold_input (tp_prims P) (ts_api S) (vt_manager V) (lr_list_uuid (vt_list_ref V)) (lr_creator (vt_list_ref V)))) (\<lambda>input.
     io_lift (map_err (\<lambda>refusal. terr (''v2 list refused: '' @ tp_show_refusal P refusal)) (fold_v2 (tp_prims P) input)))"

fun join_members ::
  "tracker_prims \<Rightarrow> 'w tracker_services \<Rightarrow> v2_tracker \<Rightarrow> string list \<Rightarrow> bool \<Rightarrow> ('w tw, bool, symphony_error) io" where
  "join_members P S V [] joined_any = io_lift (Ok joined_any)"
| "join_members P S V (member # members) joined_any = (\<lambda>(w, c).
     if member = vt_agent_id V \<or> member \<in> set (vc_joined c) then join_members P S V members joined_any (w, c)
     else case join_peer_store (ts_api S) (vt_manager V) (lr_list_uuid (vt_list_ref V)) member w of
       (Ok _, w') \<Rightarrow>
         (case join_peer_heartbeats (ts_api S) (lr_list_uuid (vt_list_ref V)) member w' of
            (_, w'') \<Rightarrow> join_members P S V members True (w'', c\<lparr>vc_joined := bset_insert member (vc_joined c)\<rparr>))
     | (Err e, w') \<Rightarrow>
         (case e of
            SeAnchorMismatch _ _ _ \<Rightarrow> (Err (terr (''v2 member '' @ member @ '' store failed anchor verification: '' @ tp_show_store_error P e)), (w', c))
          | SePolicyNotHonored _ _ \<Rightarrow> (Err (terr (''v2 member '' @ member @ '' store failed anchor verification: '' @ tp_show_store_error P e)), (w', c))
          | _ \<Rightarrow> join_members P S V members joined_any (w', c)))"

definition join_new_members ::
  "tracker_prims \<Rightarrow> 'w tracker_services \<Rightarrow> v2_tracker \<Rightarrow> fold_output \<Rightarrow> ('w tw, bool, symphony_error) io" where
  "join_new_members P S V out = join_members P S V (gm_roster (fo_genesis out) @ fo_current_roster out) False"

definition MAX_JOIN_PASSES :: nat where
  "MAX_JOIN_PASSES = 8"

text \<open>\<open>n\<close> passes remain; each joins the new members of the last view and reads again.\<close>

fun fold_view_passes ::
  "tracker_prims \<Rightarrow> 'w tracker_services \<Rightarrow> v2_tracker \<Rightarrow> nat \<Rightarrow> fold_output \<Rightarrow> ('w tw, fold_output, symphony_error) io" where
  "fold_view_passes P S V 0 out =
     io_bind (join_new_members P S V out) (\<lambda>joined_any.
     if \<not> joined_any then io_lift (Ok out)
     else io_lift (Err (terr (''v2 roster join fixpoint not reached in '' @ show_nat MAX_JOIN_PASSES @ '' passes for '' @
            to_ref_string (vt_list_ref V) @ ''; refusing the partial view''))))"
| "fold_view_passes P S V (Suc n) out =
     io_bind (join_new_members P S V out) (\<lambda>joined_any.
     if \<not> joined_any then io_lift (Ok out)
     else io_bind (read_and_fold P S V) (\<lambda>out'. fold_view_passes P S V n out'))"

definition fold_view :: "tracker_prims \<Rightarrow> 'w tracker_services \<Rightarrow> v2_tracker \<Rightarrow> ('w tw, fold_output, symphony_error) io" where
  "fold_view P S V = io_bind (read_and_fold P S V) (\<lambda>out. fold_view_passes P S V MAX_JOIN_PASSES out)"

section \<open>Projection to issues\<close>

text \<open>The serde names of the validation statuses (snake case).\<close>

definition validation_status_of :: "string \<Rightarrow> validation_status option" where
  "validation_status_of s =
     (if s = ''passed'' then Some ValPassed else if s = ''failed'' then Some ValFailed else if s = ''skipped'' then Some ValSkipped else None)"

definition validation_from_v2 :: "handoff_validation_v2 \<Rightarrow> validation_result option" where
  "validation_from_v2 v =
     (case validation_status_of (hv_status v) of
        None \<Rightarrow> None
      | Some status \<Rightarrow> Some \<lparr>vr_command = hv_command v, vr_status = status, vr_exit_code = hv_exit_code v\<rparr>)"

definition validation_to_v2 :: "validation_result \<Rightarrow> handoff_validation_v2" where
  "validation_to_v2 v = \<lparr>hv_command = vr_command v, hv_status = validation_status_str (vr_status v), hv_exit_code = vr_exit_code v\<rparr>"

definition project_handoff :: "string \<Rightarrow> handoff_event_v2 \<Rightarrow> handoff" where
  "project_handoff issue_id ev =
     (let h0 = with_signer_agent_id (with_issue_id (with_follow_ups (with_files_changed (handoff_new (he_summary ev)) (he_files_changed ev))
                 (he_follow_up ev)) issue_id) (he_actor ev);
          h1 = (case he_proofs_dir ev of Some d \<Rightarrow> with_proofs_dir h0 d | None \<Rightarrow> h0)
      in foldl (\<lambda>h v. case validation_from_v2 v of Some r \<Rightarrow> with_validation h r | None \<Rightarrow> h) h1 (he_validation ev))"

definition projected_state :: "issue_status_v2 \<Rightarrow> handoff_record_v2 list option \<Rightarrow> string" where
  "projected_state status handoffs =
     (case status of
        StOpen \<Rightarrow> ''todo''
      | StClaimed _ _ _ \<Rightarrow> ''in_progress''
      | StBlocked _ _ _ _ _ \<Rightarrow> ''blocked''
      | StDone _ _ \<Rightarrow> (case handoffs of Some (_ # _) \<Rightarrow> ''review'' | _ \<Rightarrow> ''done''))"

definition involved_agents :: "issue_state_v2 \<Rightarrow> string list" where
  "involved_agents st =
     (case is_status st of
        StClaimed claimant _ _ \<Rightarrow> [is_opened_by st, claimant]
      | StBlocked claimant _ _ _ _ \<Rightarrow> [is_opened_by st, claimant]
      | _ \<Rightarrow> [is_opened_by st])"

definition fork_notice :: "fork_evidence \<Rightarrow> verification_notice" where
  "fork_notice fork =
     \<lparr>vn_kind = ForkEvidenceNotice,
      vn_claimant = (case agent_id_new (fe_author fork) of Ok a \<Rightarrow> Some a | Err _ \<Rightarrow> None),
      vn_reason = ''author '' @ fe_author fork @ '' equivocated at chain seq '' @ show_word (fe_author_seq fork) @ '' ('' @
        show_nat (length (fe_event_hashes fork)) @ '' conflicting signed events); the forked suffix is inadmissible''\<rparr>"

text \<open>The part of the projection before the claim is attached: it does not touch the world.\<close>

definition project_base :: "fold_output \<Rightarrow> issue_state_v2 \<Rightarrow> (issue, symphony_error) result" where
  "project_base out st =
     and_then (issue_state_new (projected_state (is_status st) (bt_get (fo_handoffs out) (is_issue_id st)))) (\<lambda>state.
     and_then (issue_id_new (is_issue_id st)) (\<lambda>issue_id.
     and_then (issue_new issue_id (is_issue_id st) (is_title st) state EPOCH_RFC3339) (\<lambda>i.
     Ok (i\<lparr>iss_description := is_spec st,
           iss_signature_provenance := Some (ProvVerified (is_opened_by st)),
           iss_verification_notices := map fork_notice (filter (\<lambda>fork. fe_author fork \<in> set (involved_agents st)) (fo_forks out))\<rparr>))))"

definition attach_claim :: "issue \<Rightarrow> string \<Rightarrow> string \<Rightarrow> issue" where
  "attach_claim i claimant heartbeat =
     i\<lparr>iss_updated_at := heartbeat,
       iss_claim := Some (with_heartbeat (claim_new (Some (iss_id i)) claimant heartbeat RoleManualM1) heartbeat)\<rparr>"

definition attach_handoff :: "fold_output \<Rightarrow> issue_state_v2 \<Rightarrow> issue \<Rightarrow> issue" where
  "attach_handoff out st i =
     (case bt_get (fo_handoffs out) (is_issue_id st) of
        Some records \<Rightarrow> if records = [] then i else i\<lparr>iss_handoff := Some (project_handoff (iss_id i) (hr_handoff (last records)))\<rparr>
      | None \<Rightarrow> i)"

definition project_issue ::
  "'w tracker_services \<Rightarrow> v2_tracker \<Rightarrow> fold_output \<Rightarrow> issue_state_v2 \<Rightarrow> ('w tw, issue, symphony_error) io" where
  "project_issue S V out st =
     io_bind (io_lift (project_base out st)) (\<lambda>i.
     case is_status st of
       StClaimed claimant _ _ \<Rightarrow> (\<lambda>(w, c).
         case read_heartbeat (ts_api S) (lr_list_uuid (vt_list_ref V)) claimant (is_issue_id st) w of
           (hb, w') \<Rightarrow>
             let heartbeat = (case hb of Some t \<Rightarrow> t | None \<Rightarrow> EPOCH_RFC3339) in
             (and_then (agent_id_new claimant) (\<lambda>agent. Ok (attach_handoff out st (attach_claim i agent heartbeat))), (w', c)))
     | _ \<Rightarrow> io_lift (Ok (attach_handoff out st i)))"

fun project_issues ::
  "'w tracker_services \<Rightarrow> v2_tracker \<Rightarrow> fold_output \<Rightarrow> issue_state_v2 list \<Rightarrow> ('w tw, issue list, symphony_error) io" where
  "project_issues S V out [] = io_lift (Ok [])"
| "project_issues S V out (st # sts) =
     io_bind (project_issue S V out st) (\<lambda>i. io_bind (project_issues S V out sts) (\<lambda>is. io_lift (Ok (i # is))))"

definition project_all :: "'w tracker_services \<Rightarrow> v2_tracker \<Rightarrow> fold_output \<Rightarrow> ('w tw, issue list, symphony_error) io" where
  "project_all S V out = project_issues S V out (bt_values (fo_issues out))"

section \<open>Fences and events\<close>

definition require_local_agent :: "v2_tracker \<Rightarrow> string \<Rightarrow> string \<Rightarrow> (unit, symphony_error) result" where
  "require_local_agent V agent what =
     (if agent = vt_agent_id V then Ok ()
      else Err (terr (''v2 '' @ what @ '' must be authored by the local agent '' @ vt_agent_id V @ '' (got '' @ agent @
             ''); v2 records are author-signed and live in the author'' @ [CHR 0x27] @ ''s own store'')))"

definition issue_missing :: "string \<Rightarrow> symphony_error" where
  "issue_missing issue_id = terr (''issue '' @ issue_id @ '' does not exist in the folded list'')"

definition require_own_fence ::
  "tracker_prims \<Rightarrow> v2_tracker \<Rightarrow> fold_output \<Rightarrow> string \<Rightarrow> (string \<times> string, symphony_error) result" where
  "require_own_fence P V out issue_id =
     and_then (ok_or (bt_get (fo_issues out) issue_id) (issue_missing issue_id)) (\<lambda>i.
     let refuse = Err (terr (''local agent does not hold the fold-winning claim on '' @ issue_id @ '' (status: '' @ tp_show_status P (is_status i) @ '')''))
     in case is_status i of
          StClaimed claimant claim_nonce claim_event_hash \<Rightarrow>
            if claimant = vt_agent_id V then Ok (claim_nonce, claim_event_hash) else refuse
        | _ \<Rightarrow> refuse)"

definition transition :: "v2_tracker \<Rightarrow> fold_output \<Rightarrow> string \<Rightarrow> transition_kind \<Rightarrow> transition_event_v2" where
  "transition V out issue_id kind =
     (case next_chain_link out (vt_agent_id V) of (author_seq, prev_own_event_hash) \<Rightarrow>
      \<lparr>te_schema = V2_SCHEMA, te_list_uuid = lr_list_uuid (vt_list_ref V), te_genesis_manifest_hash = fo_genesis_hash out,
       te_roster_epoch = fo_latest_roster_epoch out, te_issue_id = issue_id, te_actor = vt_agent_id V,
       te_lamport = sat_add (fo_max_admitted_lamport out) 1, te_author_seq = author_seq,
       te_prev_own_event_hash = prev_own_event_hash, te_kind = kind\<rparr>)"

definition claim_issue_id :: "claim \<Rightarrow> (string, symphony_error) result" where
  "claim_issue_id c = ok_or (cl_issue_id c) (terr ''claim is missing issue_id'')"

section \<open>The display list\<close>

definition ensure_display_list :: "'w tracker_services \<Rightarrow> v2_tracker \<Rightarrow> 'w tw \<Rightarrow> string option \<times> 'w tw" where
  "ensure_display_list S V = (\<lambda>(w, c).
     case ts_display S of
       None \<Rightarrow> (None, (w, c))
     | Some D \<Rightarrow>
         (case vc_display_list c of
            Some list_id \<Rightarrow> (Some list_id, (w, c))
          | None \<Rightarrow>
              let topic = ''symphony2-display-'' @ lr_list_uuid (vt_list_ref V) in
              (case xd_create_task_list D topic topic w of
                 (Ok list_id, w') \<Rightarrow> (Some list_id, (w', c\<lparr>vc_display_list := Some list_id\<rparr>))
               | (Err _, w') \<Rightarrow>
                   (case xd_list_task_lists D w' of
                      (Ok entries, w'') \<Rightarrow>
                        (case find (\<lambda>l. tl_topic l = topic) entries of
                           Some l \<Rightarrow> (Some (tl_id l), (w'', c\<lparr>vc_display_list := Some (tl_id l)\<rparr>))
                         | None \<Rightarrow> (None, (w'', c)))
                    | (Err _, w'') \<Rightarrow> (None, (w'', c))))))"

text \<open>Failures of the display are only logged.\<close>

definition display_add_issue :: "'w tracker_services \<Rightarrow> v2_tracker \<Rightarrow> string \<Rightarrow> string \<Rightarrow> string \<Rightarrow> 'w tw \<Rightarrow> 'w tw" where
  "display_add_issue S V issue_id title spec = (\<lambda>(w, c).
     case ts_display S of
       None \<Rightarrow> (w, c)
     | Some D \<Rightarrow>
         (case ensure_display_list S V (w, c) of
            (None, s) \<Rightarrow> s
          | (Some list_id, (w', c')) \<Rightarrow>
              (case xd_add_task D list_id (with_description (add_task_draft_new title)
                   (DISPLAY_MARKER @ issue_id @ '']'' @ [CHR 0x0A, CHR 0x0A] @ spec)) w' of
                 (_, w'') \<Rightarrow> (w'', c'))))"

definition display_reconcile :: "'w tracker_services \<Rightarrow> v2_tracker \<Rightarrow> string \<Rightarrow> task_action \<Rightarrow> 'w tw \<Rightarrow> 'w tw" where
  "display_reconcile S V issue_id action = (\<lambda>(w, c).
     case ts_display S of
       None \<Rightarrow> (w, c)
     | Some D \<Rightarrow>
         (case ensure_display_list S V (w, c) of
            (None, s) \<Rightarrow> s
          | (Some list_id, (w', c')) \<Rightarrow>
              (case xd_list_tasks D list_id w' of
                 (Err _, w'') \<Rightarrow> (w'', c')
               | (Ok tasks, w'') \<Rightarrow>
                   (case find (\<lambda>t. prefix (DISPLAY_MARKER @ issue_id @ '']'') (tk_description t)) tasks of
                      None \<Rightarrow> (w'', c')
                    | Some t \<Rightarrow> (case xd_update_task D list_id (tk_id t) action w'' of (_, w3) \<Rightarrow> (w3, c'))))))"

text \<open>An effect whose failure is only logged.\<close>

definition after :: "('w \<Rightarrow> 'w) \<Rightarrow> ('w, unit, 'e) io" where
  "after f = (\<lambda>w. (Ok (), f w))"

definition after_store :: "('w, 'a, v2_store_error) io \<Rightarrow> 'w tw \<Rightarrow> 'w tw" where
  "after_store m = (\<lambda>(w, c). (snd (m w), c))"

section \<open>Bootstrap\<close>

definition publish_own_genesis ::
  "tracker_prims \<Rightarrow> 'w tracker_services \<Rightarrow> v2_tracker \<Rightarrow> own_event_store \<Rightarrow> ('w tw, unit, symphony_error) io" where
  "publish_own_genesis P S V own =
     io_bind (on_store P (read_fold_input (tp_prims P) (ts_api S) (vt_manager V) (lr_list_uuid (vt_list_ref V)) (lr_creator (vt_list_ref V)))) (\<lambda>input.
     if is_ok (fold_v2 (tp_prims P) input) then io_lift (Ok ())
     else io_bind (tracker_now_secs S) (\<lambda>now.
          io_bind (on_store P (publish_genesis (tp_prims P) (tp_codecs P) (ts_api S) own [os_agent_id own] None now)) (\<lambda>_.
          io_lift (Ok ()))))"

definition ensure_surfaces :: "tracker_prims \<Rightarrow> 'w tracker_services \<Rightarrow> v2_tracker \<Rightarrow> ('w tw, unit, symphony_error) io" where
  "ensure_surfaces P S V =
     io_bind (v2_own P S V) (\<lambda>own.
     io_bind (if lr_creator (vt_list_ref V) = os_agent_id own then publish_own_genesis P S V own
              else after (after_store (join_peer_store (ts_api S) (vt_manager V) (lr_list_uuid (vt_list_ref V)) (lr_creator (vt_list_ref V))))) (\<lambda>_.
     io_bind (after (\<lambda>s. snd (fold_view P S V s))) (\<lambda>_.
     after (\<lambda>s. snd (ensure_display_list S V s)))))"

section \<open>Issues\<close>

definition list_issues :: "tracker_prims \<Rightarrow> 'w tracker_services \<Rightarrow> v2_tracker \<Rightarrow> ('w tw, issue list, symphony_error) io" where
  "list_issues P S V = io_bind (fold_view P S V) (\<lambda>out. project_all S V out)"

definition fresh_issue_id :: "prims \<Rightarrow> string \<Rightarrow> string \<Rightarrow> string \<Rightarrow> u64 \<Rightarrow> string" where
  "fresh_issue_id P agent now title lamport =
     ''i'' @ take 32 (sha256_hex P (as_bytes (agent @ '':'' @ now @ '':'' @ title @ '':'' @ show_word lamport)))"

definition draft_description :: "issue_draft \<Rightarrow> string" where
  "draft_description draft = (case dr_description draft of Some d \<Rightarrow> if trim d = [] then [] else d | None \<Rightarrow> [])"

definition create_issue ::
  "tracker_prims \<Rightarrow> 'w tracker_services \<Rightarrow> v2_tracker \<Rightarrow> issue_draft \<Rightarrow> ('w tw, issue, symphony_error) io" where
  "create_issue P S V draft =
     io_bind (v2_own P S V) (\<lambda>own.
     io_bind (fold_view P S V) (\<lambda>out.
     io_bind (tracker_now_utc S) (\<lambda>now.
     let issue_id = fresh_issue_id (tp_prims P) (os_agent_id own) now (dr_title draft) (fo_max_admitted_lamport out);
         description = draft_description draft;
         event = transition V out issue_id (open_kind (tp_prims P) (dr_title draft) description)
     in io_bind (on_store P (append_transition (tp_prims P) (tp_codecs P) (ts_api S) own event)) (\<lambda>_.
        io_bind (after (display_add_issue S V issue_id (dr_title draft) description)) (\<lambda>_.
        io_bind (fold_view P S V) (\<lambda>confirm.
        io_bind (io_lift (ok_or (bt_get (fo_issues confirm) issue_id) (terr (''created issue '' @ issue_id @ '' did not fold back'')))) (\<lambda>st.
        project_issue S V confirm st)))))))"

definition fetch_candidates ::
  "tracker_prims \<Rightarrow> 'w tracker_services \<Rightarrow> v2_tracker \<Rightarrow> poll_context \<Rightarrow> ('w tw, issue list, symphony_error) io" where
  "fetch_candidates P S V ctx =
     io_bind (list_issues P S V) (\<lambda>issues.
     io_lift (Ok (sort_key iss_id (filter (\<lambda>i. list_ex (\<lambda>state. state = iss_state i) (pc_active_states ctx)) issues))))"

definition fetch_by_ids ::
  "tracker_prims \<Rightarrow> 'w tracker_services \<Rightarrow> v2_tracker \<Rightarrow> string list \<Rightarrow> ('w tw, issue list, symphony_error) io" where
  "fetch_by_ids P S V ids =
     io_bind (list_issues P S V) (\<lambda>issues. io_lift (Ok (filter (\<lambda>i. iss_id i \<in> set ids) issues)))"

definition fetch_claimed ::
  "tracker_prims \<Rightarrow> 'w tracker_services \<Rightarrow> v2_tracker \<Rightarrow> string option \<Rightarrow> ('w tw, issue list, symphony_error) io" where
  "fetch_claimed P S V agent_id =
     io_bind (list_issues P S V) (\<lambda>issues.
     io_lift (Ok (filter (\<lambda>i. case agent_id of None \<Rightarrow> True | Some agent \<Rightarrow> (case iss_claim i of None \<Rightarrow> False | Some c \<Rightarrow> cl_by c = agent))
                   (filter (\<lambda>i. iss_claim i \<noteq> None) issues))))"

section \<open>Claims\<close>

definition claim_confirmed :: "v2_tracker \<Rightarrow> string \<Rightarrow> issue_status_v2 \<Rightarrow> bool" where
  "claim_confirmed V our_hash status =
     (case status of StClaimed claimant _ claim_event_hash \<Rightarrow> claimant = vt_agent_id V \<and> claim_event_hash = our_hash | _ \<Rightarrow> False)"

definition v2_claim ::
  "tracker_prims \<Rightarrow> 'w tracker_services \<Rightarrow> v2_tracker \<Rightarrow> string \<Rightarrow> string \<Rightarrow> ('w tw, claim, symphony_error) io" where
  "v2_claim P S V issue_id agent_id =
     io_bind (io_lift (require_local_agent V agent_id ''claim'')) (\<lambda>_.
     io_bind (v2_own P S V) (\<lambda>own.
     io_bind (fold_view P S V) (\<lambda>out.
     io_bind (io_lift (ok_or (bt_get (fo_issues out) issue_id) (issue_missing issue_id))) (\<lambda>i.
     if is_status i \<noteq> StOpen
     then io_lift (Err (terr (''issue '' @ issue_id @ '' is not claimable (status: '' @ tp_show_status P (is_status i) @ '')'')))
     else
       let event = build_claim_transition (tp_prims P) out (lr_list_uuid (vt_list_ref V)) (vt_agent_id V) issue_id in
       io_bind (on_store P (append_transition (tp_prims P) (tp_codecs P) (ts_api S) own event)) (\<lambda>our_hash.
       io_bind (fold_view P S V) (\<lambda>confirm.
       io_bind (io_lift (ok_or (bt_get (fo_issues confirm) issue_id) (terr (''issue '' @ issue_id @ '' vanished from the folded list'')))) (\<lambda>confirmed.
       if \<not> claim_confirmed V our_hash (is_status confirmed)
       then io_lift (Err (terr (''claim on '' @ issue_id @ '' lost the deterministic fold race (status now: '' @ tp_show_status P (is_status confirmed) @ '')'')))
       else io_bind (tracker_now_utc S) (\<lambda>at_ts.
            io_bind (after (after_store (put_heartbeat (ts_api S) own issue_id at_ts))) (\<lambda>_.
            io_bind (after (display_reconcile S V issue_id ActClaim)) (\<lambda>_.
            io_lift (Ok (claim_new (Some issue_id) agent_id at_ts RoleManualM1))))))))))))"

text \<open>The common start of the operations on a held claim: local author, issue, own store, view, fence.\<close>

definition with_own_fence ::
  "tracker_prims \<Rightarrow> 'w tracker_services \<Rightarrow> v2_tracker \<Rightarrow> claim \<Rightarrow> string \<Rightarrow>
   (string \<Rightarrow> own_event_store \<Rightarrow> fold_output \<Rightarrow> string \<Rightarrow> string \<Rightarrow> ('w tw, 'a, symphony_error) io) \<Rightarrow> ('w tw, 'a, symphony_error) io" where
  "with_own_fence P S V c what body =
     io_bind (io_lift (require_local_agent V (cl_by c) what)) (\<lambda>_.
     io_bind (io_lift (claim_issue_id c)) (\<lambda>issue_id.
     io_bind (v2_own P S V) (\<lambda>own.
     io_bind (fold_view P S V) (\<lambda>out.
     io_bind (io_lift (require_own_fence P V out issue_id)) (\<lambda>(claim_nonce, claimed_event_hash).
     body issue_id own out claim_nonce claimed_event_hash)))))"

definition append_transition_io ::
  "tracker_prims \<Rightarrow> 'w tracker_services \<Rightarrow> own_event_store \<Rightarrow> transition_event_v2 \<Rightarrow> ('w tw, unit, symphony_error) io" where
  "append_transition_io P S own event =
     io_bind (on_store P (append_transition (tp_prims P) (tp_codecs P) (ts_api S) own event)) (\<lambda>_. io_lift (Ok ()))"

definition v2_heartbeat ::
  "tracker_prims \<Rightarrow> 'w tracker_services \<Rightarrow> v2_tracker \<Rightarrow> claim \<Rightarrow> ('w tw, unit, symphony_error) io" where
  "v2_heartbeat P S V c =
     with_own_fence P S V c ''heartbeat'' (\<lambda>issue_id own out _ _.
       io_bind (tracker_now_utc S) (\<lambda>now. on_store P (put_heartbeat (ts_api S) own issue_id now)))"

definition v2_release ::
  "tracker_prims \<Rightarrow> 'w tracker_services \<Rightarrow> v2_tracker \<Rightarrow> claim \<Rightarrow> release_reason \<Rightarrow> ('w tw, unit, symphony_error) io" where
  "v2_release P S V c reason =
     with_own_fence P S V c ''release'' (\<lambda>issue_id own out claim_nonce claimed_event_hash.
       append_transition_io P S own (transition V out issue_id (TkRelease claim_nonce claimed_event_hash)))"

definition v2_block ::
  "tracker_prims \<Rightarrow> 'w tracker_services \<Rightarrow> v2_tracker \<Rightarrow> claim \<Rightarrow> release_reason \<Rightarrow> ('w tw, unit, symphony_error) io" where
  "v2_block P S V c reason =
     with_own_fence P S V c ''block'' (\<lambda>issue_id own out claim_nonce claimed_event_hash.
       let block_reason = (if rr_code reason = RcAwaitingApproval then AwaitingApproval
                           else OtherReason (release_reason_str (rr_code reason) @ '': '' @ rr_message reason))
       in append_transition_io P S own (transition V out issue_id (TkBlock claim_nonce claimed_event_hash block_reason)))"

definition handoff_event ::
  "v2_tracker \<Rightarrow> fold_output \<Rightarrow> string \<Rightarrow> string \<Rightarrow> string \<Rightarrow> handoff \<Rightarrow> handoff_event_v2" where
  "handoff_event V out issue_id claim_nonce claimed_event_hash h =
     (case next_chain_link out (vt_agent_id V) of (author_seq, prev_own_event_hash) \<Rightarrow>
      \<lparr>he_schema = V2_SCHEMA, he_kind = ''handoff'', he_list_uuid = lr_list_uuid (vt_list_ref V),
       he_genesis_manifest_hash = fo_genesis_hash out, he_roster_epoch = fo_latest_roster_epoch out, he_issue_id = issue_id,
       he_actor = vt_agent_id V, he_lamport = sat_add (fo_max_admitted_lamport out) 1, he_author_seq = author_seq,
       he_prev_own_event_hash = prev_own_event_hash, he_claim_nonce = claim_nonce, he_claimed_event_hash = claimed_event_hash,
       he_summary = ho_summary h, he_files_changed = ho_files_changed h, he_validation = map validation_to_v2 (ho_validation h),
       he_follow_up = ho_follow_up h, he_proofs_dir = ho_proofs_dir h\<rparr>)"

definition complete_event ::
  "v2_tracker \<Rightarrow> fold_output \<Rightarrow> string \<Rightarrow> string \<Rightarrow> string \<Rightarrow> string \<Rightarrow> transition_event_v2" where
  "complete_event V out issue_id claim_nonce claimed_event_hash handoff_hash =
     \<lparr>te_schema = V2_SCHEMA, te_list_uuid = lr_list_uuid (vt_list_ref V), te_genesis_manifest_hash = fo_genesis_hash out,
      te_roster_epoch = fo_latest_roster_epoch out, te_issue_id = issue_id, te_actor = vt_agent_id V,
      te_lamport = sat_add (fo_max_admitted_lamport out) 2,
      te_author_seq = sat_add (fst (next_chain_link out (vt_agent_id V))) 1, te_prev_own_event_hash = handoff_hash,
      te_kind = TkComplete claim_nonce claimed_event_hash\<rparr>"

definition v2_handoff ::
  "tracker_prims \<Rightarrow> 'w tracker_services \<Rightarrow> v2_tracker \<Rightarrow> claim \<Rightarrow> handoff \<Rightarrow> ('w tw, unit, symphony_error) io" where
  "v2_handoff P S V c h =
     with_own_fence P S V c ''handoff'' (\<lambda>issue_id own out claim_nonce claimed_event_hash.
       io_bind (on_store P (append_handoff (tp_prims P) (tp_codecs P) (ts_api S) own
                 (handoff_event V out issue_id claim_nonce claimed_event_hash h))) (\<lambda>handoff_hash.
       io_bind (append_transition_io P S own (complete_event V out issue_id claim_nonce claimed_event_hash handoff_hash)) (\<lambda>_.
       after (display_reconcile S V issue_id ActComplete))))"

section \<open>Requeue\<close>

definition requeue_approval ::
  "v2_tracker \<Rightarrow> fold_output \<Rightarrow> string \<Rightarrow> string \<Rightarrow> string \<Rightarrow> u64 \<Rightarrow> approval_payload_v2" where
  "requeue_approval V out issue_id block_event_hash claim_nonce now =
     \<lparr>apl_schema = V2_SCHEMA, apl_kind = ''approval'', apl_list_uuid = lr_list_uuid (vt_list_ref V),
      apl_genesis_manifest_hash = fo_genesis_hash out, apl_issue_id = issue_id, apl_block_event_hash = block_event_hash,
      apl_claim_nonce = claim_nonce, apl_approver = vt_agent_id V, apl_approved_at = now\<rparr>"

definition requeue_parked ::
  "tracker_prims \<Rightarrow> 'w tracker_services \<Rightarrow> v2_tracker \<Rightarrow> own_event_store \<Rightarrow> fold_output \<Rightarrow> string \<Rightarrow> string \<Rightarrow> string \<Rightarrow>
   ('w tw, unit, symphony_error) io" where
  "requeue_parked P S V own out issue_id claim_nonce block_event_hash =
     io_bind (tracker_now_secs S) (\<lambda>now.
     io_bind (io_lift (map_err (\<lambda>e. terr (''requeue approval encode failed: '' @ e))
               (tp_enc_requeue_approval P (requeue_approval V out issue_id block_event_hash claim_nonce now)))) (\<lambda>approval_payload.
     let approval_hash = sha256_hex (tp_prims P) approval_payload in
     io_bind (on_store P (sign_approval_payload (tp_codecs P) (ts_api S) own approval_payload)) (\<lambda>approval_envelope.
     append_transition_io P S own (transition V out issue_id (TkRequeue
       \<lparr>rq_block_event_hash = block_event_hash, rq_claim_nonce = claim_nonce, rq_approval_event_hash = approval_hash,
        rq_approval_payload_sha256 = approval_hash, rq_approver = vt_agent_id V, rq_approval = approval_envelope\<rparr>)))))"

definition requeue_blocked ::
  "tracker_prims \<Rightarrow> 'w tracker_services \<Rightarrow> v2_tracker \<Rightarrow> string \<Rightarrow> release_reason \<Rightarrow> ('w tw, unit, symphony_error) io" where
  "requeue_blocked P S V issue_id reason =
     io_bind (v2_own P S V) (\<lambda>own.
     io_bind (fold_view P S V) (\<lambda>out.
     io_bind (io_lift (ok_or (bt_get (fo_issues out) issue_id) (issue_missing issue_id))) (\<lambda>i.
     case is_status i of
       StBlocked _ claim_nonce _ block_event_hash block_reason \<Rightarrow>
         if block_reason \<noteq> AwaitingApproval
         then io_lift (Err (terr (''issue '' @ issue_id @ '' is blocked with a non-awaiting_approval reason; '' @
                ''refusing requeue (design r2 C6 '' @ [CHR 0xE2, CHR 0x80, CHR 0x94] @ '' admin repair is a new issue)'')))
         else requeue_parked P S V own out issue_id claim_nonce block_event_hash
     | _ \<Rightarrow> io_lift (Err (terr (''issue '' @ issue_id @ '' is not blocked (status: '' @ tp_show_status P (is_status i) @ '')''))))))"

section \<open>Approvals\<close>

definition load_approval_state ::
  "tracker_prims \<Rightarrow> 'w tracker_services \<Rightarrow> v2_tracker \<Rightarrow> string \<Rightarrow> ('w tw, approval_state, symphony_error) io" where
  "load_approval_state P S V issue_id =
     io_bind (fold_view P S V) (\<lambda>out.
     io_lift (Ok
       \<lparr>as_events = List.map_filter (\<lambda>a.
          if ae_issue_id (aa_approval a) \<noteq> issue_id then None
          else if ae_v1_record_json (aa_approval a) = [] then None
          else case tp_dec_v1_approval P (ae_v1_record_json (aa_approval a)) of Ok ev \<Rightarrow> Some ev | Err _ \<Rightarrow> None) (bt_values (fo_approvals out)),
        as_consumed = List.map_filter (\<lambda>ec.
          if ce_issue_id (ec_consume ec) \<noteq> issue_id then None
          else if ce_v1_record_json (ec_consume ec) = [] then None
          else case tp_dec_v1_consumed P (ce_v1_record_json (ec_consume ec)) of Ok r \<Rightarrow> Some r | Err _ \<Rightarrow> None) (bt_values (fo_effective_consumes out))\<rparr>))"

definition verdict_to_v2 :: "approval_verdict \<Rightarrow> approval_verdict_v2" where
  "verdict_to_v2 v = (case v of VApprove \<Rightarrow> Approve | VDeny \<Rightarrow> Deny)"

definition bridge_approval ::
  "tracker_prims \<Rightarrow> v2_tracker \<Rightarrow> fold_output \<Rightarrow> issue_state_v2 \<Rightarrow> approval_event \<Rightarrow> u64 \<Rightarrow> string \<Rightarrow> approval_event_v2" where
  "bridge_approval P V out st event approved_at v1_record_json =
     (case next_chain_link out (vt_agent_id V) of (author_seq, prev_own_event_hash) \<Rightarrow>
      \<lparr>ae_schema = V2_SCHEMA, ae_kind = ''dispatch_approval'', ae_list_uuid = lr_list_uuid (vt_list_ref V),
       ae_genesis_manifest_hash = fo_genesis_hash out, ae_roster_epoch = fo_latest_roster_epoch out,
       ae_issue_id = av_issue_id event, ae_open_event_hash = is_open_event_hash st, ae_actor = vt_agent_id V,
       ae_lamport = sat_add (fo_max_admitted_lamport out) 1, ae_author_seq = author_seq,
       ae_prev_own_event_hash = prev_own_event_hash, ae_verdict = verdict_to_v2 (av_verdict event),
       ae_entropy = sha256_hex (tp_prims P) (as_bytes (vt_agent_id V @ '':'' @ show_word author_seq @ '':'' @ av_issue_id event @ '':'' @
         show_word approved_at @ '':approval-bridge'')),
       ae_approved_at = approved_at, ae_v1_record_json = v1_record_json\<rparr>)"

definition store_approval ::
  "tracker_prims \<Rightarrow> 'w tracker_services \<Rightarrow> v2_tracker \<Rightarrow> approval_event \<Rightarrow> ('w tw, unit, symphony_error) io" where
  "store_approval P S V event =
     io_bind (io_lift (require_local_agent V (av_approver_agent_id event) ''approval'')) (\<lambda>_.
     io_bind (v2_own P S V) (\<lambda>own.
     io_bind (fold_view P S V) (\<lambda>out.
     io_bind (io_lift (ok_or (bt_get (fo_issues out) (av_issue_id event)) (issue_missing (av_issue_id event)))) (\<lambda>st.
     io_bind (project_issue S V out st) (\<lambda>projected.
     if content_hash (tp_prims P) (tp_core P) projected \<noteq> av_content_hash event
     then io_lift (Err (terr (''approval content hash '' @ av_content_hash event @ '' does not match the issue'' @ [CHR 0x27] @
            ''s current content; refusing to bind a stale approval'')))
     else
       io_bind (io_lift (map_err (\<lambda>e. terr (''approval approved_at did not parse: '' @ e)) (tp_timestamp P (av_approved_at event)))) (\<lambda>t.
       io_bind (io_lift (map_err (\<lambda>e. terr (''v1 approval carrier encode failed: '' @ e)) (tp_enc_v1_approval P event))) (\<lambda>v1_record_json.
       io_bind (on_store P (append_approval (tp_prims P) (tp_codecs P) (ts_api S) own
                 (bridge_approval P V out st event (timestamp_secs t) v1_record_json))) (\<lambda>_.
       io_lift (Ok ())))))))))"

definition bridge_consume ::
  "tracker_prims \<Rightarrow> v2_tracker \<Rightarrow> fold_output \<Rightarrow> approval_consumed \<Rightarrow> string \<Rightarrow> string \<Rightarrow> admitted_approval_v2 \<Rightarrow> string \<Rightarrow> consume_event_v2" where
  "bridge_consume P V out event claim_nonce claimed_event_hash candidate v1_record_json =
     (case next_chain_link out (vt_agent_id V) of (author_seq, prev_own_event_hash) \<Rightarrow>
      \<lparr>ce_schema = V2_SCHEMA, ce_kind = ''consume'', ce_list_uuid = lr_list_uuid (vt_list_ref V),
       ce_genesis_manifest_hash = fo_genesis_hash out, ce_roster_epoch = fo_latest_roster_epoch out,
       ce_issue_id = ac_issue_id event, ce_actor = vt_agent_id V, ce_lamport = sat_add (fo_max_admitted_lamport out) 1,
       ce_author_seq = author_seq, ce_prev_own_event_hash = prev_own_event_hash,
       ce_approval_event_hash = aa_event_hash candidate, ce_approval_payload_sha256 = aa_event_hash candidate,
       ce_approver = ae_actor (aa_approval candidate), ce_claim_nonce = claim_nonce, ce_claimed_event_hash = claimed_event_hash,
       ce_entropy = sha256_hex (tp_prims P) (as_bytes (vt_agent_id V @ '':'' @ show_word author_seq @ '':'' @ ac_nonce event @ '':consume-bridge'')),
       ce_v1_record_json = v1_record_json\<rparr>)"

text \<open>The verdict of the confirming view on our consume.\<close>

definition confirm_consumed :: "fold_output \<Rightarrow> string \<Rightarrow> string \<Rightarrow> (unit, symphony_error) result" where
  "confirm_consumed confirm approval_event_hash our_hash =
     (case bt_get (fo_effective_consumes confirm) approval_event_hash of
        Some winner \<Rightarrow>
          if ec_event_hash winner = our_hash then Ok ()
          else Err (terr (''approval '' @ approval_event_hash @ '' was consumed by a competing fold-ordered consume from '' @
                 ce_actor (ec_consume winner) @ ''; refusing dispatch (zero local executions)''))
      | None \<Rightarrow>
          Err (terr (''consumption of approval '' @ approval_event_hash @ '' was not effective: '' @
            (case find (\<lambda>d. cd_event_hash d = our_hash) (fo_losing_consumes confirm) of
               None \<Rightarrow> ''consume did not take effect''
             | Some d \<Rightarrow> cd_reason d))))"

definition settle :: "'w tracker_services \<Rightarrow> v2_tracker \<Rightarrow> 'w tw \<Rightarrow> 'w tw" where
  "settle S V = (\<lambda>(w, c). (if vt_settle V = 0 then w else ts_sleep S (vt_settle V) w, c))"

definition store_consumed ::
  "tracker_prims \<Rightarrow> 'w tracker_services \<Rightarrow> v2_tracker \<Rightarrow> approval_consumed \<Rightarrow> ('w tw, unit, symphony_error) io" where
  "store_consumed P S V event =
     io_bind (v2_own P S V) (\<lambda>own.
     io_bind (fold_view P S V) (\<lambda>out.
     io_bind (io_lift (ok_or (bt_get (fo_issues out) (ac_issue_id event)) (issue_missing (ac_issue_id event)))) (\<lambda>st.
     io_bind (io_lift (require_own_fence P V out (ac_issue_id event))) (\<lambda>(claim_nonce, claimed_event_hash).
     io_bind (project_issue S V out st) (\<lambda>projected.
     if content_hash (tp_prims P) (tp_core P) projected \<noteq> ac_content_hash event
     then io_lift (Err (terr (''consumption content hash does not match the issue'' @ [CHR 0x27] @ ''s current content'')))
     else
       io_bind (io_lift (case unconsumed_approvals out (ac_issue_id event) of
           [] \<Rightarrow> Err (terr (''no unconsumed approval exists for issue '' @ ac_issue_id event @ ''; refusing consumption''))
         | candidate # _ \<Rightarrow> Ok candidate)) (\<lambda>candidate.
       io_bind (io_lift (map_err (\<lambda>e. terr (''v1 consumed carrier encode failed: '' @ e)) (tp_enc_v1_consumed P event))) (\<lambda>v1_record_json.
       io_bind (on_store P (append_consume (tp_prims P) (tp_codecs P) (ts_api S) own
                 (bridge_consume P V out event claim_nonce claimed_event_hash candidate v1_record_json))) (\<lambda>our_hash.
       io_bind (after (settle S V)) (\<lambda>_.
       io_bind (fold_view P S V) (\<lambda>confirm.
       io_lift (confirm_consumed confirm (aa_event_hash candidate) our_hash)))))))))))"

end
