(* ===== verification/Effect_Laws.thy ===== *)
theory Effect_Laws
  imports Effects
begin

text \<open>
  What an operation does to the state, whatever its result. A relation \<open>le\<close> that is reflexive and transitive
  (an invariant that is kept, data that only grows) holds between the states before and after a composed
  operation when it holds for its parts; the locale gives the rules once, \<open>keeps_rules\<close> collects them.
\<close>

named_theorems keeps_rules \<open>an operation relates its final state to its initial state\<close>

definition keeps :: "('s \<Rightarrow> 's \<Rightarrow> bool) \<Rightarrow> ('s, 'a, 'e) io \<Rightarrow> bool" where
  "keeps le m \<longleftrightarrow> (\<forall>s. le s (snd (m s)))"

lemma keepsI: "(\<And>s r s'. m s = (r, s') \<Longrightarrow> le s s') \<Longrightarrow> keeps le m"
  unfolding keeps_def by (metis prod.collapse)

lemma keeps_apply: "keeps le m \<Longrightarrow> le s (snd (m s))"
  unfolding keeps_def by blast

lemma keepsD: "keeps le m \<Longrightarrow> m s = (r, s') \<Longrightarrow> le s s'"
  unfolding keeps_def by (metis snd_conv)

lemma keeps_if [keeps_rules]: "keeps le m \<Longrightarrow> keeps le m' \<Longrightarrow> keeps le (if b then m else m')"
  by simp

lemma keeps_case_prod [keeps_rules]: "(\<And>a b. keeps le (f a b)) \<Longrightarrow> keeps le (case p of (a, b) \<Rightarrow> f a b)"
  by (cases p) simp

lemma keeps_case_option [keeps_rules]: "keeps le m \<Longrightarrow> (\<And>x. keeps le (f x)) \<Longrightarrow> keeps le (case v of None \<Rightarrow> m | Some x \<Rightarrow> f x)"
  by (cases v) simp_all

lemma keeps_let [keeps_rules]: "(\<And>x. keeps le (f x)) \<Longrightarrow> keeps le (let x = v in f x)"
  by simp

locale state_preorder =
  fixes le :: "'s \<Rightarrow> 's \<Rightarrow> bool"
  assumes refl: "le s s"
    and trans: "le s s' \<Longrightarrow> le s' s'' \<Longrightarrow> le s s''"
begin

lemma keeps_lift: "keeps le (io_lift r)"
  by (simp add: keeps_def io_lift_def refl)

lemma keeps_bind:
  assumes "keeps le m" and "\<And>x. keeps le (f x)"
  shows "keeps le (io_bind m f)"
proof (rule keepsI)
  fix s r s'
  assume run: "io_bind m f s = (r, s')"
  obtain r1 s1 where m: "m s = (r1, s1)" by force
  with assms(1) have "le s s1" by (rule keepsD)
  moreover have "le s1 s'"
  proof (cases r1)
    case (Ok x)
    with run m have "f x s1 = (r, s')" by (simp add: io_bind_def)
    with assms(2) show ?thesis by (rule keepsD)
  qed (use run m refl in \<open>simp add: io_bind_def\<close>)
  ultimately show "le s s'" by (rule trans)
qed

lemma keeps_map_err: "keeps le m \<Longrightarrow> keeps le (io_map_err g m)"
  by (simp add: keeps_def io_map_err_def case_prod_unfold)

lemma keeps_steps: "(\<And>e s. e \<in> set es \<Longrightarrow> le s (step s e)) \<Longrightarrow> le s (foldl step s es)"
proof (induction es arbitrary: s)
  case (Cons e es)
  from Cons.prems have "le s (step s e)" by simp
  moreover have "le (step s e) (foldl step (step s e) es)" by (rule Cons.IH) (use Cons.prems in simp)
  ultimately show ?case using trans by simp
qed (simp add: refl)

end

end
