(* ===== verification/Tracker_Invariants.thy ===== *)
theory Tracker_Invariants
  imports V2_Tracker Effect_Laws
begin

text \<open>
  Two relations that every call of the v2 tracker respects, in every order and whatever it returns: the
  lazily filled cells stay well-formed, and the records of the event stores only grow. The calls are the
  data type \<open>tracker_call\<close>, \<open>run_call\<close> runs one and keeps the state. Both relations are instances of the
  locale \<open>state_preorder\<close>.
\<close>

section \<open>Calls\<close>

datatype tracker_call =
    CallEnsureSurfaces
  | CallListIssues
  | CallCreateIssue issue_draft
  | CallFetchCandidates poll_context
  | CallFetchByIds "string list"
  | CallFetchClaimed "string option"
  | CallClaim string string
  | CallHeartbeat claim
  | CallRelease claim release_reason
  | CallHandoff claim handoff
  | CallBlock claim release_reason
  | CallRequeue string release_reason
  | CallLoadApprovalState string
  | CallStoreApproval approval_event
  | CallStoreConsumed approval_consumed

fun run_call :: "tracker_prims \<Rightarrow> 'w tracker_services \<Rightarrow> v2_tracker \<Rightarrow> 'w tw \<Rightarrow> tracker_call \<Rightarrow> 'w tw" where
  "run_call P S V s CallEnsureSurfaces = snd (ensure_surfaces P S V s)"
| "run_call P S V s CallListIssues = snd (list_issues P S V s)"
| "run_call P S V s (CallCreateIssue d) = snd (create_issue P S V d s)"
| "run_call P S V s (CallFetchCandidates ctx) = snd (fetch_candidates P S V ctx s)"
| "run_call P S V s (CallFetchByIds ids) = snd (fetch_by_ids P S V ids s)"
| "run_call P S V s (CallFetchClaimed a) = snd (fetch_claimed P S V a s)"
| "run_call P S V s (CallClaim i a) = snd (v2_claim P S V i a s)"
| "run_call P S V s (CallHeartbeat c) = snd (v2_heartbeat P S V c s)"
| "run_call P S V s (CallRelease c r) = snd (v2_release P S V c r s)"
| "run_call P S V s (CallHandoff c h) = snd (v2_handoff P S V c h s)"
| "run_call P S V s (CallBlock c r) = snd (v2_block P S V c r s)"
| "run_call P S V s (CallRequeue i r) = snd (requeue_blocked P S V i r s)"
| "run_call P S V s (CallLoadApprovalState i) = snd (load_approval_state P S V i s)"
| "run_call P S V s (CallStoreApproval ev) = snd (store_approval P S V ev s)"
| "run_call P S V s (CallStoreConsumed ev) = snd (store_consumed P S V ev s)"

text \<open>A relation that the primitive actions respect is respected by every call.\<close>

locale tracker_relation = state_preorder le
  for le :: "'w tw \<Rightarrow> 'w tw \<Rightarrow> bool" +
  fixes P :: tracker_prims and S :: "'w tracker_services" and V :: v2_tracker
  assumes own: "keeps le (v2_own P S V)"
    and read_input: "keeps le (on_store P (read_fold_input (tp_prims P) (ts_api S) (vt_manager V) u creator))"
    and join_members: "keeps le (join_members P S V ms b)"
    and heartbeat_read: "le (w, c) (snd (read_heartbeat (ts_api S) u a i w), c)"
    and genesis: "keeps le (on_store P (publish_genesis (tp_prims P) (tp_codecs P) (ts_api S) own_store roster trust created))"
    and append: "keeps le (on_store P (append_record (tp_prims P) (tp_codecs P) (ts_api S) own_store what actor u enc ctx key_of))"
    and sign: "keeps le (on_store P (sign_approval_payload (tp_codecs P) (ts_api S) own_store bs))"
    and heartbeat: "keeps le (on_store P (put_heartbeat (ts_api S) own_store i t))"
    and peer: "le (w, c) (snd (join_peer_store (ts_api S) (vt_manager V) u a w), c)"
    and utc: "keeps le (tracker_now_utc S)"
    and secs: "keeps le (tracker_now_secs S)"
    and settled: "le s (settle S V s)"
    and display_list: "le s (snd (ensure_display_list S V s))"
    and display_add: "le s (display_add_issue S V i title spec s)"
    and display_update: "le s (display_reconcile S V i act s)"
begin

lemma keeps_after: "(\<And>s. le s (f s)) \<Longrightarrow> keeps le (after f)"
  by (simp add: keeps_def after_def)

lemmas basic = keeps_lift keeps_bind keeps_map_err keeps_rules keeps_after own read_input join_members genesis append sign heartbeat
  utc secs settled display_list display_add display_update

lemma appends:
  "keeps le (on_store P (append_transition (tp_prims P) (tp_codecs P) (ts_api S) own_store ev))"
  "keeps le (on_store P (append_approval (tp_prims P) (tp_codecs P) (ts_api S) own_store ev2))"
  "keeps le (on_store P (append_consume (tp_prims P) (tp_codecs P) (ts_api S) own_store ev3))"
  "keeps le (on_store P (append_handoff (tp_prims P) (tp_codecs P) (ts_api S) own_store ev4))"
  by (simp_all add: append_transition_def append_approval_def append_consume_def append_handoff_def append)

lemma read_and_fold: "keeps le (read_and_fold P S V)"
  unfolding read_and_fold_def by (intro basic)

lemma fold_view_passes: "keeps le (fold_view_passes P S V n out)"
proof (induction n arbitrary: out)
  case 0
  show ?case unfolding fold_view_passes.simps join_new_members_def by (intro basic)
next
  case (Suc n)
  show ?case unfolding fold_view_passes.simps join_new_members_def by (intro basic read_and_fold Suc)
qed

lemma fold_view: "keeps le (fold_view P S V)"
  unfolding fold_view_def by (intro basic read_and_fold fold_view_passes)

lemma project_issue: "keeps le (project_issue S V out st)"
proof -
  have "le (w, c) (snd ((\<lambda>(w, c). case read_heartbeat (ts_api S) (lr_list_uuid (vt_list_ref V)) claimant (is_issue_id st) w of
      (hb, w') \<Rightarrow> let heartbeat = (case hb of Some t \<Rightarrow> t | None \<Rightarrow> EPOCH_RFC3339) in
        (and_then (agent_id_new claimant) (\<lambda>agent. Ok (attach_handoff out st (attach_claim i agent heartbeat))), (w', c))) (w, c)))"
    for w c claimant i
    using heartbeat_read by (simp add: case_prod_unfold Let_def)
  then have "keeps le (\<lambda>(w, c). case read_heartbeat (ts_api S) (lr_list_uuid (vt_list_ref V)) claimant (is_issue_id st) w of
      (hb, w') \<Rightarrow> let heartbeat = (case hb of Some t \<Rightarrow> t | None \<Rightarrow> EPOCH_RFC3339) in
        (and_then (agent_id_new claimant) (\<lambda>agent. Ok (attach_handoff out st (attach_claim i agent heartbeat))), (w', c)))" for claimant i
    by (simp add: keeps_def)
  then show ?thesis unfolding project_issue_def by (cases "is_status st") (auto intro: keeps_bind keeps_lift)
qed

lemma project_issues: "keeps le (project_issues S V out sts)"
  by (induction sts) (simp_all only: project_issues.simps, (intro basic project_issue | assumption)+)

lemma list_issues: "keeps le (list_issues P S V)"
  unfolding list_issues_def project_all_def by (intro basic fold_view project_issues)

lemma own_fence: "(\<And>i own_store out n h. keeps le (body i own_store out n h)) \<Longrightarrow> keeps le (with_own_fence P S V c what body)"
  unfolding with_own_fence_def by (intro basic fold_view) simp

lemma transition_io: "keeps le (append_transition_io P S own_store ev)"
  unfolding append_transition_io_def by (intro basic appends)

lemma after_join: "keeps le (after (after_store (join_peer_store (ts_api S) (vt_manager V) u a)))"
  by (rule keeps_after) (use peer in \<open>simp add: after_store_def case_prod_unfold split_paired_all\<close>)

lemma after_heartbeat: "keeps le (after (after_store (put_heartbeat (ts_api S) own_store i t)))"
proof (rule keeps_after)
  fix s :: "'w tw"
  obtain w c where s: "s = (w, c)" by force
  have "le s (snd (on_store P (put_heartbeat (ts_api S) own_store i t) s))" by (rule keeps_apply) (rule heartbeat)
  then show "le s (after_store (put_heartbeat (ts_api S) own_store i t) s)"
    by (simp add: s after_store_def on_store_def case_prod_unfold)
qed

lemma after_view: "keeps le (after (\<lambda>s. snd (fold_view P S V s)))"
  by (rule keeps_after) (rule keeps_apply [OF fold_view])

lemmas composed = basic read_and_fold fold_view project_issue project_issues list_issues own_fence transition_io after_join
  after_heartbeat after_view appends

lemma requeue: "keeps le (requeue_blocked P S V i r)"
proof -
  have "keeps le (requeue_parked P S V own_store out i n h)" for own_store out n h
    unfolding requeue_parked_def by (intro composed)
  then have "keeps le (case is_status st of
       StBlocked _ claim_nonce _ block_event_hash block_reason \<Rightarrow>
         if block_reason \<noteq> AwaitingApproval
         then io_lift (Err (terr (''issue '' @ i @ '' is blocked with a non-awaiting_approval reason; '' @
                ''refusing requeue (design r2 C6 '' @ [CHR 0xE2, CHR 0x80, CHR 0x94] @ '' admin repair is a new issue)'')))
         else requeue_parked P S V own_store out i claim_nonce block_event_hash
     | _ \<Rightarrow> io_lift (Err (terr (''issue '' @ i @ '' is not blocked (status: '' @ tp_show_status P (is_status st) @ '')''))))" for own_store out st
    by (cases "is_status st") (simp_all only: issue_status_v2.case keeps_lift keeps_if)
  then show ?thesis unfolding requeue_blocked_def by (intro composed)
qed

lemma run_call_le: "le s (run_call P S V s call)"
proof (cases call)
  case CallEnsureSurfaces
  show ?thesis unfolding CallEnsureSurfaces run_call.simps ensure_surfaces_def publish_own_genesis_def
    by (rule keeps_apply) (intro composed)
next
  case CallListIssues
  show ?thesis unfolding CallListIssues run_call.simps by (rule keeps_apply) (intro composed)
next
  case (CallCreateIssue d)
  show ?thesis unfolding CallCreateIssue run_call.simps create_issue_def by (rule keeps_apply) (intro composed)
next
  case (CallFetchCandidates ctx)
  show ?thesis unfolding CallFetchCandidates run_call.simps fetch_candidates_def by (rule keeps_apply) (intro composed)
next
  case (CallFetchByIds ids)
  show ?thesis unfolding CallFetchByIds run_call.simps fetch_by_ids_def by (rule keeps_apply) (intro composed)
next
  case (CallFetchClaimed a)
  show ?thesis unfolding CallFetchClaimed run_call.simps fetch_claimed_def by (rule keeps_apply) (intro composed)
next
  case (CallClaim i a)
  show ?thesis unfolding CallClaim run_call.simps v2_claim_def by (rule keeps_apply) (intro composed)
next
  case (CallHeartbeat c)
  show ?thesis unfolding CallHeartbeat run_call.simps v2_heartbeat_def by (rule keeps_apply) (intro composed)
next
  case (CallRelease c r)
  show ?thesis unfolding CallRelease run_call.simps v2_release_def by (rule keeps_apply) (intro composed)
next
  case (CallHandoff c h)
  show ?thesis unfolding CallHandoff run_call.simps v2_handoff_def by (rule keeps_apply) (intro composed)
next
  case (CallBlock c r)
  show ?thesis unfolding CallBlock run_call.simps v2_block_def by (rule keeps_apply) (intro composed)
next
  case (CallRequeue i r)
  show ?thesis unfolding CallRequeue run_call.simps by (rule keeps_apply) (rule requeue)
next
  case (CallLoadApprovalState i)
  show ?thesis unfolding CallLoadApprovalState run_call.simps load_approval_state_def by (rule keeps_apply) (intro composed)
next
  case (CallStoreApproval ev)
  show ?thesis unfolding CallStoreApproval run_call.simps store_approval_def by (rule keeps_apply) (intro composed)
next
  case (CallStoreConsumed ev)
  show ?thesis unfolding CallStoreConsumed run_call.simps store_consumed_def by (rule keeps_apply) (intro composed)
qed

lemma run_calls_le: "le s (foldl (run_call P S V) s calls)"
  by (rule keeps_steps) (rule run_call_le)

end

section \<open>The cells stay well-formed\<close>

text \<open>The bound store is the configured agent's own store on this list, under the key that derives to the agent id,
  and anchored; the joined members are an ascending set of other agents whose stores are anchored.\<close>

definition own_wf :: "tracker_prims \<Rightarrow> 'w store_api \<Rightarrow> v2_tracker \<Rightarrow> own_event_store \<Rightarrow> bool" where
  "own_wf P A V own \<longleftrightarrow> os_agent_id own = vt_agent_id V \<and> os_list_uuid own = lr_list_uuid (vt_list_ref V) \<and>
     os_topic own = event_store_topic (lr_list_uuid (vt_list_ref V)) (vt_agent_id V) \<and>
     derive_agent_id_hex (tp_prims P) (os_public_key own) = vt_agent_id V \<and> os_policy own = sm_mode (vt_manager V) \<and>
     anchored A (sm_mode (vt_manager V)) (os_topic own) (vt_agent_id V)"

definition joined_wf :: "'w store_api \<Rightarrow> v2_tracker \<Rightarrow> string btree_set \<Rightarrow> bool" where
  "joined_wf A V ms \<longleftrightarrow> bset_wf ms \<and> (\<forall>m \<in> set ms. m \<noteq> vt_agent_id V \<and>
     anchored A (sm_mode (vt_manager V)) (event_store_topic (lr_list_uuid (vt_list_ref V)) m) m)"

definition cells_wf :: "tracker_prims \<Rightarrow> 'w store_api \<Rightarrow> v2_tracker \<Rightarrow> v2_cells \<Rightarrow> bool" where
  "cells_wf P A V c \<longleftrightarrow> pred_option (own_wf P A V) (vc_own c) \<and> joined_wf A V (vc_joined c)"

definition cells_kept :: "tracker_prims \<Rightarrow> 'w tracker_services \<Rightarrow> v2_tracker \<Rightarrow> 'w tw \<Rightarrow> 'w tw \<Rightarrow> bool" where
  "cells_kept P S V s s' \<longleftrightarrow> (cells_wf P (ts_api S) V (snd s) \<longrightarrow> cells_wf P (ts_api S) V (snd s'))"

lemma cells_wf_new [simp]: "cells_wf P A V v2_cells_new"
  by (simp add: cells_wf_def v2_cells_new_def joined_wf_def bset_wf_def)

lemma cells_kept_same [simp]: "cells_kept P S V s (w', snd s)" "cells_kept P S V (w, c) (w', c)"
  by (simp_all add: cells_kept_def)

lemma ensure_own_store_wf:
  assumes "ensure_own_store (tp_prims P) A (vt_manager V) (lr_list_uuid (vt_list_ref V)) w = (Ok own, w')"
    and "os_agent_id own = vt_agent_id V"
  shows "own_wf P A V own"
  using assms unfolding ensure_own_store_def own_wf_def
  by (auto simp: io_bind_Ok_iff Let_def split: if_split_asm dest: verify_store_anchor_Ok)

lemma join_peer_store_anchored:
  "join_peer_store A M u m w = (Ok t, w') \<Longrightarrow> t = event_store_topic u m \<and> anchored A (sm_mode M) (event_store_topic u m) m"
  by (auto simp: join_peer_store_def io_bind_Ok_iff Let_def dest: verify_store_anchor_Ok)

lemma on_store_cells: "keeps (cells_kept P S V) (on_store P m)"
  by (auto simp: keeps_def on_store_def case_prod_unfold)

lemma own_cells: "keeps (cells_kept P S V) (v2_own P S V)"
  by (rule keepsI)
    (auto simp: v2_own_def cells_kept_def cells_wf_def split: option.splits result.splits prod.splits if_splits intro: ensure_own_store_wf)

lemma joined_wf_insert:
  assumes "joined_wf A V ms" and "m \<noteq> vt_agent_id V" and "anchored A (sm_mode (vt_manager V)) (event_store_topic (lr_list_uuid (vt_list_ref V)) m) m"
  shows "joined_wf A V (bset_insert m ms)"
  using assms by (auto simp: joined_wf_def set_bset_insert)

lemma join_members_cells: "cells_wf P (ts_api S) V c \<Longrightarrow> join_members P S V ms b (w, c) = (r, (w', c')) \<Longrightarrow> cells_wf P (ts_api S) V c'"
proof (induction ms arbitrary: b w c)
  case (Cons m ms)
  obtain j w1 where j: "join_peer_store (ts_api S) (vt_manager V) (lr_list_uuid (vt_list_ref V)) m w = (j, w1)" by force
  show ?case
  proof (cases "m = vt_agent_id V \<or> m \<in> set (vc_joined c)")
    case True
    with Cons.prems Cons.IH show ?thesis by auto
  next
    case False
    show ?thesis
    proof (cases j)
      case (Ok t)
      have "cells_wf P (ts_api S) V (c\<lparr>vc_joined := bset_insert m (vc_joined c)\<rparr>)"
        using Cons.prems(1) False join_peer_store_anchored [OF j [unfolded Ok]]
        by (simp add: cells_wf_def joined_wf_insert)
      then show ?thesis using Cons.prems(2) False j Ok Cons.IH by (simp split: prod.splits)
    next
      case (Err e)
      then show ?thesis using Cons.prems False j Cons.IH by (auto split: v2_store_error.splits)
    qed
  qed
qed simp

lemma display_cells: "cells_kept P S V s (snd (ensure_display_list S V s))"
  by (auto simp: ensure_display_list_def cells_kept_def cells_wf_def Let_def split: prod.splits option.splits result.splits)

lemma display_ops_cells:
  "cells_kept P S V s (display_add_issue S V i title spec s)" "cells_kept P S V s (display_reconcile S V i act s)"
  using display_cells [of P S V s]
  by (auto simp: display_add_issue_def display_reconcile_def cells_kept_def split: prod.splits option.splits result.splits)

interpretation cells: tracker_relation "cells_kept P S V" P S V for P S V
proof unfold_locales
  show "keeps (cells_kept P S V) (join_members P S V ms b)" for ms b
    by (rule keepsI) (auto simp: cells_kept_def split_paired_all dest: join_members_cells)
  show "keeps (cells_kept P S V) (tracker_now_utc S)" "keeps (cells_kept P S V) (tracker_now_secs S)"
    by (auto simp: keeps_def tracker_now_utc_def tracker_now_secs_def case_prod_unfold)
  show "cells_kept P S V s (settle S V s)" for s by (simp add: settle_def case_prod_unfold)
qed (rule on_store_cells own_cells display_cells display_ops_cells | simp add: cells_kept_def)+

section \<open>The event stores only grow\<close>

text \<open>\<open>contents w (topic, key)\<close> is what the daemon holds in the world \<open>w\<close>. Documented behaviour of the daemon: a read
  returns it and leaves it alone, an accepted write changes one key, everything else (creation, joining,
  listing, signing, replication while a call sleeps, the task list behind the display) keeps the records
  of the event stores.\<close>

definition is_event_topic :: "string \<Rightarrow> bool" where
  "is_event_topic t = prefix ''symphony2-ev-'' t"

definition grows :: "('w \<Rightarrow> string \<times> string \<Rightarrow> bytes option) \<Rightarrow> 'w \<Rightarrow> 'w \<Rightarrow> bool" where
  "grows contents w w' \<longleftrightarrow> (\<forall>t k v. is_event_topic t \<longrightarrow> contents w (t, k) = Some v \<longrightarrow> contents w' (t, k) = Some v)"

definition store_faithful :: "'w store_api \<Rightarrow> ('w \<Rightarrow> string \<times> string \<Rightarrow> bytes option) \<Rightarrow> bool" where
  "store_faithful A contents \<longleftrightarrow>
     (\<forall>t k w r w'. api_get A t k w = (r, w') \<longrightarrow> contents w' = contents w \<and> (\<forall>v. r = Ok v \<longrightarrow> v = contents w (t, k))) \<and>
     (\<forall>t k v ct w r w'. api_put A t k v ct w = (r, w') \<longrightarrow> contents w' = contents w \<or> contents w' = (contents w)((t, k) \<mapsto> v)) \<and>
     (\<forall>n t p. keeps (grows contents) (api_create A n t p)) \<and> (\<forall>t a. keeps (grows contents) (api_join A t a)) \<and>
     (\<forall>t. keeps (grows contents) (api_detail A t)) \<and> (\<forall>t. keeps (grows contents) (api_list_keys A t)) \<and>
     (\<forall>c p. keeps (grows contents) (api_sign A c p))"

definition display_faithful :: "'w x0xd_api \<Rightarrow> ('w \<Rightarrow> string \<times> string \<Rightarrow> bytes option) \<Rightarrow> bool" where
  "display_faithful D contents \<longleftrightarrow>
     (\<forall>n t. keeps (grows contents) (xd_create_task_list D n t)) \<and> keeps (grows contents) (xd_list_task_lists D) \<and>
     (\<forall>l d. keeps (grows contents) (xd_add_task D l d)) \<and> (\<forall>l. keeps (grows contents) (xd_list_tasks D l)) \<and>
     (\<forall>l t a. keeps (grows contents) (xd_update_task D l t a))"

definition services_faithful :: "'w tracker_services \<Rightarrow> ('w \<Rightarrow> string \<times> string \<Rightarrow> bytes option) \<Rightarrow> bool" where
  "services_faithful S contents \<longleftrightarrow> store_faithful (ts_api S) contents \<and> pred_option (\<lambda>D. display_faithful D contents) (ts_display S) \<and>
     (\<forall>w. grows contents w (snd (ts_now_utc S w))) \<and> (\<forall>w. grows contents w (snd (ts_now_timestamp S w))) \<and>
     (\<forall>d w. grows contents w (ts_sleep S d w))"

interpretation grow: state_preorder "grows contents" for contents
  by unfold_locales (auto simp: grows_def)

lemma event_topics [simp]: "is_event_topic (event_store_topic u a)" "\<not> is_event_topic (heartbeat_store_topic u a)"
  by (simp_all add: is_event_topic_def event_store_topic_def heartbeat_store_topic_def)

lemma store_faithful_get:
  "store_faithful A contents \<Longrightarrow> api_get A t k w = (r, w') \<Longrightarrow> contents w' = contents w \<and> (\<forall>v. r = Ok v \<longrightarrow> v = contents w (t, k))"
  by (simp add: store_faithful_def)

lemma store_faithful_put:
  "store_faithful A contents \<Longrightarrow> api_put A t k v ct w = (r, w') \<Longrightarrow> contents w' = contents w \<or> contents w' = (contents w)((t, k) \<mapsto> v)"
  by (simp add: store_faithful_def)

lemma store_grows:
  assumes "store_faithful A contents"
  shows "keeps (grows contents) (api_create A n t p)" "keeps (grows contents) (api_join A t a)"
    "keeps (grows contents) (api_detail A t)" "keeps (grows contents) (api_list_keys A t)"
    "keeps (grows contents) (api_sign A c bs)" "keeps (grows contents) (api_get A t k)"
proof -
  show "keeps (grows contents) (api_get A t k)"
    by (rule keepsI) (use store_faithful_get [OF assms] in \<open>auto simp: grows_def\<close>)
qed (use assms in \<open>simp_all add: store_faithful_def\<close>)

lemma grows_put_fresh:
  assumes "store_faithful A contents" and "api_put A t k v ct w = (r, w')" and "is_event_topic t \<Longrightarrow> contents w (t, k) = None"
  shows "grows contents w w'"
  using store_faithful_put [OF assms(1,2)] assms(3) by (auto simp: grows_def)

lemma tolerate_conflict_grows: "keeps (grows contents) m \<Longrightarrow> keeps (grows contents) (tolerate_conflict m)"
  by (rule keepsI) (auto simp: tolerate_conflict_def split: prod.splits result.splits if_splits dest: keepsD)

text \<open>A write that follows a read of the same key that found nothing.\<close>

lemma guarded_put_grows:
  assumes "store_faithful A contents" and "\<And>v. keeps (grows contents) (f v)"
  shows "keeps (grows contents) (io_bind (io_map_err g (api_get A t k)) (\<lambda>existing.
    case existing of Some v \<Rightarrow> f v | None \<Rightarrow> io_map_err h (api_put A t k bs ct)))"
proof (rule keepsI)
  fix w r w'
  assume run: "io_bind (io_map_err g (api_get A t k)) (\<lambda>existing. case existing of Some v \<Rightarrow> f v | None \<Rightarrow> io_map_err h (api_put A t k bs ct)) w = (r, w')"
  obtain got w1 where got: "api_get A t k w = (got, w1)" by force
  note read = store_faithful_get [OF assms(1) got]
  then have g: "grows contents w w1" by (simp add: grows_def)
  show "grows contents w w'"
  proof (cases got)
    case (Ok existing)
    show ?thesis
    proof (cases existing)
      case None
      with Ok read have free: "contents w1 (t, k) = None" by simp
      obtain r1 w2 where put: "api_put A t k bs ct w1 = (r1, w2)" by force
      with run got Ok None have "w2 = w'" by (simp add: io_bind_def io_map_err_def)
      with put have "api_put A t k bs ct w1 = (r1, w')" by simp
      then have "grows contents w1 w'" by (rule grows_put_fresh [OF assms(1)]) (rule free)
      with g show ?thesis by (rule grow.trans)
    next
      case (Some v)
      with run got Ok have "f v w1 = (r, w')" by (simp add: io_bind_def io_map_err_def)
      with assms(2) have "grows contents w1 w'" by (rule keepsD)
      with g show ?thesis by (rule grow.trans)
    qed
  qed (use run got g in \<open>simp add: io_bind_def io_map_err_def\<close>)
qed

lemmas grow_basic = grow.keeps_lift grow.keeps_bind grow.keeps_map_err keeps_rules

lemma verify_store_anchor_grows: "store_faithful A contents \<Longrightarrow> keeps (grows contents) (verify_store_anchor A M t a)"
  unfolding verify_store_anchor_def by (intro grow_basic store_grows)

lemma put_once_grows: "store_faithful A contents \<Longrightarrow> keeps (grows contents) (put_once K A t k env)"
  unfolding put_once_def option.case_eq_if [symmetric] by (intro guarded_put_grows grow_basic)

lemma sign_envelope_grows: "store_faithful A contents \<Longrightarrow> keeps (grows contents) (sign_envelope K A own c bs)"
  unfolding sign_envelope_def by (intro grow_basic store_grows)

lemma append_record_grows: "store_faithful A contents \<Longrightarrow> keeps (grows contents) (append_record P K A own what actor u enc c key_of)"
  unfolding append_record_def by (intro grow_basic sign_envelope_grows put_once_grows)

lemma publish_genesis_grows: "store_faithful A contents \<Longrightarrow> keeps (grows contents) (publish_genesis P K A own roster trust t)"
  unfolding publish_genesis_def by (intro grow_basic sign_envelope_grows put_once_grows)

lemma join_peer_store_grows: "store_faithful A contents \<Longrightarrow> keeps (grows contents) (join_peer_store A M u a)"
  unfolding join_peer_store_def by (intro grow_basic tolerate_conflict_grows store_grows verify_store_anchor_grows)

lemma put_heartbeat_grows: "store_faithful A contents \<Longrightarrow> keeps (grows contents) (put_heartbeat A own i t)"
proof -
  assume f: "store_faithful A contents"
  have "keeps (grows contents) (api_put A (heartbeat_store_topic u a) k v ct)" for u a k v ct
    by (rule keepsI) (rule grows_put_fresh [OF f], assumption, simp)
  with f show ?thesis unfolding put_heartbeat_def Let_def by (intro grow_basic tolerate_conflict_grows store_grows)
qed

lemma card_grows:
  assumes "store_faithful A contents"
  shows "keeps (grows contents) (io_bind (io_map_err SeClient (api_get A t k)) (\<lambda>existing.
      io_bind (case existing of Some v \<Rightarrow> if v = pk then io_lift (Ok ()) else io_lift (Err (SeImmutableConflict t k))
        | None \<Rightarrow> io_map_err SeClient (api_put A t k pk CARD_SELF_CONTENT_TYPE)) (\<lambda>_. io_lift (Ok own))))"
proof -
  have "keeps (grows contents) (io_bind (io_bind (io_map_err SeClient (api_get A t k)) (\<lambda>existing.
      case existing of Some v \<Rightarrow> if v = pk then io_lift (Ok ()) else io_lift (Err (SeImmutableConflict t k))
        | None \<Rightarrow> io_map_err SeClient (api_put A t k pk CARD_SELF_CONTENT_TYPE))) (\<lambda>_. io_lift (Ok own)))"
    by (intro grow.keeps_bind [OF guarded_put_grows [OF assms]] grow_basic)
  then show ?thesis by (simp add: io_bind_assoc)
qed

lemma ensure_own_store_grows: "store_faithful A contents \<Longrightarrow> keeps (grows contents) (ensure_own_store P A M u)"
  unfolding ensure_own_store_def Let_def
  by (rule card_grows grow_basic store_grows tolerate_conflict_grows verify_store_anchor_grows | assumption)+

text \<open>Reads.\<close>

lemma read_records_grows:
  assumes "store_faithful A contents"
  shows "keeps (grows contents) (read_records A lim a t ks acard recs)"
proof (induction ks arbitrary: acard recs)
  case (Cons k ks)
  show ?case unfolding read_records.simps by (intro grow_basic store_grows [OF assms] Cons.IH)
qed (simp only: read_records.simps grow.keeps_lift)

lemma read_author_stream_grows: "store_faithful A contents \<Longrightarrow> keeps (grows contents) (read_author_stream A M u a)"
  unfolding read_author_stream_def by (intro grow_basic store_grows verify_store_anchor_grows read_records_grows)

lemma read_member_streams_grows:
  assumes "store_faithful A contents"
  shows "keeps (grows contents) (read_member_streams A M u creator ms ss)"
proof (induction ms arbitrary: ss)
  case Nil
  show ?case unfolding read_member_streams.simps by (rule grow.keeps_lift)
next
  case (Cons m ms)
  have "keeps (grows contents) (\<lambda>w. case read_author_stream A M u m w of
        (Ok stream, w') \<Rightarrow> read_member_streams A M u creator ms (ss @ [stream]) w'
      | (Err e, w') \<Rightarrow>
          (case e of
             SeClient ce \<Rightarrow> if is_http_not_found ce then read_member_streams A M u creator ms ss w' else (Err e, w')
           | SeNotFound _ \<Rightarrow> read_member_streams A M u creator ms ss w'
           | _ \<Rightarrow> (Err e, w')))"
  proof (rule keepsI)
    fix w r w'
    obtain r1 w1 where rd: "read_author_stream A M u m w = (r1, w1)" by force
    with read_author_stream_grows [OF assms] have g: "grows contents w w1" by (rule keepsD)
    have step: "grows contents w w'" if "read_member_streams A M u creator ms ss' w1 = (r, w')" for ss'
      using g keepsD [OF Cons.IH that] by (rule grow.trans)
    assume "(case read_author_stream A M u m w of
        (Ok stream, w') \<Rightarrow> read_member_streams A M u creator ms (ss @ [stream]) w'
      | (Err e, w') \<Rightarrow>
          (case e of
             SeClient ce \<Rightarrow> if is_http_not_found ce then read_member_streams A M u creator ms ss w' else (Err e, w')
           | SeNotFound _ \<Rightarrow> read_member_streams A M u creator ms ss w'
           | _ \<Rightarrow> (Err e, w'))) = (r, w')"
    with rd g show "grows contents w w'"
      by (auto split: result.splits v2_store_error.splits if_splits dest: step)
  qed
  with Cons.IH show ?case unfolding read_member_streams.simps by (intro keeps_if)
qed

lemma read_fold_input_grows: "store_faithful A contents \<Longrightarrow> keeps (grows contents) (read_fold_input P A M u creator)"
  unfolding read_fold_input_def by (intro grow_basic read_author_stream_grows read_member_streams_grows)

lemma read_heartbeat_grows: "store_faithful A contents \<Longrightarrow> grows contents w (snd (read_heartbeat A u a i w))"
  using keepsD [OF store_grows(6)] by (auto simp: read_heartbeat_def split: prod.splits result.splits option.splits)

lemma join_peer_heartbeats_grows: "store_faithful A contents \<Longrightarrow> keeps (grows contents) (join_peer_heartbeats A u a)"
  unfolding join_peer_heartbeats_def by (intro tolerate_conflict_grows store_grows)

text \<open>The tracker's state: the world with the cells.\<close>

definition tracker_grows :: "'w tracker_services \<Rightarrow> ('w \<Rightarrow> string \<times> string \<Rightarrow> bytes option) \<Rightarrow> 'w tw \<Rightarrow> 'w tw \<Rightarrow> bool" where
  "tracker_grows S contents s s' \<longleftrightarrow> (services_faithful S contents \<longrightarrow> grows contents (fst s) (fst s'))"

lemma on_store_grows:
  "(store_faithful (ts_api S) contents \<Longrightarrow> keeps (grows contents) m) \<Longrightarrow> keeps (tracker_grows S contents) (on_store P m)"
  by (auto simp: keeps_def tracker_grows_def on_store_def services_faithful_def case_prod_unfold)

lemma join_members_grows:
  assumes "services_faithful S contents"
  shows "keeps (\<lambda>s s'. grows contents (fst s) (fst s')) (join_members P S V ms b)"
proof (induction ms arbitrary: b)
  case (Cons m ms)
  have f: "store_faithful (ts_api S) contents" using assms by (simp add: services_faithful_def)
  show ?case
  proof (rule keepsI)
    fix s r s'
    assume run: "join_members P S V (m # ms) b s = (r, s')"
    obtain w c where s: "s = (w, c)" by force
    obtain j w1 where j: "join_peer_store (ts_api S) (vt_manager V) (lr_list_uuid (vt_list_ref V)) m w = (j, w1)" by force
    obtain h w2 where h: "join_peer_heartbeats (ts_api S) (lr_list_uuid (vt_list_ref V)) m w1 = (h, w2)" by force
    have 1: "grows contents w w1" using join_peer_store_grows [OF f] j by (rule keepsD)
    moreover have "grows contents w1 w2" using join_peer_heartbeats_grows [OF f] h by (rule keepsD)
    ultimately have 2: "grows contents w w2" by (rule grow.trans)
    have rest: "grows contents w (fst s')" if "join_members P S V ms b' (w3, c') = (r, s')" "grows contents w w3" for b' w3 c'
      using that(2) keepsD [OF Cons.IH that(1)] by (simp add: grow.trans)
    from run show "grows contents (fst s) (fst s')"
      using 1 by (auto simp: s j h rest [OF _ 1] rest [OF _ 2] rest [OF _ grow.refl] split: if_splits result.splits v2_store_error.splits)
  qed
qed (simp add: keeps_def io_lift_def grow.refl)

lemma display_step_grows:
  assumes "services_faithful S contents" and "ts_display S = Some D"
  shows "xd_create_task_list D n t w = (r1, w') \<Longrightarrow> grows contents w w'" "xd_list_task_lists D w = (r2, w') \<Longrightarrow> grows contents w w'"
    "xd_add_task D l d w = (r3, w') \<Longrightarrow> grows contents w w'" "xd_list_tasks D l w = (r4, w') \<Longrightarrow> grows contents w w'"
    "xd_update_task D l x act w = (r5, w') \<Longrightarrow> grows contents w w'"
proof -
  from assms have "keeps (grows contents) (xd_create_task_list D n t)" "keeps (grows contents) (xd_list_task_lists D)"
    "keeps (grows contents) (xd_add_task D l d)" "keeps (grows contents) (xd_list_tasks D l)" "keeps (grows contents) (xd_update_task D l x act)"
    by (simp_all add: services_faithful_def display_faithful_def)
  then show "xd_create_task_list D n t w = (r1, w') \<Longrightarrow> grows contents w w'" "xd_list_task_lists D w = (r2, w') \<Longrightarrow> grows contents w w'"
    "xd_add_task D l d w = (r3, w') \<Longrightarrow> grows contents w w'" "xd_list_tasks D l w = (r4, w') \<Longrightarrow> grows contents w w'"
    "xd_update_task D l x act w = (r5, w') \<Longrightarrow> grows contents w w'" by (blast intro: keepsD)+
qed

lemma ensure_display_list_grows:
  assumes "services_faithful S contents" and "ensure_display_list S V (w, c) = (r, s')"
  shows "grows contents w (fst s')"
proof (cases "ts_display S")
  case None
  with assms(2) show ?thesis by (auto simp: ensure_display_list_def grow.refl)
next
  case (Some D)
  show ?thesis using assms(2) Some
    by (auto simp: ensure_display_list_def Let_def grow.refl split: option.splits prod.splits result.splits
        dest!: display_step_grows(1,2) [OF assms(1) Some] intro: grow.trans)
qed

lemma display_ops_grow:
  assumes "services_faithful S contents"
  shows "grows contents w (fst (display_add_issue S V i title spec (w, c)))" "grows contents w (fst (display_reconcile S V i act (w, c)))"
proof -
  obtain l w1 c1 where e: "ensure_display_list S V (w, c) = (l, (w1, c1))" by (metis surj_pair)
  note g = ensure_display_list_grows [OF assms e, simplified]
  have step: "grows contents w w''" if "ts_display S = Some D" "grows contents w w'" "xd_add_task D li d w' = (r, w'')" for D li d r w' w''
    using that(2) display_step_grows(3) [OF assms that(1,3)] by (rule grow.trans)
  then show "grows contents w (fst (display_add_issue S V i title spec (w, c)))"
    using g by (auto simp: display_add_issue_def e grow.refl split: option.splits prod.splits)
  have tasks: "grows contents w w''" if "ts_display S = Some D" "grows contents w w'" "xd_list_tasks D li w' = (r, w'')" for D li r w' w''
    using that(2) display_step_grows(4) [OF assms that(1,3)] by (rule grow.trans)
  have update: "grows contents w w''" if "ts_display S = Some D" "grows contents w w'" "xd_update_task D li t a w' = (r, w'')" for D li t a r w' w''
    using that(2) display_step_grows(5) [OF assms that(1,3)] by (rule grow.trans)
  show "grows contents w (fst (display_reconcile S V i act (w, c)))"
    using g by (auto simp: display_reconcile_def e grow.refl split: option.splits prod.splits result.splits 
        intro: tasks [OF _ g] update [OF _ tasks [OF _ g]])
qed

interpretation records: tracker_relation "tracker_grows S contents" P S V for S contents P V
proof unfold_locales
  show "keeps (tracker_grows S contents) (v2_own P S V)"
  proof (rule keepsI)
    fix s r s'
    assume "v2_own P S V s = (r, s')"
    then show "tracker_grows S contents s s'"
      using keepsD [OF ensure_own_store_grows, of "ts_api S" contents]
      by (auto simp: v2_own_def tracker_grows_def services_faithful_def grow.refl split: prod.splits option.splits result.splits if_splits)
  qed
  show "keeps (tracker_grows S contents) (join_members P S V ms b)" for ms b
    using join_members_grows [of S contents P V ms b] by (auto simp: tracker_grows_def keeps_def)
  show "tracker_grows S contents (w, c) (snd (read_heartbeat (ts_api S) u a i w), c)" for w c u a i
    by (simp add: tracker_grows_def services_faithful_def read_heartbeat_grows)
  show "tracker_grows S contents (w, c) (snd (join_peer_store (ts_api S) (vt_manager V) u a w), c)" for w c u a
    by (simp add: tracker_grows_def services_faithful_def keeps_apply [OF join_peer_store_grows])
  show "tracker_grows S contents s (snd (ensure_display_list S V s))" for s
    using ensure_display_list_grows [of S contents V "fst s" "snd s"] by (simp add: tracker_grows_def prod_eq_iff)
  show "tracker_grows S contents s (display_add_issue S V i title spec s)" for s i title spec
    using display_ops_grow(1) [of S contents "fst s" V i title spec "snd s"] by (simp add: tracker_grows_def)
  show "tracker_grows S contents s (display_reconcile S V i act s)" for s i act
    using display_ops_grow(2) [of S contents "fst s" V i act "snd s"] by (simp add: tracker_grows_def)
  show "keeps (tracker_grows S contents) (tracker_now_utc S)" "keeps (tracker_grows S contents) (tracker_now_secs S)"
    by (auto simp: keeps_def tracker_now_utc_def tracker_now_secs_def tracker_grows_def services_faithful_def case_prod_unfold)
  show "tracker_grows S contents s (settle S V s)" for s
    by (simp add: settle_def tracker_grows_def services_faithful_def case_prod_unfold grow.refl)
  show "keeps (tracker_grows S contents) (on_store P (sign_approval_payload (tp_codecs P) (ts_api S) own_store bs))" for own_store bs
    by (rule on_store_grows) (simp add: sign_approval_payload_def sign_envelope_grows)
qed (rule on_store_grows, erule read_fold_input_grows publish_genesis_grows append_record_grows put_heartbeat_grows
    | auto simp: tracker_grows_def grow.refl intro: grow.trans)+

end
