(* ===== verification/V2_Tracker_Correct.thy ===== *)
theory V2_Tracker_Correct
  imports Tracker_Invariants
begin

text \<open>
  What the successful calls of the v2 tracker establish: a served view is the fold of what was read and
  complete up to the join fixpoint; a claim and a consumption are answered with success only when a
  confirming fold names our own event as the winner; the events of a handoff are chained; the issues
  listed carry verified provenance.
\<close>

section \<open>Views\<close>

definition view_of :: "tracker_prims \<Rightarrow> 'w tracker_services \<Rightarrow> v2_tracker \<Rightarrow> fold_input \<Rightarrow> fold_output \<Rightarrow> bool" where
  "view_of P S V inp out \<longleftrightarrow> fold_v2 (tp_prims P) inp = Ok out \<and>
     (\<exists>w w'. read_fold_input (tp_prims P) (ts_api S) (vt_manager V) (lr_list_uuid (vt_list_ref V)) (lr_creator (vt_list_ref V)) w = (Ok inp, w'))"

lemma on_store_Ok_iff [simp]: "on_store P m (w, c) = (Ok x, s') \<longleftrightarrow> (\<exists>w'. m w = (Ok x, w') \<and> s' = (w', c))"
  by (auto simp: on_store_def split: prod.splits)

lemma on_store_Ok: "on_store P m s = (Ok x, s') \<longleftrightarrow> (\<exists>w'. m (fst s) = (Ok x, w') \<and> s' = (w', snd s))"
  by (cases s) simp

lemma read_and_fold_Ok: "read_and_fold P S V s = (Ok out, s') \<Longrightarrow> \<exists>inp. view_of P S V inp out"
  by (auto simp: read_and_fold_def io_bind_Ok_iff on_store_Ok view_of_def)

lemma fold_view_passes_view:
  "view_of P S V inp out \<Longrightarrow> fold_view_passes P S V n out s = (Ok out', s') \<Longrightarrow> \<exists>inp'. view_of P S V inp' out'"
proof (induction n arbitrary: inp out s)
  case (Suc n)
  from Suc.prems(2) obtain b s1 where "(if \<not> b then io_lift (Ok out) else io_bind (read_and_fold P S V) (fold_view_passes P S V n)) s1 = (Ok out', s')"
    by (auto simp: io_bind_Ok_iff)
  then show ?case using Suc by (auto simp: io_bind_Ok_iff split: if_splits dest: read_and_fold_Ok)
qed (auto simp: io_bind_Ok_iff split: if_splits)

lemma fold_view_Ok: "fold_view P S V s = (Ok out, s') \<Longrightarrow> \<exists>inp. view_of P S V inp out"
  unfolding fold_view_def io_bind_Ok_iff by (blast dest: read_and_fold_Ok fold_view_passes_view)

text \<open>The last pass joined nobody: every roster member is the agent itself, joined, or has no usable store yet.\<close>

definition integrity_error :: "v2_store_error \<Rightarrow> bool" where
  "integrity_error e = (case e of SeAnchorMismatch _ _ _ \<Rightarrow> True | SePolicyNotHonored _ _ \<Rightarrow> True | _ \<Rightarrow> False)"

definition member_settled :: "'w tracker_services \<Rightarrow> v2_tracker \<Rightarrow> v2_cells \<Rightarrow> string \<Rightarrow> bool" where
  "member_settled S V c m \<longleftrightarrow> m = vt_agent_id V \<or> m \<in> set (vc_joined c) \<or>
     (\<exists>w e w'. join_peer_store (ts_api S) (vt_manager V) (lr_list_uuid (vt_list_ref V)) m w = (Err e, w') \<and> \<not> integrity_error e)"

lemma join_members_False:
  "join_members P S V ms b (w, c) = (Ok False, (w', c')) \<Longrightarrow> \<not> b \<and> c' = c \<and> (\<forall>m \<in> set ms. member_settled S V c m)"
proof (induction ms arbitrary: b w c)
  case (Cons m ms)
  let ?join = "join_peer_store (ts_api S) (vt_manager V) (lr_list_uuid (vt_list_ref V)) m"
  show ?case
  proof (cases "m = vt_agent_id V \<or> m \<in> set (vc_joined c)")
    case True
    with Cons.prems have "join_members P S V ms b (w, c) = (Ok False, (w', c'))" by auto
    from Cons.IH [OF this] True show ?thesis by (auto simp: member_settled_def)
  next
    case False
    obtain j w1 where j: "?join w = (j, w1)" by force
    obtain h w2 where h: "join_peer_heartbeats (ts_api S) (lr_list_uuid (vt_list_ref V)) m w1 = (h, w2)" by force
    show ?thesis
    proof (cases j)
      case (Ok t)
      with Cons.prems False j h
      have "join_members P S V ms True (w2, c\<lparr>vc_joined := bset_insert m (vc_joined c)\<rparr>) = (Ok False, (w', c'))" by simp
      from Cons.IH [OF this] show ?thesis by simp
    next
      case (Err e)
      with Cons.prems False j have rest: "join_members P S V ms b (w1, c) = (Ok False, (w', c'))" and e: "\<not> integrity_error e"
        by (auto simp: integrity_error_def split: v2_store_error.splits)
      from j Err e have "member_settled S V c m" unfolding member_settled_def by blast
      with Cons.IH [OF rest] show ?thesis by simp
    qed
  qed
qed (simp add: io_lift_def)

lemma fold_view_passes_settled:
  "fold_view_passes P S V n out s = (Ok out', s') \<Longrightarrow>
     \<forall>m \<in> set (gm_roster (fo_genesis out')) \<union> set (fo_current_roster out'). member_settled S V (snd s') m"
proof (induction n arbitrary: out s)
  case (Suc n)
  from Suc.prems obtain b s1 where j: "join_new_members P S V out s = (Ok b, s1)"
    and rest: "(if \<not> b then io_lift (Ok out) else io_bind (read_and_fold P S V) (fold_view_passes P S V n)) s1 = (Ok out', s')"
    by (auto simp: io_bind_Ok_iff)
  show ?case
  proof (cases b)
    case True
    with rest Suc.IH show ?thesis by (auto simp: io_bind_Ok_iff)
  next
    case False
    with j join_members_False [of P S V _ False "fst s" "snd s" "fst s1" "snd s1"] have "\<forall>m \<in> set (gm_roster (fo_genesis out) @ fo_current_roster out). member_settled S V (snd s) m" "snd s1 = snd s"
      by (simp_all add: join_new_members_def)
    with rest False show ?thesis by (auto simp: io_lift_def)
  qed
next
  case 0
  then have j: "join_new_members P S V out s = (Ok False, s')" and out: "out' = out"
    by (auto simp: io_bind_Ok_iff split: if_splits)
  with join_members_False [of P S V _ False "fst s" "snd s" "fst s'" "snd s'"] show ?case
    by (auto simp: join_new_members_def)
qed

lemma fold_view_settled:
  "fold_view P S V s = (Ok out, s') \<Longrightarrow>
     \<forall>m \<in> set (gm_roster (fo_genesis out)) \<union> set (fo_current_roster out). member_settled S V (snd s') m"
  unfolding fold_view_def io_bind_Ok_iff by (blast dest: fold_view_passes_settled)

section \<open>Own store\<close>

lemma v2_own_Ok: "v2_own P S V s = (Ok own, s') \<Longrightarrow> vc_own (snd s') = Some own"
  by (auto simp: v2_own_def split: prod.splits option.splits result.splits if_splits)

lemma v2_own_wf: "v2_own P S V s = (Ok own, s') \<Longrightarrow> cells_wf P (ts_api S) V (snd s) \<Longrightarrow> own_wf P (ts_api S) V own"
  using keepsD [OF own_cells, of P S V s "Ok own" s'] v2_own_Ok [of P S V s own s']
  by (auto simp: cells_kept_def cells_wf_def)

section \<open>Claims\<close>

lemma require_local_agent_Ok [simp]: "require_local_agent V a what = Ok u \<longleftrightarrow> a = vt_agent_id V"
  by (simp add: require_local_agent_def)

lemma require_own_fence_Ok_iff:
  "require_own_fence P V out issue_id = Ok (nonce, hash) \<longleftrightarrow>
     (\<exists>i. bt_get (fo_issues out) issue_id = Some i \<and> is_status i = StClaimed (vt_agent_id V) nonce hash)"
  by (cases "bt_get (fo_issues out) issue_id")
    (auto simp: require_own_fence_def Let_def split: issue_status_v2.splits if_splits)

lemma v2_claim_Ok:
  assumes "v2_claim P S V issue_id agent s = (Ok c, s')"
  shows "\<exists>s1 own out s2 i w1 h w2 confirm s3 i'. agent = vt_agent_id V \<and> v2_own P S V s = (Ok own, s1) \<and>
    fold_view P S V s1 = (Ok out, s2) \<and> bt_get (fo_issues out) issue_id = Some i \<and> is_status i = StOpen \<and>
    append_transition (tp_prims P) (tp_codecs P) (ts_api S) own
      (build_claim_transition (tp_prims P) out (lr_list_uuid (vt_list_ref V)) agent issue_id) w1 = (Ok h, w2) \<and>
    fold_view P S V (w2, snd s2) = (Ok confirm, s3) \<and> bt_get (fo_issues confirm) issue_id = Some i' \<and>
    claim_confirmed V h (is_status i') \<and> cl_issue_id c = Some issue_id \<and> cl_by c = agent"
proof -
  from assms obtain s1 own out s2 i where a: "agent = vt_agent_id V" and o: "v2_own P S V s = (Ok own, s1)"
    and v: "fold_view P S V s1 = (Ok out, s2)" and i: "bt_get (fo_issues out) issue_id = Some i" "is_status i = StOpen"
    and rest: "io_bind (on_store P (append_transition (tp_prims P) (tp_codecs P) (ts_api S) own
        (build_claim_transition (tp_prims P) out (lr_list_uuid (vt_list_ref V)) (vt_agent_id V) issue_id))) (\<lambda>our_hash.
       io_bind (fold_view P S V) (\<lambda>confirm.
       io_bind (io_lift (ok_or (bt_get (fo_issues confirm) issue_id) (terr (''issue '' @ issue_id @ '' vanished from the folded list'')))) (\<lambda>confirmed.
       if \<not> claim_confirmed V our_hash (is_status confirmed)
       then io_lift (Err (terr (''claim on '' @ issue_id @ '' lost the deterministic fold race (status now: '' @ tp_show_status P (is_status confirmed) @ '')'')))
       else io_bind (tracker_now_utc S) (\<lambda>at_ts.
            io_bind (after (after_store (put_heartbeat (ts_api S) own issue_id at_ts))) (\<lambda>_.
            io_bind (after (display_reconcile S V issue_id ActClaim)) (\<lambda>_.
            io_lift (Ok (claim_new (Some issue_id) agent at_ts RoleManualM1)))))))) s2 = (Ok c, s')"
    unfolding v2_claim_def Let_def io_bind_Ok_iff [of "io_lift _"] io_bind_Ok_iff [of "v2_own P S V"] io_bind_Ok_iff [of "fold_view P S V"]
    by (auto split: if_split_asm)
  from rest obtain h w2 confirm s3 i' where "append_transition (tp_prims P) (tp_codecs P) (ts_api S) own
      (build_claim_transition (tp_prims P) out (lr_list_uuid (vt_list_ref V)) (vt_agent_id V) issue_id) (fst s2) = (Ok h, w2)"
    "fold_view P S V (w2, snd s2) = (Ok confirm, s3)" "bt_get (fo_issues confirm) issue_id = Some i'" "claim_confirmed V h (is_status i')"
    "cl_issue_id c = Some issue_id \<and> cl_by c = agent"
    unfolding io_bind_Ok_iff on_store_Ok by (auto simp: io_bind_Ok_iff claim_new_def split: if_split_asm)
  with a o v i show ?thesis by blast
qed

lemma with_own_fence_Ok:
  assumes "with_own_fence P S V c what body s = (Ok x, s')"
  shows "\<exists>issue_id s1 own out s2 i nonce hash. cl_by c = vt_agent_id V \<and> cl_issue_id c = Some issue_id \<and> v2_own P S V s = (Ok own, s1) \<and>
    fold_view P S V s1 = (Ok out, s2) \<and> bt_get (fo_issues out) issue_id = Some i \<and> is_status i = StClaimed (vt_agent_id V) nonce hash \<and>
    body issue_id own out nonce hash s2 = (Ok x, s')"
  using assms unfolding with_own_fence_def io_bind_Ok_iff io_lift_iff claim_issue_id_def
  by (auto simp: require_own_fence_Ok_iff)

section \<open>Handoffs\<close>

lemma validation_roundtrip: "validation_from_v2 (validation_to_v2 v) = Some v"
  by (cases "vr_status v") (simp_all add: validation_from_v2_def validation_to_v2_def validation_status_of_def)

lemma foldl_with_validation:
  "foldl (\<lambda>h v. case validation_from_v2 v of Some r \<Rightarrow> with_validation h r | None \<Rightarrow> h) h (map validation_to_v2 vs) =
     h\<lparr>ho_validation := ho_validation h @ vs\<rparr>"
  by (induction vs arbitrary: h) (simp_all add: validation_roundtrip with_validation_def)

lemma project_handoff_event:
  "project_handoff i (handoff_event V out issue_id nonce hash h) =
     h\<lparr>ho_issue_id := Some i, ho_signer_agent_id := Some (vt_agent_id V), ho_signature := None\<rparr>"
  by (cases "ho_proofs_dir h")
    (simp_all add: project_handoff_def handoff_event_def foldl_with_validation with_files_changed_def with_follow_ups_def with_issue_id_def
      with_signer_agent_id_def with_proofs_dir_def handoff_new_def case_prod_unfold)

lemma v2_handoff_Ok:
  assumes "v2_handoff P S V c h s = (Ok u, s')"
  shows "\<exists>issue_id s1 own out s2 i nonce hash w1 hh w2 th w3. cl_issue_id c = Some issue_id \<and> v2_own P S V s = (Ok own, s1) \<and>
    fold_view P S V s1 = (Ok out, s2) \<and> bt_get (fo_issues out) issue_id = Some i \<and> is_status i = StClaimed (vt_agent_id V) nonce hash \<and>
    append_handoff (tp_prims P) (tp_codecs P) (ts_api S) own (handoff_event V out issue_id nonce hash h) w1 = (Ok hh, w2) \<and>
    append_transition (tp_prims P) (tp_codecs P) (ts_api S) own (complete_event V out issue_id nonce hash hh) w2 = (Ok th, w3)"
proof -
  from with_own_fence_Ok [OF assms [unfolded v2_handoff_def]] obtain issue_id s1 own out s2 i nonce hash where
    1: "cl_issue_id c = Some issue_id" "v2_own P S V s = (Ok own, s1)" "fold_view P S V s1 = (Ok out, s2)"
      "bt_get (fo_issues out) issue_id = Some i" "is_status i = StClaimed (vt_agent_id V) nonce hash"
    and body: "io_bind (on_store P (append_handoff (tp_prims P) (tp_codecs P) (ts_api S) own (handoff_event V out issue_id nonce hash h))) (\<lambda>handoff_hash.
       io_bind (append_transition_io P S own (complete_event V out issue_id nonce hash handoff_hash)) (\<lambda>_.
       after (display_reconcile S V issue_id ActComplete))) s2 = (Ok u, s')" by blast
  from body obtain hh w2 th w3 where "append_handoff (tp_prims P) (tp_codecs P) (ts_api S) own (handoff_event V out issue_id nonce hash h) (fst s2) = (Ok hh, w2)"
    "append_transition (tp_prims P) (tp_codecs P) (ts_api S) own (complete_event V out issue_id nonce hash hh) w2 = (Ok th, w3)"
    by (auto simp: io_bind_Ok_iff on_store_Ok append_transition_io_def)
  with 1 show ?thesis by blast
qed

section \<open>Consumption\<close>

lemma confirm_consumed_Ok_iff:
  "confirm_consumed confirm a h = Ok u \<longleftrightarrow> (\<exists>winner. bt_get (fo_effective_consumes confirm) a = Some winner \<and> ec_event_hash winner = h)"
  by (auto simp: confirm_consumed_def split: option.splits if_splits)

lemma store_consumed_Ok:
  assumes "store_consumed P S V event s = (Ok u, s')"
  shows "\<exists>s1 own out s2 st nonce hash projected s3 cand rest json h w2 confirm s4. v2_own P S V s = (Ok own, s1) \<and>
    fold_view P S V s1 = (Ok out, s2) \<and> bt_get (fo_issues out) (ac_issue_id event) = Some st \<and>
    is_status st = StClaimed (vt_agent_id V) nonce hash \<and> project_issue S V out st s2 = (Ok projected, s3) \<and>
    content_hash (tp_prims P) (tp_core P) projected = ac_content_hash event \<and>
    unconsumed_approvals out (ac_issue_id event) = cand # rest \<and>
    append_consume (tp_prims P) (tp_codecs P) (ts_api S) own (bridge_consume P V out event nonce hash cand json) (fst s3) = (Ok h, w2) \<and>
    fold_view P S V (settle S V (w2, snd s3)) = (Ok confirm, s4) \<and> confirm_consumed confirm (aa_event_hash cand) h = Ok u"
proof -
  from assms obtain own s1 out s2 st nonce hash where o: "v2_own P S V s = (Ok own, s1)" "fold_view P S V s1 = (Ok out, s2)"
    "bt_get (fo_issues out) (ac_issue_id event) = Some st" "require_own_fence P V out (ac_issue_id event) = Ok (nonce, hash)"
    and body: "io_bind (project_issue S V out st) (\<lambda>projected.
     if content_hash (tp_prims P) (tp_core P) projected \<noteq> ac_content_hash event
     then io_lift (Err (terr (''consumption content hash does not match the issue'' @ [CHR 0x27] @ ''s current content'')))
     else
       io_bind (io_lift (case unconsumed_approvals out (ac_issue_id event) of
           [] \<Rightarrow> Err (terr (''no unconsumed approval exists for issue '' @ ac_issue_id event @ ''; refusing consumption''))
         | candidate # _ \<Rightarrow> Ok candidate)) (\<lambda>candidate.
       io_bind (io_lift (map_err (\<lambda>e. terr (''v1 consumed carrier encode failed: '' @ e)) (tp_enc_v1_consumed P event))) (\<lambda>v1_record_json.
       io_bind (on_store P (append_consume (tp_prims P) (tp_codecs P) (ts_api S) own
                 (bridge_consume P V out event nonce hash candidate v1_record_json))) (\<lambda>our_hash.
       io_bind (after (settle S V)) (\<lambda>_.
       io_bind (fold_view P S V) (\<lambda>confirm.
       io_lift (confirm_consumed confirm (aa_event_hash candidate) our_hash))))))) s2 = (Ok u, s')"
    unfolding store_consumed_def io_bind_Ok_iff [of "io_lift _"] io_bind_Ok_iff [of "v2_own P S V"] io_bind_Ok_iff [of "fold_view P S V"]
    by auto
  have st: "is_status st = StClaimed (vt_agent_id V) nonce hash" using o(3,4) by (simp add: require_own_fence_Ok_iff)
  from body obtain projected s3 cand json h w2 confirm s4 where "project_issue S V out st s2 = (Ok projected, s3)"
    "content_hash (tp_prims P) (tp_core P) projected = ac_content_hash event"
    and c: "(case unconsumed_approvals out (ac_issue_id event) of
           [] \<Rightarrow> Err (terr (''no unconsumed approval exists for issue '' @ ac_issue_id event @ ''; refusing consumption''))
         | candidate # _ \<Rightarrow> Ok candidate) = Ok cand"
    and "append_consume (tp_prims P) (tp_codecs P) (ts_api S) own (bridge_consume P V out event nonce hash cand json) (fst s3) = (Ok h, w2)"
    "fold_view P S V (settle S V (w2, snd s3)) = (Ok confirm, s4)" "confirm_consumed confirm (aa_event_hash cand) h = Ok u"
    unfolding io_bind_Ok_iff [of "project_issue S V out st"]
    by (auto simp: io_bind_Ok_iff on_store_Ok after_def split: if_split_asm)
  moreover from c obtain rest where "unconsumed_approvals out (ac_issue_id event) = cand # rest" by (auto split: list.splits)
  ultimately show ?thesis using o(1-3) st by blast
qed

section \<open>Listing\<close>

text \<open>An issue shows the content, the opener and the claimant of a folded issue state.\<close>

definition projects :: "fold_output \<Rightarrow> issue_state_v2 \<Rightarrow> issue \<Rightarrow> bool" where
  "projects out st i \<longleftrightarrow> iss_id i = is_issue_id st \<and> iss_identifier i = is_issue_id st \<and> iss_title i = is_title st \<and> iss_description i = is_spec st \<and>
     iss_state i = projected_state (is_status st) (bt_get (fo_handoffs out) (is_issue_id st)) \<and>
     iss_signature_provenance i = Some (ProvVerified (is_opened_by st)) \<and> iss_extra i = [] \<and>
     (case is_status st of
        StClaimed claimant _ _ \<Rightarrow> \<exists>c. iss_claim i = Some c \<and> cl_by c = claimant \<and> cl_issue_id c = Some (is_issue_id st)
      | _ \<Rightarrow> iss_claim i = None)"

lemma projected_state_lower: "issue_state_new (projected_state status hs) = Ok (projected_state status hs)"
proof -
  have "issue_state_new s = Ok s" if "s \<in> {''todo'', ''in_progress'', ''blocked'', ''review'', ''done''}" for s
  proof -
    have "issue_state_new ''todo'' = Ok ''todo''" "issue_state_new ''in_progress'' = Ok ''in_progress''"
      "issue_state_new ''blocked'' = Ok ''blocked''" "issue_state_new ''review'' = Ok ''review''" "issue_state_new ''done'' = Ok ''done''"
      by code_simp+
    with that show ?thesis by auto
  qed
  moreover have "projected_state status hs \<in> {''todo'', ''in_progress'', ''blocked'', ''review'', ''done''}"
    by (auto simp: projected_state_def split: issue_status_v2.splits option.splits list.splits)
  ultimately show ?thesis by blast
qed

lemma project_base_Ok:
  assumes "project_base out st = Ok i"
  shows "iss_id i = is_issue_id st \<and> iss_identifier i = is_issue_id st \<and> iss_title i = is_title st \<and> iss_description i = is_spec st \<and>
     iss_state i = projected_state (is_status st) (bt_get (fo_handoffs out) (is_issue_id st)) \<and>
     iss_signature_provenance i = Some (ProvVerified (is_opened_by st)) \<and> iss_extra i = [] \<and> iss_claim i = None"
  using assms
  by (auto simp: project_base_def projected_state_lower issue_id_new_def issue_new_def split: if_splits)

lemma attach_handoff_fields [simp]:
  "iss_id (attach_handoff out st i) = iss_id i" "iss_title (attach_handoff out st i) = iss_title i"
  "iss_identifier (attach_handoff out st i) = iss_identifier i"
  "iss_description (attach_handoff out st i) = iss_description i" "iss_state (attach_handoff out st i) = iss_state i"
  "iss_signature_provenance (attach_handoff out st i) = iss_signature_provenance i" "iss_claim (attach_handoff out st i) = iss_claim i"
  "iss_extra (attach_handoff out st i) = iss_extra i"
  by (simp_all add: attach_handoff_def split: option.splits)

lemma project_issue_Ok:
  assumes "project_issue S V out st s = (Ok i, s')"
  shows "projects out st i"
proof -
  from assms obtain b where b: "project_base out st = Ok b"
    by (auto simp: project_issue_def io_bind_Ok_iff)
  note f = project_base_Ok [OF b]
  show ?thesis
    using assms f by (cases "is_status st")
      (auto simp: project_issue_def io_bind_Ok_iff b projects_def attach_claim_def with_heartbeat_def claim_new_def agent_id_new_def Let_def
        split: prod.splits if_splits)
qed

lemma project_issues_Ok: "project_issues S V out sts s = (Ok is, s') \<Longrightarrow> list_all2 (projects out) sts is"
proof (induction sts arbitrary: "is" s)
  case (Cons st sts)
  then show ?case by (auto simp: io_bind_Ok_iff dest!: project_issue_Ok)
qed simp

lemma list_issues_Ok:
  assumes "list_issues P S V s = (Ok is, s')"
  shows "\<exists>inp out. view_of P S V inp out \<and> list_all2 (projects out) (bt_values (fo_issues out)) is"
proof -
  from assms obtain out s1 where "fold_view P S V s = (Ok out, s1)" "project_all S V out s1 = (Ok is, s')"
    by (auto simp: list_issues_def io_bind_Ok_iff)
  then show ?thesis unfolding project_all_def by (blast dest: fold_view_Ok project_issues_Ok)
qed

text \<open>The folded issues are keyed by their identifiers in ascending order.\<close>

lemma fold_v2_issues:
  assumes "fold_v2 P inp = Ok out"
  shows "bt_wf (fo_issues out)" and "bt_get (fo_issues out) k = Some st \<Longrightarrow> is_issue_id st = k"
    and "map is_issue_id (bt_values (fo_issues out)) = map fst (fo_issues out)"
proof -
  from assms obtain p where "out = fold_phase2 p" by (auto simp: fold_v2_Ok_iff)
  then show wf: "bt_wf (fo_issues out)" and get: "bt_get (fo_issues out) k = Some st \<Longrightarrow> is_issue_id st = k" for k st
    using phase2_run_inv [of "sort_key fold_order (p1_admitted p)" "p1_rejections p"]
    by (auto simp: p2_inv_def fold_phase2_def Let_def)
  then show "map is_issue_id (bt_values (fo_issues out)) = map fst (fo_issues out)"
    by (auto simp: bt_values_def bt.in_entries_iff)
qed

lemma list_issues_ids:
  assumes "list_issues P S V s = (Ok is, s')"
  shows "sorted_wrt (<) (map iss_id is)"
proof -
  from list_issues_Ok [OF assms] obtain inp out where v: "view_of P S V inp out" and l: "list_all2 (projects out) (bt_values (fo_issues out)) is" by blast
  from l have "map iss_id is = map is_issue_id (bt_values (fo_issues out))"
    by (induction rule: list_all2_induct) (simp_all add: projects_def)
  with v fold_v2_issues(1,3) show ?thesis by (metis bt_wf_def view_of_def)
qed

lemma list_issues_mem:
  assumes "list_issues P S V s = (Ok is, s')" and "i \<in> set is"
  shows "\<exists>inp out st. view_of P S V inp out \<and> bt_get (fo_issues out) (iss_id i) = Some st \<and> projects out st i"
proof -
  from list_issues_Ok [OF assms(1)] obtain inp out where v: "view_of P S V inp out" and l: "list_all2 (projects out) (bt_values (fo_issues out)) is" by blast
  from l assms(2) obtain st where st: "st \<in> set (bt_values (fo_issues out))" "projects out st i"
    by (metis in_set_conv_nth list_all2_conv_all_nth)
  from v have fold: "fold_v2 (tp_prims P) inp = Ok out" by (simp add: view_of_def)
  from bt_values_get [OF fold_v2_issues(1) [OF fold] st(1)] obtain k where k: "bt_get (fo_issues out) k = Some st" ..
  with fold_v2_issues(2) [OF fold k] st(2) have "bt_get (fo_issues out) (iss_id i) = Some st" by (simp add: projects_def)
  with v st(2) show ?thesis by blast
qed

section \<open>Evidence\<close>

text \<open>A consume of ours, durably stored, is the effective consume of an approval of this issue's content in a confirming view.\<close>

definition consume_confirmed :: "tracker_prims \<Rightarrow> 'w tracker_services \<Rightarrow> v2_tracker \<Rightarrow> string \<Rightarrow> bool" where
  "consume_confirmed P S V issue_id \<longleftrightarrow>
     (\<exists>inp out st cand h bs w inp' confirm winner. \<exists>own :: own_event_store. view_of P S V inp out \<and> bt_get (fo_issues out) issue_id = Some st \<and>
        binds_content st issue_id Approve cand \<and> \<not> bt_contains_key (fo_effective_consumes out) (aa_event_hash cand) \<and>
        os_agent_id own = vt_agent_id V \<and> os_list_uuid own = lr_list_uuid (vt_list_ref V) \<and> stored (ts_api S) (os_topic own) (consume_key issue_id h) bs w \<and>
        view_of P S V inp' confirm \<and> bt_get (fo_effective_consumes confirm) (aa_event_hash cand) = Some winner \<and> ec_event_hash winner = h)"

lemma append_record_author:
  "append_record P K A own what actor u encoded context key_of w = (Ok h, w') \<Longrightarrow> actor = os_agent_id own \<and> u = os_list_uuid own"
  by (auto simp: append_record_def split: if_splits)

lemma store_consumed_confirmed:
  assumes "store_consumed P S V event s = (Ok u, s')"
  shows "consume_confirmed P S V (ac_issue_id event)"
proof -
  from store_consumed_Ok [OF assms] obtain s1 own out s2 st nonce hash projected s3 cand rest json h w2 confirm s4 where
    v: "fold_view P S V s1 = (Ok out, s2)" and st: "bt_get (fo_issues out) (ac_issue_id event) = Some st"
    and c: "unconsumed_approvals out (ac_issue_id event) = cand # rest"
    and ap: "append_consume (tp_prims P) (tp_codecs P) (ts_api S) own (bridge_consume P V out event nonce hash cand json) (fst s3) = (Ok h, w2)"
    and v': "fold_view P S V (settle S V (w2, snd s3)) = (Ok confirm, s4)" and ok: "confirm_consumed confirm (aa_event_hash cand) h = Ok u" by blast
  have f: "ce_issue_id (bridge_consume P V out event nonce hash cand json) = ac_issue_id event"
    "ce_actor (bridge_consume P V out event nonce hash cand json) = vt_agent_id V"
    "ce_list_uuid (bridge_consume P V out event nonce hash cand json) = lr_list_uuid (vt_list_ref V)"
    by (simp_all add: bridge_consume_def case_prod_unfold)
  note own = append_record_author [OF ap [unfolded append_consume_def f]]
  from f obtain bs where "stored (ts_api S) (os_topic own) (consume_key (ac_issue_id event) h) bs w2"
    using append_record_stored [OF ap [unfolded append_consume_def]] by auto
  moreover have "binds_content st (ac_issue_id event) Approve cand" "\<not> bt_contains_key (fo_effective_consumes out) (aa_event_hash cand)"
    using unconsumed_approvals_mem [of cand out "ac_issue_id event"] c st by auto
  ultimately show ?thesis
    using fold_view_Ok [OF v] fold_view_Ok [OF v'] st ok own [THEN conjunct1, symmetric] own [THEN conjunct2, symmetric]
    unfolding consume_confirmed_def confirm_consumed_Ok_iff by blast
qed

text \<open>A handoff and the completion that follows it, stored in this order under the claim that the view shows.\<close>

definition handoff_recorded :: "tracker_prims \<Rightarrow> 'w tracker_services \<Rightarrow> v2_tracker \<Rightarrow> string \<Rightarrow> handoff \<Rightarrow> bool" where
  "handoff_recorded P S V issue_id h \<longleftrightarrow>
     (\<exists>inp out st nonce hash hh bs th bs' w w'. \<exists>own :: own_event_store. view_of P S V inp out \<and> bt_get (fo_issues out) issue_id = Some st \<and>
        is_status st = StClaimed (vt_agent_id V) nonce hash \<and>
        os_agent_id own = vt_agent_id V \<and> os_list_uuid own = lr_list_uuid (vt_list_ref V) \<and> stored (ts_api S) (os_topic own) (handoff_key issue_id hh) bs w \<and>
        stored (ts_api S) (os_topic own) (event_key issue_id th) bs' w' \<and>
        (\<exists>payload. handoff_to_signed_bytes (tp_codecs P) (handoff_event V out issue_id nonce hash h) = Ok payload \<and> hh = sha256_hex (tp_prims P) payload) \<and>
        (\<exists>payload. transition_to_signed_bytes (tp_codecs P) (complete_event V out issue_id nonce hash hh) = Ok payload \<and> th = sha256_hex (tp_prims P) payload))"

lemma append_record_hash:
  "append_record P K A own what actor u encoded context key_of w = (Ok h, w') \<Longrightarrow> \<exists>payload. encoded = Ok payload \<and> h = sha256_hex P payload"
  unfolding append_record_def by (cases encoded) (auto simp: io_bind_Ok_iff Let_def split: if_splits)

lemma v2_handoff_recorded:
  assumes "v2_handoff P S V c h s = (Ok u, s')"
  shows "\<exists>issue_id. cl_issue_id c = Some issue_id \<and> handoff_recorded P S V issue_id h"
proof -
  from v2_handoff_Ok [OF assms] obtain issue_id s1 own out s2 i nonce hash w1 hh w2 th w3 where
    c: "cl_issue_id c = Some issue_id" and v: "fold_view P S V s1 = (Ok out, s2)"
    and i: "bt_get (fo_issues out) issue_id = Some i" "is_status i = StClaimed (vt_agent_id V) nonce hash"
    and h: "append_handoff (tp_prims P) (tp_codecs P) (ts_api S) own (handoff_event V out issue_id nonce hash h) w1 = (Ok hh, w2)"
    and t: "append_transition (tp_prims P) (tp_codecs P) (ts_api S) own (complete_event V out issue_id nonce hash hh) w2 = (Ok th, w3)" by blast
  have ids: "he_issue_id (handoff_event V out issue_id nonce hash h) = issue_id" "te_issue_id (complete_event V out issue_id nonce hash hh) = issue_id"
    "te_actor (complete_event V out issue_id nonce hash hh) = vt_agent_id V"
    "te_list_uuid (complete_event V out issue_id nonce hash hh) = lr_list_uuid (vt_list_ref V)"
    by (simp_all add: handoff_event_def complete_event_def case_prod_unfold)
  note own = append_record_author [OF t [unfolded append_transition_def ids]]
  show ?thesis
    using own [THEN conjunct1, symmetric] own [THEN conjunct2, symmetric] c fold_view_Ok [OF v] i append_record_stored [OF h [unfolded append_handoff_def ids]] append_record_stored [OF t [unfolded append_transition_def ids]]
      append_record_hash [OF h [unfolded append_handoff_def]] append_record_hash [OF t [unfolded append_transition_def]]
    unfolding handoff_recorded_def by blast
qed

end
