(* ===== verification/Tracker_Orchestration.thy ===== *)
theory Tracker_Orchestration
  imports V2_Tracker_Correct Daemon
begin

text \<open>
  The orchestrator on a tracker. The locale \<open>network_tracker\<close> is the contract that the orchestrator's guarantees
  rest on: a claim names the issue and the agent it was made for, and an issue fetched by identifier has that
  identifier and counts as network-sourced. What a completed run then means is proved once in the locale;
  \<open>v2_orch_services\<close> plugs the v2 tracker into the orchestrator and is the model of the contract.
\<close>

locale network_tracker =
  fixes S :: "'w orch_services"
  assumes claim_names: "tr_claim S issue_id agent w = (Ok c, w') \<Longrightarrow> cl_issue_id c = Some issue_id \<and> cl_by c = agent"
    and fetched: "tr_fetch_by_ids S ids w = (Ok is, w') \<Longrightarrow> i \<in> set is \<Longrightarrow>
      iss_id i \<in> set ids \<and> is_network_sourced i"
begin

lemma names: "names_claims S agent"
  unfolding names_claims_def using claim_names by blast

text \<open>The gate's dispatch rules apply to every issue: none counts as local work.\<close>

lemma completed:
  assumes "run_claim P R cfg c (w, st) = (Ok Completed, (w', st'))" and "rs_orch R = S"
  shows "\<exists>issue_id i w1 is. cl_issue_id c = Some issue_id \<and> tr_fetch_by_ids S [issue_id] w = (Ok (i # is), w1) \<and> iss_id i = issue_id \<and>
    is_network_sourced i \<and> completed_evidence R c i \<and>
    (self_authored (oc_gate cfg) i \<or> gs_network_dispatch (oc_gate cfg) \<noteq> PolicyOff \<and>
      (\<exists>signer level. gate_signer i = Ok signer \<and> (\<exists>w w'. trust_lookup S signer w = (Ok level, w')) \<and> gs_required_trust (oc_gate cfg) \<le> level \<and>
         level \<noteq> TrustBlocked \<and> level \<noteq> TrustUnknown \<and> (gs_network_dispatch (oc_gate cfg) = PolicyApprove \<longrightarrow> approval_spent P S (oc_gate cfg) i signer)))"
proof -
  from assms(1) obtain w2 where "run_claim_body P R cfg c w = (Ok Completed, w2)" by (auto simp: run_claim_def split: prod.splits)
  from run_claim_body_Completed [OF this] obtain issue_id i "is" w1 where i: "cl_issue_id c = Some issue_id"
    "tr_fetch_by_ids S [issue_id] w = (Ok (i # is), w1)" "dispatch_authorised P S (oc_gate cfg) i" "completed_evidence R c i"
    unfolding assms(2) by blast
  from fetched [OF i(2), of i] have "iss_id i = issue_id" "is_network_sourced i" by simp_all
  with i show ?thesis unfolding dispatch_authorised_def by blast
qed

end

definition v2_orch_services ::
  "tracker_prims \<Rightarrow> 'w tracker_services \<Rightarrow> v2_tracker \<Rightarrow> 'w tw orch_services \<Rightarrow> 'w tw orch_services" where
  "v2_orch_services P S V base = base\<lparr>tr_fetch_candidates := fetch_candidates P S V, tr_fetch_by_ids := fetch_by_ids P S V,
     tr_fetch_claimed := fetch_claimed P S V None, tr_claim := v2_claim P S V, tr_release := v2_release P S V, tr_handoff := v2_handoff P S V,
     tr_block := v2_block P S V, tr_load_approval_state := load_approval_state P S V, tr_store_consumed := store_consumed P S V\<rparr>"

lemma fetch_by_ids_Ok:
  assumes "fetch_by_ids P S V ids s = (Ok is, s')" and "i \<in> set is"
  shows "iss_id i \<in> set ids \<and> (\<exists>inp out st. view_of P S V inp out \<and> bt_get (fo_issues out) (iss_id i) = Some st \<and> projects out st i)"
proof -
  from assms obtain all s1 where "list_issues P S V s = (Ok all, s1)" "i \<in> set all" "iss_id i \<in> set ids"
    by (auto simp: fetch_by_ids_def io_bind_Ok_iff)
  with list_issues_mem show ?thesis by blast
qed

interpretation v2: network_tracker "v2_orch_services P S V base" for P S V base
proof unfold_locales
  fix issue_id agent w c w'
  assume "tr_claim (v2_orch_services P S V base) issue_id agent w = (Ok c, w')"
  then have "v2_claim P S V issue_id agent w = (Ok c, w')" by (simp add: v2_orch_services_def)
  from v2_claim_Ok [OF this] show "cl_issue_id c = Some issue_id \<and> cl_by c = agent" by blast
next
  fix ids w "is" w' i
  assume "tr_fetch_by_ids (v2_orch_services P S V base) ids w = (Ok is, w')" and i: "i \<in> set is"
  then have "fetch_by_ids P S V ids w = (Ok is, w')" by (simp add: v2_orch_services_def)
  from fetch_by_ids_Ok [OF this i] show "iss_id i \<in> set ids \<and> is_network_sourced i"
    by (auto simp: projects_def is_network_sourced_def)
qed

lemma approval_spent_v2:
  assumes "approval_spent G (v2_orch_services P S V base) gs i signer"
  shows "consume_confirmed P S V (iss_id i)"
proof -
  from assms obtain c s s' where "ac_issue_id c = iss_id i" "store_consumed P S V c s = (Ok (), s')"
    by (auto simp: approval_spent_def v2_orch_services_def)
  with store_consumed_confirmed show ?thesis by metis
qed

text \<open>On the v2 tracker a cycle frees its slot on every exit: one of the two assumptions on the tracker is discharged.\<close>

lemma v2_run_once_frees_slot:
  assumes "run_once G R cfg (s, st) = (r, (s', st'))" and "rs_orch R = v2_orch_services P S V base"
    and "slots_ok cap caps (st, {#}, {#})" and "no_reclaim (rs_orch R) (gs_agent_id (oc_gate cfg)) st"
  shows "slots_ok cap caps (st', {#}, {#}) \<and> ost_in_flight st' = ost_in_flight st"
proof -
  have "names_claims (rs_orch R) (gs_agent_id (oc_gate cfg))" unfolding assms(2) by (rule v2.names)
  note steps = run_once_steps [OF assms(1) this assms(4)]
  then show ?thesis using slots_ok_reachable assms(3) by blast
qed

end
