(* ===== verification/Tracker_Demo.thy ===== *)
theory Tracker_Demo
  imports Store_Demo Dispatch_Demo Tracker_Orchestration
begin

text \<open>
  The v2 tracker of agent \<open>07\<close> on the daemon of \<open>Store_Demo\<close>: it claims the open issue \<open>i\<close>, spends the
  approval of \<open>09\<close>, and hands the issue off at the end of an orchestrator run. The runs discharge the
  hypotheses of the properties of the tracker.
\<close>

section \<open>The tracker\<close>

definition tdemo_prims :: tracker_prims where
  "tdemo_prims = \<lparr>tp_prims = demo_prims, tp_codecs = demo_codecs, tp_core = demo_core_codecs, tp_show_store_error = (\<lambda>_. ''store''),
     tp_show_status = (\<lambda>_. ''status''), tp_show_refusal = (\<lambda>_. ''refused''), tp_enc_requeue_approval = (\<lambda>_. Err ''key must be a string''),
     tp_enc_v1_approval = (\<lambda>_. Ok []), tp_dec_v1_approval = (\<lambda>_. Err ''expected value''), tp_enc_v1_consumed = (\<lambda>_. Ok []),
     tp_dec_v1_consumed = (\<lambda>_. Err ''expected value''), tp_timestamp = (\<lambda>_. Ok 0)\<rparr>"

definition tdemo_services :: "demo_world tracker_services" where
  "tdemo_services = \<lparr>ts_api = demo_api, ts_display = None, ts_now_utc = (\<lambda>w. (''t'', w)), ts_now_timestamp = (\<lambda>w. (0, w)), ts_sleep = (\<lambda>_ w. w)\<rparr>"

definition tdemo_tracker :: v2_tracker where
  "tdemo_tracker = \<lparr>vt_manager = demo_manager, vt_list_ref = \<lparr>lr_list_uuid = ''u'', lr_creator = ''07''\<rparr>, vt_agent_id = ''07'', vt_settle = 0\<rparr>"

definition tdemo_cells :: v2_cells where
  "tdemo_cells = \<lparr>vc_own = Some demo_own, vc_display_list = None, vc_joined = [''09'']\<rparr>"

lemma tdemo_fields [simp]:
  "tp_prims tdemo_prims = demo_prims" "tp_codecs tdemo_prims = demo_codecs" "tp_core tdemo_prims = demo_core_codecs"
  "tp_enc_v1_consumed tdemo_prims ev = Ok []"
  "ts_api tdemo_services = demo_api" "ts_display tdemo_services = None" "ts_now_utc tdemo_services = (\<lambda>w. (''t'', w))"
  "ts_now_timestamp tdemo_services = (\<lambda>w. (0, w))" "ts_sleep tdemo_services = (\<lambda>_ w. w)"
  "vt_manager tdemo_tracker = demo_manager" "lr_list_uuid (vt_list_ref tdemo_tracker) = ''u''" "lr_creator (vt_list_ref tdemo_tracker) = ''07''"
  "vt_agent_id tdemo_tracker = ''07''" "vt_settle tdemo_tracker = 0"
  "vc_own tdemo_cells = Some demo_own" "vc_joined tdemo_cells = [''09'']"
  by (simp_all add: tdemo_prims_def tdemo_services_def tdemo_tracker_def tdemo_cells_def)

text \<open>The store is bound from empty cells when the card is present; afterwards it is the bound one.\<close>

lemma tdemo_own:
  assumes "map_of w (''symphony2-ev-u-07'', ''card-self'') = Some (demo_key 7)"
  shows "v2_own tdemo_prims tdemo_services tdemo_tracker (w, v2_cells_new) = (Ok demo_own, (w, v2_cells_new\<lparr>vc_own := Some demo_own\<rparr>))"
proof -
  have "ensure_own_store demo_prims demo_api demo_manager ''u'' w = (Ok demo_own, w)"
    using assms demo_derive
    by (simp add: ensure_own_store_def io_bind_def io_map_err_def io_lift_def demo_anchor demo_topics demo_manager_limits Let_def
        demo_api_def [THEN arg_cong [where f = api_sign]] demo_api_def [THEN arg_cong [where f = api_create]]
        demo_api_def [THEN arg_cong [where f = api_get]] decode_b64_def demo_b64_simps tolerate_conflict_def CARD_SELF_KEY_def demo_own_def)
  then show ?thesis by (simp add: v2_own_def v2_cells_new_def demo_own_def)
qed

lemma tdemo_own_bound: "v2_own tdemo_prims tdemo_services tdemo_tracker (w, tdemo_cells) = (Ok demo_own, (w, tdemo_cells))"
  by (simp add: v2_own_def)

definition demo_view :: "demo_world \<Rightarrow> fold_input \<Rightarrow> fold_output \<Rightarrow> bool" where
  "demo_view w inp out \<longleftrightarrow> read_fold_input demo_prims demo_api demo_manager ''u'' ''07'' w = (Ok inp, w) \<and> fold_v2 demo_prims inp = Ok out \<and>
     gm_roster (fo_genesis out) = [''07'', ''09''] \<and> fo_current_roster out = [''07'', ''09'']"

lemma tdemo_view_bound:
  assumes "demo_view w inp out"
  shows "fold_view tdemo_prims tdemo_services tdemo_tracker (w, tdemo_cells) = (Ok out, (w, tdemo_cells))"
  using assms
  by (simp add: demo_view_def fold_view_def io_bind_def io_lift_def read_and_fold_def on_store_def MAX_JOIN_PASSES_def numeral_eq_Suc
      join_new_members_def)

text \<open>From empty cells the first pass joins \<open>09\<close> and reads again.\<close>

lemma tdemo_join: "join_peer_store demo_api demo_manager ''u'' ''09'' w = (Ok ''symphony2-ev-u-09'', w)"
  by (simp add: join_peer_store_def io_bind_def io_lift_def demo_topics demo_anchor tolerate_conflict_def Let_def
      demo_api_def [THEN arg_cong [where f = api_join]])

lemma tdemo_view_new:
  assumes "demo_view w inp out"
  shows "fold_view tdemo_prims tdemo_services tdemo_tracker (w, v2_cells_new\<lparr>vc_own := Some demo_own\<rparr>) = (Ok out, (w, tdemo_cells))"
proof -
  have "join_peer_heartbeats demo_api ''u'' ''09'' w = (Ok (), w)" for w
    by (simp add: join_peer_heartbeats_def tolerate_conflict_def demo_api_def)
  moreover have "bset_insert ''09'' [] = [''09'']" by code_simp
  ultimately show ?thesis using assms
    by (simp add: demo_view_def fold_view_def io_bind_def io_lift_def read_and_fold_def on_store_def MAX_JOIN_PASSES_def numeral_eq_Suc
        join_new_members_def tdemo_join v2_cells_new_def tdemo_cells_def)
qed

lemma demo_gate_view: "demo_view (demo_world consumed) (demo_input [demo_own_stream consumed, demo_peer_stream]) (fold_phase2 (demo_gate_phase1 consumed))"
proof -
  have "gm_roster (fo_genesis (fold_phase2 (demo_gate_phase1 consumed))) = [''07'', ''09'']"
    "fo_current_roster (fold_phase2 (demo_gate_phase1 consumed)) = [''07'', ''09'']" by (cases consumed; code_simp)+
  then show ?thesis by (simp add: demo_view_def demo_read demo_gate_fold)
qed

section \<open>Spending the approval\<close>

definition demo_spend :: approval_consumed where
  "demo_spend = \<lparr>ac_issue_id = ''i'', ac_content_hash = sha256_hex demo_prims [1], ac_signer_agent_id = ''07'', ac_nonce = ''1'',
     ac_consumed_at = ''t'', ac_signature = demo_sig APPROVAL_CONSUMED_CONTEXT ''07'' [3]\<rparr>"

lemma demo_store_consumed:
  "fst (store_consumed tdemo_prims tdemo_services tdemo_tracker demo_spend (demo_world False, tdemo_cells)) = Ok ()"
proof -
  let ?out = "fold_phase2 (demo_gate_phase1 False)"
  let ?st = "demo_issue (StClaimed ''07'' ''6d'' ''33'')"
  have i: "bt_get (fo_issues ?out) ''i'' = Some ?st" by code_simp
  have u: "unconsumed_approvals ?out ''i'' = [\<lparr>aa_event_hash = ''34'', aa_approval = demo_approval\<rparr>]" by code_simp
  have l: "next_chain_link ?out ''07'' = (3, ''33'')" "sat_add (fo_max_admitted_lamport ?out) 1 = 4"
    "fo_genesis_hash ?out = ''31''" "fo_latest_roster_epoch ?out = 0" by code_simp+
  have p: "\<exists>j. project_issue tdemo_services tdemo_tracker ?out ?st (demo_world False, tdemo_cells) = (Ok j, (demo_world False, tdemo_cells))"
  proof -
    have "is_ok (project_base ?out ?st)" by code_simp
    then obtain b where b: "project_base ?out ?st = Ok b" by (cases "project_base ?out ?st") auto
    have "agent_id_new ''07'' = Ok ''07''" by code_simp
    then show ?thesis
      by (simp add: project_issue_def io_bind_def io_lift_def b demo_issue_def [THEN arg_cong [where f = is_status]] read_heartbeat_def
          demo_api_def [THEN arg_cong [where f = api_get]] Let_def split: option.splits)
  qed
  then obtain j where j: "project_issue tdemo_services tdemo_tracker ?out ?st (demo_world False, tdemo_cells) = (Ok j, (demo_world False, tdemo_cells))" ..
  have h: "content_hash demo_prims demo_core_codecs j = sha256_hex demo_prims [1]" by (simp add: content_hash_def demo_core_codecs_def)
  have "sha256_hex demo_prims (as_bytes (s @ '':consume-bridge'')) = ''65''" for s
    by (simp add: sha256_hex_def demo_prims_def as_bytes_def) code_simp
  from this [of "''07:'' @ show_word (3 :: u64) @ '':1''"]
  have c: "bridge_consume tdemo_prims tdemo_tracker ?out demo_spend ''6d'' ''33'' \<lparr>aa_event_hash = ''34'', aa_approval = demo_approval\<rparr> [] = demo_consume"
    by (simp add: bridge_consume_def l demo_consume_def demo_spend_def V2_SCHEMA_def demo_approval_def [THEN arg_cong [where f = ae_actor]])
  have w: "confirm_consumed (fold_phase2 (demo_gate_phase1 True)) ''34'' ''35'' = Ok ()" by code_simp
  have f: "require_own_fence tdemo_prims tdemo_tracker ?out ''i'' = Ok (''6d'', ''33'')"
    by (simp add: require_own_fence_Ok_iff i demo_issue_def)
  show ?thesis
    using tdemo_view_bound [OF demo_gate_view [of False]] tdemo_view_bound [OF demo_gate_view [of True]]
    by (simp add: store_consumed_def io_bind_def io_lift_def tdemo_own_bound i f j h u c w demo_append on_store_def after_def settle_def
        demo_spend_def [THEN arg_cong [where f = ac_issue_id]] demo_spend_def [THEN arg_cong [where f = ac_content_hash]])
qed

section \<open>Claiming\<close>

text \<open>The daemon before and after the claim: no approval has been given yet.\<close>

definition demo_claim_records :: "bool \<Rightarrow> store_record list" where
  "demo_claim_records claimed = [\<lparr>sr_key = ''card-self'', sr_value = demo_key 7\<rparr>, demo_record ''genesis'' ''1'', demo_record ''ev-i-32'' ''2''] @
     (if claimed then [demo_record ''ev-i-33'' ''3''] else [])"

definition demo_claim_world :: "bool \<Rightarrow> demo_world" where
  "demo_claim_world claimed = demo_entries ''09'' [\<lparr>sr_key = ''card-self'', sr_value = demo_key 9\<rparr>] @ demo_entries ''07'' (demo_claim_records claimed)"

definition demo_claimer :: "bool \<Rightarrow> author_stream" where
  "demo_claimer claimed = \<lparr>as_owner = ''07'', as_card_self = Some (demo_key 7), as_records = demo_claim_records claimed\<rparr>"

definition demo_silent :: author_stream where
  "demo_silent = \<lparr>as_owner = ''09'', as_card_self = Some (demo_key 9), as_records = [\<lparr>sr_key = ''card-self'', sr_value = demo_key 9\<rparr>]\<rparr>"

definition demo_claimer_canonical :: "bool \<Rightarrow> author_stream" where
  "demo_claimer_canonical claimed = \<lparr>as_owner = ''07'', as_card_self = Some (demo_key 7), as_records =
     [\<lparr>sr_key = ''card-self'', sr_value = demo_key 7\<rparr>, demo_record ''ev-i-32'' ''2''] @
     (if claimed then [demo_record ''ev-i-33'' ''3''] else []) @ [demo_record ''genesis'' ''1'']\<rparr>"

lemma demo_claim_read:
  "read_fold_input demo_prims demo_api demo_manager ''u'' ''07'' (demo_claim_world claimed) =
     (Ok (demo_input [demo_claimer claimed, demo_silent]), demo_claim_world claimed)"
proof -
  have stream: "read_author_stream demo_api demo_manager ''u'' ''07'' (demo_claim_world claimed) = (Ok (demo_claimer claimed), demo_claim_world claimed)"
    "read_author_stream demo_api demo_manager ''u'' ''09'' (demo_claim_world claimed) = (Ok demo_silent, demo_claim_world claimed)"
    by (simp_all add: read_author_stream_def Let_def io_bind_def io_map_err_def io_lift_def demo_anchor demo_topics demo_manager_limits
      demo_api_def [THEN arg_cong [where f = api_list_keys]] demo_api_def [THEN arg_cong [where f = api_get]]
      demo_claim_world_def demo_entries_def demo_claim_records_def demo_record_def demo_claimer_def demo_silent_def
      default_fold_limits_def CARD_SELF_KEY_def as_bytes_def)
  have "named_members demo_prims (demo_record ''genesis'' ''1'') = [''07'', ''09'']"
    by (simp add: named_members_def demo_record_def GENESIS_KEY_def ROSTER_KEY_PREFIX_def demo_decode Let_def)
      (simp add: payload_bytes_def decode_b64_def demo_envelope_def demo_b64_simps demo_json demo_genesis_def)
  moreover have "named_members demo_prims (demo_record k v) = []" if "k \<in> {''ev-i-32'', ''ev-i-33''}" for k v
    using that by (auto simp: named_members_def demo_record_def GENESIS_KEY_def ROSTER_KEY_PREFIX_def)
  moreover have "named_members demo_prims \<lparr>sr_key = ''card-self'', sr_value = v\<rparr> = []" for v
    by (auto simp: named_members_def GENESIS_KEY_def ROSTER_KEY_PREFIX_def)
  moreover have "bset_extend [] [''07'', ''09''] = [''07'', ''09'']" by code_simp
  moreover have "bset_extend ms [] = ms" for ms :: "string btree_set" by (simp add: bset_extend_def)
  ultimately have "roster_members_named demo_prims (demo_claim_records claimed) = [''07'', ''09'']"
    by (cases claimed) (simp_all add: roster_members_named_def demo_claim_records_def)
  then show ?thesis
    by (simp add: read_fold_input_def io_bind_def io_lift_def stream Let_def demo_claimer_def demo_manager_limits default_fold_limits_def demo_input_def)
qed

lemma demo_claim_canonical_any:
  "canonical_streams P
     [\<lparr>as_owner = ''07'', as_card_self = Some k7, as_records =
        [\<lparr>sr_key = ''card-self'', sr_value = k7\<rparr>, demo_record ''genesis'' ''1'', demo_record ''ev-i-32'' ''2'']\<rparr>,
      \<lparr>as_owner = ''09'', as_card_self = Some k9, as_records = [\<lparr>sr_key = ''card-self'', sr_value = k9\<rparr>]\<rparr>] =
     ([(''07'', \<lparr>as_owner = ''07'', as_card_self = Some k7, as_records =
        [\<lparr>sr_key = ''card-self'', sr_value = k7\<rparr>, demo_record ''ev-i-32'' ''2'', demo_record ''genesis'' ''1'']\<rparr>),
      (''09'', \<lparr>as_owner = ''09'', as_card_self = Some k9, as_records = [\<lparr>sr_key = ''card-self'', sr_value = k9\<rparr>]\<rparr>)], [])"
  "canonical_streams P
     [\<lparr>as_owner = ''07'', as_card_self = Some k7, as_records =
        [\<lparr>sr_key = ''card-self'', sr_value = k7\<rparr>, demo_record ''genesis'' ''1'', demo_record ''ev-i-32'' ''2'', demo_record ''ev-i-33'' ''3'']\<rparr>,
      \<lparr>as_owner = ''09'', as_card_self = Some k9, as_records = [\<lparr>sr_key = ''card-self'', sr_value = k9\<rparr>]\<rparr>] =
     ([(''07'', \<lparr>as_owner = ''07'', as_card_self = Some k7, as_records =
        [\<lparr>sr_key = ''card-self'', sr_value = k7\<rparr>, demo_record ''ev-i-32'' ''2'', demo_record ''ev-i-33'' ''3'', demo_record ''genesis'' ''1'']\<rparr>),
      (''09'', \<lparr>as_owner = ''09'', as_card_self = Some k9, as_records = [\<lparr>sr_key = ''card-self'', sr_value = k9\<rparr>]\<rparr>)], [])"
  by code_simp+

definition demo_claim_phase1 :: "bool \<Rightarrow> phase1" where
  "demo_claim_phase1 claimed = \<lparr>p1_genesis = demo_genesis, p1_genesis_hash = ''31'', p1_rosters = demo_rosters,
     p1_admitted = [demo_open] @ (if claimed then [demo_claim] else []), p1_rejections = [], p1_forks = []\<rparr>"

definition demo_claim_streams :: "bool \<Rightarrow> (string, author_stream) btree_map" where
  "demo_claim_streams claimed = [(''07'', demo_claimer_canonical claimed), (''09'', demo_silent)]"

lemma demo_claim_fold:
  "fold_v2 demo_prims (demo_input [demo_claimer claimed, demo_silent]) = Ok (fold_phase2 (demo_claim_phase1 claimed))"
proof -
  have canonical: "canonical_streams demo_prims [demo_claimer claimed, demo_silent] = (demo_claim_streams claimed, [])"
    by (cases claimed) (simp_all add: demo_claimer_def demo_silent_def demo_claim_records_def demo_claim_canonical_any demo_claimer_canonical_def demo_claim_streams_def)
  have budget: "check_raw_budget default_fold_limits [demo_claimer claimed, demo_silent] = Ok ()"
    "check_merged_budget default_fold_limits (demo_claim_streams claimed) = Ok ()"
    by (simp_all add: check_raw_budget_Ok_iff check_merged_budget_Ok_iff default_fold_limits_def demo_claimer_def demo_silent_def
      demo_claim_records_def demo_claimer_canonical_def demo_record_def unat_sat_add as_bytes_def demo_claim_streams_def)
  have resolve: "resolve_genesis demo_prims (demo_input ss) (demo_claim_streams claimed) [] =
     Ok (demo_claimer_canonical claimed, demo_key 7, demo_genesis, ''31'')" for ss
    by (simp add: demo_claim_streams_def resolve_genesis_def demo_input_def demo_claimer_canonical_def bt_get_def verified_card_def demo_derive Let_def
      GENESIS_KEY_def verify_genesis_def demo_eval demo_json demo_genesis_def V2_SCHEMA_def default_fold_limits_def)
  have "bset_of_list (gm_roster demo_genesis) = [''07'', ''09'']" by code_simp
  then have roster: "build_roster_chain demo_prims (demo_claimer_canonical claimed) ''u'' ''07'' (demo_key 7) ''31'' 256
     (bset_of_list (gm_roster demo_genesis)) = Ok (demo_rosters, [], [])"
    by (simp add: build_roster_chain_def demo_claimer_canonical_def demo_record_def ROSTER_KEY_PREFIX_def demo_rosters_def unreachable_rejections_def)
  have "event_records (demo_claimer_canonical claimed) = [demo_record ''ev-i-32'' ''2''] @ (if claimed then [demo_record ''ev-i-33'' ''3''] else [])"
    "event_records demo_silent = []"
    by (simp_all add: event_records_def demo_claimer_canonical_def demo_silent_def is_chained_key_def demo_record_def
      EVENT_KEY_PREFIX_def APPROVAL_KEY_PREFIX_def CONSUME_KEY_PREFIX_def HANDOFF_KEY_PREFIX_def)
  moreover have "verified_card demo_prims (demo_claimer_canonical claimed) = Ok (demo_key 7)" "verified_card demo_prims demo_silent = Ok (demo_key 9)"
    by (simp_all add: verified_card_def demo_claimer_canonical_def demo_silent_def demo_derive)
  ultimately have admit: "admit_streams demo_prims [] ''u'' ''31'' demo_rosters (demo_claim_streams claimed) [] [] =
    ([(''07'', [demo_open] @ (if claimed then [demo_claim] else [])), (''09'', [])], [])"
    by (simp add: demo_claim_streams_def admit_stream_def demo_admit)
  have chain: "chain_authors ''31'' [(''07'', [demo_open]), (''09'', [])] = ([demo_open], [], [])"
    "chain_authors ''31'' [(''07'', [demo_open, demo_claim]), (''09'', [])] = ([demo_open, demo_claim], [], [])" by code_simp+
  have "sort_key fold_order [demo_open] = [demo_open]" "sort_key fold_order [demo_open, demo_claim] = [demo_open, demo_claim]"
    "lamport_pass 0 [] [demo_open] = ([False], [])" "lamport_pass 0 [] [demo_open, demo_claim] = ([False, False], [])" by code_simp+
  then have cap: "apply_lamport_cap [demo_open] = ([demo_open], [])" "apply_lamport_cap [demo_open, demo_claim] = ([demo_open, demo_claim], [])"
    by (simp_all add: apply_lamport_cap_def lamport_fixpoint.simps)
  have "fi_list_uuid (demo_input ss) = ''u''" "fi_creator (demo_input ss) = ''07''"
    "fi_streams (demo_input ss) = ss" "fi_limits (demo_input ss) = default_fold_limits"
    "max_roster_members default_fold_limits = 256" for ss
    by (simp_all add: demo_input_def default_fold_limits_def)
  note rules = this fold_v2_def fold_admission_def fold_phase1_def demo_claim_phase1_def
  show ?thesis
  proof (cases claimed)
    case t: True
    have True: "claimed = True" using t by simp
    show ?thesis by (simp add: rules admit [unfolded True] budget [unfolded True] canonical [unfolded True] resolve [unfolded True]
        roster [unfolded True] chain cap True del: chain_authors.simps)
  next
    case False
    then have f: "claimed = False" by simp
    show ?thesis by (simp add: rules admit [unfolded f] budget [unfolded f] canonical [unfolded f] resolve [unfolded f]
        roster [unfolded f] chain cap f del: chain_authors.simps)
  qed
qed

lemma demo_claim_view: "demo_view (demo_claim_world claimed) (demo_input [demo_claimer claimed, demo_silent]) (fold_phase2 (demo_claim_phase1 claimed))"
proof -
  have "gm_roster (fo_genesis (fold_phase2 (demo_claim_phase1 claimed))) = [''07'', ''09'']"
    "fo_current_roster (fold_phase2 (demo_claim_phase1 claimed)) = [''07'', ''09'']" by (cases claimed; code_simp)+
  then show ?thesis by (simp add: demo_view_def demo_claim_read demo_claim_fold)
qed

lemma demo_claim_append:
  "append_transition demo_prims demo_codecs demo_api demo_own (demo_transition (TkClaim ''6d'') 2 2 ''32'') (demo_claim_world False) =
     (Ok ''33'', demo_claim_world True)"
proof -
  let ?ev = "demo_transition (TkClaim ''6d'') 2 2 ''32''"
  have "transition_to_signed_bytes demo_codecs ?ev = Ok (as_bytes ''3'')" by (simp add: transition_to_signed_bytes_def demo_codecs_def)
  moreover have "enc_envelope demo_codecs (demo_envelope TRANSITION_CONTEXT_V2 ''3'' ''k7'' ''07'') = Ok (as_bytes ''3'')"
    by (simp add: demo_codecs_def demo_envelope_def TRANSITION_CONTEXT_V2_def CONSUME_CONTEXT_V2_def)
  moreover have "demo_b64_encode (as_bytes ''3'') = ''3''" by code_simp
  moreover have "b64_encode demo_codecs = demo_b64_encode" by (simp add: demo_codecs_def)
  moreover have "te_actor ?ev = ''07''" "te_list_uuid ?ev = ''u''" "te_issue_id ?ev = ''i''" by (simp_all add: demo_transition_def)
  moreover have "map_of (demo_claim_world False) (''symphony2-ev-u-07'', ''ev-i-33'') = None"
    "demo_claim_world True = demo_claim_world False @ [((''symphony2-ev-u-07'', ''ev-i-33''), as_bytes ''3'')]"
    by (simp_all add: demo_claim_world_def demo_entries_def demo_claim_records_def demo_record_def demo_topics)
  ultimately show ?thesis
    by (simp add: append_transition_def append_record_def sign_envelope_def put_once_def encode_envelope_def demo_own_def demo_api_def
        io_bind_def io_lift_def io_map_err_def demo_digest demo_keys demo_topics demo_envelope_def V2_SCHEMA_def Let_def)
qed

definition demo_claimed_world :: demo_world where
  "demo_claimed_world = demo_claim_world True @ [((''symphony2-hb-u-07'', ''hb-i''), as_bytes ''t'')]"

lemma demo_v2_claim:
  "v2_claim tdemo_prims tdemo_services tdemo_tracker ''i'' ''07'' (demo_claim_world False, v2_cells_new) =
     (Ok (claim_new (Some ''i'') ''07'' ''t'' RoleManualM1), (demo_claimed_world, tdemo_cells))"
proof -
  let ?out = "fold_phase2 (demo_claim_phase1 False)"
  have i: "bt_get (fo_issues ?out) ''i'' = Some ((demo_issue StOpen)\<lparr>is_applied := [''32'']\<rparr>)" by code_simp
  have i': "bt_get (fo_issues (fold_phase2 (demo_claim_phase1 True))) ''i'' = Some (demo_issue (StClaimed ''07'' ''6d'' ''33''))" by code_simp
  have l: "next_chain_link ?out ''07'' = (2, ''32'')" "sat_add (fo_max_admitted_lamport ?out) 1 = 2"
    "fo_genesis_hash ?out = ''31''" "fo_latest_roster_epoch ?out = 0" by code_simp+
  have "sha256_hex demo_prims (as_bytes (s @ '':claim'')) = ''6d''" for s
    by (simp add: sha256_hex_def demo_prims_def as_bytes_def) code_simp
  from this [of "''07:'' @ show_word (2 :: u64) @ '':'' @ show_word (2 :: u64) @ '':i''"]
  have n: "derive_claim_nonce demo_prims ''07'' 2 2 ''i'' = ''6d''" by (simp add: derive_claim_nonce_def)
  have ev: "build_claim_transition demo_prims ?out ''u'' ''07'' ''i'' = demo_transition (TkClaim ''6d'') 2 2 ''32''"
    by (simp add: build_claim_transition_def l n demo_transition_def V2_SCHEMA_def Let_def)
  have "map_of (demo_claim_world False) (''symphony2-ev-u-07'', ''card-self'') = Some (demo_key 7)"
    by (simp add: demo_claim_world_def demo_entries_def demo_claim_records_def demo_topics)
  note own = tdemo_own [OF this]
  have hb: "put_heartbeat demo_api demo_own ''i'' ''t'' (demo_claim_world True) = (Ok (), demo_claimed_world)"
    by (simp add: put_heartbeat_def io_bind_def io_map_err_def tolerate_conflict_def demo_api_def demo_own_def heartbeat_store_topic_def
        heartbeat_key_def demo_claimed_world_def Let_def)
  have st: "is_status ((demo_issue StOpen)\<lparr>is_applied := [''32'']\<rparr>) = StOpen" "is_status (demo_issue x) = x" for x
    by (simp_all add: demo_issue_def)
  show ?thesis
    using tdemo_view_new [OF demo_claim_view [of False]] tdemo_view_bound [OF demo_claim_view [of True]]
    by (simp add: v2_claim_def io_bind_def io_lift_def require_local_agent_def own i st i' ev demo_claim_append on_store_def claim_confirmed_def
        tracker_now_utc_def after_def after_store_def hb display_reconcile_def Let_def)
qed

section \<open>A run that hands the issue off\<close>

definition tdemo_orch :: "demo_world tw orch_services" where
  "tdemo_orch = v2_orch_services tdemo_prims tdemo_services tdemo_tracker
     \<lparr>tr_fetch_candidates = (\<lambda>_ s. (Ok [], s)), tr_fetch_by_ids = (\<lambda>_ s. (Ok [], s)), tr_fetch_claimed = (\<lambda>s. (Ok [], s)),
      tr_claim = (\<lambda>_ _ s. (Err (SyTracker []), s)), tr_release = (\<lambda>_ _ s. (Ok (), s)), tr_handoff = (\<lambda>_ _ s. (Ok (), s)),
      tr_block = (\<lambda>_ _ s. (Ok (), s)), tr_load_approval_state = (\<lambda>_ s. (Err (SyTracker []), s)), tr_store_consumed = (\<lambda>_ s. (Ok (), s)),
      trust_lookup = (\<lambda>_ s. (Ok TrustKnown, s)), signing = None, key_resolver = None, clock_now = (\<lambda>s. (0, s)), random_u128 = (\<lambda>s. (7, s)),
      emit = (\<lambda>_ s. s), cancel_heartbeat = (\<lambda>s. s), spawn_heartbeat = (\<lambda>_ _ s. s), shutdown_flag = (\<lambda>_. False), set_shutdown = (\<lambda>s. s)\<rparr>"

definition tdemo_run :: "demo_world tw run_services" where
  "tdemo_run =
     \<lparr>rs_orch = tdemo_orch, rn_name = ''shell'', rn_start_session = (\<lambda>_ _ _ s. (Ok ''s'', s)),
      rn_select = (\<lambda>_ _ s. (SelTurn (Ok \<lparr>ct_status = TurnSucceeded, ct_summary = None\<rparr>), s)), rn_stop_session = (\<lambda>_ s. s),
      ws_create = (\<lambda>i s. (Ok \<lparr>wh_issue_id = iss_id i, wh_path = ''/ws'', wh_created_now = True\<rparr>, s)),
      ws_run_hook_in = (\<lambda>_ _ _ s. (Ok \<lparr>hko_status = HookSucceeded, hko_exit_code = Some 0\<rparr>, s)), ws_destroy = (\<lambda>_ s. (Ok (), s)),
      pf_start = (\<lambda>_ _ s. (Ok ''proofs'', s)), pf_spawn_event_writer = (\<lambda>_ s. s), pf_join_event_writer = (\<lambda>s. (Ok (), s)),
      pf_finish = (\<lambda>_ _ _ s. (Ok (), s)), px_status = (\<lambda>_ _ s. (Ok (True, Some 0), s)), px_git_diff = (\<lambda>_ s. (None, s)),
      rs_sleep = (\<lambda>_ s. s), rs_show_error = (\<lambda>_. ''error''), rs_poll_wait = (\<lambda>_ s. (True, s)), pf_write_abandoned = (\<lambda>_ _ _ _ _ s. (Ok (), s))\<rparr>"

definition tdemo_config :: orch_config where
  "tdemo_config = demo_config\<lparr>oc_gate := demo_settings\<lparr>gs_agent_id := ''07''\<rparr>\<rparr>"

definition tdemo_claim :: claim where
  "tdemo_claim = claim_new (Some ''i'') ''07'' ''t'' RoleManualM1"

definition tdemo_handoff :: handoff where
  "tdemo_handoff = (handoff_new (''runner '' @ [CHR 0x27] @ ''shell'' @ [CHR 0x27] @ '' succeeded after 1 attempt(s)''))\<lparr>ho_proofs_dir := Some ''proofs''\<rparr>"

definition demo_done_world :: demo_world where
  "demo_done_world = demo_world True @ [((''symphony2-ev-u-07'', ''ho-i-37''), as_bytes ''7''), ((''symphony2-ev-u-07'', ''ev-i-36''), as_bytes ''6'')]"

lemma demo_handoff_appends:
  "append_handoff demo_prims demo_codecs demo_api demo_own demo_handoff (demo_world True) =
     (Ok ''37'', demo_world True @ [((''symphony2-ev-u-07'', ''ho-i-37''), as_bytes ''7'')])"
  "append_transition demo_prims demo_codecs demo_api demo_own (demo_transition (TkComplete ''6d'' ''33'') 6 5 ''37'')
     (demo_world True @ [((''symphony2-ev-u-07'', ''ho-i-37''), as_bytes ''7'')]) = (Ok ''36'', demo_done_world)"
proof -
  let ?ev = "demo_transition (TkComplete ''6d'' ''33'') 6 5 ''37''"
  have enc: "handoff_to_signed_bytes demo_codecs demo_handoff = Ok (as_bytes ''7'')" "transition_to_signed_bytes demo_codecs ?ev = Ok (as_bytes ''6'')"
    by (simp_all add: handoff_to_signed_bytes_def transition_to_signed_bytes_def demo_codecs_def demo_transition_def)
  have env: "enc_envelope demo_codecs (demo_envelope HANDOFF_CONTEXT_V2 ''7'' ''k7'' ''07'') = Ok (as_bytes ''7'')"
    "enc_envelope demo_codecs (demo_envelope TRANSITION_CONTEXT_V2 ''6'' ''k7'' ''07'') = Ok (as_bytes ''6'')"
    by (simp_all add: demo_codecs_def demo_envelope_def TRANSITION_CONTEXT_V2_def CONSUME_CONTEXT_V2_def HANDOFF_CONTEXT_V2_def)
  have b: "demo_b64_encode (as_bytes ''7'') = ''7''" "demo_b64_encode (as_bytes ''6'') = ''6''" by code_simp+
  have k: "b64_encode demo_codecs = demo_b64_encode" by (simp add: demo_codecs_def)
  have f: "te_actor ?ev = ''07''" "te_list_uuid ?ev = ''u''" "te_issue_id ?ev = ''i''" "he_actor demo_handoff = ''07''" "he_list_uuid demo_handoff = ''u''"
    "he_issue_id demo_handoff = ''i''" by (simp_all add: demo_transition_def demo_handoff_def)
  have m: "map_of (demo_world True) (''symphony2-ev-u-07'', ''ho-i-37'') = None" "map_of (demo_world True) (''symphony2-ev-u-07'', ''ev-i-36'') = None"
    by (simp_all add: demo_world_def demo_entries_def demo_records_def demo_approver_records_def demo_record_def demo_topics)
  note rules = append_handoff_def append_transition_def append_record_def sign_envelope_def put_once_def encode_envelope_def demo_own_def demo_api_def
    io_bind_def io_lift_def io_map_err_def demo_digest demo_keys demo_topics Let_def enc b k f m
  show "append_handoff demo_prims demo_codecs demo_api demo_own demo_handoff (demo_world True) =
     (Ok ''37'', demo_world True @ [((''symphony2-ev-u-07'', ''ho-i-37''), as_bytes ''7'')])"
    using env by (simp add: rules demo_envelope_def V2_SCHEMA_def)
  show "append_transition demo_prims demo_codecs demo_api demo_own ?ev
     (demo_world True @ [((''symphony2-ev-u-07'', ''ho-i-37''), as_bytes ''7'')]) = (Ok ''36'', demo_done_world)"
    using env by (simp add: rules demo_envelope_def V2_SCHEMA_def demo_done_world_def map_add_def)
qed

lemma demo_v2_handoff:
  "v2_handoff tdemo_prims tdemo_services tdemo_tracker tdemo_claim tdemo_handoff (demo_world True, tdemo_cells) = (Ok (), (demo_done_world, tdemo_cells))"
proof -
  let ?out = "fold_phase2 (demo_gate_phase1 True)"
  have i: "bt_get (fo_issues ?out) ''i'' = Some (demo_issue (StClaimed ''07'' ''6d'' ''33''))" by code_simp
  have f: "require_own_fence tdemo_prims tdemo_tracker ?out ''i'' = Ok (''6d'', ''33'')"
    by (simp add: require_own_fence_Ok_iff i demo_issue_def)
  have l: "next_chain_link ?out ''07'' = (4, ''35'')" "sat_add (fo_max_admitted_lamport ?out) 1 = 5" "sat_add (fo_max_admitted_lamport ?out) 2 = 6"
    "fo_genesis_hash ?out = ''31''" "fo_latest_roster_epoch ?out = 0" "sat_add (4 :: u64) 1 = 5" by code_simp+
  have ev: "handoff_event tdemo_tracker ?out ''i'' ''6d'' ''33'' tdemo_handoff = demo_handoff"
    "complete_event tdemo_tracker ?out ''i'' ''6d'' ''33'' ''37'' = demo_transition (TkComplete ''6d'' ''33'') 6 5 ''37''"
    by (simp_all add: handoff_event_def complete_event_def l demo_handoff_def demo_transition_def tdemo_handoff_def handoff_new_def V2_SCHEMA_def)
  have c: "cl_by tdemo_claim = ''07''" "cl_issue_id tdemo_claim = Some ''i''" by (simp_all add: tdemo_claim_def claim_new_def)
  show ?thesis
    using tdemo_view_bound [OF demo_gate_view [of True]]
    by (simp add: v2_handoff_def with_own_fence_def io_bind_def io_lift_def require_local_agent_def claim_issue_id_def c tdemo_own_bound f ev
        on_store_def demo_handoff_appends append_transition_io_def after_def display_reconcile_def)
qed

lemma tdemo_orch_fields:
  "tr_fetch_by_ids tdemo_orch = fetch_by_ids tdemo_prims tdemo_services tdemo_tracker"
  "tr_handoff tdemo_orch = v2_handoff tdemo_prims tdemo_services tdemo_tracker" "cancel_heartbeat tdemo_orch = (\<lambda>s. s)"
  "spawn_heartbeat tdemo_orch = (\<lambda>_ _ s. s)" "clock_now tdemo_orch = (\<lambda>s. (0, s))"
  by (simp_all add: tdemo_orch_def v2_orch_services_def)

lemma demo_list:
  "\<exists>j. list_issues tdemo_prims tdemo_services tdemo_tracker (demo_world True, tdemo_cells) = (Ok [j], (demo_world True, tdemo_cells)) \<and>
     iss_id j = ''i'' \<and> iss_state j = ''in_progress'' \<and> iss_signature_provenance j = Some (ProvVerified ''07'') \<and> iss_extra j = []"
proof -
  let ?out = "fold_phase2 (demo_gate_phase1 True)" and ?st = "demo_issue (StClaimed ''07'' ''6d'' ''33'')"
  have v: "bt_values (fo_issues ?out) = [?st]" by code_simp
  have "is_ok (project_base ?out ?st)" by code_simp
  then obtain b where b: "project_base ?out ?st = Ok b" by (cases "project_base ?out ?st") auto
  have "agent_id_new ''07'' = Ok ''07''" by code_simp
  then have "\<exists>j. project_issue tdemo_services tdemo_tracker ?out ?st (demo_world True, tdemo_cells) = (Ok j, (demo_world True, tdemo_cells))"
    by (simp add: project_issue_def io_bind_def io_lift_def b demo_issue_def [THEN arg_cong [where f = is_status]] read_heartbeat_def
        demo_api_def [THEN arg_cong [where f = api_get]] Let_def split: option.splits)
  then obtain j where j: "project_issue tdemo_services tdemo_tracker ?out ?st (demo_world True, tdemo_cells) = (Ok j, (demo_world True, tdemo_cells))" ..
  from project_issue_Ok [OF j] have "iss_id j = ''i''" "iss_state j = ''in_progress''" "iss_signature_provenance j = Some (ProvVerified ''07'')" "iss_extra j = []"
    by (simp_all add: projects_def demo_issue_def projected_state_def)
  with j v tdemo_view_bound [OF demo_gate_view [of True]] show ?thesis
    by (simp add: list_issues_def project_all_def io_bind_def io_lift_def)
qed

lemma demo_fetch_issue:
  "\<exists>j. fetch_by_ids tdemo_prims tdemo_services tdemo_tracker [''i''] (demo_world True, tdemo_cells) = (Ok [j], (demo_world True, tdemo_cells)) \<and>
     self_authored (oc_gate tdemo_config) j \<and> iss_extra j = []"
proof -
  from demo_list obtain j where l: "list_issues tdemo_prims tdemo_services tdemo_tracker (demo_world True, tdemo_cells) = (Ok [j], (demo_world True, tdemo_cells))"
    and j: "iss_id j = ''i''" "iss_signature_provenance j = Some (ProvVerified ''07'')" "iss_extra j = []" by blast
  have "trim ''07'' = ''07''" by code_simp
  with l j show ?thesis by (simp add: fetch_by_ids_def io_bind_def io_lift_def self_authored_def tdemo_config_def)
qed

lemma tdemo_completes:
  "\<exists>s'. run_claim demo_gate_prims tdemo_run tdemo_config tdemo_claim ((demo_world True, tdemo_cells), demo_state) = (Ok Completed, s')"
proof -
  from demo_fetch_issue obtain j where
    j: "fetch_by_ids tdemo_prims tdemo_services tdemo_tracker [''i''] (demo_world True, tdemo_cells) = (Ok [j], (demo_world True, tdemo_cells))"
    and self: "self_authored (oc_gate tdemo_config) j" and ex: "iss_extra j = []" by blast
  have c: "cl_issue_id tdemo_claim = Some ''i''" by (simp add: tdemo_claim_def claim_new_def)
  have g: "block_if_network_dispatch_refused demo_gate_prims show tdemo_orch (oc_gate tdemo_config) tdemo_claim j s = (Ok GateProceed, s)" for "show" s
    using self by (simp add: block_if_network_dispatch_refused_def io_lift_def)
  have hk: "run_hook_phase tdemo_run tdemo_config c h ph s = (Ok None, s)" for c h ph s
    by (simp add: run_hook_phase_def hooks_hook_def tdemo_config_def demo_config_def io_lift_def split: hook_name.splits)
  have val: "configured_validation_commands (oc_validation_commands tdemo_config) j = []"
    by (simp add: configured_validation_commands_def tdemo_config_def demo_config_def issue_extra_string_list_def ex List.map_filter_def)
  have f: "rs_orch tdemo_run = tdemo_orch" "rn_name tdemo_run = ''shell''" "rn_start_session tdemo_run = (\<lambda>_ _ _ s. (Ok ''s'', s))"
    "rn_select tdemo_run = (\<lambda>_ _ s. (SelTurn (Ok \<lparr>ct_status = TurnSucceeded, ct_summary = None\<rparr>), s))" "rn_stop_session tdemo_run = (\<lambda>_ s. s)"
    "ws_create tdemo_run = (\<lambda>i s. (Ok \<lparr>wh_issue_id = iss_id i, wh_path = ''/ws'', wh_created_now = True\<rparr>, s))"
    "pf_start tdemo_run = (\<lambda>_ _ s. (Ok ''proofs'', s))" "pf_spawn_event_writer tdemo_run = (\<lambda>_ s. s)" "pf_join_event_writer tdemo_run = (\<lambda>s. (Ok (), s))"
    "pf_finish tdemo_run = (\<lambda>_ _ _ s. (Ok (), s))" "px_git_diff tdemo_run = (\<lambda>_ s. (None, s))"
    by (simp_all add: tdemo_run_def)
  have "show_nat (Suc 0) = ''1''" by code_simp
  then have h: "build_success_handoff tdemo_run tdemo_config j ''/ws'' \<lparr>pr_relative_dir = ''proofs'', pr_hooks = []\<rparr> (Suc 0) \<lparr>ct_status = TurnSucceeded, ct_summary = None\<rparr> s =
    (tdemo_handoff, s)" for s
    by (simp add: build_success_handoff_def val changed_files_from_git_diff_def f tdemo_handoff_def follow_ups_from_summary_def with_proofs_dir_def
        with_follow_ups_def with_files_changed_def handoff_new_def runner_message_def)
  have cl: "cleanup_if_terminal tdemo_run tdemo_config c h ''review'' pf s = (Ok pf, s)" for c h pf s
    by (simp add: cleanup_if_terminal_def tdemo_config_def demo_config_def)
  have loop: "run_loop tdemo_run tdemo_config tdemo_claim j \<lparr>wh_issue_id = x, wh_path = ''/ws'', wh_created_now = True\<rparr> 0 \<lparr>pr_relative_dir = ''proofs'', pr_hooks = []\<rparr>
      (demo_world True, tdemo_cells) = (Ok Completed, (demo_done_world, tdemo_cells))" for x
    by (simp add: run_loop.simps attempt_turn_def block_if_hook_failed_def hk io_bind_def io_lift_def run_attempt_def f io_of_core_def io_map_err_def
        warn_after_run_hook_failure_def complete_run_def h tdemo_orch_fields demo_v2_handoff cl finish_proof_def now_io_def Let_def)
  show ?thesis
    by (simp add: run_claim_def run_claim_body_def fetch_claim_issue_def c io_bind_def io_lift_def io_of_core_def io_map_err_def f tdemo_orch_fields j
        dispatch_gate_resolution_def g now_io_def block_if_hook_failed_def hk loop Let_def)
qed

end
