(* ===== verification/Tracker_Properties.thy ===== *)
theory Tracker_Properties
  imports Tracker_Demo
begin

text \<open>
  The properties of the v2 tracker, alone and under the orchestrator, each with an instance on the tracker of
  \<open>Tracker_Demo\<close>.
\<close>

section \<open>Claims\<close>

text \<open>
  What a granted claim saw: an opening view with the issue open, and a confirming view, folded after the claim event
  \<open>h\<close> was stored in the agent's own event store, with the issue claimed by the agent through \<open>h\<close>. Two inputs of the fold
  have converged when they differ at most in how the same records and cards of each owner are arranged.
\<close>

definition claim_views ::
  "tracker_prims \<Rightarrow> 'w tracker_services \<Rightarrow> v2_tracker \<Rightarrow> string \<Rightarrow> string \<Rightarrow> fold_input \<Rightarrow> fold_input \<Rightarrow> string \<Rightarrow> bool" where
  "claim_views P S V issue_id agent opened confirmed h \<longleftrightarrow> agent = vt_agent_id V \<and>
     (\<exists>out i. view_of P S V opened out \<and> bt_get (fo_issues out) issue_id = Some i \<and> is_status i = StOpen) \<and>
     (\<exists>w bs c out s i nonce. stored (ts_api S) (event_store_topic (lr_list_uuid (vt_list_ref V)) agent) (event_key issue_id h) bs w \<and>
        fold_view P S V (w, c) = (Ok out, s) \<and> view_of P S V confirmed out \<and>
        bt_get (fo_issues out) issue_id = Some i \<and> is_status i = StClaimed agent nonce h)"

definition converged :: "fold_input \<Rightarrow> fold_input \<Rightarrow> bool" where
  "converged inp inp' \<longleftrightarrow> same_content (fi_streams inp) (fi_streams inp') \<and> inp' = inp\<lparr>fi_streams := fi_streams inp'\<rparr>"

lemma v2_claim_views:
  assumes "v2_claim P S V issue_id agent s = (Ok c, s')" and "cells_wf P (ts_api S) V (snd s)"
  shows "\<exists>opened confirmed h. claim_views P S V issue_id agent opened confirmed h"
proof -
  from v2_claim_Ok [OF assms(1)] obtain s1 own out s2 i w1 h w2 confirm s3 i' where
    a: "agent = vt_agent_id V" and o: "v2_own P S V s = (Ok own, s1)"
    and v: "fold_view P S V s1 = (Ok out, s2)" "bt_get (fo_issues out) issue_id = Some i" "is_status i = StOpen"
    and ap: "append_transition (tp_prims P) (tp_codecs P) (ts_api S) own
      (build_claim_transition (tp_prims P) out (lr_list_uuid (vt_list_ref V)) agent issue_id) w1 = (Ok h, w2)"
    and v': "fold_view P S V (w2, snd s2) = (Ok confirm, s3)" "bt_get (fo_issues confirm) issue_id = Some i'"
    and c: "claim_confirmed V h (is_status i')" by blast
  have "te_issue_id (build_claim_transition (tp_prims P) out (lr_list_uuid (vt_list_ref V)) agent issue_id) = issue_id"
    by (simp add: build_claim_transition_def case_prod_unfold Let_def)
  moreover have "os_topic own = event_store_topic (lr_list_uuid (vt_list_ref V)) agent"
    using v2_own_wf [OF o assms(2)] a by (simp add: own_wf_def)
  ultimately obtain bs where "stored (ts_api S) (event_store_topic (lr_list_uuid (vt_list_ref V)) agent) (event_key issue_id h) bs w2"
    using append_record_stored [OF ap [unfolded append_transition_def]] by auto
  moreover obtain nonce where "is_status i' = StClaimed agent nonce h"
    using c a by (auto simp: claim_confirmed_def split: issue_status_v2.splits)
  ultimately show ?thesis unfolding claim_views_def using a v(2,3) v' fold_view_Ok [OF v(1)] fold_view_Ok [OF v'(1)] by blast
qed

lemma converged_view:
  assumes "converged inp inp'" and "view_of P S V inp out" and "view_of P' S' V' inp' out'" and "tp_prims P = tp_prims P'"
  shows "out = out'"
proof -
  obtain ss' where inp': "inp' = inp\<lparr>fi_streams := ss'\<rparr>" and same: "same_content (fi_streams inp) ss'"
    using assms(1) unfolding converged_def by blast
  have f: "fold_v2 (tp_prims P) inp = Ok out" "fold_v2 (tp_prims P) (inp\<lparr>fi_streams := ss'\<rparr>) = Ok out'"
    using assms(2-4) by (simp_all add: view_of_def inp')
  then have "check_raw_budget (fi_limits inp) (fi_streams inp) = Ok ()" "check_raw_budget (fi_limits inp) ss' = Ok ()"
    by (auto simp: fold_v2_Ok_iff fold_admission_def)
  from fold_v2_same_content [OF same this, of "tp_prims P"] f show ?thesis by simp
qed

text \<open>
  C20: A claim is granted only to the winner: when the tracker returns a claim, the caller is the local agent, the
  issue was open in a fold of what was read, the claim event was signed and stored in the agent's own event
  store at its content address, and a later fold of what was read again shows the issue claimed by this agent
  through this very event.
\<close>

theorem v2_claim_sound:
  assumes "v2_claim P S V issue_id agent s = (Ok c, s')" and "cells_wf P (ts_api S) V (snd s)"
  shows "agent = vt_agent_id V \<and> cl_issue_id c = Some issue_id \<and> cl_by c = agent \<and>
    (\<exists>inp out i h bs w inp' confirm i' nonce. view_of P S V inp out \<and> bt_get (fo_issues out) issue_id = Some i \<and> is_status i = StOpen \<and>
       stored (ts_api S) (event_store_topic (lr_list_uuid (vt_list_ref V)) agent) (event_key issue_id h) bs w \<and>
       view_of P S V inp' confirm \<and> bt_get (fo_issues confirm) issue_id = Some i' \<and> is_status i' = StClaimed agent nonce h)"
proof -
  have "agent = vt_agent_id V \<and> cl_issue_id c = Some issue_id \<and> cl_by c = agent" using v2_claim_Ok [OF assms(1)] by blast
  moreover from v2_claim_views [OF assms] obtain opened confirmed h where "claim_views P S V issue_id agent opened confirmed h" by blast
  ultimately show ?thesis unfolding claim_views_def by blast
qed

theorem v2_claim_sound_witness:
  "\<exists>h bs w. stored demo_api ''symphony2-ev-u-07'' (event_key ''i'' h) bs w \<and>
     (\<exists>inp confirm i nonce. view_of tdemo_prims tdemo_services tdemo_tracker inp confirm \<and> bt_get (fo_issues confirm) ''i'' = Some i \<and>
        is_status i = StClaimed ''07'' nonce h)"
  using v2_claim_sound [OF demo_v2_claim] by (auto simp: demo_topics)

text \<open>
  C21: At most one agent holds an issue: of two successful claim calls, by any two trackers of the same list, each
  opened on a view with the issue open and was confirmed by a view, taken after its own claim event was stored,
  with the issue claimed by its own agent through that event. When the two confirming views saw the same records and
  cards of every owner, the two agents are one and the two events are one; and a claim never opens on the records
  on which the other one was confirmed.
\<close>

theorem v2_claim_exclusive:
  assumes "v2_claim P S V issue_id agent s = (Ok c, s')" and "cells_wf P (ts_api S) V (snd s)"
    and "v2_claim P' S' V' issue_id agent' t = (Ok c', t')" and "cells_wf P' (ts_api S') V' (snd t)" and "tp_prims P = tp_prims P'"
  shows "\<exists>opened confirmed h opened' confirmed' h'. claim_views P S V issue_id agent opened confirmed h \<and>
    claim_views P' S' V' issue_id agent' opened' confirmed' h' \<and>
    (converged confirmed confirmed' \<longrightarrow> agent = agent' \<and> h = h') \<and>
    \<not> converged confirmed opened' \<and> \<not> converged confirmed' opened"
proof -
  from v2_claim_views [OF assms(1,2)] obtain opened confirmed h where v: "claim_views P S V issue_id agent opened confirmed h" by blast
  from v2_claim_views [OF assms(3,4)] obtain opened' confirmed' h' where v': "claim_views P' S' V' issue_id agent' opened' confirmed' h'" by blast
  from v obtain out0 i0 out i nonce where
    o: "view_of P S V opened out0" "bt_get (fo_issues out0) issue_id = Some i0" "is_status i0 = StOpen"
    and c: "view_of P S V confirmed out" "bt_get (fo_issues out) issue_id = Some i" "is_status i = StClaimed agent nonce h"
    unfolding claim_views_def by blast
  from v' obtain out0' i0' out' i' nonce' where
    o': "view_of P' S' V' opened' out0'" "bt_get (fo_issues out0') issue_id = Some i0'" "is_status i0' = StOpen"
    and c': "view_of P' S' V' confirmed' out'" "bt_get (fo_issues out') issue_id = Some i'" "is_status i' = StClaimed agent' nonce' h'"
    unfolding claim_views_def by blast
  have "agent = agent' \<and> h = h'" if "converged confirmed confirmed'"
    using converged_view [OF that c(1) c'(1) assms(5)] c c' by simp
  moreover have "\<not> converged confirmed opened'" using converged_view [OF _ c(1) o'(1) assms(5)] c o' by auto
  moreover have "\<not> converged confirmed' opened" using converged_view [OF _ c'(1) o(1) assms(5) [symmetric]] c' o by auto
  ultimately show ?thesis using v v' by blast
qed

theorem v2_claim_exclusive_witness:
  "\<exists>opened confirmed h. claim_views tdemo_prims tdemo_services tdemo_tracker ''i'' ''07'' opened confirmed h \<and>
     (\<exists>opened' confirmed' h'. claim_views tdemo_prims tdemo_services tdemo_tracker ''i'' ''07'' opened' confirmed' h' \<and>
        \<not> converged confirmed opened' \<and> \<not> converged confirmed' opened)"
proof -
  have wf: "cells_wf tdemo_prims (ts_api tdemo_services) tdemo_tracker (snd (demo_claim_world False, v2_cells_new))"
    using cells_wf_new by simp
  from v2_claim_exclusive [OF demo_v2_claim wf demo_v2_claim wf refl] show ?thesis by blast
qed

section \<open>Views\<close>

text \<open>
  A served view is complete and fails closed: it is the fold of what was read, and every member of the genesis
  roster and of the current roster is the agent itself, or its store was joined (and so is anchored to its
  owner under the required policy), or its store is not there yet. A store that is there but shows another
  owner or policy is never passed over.
\<close>

theorem fold_view_complete:
  assumes "fold_view P S V s = (Ok out, s')" and "cells_wf P (ts_api S) V (snd s)"
  shows "(\<exists>inp. view_of P S V inp out) \<and>
    (\<forall>m \<in> set (gm_roster (fo_genesis out)) \<union> set (fo_current_roster out). m = vt_agent_id V \<or>
       m \<in> set (vc_joined (snd s')) \<and> anchored (ts_api S) (sm_mode (vt_manager V)) (event_store_topic (lr_list_uuid (vt_list_ref V)) m) m \<or>
       (\<exists>w e w'. join_peer_store (ts_api S) (vt_manager V) (lr_list_uuid (vt_list_ref V)) m w = (Err e, w') \<and> \<not> integrity_error e))"
proof -
  have "cells_wf P (ts_api S) V (snd s')"
    using keepsD [OF cells.fold_view assms(1)] assms(2) by (simp add: cells_kept_def)
  then have "\<forall>m \<in> set (vc_joined (snd s')). anchored (ts_api S) (sm_mode (vt_manager V)) (event_store_topic (lr_list_uuid (vt_list_ref V)) m) m"
    by (simp add: cells_wf_def joined_wf_def)
  with fold_view_Ok [OF assms(1)] fold_view_settled [OF assms(1)] show ?thesis unfolding member_settled_def by blast
qed

theorem fold_view_complete_witness: "anchored demo_api AppendOnly (event_store_topic ''u'' ''09'') ''09''"
proof -
  let ?c = "v2_cells_new\<lparr>vc_own := Some demo_own\<rparr>" and ?out = "fold_phase2 (demo_claim_phase1 True)"
  have "own_wf tdemo_prims demo_api tdemo_tracker demo_own"
    using demo_derive demo_anchor [of "''symphony2-ev-u-07''" "''07''", THEN verify_store_anchor_Ok]
    by (simp add: own_wf_def demo_own_def demo_topics demo_manager_limits)
  then have "cells_wf tdemo_prims (ts_api tdemo_services) tdemo_tracker (snd (demo_claim_world True, ?c))"
    using cells_wf_new [of tdemo_prims demo_api tdemo_tracker] by (simp add: cells_wf_def v2_cells_new_def)
  note c = fold_view_complete [OF tdemo_view_new [OF demo_claim_view [of True]] this]
  have "fo_current_roster ?out = [''07'', ''09'']" by code_simp
  with c tdemo_join show ?thesis by (fastforce simp: demo_manager_limits)
qed

text \<open>
  What the orchestrator sees is authenticated: an issue the tracker lists has the identifier, title, description
  and opener of a folded issue that is traced to events whose signatures and authors the fold verified, and a
  claim it shows is that of the claimant in the fold; the candidates are exactly the listed issues in an active
  state, in strictly ascending order of their identifiers.
\<close>

theorem candidates_authenticated:
  assumes "fetch_candidates P S V ctx s = (Ok is, s')"
  shows "sorted_wrt (<) (map iss_id is) \<and> (\<exists>all s1. list_issues P S V s = (Ok all, s1) \<and> set is = {i \<in> set all. iss_state i \<in> set (pc_active_states ctx)}) \<and>
    (\<forall>i \<in> set is. \<exists>inp p st. fold_admission (tp_prims P) inp = Ok p \<and> view_of P S V inp (fold_phase2 p) \<and>
       bt_get (fo_issues (fold_phase2 p)) (iss_id i) = Some st \<and> projects (fold_phase2 p) st i \<and>
       issue_traced {a. authenticated (tp_prims P) inp (p1_genesis_hash p) (p1_rosters p) a} st)"
proof -
  from assms obtain all s1 where l: "list_issues P S V s = (Ok all, s1)"
    and "is": "is = sort_key iss_id (filter (\<lambda>i. list_ex (\<lambda>state. state = iss_state i) (pc_active_states ctx)) all)"
    by (auto simp: fetch_candidates_def io_bind_Ok_iff)
  have s: "set is = {i \<in> set all. iss_state i \<in> set (pc_active_states ctx)}" by (auto simp: "is" list_ex_iff)
  have "sorted_wrt (<) (map iss_id all)" using list_issues_ids [OF l] .
  then have "distinct (map iss_id (filter (\<lambda>i. list_ex (\<lambda>state. state = iss_state i) (pc_active_states ctx)) all))"
    by (simp add: strict_sorted_iff distinct_map_filter)
  then have "distinct (map iss_id is)" unfolding "is"
    by (metis distinct_map distinct_sort set_sort)
  then have "sorted_wrt (<) (map iss_id is)" by (simp add: strict_sorted_iff "is")
  moreover have "\<exists>inp p st. fold_admission (tp_prims P) inp = Ok p \<and> view_of P S V inp (fold_phase2 p) \<and>
       bt_get (fo_issues (fold_phase2 p)) (iss_id i) = Some st \<and> projects (fold_phase2 p) st i \<and>
       issue_traced {a. authenticated (tp_prims P) inp (p1_genesis_hash p) (p1_rosters p) a} st" if "i \<in> set is" for i
  proof -
    from that s list_issues_mem [OF l] obtain inp out st where v: "view_of P S V inp out" "bt_get (fo_issues out) (iss_id i) = Some st" "projects out st i"
      by blast
    then obtain p where p: "fold_admission (tp_prims P) inp = Ok p" "out = fold_phase2 p" by (auto simp: view_of_def fold_v2_Ok_iff)
    with v folded_issue_traced [OF p(1)] show ?thesis by blast
  qed
  ultimately show ?thesis using l s by blast
qed

theorem candidates_authenticated_witness:
  "\<exists>(j :: issue) inp p st. fold_admission demo_prims inp = Ok p \<and> bt_get (fo_issues (fold_phase2 p)) ''i'' = Some st \<and> iss_id j = ''i'' \<and>
     iss_title j = is_title st \<and> iss_signature_provenance j = Some (ProvVerified (is_opened_by st)) \<and>
     issue_traced {a. authenticated demo_prims inp (p1_genesis_hash p) (p1_rosters p) a} st"
proof -
  from demo_list obtain j where l: "list_issues tdemo_prims tdemo_services tdemo_tracker (demo_world True, tdemo_cells) = (Ok [j], (demo_world True, tdemo_cells))"
    and j: "iss_id j = ''i''" "iss_state j = ''in_progress''" by blast
  have run: "fetch_candidates tdemo_prims tdemo_services tdemo_tracker \<lparr>pc_active_states = [''todo'', ''in_progress''], pc_terminal_states = [], pc_agent_id = None\<rparr>
    (demo_world True, tdemo_cells) = (Ok [j], (demo_world True, tdemo_cells))"
    by (simp add: fetch_candidates_def io_bind_def io_lift_def l j)
  from candidates_authenticated [OF run] obtain inp p st where t: "fold_admission demo_prims inp = Ok p"
    "bt_get (fo_issues (fold_phase2 p)) (iss_id j) = Some st" "projects (fold_phase2 p) st j"
    "issue_traced {a. authenticated demo_prims inp (p1_genesis_hash p) (p1_rosters p) a} st" by auto
  then have "iss_title j = is_title st" "iss_signature_provenance j = Some (ProvVerified (is_opened_by st))" by (simp_all add: projects_def)
  with t j(1) show ?thesis by (intro exI [of _ j] exI [of _ inp] exI [of _ p] exI [of _ st]) simp
qed

section \<open>State of the tracker\<close>

text \<open>
  C23: The lazily filled cells are well-formed after every sequence of calls, whatever they return: a bound store is the
  configured agent's own store on this list, its key derives to the agent's identifier, and it is anchored;
  the joined members are a strictly ascending set of other agents, each with an anchored store.
\<close>

theorem tracker_cells_wf: "cells_wf P (ts_api S) V (snd (foldl (run_call P S V) (w, v2_cells_new) calls))"
  using cells.run_calls_le [of P S V "(w, v2_cells_new)" calls] by (simp add: cells_kept_def)

text \<open>
  C22: The event stores are append-only: over every sequence of tracker calls, whatever they return, a record that
  is in an event store stays there with the same bytes, provided the daemon's reads return what it holds and
  change nothing, its writes change at most the key written, and everything else keeps the records.
\<close>

theorem tracker_append_only:
  assumes "services_faithful S contents" and "is_event_topic topic" and "contents w (topic, key) = Some bs"
  shows "contents (fst (foldl (run_call P S V) (w, c) calls)) (topic, key) = Some bs"
  using records.run_calls_le [of S contents "(w, c)" P V calls] assms by (simp add: tracker_grows_def grows_def)

theorem tracker_append_only_witness:
  "map_of (fst (foldl (run_call tdemo_prims tdemo_services tdemo_tracker) (demo_claim_world False, v2_cells_new)
     [CallClaim ''i'' ''07'', CallHeartbeat tdemo_claim, CallRelease tdemo_claim \<lparr>rr_code = RcShutdown, rr_message = []\<rparr>]))
     (''symphony2-ev-u-07'', ''ev-i-32'') = Some (as_bytes ''2'')"
proof (rule tracker_append_only)
  have "store_faithful demo_api map_of"
    by (auto simp: store_faithful_def demo_api_def keeps_def grow.refl map_add_def fun_eq_iff split: option.splits)
  then show "services_faithful tdemo_services map_of" by (simp add: services_faithful_def grow.refl)
  show "is_event_topic ''symphony2-ev-u-07''" by (simp add: is_event_topic_def)
  show "map_of (demo_claim_world False) (''symphony2-ev-u-07'', ''ev-i-32'') = Some (as_bytes ''2'')"
    by (simp add: demo_claim_world_def demo_entries_def demo_claim_records_def demo_record_def demo_topics)
qed

section \<open>Consumption and handoff\<close>

text \<open>
  A consumption is acknowledged only when it won: the local agent held the claim in a fold, the content the consumption
  names is the content of that fold's issue, the approval consumed was unconsumed there and approves this
  issue's content, our consume event was stored, and a later fold has it as the effective consume of that
  approval.
\<close>

theorem v2_consume_sound:
  assumes "store_consumed P S V event s = (Ok u, s')"
  shows "consume_confirmed P S V (ac_issue_id event) \<and>
    (\<exists>inp out st nonce hash i. view_of P S V inp out \<and> bt_get (fo_issues out) (ac_issue_id event) = Some st \<and>
       is_status st = StClaimed (vt_agent_id V) nonce hash \<and> projects out st i \<and> content_hash (tp_prims P) (tp_core P) i = ac_content_hash event)"
proof -
  from store_consumed_Ok [OF assms] obtain s1 out s2 st nonce hash projected s3 where
    "fold_view P S V s1 = (Ok out, s2)" "bt_get (fo_issues out) (ac_issue_id event) = Some st" "is_status st = StClaimed (vt_agent_id V) nonce hash"
    "project_issue S V out st s2 = (Ok projected, s3)" "content_hash (tp_prims P) (tp_core P) projected = ac_content_hash event" by blast
  with store_consumed_confirmed [OF assms] show ?thesis by (blast dest: fold_view_Ok project_issue_Ok)
qed

theorem v2_consume_sound_witness: "consume_confirmed tdemo_prims tdemo_services tdemo_tracker ''i''"
proof -
  obtain s' where "store_consumed tdemo_prims tdemo_services tdemo_tracker demo_spend (demo_world False, tdemo_cells) = (Ok (), s')"
    using demo_store_consumed by (metis prod.collapse)
  from v2_consume_sound [OF this] show ?thesis by (simp add: demo_spend_def)
qed

text \<open>
  A handoff survives the event log: what is projected back from the handoff event that the tracker writes is the
  handoff that was given to it, with the issue and the signer filled in and the v1 signature dropped.
\<close>

theorem handoff_roundtrip:
  "project_handoff i (handoff_event V out issue_id nonce hash h) =
     h\<lparr>ho_issue_id := Some i, ho_signer_agent_id := Some (vt_agent_id V), ho_signature := None\<rparr>"
  by (rule project_handoff_event)

text \<open>
  A handoff is two chained events under one fence: when the tracker accepts a handoff, it stored the handoff event and then
  a completion whose predecessor hash is that handoff's and whose sequence number is the next one, both
  carrying the nonce and the hash of the claim that the folded view shows for the local agent.
\<close>

theorem v2_handoff_chained:
  assumes "v2_handoff P S V c h s = (Ok u, s')"
  shows "\<exists>issue_id. cl_issue_id c = Some issue_id \<and> handoff_recorded P S V issue_id h \<and>
    (\<forall>out nonce hash hh. te_prev_own_event_hash (complete_event V out issue_id nonce hash hh) = hh \<and>
       te_author_seq (complete_event V out issue_id nonce hash hh) = sat_add (he_author_seq (handoff_event V out issue_id nonce hash h)) 1 \<and>
       te_kind (complete_event V out issue_id nonce hash hh) = TkComplete nonce hash \<and>
       he_claim_nonce (handoff_event V out issue_id nonce hash h) = nonce \<and> he_claimed_event_hash (handoff_event V out issue_id nonce hash h) = hash)"
  using v2_handoff_recorded [OF assms] by (auto simp: complete_event_def handoff_event_def case_prod_unfold)

theorem v2_handoff_chained_witness: "handoff_recorded tdemo_prims tdemo_services tdemo_tracker ''i'' tdemo_handoff"
  using v2_handoff_chained [OF demo_v2_handoff] by (simp add: tdemo_claim_def claim_new_def)

section \<open>The orchestrator on the v2 tracker\<close>

text \<open>
  C19: From authorisation to record, end to end: a run of the orchestrator on the v2 tracker that ends as completed ran
  an issue that a fold of what was read shows with this content and opener, and that is network-sourced. The
  issue is the agent's own, or network dispatch is on, the opener is trusted, and under the approve policy a
  consume of ours is the effective consume of an approval of this issue's content. The handoff and the
  completion are stored as chained events under the agent's claim.
\<close>

theorem v2_completed_run:
  assumes "run_claim G R cfg c (s, st) = (Ok Completed, (s', st'))" and "rs_orch R = v2_orch_services P S V base"
  shows "\<exists>issue_id i inp out fst h. cl_issue_id c = Some issue_id \<and> view_of P S V inp out \<and> bt_get (fo_issues out) issue_id = Some fst \<and>
    projects out fst i \<and> is_network_sourced i \<and> completed_evidence R c i \<and> handoff_recorded P S V issue_id h \<and>
    (self_authored (oc_gate cfg) i \<or> gs_network_dispatch (oc_gate cfg) \<noteq> PolicyOff \<and>
      (\<exists>signer level. gate_signer i = Ok signer \<and> (\<exists>w w'. trust_lookup base signer w = (Ok level, w')) \<and> gs_required_trust (oc_gate cfg) \<le> level \<and>
         level \<noteq> TrustBlocked \<and> level \<noteq> TrustUnknown \<and> (gs_network_dispatch (oc_gate cfg) = PolicyApprove \<longrightarrow> consume_confirmed P S V issue_id)))"
proof -
  let ?O = "v2_orch_services P S V base"
  have trust: "trust_lookup ?O = trust_lookup base" by (simp add: v2_orch_services_def)
  from v2.completed [OF assms] obtain issue_id i s1 "is" where
    c: "cl_issue_id c = Some issue_id" "iss_id i = issue_id" "is_network_sourced i" and f: "tr_fetch_by_ids ?O [issue_id] s = (Ok (i # is), s1)"
    and ev: "completed_evidence R c i"
    and auth: "self_authored (oc_gate cfg) i \<or> gs_network_dispatch (oc_gate cfg) \<noteq> PolicyOff \<and>
      (\<exists>signer level. gate_signer i = Ok signer \<and> (\<exists>w w'. trust_lookup ?O signer w = (Ok level, w')) \<and> gs_required_trust (oc_gate cfg) \<le> level \<and>
         level \<noteq> TrustBlocked \<and> level \<noteq> TrustUnknown \<and> (gs_network_dispatch (oc_gate cfg) = PolicyApprove \<longrightarrow> approval_spent G ?O (oc_gate cfg) i signer))"
    by blast
  from f have "fetch_by_ids P S V [issue_id] s = (Ok (i # is), s1)" by (simp add: v2_orch_services_def)
  from fetch_by_ids_Ok [OF this, of i] c(2) obtain inp out fs where v: "view_of P S V inp out" "bt_get (fo_issues out) issue_id = Some fs" "projects out fs i"
    by auto
  from ev obtain h s5 s6 where "v2_handoff P S V c h s5 = (Ok (), s6)"
    unfolding completed_evidence_def assms(2) by (auto simp: v2_orch_services_def)
  from v2_handoff_recorded [OF this] c(1) have h: "handoff_recorded P S V issue_id h" by auto
  have "consume_confirmed P S V issue_id" if "approval_spent G ?O (oc_gate cfg) i signer" for signer
    using approval_spent_v2 [OF that] c(2) by simp
  with auth have auth': "self_authored (oc_gate cfg) i \<or> gs_network_dispatch (oc_gate cfg) \<noteq> PolicyOff \<and>
      (\<exists>signer level. gate_signer i = Ok signer \<and> (\<exists>w w'. trust_lookup base signer w = (Ok level, w')) \<and> gs_required_trust (oc_gate cfg) \<le> level \<and>
         level \<noteq> TrustBlocked \<and> level \<noteq> TrustUnknown \<and> (gs_network_dispatch (oc_gate cfg) = PolicyApprove \<longrightarrow> consume_confirmed P S V issue_id))"
    unfolding trust by blast
  show ?thesis using c v ev h auth' by blast
qed

theorem v2_completed_run_witness:
  "\<exists>i out fs h. bt_get (fo_issues out) ''i'' = Some fs \<and> projects out fs i \<and> completed_evidence tdemo_run tdemo_claim i \<and>
     handoff_recorded tdemo_prims tdemo_services tdemo_tracker ''i'' h"
proof -
  obtain base where base: "rs_orch tdemo_run = v2_orch_services tdemo_prims tdemo_services tdemo_tracker base"
    by (simp add: tdemo_run_def tdemo_orch_def)
  obtain s' st' where run: "run_claim demo_gate_prims tdemo_run tdemo_config tdemo_claim ((demo_world True, tdemo_cells), demo_state) = (Ok Completed, (s', st'))"
    using tdemo_completes by (metis prod.collapse)
  from v2_completed_run [OF run base] show ?thesis by (fastforce simp: tdemo_claim_def claim_new_def)
qed

end
