(* ===== verification/Worker_Cards.thy ===== *)
theory Worker_Cards
  imports Approval Gate
begin

text \<open>
  Signed worker advertisements (\<^verbatim>\<open>core/workers.rs\<close>). The JSON encoder of a card and the addition of a duration
  to a timestamp are third-party parameters, the fields of \<open>card_prims\<close>; the addition of \<^verbatim>\<open>chrono\<close> panics when
  the sum is out of range, which is the value \<open>None\<close> of \<open>dt_add\<close> and of \<open>card_is_expired\<close>.
\<close>

section \<open>Cards\<close>

definition WORKER_CARD_CONTEXT :: string where
  "WORKER_CARD_CONTEXT = ''x0x-symphony-worker-card-v1''"

definition WORKER_CARD_SCHEMA_VERSION :: u32 where
  "WORKER_CARD_SCHEMA_VERSION = 1"

record platform_info =
  pi_os :: string
  pi_arch :: string
  pi_version :: string

record worker_card =
  wc_schema_version :: u32
  wc_agent_id :: string
  wc_issued_at :: string
  wc_ttl_seconds :: u64
  wc_capabilities :: "string list"
  wc_sandbox_levels :: "string list"
  wc_runner_presets :: "string list"
  wc_current_load :: u32
  wc_max_load :: u32
  wc_platform :: platform_info
  wc_signature :: "signature_envelope option"

record card_prims =
  cp_crypto :: crypto
  cp_chrono :: chrono
  dt_add :: "instant \<Rightarrow> int \<Rightarrow> instant option"
  enc_card :: "worker_card \<Rightarrow> (bytes, string) result"

definition card_signing_payload_bytes :: "card_prims \<Rightarrow> worker_card \<Rightarrow> (bytes, symphony_error) result" where
  "card_signing_payload_bytes P wcard = map_err SyJson (enc_card P (wcard\<lparr>wc_signature := None\<rparr>))"

definition card_signing_payload_sha256 :: "card_prims \<Rightarrow> worker_card \<Rightarrow> (string, symphony_error) result" where
  "card_signing_payload_sha256 P wcard = and_then (card_signing_payload_bytes P wcard) (\<lambda>payload. Ok (sha256_hex (cp_crypto P) payload))"

definition parse_timestamp :: "card_prims \<Rightarrow> string \<Rightarrow> instant option" where
  "parse_timestamp P v = (case parse_rfc3339 (cp_chrono P) v of Ok t \<Rightarrow> Some t | Err _ \<Rightarrow> None)"

definition card_is_expired :: "card_prims \<Rightarrow> worker_card \<Rightarrow> string \<Rightarrow> bool option" where
  "card_is_expired P wcard now =
     (case parse_timestamp P (wc_issued_at wcard) of
        None \<Rightarrow> Some True
      | Some issued_at \<Rightarrow>
          (case parse_timestamp P now of
             None \<Rightarrow> Some True
           | Some t \<Rightarrow>
               (case chrono_from_std (cp_chrono P) (duration_from_secs (unat (wc_ttl_seconds wcard))) of
                  None \<Rightarrow> Some True
                | Some ttl \<Rightarrow> (case dt_add P issued_at ttl of None \<Rightarrow> None | Some expiry \<Rightarrow> Some (expiry \<le> t)))))"

text \<open>The envelope names the scheme, the context, the card's agent and the digest of the card. The tracker
  and the daemon each have this test.\<close>

definition card_envelope_consistent :: "card_prims \<Rightarrow> worker_card \<Rightarrow> bool" where
  "card_envelope_consistent P wcard =
     (case wc_signature wcard of
        None \<Rightarrow> False
      | Some sg \<Rightarrow>
          sge_algorithm sg = SIGN_ALGORITHM \<and> sge_context sg = WORKER_CARD_CONTEXT \<and> sge_signer_agent_id sg = wc_agent_id wcard \<and>
          card_signing_payload_sha256 P wcard = Ok (sge_payload_sha256 sg))"

section \<open>Lemmas\<close>

lemma card_payload_signature [simp]: "card_signing_payload_bytes P (wcard\<lparr>wc_signature := sg\<rparr>) = card_signing_payload_bytes P wcard"
  by (simp add: card_signing_payload_bytes_def)

lemma card_live_iff:
  "card_is_expired P wcard now = Some False \<longleftrightarrow>
     (\<exists>issued t ttl expiry. parse_timestamp P (wc_issued_at wcard) = Some issued \<and> parse_timestamp P now = Some t \<and>
        chrono_from_std (cp_chrono P) (duration_from_secs (unat (wc_ttl_seconds wcard))) = Some ttl \<and> dt_add P issued ttl = Some expiry \<and> t < expiry)"
  by (auto simp: card_is_expired_def split: option.splits)

end
