(* ===== verification/Text_Search.thy ===== *)
theory Text_Search
  imports Text
begin

text \<open>
  Searching in text: \<^verbatim>\<open>str::find\<close> and \<^verbatim>\<open>str::contains\<close> on a pattern string, and \<^verbatim>\<open>trim_end_matches\<close> on a character. A
  pattern that is a whole UTF-8 sequence can only match at a character boundary of a well-formed text, so byte
  offsets serve. Lemmas: a match is the first one, and it stays the first one when text is appended.
  Then \<^verbatim>\<open>String::from_utf8_lossy\<close>: well-formed bytes are decoded to themselves, also part by part.
\<close>

fun str_find :: "string \<Rightarrow> string \<Rightarrow> nat option" where
  "str_find p [] = (if p = [] then Some 0 else None)"
| "str_find p (c # s) = (if prefix p (c # s) then Some 0 else map_option Suc (str_find p s))"

definition str_contains :: "string \<Rightarrow> string \<Rightarrow> bool" where
  "str_contains p s = (str_find p s \<noteq> None)"

definition contains_whitespace :: "string \<Rightarrow> bool" where
  "contains_whitespace s = list_ex (\<lambda>w. str_contains w s) whitespace"

definition trim_end_matches :: "char \<Rightarrow> string \<Rightarrow> string" where
  "trim_end_matches c s = rev (dropWhile (\<lambda>x. x = c) (rev s))"

section \<open>Lemmas\<close>

lemma str_find_SomeD: "str_find p s = Some i \<Longrightarrow> prefix p (drop i s) \<and> i + length p \<le> length s"
proof (induction p s arbitrary: i rule: str_find.induct)
  case (2 p c s)
  then show ?case by (auto split: if_splits dest: prefix_length_le)
qed (auto split: if_splits)

lemma str_find_first: "str_find p s = Some i \<Longrightarrow> j < i \<Longrightarrow> \<not> prefix p (drop j s)"
proof (induction p s arbitrary: i j rule: str_find.induct)
  case (2 p c s)
  then show ?case by (cases j) (auto split: if_splits)
qed (auto split: if_splits)

lemma str_find_NoneD: "str_find p s = None \<Longrightarrow> \<not> prefix p (drop j s)"
proof (induction p s arbitrary: j rule: str_find.induct)
  case (2 p c s)
  then show ?case by (cases j) (auto split: if_splits)
qed (auto split: if_splits)

lemma str_find_SomeI: "prefix p (drop i s) \<Longrightarrow> i \<le> length s \<Longrightarrow> (\<And>j. j < i \<Longrightarrow> \<not> prefix p (drop j s)) \<Longrightarrow> str_find p s = Some i"
proof (induction p s arbitrary: i rule: str_find.induct)
  case (2 p c s)
  show ?case
  proof (cases i)
    case (Suc k)
    have "str_find p s = Some k"
    proof (rule "2.IH")
      show "\<not> prefix p (c # s)" using "2.prems"(3) [of 0] Suc by simp
      show "prefix p (drop k s)" "k \<le> length s" using "2.prems" Suc by auto
      show "\<not> prefix p (drop j s)" if "j < k" for j using "2.prems"(3) [of "Suc j"] Suc that by simp
    qed
    then show ?thesis using "2.prems"(3) [of 0] Suc by simp
  qed (use "2.prems" in auto)
qed auto

text \<open>An occurrence is an occurrence in every longer text, and one that fits in the shorter text is one there.\<close>

lemma prefix_drop_append: "i + length p \<le> length s \<Longrightarrow> prefix p (drop i (s @ t)) \<longleftrightarrow> prefix p (drop i s)"
  by (auto simp: prefix_append simp flip: length_0_conv)

lemma prefix_drop_nth:
  assumes "p \<noteq> []"
  shows "prefix p (drop j s) \<longleftrightarrow> j + length p \<le> length s \<and> (\<forall>k < length p. s ! (j + k) = p ! k)"
proof
  assume "prefix p (drop j s)"
  then obtain t where t: "drop j s = p @ t" by (auto simp: prefix_def)
  with assms have j: "j < length s" by (metis append_is_Nil_conv drop_all not_le)
  with t have "length s - j = length p + length t" by (metis length_append length_drop)
  moreover have "s ! (j + k) = p ! k" if "k < length p" for k using j t that by (metis nth_append nth_drop less_imp_le)
  ultimately show "j + length p \<le> length s \<and> (\<forall>k < length p. s ! (j + k) = p ! k)" using j by simp
next
  assume "j + length p \<le> length s \<and> (\<forall>k < length p. s ! (j + k) = p ! k)"
  then have "take (length p) (drop j s) = p" by (intro nth_equalityI) auto
  then show "prefix p (drop j s)" using take_is_prefix [of "length p" "drop j s"] by simp
qed

section \<open>Lossy decoding\<close>

text \<open>\<^verbatim>\<open>String::from_utf8_lossy\<close>: the bytes are decoded from the left; where no well-formed sequence starts, the longest
  beginning of one, or else a single byte, is replaced by the character U+FFFD (\<^verbatim>\<open>Utf8Chunks\<close>).\<close>

definition utf8_second_ok :: "u8 \<Rightarrow> u8 \<Rightarrow> bool" where
  "utf8_second_ok a b \<longleftrightarrow> is_continuation b \<and> (a = 0xE0 \<longrightarrow> 0xA0 \<le> b) \<and> (a = 0xED \<longrightarrow> b \<le> 0x9F) \<and> (a = 0xF0 \<longrightarrow> 0x90 \<le> b) \<and> (a = 0xF4 \<longrightarrow> b \<le> 0x8F)"

fun utf8_error_len :: "bytes \<Rightarrow> nat" where
  "utf8_error_len (a # b # c # bs) =
     (if 0xE0 \<le> a \<and> a \<le> 0xEF \<and> utf8_second_ok a b then 2
      else if 0xF0 \<le> a \<and> a \<le> 0xF4 \<and> utf8_second_ok a b then if is_continuation c then 3 else 2
      else 1)"
| "utf8_error_len [a, b] = (if 0xE0 \<le> a \<and> a \<le> 0xF4 \<and> utf8_second_ok a b then 2 else 1)"
| "utf8_error_len _ = 1"

definition byte_chars :: "bytes \<Rightarrow> string" where
  "byte_chars bs = map (\<lambda>b. char_of (unat b)) bs"

definition REPLACEMENT_CHARACTER :: string where
  "REPLACEMENT_CHARACTER = [CHR 0xEF, CHR 0xBF, CHR 0xBD]"

lemma utf8_error_len_pos: "0 < utf8_error_len bs"
  by (cases bs rule: utf8_error_len.cases) auto

function from_utf8_lossy :: "bytes \<Rightarrow> string" where
  "from_utf8_lossy bs =
     (if bs = [] then []
      else if utf8_char_len bs = 0 then REPLACEMENT_CHARACTER @ from_utf8_lossy (drop (utf8_error_len bs) bs)
      else byte_chars (take (utf8_char_len bs) bs) @ from_utf8_lossy (drop (utf8_char_len bs) bs))"
  by auto
termination by (relation "measure length") (auto simp: utf8_error_len_pos)

declare from_utf8_lossy.simps [simp del]

text \<open>Well-formed text is decoded to itself, and well-formed parts make well-formed text.\<close>

lemma from_utf8_lossy_valid: "utf8_valid bs \<Longrightarrow> from_utf8_lossy bs = byte_chars bs"
proof (induction bs rule: utf8_valid.induct)
  case (1 bs)
  show ?case
  proof (cases "bs = []")
    case False
    with 1(2) have len: "utf8_char_len bs \<noteq> 0" "utf8_valid (drop (utf8_char_len bs) bs)"
      by (auto simp: utf8_valid.simps [of bs] split: if_splits)
    then have "from_utf8_lossy bs = byte_chars (take (utf8_char_len bs) bs) @ byte_chars (drop (utf8_char_len bs) bs)"
      using 1(1) False by (simp add: from_utf8_lossy.simps [of bs])
    then show ?thesis by (simp add: byte_chars_def flip: map_append)
  qed (simp add: from_utf8_lossy.simps byte_chars_def)
qed

lemma utf8_char_len_le: "utf8_char_len bs \<noteq> 0 \<Longrightarrow> utf8_char_len bs \<le> length bs"
proof (cases bs)
  case (Cons a as)
  then show "utf8_char_len bs \<noteq> 0 \<Longrightarrow> ?thesis" by (simp split: if_split_asm list.split_asm)
qed simp

lemma utf8_char_len_append: "utf8_char_len a \<noteq> 0 \<Longrightarrow> utf8_char_len (a @ b) = utf8_char_len a"
proof (cases a)
  case (Cons x as)
  then show "utf8_char_len a \<noteq> 0 \<Longrightarrow> ?thesis" by (simp split: if_split_asm list.split_asm)
qed simp

lemma utf8_valid_append: "utf8_valid a \<Longrightarrow> utf8_valid b \<Longrightarrow> utf8_valid (a @ b)"
proof (induction a rule: utf8_valid.induct)
  case (1 a)
  show ?case
  proof (cases "a = []")
    case False
    with 1(2) have len: "utf8_char_len a \<noteq> 0" "utf8_valid (drop (utf8_char_len a) a)"
      by (auto simp: utf8_valid.simps [of a] split: if_splits)
    with 1 False utf8_char_len_append [OF len(1), of b] utf8_char_len_le [OF len(1)] show ?thesis by (simp add: utf8_valid.simps [of "a @ b"])
  qed (use 1 in simp)
qed

lemma utf8_valid_concat: "list_all utf8_valid cs \<Longrightarrow> utf8_valid (concat cs)"
  by (induction cs) (simp_all add: utf8_valid_append utf8_valid.simps [of "[]"])

lemma from_utf8_lossy_concat: "list_all utf8_valid cs \<Longrightarrow> concat (map from_utf8_lossy cs) = from_utf8_lossy (concat cs)"
  by (induction cs) (simp_all add: from_utf8_lossy_valid utf8_valid_append utf8_valid_concat byte_chars_def from_utf8_lossy.simps [of "[]"])

end
