(* ===== verification/Cells.thy ===== *)
theory Cells
  imports Effect_Laws
begin

text \<open>
  Components with state of their own beside the services they call: an operation runs on the pair of the
  services' world and the component's cells (\<^verbatim>\<open>Mutex\<close>, \<^verbatim>\<open>RwLock\<close>, atomics). \<open>on_world\<close> calls a service,
  \<open>get_cells\<close> and \<open>upd_cells\<close> read and write the cells, and \<open>io_try\<close> hands an error to the caller as a value.
\<close>

definition on_world :: "('e \<Rightarrow> 'f) \<Rightarrow> ('w, 'a, 'e) io \<Rightarrow> ('w \<times> 'c, 'a, 'f) io" where
  "on_world g m = (\<lambda>(w, c). case m w of (r, w') \<Rightarrow> (map_err g r, (w', c)))"

definition read_world :: "('w \<Rightarrow> 'a \<times> 'w) \<Rightarrow> ('w \<times> 'c, 'a, 'f) io" where
  "read_world m = (\<lambda>(w, c). case m w of (x, w') \<Rightarrow> (Ok x, (w', c)))"

definition get_cells :: "('w \<times> 'c, 'c, 'f) io" where
  "get_cells = (\<lambda>(w, c). (Ok c, (w, c)))"

definition upd_cells :: "('c \<Rightarrow> 'c) \<Rightarrow> ('w \<times> 'c, unit, 'f) io" where
  "upd_cells f = (\<lambda>(w, c). (Ok (), (w, f c)))"

definition io_try :: "('s, 'a, 'e) io \<Rightarrow> ('s, ('a, 'e) result, 'f) io" where
  "io_try m = (\<lambda>s. case m s of (r, s') \<Rightarrow> (Ok r, s'))"

section \<open>Lemmas\<close>

lemma io_bind_cong1: "(\<And>x. f x = g x) \<Longrightarrow> io_bind m f = io_bind m g"
  by presburger

lemma io_bind_lift [simp]: "io_bind (io_lift (Ok x)) f = f x" "io_bind (io_lift (Err e)) f = io_lift (Err e)"
  by (simp_all add: io_bind_def io_lift_def fun_eq_iff)

lemma on_world_iff: "on_world g m s = (Ok x, s') \<longleftrightarrow> m (fst s) = (Ok x, fst s') \<and> snd s' = snd s"
  by (cases s; cases s') (auto simp: on_world_def split: prod.splits)

lemma read_world_iff: "read_world m s = (Ok x, s') \<longleftrightarrow> m (fst s) = (x, fst s') \<and> snd s' = snd s"
  by (cases s; cases s') (auto simp: read_world_def split: prod.splits)

lemma get_cells_iff [simp]: "get_cells s = (r, s') \<longleftrightarrow> r = Ok (snd s) \<and> s' = s"
  by (auto simp: get_cells_def split: prod.splits)

lemma upd_cells_iff [simp]: "upd_cells f s = (r, s') \<longleftrightarrow> r = Ok () \<and> s' = (fst s, f (snd s))"
  by (auto simp: upd_cells_def split: prod.splits)

lemma io_try_iff [simp]: "io_try m s = (r, s') \<longleftrightarrow> (\<exists>r'. r = Ok r' \<and> m s = (r', s'))"
  by (auto simp: io_try_def split: prod.splits)

lemma keeps_try [keeps_rules]: "keeps le m \<Longrightarrow> keeps le (io_try m)"
  by (simp add: keeps_def io_try_def case_prod_unfold)

lemma keeps_case_result [keeps_rules]:
  "(\<And>x. keeps le (f x)) \<Longrightarrow> (\<And>e. keeps le (g e)) \<Longrightarrow> keeps le (case r of Ok x \<Rightarrow> f x | Err e \<Rightarrow> g e)"
  by (cases r) simp_all

text \<open>A relation between the cells alone: services keep it, and an update of the cells keeps it when the update does.\<close>

definition on_snd :: "('c \<Rightarrow> 'c \<Rightarrow> bool) \<Rightarrow> 'w \<times> 'c \<Rightarrow> 'w \<times> 'c \<Rightarrow> bool" where
  "on_snd le s s' = le (snd s) (snd s')"

locale cell_preorder =
  fixes le :: "'c \<Rightarrow> 'c \<Rightarrow> bool"
  assumes cell_refl: "le c c"
    and cell_trans: "le c c' \<Longrightarrow> le c' c'' \<Longrightarrow> le c c''"
begin

lemma state: "state_preorder (on_snd le)"
  by unfold_locales (auto simp: on_snd_def intro: cell_refl cell_trans)

lemma keeps_world: "keeps (on_snd le) (on_world g m)"
  by (auto simp: keeps_def on_world_def on_snd_def cell_refl case_prod_unfold)

lemma keeps_read: "keeps (on_snd le) (read_world m)"
  by (auto simp: keeps_def read_world_def on_snd_def cell_refl case_prod_unfold)

lemma keeps_get: "keeps (on_snd le) get_cells"
  by (auto simp: keeps_def get_cells_def on_snd_def cell_refl case_prod_unfold)

lemma keeps_upd: "(\<And>c. le c (f c)) \<Longrightarrow> keeps (on_snd le) (upd_cells f)"
  by (auto simp: keeps_def upd_cells_def on_snd_def case_prod_unfold)

lemmas keeps_cells = keeps_world keeps_read keeps_get
  state_preorder.keeps_lift [OF state] state_preorder.keeps_bind [OF state] state_preorder.keeps_map_err [OF state]

end

end
