(* ===== verification/Worker_View.thy ===== *)
theory Worker_View
  imports Worker_Cards Text_Search Cells Orchestrator
begin

text \<open>
  Worker discovery of the daemon (\<^verbatim>\<open>bin/workers.rs\<close>): publishing the local card, receiving the cards of peers from
  the gossip event stream, the live view with its epoch, and the framing of server-sent events. The view, the
  advertised load, the consumer flag and the rate limiter of the log are the cells \<open>worker_cells\<close>. Requests to
  x0xd, the clocks and the signing client are services; the event stream is the list of its chunks of bytes; the
  endless loops are given by their iterations. A panic of \<open>card_is_expired\<close> unwinds the operation: it is the
  error \<open>WePanic\<close>, which no handler of the source catches.
\<close>

section \<open>State and services\<close>

definition WORKER_TOPIC :: string where
  "WORKER_TOPIC = ''x0x/symphony/workers/v1''"

record worker_view =
  wv_cards :: "(string, worker_card) btree_map"
  wv_view_epoch :: u64

definition worker_view_new :: worker_view where
  "worker_view_new = \<lparr>wv_cards = [], wv_view_epoch = 0\<rparr>"

record worker_view_snapshot =
  ss_cards :: "worker_card list"
  ss_view_epoch :: u64

datatype worker_error = WeMsg string | WePanic

datatype receive_outcome = IgnoredTopic | DroppedUnverified | DroppedInvalid | DroppedExpired | Inserted | Updated

record gossip_event =
  ge_topic :: string
  ge_payload :: string
  ge_verified :: bool

record worker_discovery =
  wd_agent_id :: string
  wd_template :: worker_card
  wd_publish_enabled :: bool

record worker_cells =
  wk_view :: worker_view
  wk_current_load :: u32
  wk_consumer_started :: bool
  wk_last_warn_at :: "string \<Rightarrow> nat option"

record worker_prims =
  wp_card :: card_prims
  wp_b64_encode :: "bytes \<Rightarrow> string"
  wp_dec_gossip :: "string \<Rightarrow> (gossip_event, string) result"
  wp_dec_card :: "bytes \<Rightarrow> (worker_card, string) result"

record 'w worker_services =
  ws_client :: "'w signing_client"
  ws_resolve :: "string \<Rightarrow> ('w, bytes, signing_error) io"
  ws_now :: "'w \<Rightarrow> string \<times> 'w"
  ws_instant :: "'w \<Rightarrow> nat \<times> 'w"
  ws_post_publish :: "string \<Rightarrow> string \<Rightarrow> ('w, bool, string) io"
  ws_post_subscribe :: "string \<Rightarrow> ('w, string, string) io"
  ws_open_events :: "('w, (bytes, string) result list, string) io"
  ws_spawn_consumer :: "string \<Rightarrow> 'w \<Rightarrow> 'w"
  ws_sleep :: "duration \<Rightarrow> 'w \<Rightarrow> 'w"

section \<open>The view\<close>

definition bump_epoch :: "worker_view \<Rightarrow> worker_view" where
  "bump_epoch view = view\<lparr>wv_view_epoch := sat_add (wv_view_epoch view) 1\<rparr>"

definition view_insert :: "worker_card \<Rightarrow> worker_view \<Rightarrow> worker_view" where
  "view_insert c view =
     (let is_new = \<not> bt_contains_key (wv_cards view) (wc_agent_id c);
          view' = view\<lparr>wv_cards := bt_insert (wc_agent_id c) c (wv_cards view)\<rparr>
      in if is_new then bump_epoch view' else view')"

text \<open>\<^verbatim>\<open>retain\<close> visits the cards in key order; a panic leaves the rest as it is.\<close>

fun retain_live :: "card_prims \<Rightarrow> string \<Rightarrow> (string, worker_card) btree_map \<Rightarrow> bool \<times> (string, worker_card) btree_map" where
  "retain_live P now [] = (False, [])"
| "retain_live P now (e # m) =
     (case card_is_expired P (snd e) now of
        None \<Rightarrow> (True, e # m)
      | Some True \<Rightarrow> retain_live P now m
      | Some False \<Rightarrow> (case retain_live P now m of (panicked, m') \<Rightarrow> (panicked, e # m')))"

definition reap_expired_at :: "card_prims \<Rightarrow> string \<Rightarrow> worker_view \<Rightarrow> bool \<times> worker_view" where
  "reap_expired_at P now view =
     (case retain_live P now (wv_cards view) of (panicked, cards) \<Rightarrow>
        let view' = view\<lparr>wv_cards := cards\<rparr> in
        if panicked then (True, view')
        else (False, if length cards \<noteq> length (wv_cards view) then bump_epoch view' else view'))"

definition snapshot_view :: "worker_prims \<Rightarrow> 'w worker_services \<Rightarrow> ('w \<times> worker_cells, worker_view, worker_error) io" where
  "snapshot_view P S =
     io_bind (read_world (ws_now S)) (\<lambda>now.
     io_bind get_cells (\<lambda>c.
     case reap_expired_at (wp_card P) now (wk_view c) of (panicked, view) \<Rightarrow>
       io_bind (upd_cells (\<lambda>c. c\<lparr>wk_view := view\<rparr>)) (\<lambda>_.
       if panicked then io_lift (Err WePanic) else io_lift (Ok view))))"

text \<open>The provider that the tracker asks when it creates an issue.\<close>

definition provider_snapshot :: "worker_prims \<Rightarrow> 'w worker_services \<Rightarrow> ('w \<times> worker_cells, worker_view_snapshot, worker_error) io" where
  "provider_snapshot P S =
     io_bind (snapshot_view P S) (\<lambda>view. io_lift (Ok \<lparr>ss_cards = bt_values (wv_cards view), ss_view_epoch = wv_view_epoch view\<rparr>))"

section \<open>Receiving cards\<close>

definition insert_verified :: "worker_card \<Rightarrow> ('w \<times> worker_cells, receive_outcome, worker_error) io" where
  "insert_verified c =
     io_bind get_cells (\<lambda>cells.
     io_bind (upd_cells (\<lambda>cells. cells\<lparr>wk_view := view_insert c (wk_view cells)\<rparr>)) (\<lambda>_.
     io_lift (Ok (if \<not> bt_contains_key (wv_cards (wk_view cells)) (wc_agent_id c) then Inserted else Updated))))"

text \<open>The cryptographic half of the check: resolved key, envelope key, signature, service.\<close>

definition verify_card_signature ::
  "worker_prims \<Rightarrow> 'w worker_services \<Rightarrow> worker_card \<Rightarrow> signature_envelope \<Rightarrow> ('w \<times> worker_cells, receive_outcome, worker_error) io" where
  "verify_card_signature P S c sg =
     io_bind (io_try (on_world id (ws_resolve S (wc_agent_id c)))) (\<lambda>resolved. case resolved of
       Err _ \<Rightarrow> io_lift (Ok DroppedInvalid)
     | Ok public_key \<Rightarrow>
         (case b64_decode (cp_crypto (wp_card P)) (sge_public_key_b64 sg) of
            Err _ \<Rightarrow> io_lift (Ok DroppedInvalid)
          | Ok envelope_public_key \<Rightarrow>
              if envelope_public_key \<noteq> public_key then io_lift (Ok DroppedInvalid)
              else case b64_decode (cp_crypto (wp_card P)) (sge_signature_b64 sg) of
                Err _ \<Rightarrow> io_lift (Ok DroppedInvalid)
              | Ok signature_bytes \<Rightarrow>
                  io_bind (io_lift (map_err (\<lambda>_. WeMsg ''failed to serialize worker card for verification'')
                            (card_signing_payload_bytes (wp_card P) c))) (\<lambda>payload.
                  io_bind (io_try (on_world id (sc_verify (ws_client S) WORKER_CARD_CONTEXT payload signature_bytes public_key))) (\<lambda>v. case v of
                    Ok VoValid \<Rightarrow> insert_verified c
                  | _ \<Rightarrow> io_lift (Ok DroppedInvalid)))))"

definition verify_and_insert_card_at ::
  "worker_prims \<Rightarrow> 'w worker_services \<Rightarrow> worker_card \<Rightarrow> string \<Rightarrow> ('w \<times> worker_cells, receive_outcome, worker_error) io" where
  "verify_and_insert_card_at P S c now =
     (if wc_schema_version c \<noteq> WORKER_CARD_SCHEMA_VERSION then io_lift (Ok DroppedInvalid)
      else case card_is_expired (wp_card P) c now of
        None \<Rightarrow> io_lift (Err WePanic)
      | Some True \<Rightarrow> io_lift (Ok DroppedExpired)
      | Some False \<Rightarrow>
          if \<not> card_envelope_consistent (wp_card P) c then io_lift (Ok DroppedInvalid)
          else case wc_signature c of
            None \<Rightarrow> io_lift (Ok DroppedInvalid)
          | Some sg \<Rightarrow> verify_card_signature P S c sg)"

definition process_sse_data_at ::
  "worker_prims \<Rightarrow> 'w worker_services \<Rightarrow> string \<Rightarrow> string \<Rightarrow> ('w \<times> worker_cells, receive_outcome, worker_error) io" where
  "process_sse_data_at P S data now =
     io_bind (io_lift (map_err (\<lambda>_. WeMsg ''failed to decode worker gossip event JSON'') (wp_dec_gossip P data))) (\<lambda>event.
     if ge_topic event \<noteq> WORKER_TOPIC then io_lift (Ok IgnoredTopic)
     else if \<not> ge_verified event then io_lift (Ok DroppedUnverified)
     else
       io_bind (io_lift (map_err (\<lambda>_. WeMsg ''worker gossip payload was not valid base64'')
                 (b64_decode (cp_crypto (wp_card P)) (ge_payload event)))) (\<lambda>payload.
       io_bind (io_lift (map_err (\<lambda>_. WeMsg ''worker gossip payload was not a WorkerCard'') (wp_dec_card P payload))) (\<lambda>c.
       verify_and_insert_card_at P S c now)))"

section \<open>Server-sent events\<close>

definition LF2 :: string where
  "LF2 = [CHR 0x0A, CHR 0x0A]"

definition CRLF2 :: string where
  "CRLF2 = [CHR 0x0D, CHR 0x0A, CHR 0x0D, CHR 0x0A]"

definition sse_boundary :: "string \<Rightarrow> (nat \<times> nat) option" where
  "sse_boundary buffer =
     (case (str_find LF2 buffer, str_find CRLF2 buffer) of
        (Some lf, Some crlf) \<Rightarrow> if crlf < lf then Some (crlf, 4) else Some (lf, 2)
      | (Some lf, None) \<Rightarrow> Some (lf, 2)
      | (None, Some crlf) \<Rightarrow> Some (crlf, 4)
      | (None, None) \<Rightarrow> None)"

definition next_sse_chunk :: "string \<Rightarrow> (string \<times> string) option" where
  "next_sse_chunk buffer =
     (case sse_boundary buffer of None \<Rightarrow> None | Some (index, len) \<Rightarrow> Some (take index buffer, drop (index + len) buffer))"

definition sse_data :: "string \<Rightarrow> string option" where
  "sse_data event =
     (let parts = List.map_filter (\<lambda>line. map_option trim (strip_prefix ''data:'' (trim_end_matches (CHR 0x0D) line))) (str_lines event)
      in if parts = [] then None else Some (join_with [CHR 0x0A] parts))"

lemma sse_boundary_bounds: "sse_boundary buffer = Some (index, len) \<Longrightarrow> 0 < len \<and> index + len \<le> length buffer"
  by (auto simp: sse_boundary_def LF2_def CRLF2_def dest!: str_find_SomeD split: option.splits if_splits)

text \<open>The inner loop of the reader: all complete events of the buffer, and what is left in it.\<close>

function sse_events :: "string \<Rightarrow> string list \<times> string" where
  "sse_events buffer =
     (case next_sse_chunk buffer of
        None \<Rightarrow> ([], buffer)
      | Some (event, rest) \<Rightarrow> (case sse_events rest of (events, left) \<Rightarrow> (event # events, left)))"
  by auto
termination
proof (relation "measure length")
  fix buffer p event rest
  assume "next_sse_chunk buffer = Some p" "(event, rest) = p"
  then obtain index len where "sse_boundary buffer = Some (index, len)" "rest = drop (index + len) buffer"
    by (auto simp: next_sse_chunk_def split: option.splits)
  with sse_boundary_bounds [of buffer index len] show "(rest, buffer) \<in> measure length" by auto
qed simp

declare sse_events.simps [simp del]

section \<open>The consumer\<close>

definition classify_decode_error :: "string \<Rightarrow> string" where
  "classify_decode_error msg =
     (if str_contains ''failed to decode worker gossip event JSON'' msg then ''gossip_event_decode''
      else if str_contains ''worker gossip payload was not a WorkerCard'' msg then ''worker_card_decode''
      else if str_contains ''worker gossip payload was not valid base64'' msg then ''payload_base64''
      else ''unknown_decode'')"

definition DECODE_WARN_INTERVAL :: duration where
  "DECODE_WARN_INTERVAL = duration_from_secs 300"

definition should_warn :: "(string \<Rightarrow> nat option) \<Rightarrow> string \<Rightarrow> nat \<Rightarrow> bool \<times> (string \<Rightarrow> nat option)" where
  "should_warn last_warn_at discriminator now =
     (case last_warn_at discriminator of
        Some prev \<Rightarrow> if now - prev < DECODE_WARN_INTERVAL then (False, last_warn_at) else (True, last_warn_at(discriminator \<mapsto> now))
      | None \<Rightarrow> (True, last_warn_at(discriminator \<mapsto> now)))"

definition log_decode_failure :: "'w worker_services \<Rightarrow> string \<Rightarrow> ('w \<times> worker_cells, unit, worker_error) io" where
  "log_decode_failure S msg =
     io_bind (read_world (ws_instant S)) (\<lambda>now.
     upd_cells (\<lambda>c. c\<lparr>wk_last_warn_at := snd (should_warn (wk_last_warn_at c) (classify_decode_error msg) now)\<rparr>))"

fun process_events :: "worker_prims \<Rightarrow> 'w worker_services \<Rightarrow> string list \<Rightarrow> ('w \<times> worker_cells, unit, worker_error) io" where
  "process_events P S [] = io_lift (Ok ())"
| "process_events P S (event # events) =
     (case sse_data event of
        None \<Rightarrow> process_events P S events
      | Some data \<Rightarrow>
          io_bind (read_world (ws_now S)) (\<lambda>now.
          io_bind (io_try (process_sse_data_at P S data now)) (\<lambda>r. case r of
            Ok _ \<Rightarrow> process_events P S events
          | Err e \<Rightarrow> (case e of
              WePanic \<Rightarrow> io_lift (Err WePanic)
            | WeMsg msg \<Rightarrow> io_bind (log_decode_failure S msg) (\<lambda>_. process_events P S events)))))"

text \<open>Every chunk of bytes is decoded on its own.\<close>

fun consume_chunks ::
  "worker_prims \<Rightarrow> 'w worker_services \<Rightarrow> string \<Rightarrow> (bytes, string) result list \<Rightarrow> ('w \<times> worker_cells, unit, worker_error) io" where
  "consume_chunks P S buffer [] = io_lift (Ok ())"
| "consume_chunks P S buffer (chunk # chunks) =
     io_bind (io_lift (map_err (\<lambda>_. WeMsg ''x0xd /events stream chunk failed'') chunk)) (\<lambda>bytes.
     case sse_events (buffer @ from_utf8_lossy bytes) of (events, rest) \<Rightarrow>
       io_bind (process_events P S events) (\<lambda>_. consume_chunks P S rest chunks))"

definition consume_event_stream_once :: "worker_prims \<Rightarrow> 'w worker_services \<Rightarrow> ('w \<times> worker_cells, unit, worker_error) io" where
  "consume_event_stream_once P S =
     io_bind (on_world (\<lambda>_. WeMsg ''failed to open x0xd /events stream'') (ws_open_events S)) (\<lambda>chunks. consume_chunks P S [] chunks)"

definition backoff_default :: duration where
  "backoff_default = duration_from_secs 1"

text \<open>The delay to wait now and the delay after it.\<close>

definition backoff_next :: "duration \<Rightarrow> duration \<times> duration" where
  "backoff_next current = (current, min (current * 2) (duration_from_secs 30))"

text \<open>One pass of the reconnect loop: subscribe unless a subscription is given, read the stream, wait.\<close>

definition consume_iteration ::
  "worker_prims \<Rightarrow> 'w worker_services \<Rightarrow> string option \<Rightarrow> duration \<Rightarrow> ('w \<times> worker_cells, duration, worker_error) io" where
  "consume_iteration P S subscription_id backoff =
     io_bind (case subscription_id of
         Some _ \<Rightarrow> io_lift (Ok (True, backoff))
       | None \<Rightarrow> io_bind (io_try (on_world id (ws_post_subscribe S WORKER_TOPIC))) (\<lambda>r. case r of
           Ok _ \<Rightarrow> io_lift (Ok (True, backoff_default)) | Err _ \<Rightarrow> io_lift (Ok (False, backoff)))) (\<lambda>(subscribed, current).
     case backoff_next current of (delay, next) \<Rightarrow>
       io_bind (if subscribed then io_try (consume_event_stream_once P S) else io_lift (Ok (Ok ()))) (\<lambda>r.
       if r = Err WePanic then io_lift (Err WePanic)
       else io_bind (read_world (\<lambda>w. ((), ws_sleep S delay w))) (\<lambda>_. io_lift (Ok next))))"

section \<open>Publishing\<close>

definition worker_discovery_new :: "string \<Rightarrow> worker_card \<Rightarrow> bool \<Rightarrow> (worker_discovery, worker_error) result" where
  "worker_discovery_new agent_id template publish_enabled =
     (if wc_agent_id template \<noteq> agent_id
      then Err (WeMsg (''worker card template agent '' @ wc_agent_id template @ '' does not match local agent '' @ agent_id))
      else if wc_schema_version template \<noteq> WORKER_CARD_SCHEMA_VERSION
      then Err (WeMsg (''worker card template schema version '' @ show_word (wc_schema_version template) @ '' is not supported''))
      else Ok \<lparr>wd_agent_id = agent_id, wd_template = template\<lparr>wc_signature := None, wc_ttl_seconds := max (wc_ttl_seconds template) 1\<rparr>,
        wd_publish_enabled = publish_enabled\<rparr>)"

definition worker_cells_new :: worker_cells where
  "worker_cells_new = \<lparr>wk_view = worker_view_new, wk_current_load = 0, wk_consumer_started = False, wk_last_warn_at = Map.empty\<rparr>"

definition set_current_load :: "u32 \<Rightarrow> ('w \<times> worker_cells, unit, worker_error) io" where
  "set_current_load load = upd_cells (\<lambda>c. c\<lparr>wk_current_load := load\<rparr>)"

definition gossip_publish :: "worker_prims \<Rightarrow> 'w worker_services \<Rightarrow> string \<Rightarrow> bytes \<Rightarrow> ('w \<times> worker_cells, unit, worker_error) io" where
  "gossip_publish P S topic payload =
     io_bind (on_world WeMsg (ws_post_publish S topic (wp_b64_encode P payload))) (\<lambda>accepted.
     io_lift (if accepted then Ok () else Err (WeMsg ''x0xd /publish returned ok=false'')))"

definition card_with_signature :: "worker_prims \<Rightarrow> worker_card \<Rightarrow> bytes \<Rightarrow> sign_response \<Rightarrow> worker_card" where
  "card_with_signature P c payload r =
     c\<lparr>wc_signature := Some \<lparr>sge_algorithm = sg_algorithm r, sge_context = sg_context r, sge_public_key_b64 = sg_public_key_b64 r,
       sge_signature_b64 = sg_signature_b64 r, sge_payload_sha256 = sha256_hex (cp_crypto (wp_card P)) payload, sge_signer_agent_id = sg_agent_id r\<rparr>\<rparr>"

definition insert_local_card :: "worker_card \<Rightarrow> ('w \<times> worker_cells, unit, worker_error) io" where
  "insert_local_card c = upd_cells (\<lambda>cells. cells\<lparr>wk_view := view_insert c (wk_view cells)\<rparr>)"

definition fresh_card :: "worker_discovery \<Rightarrow> string \<Rightarrow> u32 \<Rightarrow> worker_card" where
  "fresh_card D now load = (wd_template D)\<lparr>wc_issued_at := now, wc_current_load := load, wc_signature := None\<rparr>"

definition publish_card :: "worker_prims \<Rightarrow> 'w worker_services \<Rightarrow> worker_discovery \<Rightarrow> ('w \<times> worker_cells, unit, worker_error) io" where
  "publish_card P S D =
     io_bind (read_world (ws_now S)) (\<lambda>now.
     io_bind get_cells (\<lambda>cells.
     let c = fresh_card D now (wk_current_load cells) in
     io_bind (io_lift (map_err (\<lambda>_. WeMsg ''failed to serialize worker card signing payload'') (card_signing_payload_bytes (wp_card P) c))) (\<lambda>payload.
     io_bind (on_world (\<lambda>_. WeMsg ''failed to sign worker card'') (sc_sign (ws_client S) WORKER_CARD_CONTEXT payload)) (\<lambda>r.
     if sg_agent_id r \<noteq> wd_agent_id D
     then io_lift (Err (WeMsg (''worker card signer '' @ sg_agent_id r @ '' does not match local agent '' @ wd_agent_id D)))
     else
       let signed = card_with_signature P c payload r in
       io_bind (io_lift (map_err (\<lambda>_. WeMsg ''failed to encode signed worker card'') (enc_card (wp_card P) signed))) (\<lambda>encoded.
       io_bind (io_map_err (\<lambda>_. WeMsg ''failed to publish worker card to x0xd'') (gossip_publish P S WORKER_TOPIC encoded)) (\<lambda>_.
       insert_local_card signed))))))"

definition worker_subscribe :: "'w worker_services \<Rightarrow> ('w \<times> worker_cells, unit, worker_error) io" where
  "worker_subscribe S =
     io_bind get_cells (\<lambda>c.
     if wk_consumer_started c then io_lift (Ok ())
     else
       io_bind (on_world (\<lambda>_. WeMsg ''failed to subscribe to worker gossip topic'') (ws_post_subscribe S WORKER_TOPIC)) (\<lambda>subscription_id.
       io_bind (upd_cells (\<lambda>c. c\<lparr>wk_consumer_started := True\<rparr>)) (\<lambda>_.
       read_world (\<lambda>w. ((), ws_spawn_consumer S subscription_id w)))))"

definition publish_interval :: "worker_discovery \<Rightarrow> duration" where
  "publish_interval D = duration_from_secs (unat (max (wc_ttl_seconds (wd_template D) div 2) 1))"

text \<open>One pass of the background loop; failures are only logged.\<close>

definition run_iteration :: "worker_prims \<Rightarrow> 'w worker_services \<Rightarrow> worker_discovery \<Rightarrow> ('w \<times> worker_cells, unit, worker_error) io" where
  "run_iteration P S D =
     io_bind get_cells (\<lambda>c.
     io_bind (if \<not> wk_consumer_started c then io_try (worker_subscribe S) else io_lift (Ok (Ok ()))) (\<lambda>_.
     io_bind (if wd_publish_enabled D then io_try (publish_card P S D) else io_lift (Ok (Ok ()))) (\<lambda>_.
     read_world (\<lambda>w. ((), ws_sleep S (publish_interval D) w)))))"

definition local_worker_card_template ::
  "platform_info \<Rightarrow> string \<Rightarrow> u64 \<Rightarrow> string list \<Rightarrow> string list \<Rightarrow> string list \<Rightarrow> u32 \<Rightarrow> worker_card" where
  "local_worker_card_template platform agent_id ttl_seconds capabilities sandbox_levels runner_presets max_load =
     \<lparr>wc_schema_version = WORKER_CARD_SCHEMA_VERSION, wc_agent_id = agent_id, wc_issued_at = ''1970-01-01T00:00:00Z'',
      wc_ttl_seconds = max ttl_seconds 1, wc_capabilities = capabilities, wc_sandbox_levels = sandbox_levels,
      wc_runner_presets = runner_presets, wc_current_load = 0, wc_max_load = max_load, wc_platform = platform, wc_signature = None\<rparr>"

end
