(* ===== verification/V1_Tracker.thy ===== *)
theory V1_Tracker
  imports V1_Mapping Worker_View Shard
begin

text \<open>
  The v1 tracker (\<^verbatim>\<open>tracker-x0x-crdt/src/lib.rs\<close>, the parts for lists outside the v2 namespace): every operation
  reads tasks and blobs through the x0xd client, converts them, verifies signatures when signing is required,
  and writes blobs back. The cells are the resolved group scope and the cache of verification outcomes. The
  client, the signing client, the key resolver, the worker view and the clock are services. \<open>TePanic\<close> is not a
  value of the source: it stands for a panic while the age of a worker card is computed.
\<close>

section \<open>Errors\<close>

datatype v1_error =
    TeClient client_error
  | TeMapping mapping_error
  | TeCore symphony_error
  | TeIssueNotFound string
  | TeClaimRejected string string
  | TeGroupResolution string string
  | TeInvalidClaim string
  | TeSigning string
  | TeVerifyTransport string
  | TePanic

datatype signing_policy = SigningDisabled | SigningRequired

record v1_prims =
  vp_crypto :: crypto
  vp_blobs :: blob_codecs
  vp_core :: core_codecs
  vp_card :: card_prims
  vp_enc_claim :: "claim \<Rightarrow> (bytes, string) result"
  vp_enc_handoff :: "handoff \<Rightarrow> (bytes, string) result"
  vp_show_http_status :: "16 word \<Rightarrow> string"
  vp_show_signing_error :: "signing_error \<Rightarrow> string"

fun show_symphony_error :: "symphony_error \<Rightarrow> string" where
  "show_symphony_error (SyValidation field message) = ''invalid '' @ field @ '': '' @ message"
| "show_symphony_error (SyTracker m) = ''tracker error: '' @ m"
| "show_symphony_error (SyUnsupported m) = ''unsupported operation: '' @ m"
| "show_symphony_error (SyRunner m) = ''runner error: '' @ m"
| "show_symphony_error (SyWorkspace m) = ''workspace error: '' @ m"
| "show_symphony_error (SyWorkflow m) = ''workflow error: '' @ m"
| "show_symphony_error (SyIo m) = m"
| "show_symphony_error (SyJson m) = m"

fun show_client_error :: "v1_prims \<Rightarrow> client_error \<Rightarrow> string" where
  "show_client_error P (CeBuildClient e) = ''failed to construct x0xd HTTP client: '' @ e"
| "show_client_error P (CeRequest url e) = ''request to '' @ url @ '' failed: '' @ e"
| "show_client_error P (CeDecode url e) = ''failed to decode response from '' @ url @ '': '' @ e"
| "show_client_error P (CeHttp status body) = ''x0xd returned HTTP '' @ vp_show_http_status P status @ '': '' @ body"
| "show_client_error P (CeBase64 field e) = ''invalid base64 in '' @ field @ '': '' @ e"

fun show_mapping_error :: "mapping_error \<Rightarrow> string" where
  "show_mapping_error (MeCore e) = show_symphony_error e"
| "show_mapping_error (MeJson e) = ''JSON error: '' @ e"
| "show_mapping_error (MeIssueMismatch kind blob_issue task) = kind @ '' blob belongs to '' @ blob_issue @ '', not task '' @ task"

fun show_v1_error :: "v1_prims \<Rightarrow> v1_error \<Rightarrow> string" where
  "show_v1_error P (TeClient e) = show_client_error P e"
| "show_v1_error P (TeMapping e) = show_mapping_error e"
| "show_v1_error P (TeCore e) = show_symphony_error e"
| "show_v1_error P (TeIssueNotFound i) = ''issue '' @ i @ '' not found''"
| "show_v1_error P (TeClaimRejected i reason) = ''issue '' @ i @ '' is not claimable: '' @ reason"
| "show_v1_error P (TeGroupResolution g reason) = ''tracker.group '' @ g @ '' could not be resolved: '' @ reason"
| "show_v1_error P (TeInvalidClaim reason) = ''invalid claim: '' @ reason"
| "show_v1_error P (TeSigning e) = ''signing error: '' @ e"
| "show_v1_error P (TeVerifyTransport reason) = ''signature verification transport error: '' @ reason"
| "show_v1_error P TePanic = ''panic''"

fun symphony_of_v1 :: "v1_prims \<Rightarrow> v1_error \<Rightarrow> symphony_error" where
  "symphony_of_v1 P (TeCore e) = e"
| "symphony_of_v1 P e = SyTracker (show_v1_error P e)"

section \<open>State and services\<close>

record resource_scope =
  sp_list_id :: string
  sp_store_id :: string
  sp_group_scoped :: bool

record verify_cache_key =
  vk_issue_id :: string
  vk_context :: string
  vk_payload_sha256 :: string
  vk_signature_b64 :: string
  vk_public_key_b64 :: string
  vk_signer_agent_id :: string

record v1_tracker =
  xt_list_id :: string
  xt_store_id :: string
  xt_agent_id :: string
  xt_policy :: signing_policy
  xt_group :: "string option"
  xt_replication_factor :: nat

record v1_cells =
  xc_resolved_scope :: "resource_scope option"
  xc_verify_cache :: "verify_cache_key \<Rightarrow> verify_outcome option"

record 'w v1_services =
  vs_api :: "'w x0xd_api"
  vs_client :: "'w signing_client option"
  vs_resolver :: "(string \<Rightarrow> ('w, bytes, signing_error) io) option"
  vs_worker_view :: "('w, worker_view_snapshot, worker_error) io option"
  vs_now :: "'w \<Rightarrow> string \<times> 'w"

type_synonym ('w, 'a) v1_io = "('w \<times> v1_cells, 'a, v1_error) io"

definition v1_cells_new :: v1_cells where
  "v1_cells_new = \<lparr>xc_resolved_scope = None, xc_verify_cache = Map.empty\<rparr>"

definition group_scoped_list_id :: "string \<Rightarrow> string \<Rightarrow> string" where
  "group_scoped_list_id group_id list_id = ''x0x.group.'' @ group_id @ ''.symphony.'' @ list_id"

definition scope_unscoped :: "string \<Rightarrow> resource_scope" where
  "scope_unscoped list_id = \<lparr>sp_list_id = list_id, sp_store_id = store_id_for_list list_id, sp_group_scoped = False\<rparr>"

definition scope_grouped :: "string \<Rightarrow> string \<Rightarrow> resource_scope" where
  "scope_grouped base_list_id group_id =
     (let list_id = group_scoped_list_id group_id base_list_id
      in \<lparr>sp_list_id = list_id, sp_store_id = store_id_for_list list_id, sp_group_scoped = True\<rparr>)"

definition v1_now_utc :: "'w v1_services \<Rightarrow> ('w, string) v1_io" where
  "v1_now_utc S = read_world (vs_now S)"

definition v1_signing_client :: "'w v1_services \<Rightarrow> ('w signing_client, v1_error) result" where
  "v1_signing_client S = ok_or (vs_client S) (TeSigning ''signing client is not configured'')"

definition v1_signing_resolver :: "'w v1_services \<Rightarrow> (string \<Rightarrow> ('w, bytes, signing_error) io, v1_error) result" where
  "v1_signing_resolver S = ok_or (vs_resolver S) (TeSigning ''trusted key resolver is not configured'')"

definition v1_signing_error :: "v1_prims \<Rightarrow> signing_error \<Rightarrow> v1_error" where
  "v1_signing_error P e = TeSigning (vp_show_signing_error P e)"

section \<open>Scope\<close>

definition looks_like_group_invite :: "string \<Rightarrow> bool" where
  "looks_like_group_invite v =
     (let trimmed = trim v in prefix ''x0x://invite/'' trimmed \<or> (length trimmed > 80 \<and> \<not> contains_whitespace trimmed))"

definition resolve_or_join_group :: "'w v1_services \<Rightarrow> v1_tracker \<Rightarrow> string \<Rightarrow> ('w, string) v1_io" where
  "resolve_or_join_group S V grp =
     io_bind (on_world TeClient (xd_list_named_groups (vs_api S))) (\<lambda>groups.
     case find (\<lambda>entry. ng_group_id entry = grp \<or> ng_name entry = grp) groups of
       Some entry \<Rightarrow>
         io_bind (on_world TeClient (xd_get_named_group (vs_api S) (ng_group_id entry))) (\<lambda>details. io_lift (Ok (nd_group_id details)))
     | None \<Rightarrow>
         if looks_like_group_invite grp
         then io_bind (on_world TeClient (xd_join_group (vs_api S) grp (Some (xt_agent_id V)))) (\<lambda>joined. io_lift (Ok (jg_group_id joined)))
         else io_lift (Err (TeGroupResolution grp ''not found in x0xd /groups and not an invite link/token'')))"

definition v1_resource_scope :: "'w v1_services \<Rightarrow> v1_tracker \<Rightarrow> ('w, resource_scope) v1_io" where
  "v1_resource_scope S V =
     (case xt_group V of
        None \<Rightarrow> io_lift (Ok (scope_unscoped (xt_list_id V)))
      | Some grp \<Rightarrow>
          io_bind get_cells (\<lambda>c. case xc_resolved_scope c of
            Some scope \<Rightarrow> io_lift (Ok scope)
          | None \<Rightarrow>
              io_bind (resolve_or_join_group S V grp) (\<lambda>group_id.
              io_bind (upd_cells (\<lambda>c. if xc_resolved_scope c = None
                  then c\<lparr>xc_resolved_scope := Some (scope_grouped (xt_list_id V) group_id)\<rparr> else c)) (\<lambda>_.
              io_bind get_cells (\<lambda>c.
              io_lift (ok_or (xc_resolved_scope c) (TeGroupResolution grp ''resolved scope cache was unexpectedly empty'')))))))"

section \<open>Blobs\<close>

definition get_blob ::
  "'w v1_services \<Rightarrow> v1_tracker \<Rightarrow> string \<Rightarrow> (bytes \<Rightarrow> ('a, mapping_error) result) \<Rightarrow> ('w, 'a option) v1_io" where
  "get_blob S V key dec =
     io_bind (v1_resource_scope S V) (\<lambda>scope.
     io_bind (on_world TeClient (xd_get_kv (vs_api S) (sp_store_id scope) key)) (\<lambda>r. case r of
       None \<Rightarrow> io_lift (Ok None)
     | Some v \<Rightarrow> io_bind (io_lift (map_err TeMapping (dec (kv_value v)))) (\<lambda>b. io_lift (Ok (Some b)))))"

definition put_blob ::
  "'w v1_services \<Rightarrow> v1_tracker \<Rightarrow> string \<Rightarrow> (bytes, mapping_error) result \<Rightarrow> ('w, unit) v1_io" where
  "put_blob S V key enc =
     io_bind (v1_resource_scope S V) (\<lambda>scope.
     io_bind (io_lift (map_err TeMapping enc)) (\<lambda>encoded.
     on_world TeClient (xd_put_kv (vs_api S) (sp_store_id scope) key encoded SYMPHONY_JSON_CONTENT_TYPE)))"

definition claim_blob_for_task :: "v1_prims \<Rightarrow> 'w v1_services \<Rightarrow> v1_tracker \<Rightarrow> string \<Rightarrow> ('w, claim_blob option) v1_io" where
  "claim_blob_for_task P S V task_id = get_blob S V (claim_key task_id) (decode_claim_blob (vp_blobs P))"

definition handoff_blob_for_task :: "v1_prims \<Rightarrow> 'w v1_services \<Rightarrow> v1_tracker \<Rightarrow> string \<Rightarrow> ('w, handoff_blob option) v1_io" where
  "handoff_blob_for_task P S V task_id = get_blob S V (v1_handoff_key task_id) (decode_handoff_blob (vp_blobs P))"

definition shard_blob_for_task :: "v1_prims \<Rightarrow> 'w v1_services \<Rightarrow> v1_tracker \<Rightarrow> string \<Rightarrow> ('w, shard_blob option) v1_io" where
  "shard_blob_for_task P S V task_id = get_blob S V (shard_key task_id) (decode_shard_blob (vp_blobs P))"

definition approval_blob_for_issue :: "v1_prims \<Rightarrow> 'w v1_services \<Rightarrow> v1_tracker \<Rightarrow> string \<Rightarrow> ('w, approval_blob option) v1_io" where
  "approval_blob_for_issue P S V issue_id = get_blob S V (v1_approval_key issue_id) (decode_approval_blob (vp_blobs P))"

definition provenance_blob_for_task :: "v1_prims \<Rightarrow> 'w v1_services \<Rightarrow> v1_tracker \<Rightarrow> string \<Rightarrow> ('w, provenance_blob option) v1_io" where
  "provenance_blob_for_task P S V task_id = get_blob S V (provenance_key task_id) (decode_provenance_blob (vp_blobs P))"

definition put_approval_blob :: "v1_prims \<Rightarrow> 'w v1_services \<Rightarrow> v1_tracker \<Rightarrow> string \<Rightarrow> approval_blob \<Rightarrow> ('w, unit) v1_io" where
  "put_approval_blob P S V issue_id b = put_blob S V (v1_approval_key issue_id) (encode_approval_blob (vp_blobs P) b)"

definition put_claim_blob :: "v1_prims \<Rightarrow> 'w v1_services \<Rightarrow> v1_tracker \<Rightarrow> string \<Rightarrow> claim_blob \<Rightarrow> ('w, unit) v1_io" where
  "put_claim_blob P S V task_id b = put_blob S V (claim_key task_id) (encode_claim_blob (vp_blobs P) b)"

definition put_handoff_blob :: "v1_prims \<Rightarrow> 'w v1_services \<Rightarrow> v1_tracker \<Rightarrow> string \<Rightarrow> handoff_blob \<Rightarrow> ('w, unit) v1_io" where
  "put_handoff_blob P S V task_id b = put_blob S V (v1_handoff_key task_id) (encode_handoff_blob (vp_blobs P) b)"

definition put_shard_blob :: "v1_prims \<Rightarrow> 'w v1_services \<Rightarrow> v1_tracker \<Rightarrow> string \<Rightarrow> shard_blob \<Rightarrow> ('w, unit) v1_io" where
  "put_shard_blob P S V task_id b = put_blob S V (shard_key task_id) (encode_shard_blob (vp_blobs P) b)"

definition put_provenance_blob :: "v1_prims \<Rightarrow> 'w v1_services \<Rightarrow> v1_tracker \<Rightarrow> string \<Rightarrow> provenance_blob \<Rightarrow> ('w, unit) v1_io" where
  "put_provenance_blob P S V task_id b = put_blob S V (provenance_key task_id) (encode_provenance_blob (vp_blobs P) b)"

section \<open>Signatures\<close>

definition claim_signing_payload_bytes :: "v1_prims \<Rightarrow> claim \<Rightarrow> (bytes, symphony_error) result" where
  "claim_signing_payload_bytes P c = map_err SyJson (vp_enc_claim P (c\<lparr>cl_signature := None, cl_heartbeat_at := []\<rparr>))"

definition handoff_signing_payload_bytes :: "v1_prims \<Rightarrow> handoff \<Rightarrow> (bytes, symphony_error) result" where
  "handoff_signing_payload_bytes P h = map_err SyJson (vp_enc_handoff P (h\<lparr>ho_signature := None\<rparr>))"

definition issue_provenance_payload :: "v1_prims \<Rightarrow> string \<Rightarrow> string \<Rightarrow> string \<Rightarrow> bytes" where
  "issue_provenance_payload P task_id title description =
     (case enc_content (vp_core P) [(''description'', JString description), (''issue_id'', JString task_id), (''title'', JString title)] of
        Ok bs \<Rightarrow> bs | Err _ \<Rightarrow> [])"

definition envelope_from_sign_response ::
  "v1_prims \<Rightarrow> sign_response \<Rightarrow> string \<Rightarrow> bytes \<Rightarrow> string \<Rightarrow> (signature_envelope, v1_error) result" where
  "envelope_from_sign_response P r target_context payload target_signer =
     (if sg_algorithm r \<noteq> SIGN_ALGORITHM
      then Err (TeSigning (''sign response algorithm '' @ sg_algorithm r @ '' did not match '' @ SIGN_ALGORITHM))
      else if sg_context r \<noteq> target_context
      then Err (TeSigning (''sign response context '' @ sg_context r @ '' did not match '' @ target_context))
      else if sg_agent_id r \<noteq> target_signer
      then Err (TeSigning (''sign response agent '' @ sg_agent_id r @ '' did not match claim owner '' @ target_signer))
      else Ok \<lparr>sge_algorithm = sg_algorithm r, sge_context = sg_context r, sge_public_key_b64 = sg_public_key_b64 r,
        sge_signature_b64 = sg_signature_b64 r, sge_payload_sha256 = sha256_hex (vp_crypto P) payload, sge_signer_agent_id = sg_agent_id r\<rparr>)"

definition sign_payload :: "v1_prims \<Rightarrow> 'w v1_services \<Rightarrow> string \<Rightarrow> bytes \<Rightarrow> string \<Rightarrow> ('w, signature_envelope) v1_io" where
  "sign_payload P S context payload signer =
     io_bind (io_lift (v1_signing_client S)) (\<lambda>client.
     io_bind (on_world (v1_signing_error P) (sc_sign client context payload)) (\<lambda>response.
     io_lift (envelope_from_sign_response P response context payload signer)))"

definition sign_claim :: "v1_prims \<Rightarrow> 'w v1_services \<Rightarrow> claim \<Rightarrow> ('w, claim) v1_io" where
  "sign_claim P S c =
     io_bind (io_lift (map_err TeCore (claim_signing_payload_bytes P c))) (\<lambda>payload.
     io_bind (sign_payload P S CLAIM_CONTEXT payload (cl_by c)) (\<lambda>envelope.
     io_lift (Ok (c\<lparr>cl_signature := Some envelope\<rparr>))))"

definition sign_handoff :: "v1_prims \<Rightarrow> 'w v1_services \<Rightarrow> handoff \<Rightarrow> string \<Rightarrow> ('w, handoff) v1_io" where
  "sign_handoff P S h signer =
     io_bind (io_lift (map_err TeCore (handoff_signing_payload_bytes P h))) (\<lambda>payload.
     io_bind (sign_payload P S HANDOFF_CONTEXT payload signer) (\<lambda>envelope.
     io_lift (Ok (h\<lparr>ho_signature := Some envelope\<rparr>))))"

definition sign_and_put_provenance ::
  "v1_prims \<Rightarrow> 'w v1_services \<Rightarrow> v1_tracker \<Rightarrow> string \<Rightarrow> string \<Rightarrow> string \<Rightarrow> ('w, unit) v1_io" where
  "sign_and_put_provenance P S V task_id title description =
     io_bind (sign_payload P S ISSUE_PROVENANCE_CONTEXT (issue_provenance_payload P task_id title description) (xt_agent_id V)) (\<lambda>envelope.
     put_provenance_blob P S V task_id (provenance_blob_new envelope))"

fun verify_outcome_to_result :: "verify_outcome \<Rightarrow> (unit, v1_error) result" where
  "verify_outcome_to_result VoValid = Ok ()"
| "verify_outcome_to_result (VoInvalid reason) = Err (TeSigning (''x0xd verify rejected signature: '' @ reason))"
| "verify_outcome_to_result (VoTransportError reason) = Err (TeVerifyTransport reason)"

definition v1_cache_key :: "string \<Rightarrow> signature_envelope \<Rightarrow> string \<Rightarrow> string \<Rightarrow> verify_cache_key" where
  "v1_cache_key issue_id sg target_context digest =
     \<lparr>vk_issue_id = issue_id, vk_context = target_context, vk_payload_sha256 = digest, vk_signature_b64 = sge_signature_b64 sg,
      vk_public_key_b64 = sge_public_key_b64 sg, vk_signer_agent_id = sge_signer_agent_id sg\<rparr>"

text \<open>The cached outcome, or the service's answer, which is cached unless it is a transport error.\<close>

definition verify_cached ::
  "v1_prims \<Rightarrow> 'w v1_services \<Rightarrow> verify_cache_key \<Rightarrow> bytes \<Rightarrow> bytes \<Rightarrow> bytes \<Rightarrow> ('w, unit) v1_io" where
  "verify_cached P S key payload signature envelope_key =
     io_bind get_cells (\<lambda>c. case xc_verify_cache c key of
       Some outcome \<Rightarrow> io_lift (verify_outcome_to_result outcome)
     | None \<Rightarrow>
         io_bind (io_lift (v1_signing_client S)) (\<lambda>client.
         io_bind (on_world (v1_signing_error P) (sc_verify client (vk_context key) payload signature envelope_key)) (\<lambda>outcome.
         io_bind (case outcome of
             VoTransportError _ \<Rightarrow> io_lift (Ok ())
           | _ \<Rightarrow> upd_cells (\<lambda>c. c\<lparr>xc_verify_cache := (xc_verify_cache c)(key \<mapsto> outcome)\<rparr>)) (\<lambda>_.
         io_lift (verify_outcome_to_result outcome)))))"

definition v1_verify_envelope ::
  "v1_prims \<Rightarrow> 'w v1_services \<Rightarrow> string \<Rightarrow> signature_envelope \<Rightarrow> string \<Rightarrow> bytes \<Rightarrow> ('w, unit) v1_io" where
  "v1_verify_envelope P S issue_id sg target_context payload =
     (let actual_digest = sha256_hex (vp_crypto P) payload in
      if sge_algorithm sg \<noteq> SIGN_ALGORITHM
      then io_lift (Err (TeSigning (''unsupported signing algorithm '' @ sge_algorithm sg)))
      else if sge_context sg \<noteq> target_context
      then io_lift (Err (TeSigning (''signature context '' @ sge_context sg @ '' does not match '' @ target_context)))
      else if sge_payload_sha256 sg \<noteq> actual_digest
      then io_lift (Err (TeSigning (''payload digest '' @ sge_payload_sha256 sg @ '' does not match '' @ actual_digest)))
      else
        io_bind (io_lift (map_err (\<lambda>e. TeSigning (''invalid public_key_b64: '' @ e)) (b64_decode (vp_crypto P) (sge_public_key_b64 sg)))) (\<lambda>envelope_key.
        io_bind (io_lift (v1_signing_resolver S)) (\<lambda>resolver.
        io_bind (on_world (v1_signing_error P) (resolver (sge_signer_agent_id sg))) (\<lambda>trusted_key.
        if envelope_key \<noteq> trusted_key
        then io_lift (Err (TeSigning (''envelope public key does not belong to signer '' @ sge_signer_agent_id sg)))
        else
          io_bind (io_lift (map_err (\<lambda>e. TeSigning (''invalid signature_b64: '' @ e)) (b64_decode (vp_crypto P) (sge_signature_b64 sg)))) (\<lambda>signature.
          verify_cached P S (v1_cache_key issue_id sg target_context actual_digest) payload signature envelope_key)))))"

definition verify_claim :: "v1_prims \<Rightarrow> 'w v1_services \<Rightarrow> issue \<Rightarrow> claim \<Rightarrow> ('w, unit) v1_io" where
  "verify_claim P S i c =
     (if cl_issue_id c \<noteq> Some (iss_id i)
      then io_lift (Err (TeSigning (''claim issue_id does not match parent issue '' @ iss_id i)))
      else io_bind (io_lift (ok_or (cl_signature c) (TeSigning (''claim for issue '' @ iss_id i @ '' is unsigned'')))) (\<lambda>sg.
        if sge_signer_agent_id sg \<noteq> cl_by c
        then io_lift (Err (TeSigning (''claim owner '' @ cl_by c @ '' does not match signer '' @ sge_signer_agent_id sg)))
        else io_bind (io_lift (map_err TeCore (claim_signing_payload_bytes P c))) (\<lambda>payload.
          v1_verify_envelope P S (iss_id i) sg CLAIM_CONTEXT payload)))"

definition verify_handoff :: "v1_prims \<Rightarrow> 'w v1_services \<Rightarrow> issue \<Rightarrow> handoff \<Rightarrow> ('w, unit) v1_io" where
  "verify_handoff P S i h =
     io_bind (io_lift (ok_or (ho_signature h) (TeSigning (''handoff for issue '' @ iss_id i @ '' is unsigned'')))) (\<lambda>sg.
     if ho_issue_id h \<noteq> Some (iss_id i)
     then io_lift (Err (TeSigning (''handoff issue_id does not match parent issue '' @ iss_id i)))
     else
       io_bind (io_lift (ok_or (ho_signer_agent_id h) (TeSigning (''handoff for issue '' @ iss_id i @ '' is missing signer_agent_id'')))) (\<lambda>signer.
       if signer \<noteq> sge_signer_agent_id sg
       then io_lift (Err (TeSigning (''handoff signer binding '' @ signer @ '' does not match envelope signer '' @ sge_signer_agent_id sg)))
       else io_bind (io_lift (map_err TeCore (handoff_signing_payload_bytes P h))) (\<lambda>payload.
         v1_verify_envelope P S (iss_id i) sg HANDOFF_CONTEXT payload)))"

definition verify_issue_provenance :: "v1_prims \<Rightarrow> 'w v1_services \<Rightarrow> v1_tracker \<Rightarrow> issue \<Rightarrow> ('w, string option) v1_io" where
  "verify_issue_provenance P S V i =
     io_bind (provenance_blob_for_task P S V (iss_id i)) (\<lambda>blob. case blob of
       None \<Rightarrow> io_lift (Ok None)
     | Some b \<Rightarrow>
         io_bind (v1_verify_envelope P S (iss_id i) (pb_envelope b) ISSUE_PROVENANCE_CONTEXT
                   (issue_provenance_payload P (iss_id i) (iss_title i) (iss_description i))) (\<lambda>_.
         io_lift (Ok (Some (sge_signer_agent_id (pb_envelope b))))))"

section \<open>Reading\<close>

definition strip_bad_claim :: "issue \<Rightarrow> claim \<Rightarrow> string \<Rightarrow> (issue, v1_error) result" where
  "strip_bad_claim i c reason =
     (let notice = \<lparr>vn_kind = BadClaim, vn_claimant = Some (cl_by c), vn_reason = reason\<rparr>;
          i1 = i\<lparr>iss_claim := None\<rparr>
      in if iss_state i1 = ''in_progress''
         then and_then (map_err TeCore (issue_state_new ''todo'')) (\<lambda>state.
           Ok (i1\<lparr>iss_state := state, iss_verification_notices := iss_verification_notices i1 @ [notice]\<rparr>))
         else Ok (i1\<lparr>iss_verification_notices := iss_verification_notices i1 @ [notice]\<rparr>))"

fun transport_reason :: "v1_error \<Rightarrow> string option" where
  "transport_reason (TeVerifyTransport reason) = Some reason"
| "transport_reason _ = None"

definition transport_at :: "issue \<Rightarrow> string \<Rightarrow> v1_error" where
  "transport_at i reason = TeVerifyTransport (''issue '' @ iss_id i @ '': '' @ reason)"

definition check_claim :: "v1_prims \<Rightarrow> 'w v1_services \<Rightarrow> issue \<Rightarrow> ('w, issue) v1_io" where
  "check_claim P S i =
     (case iss_claim i of
        None \<Rightarrow> io_lift (Ok i)
      | Some c \<Rightarrow> io_bind (io_try (verify_claim P S i c)) (\<lambda>r. case r of
          Ok _ \<Rightarrow> io_lift (Ok i)
        | Err e \<Rightarrow> (case transport_reason e of
            Some reason \<Rightarrow> io_lift (Err (transport_at i reason))
          | None \<Rightarrow> io_lift (strip_bad_claim i c (show_v1_error P e)))))"

definition check_handoff :: "v1_prims \<Rightarrow> 'w v1_services \<Rightarrow> issue \<Rightarrow> ('w, bool) v1_io" where
  "check_handoff P S i =
     (case iss_handoff i of
        None \<Rightarrow> io_lift (Ok True)
      | Some h \<Rightarrow> io_bind (io_try (verify_handoff P S i h)) (\<lambda>r. case r of
          Ok _ \<Rightarrow> io_lift (Ok True)
        | Err e \<Rightarrow> (case transport_reason e of Some reason \<Rightarrow> io_lift (Err (transport_at i reason)) | None \<Rightarrow> io_lift (Ok False))))"

definition check_provenance :: "v1_prims \<Rightarrow> 'w v1_services \<Rightarrow> v1_tracker \<Rightarrow> issue \<Rightarrow> ('w, issue) v1_io" where
  "check_provenance P S V i =
     io_bind (io_try (verify_issue_provenance P S V i)) (\<lambda>r. case r of
       Ok None \<Rightarrow> io_lift (Ok i)
     | Ok (Some signer) \<Rightarrow> io_lift (Ok (i\<lparr>iss_signature_provenance := Some (ProvVerified signer)\<rparr>))
     | Err e \<Rightarrow> (case transport_reason e of Some reason \<Rightarrow> io_lift (Err (transport_at i reason)) | None \<Rightarrow> io_lift (Ok i)))"

fun verify_issues :: "v1_prims \<Rightarrow> 'w v1_services \<Rightarrow> v1_tracker \<Rightarrow> issue list \<Rightarrow> ('w, issue list) v1_io" where
  "verify_issues P S V [] = io_lift (Ok [])"
| "verify_issues P S V (i # is) =
     io_bind (check_claim P S i) (\<lambda>i1.
     io_bind (check_handoff P S i1) (\<lambda>handoff_ok.
     if \<not> handoff_ok then verify_issues P S V is
     else io_bind (check_provenance P S V i1) (\<lambda>i2.
       io_bind (verify_issues P S V is) (\<lambda>rest. io_lift (Ok (i2 # rest))))))"

definition filter_verified_issues :: "v1_prims \<Rightarrow> 'w v1_services \<Rightarrow> v1_tracker \<Rightarrow> issue list \<Rightarrow> ('w, issue list) v1_io" where
  "filter_verified_issues P S V is = (if xt_policy V = SigningDisabled then io_lift (Ok is) else verify_issues P S V is)"

fun read_issues :: "v1_prims \<Rightarrow> 'w v1_services \<Rightarrow> v1_tracker \<Rightarrow> task_entry list \<Rightarrow> ('w, issue list) v1_io" where
  "read_issues P S V [] = io_lift (Ok [])"
| "read_issues P S V (task # tasks) =
     io_bind (claim_blob_for_task P S V (tk_id task)) (\<lambda>claim_b.
     io_bind (handoff_blob_for_task P S V (tk_id task)) (\<lambda>handoff_b.
     io_bind (shard_blob_for_task P S V (tk_id task)) (\<lambda>shard_b.
     io_bind (io_lift (map_err TeMapping (issue_from_task (vp_blobs P) task claim_b handoff_b shard_b))) (\<lambda>i.
     io_bind (read_issues P S V tasks) (\<lambda>is. io_lift (Ok (i # is)))))))"

text \<open>A group-scoped list that x0xd forbids or hides counts as empty.\<close>

definition visible_tasks :: "'w v1_services \<Rightarrow> resource_scope \<Rightarrow> ('w, task_entry list option) v1_io" where
  "visible_tasks S scope =
     io_bind (io_try (on_world id (xd_list_tasks (vs_api S) (sp_list_id scope)))) (\<lambda>r. case r of
       Ok tasks \<Rightarrow> io_lift (Ok (Some tasks))
     | Err e \<Rightarrow> (case e of
         CeHttp status body \<Rightarrow>
           if sp_group_scoped scope \<and> (status = 403 \<or> status = 404) then io_lift (Ok None) else io_lift (Err (TeClient e))
       | _ \<Rightarrow> io_lift (Err (TeClient e))))"

definition v1_list_issues :: "v1_prims \<Rightarrow> 'w v1_services \<Rightarrow> v1_tracker \<Rightarrow> ('w, issue list) v1_io" where
  "v1_list_issues P S V =
     io_bind (v1_resource_scope S V) (\<lambda>scope.
     io_bind (visible_tasks S scope) (\<lambda>r. case r of
       None \<Rightarrow> io_lift (Ok [])
     | Some tasks \<Rightarrow> io_bind (read_issues P S V tasks) (\<lambda>is. filter_verified_issues P S V is)))"

definition fetch_issue :: "v1_prims \<Rightarrow> 'w v1_services \<Rightarrow> v1_tracker \<Rightarrow> string \<Rightarrow> ('w, issue) v1_io" where
  "fetch_issue P S V issue_id =
     io_bind (v1_list_issues P S V) (\<lambda>is.
     io_lift (ok_or (find (\<lambda>i. iss_id i = issue_id) is) (TeIssueNotFound issue_id)))"

end
