(* ===== verification/V1_Operations.thy ===== *)
theory V1_Operations
  imports V1_Tracker
begin

text \<open>
  The operations of the v1 tracker that the orchestrator, the API and the daemon call: surfaces, issue creation with a
  frozen shard slate, candidates, claims, heartbeats, handoffs, blocks and approvals. Where the source converts
  errors to the domain error at the end of an operation, so does \<open>as_core\<close> here.
\<close>

section \<open>Surfaces\<close>

definition v1_ensure_surfaces :: "'w v1_services \<Rightarrow> v1_tracker \<Rightarrow> ('w, unit) v1_io" where
  "v1_ensure_surfaces S V =
     io_bind (v1_resource_scope S V) (\<lambda>scope.
     io_bind (on_world TeClient (xd_list_task_lists (vs_api S))) (\<lambda>task_lists.
     io_bind (if \<not> list_ex (\<lambda>entry. tl_id entry = sp_list_id scope) task_lists
              then io_bind (on_world TeClient (xd_create_task_list (vs_api S) (sp_list_id scope) (sp_list_id scope))) (\<lambda>_. io_lift (Ok ()))
              else io_lift (Ok ())) (\<lambda>_.
     io_bind (on_world TeClient (xd_list_kv_stores (vs_api S))) (\<lambda>stores.
     if \<not> list_ex (\<lambda>entry. tl_id entry = sp_store_id scope) stores
     then io_bind (on_world TeClient (xd_create_kv_store (vs_api S) (sp_store_id scope) (sp_store_id scope))) (\<lambda>_. io_lift (Ok ()))
     else io_lift (Ok ())))))"

section \<open>Issue creation\<close>

text \<open>\<^verbatim>\<open>u8::try_from\<close> on the signed priority of the draft.\<close>

definition draft_priority_as_u8 :: "32 word option \<Rightarrow> (u8 option, v1_error) result" where
  "draft_priority_as_u8 priority =
     (case priority of
        None \<Rightarrow> Ok None
      | Some v \<Rightarrow>
          if 0 \<le> sint v \<and> sint v \<le> 255 then Ok (Some (ucast v))
          else Err (TeCore (SyValidation ''issue.priority'' ''must be between 0 and 255'')))"

definition effective_description :: "string option \<Rightarrow> string" where
  "effective_description description = (case description of Some d \<Rightarrow> if trim d = [] then [] else d | None \<Rightarrow> [])"

text \<open>The live, verified workers of a snapshot, or \<open>None\<close> when an expiry time is out of range.\<close>

fun live_verified_worker_ids :: "card_prims \<Rightarrow> worker_card list \<Rightarrow> string \<Rightarrow> string list option" where
  "live_verified_worker_ids P [] now = Some []"
| "live_verified_worker_ids P (c # cs) now =
     (if wc_schema_version c \<noteq> WORKER_CARD_SCHEMA_VERSION then live_verified_worker_ids P cs now
      else case card_is_expired P c now of
        None \<Rightarrow> None
      | Some True \<Rightarrow> live_verified_worker_ids P cs now
      | Some False \<Rightarrow>
          if card_envelope_consistent P c then map_option (\<lambda>ws. wc_agent_id c # ws) (live_verified_worker_ids P cs now)
          else live_verified_worker_ids P cs now)"

definition no_workers :: v1_error where
  "no_workers = TeCore (SyUnsupported ''cannot assign shard: live worker view is empty; start at least one trusted worker'')"

definition put_sidecars ::
  "v1_prims \<Rightarrow> 'w v1_services \<Rightarrow> v1_tracker \<Rightarrow> string \<Rightarrow> shard \<Rightarrow> u64 \<Rightarrow> string \<Rightarrow> string \<Rightarrow> ('w, unit) v1_io" where
  "put_sidecars P S V task_id sh epoch title description =
     io_bind (v1_now_utc S) (\<lambda>written_at.
     io_bind (put_shard_blob P S V task_id (shard_blob_new sh epoch written_at)) (\<lambda>_.
     if xt_policy V = SigningRequired then sign_and_put_provenance P S V task_id title description else io_lift (Ok ())))"

text \<open>The part of the creation after the task was added: a failure marks the task complete and is returned.\<close>

definition finish_creation ::
  "v1_prims \<Rightarrow> 'w v1_services \<Rightarrow> v1_tracker \<Rightarrow> resource_scope \<Rightarrow> string \<Rightarrow> shard \<Rightarrow> u64 \<Rightarrow> string \<Rightarrow> string \<Rightarrow> string \<Rightarrow> ('w, issue) v1_io" where
  "finish_creation P S V scope task_id sh epoch title description issue_id =
     io_bind (io_try (put_sidecars P S V task_id sh epoch title description)) (\<lambda>r. case r of
       Err e \<Rightarrow> io_bind (io_try (on_world TeClient (xd_update_task (vs_api S) (sp_list_id scope) task_id ActComplete))) (\<lambda>_. io_lift (Err e))
     | Ok _ \<Rightarrow> fetch_issue P S V issue_id)"

definition create_issue_with_shard ::
  "v1_prims \<Rightarrow> 'w v1_services \<Rightarrow> v1_tracker \<Rightarrow> issue_draft \<Rightarrow> ('w, issue) v1_io" where
  "create_issue_with_shard P S V draft =
     (if trim (dr_title draft) = [] then io_lift (Err (TeCore (SyValidation ''issue.title'' ''must not be empty'')))
      else
        io_bind (io_lift (draft_priority_as_u8 (dr_priority draft))) (\<lambda>_.
        io_bind (io_lift (ok_or (vs_worker_view S) (TeCore (SyUnsupported ''this tracker does not own issue creation'')))) (\<lambda>provider.
        io_bind (on_world (\<lambda>_. TePanic) provider) (\<lambda>snapshot.
        io_bind (v1_now_utc S) (\<lambda>now.
        io_bind (io_lift (ok_or (live_verified_worker_ids (vp_card P) (ss_cards snapshot) now) TePanic)) (\<lambda>workers.
        if workers = [] then io_lift (Err no_workers)
        else
          let description = effective_description (dr_description draft);
              add_task = (if description = [] then add_task_draft_new (dr_title draft)
                          else with_description (add_task_draft_new (dr_title draft)) description)
          in io_bind (v1_resource_scope S V) (\<lambda>scope.
             io_bind (on_world TeClient (xd_add_task (vs_api S) (sp_list_id scope) add_task)) (\<lambda>task_id.
             io_bind (io_lift (map_err TeCore (issue_id_new task_id))) (\<lambda>issue_id.
             io_bind (io_lift (ok_or (assign_with_metadata (vp_crypto P) issue_id workers (xt_replication_factor V) DEFAULT_CLAIM_TTL_MS
                       (ss_view_epoch snapshot)) no_workers)) (\<lambda>sh.
             finish_creation P S V scope task_id sh (ss_view_epoch snapshot) (dr_title draft) description issue_id))))))))))"

section \<open>The tracker interface\<close>

definition as_core :: "v1_prims \<Rightarrow> ('w, 'a) v1_io \<Rightarrow> ('w \<times> v1_cells, 'a, symphony_error) io" where
  "as_core P m = io_map_err (symphony_of_v1 P) m"

definition v1_create_issue :: "v1_prims \<Rightarrow> 'w v1_services \<Rightarrow> v1_tracker \<Rightarrow> issue_draft \<Rightarrow> ('w \<times> v1_cells, issue, symphony_error) io" where
  "v1_create_issue P S V draft = as_core P (create_issue_with_shard P S V draft)"

definition priority_sort_key :: "issue \<Rightarrow> u8" where
  "priority_sort_key i = (case iss_priority i of Some p \<Rightarrow> p | None \<Rightarrow> - 1)"

definition blockers_are_terminal :: "issue \<Rightarrow> issue list \<Rightarrow> string list \<Rightarrow> bool" where
  "blockers_are_terminal i issues terminal_states =
     list_all (\<lambda>blocker. case find (\<lambda>candidate. iss_id candidate = ref_id blocker) issues of
       None \<Rightarrow> False | Some candidate \<Rightarrow> iss_state candidate \<in> set terminal_states) (iss_blocked_by i)"

definition v1_fetch_candidates ::
  "v1_prims \<Rightarrow> 'w v1_services \<Rightarrow> v1_tracker \<Rightarrow> poll_context \<Rightarrow> ('w \<times> v1_cells, issue list, symphony_error) io" where
  "v1_fetch_candidates P S V ctx =
     io_bind (as_core P (v1_list_issues P S V)) (\<lambda>issues.
     io_lift (Ok (sort_key (\<lambda>i. (priority_sort_key i, iss_id i))
       (filter (\<lambda>i. blockers_are_terminal i issues (pc_terminal_states ctx))
         (filter (\<lambda>i. list_ex (\<lambda>state. state = iss_state i) (pc_active_states ctx)) issues)))))"

definition v1_fetch_by_ids ::
  "v1_prims \<Rightarrow> 'w v1_services \<Rightarrow> v1_tracker \<Rightarrow> string list \<Rightarrow> ('w \<times> v1_cells, issue list, symphony_error) io" where
  "v1_fetch_by_ids P S V ids =
     io_bind (as_core P (v1_list_issues P S V)) (\<lambda>issues. io_lift (Ok (filter (\<lambda>i. iss_id i \<in> set ids) issues)))"

definition v1_fetch_claimed ::
  "v1_prims \<Rightarrow> 'w v1_services \<Rightarrow> v1_tracker \<Rightarrow> string option \<Rightarrow> ('w \<times> v1_cells, issue list, symphony_error) io" where
  "v1_fetch_claimed P S V agent_id =
     io_bind (as_core P (v1_list_issues P S V)) (\<lambda>issues.
     io_lift (Ok (filter (\<lambda>i. case agent_id of None \<Rightarrow> True | Some agent \<Rightarrow> (case iss_claim i of None \<Rightarrow> False | Some c \<Rightarrow> cl_by c = agent))
                   (filter (\<lambda>i. iss_claim i \<noteq> None) issues))))"

section \<open>Claims\<close>

definition ensure_agent_matches :: "v1_tracker \<Rightarrow> string \<Rightarrow> string \<Rightarrow> (unit, v1_error) result" where
  "ensure_agent_matches V issue_id agent_id =
     (if agent_id = xt_agent_id V then Ok ()
      else Err (TeClaimRejected issue_id (''x0xd claims as local agent '' @ xt_agent_id V @ '', not requested agent '' @ agent_id)))"

definition ensure_issue_claimable :: "issue \<Rightarrow> string \<Rightarrow> (unit, v1_error) result" where
  "ensure_issue_claimable i issue_id =
     (if iss_claim i \<noteq> None then Err (TeClaimRejected issue_id ''issue already has an active claim'')
      else if iss_state i \<noteq> ''todo'' then Err (TeClaimRejected issue_id (''state is '' @ iss_state i))
      else Ok ())"

fun blob_status_debug :: "claim_blob_status \<Rightarrow> string" where
  "blob_status_debug BlobActive = ''Active''"
| "blob_status_debug BlobReleased = ''Released''"
| "blob_status_debug BlobCompleted = ''Completed''"
| "blob_status_debug BlobBlocked = ''Blocked''"

definition v1_claim_issue_id :: "claim \<Rightarrow> (string, v1_error) result" where
  "v1_claim_issue_id c = ok_or (cl_issue_id c) (TeInvalidClaim ''claim is missing issue_id'')"

definition no_claim_blob :: "string \<Rightarrow> v1_error" where
  "no_claim_blob issue_id = TeInvalidClaim (''issue '' @ issue_id @ '' has no claim blob'')"

definition current_active_claim :: "v1_prims \<Rightarrow> 'w v1_services \<Rightarrow> v1_tracker \<Rightarrow> string \<Rightarrow> ('w, claim) v1_io" where
  "current_active_claim P S V issue_id =
     io_bind (claim_blob_for_task P S V issue_id) (\<lambda>blob.
     io_bind (io_lift (ok_or blob (no_claim_blob issue_id))) (\<lambda>b.
     if cb_status b = BlobActive then io_lift (Ok (cb_claim b))
     else io_lift (Err (TeInvalidClaim (''issue '' @ issue_id @ '' claim status is '' @ blob_status_debug (cb_status b))))))"

definition ensure_current_claim_owner :: "v1_prims \<Rightarrow> 'w v1_services \<Rightarrow> v1_tracker \<Rightarrow> claim \<Rightarrow> ('w, string) v1_io" where
  "ensure_current_claim_owner P S V c =
     io_bind (io_lift (v1_claim_issue_id c)) (\<lambda>issue_id.
     io_bind (current_active_claim P S V issue_id) (\<lambda>current.
     if cl_by current = cl_by c then io_lift (Ok issue_id)
     else io_lift (Err (TeInvalidClaim (''issue '' @ issue_id @ '' is claimed by '' @ cl_by current @ '', not '' @ cl_by c)))))"

definition v1_update_task :: "'w v1_services \<Rightarrow> v1_tracker \<Rightarrow> string \<Rightarrow> task_action \<Rightarrow> ('w, unit) v1_io" where
  "v1_update_task S V issue_id action =
     io_bind (v1_resource_scope S V) (\<lambda>scope. on_world TeClient (xd_update_task (vs_api S) (sp_list_id scope) issue_id action))"

definition v1_claim :: "v1_prims \<Rightarrow> 'w v1_services \<Rightarrow> v1_tracker \<Rightarrow> string \<Rightarrow> string \<Rightarrow> ('w \<times> v1_cells, claim, symphony_error) io" where
  "v1_claim P S V issue_id agent_id = as_core P (
     io_bind (io_lift (ensure_agent_matches V issue_id agent_id)) (\<lambda>_.
     io_bind (fetch_issue P S V issue_id) (\<lambda>i.
     io_bind (io_lift (ensure_issue_claimable i issue_id)) (\<lambda>_.
     io_bind (v1_now_utc S) (\<lambda>at_ts.
     let fresh = claim_new (Some issue_id) agent_id at_ts RoleManualM1 in
     io_bind (if xt_policy V = SigningDisabled then io_lift (Ok fresh) else sign_claim P S fresh) (\<lambda>c.
     io_bind (v1_update_task S V issue_id ActClaim) (\<lambda>_.
     io_bind (v1_now_utc S) (\<lambda>now.
     io_bind (put_claim_blob P S V issue_id (claim_blob_active c now)) (\<lambda>_.
     io_lift (Ok c))))))))))"

text \<open>The operations on a held claim that only rewrite its blob.\<close>

definition rewrite_claim ::
  "v1_prims \<Rightarrow> 'w v1_services \<Rightarrow> v1_tracker \<Rightarrow> claim \<Rightarrow> (string \<Rightarrow> claim_blob) \<Rightarrow> ('w \<times> v1_cells, unit, symphony_error) io" where
  "rewrite_claim P S V c blob_at = as_core P (
     io_bind (ensure_current_claim_owner P S V c) (\<lambda>issue_id.
     io_bind (v1_now_utc S) (\<lambda>now. put_claim_blob P S V issue_id (blob_at now))))"

definition v1_heartbeat :: "v1_prims \<Rightarrow> 'w v1_services \<Rightarrow> v1_tracker \<Rightarrow> claim \<Rightarrow> ('w \<times> v1_cells, unit, symphony_error) io" where
  "v1_heartbeat P S V c = rewrite_claim P S V c (\<lambda>now.
     let refreshed = with_heartbeat c now in claim_blob_active refreshed (cl_heartbeat_at refreshed))"

definition v1_release :: "v1_prims \<Rightarrow> 'w v1_services \<Rightarrow> v1_tracker \<Rightarrow> claim \<Rightarrow> release_reason \<Rightarrow> ('w \<times> v1_cells, unit, symphony_error) io" where
  "v1_release P S V c reason = rewrite_claim P S V c (\<lambda>now. claim_blob_released c reason now)"

definition v1_block :: "v1_prims \<Rightarrow> 'w v1_services \<Rightarrow> v1_tracker \<Rightarrow> claim \<Rightarrow> release_reason \<Rightarrow> ('w \<times> v1_cells, unit, symphony_error) io" where
  "v1_block P S V c reason = rewrite_claim P S V c (\<lambda>now. claim_blob_blocked c reason now)"

definition prepare_handoff :: "v1_prims \<Rightarrow> 'w v1_services \<Rightarrow> v1_tracker \<Rightarrow> string \<Rightarrow> claim \<Rightarrow> handoff \<Rightarrow> ('w, handoff) v1_io" where
  "prepare_handoff P S V issue_id c h =
     (if xt_policy V = SigningDisabled then io_lift (Ok h)
      else sign_handoff P S ((with_signer_agent_id (with_issue_id h issue_id) (cl_by c))\<lparr>ho_signature := None\<rparr>) (cl_by c))"

definition v1_handoff :: "v1_prims \<Rightarrow> 'w v1_services \<Rightarrow> v1_tracker \<Rightarrow> claim \<Rightarrow> handoff \<Rightarrow> ('w \<times> v1_cells, unit, symphony_error) io" where
  "v1_handoff P S V c h = as_core P (
     io_bind (ensure_current_claim_owner P S V c) (\<lambda>issue_id.
     io_bind (prepare_handoff P S V issue_id c h) (\<lambda>prepared.
     io_bind (v1_now_utc S) (\<lambda>now.
     io_bind (put_handoff_blob P S V issue_id (handoff_blob_new prepared now)) (\<lambda>_.
     io_bind (v1_update_task S V issue_id ActComplete) (\<lambda>_.
     io_bind (v1_now_utc S) (\<lambda>done_at.
     put_claim_blob P S V issue_id (claim_blob_completed c done_at))))))))"

definition show_reason_code :: "release_reason option \<Rightarrow> string" where
  "show_reason_code reason =
     (case reason of None \<Rightarrow> ''None'' | Some r \<Rightarrow> ''Some('' @ [CHR 0x22] @ release_reason_str (rr_code r) @ [CHR 0x22] @ '')'')"

definition v1_requeue_blocked ::
  "v1_prims \<Rightarrow> 'w v1_services \<Rightarrow> v1_tracker \<Rightarrow> string \<Rightarrow> release_reason \<Rightarrow> ('w \<times> v1_cells, unit, symphony_error) io" where
  "v1_requeue_blocked P S V issue_id reason = as_core P (
     io_bind (claim_blob_for_task P S V issue_id) (\<lambda>blob.
     io_bind (io_lift (ok_or blob (no_claim_blob issue_id))) (\<lambda>b.
     if cb_status b \<noteq> BlobBlocked
     then io_lift (Err (TeInvalidClaim (''issue '' @ issue_id @ '' claim status is '' @ blob_status_debug (cb_status b) @ '', not Blocked'')))
     else if map_option rr_code (cb_release_reason b) \<noteq> Some RcAwaitingApproval
     then io_lift (Err (TeInvalidClaim (''issue '' @ issue_id @ '' is blocked with reason '' @ show_reason_code (cb_release_reason b) @
            '', not awaiting_approval; refusing requeue'')))
     else io_bind (v1_now_utc S) (\<lambda>now. put_claim_blob P S V issue_id (claim_blob_released (cb_claim b) reason now)))))"

section \<open>Approvals\<close>

definition v1_load_approval_state ::
  "v1_prims \<Rightarrow> 'w v1_services \<Rightarrow> v1_tracker \<Rightarrow> string \<Rightarrow> ('w \<times> v1_cells, approval_state, symphony_error) io" where
  "v1_load_approval_state P S V issue_id = as_core P (
     io_bind (approval_blob_for_issue P S V issue_id) (\<lambda>blob. io_lift (Ok (case blob of
       None \<Rightarrow> \<lparr>as_events = [], as_consumed = []\<rparr>
     | Some b \<Rightarrow> \<lparr>as_events = ab_events b, as_consumed = ab_consumed b\<rparr>))))"

text \<open>Read the blob of an issue, or start a new one, change it, stamp it and write it.\<close>

definition update_approval_blob ::
  "v1_prims \<Rightarrow> 'w v1_services \<Rightarrow> v1_tracker \<Rightarrow> string \<Rightarrow> (approval_blob \<Rightarrow> approval_blob) \<Rightarrow> ('w, unit) v1_io" where
  "update_approval_blob P S V issue_id change =
     io_bind (approval_blob_for_issue P S V issue_id) (\<lambda>blob.
     io_bind (case blob of Some b \<Rightarrow> io_lift (Ok b) | None \<Rightarrow> io_bind (v1_now_utc S) (\<lambda>now. io_lift (Ok (approval_blob_new issue_id now)))) (\<lambda>b.
     io_bind (v1_now_utc S) (\<lambda>now. put_approval_blob P S V issue_id ((change b)\<lparr>ab_updated_at := now\<rparr>))))"

definition v1_store_approval ::
  "v1_prims \<Rightarrow> 'w v1_services \<Rightarrow> v1_tracker \<Rightarrow> approval_event \<Rightarrow> ('w \<times> v1_cells, unit, symphony_error) io" where
  "v1_store_approval P S V event = as_core P (
     update_approval_blob P S V (av_issue_id event) (\<lambda>b. b\<lparr>ab_events := ab_events b @ [event]\<rparr>))"

definition v1_store_consumed ::
  "v1_prims \<Rightarrow> 'w v1_services \<Rightarrow> v1_tracker \<Rightarrow> approval_consumed \<Rightarrow> ('w \<times> v1_cells, unit, symphony_error) io" where
  "v1_store_consumed P S V event = as_core P (
     update_approval_blob P S V (ac_issue_id event) (\<lambda>b. b\<lparr>ab_consumed := ab_consumed b @ [event]\<rparr>))"

end
