(* ===== verification/V1_Correct.thy ===== *)
theory V1_Correct
  imports V1_Operations
begin

text \<open>
  Correctness of the v1 tracker: the cache of verification outcomes holds only outcomes the signing service gave,
  over every sequence of operations; therefore, when signing is required, whatever a listing shows of claims,
  handoffs and provenance was verified. Every listed issue is marked as network-sourced. The operations on claims
  act only on the blob of the claim's owner.
\<close>

section \<open>Mapping\<close>

lemma issue_state_constants:
  "issue_state_new ''blocked'' = Ok ''blocked''" "issue_state_new ''review'' = Ok ''review''" "issue_state_new ''todo'' = Ok ''todo''"
  "issue_state_new ''in_progress'' = Ok ''in_progress''" "issue_state_new ''done'' = Ok ''done''"
  by code_simp+

lemma issue_state_for_task_eq:
  "issue_state_for_task task claim_b handoff_b = Ok
     (if blob_status_is BlobBlocked claim_b then ''blocked'' else if handoff_b \<noteq> None then ''review''
      else if blob_status_is BlobReleased claim_b then ''todo''
      else if normalized_task_state (tk_state task) = ''claimed'' then ''in_progress''
      else if normalized_task_state (tk_state task) = ''done'' then ''done'' else ''todo'')"
  by (simp add: issue_state_for_task_def issue_state_constants Let_def)

lemma extra_for_task_source:
  "extra_for_task K task claim_b = Ok extra \<Longrightarrow> bt_get extra ''issue_source'' = Some (JString ''network_sourced'')"
  by (auto simp: extra_for_task_def Let_def bt_get_def split: option.splits)

lemma source_network_sourced: "bt_get (iss_extra i) ''issue_source'' = Some (JString ''network_sourced'') \<Longrightarrow> source_from_issue i = SrcNetworkSourced"
proof -
  assume "bt_get (iss_extra i) ''issue_source'' = Some (JString ''network_sourced'')"
  moreover have "source_from_marker ''network_sourced'' = Some SrcNetworkSourced" by code_simp
  ultimately show ?thesis by (simp add: source_from_issue_def source_from_json_value_def map_filter_simps)
qed

lemma issue_from_task_Ok:
  assumes "issue_from_task K task claim_b handoff_b shard_b = Ok i"
  shows "iss_id i = tk_id task" and "iss_title i = tk_title task" and "iss_description i = tk_description task"
    and "iss_priority i = Some (tk_priority task)" and "iss_claim i = active_claim_for_issue claim_b handoff_b"
    and "iss_handoff i = map_option hb_handoff handoff_b" and "iss_shard i = map_option sb_shard shard_b"
    and "issue_state_for_task task claim_b handoff_b = Ok (iss_state i)" and "iss_signature_provenance i = None"
    and "source_from_issue i = SrcNetworkSourced" and "iss_blocked_by i = []"
  using assms extra_for_task_source
  by (auto simp: issue_from_task_def issue_new_def issue_id_new_def intro!: source_network_sourced split: if_splits)

section \<open>Verified envelopes\<close>

text \<open>The signing service called the signature valid, for a payload with this digest and under the resolved key.\<close>

definition service_verified :: "v1_prims \<Rightarrow> 'w v1_services \<Rightarrow> string \<Rightarrow> string \<Rightarrow> string \<Rightarrow> string \<Rightarrow> bool" where
  "service_verified P S context digest signature_b64 public_key_b64 \<longleftrightarrow>
     (\<exists>client payload sig key. vs_client S = Some client \<and> digest = sha256_hex (vp_crypto P) payload \<and>
        b64_decode (vp_crypto P) signature_b64 = Ok sig \<and> b64_decode (vp_crypto P) public_key_b64 = Ok key \<and>
        (\<exists>w w'. sc_verify client context payload sig key w = (Ok VoValid, w')))"

definition key_resolved :: "'w v1_services \<Rightarrow> string \<Rightarrow> bytes \<Rightarrow> bool" where
  "key_resolved S signer key \<longleftrightarrow> (\<exists>resolver w w'. vs_resolver S = Some resolver \<and> resolver signer w = (Ok key, w'))"

definition envelope_attested :: "v1_prims \<Rightarrow> 'w v1_services \<Rightarrow> signature_envelope \<Rightarrow> string \<Rightarrow> bytes \<Rightarrow> bool" where
  "envelope_attested P S sg context payload \<longleftrightarrow>
     sge_algorithm sg = SIGN_ALGORITHM \<and> sge_context sg = context \<and> sge_payload_sha256 sg = sha256_hex (vp_crypto P) payload \<and>
     (\<exists>key. b64_decode (vp_crypto P) (sge_public_key_b64 sg) = Ok key \<and> key_resolved S (sge_signer_agent_id sg) key) \<and>
     service_verified P S context (sha256_hex (vp_crypto P) payload) (sge_signature_b64 sg) (sge_public_key_b64 sg)"

definition cache_sound :: "v1_prims \<Rightarrow> 'w v1_services \<Rightarrow> v1_cells \<Rightarrow> bool" where
  "cache_sound P S c \<longleftrightarrow> (\<forall>k. xc_verify_cache c k = Some VoValid \<longrightarrow>
     service_verified P S (vk_context k) (vk_payload_sha256 k) (vk_signature_b64 k) (vk_public_key_b64 k))"

text \<open>The cells over time: the cache stays sound, and a resolved scope stays.\<close>

definition v1_cells_le :: "v1_prims \<Rightarrow> 'w v1_services \<Rightarrow> v1_cells \<Rightarrow> v1_cells \<Rightarrow> bool" where
  "v1_cells_le P S c c' \<longleftrightarrow> (cache_sound P S c \<longrightarrow> cache_sound P S c') \<and>
     (\<forall>scope. xc_resolved_scope c = Some scope \<longrightarrow> xc_resolved_scope c' = Some scope)"

interpretation v1c: cell_preorder "v1_cells_le P S" for P S
  by unfold_locales (auto simp: v1_cells_le_def)

lemma cache_sound_new [simp]: "cache_sound P S v1_cells_new"
  by (simp add: cache_sound_def v1_cells_new_def)

lemma keeps_bind_lift:
  "(\<And>x. r = Ok x \<Longrightarrow> keeps (on_snd (v1_cells_le P S)) (f x)) \<Longrightarrow> keeps (on_snd (v1_cells_le P S)) (io_bind (io_lift r) f)"
  by (cases r) (simp_all add: v1c.keeps_cells keeps_def io_bind_def io_lift_def on_snd_def v1c.cell_refl)

lemma verify_cached_keeps:
  assumes "vk_payload_sha256 key = sha256_hex (vp_crypto P) payload" and "b64_decode (vp_crypto P) (vk_signature_b64 key) = Ok sig"
    and "b64_decode (vp_crypto P) (vk_public_key_b64 key) = Ok pk"
  shows "keeps (on_snd (v1_cells_le P S)) (verify_cached P S key payload sig pk)"
proof (rule keepsI)
  fix s r s'
  assume "verify_cached P S key payload sig pk s = (r, s')"
  then have "snd s' = snd s \<or> (\<exists>client outcome w w'. vs_client S = Some client \<and> sc_verify client (vk_context key) payload sig pk w = (Ok outcome, w') \<and>
      snd s' = (snd s)\<lparr>xc_verify_cache := (xc_verify_cache (snd s))(key \<mapsto> outcome)\<rparr>)"
    by (cases s) ((auto simp: verify_cached_def io_bind_def get_cells_def on_world_def upd_cells_def io_lift_def v1_signing_client_def
        split: option.splits prod.splits result.splits verify_outcome.splits), blast+)
  with assms show "on_snd (v1_cells_le P S) s s'"
    unfolding on_snd_def v1_cells_le_def cache_sound_def service_verified_def by (auto split: if_splits) blast
qed

lemma v1_verify_envelope_keeps: "keeps (on_snd (v1_cells_le P S)) (v1_verify_envelope P S issue_id sg context payload)"
  unfolding v1_verify_envelope_def Let_def
  by (intro keeps_bind_lift v1c.keeps_cells keeps_rules verify_cached_keeps) (simp_all add: v1_cache_key_def)

lemma v1_verify_envelope_Ok:
  assumes "v1_verify_envelope P S issue_id sg context payload s = (Ok u, s')" and "cache_sound P S (snd s)"
  shows "envelope_attested P S sg context payload"
proof -
  from assms(1) obtain key sig resolver s1 where k: "sge_algorithm sg = SIGN_ALGORITHM" "sge_context sg = context"
      "sge_payload_sha256 sg = sha256_hex (vp_crypto P) payload" "b64_decode (vp_crypto P) (sge_public_key_b64 sg) = Ok key"
      "vs_resolver S = Some resolver" "resolver (sge_signer_agent_id sg) (fst s) = (Ok key, fst s1)" "snd s1 = snd s"
      "b64_decode (vp_crypto P) (sge_signature_b64 sg) = Ok sig"
    and run: "verify_cached P S (v1_cache_key issue_id sg context (sha256_hex (vp_crypto P) payload)) payload sig key s1 = (Ok u, s')"
    by (auto simp: v1_verify_envelope_def io_bind_Ok_iff on_world_iff Let_def v1_signing_resolver_def split: if_splits)
  have out: "verify_outcome_to_result v = Ok u \<Longrightarrow> v = VoValid" for v by (cases v) auto
  have "service_verified P S context (sha256_hex (vp_crypto P) payload) (sge_signature_b64 sg) (sge_public_key_b64 sg)"
  proof (cases "xc_verify_cache (snd s1) (v1_cache_key issue_id sg context (sha256_hex (vp_crypto P) payload))")
    case (Some v)
    with run have "v = VoValid" by (auto simp: verify_cached_def io_bind_Ok_iff intro: out)
    with Some assms(2) k(7) show ?thesis unfolding cache_sound_def by (auto simp: v1_cache_key_def)
  next
    case None
    with run obtain client v w w' where "vs_client S = Some client" "sc_verify client context payload sig key w = (Ok v, w')"
      "verify_outcome_to_result v = Ok u"
      by (auto simp: verify_cached_def io_bind_Ok_iff v1_signing_client_def v1_cache_key_def on_world_iff)
    with out k show ?thesis unfolding service_verified_def by blast
  qed
  with k show ?thesis unfolding envelope_attested_def key_resolved_def by blast
qed

section \<open>Listed issues\<close>

text \<open>Claims, handoffs and provenance that carry an envelope with the property \<open>E\<close> for their payload, bound to the issue and the signer.\<close>

type_synonym envelope_property = "signature_envelope \<Rightarrow> string \<Rightarrow> bytes \<Rightarrow> bool"

definition claim_bound :: "v1_prims \<Rightarrow> envelope_property \<Rightarrow> issue \<Rightarrow> claim \<Rightarrow> bool" where
  "claim_bound P E i c \<longleftrightarrow> cl_issue_id c = Some (iss_id i) \<and>
     (\<exists>sg payload. cl_signature c = Some sg \<and> sge_signer_agent_id sg = cl_by c \<and> claim_signing_payload_bytes P c = Ok payload \<and> E sg CLAIM_CONTEXT payload)"

definition handoff_bound :: "v1_prims \<Rightarrow> envelope_property \<Rightarrow> issue \<Rightarrow> handoff \<Rightarrow> bool" where
  "handoff_bound P E i h \<longleftrightarrow> ho_issue_id h = Some (iss_id i) \<and>
     (\<exists>sg payload. ho_signature h = Some sg \<and> ho_signer_agent_id h = Some (sge_signer_agent_id sg) \<and> handoff_signing_payload_bytes P h = Ok payload \<and>
        E sg HANDOFF_CONTEXT payload)"

definition provenance_bound :: "v1_prims \<Rightarrow> envelope_property \<Rightarrow> issue \<Rightarrow> string \<Rightarrow> bool" where
  "provenance_bound P E i signer \<longleftrightarrow> (\<exists>sg. sge_signer_agent_id sg = signer \<and>
     E sg ISSUE_PROVENANCE_CONTEXT (issue_provenance_payload P (iss_id i) (iss_title i) (iss_description i)))"

definition issue_bound :: "v1_prims \<Rightarrow> envelope_property \<Rightarrow> issue \<Rightarrow> bool" where
  "issue_bound P E i \<longleftrightarrow> (\<forall>c. iss_claim i = Some c \<longrightarrow> claim_bound P E i c) \<and> (\<forall>h. iss_handoff i = Some h \<longrightarrow> handoff_bound P E i h) \<and>
     (\<forall>prov. iss_signature_provenance i = Some prov \<longrightarrow> (\<exists>signer. prov = ProvVerified signer \<and> provenance_bound P E i signer))"

text \<open>What becomes of a read issue: its record with the claim possibly stripped and the provenance possibly attached.\<close>

definition shown_as :: "issue \<Rightarrow> issue \<Rightarrow> bool" where
  "shown_as i i' \<longleftrightarrow> iss_id i' = iss_id i \<and> iss_title i' = iss_title i \<and> iss_description i' = iss_description i \<and> iss_handoff i' = iss_handoff i \<and>
     iss_extra i' = iss_extra i \<and>
     (iss_claim i' = iss_claim i \<and> iss_state i' = iss_state i \<or>
      iss_claim i \<noteq> None \<and> iss_claim i' = None \<and> iss_state i' = (if iss_state i = ''in_progress'' then ''todo'' else iss_state i))"

lemma bound_provenance_update [simp]:
  "claim_bound P E (i\<lparr>iss_signature_provenance := p\<rparr>) c \<longleftrightarrow> claim_bound P E i c"
  "handoff_bound P E (i\<lparr>iss_signature_provenance := p\<rparr>) h \<longleftrightarrow> handoff_bound P E i h"
  "provenance_bound P E (i\<lparr>iss_signature_provenance := p\<rparr>) signer \<longleftrightarrow> provenance_bound P E i signer"
  by (simp_all add: claim_bound_def handoff_bound_def provenance_bound_def)

lemma claim_bound_same: "iss_id i' = iss_id i \<Longrightarrow> claim_bound P E i c \<Longrightarrow> claim_bound P E i' c"
  by (simp add: claim_bound_def)

lemma strip_bad_claim_Ok:
  "strip_bad_claim i c reason = Ok i' \<Longrightarrow> iss_claim i' = None \<and> iss_state i' = (if iss_state i = ''in_progress'' then ''todo'' else iss_state i) \<and> iss_id i' = iss_id i \<and> iss_title i' = iss_title i \<and>
     iss_description i' = iss_description i \<and> iss_handoff i' = iss_handoff i \<and> iss_signature_provenance i' = iss_signature_provenance i \<and>
     iss_extra i' = iss_extra i"
  by (auto simp: strip_bad_claim_def issue_state_constants Let_def split: if_splits)

text \<open>
  The read path, for a property \<open>E\<close> that the check of an envelope establishes in every state with \<open>J\<close>, when the
  operations of the read path keep \<open>J\<close>.
\<close>

definition stays :: "('s \<Rightarrow> bool) \<Rightarrow> 's \<Rightarrow> 's \<Rightarrow> bool" where
  "stays J s s' \<longleftrightarrow> (J s \<longrightarrow> J s')"

interpretation stay: state_preorder "stays J" for J
  by unfold_locales (simp_all add: stays_def)

lemmas stay_rules = stay.keeps_lift stay.keeps_bind stay.keeps_map_err keeps_rules

lemma staysD: "keeps (stays J) m \<Longrightarrow> m s = (r, s') \<Longrightarrow> J s \<Longrightarrow> J s'"
  using keepsD by (fastforce simp: stays_def)

lemma read_issues_Ok:
  assumes "read_issues P S V tasks s = (Ok is, s')" and "i \<in> set is"
  shows "\<exists>task cb hb sb. task \<in> set tasks \<and> issue_from_task (vp_blobs P) task cb hb sb = Ok i"
  using assms
proof (induction tasks arbitrary: s "is")
  case (Cons task tasks)
  from Cons.prems(1) obtain cb hb sb j js s1 where j: "issue_from_task (vp_blobs P) task cb hb sb = Ok j" "read_issues P S V tasks s1 = (Ok js, s')" "is = j # js"
    by (auto simp: io_bind_Ok_iff)
  with Cons.IH [OF j(2)] Cons.prems(2) show ?case by auto
qed simp

locale envelope_check =
  fixes P :: v1_prims
    and S :: "'w v1_services"
    and V :: v1_tracker
    and J :: "'w \<times> v1_cells \<Rightarrow> bool"
    and E :: envelope_property
  assumes envelope_E: "v1_verify_envelope P S issue_id sg context payload s = (Ok u, s') \<Longrightarrow> J s \<Longrightarrow> E sg context payload"
    and envelope_J: "keeps (stays J) (v1_verify_envelope P S issue_id sg context payload)"
    and provenance_J: "keeps (stays J) (provenance_blob_for_task P S V task_id)"
    and scope_J: "keeps (stays J) (v1_resource_scope S V)"
    and visible_J: "keeps (stays J) (visible_tasks S scope)"
    and read_J: "keeps (stays J) (read_issues P S V tasks)"
begin

lemma verify_claim_E:
  assumes "verify_claim P S i c s = (Ok u, s')" and "J s"
  shows "claim_bound P E i c"
proof -
  from assms(1) obtain sg payload where sg: "cl_issue_id c = Some (iss_id i)" "cl_signature c = Some sg" "sge_signer_agent_id sg = cl_by c"
    "claim_signing_payload_bytes P c = Ok payload" "v1_verify_envelope P S (iss_id i) sg CLAIM_CONTEXT payload s = (Ok u, s')"
    by (auto simp: verify_claim_def io_bind_Ok_iff split: if_splits)
  with envelope_E [OF sg(5) assms(2)] show ?thesis unfolding claim_bound_def by blast
qed

lemma verify_handoff_E:
  assumes "verify_handoff P S i h s = (Ok u, s')" and "J s"
  shows "handoff_bound P E i h"
proof -
  from assms(1) obtain sg payload where sg: "ho_issue_id h = Some (iss_id i)" "ho_signature h = Some sg" "ho_signer_agent_id h = Some (sge_signer_agent_id sg)"
    "handoff_signing_payload_bytes P h = Ok payload" "v1_verify_envelope P S (iss_id i) sg HANDOFF_CONTEXT payload s = (Ok u, s')"
    by (auto simp: verify_handoff_def io_bind_Ok_iff split: if_splits)
  with envelope_E [OF sg(5) assms(2)] show ?thesis unfolding handoff_bound_def by blast
qed

lemma check_claim_J: "keeps (stays J) (check_claim P S i)"
  unfolding check_claim_def verify_claim_def by (intro stay_rules envelope_J)

lemma check_handoff_J: "keeps (stays J) (check_handoff P S i)"
  unfolding check_handoff_def verify_handoff_def by (intro stay_rules envelope_J)

lemma check_provenance_J: "keeps (stays J) (check_provenance P S V i)"
  unfolding check_provenance_def verify_issue_provenance_def by (intro stay_rules envelope_J provenance_J)

lemma check_claim_Ok:
  assumes "check_claim P S i s = (Ok i', s')" and "J s"
  shows "iss_id i' = iss_id i \<and> iss_title i' = iss_title i \<and> iss_description i' = iss_description i \<and> iss_handoff i' = iss_handoff i \<and>
    iss_signature_provenance i' = iss_signature_provenance i \<and> iss_extra i' = iss_extra i \<and>
    (i' = i \<or> iss_claim i \<noteq> None \<and> iss_claim i' = None \<and> iss_state i' = (if iss_state i = ''in_progress'' then ''todo'' else iss_state i)) \<and>
    (\<forall>c. iss_claim i' = Some c \<longrightarrow> claim_bound P E i c)"
proof (cases "iss_claim i")
  case None
  with assms show ?thesis by (auto simp: check_claim_def)
next
  case (Some c)
  obtain r s1 where r: "verify_claim P S i c s = (r, s1)" by (metis prod.collapse)
  show ?thesis
  proof (cases r)
    case (Ok u)
    with assms(1) Some r verify_claim_E [OF r [unfolded Ok] assms(2)] show ?thesis by (simp add: check_claim_def io_bind_def io_try_def)
  next
    case (Err e)
    with assms(1) Some r have "strip_bad_claim i c (show_v1_error P e) = Ok i'"
      by (simp add: check_claim_def io_bind_def io_try_def io_lift_def split: option.splits)
    from strip_bad_claim_Ok [OF this] Some show ?thesis by auto
  qed
qed

lemma check_handoff_True:
  assumes "check_handoff P S i s = (Ok True, s')" and "J s" and "iss_handoff i = Some h"
  shows "handoff_bound P E i h"
proof -
  obtain r s1 where "verify_handoff P S i h s = (r, s1)" by (metis prod.collapse)
  with assms(1,3) have "verify_handoff P S i h s = (Ok (), s')"
    by (cases r) (auto simp: check_handoff_def io_bind_def io_try_def io_lift_def split: option.splits)
  from verify_handoff_E [OF this assms(2)] show ?thesis .
qed

lemma check_provenance_Ok:
  assumes "check_provenance P S V i s = (Ok i', s')" and "J s"
  shows "i' = i \<or> (\<exists>signer. i' = i\<lparr>iss_signature_provenance := Some (ProvVerified signer)\<rparr> \<and> provenance_bound P E i signer)"
proof -
  obtain r s1 where r: "verify_issue_provenance P S V i s = (r, s1)" by (metis prod.collapse)
  with assms(1) consider "i' = i" | signer where "verify_issue_provenance P S V i s = (Ok (Some signer), s')"
      "i' = i\<lparr>iss_signature_provenance := Some (ProvVerified signer)\<rparr>"
    by (cases r) (auto simp: check_provenance_def io_bind_def io_try_def io_lift_def split: option.splits)
  then show ?thesis
  proof cases
    case 2
    then obtain b s1 where b: "provenance_blob_for_task P S V (iss_id i) s = (Ok (Some b), s1)" "sge_signer_agent_id (pb_envelope b) = signer"
      "v1_verify_envelope P S (iss_id i) (pb_envelope b) ISSUE_PROVENANCE_CONTEXT
         (issue_provenance_payload P (iss_id i) (iss_title i) (iss_description i)) s1 = (Ok (), s')"
      by (auto simp: verify_issue_provenance_def io_bind_Ok_iff split: option.splits)
    from envelope_E [OF b(3) staysD [OF provenance_J b(1) assms(2)]] b(2) 2 show ?thesis unfolding provenance_bound_def by blast
  qed simp
qed

lemma verify_issues_Ok:
  assumes "verify_issues P S V is s = (Ok js, s')" and "J s" and "\<And>i. i \<in> set is \<Longrightarrow> iss_signature_provenance i = None"
    and "j \<in> set js"
  shows "\<exists>i \<in> set is. shown_as i j \<and> issue_bound P E j"
  using assms
proof (induction "is" arbitrary: s js)
  case (Cons i "is")
  from Cons.prems(1) obtain i1 s1 ok s2 where c: "check_claim P S i s = (Ok i1, s1)" and h: "check_handoff P S i1 s1 = (Ok ok, s2)"
    and rest: "(if \<not> ok then verify_issues P S V is else io_bind (check_provenance P S V i1) (\<lambda>i2.
      io_bind (verify_issues P S V is) (\<lambda>rest. io_lift (Ok (i2 # rest))))) s2 = (Ok js, s')"
    by (auto simp: io_bind_Ok_iff)
  note J1 = staysD [OF check_claim_J c Cons.prems(2)]
  note J2 = staysD [OF check_handoff_J h J1]
  show ?case
  proof (cases ok)
    case False
    with rest Cons.IH [of s2 js] J2 Cons.prems show ?thesis by auto
  next
    case True
    with rest obtain i2 s3 js' where p: "check_provenance P S V i1 s2 = (Ok i2, s3)" and r: "verify_issues P S V is s3 = (Ok js', s')" and js: "js = i2 # js'"
      by (auto simp: io_bind_Ok_iff)
    note J3 = staysD [OF check_provenance_J p J2]
    show ?thesis
    proof (cases "j = i2")
      case j: True
      note c1 = check_claim_Ok [OF c Cons.prems(2)]
      from h True have h1: "iss_handoff i1 = Some h' \<Longrightarrow> handoff_bound P E i1 h'" for h' using check_handoff_True [OF _ J1] by metis
      from check_provenance_Ok [OF p J2] c1 Cons.prems(3) [of i] have "shown_as i i2" by (auto simp: shown_as_def)
      moreover have "issue_bound P E i1" using c1 h1 claim_bound_same [of i1 i P E] Cons.prems(3) [of i] by (simp add: issue_bound_def)
      with check_provenance_Ok [OF p J2] have "issue_bound P E i2" by (auto simp: issue_bound_def)
      ultimately show ?thesis using j by simp
    next
      case False
      with Cons.IH [OF r J3] Cons.prems js show ?thesis by auto
    qed
  qed
qed simp

lemma listed:
  assumes "v1_list_issues P S V s = (Ok is, s')" and "J s" and "i \<in> set is"
  shows "\<exists>tasks task cb hb sb i0 scope s1 s2. visible_tasks S scope s1 = (Ok (Some tasks), s2) \<and> task \<in> set tasks \<and>
    issue_from_task (vp_blobs P) task cb hb sb = Ok i0 \<and> shown_as i0 i \<and>
    (xt_policy V = SigningDisabled \<longrightarrow> i = i0) \<and> (xt_policy V = SigningRequired \<longrightarrow> issue_bound P E i)"
proof -
  from assms(1,3) obtain scope s1 tasks s2 js s3 where run: "v1_resource_scope S V s = (Ok scope, s1)" "visible_tasks S scope s1 = (Ok (Some tasks), s2)"
    "read_issues P S V tasks s2 = (Ok js, s3)" "filter_verified_issues P S V js s3 = (Ok is, s')"
    by (auto simp: v1_list_issues_def io_bind_Ok_iff split: option.splits)
  have J3: "J s3" using staysD [OF read_J run(3) staysD [OF visible_J run(2) staysD [OF scope_J run(1) assms(2)]]] .
  note read = read_issues_Ok [OF run(3)]
  then have none: "iss_signature_provenance j = None" if "j \<in> set js" for j using that issue_from_task_Ok(9) by blast
  have "\<exists>j \<in> set js. shown_as j i \<and> (xt_policy V = SigningDisabled \<longrightarrow> i = j) \<and> (xt_policy V = SigningRequired \<longrightarrow> issue_bound P E i)"
  proof (cases "xt_policy V")
    case SigningDisabled
    with run(4) assms(3) show ?thesis by (auto simp: filter_verified_issues_def shown_as_def)
  next
    case SigningRequired
    with run(4) have "verify_issues P S V js s3 = (Ok is, s')" by (simp add: filter_verified_issues_def)
    from verify_issues_Ok [OF this J3 none assms(3)] SigningRequired show ?thesis by auto
  qed
  with read run(2) show ?thesis by blast
qed

end

section \<open>The cells\<close>

lemma scope_keeps: "keeps (on_snd (v1_cells_le P S)) (v1_resource_scope S V)"
  unfolding v1_resource_scope_def resolve_or_join_group_def
  by (intro v1c.keeps_cells keeps_rules v1c.keeps_upd) (simp add: v1_cells_le_def cache_sound_def)

lemma get_blob_keeps: "keeps (on_snd (v1_cells_le P S)) (get_blob S V key dec)"
  unfolding get_blob_def by (intro v1c.keeps_cells keeps_rules scope_keeps)

lemma put_blob_keeps: "keeps (on_snd (v1_cells_le P S)) (put_blob S V key enc)"
  unfolding put_blob_def by (intro v1c.keeps_cells keeps_rules scope_keeps)

lemma provenance_blob_keeps: "keeps (on_snd (v1_cells_le P S)) (provenance_blob_for_task P S V task_id)"
  unfolding provenance_blob_for_task_def by (rule get_blob_keeps)

lemma check_keeps:
  "keeps (on_snd (v1_cells_le P S)) (check_claim P S i)" "keeps (on_snd (v1_cells_le P S)) (check_handoff P S i)"
  "keeps (on_snd (v1_cells_le P S)) (check_provenance P S V i)"
  unfolding check_claim_def verify_claim_def check_handoff_def verify_handoff_def check_provenance_def verify_issue_provenance_def
  by (intro v1c.keeps_cells keeps_rules v1_verify_envelope_keeps provenance_blob_keeps)+

lemma cache_sound_stays: "keeps (on_snd (v1_cells_le P S)) m \<Longrightarrow> keeps (stays (\<lambda>s. cache_sound P S (snd s))) m"
  by (simp add: keeps_def on_snd_def v1_cells_le_def stays_def)

lemma read_issues_keeps: "keeps (on_snd (v1_cells_le P S)) (read_issues P S V tasks)"
proof (induction tasks)
  case (Cons task tasks)
  then show ?case
    by (simp add: claim_blob_for_task_def handoff_blob_for_task_def shard_blob_for_task_def, intro v1c.keeps_cells keeps_rules get_blob_keeps)
qed (simp add: v1c.keeps_cells)

lemma verify_issues_keeps: "keeps (on_snd (v1_cells_le P S)) (verify_issues P S V is)"
proof (induction "is")
  case (Cons i "is")
  then show ?case by (simp, intro v1c.keeps_cells keeps_rules check_keeps)
qed (simp add: v1c.keeps_cells)

lemma keeps_case_client_error [keeps_rules]:
  "(\<And>st b. keeps le (f st b)) \<Longrightarrow> keeps le g \<Longrightarrow> keeps le (case e of CeHttp st b \<Rightarrow> f st b | _ \<Rightarrow> g)"
  by (cases e) simp_all

lemma visible_tasks_keeps: "keeps (on_snd (v1_cells_le P S)) (visible_tasks S scope)"
  unfolding visible_tasks_def by (intro v1c.keeps_cells keeps_rules)

lemma list_issues_keeps: "keeps (on_snd (v1_cells_le P S)) (v1_list_issues P S V)"
  unfolding v1_list_issues_def filter_verified_issues_def
  by (intro v1c.keeps_cells keeps_rules scope_keeps visible_tasks_keeps read_issues_keeps verify_issues_keeps)

interpretation attested: envelope_check P S V "\<lambda>s. cache_sound P S (snd s)" "envelope_attested P S" for P S V
  by unfold_locales
    (auto intro: v1_verify_envelope_Ok cache_sound_stays v1_verify_envelope_keeps provenance_blob_keeps scope_keeps visible_tasks_keeps read_issues_keeps)

text \<open>A listed issue is network-sourced. Without signing it has no provenance; with signing everything it shows is attested.\<close>

definition v1_listed :: "v1_prims \<Rightarrow> 'w v1_services \<Rightarrow> v1_tracker \<Rightarrow> issue \<Rightarrow> bool" where
  "v1_listed P S V i \<longleftrightarrow> source_from_issue i = SrcNetworkSourced \<and>
     (xt_policy V = SigningDisabled \<longrightarrow> iss_signature_provenance i = None) \<and> (xt_policy V = SigningRequired \<longrightarrow> issue_bound P (envelope_attested P S) i)"

lemma v1_list_issues_mem:
  assumes "v1_list_issues P S V s = (Ok is, s')" and "cache_sound P S (snd s)" and "i \<in> set is"
  shows "v1_listed P S V i"
proof -
  from attested.listed [OF assms] obtain task cb hb sb i0 where t: "issue_from_task (vp_blobs P) task cb hb sb = Ok i0" "shown_as i0 i"
    "xt_policy V = SigningDisabled \<longrightarrow> i = i0" "xt_policy V = SigningRequired \<longrightarrow> issue_bound P (envelope_attested P S) i" by blast
  have "source_from_issue i = source_from_issue i0" using t(2) by (simp add: shown_as_def source_from_issue_def)
  with issue_from_task_Ok(9,10) [OF t(1)] t(3,4) show ?thesis by (auto simp: v1_listed_def)
qed

text \<open>Without any condition on the state: what a v1 listing shows is network-sourced, and unsigned when signing is disabled.\<close>

interpretation plain: envelope_check P S V "\<lambda>_. True" "\<lambda>_ _ _. True" for P S V
  by unfold_locales (auto simp: keeps_def stays_def)

lemma v1_list_network:
  assumes "v1_list_issues P S V s = (Ok is, s')" and "i \<in> set is"
  shows "source_from_issue i = SrcNetworkSourced \<and> (xt_policy V = SigningDisabled \<longrightarrow> iss_signature_provenance i = None)"
proof -
  from plain.listed [OF assms(1) TrueI assms(2)] obtain task cb hb sb i0 where t: "issue_from_task (vp_blobs P) task cb hb sb = Ok i0" "shown_as i0 i"
    "xt_policy V = SigningDisabled \<longrightarrow> i = i0" by blast
  have "source_from_issue i = source_from_issue i0" using t(2) by (simp add: shown_as_def source_from_issue_def)
  with issue_from_task_Ok(9,10) [OF t(1)] t(3) show ?thesis by auto
qed

section \<open>Operations\<close>

lemmas v1_op_defs = v1_ensure_surfaces_def finish_creation_def put_sidecars_def create_issue_with_shard_def v1_create_issue_def as_core_def
  v1_fetch_candidates_def v1_fetch_by_ids_def v1_fetch_claimed_def current_active_claim_def ensure_current_claim_owner_def v1_update_task_def
  v1_claim_def rewrite_claim_def v1_heartbeat_def v1_release_def v1_block_def prepare_handoff_def v1_handoff_def v1_requeue_blocked_def
  v1_load_approval_state_def update_approval_blob_def v1_store_approval_def v1_store_consumed_def fetch_issue_def v1_now_utc_def
  sign_payload_def sign_claim_def sign_handoff_def sign_and_put_provenance_def put_approval_blob_def put_claim_blob_def put_handoff_blob_def
  put_shard_blob_def put_provenance_blob_def claim_blob_for_task_def approval_blob_for_issue_def

lemmas v1_keeps = v1c.keeps_cells scope_keeps get_blob_keeps put_blob_keeps list_issues_keeps keeps_rules

datatype v1_call =
    V1List
  | V1Surfaces
  | V1Create issue_draft
  | V1Candidates poll_context
  | V1ByIds "string list"
  | V1Claimed "string option"
  | V1Claim string string
  | V1Heartbeat claim
  | V1Release claim release_reason
  | V1Block claim release_reason
  | V1Handoff claim handoff
  | V1Requeue string release_reason
  | V1LoadApprovals string
  | V1StoreApproval approval_event
  | V1StoreConsumed approval_consumed

fun run_v1_call :: "v1_prims \<Rightarrow> 'w v1_services \<Rightarrow> v1_tracker \<Rightarrow> 'w \<times> v1_cells \<Rightarrow> v1_call \<Rightarrow> 'w \<times> v1_cells" where
  "run_v1_call P S V s V1List = snd (v1_list_issues P S V s)"
| "run_v1_call P S V s V1Surfaces = snd (v1_ensure_surfaces S V s)"
| "run_v1_call P S V s (V1Create draft) = snd (v1_create_issue P S V draft s)"
| "run_v1_call P S V s (V1Candidates ctx) = snd (v1_fetch_candidates P S V ctx s)"
| "run_v1_call P S V s (V1ByIds ids) = snd (v1_fetch_by_ids P S V ids s)"
| "run_v1_call P S V s (V1Claimed agent) = snd (v1_fetch_claimed P S V agent s)"
| "run_v1_call P S V s (V1Claim issue_id agent) = snd (v1_claim P S V issue_id agent s)"
| "run_v1_call P S V s (V1Heartbeat c) = snd (v1_heartbeat P S V c s)"
| "run_v1_call P S V s (V1Release c reason) = snd (v1_release P S V c reason s)"
| "run_v1_call P S V s (V1Block c reason) = snd (v1_block P S V c reason s)"
| "run_v1_call P S V s (V1Handoff c h) = snd (v1_handoff P S V c h s)"
| "run_v1_call P S V s (V1Requeue issue_id reason) = snd (v1_requeue_blocked P S V issue_id reason s)"
| "run_v1_call P S V s (V1LoadApprovals issue_id) = snd (v1_load_approval_state P S V issue_id s)"
| "run_v1_call P S V s (V1StoreApproval event) = snd (v1_store_approval P S V event s)"
| "run_v1_call P S V s (V1StoreConsumed event) = snd (v1_store_consumed P S V event s)"

lemma v1_call_keeps:
  "keeps (on_snd (v1_cells_le P S)) (v1_ensure_surfaces S V)" "keeps (on_snd (v1_cells_le P S)) (v1_create_issue P S V draft)"
  "keeps (on_snd (v1_cells_le P S)) (v1_fetch_candidates P S V ctx)" "keeps (on_snd (v1_cells_le P S)) (v1_fetch_by_ids P S V ids)"
  "keeps (on_snd (v1_cells_le P S)) (v1_fetch_claimed P S V agent)" "keeps (on_snd (v1_cells_le P S)) (v1_claim P S V issue_id by_agent)"
  "keeps (on_snd (v1_cells_le P S)) (v1_heartbeat P S V c)" "keeps (on_snd (v1_cells_le P S)) (v1_release P S V c reason)"
  "keeps (on_snd (v1_cells_le P S)) (v1_block P S V c reason)" "keeps (on_snd (v1_cells_le P S)) (v1_handoff P S V c h)"
  "keeps (on_snd (v1_cells_le P S)) (v1_requeue_blocked P S V issue_id reason)" "keeps (on_snd (v1_cells_le P S)) (v1_load_approval_state P S V issue_id)"
  "keeps (on_snd (v1_cells_le P S)) (v1_store_approval P S V event)" "keeps (on_snd (v1_cells_le P S)) (v1_store_consumed P S V consumed)"
  unfolding v1_op_defs by (intro v1_keeps)+

lemma run_v1_call_le: "on_snd (v1_cells_le P S) s (run_v1_call P S V s call)"
  by (cases call) (simp_all add: keeps_apply list_issues_keeps v1_call_keeps)

lemma run_v1_calls_le: "on_snd (v1_cells_le P S) s (foldl (run_v1_call P S V) s calls)"
  using state_preorder.keeps_steps [OF v1c.state] run_v1_call_le by metis

lemma v1_reachable_sound: "cache_sound P S (snd (foldl (run_v1_call P S V) (w, v1_cells_new) calls))"
  using run_v1_calls_le [of P S "(w, v1_cells_new)" V calls] by (simp add: on_snd_def v1_cells_le_def)

end
