(* ===== verification/V1_Lifecycle.thy ===== *)
theory V1_Lifecycle
  imports V1_Correct
begin

text \<open>
  What a listing shows after an operation on a claim, when the key-value store keeps what it is given. \<open>kv_keeps\<close> is
  the documented behaviour of x0xd relied on: a successful write is what a later read returns, and nothing else
  that the tracker calls changes the store.
\<close>

type_synonym 'w kv_contents = "'w \<Rightarrow> string \<times> string \<Rightarrow> bytes option"

definition same_kv :: "'w kv_contents \<Rightarrow> 'w \<Rightarrow> 'w \<Rightarrow> bool" where
  "same_kv K w w' \<longleftrightarrow> K w = K w'"

definition kv_keeps :: "'w v1_services \<Rightarrow> 'w kv_contents \<Rightarrow> bool" where
  "kv_keeps S K \<longleftrightarrow>
     (\<forall>st k v ct w w'. xd_put_kv (vs_api S) st k v ct w = (Ok (), w') \<longrightarrow> K w' = (K w)((st, k) \<mapsto> v)) \<and>
     (\<forall>st k w r w'. xd_get_kv (vs_api S) st k w = (Ok r, w') \<longrightarrow> map_option kv_value r = K w (st, k)) \<and>
     (\<forall>st k. keeps (same_kv K) (xd_get_kv (vs_api S) st k)) \<and>
     (\<forall>l. keeps (same_kv K) (xd_list_tasks (vs_api S) l)) \<and>
     (\<forall>g. keeps (same_kv K) (xd_get_named_group (vs_api S) g)) \<and>
     (\<forall>g a. keeps (same_kv K) (xd_join_group (vs_api S) g a)) \<and>
     keeps (same_kv K) (xd_list_named_groups (vs_api S)) \<and>
     (\<forall>resolver a. vs_resolver S = Some resolver \<longrightarrow> keeps (same_kv K) (resolver a)) \<and>
     (\<forall>client ctx p sig key. vs_client S = Some client \<longrightarrow> keeps (same_kv K) (sc_verify client ctx p sig key))"

definition scope_known :: "v1_tracker \<Rightarrow> v1_cells \<Rightarrow> resource_scope \<Rightarrow> bool" where
  "scope_known V c scope \<longleftrightarrow> (case xt_group V of None \<Rightarrow> scope = scope_unscoped (xt_list_id V) | Some _ \<Rightarrow> xc_resolved_scope c = Some scope)"

text \<open>The store holds the bytes at a key of the tracker's store, and the scope is settled.\<close>

definition holds :: "'w kv_contents \<Rightarrow> v1_tracker \<Rightarrow> resource_scope \<Rightarrow> string \<Rightarrow> bytes \<Rightarrow> 'w \<times> v1_cells \<Rightarrow> bool" where
  "holds K V scope key bs s \<longleftrightarrow> K (fst s) (sp_store_id scope, key) = Some bs \<and> scope_known V (snd s) scope"

lemma scope_known_result:
  assumes "v1_resource_scope S V s = (Ok scope, s')"
  shows "scope_known V (snd s') scope"
  using assms by (auto simp: v1_resource_scope_def scope_known_def io_bind_Ok_iff split: option.splits)

lemma scope_known_again: "scope_known V (snd s) scope \<Longrightarrow> v1_resource_scope S V s = (Ok scope, s)"
  by (auto simp: v1_resource_scope_def scope_known_def io_bind_def io_lift_def get_cells_def split: option.splits prod.splits)

lemma holds_world: "keeps (same_kv KV) m \<Longrightarrow> keeps (stays (holds KV V scope key bs)) (on_world g m)"
  by (auto simp: keeps_def stays_def holds_def same_kv_def on_world_def case_prod_unfold)

lemma holds_cells:
  "keeps (stays (holds KV V scope key bs)) get_cells"
  "(\<And>c. xc_resolved_scope c \<noteq> None \<Longrightarrow> xc_resolved_scope (f c) = xc_resolved_scope c) \<Longrightarrow> keeps (stays (holds KV V scope key bs)) (upd_cells f)"
  by (auto simp: keeps_def stays_def holds_def scope_known_def get_cells_def upd_cells_def case_prod_unfold split: option.splits)

lemma holds_scope: "keeps (stays (holds KV V scope key bs)) (v1_resource_scope S V)"
proof (rule keepsI)
  fix s r s'
  assume "v1_resource_scope S V s = (r, s')"
  moreover have "holds KV V scope key bs s \<Longrightarrow> v1_resource_scope S V s = (Ok scope, s)" by (simp add: holds_def scope_known_again)
  ultimately show "stays (holds KV V scope key bs) s s'" by (auto simp: stays_def)
qed

lemma holds_get_blob: "kv_keeps S KV \<Longrightarrow> keeps (stays (holds KV V scope key bs)) (get_blob S V k dec)"
  unfolding get_blob_def by (intro stay_rules holds_scope holds_world) (simp add: kv_keeps_def)

lemma keeps_case_verify_outcome [keeps_rules]:
  "keeps le m \<Longrightarrow> (\<And>r. keeps le (f r)) \<Longrightarrow> (\<And>r. keeps le (g r)) \<Longrightarrow> keeps le (case v of VoValid \<Rightarrow> m | VoInvalid r \<Rightarrow> f r | VoTransportError r \<Rightarrow> g r)"
  by (cases v) simp_all

lemmas holds_rules = stay_rules keeps_rules holds_scope holds_world holds_cells holds_get_blob

lemma holds_visible: "kv_keeps S KV \<Longrightarrow> keeps (stays (holds KV V scope key bs)) (visible_tasks S sc)"
  unfolding visible_tasks_def by (intro holds_rules) (simp add: kv_keeps_def)

lemma holds_bind_lift:
  "(\<And>x. r = Ok x \<Longrightarrow> keeps (stays J) (f x)) \<Longrightarrow> keeps (stays J) (io_bind (io_lift r) f)"
  by (cases r) (simp_all add: stay.keeps_lift)

lemma holds_envelope: "kv_keeps S KV \<Longrightarrow> keeps (stays (holds KV V scope key bs)) (v1_verify_envelope P S issue_id sg context payload)"
  unfolding v1_verify_envelope_def verify_cached_def v1_signing_resolver_def v1_signing_client_def Let_def
  by (intro holds_bind_lift holds_rules) (simp_all add: kv_keeps_def)

lemma holds_read: "kv_keeps S KV \<Longrightarrow> keeps (stays (holds KV V scope key bs)) (read_issues P S V tasks)"
proof (induction tasks)
  case (Cons task tasks)
  then show ?case
    by (simp add: claim_blob_for_task_def handoff_blob_for_task_def shard_blob_for_task_def, intro holds_rules)
qed (simp add: stay.keeps_lift)

text \<open>The claim blob that the store holds for a task is the one its issue is read with.\<close>

lemma get_blob_holds:
  assumes "get_blob S V key dec s = (Ok r, s')" and "holds KV V scope key bs s" and "kv_keeps S KV" and "dec bs = Ok b"
  shows "r = Some b"
proof -
  have scope: "v1_resource_scope S V s = (Ok scope, s)" using assms(2) by (simp add: holds_def scope_known_again)
  with assms(1) obtain x w' where x: "xd_get_kv (vs_api S) (sp_store_id scope) key (fst s) = (Ok x, w')"
    and r: "x = None \<and> r = None \<or> (\<exists>v y. x = Some v \<and> dec (kv_value v) = Ok y \<and> r = Some y)"
    by (auto simp: get_blob_def io_bind_Ok_iff on_world_iff split: option.splits)
  from x assms(3) have "map_option kv_value x = K (fst s) (sp_store_id scope, key)" if "K = KV" for K using that unfolding kv_keeps_def by blast
  with assms(2,4) r show ?thesis by (auto simp: holds_def)
qed

lemma read_issues_holds:
  assumes "read_issues P S V tasks s = (Ok is, s')" and "holds KV V scope (claim_key task_id) bs s" and "kv_keeps S KV"
    and "dec_claim_blob (vp_blobs P) bs = Ok b" and "i \<in> set is" and "iss_id i = task_id"
  shows "\<exists>task hb sb. issue_from_task (vp_blobs P) task (Some b) hb sb = Ok i"
  using assms
proof (induction tasks arbitrary: s "is")
  case (Cons task tasks)
  from Cons.prems(1) obtain cb s1 hb s2 sb s3 j js where run: "claim_blob_for_task P S V (tk_id task) s = (Ok cb, s1)"
    "handoff_blob_for_task P S V (tk_id task) s1 = (Ok hb, s2)" "shard_blob_for_task P S V (tk_id task) s2 = (Ok sb, s3)"
    "issue_from_task (vp_blobs P) task cb hb sb = Ok j" "read_issues P S V tasks s3 = (Ok js, s')" "is = j # js"
    by (auto simp: io_bind_Ok_iff)
  note h0 = Cons.prems(2) and keep = staysD [OF holds_get_blob [OF Cons.prems(3)]]
  have h3: "holds KV V scope (claim_key task_id) bs s3"
    using keep [OF run(3) [unfolded shard_blob_for_task_def]] keep [OF run(2) [unfolded handoff_blob_for_task_def]]
      keep [OF run(1) [unfolded claim_blob_for_task_def]] h0 by blast
  show ?case
  proof (cases "i = j")
    case True
    with Cons.prems(6) issue_from_task_Ok(1) [OF run(4)] have id: "tk_id task = task_id" by simp
    have "cb = Some b"
      using get_blob_holds [OF run(1) [unfolded claim_blob_for_task_def id] h0 Cons.prems(3), of b] Cons.prems(4) by (simp add: decode_claim_blob_def)
    with True run(4) show ?thesis by blast
  next
    case False
    with Cons.IH [OF run(5) h3 Cons.prems(3,4) _ Cons.prems(6)] Cons.prems(5) run(6) show ?thesis by simp
  qed
qed simp

lemma list_issues_holds:
  assumes "v1_list_issues P S V s = (Ok is, s')" and "holds KV V scope (claim_key task_id) bs s" and "kv_keeps S KV"
    and "dec_claim_blob (vp_blobs P) bs = Ok b" and "i \<in> set is" and "iss_id i = task_id"
  shows "\<exists>task hb sb i0. issue_from_task (vp_blobs P) task (Some b) hb sb = Ok i0 \<and> shown_as i0 i"
proof -
  let ?J = "holds KV V scope (claim_key task_id) bs"
  from assms(1,5) obtain sc s1 tasks s2 js s3 where run: "v1_resource_scope S V s = (Ok sc, s1)" "visible_tasks S sc s1 = (Ok (Some tasks), s2)"
    "read_issues P S V tasks s2 = (Ok js, s3)" "filter_verified_issues P S V js s3 = (Ok is, s')"
    by (auto simp: v1_list_issues_def io_bind_Ok_iff split: option.splits)
  have J2: "?J s2" using staysD [OF holds_visible [OF assms(3)] run(2) staysD [OF holds_scope run(1) assms(2)]] .
  note read = read_issues_Ok [OF run(3)]
  then have none: "iss_signature_provenance j = None" if "j \<in> set js" for j using that issue_from_task_Ok(9) by blast
  have "\<exists>j \<in> set js. shown_as j i"
  proof (cases "xt_policy V")
    case SigningDisabled
    with run(4) assms(5) show ?thesis by (auto simp: filter_verified_issues_def shown_as_def)
  next
    case SigningRequired
    with run(4) have "verify_issues P S V js s3 = (Ok is, s')" by (simp add: filter_verified_issues_def)
    from plain.verify_issues_Ok [OF this TrueI none assms(5)] show ?thesis by blast
  qed
  then obtain j where j: "j \<in> set js" "shown_as j i" ..
  then have "iss_id j = task_id" using assms(6) by (simp add: shown_as_def)
  with read_issues_holds [OF run(3) J2 assms(3,4) j(1)] j(2) show ?thesis by blast
qed

section \<open>Writes\<close>

definition claim_codec_ok :: "blob_codecs \<Rightarrow> bool" where
  "claim_codec_ok K \<longleftrightarrow> (\<forall>b bs. enc_claim_blob K b = Ok bs \<longrightarrow> dec_claim_blob K bs = Ok b)"

lemma kv_keeps_put: "kv_keeps S KV \<Longrightarrow> xd_put_kv (vs_api S) st k v ct w = (Ok (), w') \<Longrightarrow> KV w' = (KV w)((st, k) \<mapsto> v)"
  by (simp add: kv_keeps_def)

lemma put_claim_blob_holds:
  assumes "put_claim_blob P S V task_id b s = (Ok (), s')" and "kv_keeps S KV" and "claim_codec_ok (vp_blobs P)"
  shows "\<exists>scope bs. holds KV V scope (claim_key task_id) bs s' \<and> dec_claim_blob (vp_blobs P) bs = Ok b"
proof -
  from assms(1) obtain scope s1 bs where run: "v1_resource_scope S V s = (Ok scope, s1)" "enc_claim_blob (vp_blobs P) b = Ok bs"
    "xd_put_kv (vs_api S) (sp_store_id scope) (claim_key task_id) bs SYMPHONY_JSON_CONTENT_TYPE (fst s1) = (Ok (), fst s')" "snd s' = snd s1"
    by (auto simp: put_claim_blob_def put_blob_def encode_claim_blob_def io_bind_Ok_iff on_world_iff)
  note kv_keeps_put [OF assms(2) run(3)]
  then have "holds KV V scope (claim_key task_id) bs s'" using scope_known_result [OF run(1)] run(4) by (simp add: holds_def)
  with run(2) assms(3) show ?thesis unfolding claim_codec_ok_def by blast
qed

lemma shown_inactive:
  assumes "issue_from_task K task (Some b) hb sb = Ok i0" and "shown_as i0 i" and "cb_status b = BlobBlocked \<or> cb_status b = BlobReleased"
  shows "iss_claim i = None \<and> iss_state i = (if cb_status b = BlobBlocked then ''blocked'' else if iss_handoff i = None then ''todo'' else ''review'')"
proof -
  have "iss_claim i0 = None" using issue_from_task_Ok(5) [OF assms(1)] assms(3) by (auto simp: active_claim_for_issue_def)
  moreover have "iss_state i0 = (if cb_status b = BlobBlocked then ''blocked'' else if iss_handoff i0 = None then ''todo'' else ''review'')"
    using issue_from_task_Ok(6,8) [OF assms(1)] assms(3) by (cases hb) (auto simp: issue_state_for_task_eq blob_status_is_def)
  ultimately show ?thesis using assms(2) by (auto simp: shown_as_def)
qed

text \<open>After a claim blob was written, the issue is shown accordingly.\<close>

lemma inactive_blob_shown:
  assumes "put_claim_blob P S V (iss_id i) b s = (Ok (), s1)" and "kv_keeps S KV" and "claim_codec_ok (vp_blobs P)"
    and "v1_list_issues P S V s1 = (Ok is, s2)" and "i \<in> set is" and "cb_status b = BlobBlocked \<or> cb_status b = BlobReleased"
  shows "iss_claim i = None \<and> iss_state i = (if cb_status b = BlobBlocked then ''blocked'' else if iss_handoff i = None then ''todo'' else ''review'')"
proof -
  from put_claim_blob_holds [OF assms(1-3)] obtain scope bs where "holds KV V scope (claim_key (iss_id i)) bs s1" "dec_claim_blob (vp_blobs P) bs = Ok b" by blast
  from list_issues_holds [OF assms(4) this(1) assms(2) this(2) assms(5) refl] shown_inactive [OF _ _ assms(6)] show ?thesis by blast
qed

lemma rewrite_claim_Ok:
  assumes "rewrite_claim P S V c blob_at s = (Ok u, s')"
  shows "\<exists>issue_id now current s1 s2. cl_issue_id c = Some issue_id \<and> current_active_claim P S V issue_id s = (Ok current, s1) \<and> cl_by current = cl_by c \<and>
    put_claim_blob P S V issue_id (blob_at now) s2 = (Ok u, s')"
  using assms by (auto simp: rewrite_claim_def as_core_def ensure_current_claim_owner_def v1_claim_issue_id_def io_bind_Ok_iff split: if_splits)

end
