(* ===== verification/Signing_Client.thy ===== *)
theory Signing_Client
  imports Cells Dispatch_Gate
begin

text \<open>
  The signing client that the daemon uses (\<^verbatim>\<open>x0x-symphony-signing/src/lib.rs\<close>): requests to x0xd's signing endpoints,
  the checks on their answers, and the key resolver, which remembers the key of the local signer. The HTTP
  transport is the record \<open>sign_http\<close>; the remembered key is the cell.

  Lemmas: a signature comes with the requested context and scheme; the resolver knows no key but the local
  signer's.
\<close>

definition MAX_SIGNING_PAYLOAD_BYTES :: int where
  "MAX_SIGNING_PAYLOAD_BYTES = 64 * 1024"

record agent_sign_request =
  asq_context :: string
  asq_payload_b64 :: string

record agent_sign_response =
  asr_agent_id :: string
  asr_public_key_b64 :: string
  asr_signature_b64 :: string
  asr_algorithm :: string
  asr_context :: string

record agent_verify_request =
  avq_payload_b64 :: string
  avq_signature_b64 :: string
  avq_public_key_b64 :: string
  avq_context :: string
  avq_algorithm :: string

record 'w sign_http =
  post_sign :: "agent_sign_request \<Rightarrow> ('w, agent_sign_response, signing_error) io"
  post_verify :: "agent_verify_request \<Rightarrow> ('w, bool, signing_error) io"
  get_agent :: "('w, string, signing_error) io"

record trusted_local_key =
  tk_agent_id :: string
  tk_public_key :: bytes

record sign_prims =
  sp_crypto :: crypto
  sp_b64_encode :: "bytes \<Rightarrow> string"
  sp_show_error :: "signing_error \<Rightarrow> string"

type_synonym key_cell = "trusted_local_key option"

definition remember_key :: "sign_prims \<Rightarrow> string \<Rightarrow> string \<Rightarrow> ('w \<times> key_cell, unit, signing_error) io" where
  "remember_key P agent_id public_key_b64 =
     io_bind (io_lift (map_err (SeBase64 ''public_key_b64'') (b64_decode (sp_crypto P) public_key_b64))) (\<lambda>key.
     upd_cells (\<lambda>_. Some \<lparr>tk_agent_id = agent_id, tk_public_key = key\<rparr>))"

definition x0xd_sign :: "sign_prims \<Rightarrow> 'w sign_http \<Rightarrow> string \<Rightarrow> bytes \<Rightarrow> ('w \<times> key_cell, sign_response, signing_error) io" where
  "x0xd_sign P H context payload =
     (if int (length payload) > MAX_SIGNING_PAYLOAD_BYTES
      then io_lift (Err (SePayloadTooLarge (of_int MAX_SIGNING_PAYLOAD_BYTES) (of_nat (length payload))))
      else
        io_bind (on_world id (post_sign H \<lparr>asq_context = context, asq_payload_b64 = sp_b64_encode P payload\<rparr>)) (\<lambda>r.
        if asr_algorithm r \<noteq> SIGN_ALGORITHM
        then io_lift (Err (SeInvalidResponse (''algorithm '' @ asr_algorithm r @ '' did not match '' @ SIGN_ALGORITHM)))
        else if asr_context r \<noteq> context
        then io_lift (Err (SeInvalidResponse (''context '' @ asr_context r @ '' did not match '' @ context)))
        else io_bind (remember_key P (asr_agent_id r) (asr_public_key_b64 r)) (\<lambda>_.
          io_lift (Ok \<lparr>sg_agent_id = asr_agent_id r, sg_public_key_b64 = asr_public_key_b64 r, sg_signature_b64 = asr_signature_b64 r,
            sg_algorithm = asr_algorithm r, sg_context = asr_context r\<rparr>))))"

definition x0xd_verify ::
  "sign_prims \<Rightarrow> 'w sign_http \<Rightarrow> string \<Rightarrow> bytes \<Rightarrow> bytes \<Rightarrow> bytes \<Rightarrow> ('w \<times> key_cell, verify_outcome, signing_error) io" where
  "x0xd_verify P H context payload signature public_key =
     (if int (length payload) > MAX_SIGNING_PAYLOAD_BYTES
      then io_lift (Ok (VoInvalid (''payload exceeds maximum signable size of '' @ show_nat (nat MAX_SIGNING_PAYLOAD_BYTES) @ '' bytes: '' @ show_nat (length payload))))
      else
        io_bind (io_try (on_world id (post_verify H \<lparr>avq_payload_b64 = sp_b64_encode P payload, avq_signature_b64 = sp_b64_encode P signature,
            avq_public_key_b64 = sp_b64_encode P public_key, avq_context = context, avq_algorithm = SIGN_ALGORITHM\<rparr>))) (\<lambda>r. case r of
          Ok valid \<Rightarrow> io_lift (Ok (if valid then VoValid else VoInvalid ''x0xd verify endpoint returned false''))
        | Err e \<Rightarrow> if signing_error_is_transport e then io_lift (Ok (VoTransportError (sp_show_error P e))) else io_lift (Err e)))"

definition x0xd_agent_identity :: "'w sign_http \<Rightarrow> ('w \<times> key_cell, string, signing_error) io" where
  "x0xd_agent_identity H = on_world id (get_agent H)"

definition BOOTSTRAP_PAYLOAD :: bytes where
  "BOOTSTRAP_PAYLOAD = as_bytes ''x0x-symphony-key-bootstrap''"

definition bootstrap_key :: "sign_prims \<Rightarrow> 'w sign_http \<Rightarrow> ('w \<times> key_cell, unit, signing_error) io" where
  "bootstrap_key P H = io_bind (x0xd_sign P H CLAIM_CONTEXT BOOTSTRAP_PAYLOAD) (\<lambda>_. io_lift (Ok ()))"

definition cached_key :: "key_cell \<Rightarrow> string \<Rightarrow> (bytes, signing_error) result option" where
  "cached_key cell agent_id =
     (case cell of
        None \<Rightarrow> None
      | Some entry \<Rightarrow>
          Some (if tk_agent_id entry = agent_id then Ok (tk_public_key entry)
                else Err (SeUntrustedKey (''agent '' @ agent_id @ '' is not the local x0xd signer '' @ tk_agent_id entry))))"

definition x0xd_resolve :: "sign_prims \<Rightarrow> 'w sign_http \<Rightarrow> string \<Rightarrow> ('w \<times> key_cell, bytes, signing_error) io" where
  "x0xd_resolve P H agent_id =
     io_bind get_cells (\<lambda>cell. case cached_key cell agent_id of
       Some r \<Rightarrow> io_lift r
     | None \<Rightarrow>
         io_bind (bootstrap_key P H) (\<lambda>_.
         io_bind get_cells (\<lambda>cell.
         io_bind (io_lift (ok_or (cached_key cell agent_id) (SeUntrustedKey ''local x0xd signing key was not cached''))) (\<lambda>r. io_lift r))))"

text \<open>The client as the trackers and the gate see it.\<close>

definition x0xd_signing_client :: "sign_prims \<Rightarrow> 'w sign_http \<Rightarrow> ('w \<times> key_cell) signing_client" where
  "x0xd_signing_client P H = \<lparr>sc_sign = x0xd_sign P H, sc_verify = x0xd_verify P H\<rparr>"

section \<open>Lemmas\<close>

lemma x0xd_sign_Ok:
  "x0xd_sign P H context payload s = (Ok r, s') \<Longrightarrow> int (length payload) \<le> MAX_SIGNING_PAYLOAD_BYTES \<and> sg_algorithm r = SIGN_ALGORITHM \<and> sg_context r = context \<and>
     (\<exists>key. b64_decode (sp_crypto P) (sg_public_key_b64 r) = Ok key \<and> snd s' = Some \<lparr>tk_agent_id = sg_agent_id r, tk_public_key = key\<rparr>)"
  by (auto simp: x0xd_sign_def remember_key_def io_bind_Ok_iff on_world_iff split: if_splits)

text \<open>The key cell is empty or holds a key of the agent that x0xd signs as.\<close>

definition signs_as :: "'w sign_http \<Rightarrow> string \<Rightarrow> bool" where
  "signs_as H agent \<longleftrightarrow> (\<forall>q w r w'. post_sign H q w = (Ok r, w') \<longrightarrow> asr_agent_id r = agent)"

definition key_cell_of :: "string \<Rightarrow> key_cell \<Rightarrow> bool" where
  "key_cell_of agent cell \<longleftrightarrow> (\<forall>k. cell = Some k \<longrightarrow> tk_agent_id k = agent)"

definition key_cell_le :: "string \<Rightarrow> key_cell \<Rightarrow> key_cell \<Rightarrow> bool" where
  "key_cell_le agent cell cell' \<longleftrightarrow> (key_cell_of agent cell \<longrightarrow> key_cell_of agent cell')"

interpretation keyc: cell_preorder "key_cell_le agent" for agent
  by unfold_locales (auto simp: key_cell_le_def)

lemma x0xd_sign_keeps:
  assumes "signs_as H agent"
  shows "keeps (on_snd (key_cell_le agent)) (x0xd_sign P H context payload)"
proof (rule keepsI)
  fix s r s'
  assume "x0xd_sign P H context payload s = (r, s')"
  then have "snd s' = snd s \<or> (\<exists>q w a w' key. post_sign H q w = (Ok a, w') \<and> snd s' = Some \<lparr>tk_agent_id = asr_agent_id a, tk_public_key = key\<rparr>)"
    by (cases s) ((auto simp: x0xd_sign_def remember_key_def io_bind_def on_world_def upd_cells_def io_lift_def split: if_splits prod.splits result.splits), blast)
  with assms show "on_snd (key_cell_le agent) s s'" by (auto simp: on_snd_def key_cell_le_def key_cell_of_def signs_as_def) blast
qed

lemma x0xd_verify_keeps: "keeps (on_snd (key_cell_le agent)) (x0xd_verify P H context payload signature public_key)"
  unfolding x0xd_verify_def by (intro keyc.keeps_cells keeps_rules)

lemma x0xd_resolve_keeps: "signs_as H agent \<Longrightarrow> keeps (on_snd (key_cell_le agent)) (x0xd_resolve P H agent_id)"
  unfolding x0xd_resolve_def bootstrap_key_def by (intro keyc.keeps_cells keeps_rules x0xd_sign_keeps)

lemma x0xd_resolve_local:
  assumes "x0xd_resolve P H agent_id s = (Ok key, s')" and "signs_as H agent" and "key_cell_of agent (snd s)"
  shows "agent_id = agent"
proof -
  have local: "cached_key cell agent_id = Some (Ok key) \<Longrightarrow> key_cell_of agent cell \<Longrightarrow> agent_id = agent" for cell
    by (auto simp: cached_key_def key_cell_of_def split: option.splits if_splits)
  show ?thesis
  proof (cases "cached_key (snd s) agent_id")
    case (Some r)
    with assms local show ?thesis by (auto simp: x0xd_resolve_def io_bind_Ok_iff)
  next
    case None
    with assms(1) obtain r s1 where s1: "x0xd_sign P H CLAIM_CONTEXT BOOTSTRAP_PAYLOAD s = (Ok r, s1)" "cached_key (snd s1) agent_id = Some (Ok key)"
      by (auto simp: x0xd_resolve_def bootstrap_key_def io_bind_Ok_iff)
    from keepsD [OF x0xd_sign_keeps [OF assms(2)] s1(1)] assms(3) have "key_cell_of agent (snd s1)" by (simp add: on_snd_def key_cell_le_def)
    with s1(2) local show ?thesis by blast
  qed
qed

end
