(* ===== verification/Worker_View_Correct.thy ===== *)
theory Worker_View_Correct
  imports Worker_View
begin

text \<open>
  Worker discovery: what the live view contains and how its epoch moves, over every sequence of operations, and
  that the framing of the event stream does not depend on how the text is cut into chunks.
\<close>

section \<open>Framing\<close>

text \<open>The boundary is the first position at which one of the two separators begins.\<close>

lemma sse_boundary_iff:
  "sse_boundary s = Some (i, len) \<longleftrightarrow>
     (len = 4 \<and> prefix CRLF2 (drop i s) \<or> len = 2 \<and> prefix LF2 (drop i s)) \<and>
     (\<forall>j < i. \<not> prefix LF2 (drop j s) \<and> \<not> prefix CRLF2 (drop j s))"
    (is "?l \<longleftrightarrow> ?r")
proof
  assume ?l
  then show ?r
    by (auto simp: sse_boundary_def dest: str_find_SomeD str_find_first str_find_NoneD split: option.splits if_splits)
      (meson str_find_first less_trans less_le_trans not_less)+
next
  have excl: "\<not> (prefix CRLF2 (drop k s) \<and> prefix LF2 (drop k s))" for k
    by (auto simp: CRLF2_def LF2_def prefix_def)
  have pos: "prefix p (drop k s) \<Longrightarrow> p \<noteq> [] \<Longrightarrow> k \<le> length s" for p k
    by (simp add: prefix_drop_nth)
  assume r: ?r
  have lf: "str_find LF2 s = Some k \<Longrightarrow> i \<le> k" "str_find CRLF2 s = Some k \<Longrightarrow> i \<le> k" for k
    using r str_find_SomeD by (meson not_le)+
  show ?l
  proof (cases "len = 4")
    case True
    with r have "str_find CRLF2 s = Some i" by (intro str_find_SomeI pos [of CRLF2]) (auto simp: CRLF2_def)
    moreover from this excl [of i] have "str_find LF2 s \<noteq> Some i" by (auto dest: str_find_SomeD)
    ultimately show ?thesis using lf True by (fastforce simp: sse_boundary_def split: option.splits)
  next
    case False
    with r have "str_find LF2 s = Some i" by (intro str_find_SomeI pos [of LF2]) (auto simp: LF2_def)
    then show ?thesis using lf(2) False r by (fastforce simp: sse_boundary_def split: option.splits)
  qed
qed

text \<open>Text that arrives later does not move a boundary.\<close>

lemma sse_boundary_append:
  assumes "sse_boundary s = Some (i, len)"
  shows "sse_boundary (s @ t) = Some (i, len)"
proof -
  note b = assms [unfolded sse_boundary_iff]
  have len: "i + len \<le> length s" using sse_boundary_bounds [OF assms] by simp
  have "\<not> prefix LF2 (drop j (s @ t)) \<and> \<not> prefix CRLF2 (drop j (s @ t))" if "j < i" for j
  proof -
    from b have "2 \<le> len" by auto
    with len that have "\<not> prefix LF2 (drop j (s @ t))" using b by (simp add: prefix_drop_append LF2_def del: drop_append)
    moreover have "\<not> prefix CRLF2 (drop j (s @ t))"
    proof (cases "j + 4 \<le> length s")
      case True
      with b that show ?thesis by (simp add: prefix_drop_append CRLF2_def del: drop_append)
    next
      case False
      with len that b have "prefix LF2 (drop i s)" "i = Suc j" by auto
      then have "s ! Suc (Suc j) = CHR 0x0A" "Suc (Suc j) < length s" by (auto simp: prefix_drop_nth LF2_def less_Suc_eq)
      then show ?thesis by (auto simp: prefix_drop_nth CRLF2_def nth_append less_Suc_eq simp del: drop_append)
    qed
    ultimately show ?thesis ..
  qed
  moreover have "len = 4 \<and> prefix CRLF2 (drop i (s @ t)) \<or> len = 2 \<and> prefix LF2 (drop i (s @ t))"
    using b len by (auto simp: prefix_drop_append CRLF2_def LF2_def simp del: drop_append)
  ultimately show ?thesis unfolding sse_boundary_iff by blast
qed

lemma next_sse_chunk_append: "next_sse_chunk s = Some (event, rest) \<Longrightarrow> next_sse_chunk (s @ t) = Some (event, rest @ t)"
  using sse_boundary_bounds [of s] by (auto simp: next_sse_chunk_def sse_boundary_append split: option.splits)

theorem sse_events_append:
  "sse_events (s @ t) = (case sse_events s of (es, rest) \<Rightarrow> case sse_events (rest @ t) of (fs, rest') \<Rightarrow> (es @ fs, rest'))"
proof (induction s rule: sse_events.induct)
  case (1 s)
  show ?case
  proof (cases "next_sse_chunk s")
    case None
    then show ?thesis by (subst (2) sse_events.simps) (simp split: prod.splits)
  next
    case (Some p)
    obtain event rest where p: "p = (event, rest)" by force
    note next1 = Some [unfolded p]
    from 1 [OF Some p [symmetric]] show ?thesis
      by (subst sse_events.simps, subst (2) sse_events.simps) (simp add: next1 next_sse_chunk_append [OF next1] split: prod.splits)
  qed
qed

lemma process_events_append: "process_events P S (es @ fs) = io_bind (process_events P S es) (\<lambda>_. process_events P S fs)"
proof (induction es)
  case (Cons e es)
  then show ?case
    by (cases "sse_data e")
      (auto simp: io_bind_assoc intro!: io_bind_cong1 split: result.splits worker_error.splits)
qed simp

lemma consume_text:
  "consume_chunks P S buffer (map Ok cs) = process_events P S (fst (sse_events (buffer @ concat (map from_utf8_lossy cs))))" if "sse_events buffer = ([], buffer)"
  using that
proof (induction cs arbitrary: buffer)
  case (Cons c cs)
  obtain es rest where es: "sse_events (buffer @ from_utf8_lossy c) = (es, rest)" by force
  have rest: "sse_events rest = ([], rest)"
    using sse_events_append [of "buffer @ from_utf8_lossy c" "[]"] by (auto simp: es split: prod.splits)
  show ?case
    using sse_events_append [of "buffer @ from_utf8_lossy c" "concat (map from_utf8_lossy cs)"]
    by (simp add: es Cons.IH [OF rest] process_events_append case_prod_unfold)
qed simp

section \<open>The live view\<close>

text \<open>A card of a peer was live when it came, its envelope is consistent, and the signing service verified its
  signature under the key that the resolver has for its agent. The local card was signed by the service for the local agent.\<close>

definition peer_verified :: "worker_prims \<Rightarrow> 'w worker_services \<Rightarrow> worker_card \<Rightarrow> bool" where
  "peer_verified P S c \<longleftrightarrow> card_envelope_consistent (wp_card P) c \<and> (\<exists>now. card_is_expired (wp_card P) c now = Some False) \<and>
     (\<exists>sg key sig payload. wc_signature c = Some sg \<and> (\<exists>w w'. ws_resolve S (wc_agent_id c) w = (Ok key, w')) \<and>
        b64_decode (cp_crypto (wp_card P)) (sge_public_key_b64 sg) = Ok key \<and> b64_decode (cp_crypto (wp_card P)) (sge_signature_b64 sg) = Ok sig \<and>
        card_signing_payload_bytes (wp_card P) c = Ok payload \<and>
        (\<exists>w w'. sc_verify (ws_client S) WORKER_CARD_CONTEXT payload sig key w = (Ok VoValid, w')))"

definition locally_signed :: "worker_prims \<Rightarrow> 'w worker_services \<Rightarrow> worker_discovery \<Rightarrow> worker_card \<Rightarrow> bool" where
  "locally_signed P S D c \<longleftrightarrow> (\<exists>now load payload r. c = card_with_signature P (fresh_card D now load) payload r \<and>
     (\<exists>w w'. ws_now S w = (now, w')) \<and> card_signing_payload_bytes (wp_card P) (fresh_card D now load) = Ok payload \<and>
     (\<exists>w w'. sc_sign (ws_client S) WORKER_CARD_CONTEXT payload w = (Ok r, w')) \<and> sg_agent_id r = wd_agent_id D)"

definition vouched :: "worker_prims \<Rightarrow> 'w worker_services \<Rightarrow> worker_discovery \<Rightarrow> worker_card \<Rightarrow> bool" where
  "vouched P S D c \<longleftrightarrow> wc_schema_version c = WORKER_CARD_SCHEMA_VERSION \<and> (peer_verified P S c \<or> locally_signed P S D c)"

definition view_ok :: "worker_prims \<Rightarrow> 'w worker_services \<Rightarrow> worker_discovery \<Rightarrow> worker_view \<Rightarrow> bool" where
  "view_ok P S D view \<longleftrightarrow> bt_wf (wv_cards view) \<and> (\<forall>k c. bt_get (wv_cards view) k = Some c \<longrightarrow> wc_agent_id c = k \<and> vouched P S D c)"

text \<open>The epoch never goes back, and while it stays the members of the view stay, unless the counter is at its end.\<close>

definition epoch_le :: "worker_view \<Rightarrow> worker_view \<Rightarrow> bool" where
  "epoch_le v v' \<longleftrightarrow> wv_view_epoch v \<le> wv_view_epoch v' \<and>
     (wv_view_epoch v = wv_view_epoch v' \<longrightarrow> fst ` set (wv_cards v) = fst ` set (wv_cards v') \<or> wv_view_epoch v = - 1)"

text \<open>The local template is well-formed, as its constructor ensures, and its lifetime fits the range of timestamps.\<close>

definition template_ok :: "worker_prims \<Rightarrow> 'w worker_services \<Rightarrow> worker_discovery \<Rightarrow> bool" where
  "template_ok P S D \<longleftrightarrow> wc_agent_id (wd_template D) = wd_agent_id D \<and> wc_schema_version (wd_template D) = WORKER_CARD_SCHEMA_VERSION \<and>
     (\<forall>now w w' load t. ws_now S w = (now, w') \<longrightarrow> card_is_expired (wp_card P) (fresh_card D now load) t \<noteq> None)"

definition cells_le :: "worker_prims \<Rightarrow> 'w worker_services \<Rightarrow> worker_discovery \<Rightarrow> worker_cells \<Rightarrow> worker_cells \<Rightarrow> bool" where
  "cells_le P S D c c' \<longleftrightarrow> (view_ok P S D (wk_view c) \<longrightarrow> view_ok P S D (wk_view c') \<and> epoch_le (wk_view c) (wk_view c'))"

lemma epoch_le_refl [simp]: "epoch_le v v"
  by (simp add: epoch_le_def)

lemma epoch_le_trans: "epoch_le v v' \<Longrightarrow> epoch_le v' v'' \<Longrightarrow> epoch_le v v''"
  unfolding epoch_le_def by (metis order_antisym order_trans)

lemma cells_le_same_view: "wk_view c' = wk_view c \<Longrightarrow> cells_le P S D c c'"
  by (simp add: cells_le_def)

interpretation workers: cell_preorder "cells_le P S D" for P S D
  by unfold_locales (auto simp: cells_le_def intro: epoch_le_trans)

lemma bump_epoch_less: "wv_view_epoch v < wv_view_epoch (bump_epoch v) \<or> wv_view_epoch v = - 1 \<and> wv_view_epoch (bump_epoch v) = - 1"
proof -
  have max: "unat (- 1 :: u64) = 2 ^ 64 - 1" by (simp add: unsigned_minus_1_eq_mask mask_eq_exp_minus_1)
  have bump: "unat (wv_view_epoch (bump_epoch v)) = min (unat (wv_view_epoch v) + 1) (2 ^ 64 - 1)" by (simp add: bump_epoch_def unat_sat_add)
  show ?thesis
  proof (cases "unat (wv_view_epoch v) < 2 ^ 64 - 1")
    case True
    with bump show ?thesis by (simp add: word_less_nat_alt)
  next
    case False
    moreover have "unat (wv_view_epoch v) < 2 ^ 64" using unsigned_less [of "wv_view_epoch v"] by simp
    ultimately have "unat (wv_view_epoch v) = unat (- 1 :: u64)" "unat (wv_view_epoch (bump_epoch v)) = unat (- 1 :: u64)"
      using bump unfolding max by simp_all
    then show ?thesis by (auto simp only: word_unat_eq_iff)
  qed
qed

lemma wv_cards_bump [simp]: "wv_cards (bump_epoch v) = wv_cards v"
  by (simp add: bump_epoch_def)

lemma epoch_le_bump: "wv_view_epoch v' = wv_view_epoch v \<Longrightarrow> epoch_le v (bump_epoch v')"
  using bump_epoch_less [of v'] by (auto simp: epoch_le_def)

lemma view_insert_le: "epoch_le v (view_insert c v)"
proof (cases "bt_contains_key (wv_cards v) (wc_agent_id c)")
  case True
  then have "wc_agent_id c \<in> fst ` set (wv_cards v)" using bt_get_keys unfolding bt_contains_key_def by metis
  then have "fst ` set (bt_insert (wc_agent_id c) c (wv_cards v)) = fst ` set (wv_cards v)"
    using fst_bt_insert [of "wc_agent_id c" c "wv_cards v"] by (simp add: insert_absorb)
  with True show ?thesis by (simp add: view_insert_def epoch_le_def Let_def)
qed (simp add: view_insert_def Let_def epoch_le_bump)

lemma view_insert_ok: "view_ok P S D v \<Longrightarrow> vouched P S D c \<Longrightarrow> view_ok P S D (view_insert c v)"
  by (auto simp: view_ok_def view_insert_def Let_def bump_epoch_def split: if_splits)

text \<open>No card of the view makes the reaper panic.\<close>

lemma expiry_of_signature [simp]: "card_is_expired P (c\<lparr>wc_signature := sg\<rparr>) now = card_is_expired P c now"
  by (simp add: card_is_expired_def split: option.splits)

lemma card_panic_iff:
  "card_is_expired P c now = None \<longleftrightarrow> (\<exists>issued t ttl. parse_timestamp P (wc_issued_at c) = Some issued \<and> parse_timestamp P now = Some t \<and>
     chrono_from_std (cp_chrono P) (duration_from_secs (unat (wc_ttl_seconds c))) = Some ttl \<and> dt_add P issued ttl = None)"
  by (auto simp: card_is_expired_def split: option.splits)

lemma vouched_no_panic:
  assumes "template_ok P S D" and "vouched P S D c"
  shows "card_is_expired (wp_card P) c now \<noteq> None"
proof (cases "peer_verified P S c")
  case True
  then obtain t where "card_is_expired (wp_card P) c t = Some False" unfolding peer_verified_def by blast
  then show ?thesis by (auto simp: card_live_iff card_panic_iff)
next
  case False
  with assms(2) obtain issued load payload r w w' where c: "c = card_with_signature P (fresh_card D issued load) payload r" "ws_now S w = (issued, w')"
    unfolding vouched_def locally_signed_def by blast
  with assms(1) have "card_is_expired (wp_card P) (fresh_card D issued load) now \<noteq> None" unfolding template_ok_def by blast
  with c show ?thesis by (simp add: card_with_signature_def)
qed

lemma retain_live_panics: "e \<in> set m \<Longrightarrow> card_is_expired P (snd e) now = None \<Longrightarrow> fst (retain_live P now m)"
  by (induction m) (auto split: option.splits bool.splits prod.splits)

text \<open>The expiry of the local card stays in range when its lifetime, added to a reading of the clock, does.\<close>

lemma template_okI:
  assumes "wc_agent_id (wd_template D) = wd_agent_id D" and "wc_schema_version (wd_template D) = WORKER_CARD_SCHEMA_VERSION"
    and "\<And>now w w' issued ttl. ws_now S w = (now, w') \<Longrightarrow> parse_timestamp (wp_card P) now = Some issued \<Longrightarrow>
      chrono_from_std (cp_chrono (wp_card P)) (duration_from_secs (unat (wc_ttl_seconds (wd_template D)))) = Some ttl \<Longrightarrow>
      dt_add (wp_card P) issued ttl \<noteq> None"
  shows "template_ok P S D"
  using assms by (auto simp: template_ok_def card_panic_iff fresh_card_def)

lemma retain_live_spec:
  "\<forall>e \<in> set m. card_is_expired P (snd e) now \<noteq> None \<Longrightarrow>
     retain_live P now m = (False, filter (\<lambda>e. card_is_expired P (snd e) now = Some False) m)"
  by (induction m) (auto split: option.splits bool.splits)

lemma bt_wf_filter: "bt_wf m \<Longrightarrow> bt_wf (filter Q m)"
  by (induction m) (auto simp: bt_wf_Cons)

lemma reap_spec:
  assumes "template_ok P S D" and "view_ok P S D v" and "reap_expired_at (wp_card P) now v = (panicked, v')"
  shows "\<not> panicked \<and> wv_cards v' = filter (\<lambda>e. card_is_expired (wp_card P) (snd e) now = Some False) (wv_cards v) \<and>
    view_ok P S D v' \<and> epoch_le v v'"
proof -
  let ?live = "filter (\<lambda>e. card_is_expired (wp_card P) (snd e) now = Some False) (wv_cards v)"
  have get: "bt_get (wv_cards v) k = Some c" if "(k, c) \<in> set (wv_cards v)" for k c
    using bt.in_entries_iff [of "wv_cards v" k c] assms(2) that by (simp add: view_ok_def)
  then have retain: "retain_live (wp_card P) now (wv_cards v) = (False, ?live)"
    using vouched_no_panic [OF assms(1)] assms(2) unfolding view_ok_def by (intro retain_live_spec ballI) (metis prod.collapse)
  have cards: "wv_cards v' = ?live" "\<not> panicked" using assms(3) by (auto simp: reap_expired_at_def retain Let_def split: if_splits)
  have "bt_wf ?live" using assms(2) unfolding view_ok_def by (simp add: bt_wf_filter)
  moreover have "wc_agent_id c = k \<and> vouched P S D c" if "bt_get ?live k = Some c" for k c
    using bt_get_mem [OF that] get assms(2) unfolding view_ok_def by fastforce
  ultimately have "view_ok P S D v'" using cards by (simp add: view_ok_def)
  moreover have "epoch_le v v'"
  proof (cases "length ?live = length (wv_cards v)")
    case True
    then have "card_is_expired (wp_card P) (snd e) now = Some False" if "e \<in> set (wv_cards v)" for e
      using length_filter_less [OF that, of "\<lambda>e. card_is_expired (wp_card P) (snd e) now = Some False"] by auto
    then have "?live = wv_cards v" by simp
    with assms(3) show ?thesis by (auto simp: reap_expired_at_def retain Let_def epoch_le_def)
  next
    case False
    with assms(3) show ?thesis by (auto simp: reap_expired_at_def retain Let_def intro!: epoch_le_bump)
  qed
  ultimately show ?thesis using cards by blast
qed

section \<open>Operations\<close>

text \<open>What a received card does to the cells: nothing, or it enters the view and is vouched for.\<close>

lemma verify_card_signature_cells:
  assumes "verify_card_signature P S c sg s = (r, s')"
  shows "snd s' = snd s \<or> snd s' = (snd s)\<lparr>wk_view := view_insert c (wk_view (snd s))\<rparr> \<and>
    (\<exists>key sig payload. (\<exists>w w'. ws_resolve S (wc_agent_id c) w = (Ok key, w')) \<and>
        b64_decode (cp_crypto (wp_card P)) (sge_public_key_b64 sg) = Ok key \<and> b64_decode (cp_crypto (wp_card P)) (sge_signature_b64 sg) = Ok sig \<and>
        card_signing_payload_bytes (wp_card P) c = Ok payload \<and>
        (\<exists>w w'. sc_verify (ws_client S) WORKER_CARD_CONTEXT payload sig key w = (Ok VoValid, w')))"
  using assms
  by (cases s) (auto simp: verify_card_signature_def insert_verified_def io_bind_def io_try_def on_world_def get_cells_def upd_cells_def io_lift_def
      result.map_id0 split: prod.splits result.splits verify_outcome.splits if_splits)

lemma verify_and_insert_cells:
  assumes "verify_and_insert_card_at P S c now s = (r, s')"
  shows "snd s' = snd s \<or> snd s' = (snd s)\<lparr>wk_view := view_insert c (wk_view (snd s))\<rparr> \<and> vouched P S D c"
proof (cases "\<exists>sg. wc_schema_version c = WORKER_CARD_SCHEMA_VERSION \<and> card_is_expired (wp_card P) c now = Some False \<and>
    card_envelope_consistent (wp_card P) c \<and> wc_signature c = Some sg \<and> verify_card_signature P S c sg s = (r, s')")
  case True
  then obtain sg where sg: "wc_schema_version c = WORKER_CARD_SCHEMA_VERSION" "card_is_expired (wp_card P) c now = Some False"
    "card_envelope_consistent (wp_card P) c" "wc_signature c = Some sg" "verify_card_signature P S c sg s = (r, s')" by blast
  from verify_card_signature_cells [OF sg(5)] sg(1-4) show ?thesis unfolding vouched_def peer_verified_def by blast
next
  case False
  with assms show ?thesis
    by (auto simp: verify_and_insert_card_at_def split: if_splits option.splits bool.splits)
qed

lemma verify_and_insert_keeps: "keeps (on_snd (cells_le P S D)) (verify_and_insert_card_at P S c now)"
proof (rule keepsI)
  fix s r s'
  assume "verify_and_insert_card_at P S c now s = (r, s')"
  from verify_and_insert_cells [OF this, of D] show "on_snd (cells_le P S D) s s'"
    by (auto simp: on_snd_def cells_le_def view_insert_le view_insert_ok)
qed

lemma insert_local_keeps: "vouched P S D c \<Longrightarrow> keeps (on_snd (cells_le P S D)) (insert_local_card c)"
  unfolding insert_local_card_def
  by (intro workers.keeps_upd) (simp add: cells_le_def view_insert_le view_insert_ok)

lemma snapshot_keeps:
  assumes "template_ok P S D"
  shows "keeps (on_snd (cells_le P S D)) (snapshot_view P S)"
proof (rule keepsI)
  fix s r s'
  assume "snapshot_view P S s = (r, s')"
  then obtain now panicked v where "reap_expired_at (wp_card P) now (wk_view (snd s)) = (panicked, v)" "snd s' = (snd s)\<lparr>wk_view := v\<rparr>"
    by (cases s) (auto simp: snapshot_view_def io_bind_def read_world_def get_cells_def upd_cells_def io_lift_def split: prod.splits if_splits)
  with reap_spec [OF assms] show "on_snd (cells_le P S D) s s'" by (auto simp: on_snd_def cells_le_def)
qed

lemma publish_keeps:
  assumes "template_ok P S D"
  shows "keeps (on_snd (cells_le P S D)) (publish_card P S D)"
proof (rule keepsI)
  fix s r s'
  assume run: "publish_card P S D s = (r, s')"
  have "snd s' = snd s \<or> (\<exists>c. snd s' = (snd s)\<lparr>wk_view := view_insert c (wk_view (snd s))\<rparr> \<and> locally_signed P S D c)"
    using run unfolding locally_signed_def
    by (cases s) ((auto simp: publish_card_def gossip_publish_def insert_local_card_def io_bind_def io_map_err_def read_world_def on_world_def
        get_cells_def upd_cells_def io_lift_def Let_def split: prod.splits result.splits if_splits), blast)
  moreover have "vouched P S D c" if "locally_signed P S D c" for c
    using that assms by (auto simp: vouched_def locally_signed_def template_ok_def card_with_signature_def fresh_card_def)
  ultimately show "on_snd (cells_le P S D) s s'" by (auto simp: on_snd_def cells_le_def view_insert_le view_insert_ok)
qed

lemma process_sse_keeps: "keeps (on_snd (cells_le P S D)) (process_sse_data_at P S data now)"
  unfolding process_sse_data_at_def by (intro workers.keeps_cells keeps_rules verify_and_insert_keeps)

lemma log_decode_keeps: "keeps (on_snd (cells_le P S D)) (log_decode_failure S msg)"
  unfolding log_decode_failure_def by (intro workers.keeps_cells workers.keeps_upd cells_le_same_view) simp

lemma keeps_case_worker_error [keeps_rules]:
  "(\<And>m. keeps le (f m)) \<Longrightarrow> keeps le g \<Longrightarrow> keeps le (case e of WeMsg m \<Rightarrow> f m | WePanic \<Rightarrow> g)"
  by (cases e) simp_all

lemma process_events_keeps: "keeps (on_snd (cells_le P S D)) (process_events P S events)"
proof (induction events)
  case (Cons e events)
  then show ?case by (simp, intro workers.keeps_cells keeps_rules process_sse_keeps log_decode_keeps)
qed (simp add: workers.keeps_cells)

lemma consume_chunks_keeps: "keeps (on_snd (cells_le P S D)) (consume_chunks P S buffer chunks)"
proof (induction chunks arbitrary: buffer)
  case (Cons c chunks)
  then show ?case by (simp, intro workers.keeps_cells keeps_rules process_events_keeps)
qed (simp add: workers.keeps_cells)

lemma consume_iteration_keeps: "keeps (on_snd (cells_le P S D)) (consume_iteration P S sub backoff)"
  unfolding consume_iteration_def consume_event_stream_once_def
  by (intro workers.keeps_cells keeps_rules consume_chunks_keeps)

lemma subscribe_keeps: "keeps (on_snd (cells_le P S D)) (worker_subscribe S)"
  unfolding worker_subscribe_def by (intro workers.keeps_cells keeps_rules workers.keeps_upd cells_le_same_view) simp

lemma set_load_keeps: "keeps (on_snd (cells_le P S D)) (set_current_load load)"
  unfolding set_current_load_def by (intro workers.keeps_upd cells_le_same_view) simp

lemma run_iteration_keeps: "template_ok P S D \<Longrightarrow> keeps (on_snd (cells_le P S D)) (run_iteration P S D)"
  unfolding run_iteration_def by (intro workers.keeps_cells keeps_rules subscribe_keeps publish_keeps)

section \<open>Sequences of operations\<close>

datatype worker_call =
    CallSnapshot
  | CallPublish
  | CallSubscribe
  | CallSetLoad u32
  | CallConsume "string option" duration
  | CallIteration

fun run_worker_call :: "worker_prims \<Rightarrow> 'w worker_services \<Rightarrow> worker_discovery \<Rightarrow> 'w \<times> worker_cells \<Rightarrow> worker_call \<Rightarrow> 'w \<times> worker_cells" where
  "run_worker_call P S D s CallSnapshot = snd (snapshot_view P S s)"
| "run_worker_call P S D s CallPublish = snd (publish_card P S D s)"
| "run_worker_call P S D s CallSubscribe = snd (worker_subscribe S s)"
| "run_worker_call P S D s (CallSetLoad load) = snd (set_current_load load s)"
| "run_worker_call P S D s (CallConsume sub backoff) = snd (consume_iteration P S sub backoff s)"
| "run_worker_call P S D s CallIteration = snd (run_iteration P S D s)"

lemma run_worker_call_le:
  assumes "template_ok P S D"
  shows "on_snd (cells_le P S D) s (run_worker_call P S D s call)"
  by (cases call) (simp_all add: keeps_apply snapshot_keeps publish_keeps subscribe_keeps set_load_keeps consume_iteration_keeps run_iteration_keeps assms)

lemma run_worker_calls_le:
  assumes "template_ok P S D"
  shows "on_snd (cells_le P S D) s (foldl (run_worker_call P S D) s calls)"
  using state_preorder.keeps_steps [OF workers.state] run_worker_call_le [OF assms] by metis

lemma view_ok_new [simp]: "view_ok P S D (wk_view worker_cells_new)"
  by (simp add: view_ok_def worker_cells_new_def worker_view_new_def)

lemma reachable_view:
  assumes "template_ok P S D"
  shows "view_ok P S D (wk_view (snd (foldl (run_worker_call P S D) (w, worker_cells_new) calls)))"
  using run_worker_calls_le [OF assms, of "(w, worker_cells_new)" calls] by (simp add: on_snd_def cells_le_def)

end
