(* ===== verification/V1_Daemon.thy ===== *)
theory V1_Daemon
  imports V1_Correct Signing_Client Worker_View_Correct
begin

text \<open>
  The daemon's wiring (\<^verbatim>\<open>bin/x0x-symphonyd.rs\<close>, \<open>build_tracker\<close> and worker discovery): the signing client is also the key resolver of the
  v1 tracker and of the worker view. Its remembered key is a cell beside the world of the other services, which do not touch it.

  Lemmas: the resolver accepts the local signer only, so that the tracker shows no claim, handoff or provenance of a
  peer, and the worker view holds no card of a peer.
\<close>

section \<open>Services beside a cell\<close>

definition beside :: "('w, 'a, 'e) io \<Rightarrow> ('w \<times> 'c, 'a, 'e) io" where
  "beside m = on_world id m"

definition beside_clock :: "('w \<Rightarrow> 'a \<times> 'w) \<Rightarrow> 'w \<times> 'c \<Rightarrow> 'a \<times> 'w \<times> 'c" where
  "beside_clock m = (\<lambda>(w, c). case m w of (x, w') \<Rightarrow> (x, (w', c)))"

definition api_beside :: "'w x0xd_api \<Rightarrow> ('w \<times> 'c) x0xd_api" where
  "api_beside X = \<lparr>xd_list_task_lists = beside (xd_list_task_lists X), xd_create_task_list = (\<lambda>a b. beside (xd_create_task_list X a b)),
     xd_list_named_groups = beside (xd_list_named_groups X), xd_get_named_group = (\<lambda>a. beside (xd_get_named_group X a)),
     xd_join_group = (\<lambda>a b. beside (xd_join_group X a b)), xd_list_tasks = (\<lambda>a. beside (xd_list_tasks X a)),
     xd_add_task = (\<lambda>a b. beside (xd_add_task X a b)), xd_update_task = (\<lambda>a b c. beside (xd_update_task X a b c)),
     xd_list_kv_stores = beside (xd_list_kv_stores X), xd_create_kv_store = (\<lambda>a b. beside (xd_create_kv_store X a b)),
     xd_list_kv_keys = (\<lambda>a. beside (xd_list_kv_keys X a)), xd_put_kv = (\<lambda>a b c d. beside (xd_put_kv X a b c d)),
     xd_get_kv = (\<lambda>a b. beside (xd_get_kv X a b))\<rparr>"

definition daemon_v1_services ::
  "sign_prims \<Rightarrow> 'w sign_http \<Rightarrow> 'w x0xd_api \<Rightarrow> ('w, worker_view_snapshot, worker_error) io option \<Rightarrow> ('w \<Rightarrow> string \<times> 'w) \<Rightarrow>
   ('w \<times> key_cell) v1_services" where
  "daemon_v1_services Q H X view now =
     \<lparr>vs_api = api_beside X, vs_client = Some (x0xd_signing_client Q H), vs_resolver = Some (x0xd_resolve Q H),
      vs_worker_view = map_option beside view, vs_now = beside_clock now\<rparr>"

section \<open>The tracker sees own records only\<close>

definition own_key :: "'w sign_http \<Rightarrow> string \<Rightarrow> ('w \<times> key_cell) \<times> 'c \<Rightarrow> bool" where
  "own_key H agent s \<longleftrightarrow> signs_as H agent \<and> key_cell_of agent (snd (fst s))"

lemma own_key_world:
  "(signs_as H agent \<Longrightarrow> keeps (on_snd (key_cell_le agent)) m) \<Longrightarrow> keeps (stays (own_key H agent)) (on_world g m)"
  by (auto simp: keeps_def stays_def own_key_def on_world_def on_snd_def key_cell_le_def case_prod_unfold)

lemma own_key_beside: "keeps (stays (own_key H agent)) (on_world g (beside m))"
  by (rule own_key_world) (simp add: beside_def keyc.keeps_world)

lemma own_key_cells: "keeps (stays (own_key H agent)) get_cells" "keeps (stays (own_key H agent)) (upd_cells f)"
  by (auto simp: keeps_def stays_def own_key_def get_cells_def upd_cells_def case_prod_unfold)

lemma own_key_read: "keeps (stays (own_key H agent)) (read_world (beside_clock m))"
  by (auto simp: keeps_def stays_def own_key_def read_world_def beside_clock_def case_prod_unfold)

lemma keeps_case_outcome [keeps_rules]:
  "keeps le m \<Longrightarrow> (\<And>r. keeps le (f r)) \<Longrightarrow> (\<And>r. keeps le (g r)) \<Longrightarrow> keeps le (case v of VoValid \<Rightarrow> m | VoInvalid r \<Rightarrow> f r | VoTransportError r \<Rightarrow> g r)"
  by (cases v) simp_all

lemmas own_key_rules = stay_rules keeps_rules own_key_beside own_key_cells own_key_read

lemma daemon_fields:
  "vs_api (daemon_v1_services Q H X view now) = api_beside X" "vs_client (daemon_v1_services Q H X view now) = Some (x0xd_signing_client Q H)"
  "vs_resolver (daemon_v1_services Q H X view now) = Some (x0xd_resolve Q H)" "vs_now (daemon_v1_services Q H X view now) = beside_clock now"
  "xd_list_named_groups (api_beside X) = beside (xd_list_named_groups X)" "xd_get_named_group (api_beside X) a = beside (xd_get_named_group X a)"
  "xd_join_group (api_beside X) a g = beside (xd_join_group X a g)" "xd_list_tasks (api_beside X) a = beside (xd_list_tasks X a)"
  "xd_get_kv (api_beside X) a b = beside (xd_get_kv X a b)" "sc_verify (x0xd_signing_client Q H) = x0xd_verify Q H"
  by (simp_all add: daemon_v1_services_def api_beside_def x0xd_signing_client_def)

lemma own_key_scope: "keeps (stays (own_key H agent)) (v1_resource_scope (daemon_v1_services Q H X view now) V)"
  unfolding v1_resource_scope_def resolve_or_join_group_def daemon_fields by (intro own_key_rules)

lemma own_key_get_blob: "keeps (stays (own_key H agent)) (get_blob (daemon_v1_services Q H X view now) V key dec)"
  unfolding get_blob_def daemon_fields by (intro own_key_rules own_key_scope)

lemma own_key_visible: "keeps (stays (own_key H agent)) (visible_tasks (daemon_v1_services Q H X view now) scope)"
  unfolding visible_tasks_def daemon_fields by (intro own_key_rules)

lemma own_key_read_issues: "keeps (stays (own_key H agent)) (read_issues P (daemon_v1_services Q H X view now) V tasks)"
proof (induction tasks)
  case (Cons task tasks)
  then show ?case
    by (simp add: claim_blob_for_task_def handoff_blob_for_task_def shard_blob_for_task_def, intro own_key_rules own_key_get_blob)
qed (simp add: own_key_rules)

lemma own_key_envelope: "keeps (stays (own_key H agent)) (v1_verify_envelope P (daemon_v1_services Q H X view now) issue_id sg context payload)"
  unfolding v1_verify_envelope_def verify_cached_def v1_signing_resolver_def v1_signing_client_def daemon_fields ok_or.simps Let_def io_bind_lift
  by (intro own_key_rules own_key_world x0xd_resolve_keeps x0xd_verify_keeps)

lemma own_envelope:
  assumes "v1_verify_envelope P (daemon_v1_services Q H X view now) issue_id sg context payload s = (Ok u, s')" and "own_key H agent s"
  shows "sge_signer_agent_id sg = agent"
proof -
  from assms(1) obtain key w' where "x0xd_resolve Q H (sge_signer_agent_id sg) (fst s) = (Ok key, w')"
    by (auto simp: v1_verify_envelope_def io_bind_Ok_iff on_world_iff Let_def v1_signing_resolver_def daemon_fields split: if_splits)
  with x0xd_resolve_local assms(2) show ?thesis unfolding own_key_def by metis
qed

interpretation own: envelope_check P "daemon_v1_services Q H X view now" V "own_key H agent" "\<lambda>sg _ _. sge_signer_agent_id sg = agent"
  for P Q H X view now V agent
  by unfold_locales
    (auto intro: own_envelope own_key_envelope own_key_get_blob own_key_scope own_key_visible own_key_read_issues simp: provenance_blob_for_task_def)

lemma listed_own:
  assumes "v1_list_issues P (daemon_v1_services Q H X view now) V s = (Ok is, s')" and "own_key H agent s" and "xt_policy V = SigningRequired"
    and "i \<in> set is"
  shows "(\<forall>c. iss_claim i = Some c \<longrightarrow> cl_by c = agent) \<and> (\<forall>h. iss_handoff i = Some h \<longrightarrow> ho_signer_agent_id h = Some agent) \<and>
    (iss_signature_provenance i = None \<or> iss_signature_provenance i = Some (ProvVerified agent))"
proof -
  from own.listed [OF assms(1,2,4)] assms(3) have "issue_bound P (\<lambda>sg _ _. sge_signer_agent_id sg = agent) i" by blast
  then show ?thesis
    by (cases "iss_signature_provenance i") (auto simp: issue_bound_def claim_bound_def handoff_bound_def provenance_bound_def)
qed

section \<open>The worker view holds own cards only\<close>

definition daemon_worker_services ::
  "sign_prims \<Rightarrow> 'w sign_http \<Rightarrow> 'w worker_services \<Rightarrow> ('w \<times> key_cell) worker_services" where
  "daemon_worker_services Q H S =
     \<lparr>ws_client = x0xd_signing_client Q H, ws_resolve = x0xd_resolve Q H, ws_now = beside_clock (ws_now S), ws_instant = beside_clock (ws_instant S),
      ws_post_publish = (\<lambda>t p. beside (ws_post_publish S t p)), ws_post_subscribe = (\<lambda>t. beside (ws_post_subscribe S t)),
      ws_open_events = beside (ws_open_events S), ws_spawn_consumer = (\<lambda>subscription (w, k). (ws_spawn_consumer S subscription w, k)),
      ws_sleep = (\<lambda>d (w, k). (ws_sleep S d w, k))\<rparr>"

definition view_keys :: "worker_cells \<Rightarrow> string set" where
  "view_keys c = fst ` set (wv_cards (wk_view c))"

definition own_view :: "'w sign_http \<Rightarrow> string \<Rightarrow> ('w \<times> key_cell) \<times> worker_cells \<Rightarrow> bool" where
  "own_view H agent s \<longleftrightarrow> own_key H agent s \<and> view_keys (snd s) \<subseteq> {agent}"

lemma own_view_world:
  "(signs_as H agent \<Longrightarrow> keeps (on_snd (key_cell_le agent)) m) \<Longrightarrow> keeps (stays (own_view H agent)) (on_world g m)"
  by (auto simp: keeps_def stays_def own_view_def own_key_def on_world_def on_snd_def key_cell_le_def case_prod_unfold)

lemma own_view_beside: "keeps (stays (own_view H agent)) (on_world g (beside m))"
  by (rule own_view_world) (simp add: beside_def keyc.keeps_world)

lemma own_view_read: "keeps (stays (own_view H agent)) (read_world (beside_clock m))"
    "keeps (stays (own_view H agent)) (read_world (\<lambda>w. (x, case w of (w, k) \<Rightarrow> (f w, k))))"
  by (auto simp: keeps_def stays_def own_view_def own_key_def read_world_def beside_clock_def case_prod_unfold)

lemma own_view_get: "keeps (stays (own_view H agent)) get_cells"
  by (auto simp: keeps_def stays_def own_view_def own_key_def get_cells_def case_prod_unfold)

lemma own_view_upd:
  assumes "\<And>c. view_keys (f c) \<subseteq> insert agent (view_keys c)"
  shows "keeps (stays (own_view (H :: 'a sign_http) agent)) (upd_cells f)"
proof (rule keepsI)
  fix s s' :: "('a \<times> key_cell) \<times> worker_cells" and r
  assume "upd_cells f s = (r, s')"
  with assms [of "snd s"] show "stays (own_view H agent) s s'" unfolding stays_def own_view_def own_key_def by auto
qed

lemma view_insert_keys: "fst ` set (wv_cards (view_insert c v)) = insert (wc_agent_id c) (fst ` set (wv_cards v))"
  using fst_bt_insert [of "wc_agent_id c" c "wv_cards v"] by (auto simp: view_insert_def Let_def)

lemma view_keys_update [simp]:
  "view_keys (c\<lparr>wk_current_load := l\<rparr>) = view_keys c" "view_keys (c\<lparr>wk_consumer_started := b\<rparr>) = view_keys c" "view_keys (c\<lparr>wk_last_warn_at := m\<rparr>) = view_keys c"
  "view_keys (c\<lparr>wk_view := view_insert d (wk_view c)\<rparr>) = insert (wc_agent_id d) (view_keys c)"
  by (simp_all add: view_keys_def view_insert_keys)

lemmas own_view_rules = stay_rules keeps_rules own_view_beside own_view_read own_view_get own_view_upd

lemma worker_fields:
  "ws_client (daemon_worker_services Q H S) = x0xd_signing_client Q H" "ws_resolve (daemon_worker_services Q H S) = x0xd_resolve Q H"
  "ws_now (daemon_worker_services Q H S) = beside_clock (ws_now S)" "ws_instant (daemon_worker_services Q H S) = beside_clock (ws_instant S)"
  "ws_post_publish (daemon_worker_services Q H S) t p = beside (ws_post_publish S t p)"
  "ws_post_subscribe (daemon_worker_services Q H S) t = beside (ws_post_subscribe S t)"
  "ws_open_events (daemon_worker_services Q H S) = beside (ws_open_events S)"
  "ws_spawn_consumer (daemon_worker_services Q H S) sub w = (case w of (w, k) \<Rightarrow> (ws_spawn_consumer S sub w, k))"
  "ws_sleep (daemon_worker_services Q H S) d w = (case w of (w, k) \<Rightarrow> (ws_sleep S d w, k))"
  "sc_verify (x0xd_signing_client Q H) = x0xd_verify Q H" "sc_sign (x0xd_signing_client Q H) = x0xd_sign Q H"
  by (simp_all add: daemon_worker_services_def x0xd_signing_client_def)

text \<open>A card of another agent is dropped, because its key does not resolve.\<close>

lemma own_view_card: "keeps (stays (own_view H agent)) (verify_card_signature P (daemon_worker_services Q H S) c sg)"
proof (rule keepsI)
  fix s r s'
  assume run: "verify_card_signature P (daemon_worker_services Q H S) c sg s = (r, s')"
  show "stays (own_view H agent) s s'"
  proof (cases "wc_agent_id c = agent")
    case True
    then have "keeps (stays (own_view H agent)) (verify_card_signature P (daemon_worker_services Q H S) c sg)"
      unfolding verify_card_signature_def insert_verified_def worker_fields
      by (intro own_view_rules own_view_world x0xd_resolve_keeps x0xd_verify_keeps) (simp_all add: subset_insertI)
    with run show ?thesis by (rule keepsD [rotated])
  next
    case False
    obtain r1 w1 where r1: "x0xd_resolve Q H (wc_agent_id c) (fst s) = (r1, w1)" by (metis prod.collapse)
    show ?thesis unfolding stays_def
    proof
      assume own: "own_view H agent s"
      then have key: "signs_as H agent" "key_cell_of agent (snd (fst s))" by (simp_all add: own_view_def own_key_def)
      with x0xd_resolve_local [of Q H "wc_agent_id c" "fst s"] r1 False obtain e where "r1 = Err e" by (cases r1) auto
      with run r1 have s': "s' = (w1, snd s)"
        by (cases s) (simp add: verify_card_signature_def io_bind_def io_try_def on_world_def io_lift_def worker_fields)
      from keepsD [OF x0xd_resolve_keeps [OF key(1)] r1] key(2) have "key_cell_of agent (snd w1)" by (simp add: on_snd_def key_cell_le_def)
      with own s' show "own_view H agent s'" by (simp add: own_view_def own_key_def)
    qed
  qed
qed

lemma keeps_case_bool [keeps_rules]: "keeps le m \<Longrightarrow> keeps le m' \<Longrightarrow> keeps le (case b of True \<Rightarrow> m | False \<Rightarrow> m')"
  by (cases b) simp_all

lemma own_view_sse: "keeps (stays (own_view H agent)) (process_sse_data_at P (daemon_worker_services Q H S) data now)"
  unfolding process_sse_data_at_def verify_and_insert_card_at_def by (intro own_view_rules keeps_rules own_view_card)

lemma own_view_events: "keeps (stays (own_view H agent)) (process_events P (daemon_worker_services Q H S) events)"
proof (induction events)
  case (Cons e events)
  then show ?case unfolding process_events.simps log_decode_failure_def worker_fields
    by (intro own_view_rules keeps_rules own_view_sse) (simp_all add: subset_insertI)
qed (simp add: own_view_rules)

lemma own_view_chunks: "keeps (stays (own_view H agent)) (consume_chunks P (daemon_worker_services Q H S) buffer chunks)"
proof (induction chunks arbitrary: buffer)
  case (Cons c chunks)
  then show ?case unfolding consume_chunks.simps by (intro own_view_rules own_view_events)
qed (simp add: own_view_rules)

lemma retain_live_subset: "retain_live P now m = (panicked, m') \<Longrightarrow> set m' \<subseteq> set m"
  by (induction m arbitrary: panicked m') (fastforce split: option.splits bool.splits prod.splits)+

lemma reap_keys: "reap_expired_at P now v = (panicked, v') \<Longrightarrow> fst ` set (wv_cards v') \<subseteq> fst ` set (wv_cards v)"
  by (auto simp: reap_expired_at_def Let_def split: prod.splits if_splits dest!: retain_live_subset)

lemma own_view_snapshot: "keeps (stays (own_view H agent)) (snapshot_view P (daemon_worker_services Q H S))"
proof (rule keepsI)
  fix s r s'
  assume "snapshot_view P (daemon_worker_services Q H S) s = (r, s')"
  then obtain now panicked v w where "reap_expired_at (wp_card P) now (wk_view (snd s)) = (panicked, v)" "s' = ((w, snd (fst s)), (snd s)\<lparr>wk_view := v\<rparr>)"
    by (cases s) (auto simp: snapshot_view_def io_bind_def read_world_def get_cells_def upd_cells_def io_lift_def worker_fields beside_clock_def
        split: prod.splits if_splits)
  with reap_keys [of "wp_card P" now "wk_view (snd s)"] show "stays (own_view H agent) s s'"
    unfolding stays_def own_view_def own_key_def view_keys_def by (auto dest: subset_trans)
qed

lemma own_view_publish: "wc_agent_id (wd_template D) = agent \<Longrightarrow> keeps (stays (own_view H agent)) (publish_card P (daemon_worker_services Q H S) D)"
  unfolding publish_card_def gossip_publish_def insert_local_card_def worker_fields Let_def
  by (intro own_view_rules own_view_world x0xd_sign_keeps) (simp_all add: card_with_signature_def fresh_card_def)

lemma own_view_subscribe: "keeps (stays (own_view H agent)) (worker_subscribe (daemon_worker_services Q H S))"
  unfolding worker_subscribe_def worker_fields by (intro own_view_rules) (simp add: subset_insertI)

lemma own_view_call:
  assumes "wc_agent_id (wd_template D) = agent"
  shows "stays (own_view H agent) s (run_worker_call P (daemon_worker_services Q H S) D s call)"
proof -
  have consume: "keeps (stays (own_view H agent)) (consume_iteration P (daemon_worker_services Q H S) sub backoff)" for sub backoff
    unfolding consume_iteration_def consume_event_stream_once_def worker_fields by (intro own_view_rules own_view_chunks)
  have load: "keeps (stays (own_view H agent)) (set_current_load load)" for load
    unfolding set_current_load_def by (intro own_view_upd) (simp add: subset_insertI)
  have iter: "keeps (stays (own_view H agent)) (run_iteration P (daemon_worker_services Q H S) D)"
    unfolding run_iteration_def worker_fields by (intro own_view_rules own_view_subscribe own_view_publish assms)
  show ?thesis
    by (cases call) (simp_all add: keeps_apply own_view_snapshot own_view_publish [OF assms] own_view_subscribe consume load iter)
qed

lemma own_view_reachable:
  assumes "signs_as H agent" and "wc_agent_id (wd_template D) = agent"
  shows "own_view H agent (foldl (run_worker_call P (daemon_worker_services Q H S) D) ((w, None), worker_cells_new) calls)"
proof -
  have "stays (own_view H agent) ((w, None), worker_cells_new) (foldl (run_worker_call P (daemon_worker_services Q H S) D) ((w, None), worker_cells_new) calls)"
    using stay.keeps_steps own_view_call [OF assms(2)] by metis
  then show ?thesis using assms(1) by (simp add: stays_def own_view_def own_key_def key_cell_of_def view_keys_def worker_cells_new_def worker_view_new_def)
qed

end
