(* ===== verification/Crdt_Tracker.thy ===== *)
theory Crdt_Tracker
  imports V1_Daemon Tracker_Orchestration
begin

text \<open>
  The tracker the daemon builds (\<^verbatim>\<open>X0xCrdtTracker\<close> and its builder in \<^verbatim>\<open>tracker-x0x-crdt/src/lib.rs\<close>): a list reference in the v2
  namespace selects the v2 engine, every other the v1 tracker, and each operation of the interface is routed
  accordingly. The cells of both engines are side by side. The interpretation \<open>crdt\<close> of \<open>network_tracker\<close> shows that the
  orchestrator's guarantees hold on the routed tracker.
\<close>

section \<open>The builder\<close>

record crdt_builder =
  bd_list_id :: string
  bd_agent_id :: string
  bd_custom_client :: bool
  bd_policy :: signing_policy
  bd_signing_client :: bool
  bd_signing_resolver :: bool
  bd_group :: "string option"
  bd_replication_factor :: nat
  bd_v2_store_policy :: store_policy_mode
  bd_v2_settle :: duration
  bd_v2_fold_limits :: fold_limits

definition builder_new :: "string \<Rightarrow> string \<Rightarrow> crdt_builder" where
  "builder_new list_id agent_id =
     \<lparr>bd_list_id = list_id, bd_agent_id = agent_id, bd_custom_client = False, bd_policy = SigningDisabled, bd_signing_client = False,
      bd_signing_resolver = False, bd_group = None, bd_replication_factor = DEFAULT_REPLICATION_FACTOR, bd_v2_store_policy = AppendOnly,
      bd_v2_settle = duration_from_secs 2, bd_v2_fold_limits = default_fold_limits\<rparr>"

definition builder_group :: "string \<Rightarrow> crdt_builder \<Rightarrow> crdt_builder" where
  "builder_group grp B = B\<lparr>bd_group := (if trim grp = [] then None else Some grp)\<rparr>"

definition builder_replication_factor :: "nat \<Rightarrow> crdt_builder \<Rightarrow> crdt_builder" where
  "builder_replication_factor k B = B\<lparr>bd_replication_factor := max k 1\<rparr>"

definition builder_required_signing :: "crdt_builder \<Rightarrow> crdt_builder" where
  "builder_required_signing B = B\<lparr>bd_policy := SigningRequired, bd_signing_client := True, bd_signing_resolver := True\<rparr>"

definition builder_v2_store_policy :: "store_policy_mode \<Rightarrow> crdt_builder \<Rightarrow> crdt_builder" where
  "builder_v2_store_policy mode B = B\<lparr>bd_v2_store_policy := mode\<rparr>"

record crdt_tracker =
  ct_v1 :: v1_tracker
  ct_v2 :: "v2_tracker option"

definition v1_from_parts :: "crdt_builder \<Rightarrow> v1_tracker" where
  "v1_from_parts B = \<lparr>xt_list_id = bd_list_id B, xt_store_id = store_id_for_list (bd_list_id B), xt_agent_id = bd_agent_id B,
     xt_policy = bd_policy B, xt_group = bd_group B, xt_replication_factor = max (bd_replication_factor B) 1\<rparr>"

definition v2_needs_signing :: string where
  "v2_needs_signing = ''v2 lists require a signing client (set signing.policy = '' @ [CHR 0x22] @ ''required'' @ [CHR 0x22] @
     ''): every v2 mutation is an ML-DSA-signed chained event''"

text \<open>\<open>http\<close> is the outcome of constructing an HTTP client, which the builder does unless one is injected, and again for the v2 store.\<close>

definition crdt_build :: "(unit, client_error) result \<Rightarrow> crdt_builder \<Rightarrow> (crdt_tracker, v1_error) result" where
  "crdt_build http B =
     and_then (if bd_custom_client B then Ok () else map_err TeClient http) (\<lambda>_.
     and_then (if is_v2_namespace (bd_list_id B)
               then and_then (map_err (\<lambda>e. TeCore (SyValidation ''tracker.list_id'' e)) (parse_list_ref (bd_list_id B))) (\<lambda>list_ref.
                    and_then (ensure (bd_signing_client B) (TeSigning v2_needs_signing)) (\<lambda>_.
                    and_then (map_err TeClient http) (\<lambda>_.
                    Ok (Some \<lparr>vt_manager = with_limits (new_store_manager (bd_v2_store_policy B)) (bd_v2_fold_limits B), vt_list_ref = list_ref,
                          vt_agent_id = bd_agent_id B, vt_settle = bd_v2_settle B\<rparr>))))
               else Ok None) (\<lambda>v2_engine.
     Ok \<lparr>ct_v1 = v1_from_parts B, ct_v2 = v2_engine\<rparr>))"

text \<open>The daemon's use of the builder: a v2 reference needs required signing and a known store policy.\<close>

definition daemon_build_tracker ::
  "(unit, client_error) result \<Rightarrow> string \<Rightarrow> signing_policy \<Rightarrow> string option \<Rightarrow> string option \<Rightarrow> nat \<Rightarrow> string \<Rightarrow> (crdt_tracker, string) result" where
  "daemon_build_tracker http list_id policy grp v2_store_policy replication_factor agent_id =
     (let is_v2 = is_v2_namespace list_id in
      if is_v2 \<and> policy \<noteq> SigningRequired
      then Err (''tracker.list_id '' @ list_id @ '' addresses the tracker-integrity v2 namespace, which requires signing.policy = '' @ [CHR 0x22] @
        ''required'' @ [CHR 0x22] @ '' (every v2 mutation is an ML-DSA-signed chained event)'')
      else
        let b0 = builder_replication_factor replication_factor (builder_new list_id agent_id);
            b1 = (case grp of Some g \<Rightarrow> builder_group g b0 | None \<Rightarrow> b0)
        in and_then (if is_v2
             then (case v2_store_policy of
                 None \<Rightarrow> Ok (builder_v2_store_policy AppendOnly b1)
               | Some value \<Rightarrow> and_then (ok_or (policy_from_config_value value)
                   (''tracker.v2_store_policy `'' @ value @ ''` is not a known mode'')) (\<lambda>mode. Ok (builder_v2_store_policy mode b1)))
             else Ok b1) (\<lambda>b2.
           map_err (\<lambda>_. ''failed to configure x0x CRDT tracker'') (crdt_build http (if policy = SigningRequired then builder_required_signing b2 else b2))))"

section \<open>Routing\<close>

record crdt_cells =
  cc_v1 :: v1_cells
  cc_v2 :: v2_cells

definition crdt_cells_new :: crdt_cells where
  "crdt_cells_new = \<lparr>cc_v1 = v1_cells_new, cc_v2 = v2_cells_new\<rparr>"

record 'w crdt_env =
  ev_p1 :: v1_prims
  ev_s1 :: "'w v1_services"
  ev_p2 :: tracker_prims
  ev_s2 :: "'w tracker_services"

type_synonym ('w, 'a) crdt_io = "('w \<times> crdt_cells, 'a, symphony_error) io"

definition on_v1 :: "('w \<times> v1_cells, 'a, 'e) io \<Rightarrow> ('w \<times> crdt_cells, 'a, 'e) io" where
  "on_v1 m = (\<lambda>(w, c). case m (w, cc_v1 c) of (r, (w', c')) \<Rightarrow> (r, (w', c\<lparr>cc_v1 := c'\<rparr>)))"

definition on_v2 :: "('w \<times> v2_cells, 'a, 'e) io \<Rightarrow> ('w \<times> crdt_cells, 'a, 'e) io" where
  "on_v2 m = (\<lambda>(w, c). case m (w, cc_v2 c) of (r, (w', c')) \<Rightarrow> (r, (w', c\<lparr>cc_v2 := c'\<rparr>)))"

definition routed ::
  "crdt_tracker \<Rightarrow> (v2_tracker \<Rightarrow> ('w \<times> v2_cells, 'a, symphony_error) io) \<Rightarrow> (v1_tracker \<Rightarrow> ('w \<times> v1_cells, 'a, symphony_error) io) \<Rightarrow> ('w, 'a) crdt_io" where
  "routed T f g = (case ct_v2 T of Some V \<Rightarrow> on_v2 (f V) | None \<Rightarrow> on_v1 (g (ct_v1 T)))"

definition crdt_list_issues :: "'w crdt_env \<Rightarrow> crdt_tracker \<Rightarrow> ('w, issue list) crdt_io" where
  "crdt_list_issues E T = routed T (list_issues (ev_p2 E) (ev_s2 E)) (\<lambda>V. as_core (ev_p1 E) (v1_list_issues (ev_p1 E) (ev_s1 E) V))"

definition crdt_ensure_surfaces :: "'w crdt_env \<Rightarrow> crdt_tracker \<Rightarrow> ('w, unit) crdt_io" where
  "crdt_ensure_surfaces E T = routed T (ensure_surfaces (ev_p2 E) (ev_s2 E)) (\<lambda>V. as_core (ev_p1 E) (v1_ensure_surfaces (ev_s1 E) V))"

definition crdt_create_issue :: "'w crdt_env \<Rightarrow> crdt_tracker \<Rightarrow> issue_draft \<Rightarrow> ('w, issue) crdt_io" where
  "crdt_create_issue E T draft = routed T (\<lambda>V. create_issue (ev_p2 E) (ev_s2 E) V draft) (\<lambda>V. v1_create_issue (ev_p1 E) (ev_s1 E) V draft)"

definition crdt_fetch_candidates :: "'w crdt_env \<Rightarrow> crdt_tracker \<Rightarrow> poll_context \<Rightarrow> ('w, issue list) crdt_io" where
  "crdt_fetch_candidates E T ctx = routed T (\<lambda>V. fetch_candidates (ev_p2 E) (ev_s2 E) V ctx) (\<lambda>V. v1_fetch_candidates (ev_p1 E) (ev_s1 E) V ctx)"

definition crdt_fetch_by_ids :: "'w crdt_env \<Rightarrow> crdt_tracker \<Rightarrow> string list \<Rightarrow> ('w, issue list) crdt_io" where
  "crdt_fetch_by_ids E T ids = routed T (\<lambda>V. fetch_by_ids (ev_p2 E) (ev_s2 E) V ids) (\<lambda>V. v1_fetch_by_ids (ev_p1 E) (ev_s1 E) V ids)"

definition crdt_claim :: "'w crdt_env \<Rightarrow> crdt_tracker \<Rightarrow> string \<Rightarrow> string \<Rightarrow> ('w, claim) crdt_io" where
  "crdt_claim E T issue_id agent = routed T (\<lambda>V. v2_claim (ev_p2 E) (ev_s2 E) V issue_id agent) (\<lambda>V. v1_claim (ev_p1 E) (ev_s1 E) V issue_id agent)"

definition crdt_heartbeat :: "'w crdt_env \<Rightarrow> crdt_tracker \<Rightarrow> claim \<Rightarrow> ('w, unit) crdt_io" where
  "crdt_heartbeat E T c = routed T (\<lambda>V. v2_heartbeat (ev_p2 E) (ev_s2 E) V c) (\<lambda>V. v1_heartbeat (ev_p1 E) (ev_s1 E) V c)"

definition crdt_release :: "'w crdt_env \<Rightarrow> crdt_tracker \<Rightarrow> claim \<Rightarrow> release_reason \<Rightarrow> ('w, unit) crdt_io" where
  "crdt_release E T c reason = routed T (\<lambda>V. v2_release (ev_p2 E) (ev_s2 E) V c reason) (\<lambda>V. v1_release (ev_p1 E) (ev_s1 E) V c reason)"

definition crdt_handoff :: "'w crdt_env \<Rightarrow> crdt_tracker \<Rightarrow> claim \<Rightarrow> handoff \<Rightarrow> ('w, unit) crdt_io" where
  "crdt_handoff E T c h = routed T (\<lambda>V. v2_handoff (ev_p2 E) (ev_s2 E) V c h) (\<lambda>V. v1_handoff (ev_p1 E) (ev_s1 E) V c h)"

definition crdt_fetch_claimed :: "'w crdt_env \<Rightarrow> crdt_tracker \<Rightarrow> string option \<Rightarrow> ('w, issue list) crdt_io" where
  "crdt_fetch_claimed E T agent = routed T (\<lambda>V. fetch_claimed (ev_p2 E) (ev_s2 E) V agent) (\<lambda>V. v1_fetch_claimed (ev_p1 E) (ev_s1 E) V agent)"

definition crdt_block :: "'w crdt_env \<Rightarrow> crdt_tracker \<Rightarrow> claim \<Rightarrow> release_reason \<Rightarrow> ('w, unit) crdt_io" where
  "crdt_block E T c reason = routed T (\<lambda>V. v2_block (ev_p2 E) (ev_s2 E) V c reason) (\<lambda>V. v1_block (ev_p1 E) (ev_s1 E) V c reason)"

definition crdt_requeue_blocked :: "'w crdt_env \<Rightarrow> crdt_tracker \<Rightarrow> string \<Rightarrow> release_reason \<Rightarrow> ('w, unit) crdt_io" where
  "crdt_requeue_blocked E T issue_id reason =
     routed T (\<lambda>V. requeue_blocked (ev_p2 E) (ev_s2 E) V issue_id reason) (\<lambda>V. v1_requeue_blocked (ev_p1 E) (ev_s1 E) V issue_id reason)"

definition crdt_load_approval_state :: "'w crdt_env \<Rightarrow> crdt_tracker \<Rightarrow> string \<Rightarrow> ('w, approval_state) crdt_io" where
  "crdt_load_approval_state E T issue_id =
     routed T (\<lambda>V. load_approval_state (ev_p2 E) (ev_s2 E) V issue_id) (\<lambda>V. v1_load_approval_state (ev_p1 E) (ev_s1 E) V issue_id)"

definition crdt_store_approval :: "'w crdt_env \<Rightarrow> crdt_tracker \<Rightarrow> approval_event \<Rightarrow> ('w, unit) crdt_io" where
  "crdt_store_approval E T event = routed T (\<lambda>V. store_approval (ev_p2 E) (ev_s2 E) V event) (\<lambda>V. v1_store_approval (ev_p1 E) (ev_s1 E) V event)"

definition crdt_store_consumed :: "'w crdt_env \<Rightarrow> crdt_tracker \<Rightarrow> approval_consumed \<Rightarrow> ('w, unit) crdt_io" where
  "crdt_store_consumed E T event = routed T (\<lambda>V. store_consumed (ev_p2 E) (ev_s2 E) V event) (\<lambda>V. v1_store_consumed (ev_p1 E) (ev_s1 E) V event)"

section \<open>The orchestrator on the routed tracker\<close>

definition crdt_orch_services :: "'w crdt_env \<Rightarrow> crdt_tracker \<Rightarrow> ('w \<times> crdt_cells) orch_services \<Rightarrow> ('w \<times> crdt_cells) orch_services" where
  "crdt_orch_services E T base = base\<lparr>tr_fetch_candidates := crdt_fetch_candidates E T, tr_fetch_by_ids := crdt_fetch_by_ids E T,
     tr_fetch_claimed := crdt_fetch_claimed E T None, tr_claim := crdt_claim E T, tr_release := crdt_release E T, tr_handoff := crdt_handoff E T,
     tr_block := crdt_block E T, tr_load_approval_state := crdt_load_approval_state E T, tr_store_consumed := crdt_store_consumed E T\<rparr>"

lemma on_v1_Ok: "on_v1 m (w, c) = (Ok x, s') \<longleftrightarrow> (\<exists>c'. m (w, cc_v1 c) = (Ok x, (fst s', c')) \<and> snd s' = c\<lparr>cc_v1 := c'\<rparr>)"
  by (cases s') (auto simp: on_v1_def split: prod.splits)

lemma on_v2_Ok: "on_v2 m (w, c) = (Ok x, s') \<longleftrightarrow> (\<exists>c'. m (w, cc_v2 c) = (Ok x, (fst s', c')) \<and> snd s' = c\<lparr>cc_v2 := c'\<rparr>)"
  by (cases s') (auto simp: on_v2_def split: prod.splits)

lemma v1_fetch_by_ids_Ok:
  assumes "v1_fetch_by_ids P S V ids s = (Ok is, s')" and "i \<in> set is"
  shows "iss_id i \<in> set ids \<and> source_from_issue i = SrcNetworkSourced \<and> (xt_policy V = SigningDisabled \<longrightarrow> iss_signature_provenance i = None)"
proof -
  from assms obtain all s1 where "v1_list_issues P S V s = (Ok all, s1)" "i \<in> set all" "iss_id i \<in> set ids"
    by (auto simp: v1_fetch_by_ids_def as_core_def io_bind_Ok_iff)
  with v1_list_network show ?thesis by blast
qed

lemma v1_claim_names: "v1_claim P S V issue_id agent s = (Ok c, s') \<Longrightarrow> cl_issue_id c = Some issue_id \<and> cl_by c = agent"
  by (auto simp: v1_claim_def as_core_def io_bind_Ok_iff sign_claim_def claim_new_def Let_def split: if_splits)

interpretation crdt: network_tracker "crdt_orch_services E T base" for E T base
proof unfold_locales
  fix issue_id agent w c w'
  assume "tr_claim (crdt_orch_services E T base) issue_id agent w = (Ok c, w')"
  then have "crdt_claim E T issue_id agent w = (Ok c, w')" by (simp add: crdt_orch_services_def)
  then show "cl_issue_id c = Some issue_id \<and> cl_by c = agent"
    by (cases w) (auto simp: crdt_claim_def routed_def on_v1_Ok on_v2_Ok split: option.splits dest: v1_claim_names v2_claim_Ok)
next
  fix ids w "is" w' i
  assume "tr_fetch_by_ids (crdt_orch_services E T base) ids w = (Ok is, w')" and i: "i \<in> set is"
  then have run: "crdt_fetch_by_ids E T ids w = (Ok is, w')" by (simp add: crdt_orch_services_def)
  show "iss_id i \<in> set ids \<and> is_network_sourced i"
  proof (cases "ct_v2 T")
    case None
    with run obtain s s' where "v1_fetch_by_ids (ev_p1 E) (ev_s1 E) (ct_v1 T) ids s = (Ok is, s')"
      by (cases w) (auto simp: crdt_fetch_by_ids_def routed_def on_v1_Ok)
    from v1_fetch_by_ids_Ok [OF this i] show ?thesis by (simp add: is_network_sourced_def)
  next
    case (Some V)
    with run obtain s s' where "fetch_by_ids (ev_p2 E) (ev_s2 E) V ids s = (Ok is, s')"
      by (cases w) (auto simp: crdt_fetch_by_ids_def routed_def on_v2_Ok)
    from fetch_by_ids_Ok [OF this i] show ?thesis by (auto simp: projects_def is_network_sourced_def)
  qed
qed

text \<open>The namespace of the reference alone decides which engine serves the list.\<close>

lemma crdt_build_Ok:
  "crdt_build http B = Ok T \<Longrightarrow> ct_v1 T = v1_from_parts B \<and>
     (if is_v2_namespace (bd_list_id B) then \<exists>V. ct_v2 T = Some V \<and> parse_list_ref (bd_list_id B) = Ok (vt_list_ref V) \<and> bd_signing_client B
      else ct_v2 T = None)"
  by (auto simp: crdt_build_def split: if_splits)

lemma builder_list_id [simp]:
  "bd_list_id (builder_new list_id agent) = list_id" "bd_list_id (builder_replication_factor k B) = bd_list_id B"
  "bd_list_id (builder_group g B) = bd_list_id B" "bd_list_id (builder_v2_store_policy mode B) = bd_list_id B"
  "bd_list_id (builder_required_signing B) = bd_list_id B"
  by (simp_all add: builder_new_def builder_replication_factor_def builder_group_def builder_v2_store_policy_def builder_required_signing_def)

lemma builder_policy [simp]:
  "bd_policy (builder_new list_id agent) = SigningDisabled" "bd_policy (builder_replication_factor k B) = bd_policy B"
  "bd_policy (builder_group g B) = bd_policy B" "bd_policy (builder_v2_store_policy mode B) = bd_policy B"
  "bd_policy (builder_required_signing B) = SigningRequired"
  by (simp_all add: builder_new_def builder_replication_factor_def builder_group_def builder_v2_store_policy_def builder_required_signing_def)

lemma builder_agent_id [simp]:
  "bd_agent_id (builder_new list_id agent) = agent" "bd_agent_id (builder_replication_factor k B) = bd_agent_id B"
  "bd_agent_id (builder_group g B) = bd_agent_id B" "bd_agent_id (builder_v2_store_policy mode B) = bd_agent_id B"
  "bd_agent_id (builder_required_signing B) = bd_agent_id B"
  by (simp_all add: builder_new_def builder_replication_factor_def builder_group_def builder_v2_store_policy_def builder_required_signing_def)

end
