(* ===== verification/V1_Demo.thy ===== *)
theory V1_Demo
  imports V1_Lifecycle Crdt_Tracker Dispatch_Demo
begin

text \<open>
  A concrete v1 list for the instances of the properties: one task claimed by the agent \<open>me\<close>, its claim blob in a
  key-value store that keeps what it is given, a signing service that signs as \<open>me\<close> and accepts every signature,
  and a blob codec for the four blobs the runs use.
\<close>

section \<open>The store\<close>

type_synonym kv_world = "string \<times> string \<Rightarrow> bytes option"

definition kv_entry :: "string \<Rightarrow> bytes \<Rightarrow> kv_value" where
  "kv_entry k v = \<lparr>kv_key = k, kv_value = v, kv_content_type = None, kv_content_hash = None, kv_created_at = None, kv_updated_at = None\<rparr>"

definition vdemo_task :: task_entry where
  "vdemo_task = \<lparr>tk_id = ''t'', tk_title = ''title'', tk_description = ''work'', tk_state = ''claimed'', tk_assignee = None, tk_priority = 1\<rparr>"

definition vdemo_api :: "kv_world x0xd_api" where
  "vdemo_api = \<lparr>xd_list_task_lists = (\<lambda>w. (Ok [], w)), xd_create_task_list = (\<lambda>l _ w. (Ok l, w)),
     xd_list_named_groups = (\<lambda>w. (Ok [], w)), xd_get_named_group = (\<lambda>_ w. (Err (CeBase64 [] []), w)), xd_join_group = (\<lambda>_ _ w. (Err (CeBase64 [] []), w)),
     xd_list_tasks = (\<lambda>_ w. (Ok [vdemo_task], w)), xd_add_task = (\<lambda>_ _ w. (Ok ''t'', w)), xd_update_task = (\<lambda>_ _ _ w. (Ok (), w)),
     xd_list_kv_stores = (\<lambda>w. (Ok [], w)), xd_create_kv_store = (\<lambda>s _ w. (Ok s, w)), xd_list_kv_keys = (\<lambda>_ w. (Ok [], w)),
     xd_put_kv = (\<lambda>st k v _ w. (Ok (), w((st, k) \<mapsto> v))), xd_get_kv = (\<lambda>st k w. (Ok (map_option (kv_entry k) (w (st, k))), w))\<rparr>"

section \<open>Blobs\<close>

definition vdemo_env :: signature_envelope where
  "vdemo_env = \<lparr>sge_algorithm = SIGN_ALGORITHM, sge_context = CLAIM_CONTEXT, sge_public_key_b64 = [], sge_signature_b64 = [],
     sge_payload_sha256 = ''04'', sge_signer_agent_id = ''me''\<rparr>"

definition vdemo_claim :: claim where
  "vdemo_claim = (claim_new (Some ''t'') ''me'' ''n'' RoleManualM1)\<lparr>cl_signature := Some vdemo_env\<rparr>"

definition vdemo_reason :: release_reason where
  "vdemo_reason = \<lparr>rr_code = RcAwaitingApproval, rr_message = ''wait''\<rparr>"

definition vdemo_blob :: "u8 \<Rightarrow> claim_blob option" where
  "vdemo_blob n = (if n = 1 then Some (claim_blob_active vdemo_claim ''n'') else if n = 2 then Some (claim_blob_blocked vdemo_claim vdemo_reason ''n'')
     else if n = 3 then Some (claim_blob_released vdemo_claim vdemo_reason ''n'') else None)"

definition vdemo_blobs :: blob_codecs where
  "vdemo_blobs = \<lparr>
     enc_claim_blob = (\<lambda>b. case find (\<lambda>n. vdemo_blob n = Some b) [1, 2, 3] of Some n \<Rightarrow> Ok [n] | None \<Rightarrow> Err ''blob''),
     dec_claim_blob = (\<lambda>bs. case bs of [n] \<Rightarrow> ok_or (vdemo_blob n) ''blob'' | _ \<Rightarrow> Err ''blob''),
     enc_handoff_blob = (\<lambda>_. Err []), dec_handoff_blob = (\<lambda>_. Err []), enc_shard_blob = (\<lambda>_. Err []), dec_shard_blob = (\<lambda>_. Err []),
     enc_provenance_blob = (\<lambda>_. Err []), dec_provenance_blob = (\<lambda>_. Err []), enc_approval_blob = (\<lambda>_. Err []), dec_approval_blob = (\<lambda>_. Err []),
     reason_to_value = (\<lambda>_. Ok JNull)\<rparr>"

definition vdemo_card :: card_prims where
  "vdemo_card = \<lparr>cp_crypto = demo_crypto, cp_chrono = demo_chrono, dt_add = (\<lambda>t d. if t + d < 2 ^ 62 then Some (t + d) else None), enc_card = (\<lambda>_. Ok [5])\<rparr>"

definition vdemo_prims :: v1_prims where
  "vdemo_prims = \<lparr>vp_crypto = demo_crypto, vp_blobs = vdemo_blobs, vp_core = demo_core_codecs, vp_card = vdemo_card,
     vp_enc_claim = (\<lambda>_. Ok [4]), vp_enc_handoff = (\<lambda>_. Ok [6]), vp_show_http_status = (\<lambda>_. []), vp_show_signing_error = (\<lambda>_. [])\<rparr>"

section \<open>Services\<close>

definition vdemo_signing :: "'w signing_client" where
  "vdemo_signing = \<lparr>sc_sign = (\<lambda>ctx p w. (Ok \<lparr>sg_agent_id = ''me'', sg_public_key_b64 = [], sg_signature_b64 = [], sg_algorithm = SIGN_ALGORITHM, sg_context = ctx\<rparr>, w)),
     sc_verify = (\<lambda>_ _ _ _ w. (Ok VoValid, w))\<rparr>"

definition vdemo_services :: "kv_world v1_services" where
  "vdemo_services = \<lparr>vs_api = vdemo_api, vs_client = Some vdemo_signing, vs_resolver = Some (\<lambda>_ w. (Ok [], w)), vs_worker_view = None,
     vs_now = (\<lambda>w. (''n'', w))\<rparr>"

definition vdemo_tracker :: "signing_policy \<Rightarrow> v1_tracker" where
  "vdemo_tracker policy = \<lparr>xt_list_id = ''l'', xt_store_id = ''symphony-l'', xt_agent_id = ''me'', xt_policy = policy, xt_group = None,
     xt_replication_factor = 1\<rparr>"

definition vdemo_world :: "u8 \<Rightarrow> kv_world" where
  "vdemo_world n = [(''symphony-l'', ''claim-t'') \<mapsto> [n]]"

section \<open>What the operations do\<close>

lemma vdemo_kv_keeps: "kv_keeps vdemo_services (\<lambda>w. w)"
  by (simp add: kv_keeps_def vdemo_services_def vdemo_api_def vdemo_signing_def keeps_def same_kv_def kv_entry_def option.map_comp comp_def option.map_ident)

lemma vdemo_codec: "claim_codec_ok (vp_blobs vdemo_prims)"
  unfolding claim_codec_ok_def
  by (auto simp: vdemo_prims_def vdemo_blobs_def find_Some_iff split: option.splits if_splits)

text \<open>The issue as a listing shows it, by the state of its claim blob.\<close>

definition vdemo_issue :: "string \<Rightarrow> claim option \<Rightarrow> (string, json_value) btree_map \<Rightarrow> issue" where
  "vdemo_issue state c extra = \<lparr>iss_schema_version = 1, iss_id = ''t'', iss_identifier = ''t'', iss_title = ''title'', iss_description = ''work'',
     iss_priority = Some 1, iss_state = state, iss_branch_name = None, iss_url = None, iss_labels = [], iss_blocked_by = [], iss_shard = None,
     iss_claim = c, iss_handoff = None, iss_signature_provenance = None, iss_verification_notices = [],
     iss_created_at = ''1970-01-01T00:00:00Z'', iss_updated_at = ''n'', iss_extra = extra\<rparr>"

definition vdemo_extra :: "(string, json_value) btree_map" where
  "vdemo_extra = [(''issue_source'', JString ''network_sourced''), (''x0x_task_state'', JString ''claimed'')]"

lemma vdemo_blob_codec:
  "enc_claim_blob vdemo_blobs (claim_blob_active vdemo_claim ''n'') = Ok [1]"
  "enc_claim_blob vdemo_blobs (claim_blob_blocked vdemo_claim vdemo_reason ''n'') = Ok [2]"
  "enc_claim_blob vdemo_blobs (claim_blob_released vdemo_claim vdemo_reason ''n'') = Ok [3]"
  "dec_claim_blob vdemo_blobs [1] = Ok (claim_blob_active vdemo_claim ''n'')"
  "dec_claim_blob vdemo_blobs [2] = Ok (claim_blob_blocked vdemo_claim vdemo_reason ''n'')"
  "dec_claim_blob vdemo_blobs [3] = Ok (claim_blob_released vdemo_claim vdemo_reason ''n'')"
  by (simp_all add: vdemo_blobs_def vdemo_blob_def claim_blob_active_def claim_blob_blocked_def claim_blob_released_def claim_blob_new_def)

lemma vdemo_mapped:
  "issue_from_task vdemo_blobs vdemo_task (Some (claim_blob_active vdemo_claim ''n'')) None None = Ok (vdemo_issue ''in_progress'' (Some vdemo_claim) vdemo_extra)"
  "issue_from_task vdemo_blobs vdemo_task (Some (claim_blob_blocked vdemo_claim vdemo_reason ''n'')) None None =
     Ok (vdemo_issue ''blocked'' None ((''blocked_reason'', JNull) # vdemo_extra))"
  "issue_from_task vdemo_blobs vdemo_task (Some (claim_blob_released vdemo_claim vdemo_reason ''n'')) None None = Ok (vdemo_issue ''todo'' None vdemo_extra)"
  by code_simp+

lemma vdemo_scope [simp]: "v1_resource_scope S (vdemo_tracker p) = io_lift (Ok (scope_unscoped ''l''))"
  by (simp add: v1_resource_scope_def vdemo_tracker_def)

lemma vdemo_store_id [simp]: "sp_store_id (scope_unscoped ''l'') = ''symphony-l''"
  by (simp add: scope_unscoped_def store_id_for_list_def)

lemma vdemo_get [simp]:
  "get_blob vdemo_services (vdemo_tracker p) key dec (w, c) =
     (case w (''symphony-l'', key) of None \<Rightarrow> (Ok None, (w, c)) | Some v \<Rightarrow> (case dec v of Ok b \<Rightarrow> Ok (Some b) | Err e \<Rightarrow> Err (TeMapping e), (w, c)))"
  by (simp add: get_blob_def io_bind_def io_lift_def on_world_def vdemo_services_def vdemo_api_def kv_entry_def split: option.splits result.splits)

lemma vdemo_visible [simp]: "visible_tasks vdemo_services scope (w, c) = (Ok (Some [vdemo_task]), (w, c))"
  by (simp add: visible_tasks_def io_bind_def io_lift_def io_try_def on_world_def vdemo_services_def vdemo_api_def)

lemma vdemo_keys:
  "claim_key ''t'' = ''claim-t''" "v1_handoff_key ''t'' = ''handoff-t''" "shard_key ''t'' = ''shard-t''" "provenance_key ''t'' = ''provenance-t''"
  by (simp_all add: claim_key_def v1_handoff_key_def shard_key_def provenance_key_def)

lemma vdemo_tracker_policy: "xt_policy (vdemo_tracker p) = p" by (simp add: vdemo_tracker_def)

lemma vdemo_put [simp]:
  "put_blob vdemo_services (vdemo_tracker p) key (Ok bs) (w, c) = (Ok (), (w((''symphony-l'', key) \<mapsto> bs), c))"
  by (simp add: put_blob_def io_bind_def io_lift_def on_world_def vdemo_services_def vdemo_api_def)

text \<open>The verification of the claim: the cells change only in the cache, which may hold the outcome already.\<close>

definition vdemo_cached :: "v1_cells \<Rightarrow> bool" where
  "vdemo_cached c \<longleftrightarrow> xc_verify_cache c (v1_cache_key ''t'' vdemo_env CLAIM_CONTEXT ''04'') \<in> {None, Some VoValid}"

lemma vdemo_verify_claim:
  assumes "vdemo_cached c"
  shows "\<exists>c'. verify_claim vdemo_prims vdemo_services (vdemo_issue state (Some vdemo_claim) extra) vdemo_claim (w, c) = (Ok (), (w, c')) \<and> vdemo_cached c'"
proof -
  have digest: "sha256_hex demo_crypto [4] = ''04''" by code_simp
  have decode: "b64_decode demo_crypto x = Ok []" for x by (simp add: demo_crypto_def)
  have "\<exists>c'. v1_verify_envelope vdemo_prims vdemo_services ''t'' vdemo_env CLAIM_CONTEXT [4] (w, c) = (Ok (), (w, c')) \<and> vdemo_cached c'"
    using assms
    by (auto simp: v1_verify_envelope_def verify_cached_def Let_def vdemo_prims_def digest io_bind_def io_lift_def get_cells_def upd_cells_def on_world_def
        v1_signing_resolver_def v1_signing_client_def vdemo_services_def vdemo_signing_def vdemo_env_def decode v1_cache_key_def vdemo_cached_def)
  then show ?thesis
    by (simp add: verify_claim_def vdemo_issue_def vdemo_claim_def claim_new_def io_bind_def io_lift_def claim_signing_payload_bytes_def vdemo_prims_def)
      (simp add: vdemo_env_def)
qed

definition vdemo_holds :: "u8 \<Rightarrow> kv_world \<Rightarrow> bool" where
  "vdemo_holds n w \<longleftrightarrow> w (''symphony-l'', ''claim-t'') = Some [n] \<and> (\<forall>k. k \<noteq> ''claim-t'' \<longrightarrow> w (''symphony-l'', k) = None)"

lemma vdemo_holds_world [simp]: "vdemo_holds n (vdemo_world n)" "vdemo_holds n (w((''symphony-l'', ''claim-t'') \<mapsto> [n])) \<longleftrightarrow> (\<forall>k. k \<noteq> ''claim-t'' \<longrightarrow> w (''symphony-l'', k) = None)"
  by (simp_all add: vdemo_holds_def vdemo_world_def)

lemma vdemo_read:
  assumes "vdemo_holds n w" and "vdemo_blob n = Some b" and "issue_from_task vdemo_blobs vdemo_task (Some b) None None = Ok i"
  shows "read_issues vdemo_prims vdemo_services (vdemo_tracker p) [vdemo_task] (w, c) = (Ok [i], (w, c))"
proof -
  have "dec_claim_blob (vp_blobs vdemo_prims) [n] = Ok b" using assms(2) by (simp add: vdemo_prims_def vdemo_blobs_def)
  then have "claim_blob_for_task vdemo_prims vdemo_services (vdemo_tracker p) ''t'' (w, c) = (Ok (Some b), (w, c))"
    using assms(1) by (simp add: claim_blob_for_task_def vdemo_keys vdemo_holds_def decode_claim_blob_def)
  moreover have "handoff_blob_for_task vdemo_prims vdemo_services (vdemo_tracker p) ''t'' (w, c) = (Ok None, (w, c))"
      "shard_blob_for_task vdemo_prims vdemo_services (vdemo_tracker p) ''t'' (w, c) = (Ok None, (w, c))"
    using assms(1) by (simp_all add: handoff_blob_for_task_def shard_blob_for_task_def vdemo_keys vdemo_holds_def)
  moreover have "tk_id vdemo_task = ''t''" "vp_blobs vdemo_prims = vdemo_blobs" by (simp_all add: vdemo_task_def vdemo_prims_def)
  ultimately show ?thesis using assms(3) by (simp add: io_bind_def io_lift_def)
qed

lemma vdemo_provenance: "vdemo_holds n w \<Longrightarrow> iss_id i = ''t'' \<Longrightarrow> check_provenance vdemo_prims vdemo_services (vdemo_tracker p) i (w, c) = (Ok i, (w, c))"
  by (simp add: check_provenance_def verify_issue_provenance_def provenance_blob_for_task_def vdemo_keys vdemo_holds_def io_bind_def io_try_def io_lift_def)

lemma vdemo_verified:
  assumes "vdemo_holds n w" and "vdemo_cached c" and "cl = None \<or> cl = Some vdemo_claim"
  shows "\<exists>c'. verify_issues vdemo_prims vdemo_services (vdemo_tracker p) [vdemo_issue state cl extra] (w, c) =
    (Ok [vdemo_issue state cl extra], (w, c')) \<and> vdemo_cached c'"
proof -
  have "\<exists>c'. check_claim vdemo_prims vdemo_services (vdemo_issue state cl extra) (w, c) = (Ok (vdemo_issue state cl extra), (w, c')) \<and> vdemo_cached c'"
    using assms(3) vdemo_verify_claim [OF assms(2), of state extra w] assms(2)
    by (auto simp: check_claim_def vdemo_issue_def io_bind_def io_try_def io_lift_def)
  moreover have "check_handoff vdemo_prims vdemo_services (vdemo_issue state cl extra) s = (Ok True, s)" for s
    by (simp add: check_handoff_def vdemo_issue_def io_lift_def)
  moreover have "check_provenance vdemo_prims vdemo_services (vdemo_tracker p) (vdemo_issue state cl extra) (w, c') = (Ok (vdemo_issue state cl extra), (w, c'))" for c'
    by (rule vdemo_provenance [OF assms(1)]) (simp add: vdemo_issue_def)
  ultimately show ?thesis by (auto simp: io_bind_def io_lift_def)
qed

text \<open>What a listing shows by the state of the claim blob.\<close>

lemma vdemo_list:
  assumes "vdemo_holds n w" and "vdemo_cached c" and "vdemo_blob n = Some b" and "cl = None \<or> cl = Some vdemo_claim"
    and "issue_from_task vdemo_blobs vdemo_task (Some b) None None = Ok (vdemo_issue state cl extra)"
  shows "\<exists>c'. v1_list_issues vdemo_prims vdemo_services (vdemo_tracker SigningRequired) (w, c) = (Ok [vdemo_issue state cl extra], (w, c')) \<and> vdemo_cached c'"
  using vdemo_read [OF assms(1,3,5), of SigningRequired c] vdemo_verified [OF assms(1,2,4), of SigningRequired state extra]
  by (auto simp: v1_list_issues_def io_bind_def io_lift_def filter_verified_issues_def vdemo_tracker_policy)


lemma vdemo_now [simp]: "v1_now_utc vdemo_services s = (Ok ''n'', s)"
  by (cases s) (simp add: v1_now_utc_def read_world_def vdemo_services_def)

lemma vdemo_put_claim:
  assumes "enc_claim_blob vdemo_blobs b = Ok bs"
  shows "put_claim_blob vdemo_prims vdemo_services (vdemo_tracker p) ''t'' b (w, c) = (Ok (), (w((''symphony-l'', ''claim-t'') \<mapsto> bs), c))"
  using assms by (simp add: put_claim_blob_def vdemo_prims_def encode_claim_blob_def vdemo_keys)

lemma vdemo_claim_blob:
  assumes "vdemo_holds n w" and "vdemo_blob n = Some b"
  shows "claim_blob_for_task vdemo_prims vdemo_services (vdemo_tracker p) ''t'' (w, c) = (Ok (Some b), (w, c))"
  using assms by (simp add: claim_blob_for_task_def vdemo_keys vdemo_holds_def decode_claim_blob_def vdemo_prims_def vdemo_blobs_def)

lemma vdemo_blobs_held:
  "vdemo_blob 1 = Some (claim_blob_active vdemo_claim ''n'')" "vdemo_blob 2 = Some (claim_blob_blocked vdemo_claim vdemo_reason ''n'')"
  "vdemo_blob 3 = Some (claim_blob_released vdemo_claim vdemo_reason ''n'')"
  by (simp_all add: vdemo_blob_def)

lemma vdemo_others: "k \<noteq> ''claim-t'' \<Longrightarrow> vdemo_world n (''symphony-l'', k) = None"
  by (simp add: vdemo_world_def)

lemma vdemo_cached_new [simp]: "vdemo_cached v1_cells_new"
  by (simp add: vdemo_cached_def v1_cells_new_def)

lemmas vdemo_lists = vdemo_list [OF _ _ vdemo_blobs_held(1) disjI2 [OF refl] vdemo_mapped(1)]
  vdemo_list [OF _ _ vdemo_blobs_held(2) disjI1 [OF refl] vdemo_mapped(2)] vdemo_list [OF _ _ vdemo_blobs_held(3) disjI1 [OF refl] vdemo_mapped(3)]

text \<open>A claim, the block of a claim and the requeue of an issue.\<close>

lemma vdemo_claims:
  "\<exists>s'. v1_claim vdemo_prims vdemo_services (vdemo_tracker SigningRequired) ''t'' ''me'' (vdemo_world 3, v1_cells_new) = (Ok vdemo_claim, s')"
proof -
  let ?V = "vdemo_tracker SigningRequired" and ?i = "vdemo_issue ''todo'' None vdemo_extra"
  have digest: "sha256_hex demo_crypto [4] = ''04''" by code_simp
  obtain c where "v1_list_issues vdemo_prims vdemo_services ?V (vdemo_world 3, v1_cells_new) = (Ok [?i], (vdemo_world 3, c))"
    using vdemo_lists(3) [of "vdemo_world 3" v1_cells_new] by auto
  then have f: "fetch_issue vdemo_prims vdemo_services ?V ''t'' (vdemo_world 3, v1_cells_new) = (Ok ?i, (vdemo_world 3, c))"
    by (simp add: fetch_issue_def io_bind_def io_lift_def) (simp add: vdemo_issue_def)
  have "ensure_issue_claimable ?i ''t'' = Ok ()" "ensure_agent_matches ?V ''t'' ''me'' = Ok ()"
    by (simp_all add: ensure_issue_claimable_def vdemo_issue_def ensure_agent_matches_def vdemo_tracker_def)
  moreover have "sign_claim vdemo_prims vdemo_services (claim_new (Some ''t'') ''me'' ''n'' RoleManualM1) s = (Ok vdemo_claim, s)" for s
    by (cases s) (simp add: sign_claim_def sign_payload_def io_bind_def io_lift_def on_world_def vdemo_prims_def vdemo_services_def vdemo_signing_def
        claim_signing_payload_bytes_def envelope_from_sign_response_def v1_signing_client_def digest claim_new_def vdemo_claim_def vdemo_env_def)
  moreover have "v1_update_task vdemo_services ?V ''t'' ActClaim (w, c) = (Ok (), (w, c))" for w c
    by (simp add: v1_update_task_def io_bind_def io_lift_def on_world_def vdemo_services_def vdemo_api_def)
  ultimately show ?thesis
    using f by (simp add: v1_claim_def as_core_def io_map_err_def io_bind_def io_lift_def Let_def vdemo_tracker_policy vdemo_put_claim vdemo_blob_codec)
qed

lemma vdemo_blocks:
  "v1_block vdemo_prims vdemo_services (vdemo_tracker p) vdemo_claim vdemo_reason (vdemo_world 1, c) =
     (Ok (), ((vdemo_world 1)((''symphony-l'', ''claim-t'') \<mapsto> [2]), c))"
proof -
  have "cb_status (claim_blob_active vdemo_claim ''n'') = BlobActive" "cb_claim (claim_blob_active vdemo_claim ''n'') = vdemo_claim"
    "cl_issue_id vdemo_claim = Some ''t''"
    by (simp_all add: claim_blob_active_def claim_blob_new_def vdemo_claim_def claim_new_def)
  then show ?thesis
    by (simp add: v1_block_def rewrite_claim_def as_core_def io_map_err_def io_bind_def io_lift_def ensure_current_claim_owner_def current_active_claim_def
        v1_claim_issue_id_def vdemo_claim_blob [OF _ vdemo_blobs_held(1)] vdemo_put_claim vdemo_blob_codec)
qed

lemma vdemo_requeues:
  "v1_requeue_blocked vdemo_prims vdemo_services (vdemo_tracker p) ''t'' vdemo_reason (vdemo_world 2, c) =
     (Ok (), ((vdemo_world 2)((''symphony-l'', ''claim-t'') \<mapsto> [3]), c))"
proof -
  let ?b = "claim_blob_blocked vdemo_claim vdemo_reason ''n''"
  have "cb_status ?b = BlobBlocked" "cb_claim ?b = vdemo_claim" "map_option rr_code (cb_release_reason ?b) = Some RcAwaitingApproval"
    by (simp_all add: claim_blob_blocked_def claim_blob_new_def vdemo_reason_def)
  then show ?thesis
    by (simp add: v1_requeue_blocked_def as_core_def io_map_err_def io_bind_def io_lift_def vdemo_claim_blob [OF _ vdemo_blobs_held(2)]
        vdemo_put_claim vdemo_blob_codec)
qed

end
