(* ===== verification/V1_Properties.thy ===== *)
theory V1_Properties
  imports V1_Demo Tracker_Demo
begin

text \<open>
  The properties of the v1 tracker, alone, under the orchestrator and as the daemon wires it, each with an instance on
  the list of \<open>V1_Demo\<close>.
\<close>

section \<open>Listings\<close>

text \<open>
  C24: What a v1 list shows was verified: after any sequence of tracker calls, whatever they returned, an issue of a
  listing is marked as network-sourced, and when signing is required every claim, handoff and provenance it
  carries is bound to this issue and to its signer by an envelope of the right scheme and context over its
  payload, whose key was resolved for the signer and whose signature the signing service verified.
\<close>

theorem v1_listing_attested:
  assumes "v1_list_issues P S V (foldl (run_v1_call P S V) (w, v1_cells_new) calls) = (Ok is, s')" and "i \<in> set is"
  shows "is_network_sourced i \<and> (xt_policy V = SigningRequired \<longrightarrow> issue_bound P (envelope_attested P S) i)"
  using v1_list_issues_mem [OF assms(1) v1_reachable_sound assms(2)] by (simp add: v1_listed_def is_network_sourced_def)

theorem v1_listing_attested_witness:
  "envelope_attested vdemo_prims vdemo_services vdemo_env CLAIM_CONTEXT [4]"
proof -
  let ?V = "vdemo_tracker SigningRequired" and ?s = "foldl (run_v1_call vdemo_prims vdemo_services (vdemo_tracker SigningRequired)) (vdemo_world 1, v1_cells_new) [V1List]"
  obtain c where c: "?s = (vdemo_world 1, c)" "vdemo_cached c" using vdemo_lists(1) [of "vdemo_world 1" v1_cells_new] by auto
  obtain s' where "v1_list_issues vdemo_prims vdemo_services ?V ?s = (Ok [vdemo_issue ''in_progress'' (Some vdemo_claim) vdemo_extra], s')"
    unfolding c(1) using vdemo_lists(1) [OF _ c(2), of "vdemo_world 1"] by auto
  from v1_listing_attested [OF this] show ?thesis
    by (auto simp: vdemo_tracker_def issue_bound_def claim_bound_def vdemo_issue_def vdemo_claim_def vdemo_prims_def claim_signing_payload_bytes_def)
qed

section \<open>Claims\<close>

text \<open>
  C26: A claim is made only by the local agent on an open issue: when the tracker returns a claim, a listing just before
  showed the issue in state todo without an active claim, the claim names issue and agent, it is signed by the
  agent when signing is required, the task was claimed at x0xd, and the store holds the active claim blob.
\<close>

theorem v1_claim_sound:
  assumes "v1_claim P S V issue_id agent s = (Ok c, s')"
  shows "agent = xt_agent_id V \<and> cl_issue_id c = Some issue_id \<and> cl_by c = agent \<and>
    (\<exists>is s1 i. v1_list_issues P S V s = (Ok is, s1) \<and> i \<in> set is \<and> iss_id i = issue_id \<and> iss_claim i = None \<and> iss_state i = ''todo'') \<and>
    (xt_policy V = SigningRequired \<longrightarrow> (\<exists>sg. cl_signature c = Some sg \<and> sge_signer_agent_id sg = agent \<and> sge_context sg = CLAIM_CONTEXT)) \<and>
    (\<exists>s2 s3 now s4. v1_update_task S V issue_id ActClaim s2 = (Ok (), s3) \<and> put_claim_blob P S V issue_id (claim_blob_active c now) s4 = (Ok (), s'))"
proof -
  from assms obtain i s1 at_ts s2 fresh s3 s4 now s5 where run: "ensure_agent_matches V issue_id agent = Ok ()"
    "fetch_issue P S V issue_id s = (Ok i, s1)" "ensure_issue_claimable i issue_id = Ok ()"
    and fresh: "fresh = claim_new (Some issue_id) agent at_ts RoleManualM1"
    and sign: "(if xt_policy V = SigningDisabled then io_lift (Ok fresh) else sign_claim P S fresh) s2 = (Ok c, s3)"
    and stored: "v1_update_task S V issue_id ActClaim s3 = (Ok (), s4)" "put_claim_blob P S V issue_id (claim_blob_active c now) s5 = (Ok (), s')"
    by (auto simp: v1_claim_def as_core_def io_bind_Ok_iff Let_def)
  from run(2) obtain "is" where "v1_list_issues P S V s = (Ok is, s1)" "find (\<lambda>i. iss_id i = issue_id) is = Some i"
    by (auto simp: fetch_issue_def io_bind_Ok_iff split: option.splits)
  then have "\<exists>is. v1_list_issues P S V s = (Ok is, s1) \<and> i \<in> set is \<and> iss_id i = issue_id" by (auto simp: find_Some_iff)
  moreover have "agent = xt_agent_id V" "iss_claim i = None" "iss_state i = ''todo''"
    using run(1,3) by (auto simp: ensure_agent_matches_def ensure_issue_claimable_def split: if_splits)
  moreover have "xt_policy V = SigningRequired \<Longrightarrow> \<exists>sg. cl_signature c = Some sg \<and> sge_signer_agent_id sg = agent \<and> sge_context sg = CLAIM_CONTEXT"
    using sign fresh
    by (auto simp: sign_claim_def sign_payload_def io_bind_Ok_iff envelope_from_sign_response_def claim_new_def Let_def split: if_splits)
  ultimately show ?thesis using v1_claim_names [OF assms] stored by blast
qed

theorem v1_claim_sound_witness:
  "\<exists>is s1 i. v1_list_issues vdemo_prims vdemo_services (vdemo_tracker SigningRequired) (vdemo_world 3, v1_cells_new) = (Ok is, s1) \<and> i \<in> set is \<and>
     iss_id i = ''t'' \<and> iss_claim i = None \<and> iss_state i = ''todo''"
proof -
  obtain s' where "v1_claim vdemo_prims vdemo_services (vdemo_tracker SigningRequired) ''t'' ''me'' (vdemo_world 3, v1_cells_new) = (Ok vdemo_claim, s')"
    using vdemo_claims ..
  from v1_claim_sound [OF this] show ?thesis by blast
qed

section \<open>What an operation on a claim changes\<close>

text \<open>
  Blocking and releasing take effect: when the tracker acknowledges the block (or the release) of a claim, the
  stored active claim was one of the same agent, and every later listing over a store that keeps what it is
  given shows the issue without a claim, as blocked (or as todo, or review when there is a handoff).
\<close>

theorem v1_block_release_shown:
  assumes "(if blocking then v1_block P S V c reason s else v1_release P S V c reason s) = (Ok (), s1)" and "kv_keeps S KV" and "claim_codec_ok (vp_blobs P)"
    and "v1_list_issues P S V s1 = (Ok is, s2)" and "i \<in> set is" and "cl_issue_id c = Some (iss_id i)"
  shows "(\<exists>current s0. current_active_claim P S V (iss_id i) s = (Ok current, s0) \<and> cl_by current = cl_by c) \<and>
    iss_claim i = None \<and> iss_state i = (if blocking then ''blocked'' else if iss_handoff i = None then ''todo'' else ''review'')"
proof -
  define blob where "blob = (\<lambda>now. if blocking then claim_blob_blocked c reason now else claim_blob_released c reason now)"
  have "rewrite_claim P S V c blob s = (Ok (), s1)"
    using assms(1) by (cases blocking) (simp_all add: v1_block_def v1_release_def blob_def)
  from rewrite_claim_Ok [OF this] assms(6) obtain now current s0 s3 where cur: "current_active_claim P S V (iss_id i) s = (Ok current, s0)"
    "cl_by current = cl_by c" and put: "put_claim_blob P S V (iss_id i) (blob now) s3 = (Ok (), s1)" by auto
  have "cb_status (blob now) = (if blocking then BlobBlocked else BlobReleased)"
    by (simp add: blob_def claim_blob_blocked_def claim_blob_released_def claim_blob_new_def)
  with inactive_blob_shown [OF put assms(2-5)] cur show ?thesis by (cases blocking) auto
qed

theorem v1_block_release_shown_witness:
  "\<exists>i s1 s2. v1_block vdemo_prims vdemo_services (vdemo_tracker SigningRequired) vdemo_claim vdemo_reason (vdemo_world 1, v1_cells_new) = (Ok (), s1) \<and>
     v1_list_issues vdemo_prims vdemo_services (vdemo_tracker SigningRequired) s1 = (Ok [i], s2) \<and> iss_claim i = None \<and> iss_state i = ''blocked''"
proof -
  let ?V = "vdemo_tracker SigningRequired"
  let ?run = "v1_block vdemo_prims vdemo_services ?V vdemo_claim vdemo_reason (vdemo_world 1, v1_cells_new)"
  let ?i = "vdemo_issue ''blocked'' None ((''blocked_reason'', JNull) # vdemo_extra)"
  obtain s1 s2 where run: "(if True then ?run else v1_release vdemo_prims vdemo_services ?V vdemo_claim vdemo_reason (vdemo_world 1, v1_cells_new)) = (Ok (), s1)"
    and l: "v1_list_issues vdemo_prims vdemo_services ?V s1 = (Ok [?i], s2)"
    using vdemo_blocks vdemo_lists(2) [of "(vdemo_world 1)((''symphony-l'', ''claim-t'') \<mapsto> [2])" v1_cells_new] by (auto simp: vdemo_others)
  have "cl_issue_id vdemo_claim = Some (iss_id ?i)" by (simp add: vdemo_claim_def claim_new_def vdemo_issue_def)
  from v1_block_release_shown [OF run vdemo_kv_keeps vdemo_codec l _ this] run l show ?thesis by auto
qed

text \<open>
  C27: Only an issue that waits for approval is requeued: when the tracker acknowledges a requeue, the stored claim blob
  was blocked with the reason awaiting approval, and every later listing over a store that keeps what it is
  given shows the issue without a claim, as todo (or review when there is a handoff).
\<close>

theorem v1_requeue_only_awaiting:
  assumes "v1_requeue_blocked P S V (iss_id i) reason s = (Ok (), s1)" and "kv_keeps S KV" and "claim_codec_ok (vp_blobs P)"
    and "v1_list_issues P S V s1 = (Ok is, s2)" and "i \<in> set is"
  shows "(\<exists>b s0. claim_blob_for_task P S V (iss_id i) s = (Ok (Some b), s0) \<and> cb_status b = BlobBlocked \<and>
      map_option rr_code (cb_release_reason b) = Some RcAwaitingApproval) \<and>
    iss_claim i = None \<and> iss_state i = (if iss_handoff i = None then ''todo'' else ''review'')"
proof -
  from assms(1) obtain b s0 now s3 where b: "claim_blob_for_task P S V (iss_id i) s = (Ok (Some b), s0)" "cb_status b = BlobBlocked"
    "map_option rr_code (cb_release_reason b) = Some RcAwaitingApproval"
    and put: "put_claim_blob P S V (iss_id i) (claim_blob_released (cb_claim b) reason now) s3 = (Ok (), s1)"
    by (auto simp: v1_requeue_blocked_def as_core_def io_bind_Ok_iff split: if_splits option.splits)
  have "cb_status (claim_blob_released (cb_claim b) reason now) = BlobReleased" by (simp add: claim_blob_released_def claim_blob_new_def)
  with inactive_blob_shown [OF put assms(2-5)] b show ?thesis by auto
qed

theorem v1_requeue_only_awaiting_witness:
  "\<exists>i s1 s2. v1_requeue_blocked vdemo_prims vdemo_services (vdemo_tracker SigningRequired) ''t'' vdemo_reason (vdemo_world 2, v1_cells_new) = (Ok (), s1) \<and>
     v1_list_issues vdemo_prims vdemo_services (vdemo_tracker SigningRequired) s1 = (Ok [i], s2) \<and> iss_claim i = None \<and> iss_state i = ''todo''"
proof -
  let ?V = "vdemo_tracker SigningRequired"
  let ?run = "v1_requeue_blocked vdemo_prims vdemo_services ?V ''t'' vdemo_reason (vdemo_world 2, v1_cells_new)"
  let ?i = "vdemo_issue ''todo'' None vdemo_extra"
  have id: "iss_id ?i = ''t''" "iss_handoff ?i = None" by (simp_all add: vdemo_issue_def)
  obtain s1 s2 where run: "?run = (Ok (), s1)"
    and l: "v1_list_issues vdemo_prims vdemo_services ?V s1 = (Ok [?i], s2)"
    using vdemo_requeues vdemo_lists(3) [of "(vdemo_world 2)((''symphony-l'', ''claim-t'') \<mapsto> [3])" v1_cells_new] by (auto simp: vdemo_others)
  from v1_requeue_only_awaiting [of vdemo_prims vdemo_services ?V ?i, unfolded id, OF run vdemo_kv_keeps vdemo_codec l] run l show ?thesis by auto
qed

section \<open>Under the orchestrator\<close>

text \<open>
  C25: Unsigned work never runs: on a v1 list without signing, running a claim never completes, whatever the policy and
  the trust settings, because its issues count as network-sourced and carry no provenance.
\<close>

theorem v1_unsigned_never_completes:
  assumes "rs_orch R = crdt_orch_services E T base" and "ct_v2 T = None" and "xt_policy (ct_v1 T) = SigningDisabled"
  shows "run_claim P R cfg c (w, st) \<noteq> (Ok Completed, (w', st'))"
proof
  let ?O = "crdt_orch_services E T base"
  assume "run_claim P R cfg c (w, st) = (Ok Completed, (w', st'))"
  from crdt.completed [OF this assms(1)] obtain issue_id i w1 "is" where f: "tr_fetch_by_ids ?O [issue_id] w = (Ok (i # is), w1)"
    and auth: "self_authored (oc_gate cfg) i \<or> (\<exists>signer. gate_signer i = Ok signer)" by blast
  from f assms(2) obtain s s' where "v1_fetch_by_ids (ev_p1 E) (ev_s1 E) (ct_v1 T) [issue_id] s = (Ok (i # is), s')"
    by (cases w) (auto simp: crdt_orch_services_def crdt_fetch_by_ids_def routed_def on_v1_Ok)
  from v1_fetch_by_ids_Ok [OF this, of i] assms(3) have "iss_signature_provenance i = None" by simp
  with auth show False by (simp add: self_authored_def gate_signer_def)
qed

definition vdemo_dead_store :: "'w store_api" where
  "vdemo_dead_store = \<lparr>api_create = (\<lambda>_ _ _ w. (Err (CeBase64 [] []), w)), api_join = (\<lambda>_ _ w. (Err (CeBase64 [] []), w)),
     api_detail = (\<lambda>_ w. (Ok None, w)), api_list_keys = (\<lambda>_ w. (Ok [], w)), api_get = (\<lambda>_ _ w. (Ok None, w)),
     api_put = (\<lambda>_ _ _ _ w. (Err (CeBase64 [] []), w)), api_sign = (\<lambda>_ _ w. (Err (SeInvalidResponse []), w))\<rparr>"

definition vdemo_routed :: "kv_world crdt_env" where
  "vdemo_routed = \<lparr>ev_p1 = vdemo_prims, ev_s1 = vdemo_services, ev_p2 = tdemo_prims,
     ev_s2 = \<lparr>ts_api = vdemo_dead_store, ts_display = None, ts_now_utc = (\<lambda>w. (''t'', w)), ts_now_timestamp = (\<lambda>w. (0, w)), ts_sleep = (\<lambda>_ w. w)\<rparr>\<rparr>"

definition vdemo_orch :: "'w orch_services" where
  "vdemo_orch = \<lparr>tr_fetch_candidates = (\<lambda>_ s. (Ok [], s)), tr_fetch_by_ids = (\<lambda>_ s. (Ok [], s)), tr_fetch_claimed = (\<lambda>s. (Ok [], s)),
      tr_claim = (\<lambda>_ _ s. (Err (SyTracker []), s)), tr_release = (\<lambda>_ _ s. (Ok (), s)), tr_handoff = (\<lambda>_ _ s. (Ok (), s)),
      tr_block = (\<lambda>_ _ s. (Ok (), s)), tr_load_approval_state = (\<lambda>_ s. (Err (SyTracker []), s)), tr_store_consumed = (\<lambda>_ s. (Ok (), s)),
      trust_lookup = (\<lambda>_ s. (Ok TrustTrusted, s)), signing = None, key_resolver = None, clock_now = (\<lambda>s. (0, s)), random_u128 = (\<lambda>s. (7, s)),
      emit = (\<lambda>_ s. s), cancel_heartbeat = (\<lambda>s. s), spawn_heartbeat = (\<lambda>_ _ s. s), shutdown_flag = (\<lambda>_. False), set_shutdown = (\<lambda>s. s)\<rparr>"

definition vdemo_run :: "'w orch_services \<Rightarrow> 'w run_services" where
  "vdemo_run S =
     \<lparr>rs_orch = S, rn_name = ''shell'', rn_start_session = (\<lambda>_ _ _ s. (Ok ''s'', s)),
      rn_select = (\<lambda>_ _ s. (SelTurn (Ok \<lparr>ct_status = TurnSucceeded, ct_summary = None\<rparr>), s)), rn_stop_session = (\<lambda>_ s. s),
      ws_create = (\<lambda>i s. (Ok \<lparr>wh_issue_id = iss_id i, wh_path = ''/ws'', wh_created_now = True\<rparr>, s)),
      ws_run_hook_in = (\<lambda>_ _ _ s. (Ok \<lparr>hko_status = HookSucceeded, hko_exit_code = Some 0\<rparr>, s)), ws_destroy = (\<lambda>_ s. (Ok (), s)),
      pf_start = (\<lambda>_ _ s. (Ok ''proofs'', s)), pf_spawn_event_writer = (\<lambda>_ s. s), pf_join_event_writer = (\<lambda>s. (Ok (), s)),
      pf_finish = (\<lambda>_ _ _ s. (Ok (), s)), px_status = (\<lambda>_ _ s. (Ok (True, Some 0), s)), px_git_diff = (\<lambda>_ s. (None, s)),
      rs_sleep = (\<lambda>_ s. s), rs_show_error = (\<lambda>_. ''error''), rs_poll_wait = (\<lambda>_ s. (True, s)), pf_write_abandoned = (\<lambda>_ _ _ _ _ s. (Ok (), s))\<rparr>"

theorem v1_unsigned_never_completes_witness:
  "run_claim demo_gate_prims (vdemo_run (crdt_orch_services vdemo_routed \<lparr>ct_v1 = vdemo_tracker SigningDisabled, ct_v2 = None\<rparr> vdemo_orch))
     demo_config vdemo_claim ((vdemo_world 1, crdt_cells_new), demo_state) \<noteq> (Ok Completed, ((vdemo_world 1, crdt_cells_new), demo_state))"
  by (rule v1_unsigned_never_completes [where T = "\<lparr>ct_v1 = vdemo_tracker SigningDisabled, ct_v2 = None\<rparr>" and E = vdemo_routed and base = vdemo_orch])
    (simp_all add: vdemo_run_def vdemo_tracker_def)

section \<open>As the daemon wires it\<close>

text \<open>
  C32: The daemon sees its own records only: with the signing client as key resolver, as the daemon wires it, a listing
  under required signing shows no claim, handoff or provenance but those of the agent that the local x0xd signs
  as. The valid records of every other agent are stripped, although \<^verbatim>\<open>docs/symphony/operator.md\<close> and the module documentation
  speak of peers.
\<close>

theorem v1_lists_only_own:
  assumes "v1_list_issues P (daemon_v1_services Q H X view now) V ((w, None), c) = (Ok is, s')" and "signs_as H agent"
    and "xt_policy V = SigningRequired" and "i \<in> set is"
  shows "(\<forall>c. iss_claim i = Some c \<longrightarrow> cl_by c = agent) \<and> (\<forall>h. iss_handoff i = Some h \<longrightarrow> ho_signer_agent_id h = Some agent) \<and>
    (iss_signature_provenance i = None \<or> iss_signature_provenance i = Some (ProvVerified agent))"
  using listed_own [OF assms(1) _ assms(3,4)] assms(2) by (simp add: own_key_def key_cell_of_def)

definition vdemo_http :: "string \<Rightarrow> 'w sign_http" where
  "vdemo_http agent = \<lparr>post_sign = (\<lambda>q w. (Ok \<lparr>asr_agent_id = agent, asr_public_key_b64 = [], asr_signature_b64 = [],
       asr_algorithm = SIGN_ALGORITHM, asr_context = asq_context q\<rparr>, w)),
     post_verify = (\<lambda>_ w. (Ok True, w)), get_agent = (\<lambda>w. (Ok agent, w))\<rparr>"

definition vdemo_sign_prims :: sign_prims where
  "vdemo_sign_prims = \<lparr>sp_crypto = demo_crypto, sp_b64_encode = (\<lambda>_. []), sp_show_error = (\<lambda>_. [])\<rparr>"

theorem v1_lists_only_own_witness:
  "\<exists>c s. v1_list_issues vdemo_prims (daemon_v1_services vdemo_sign_prims (vdemo_http ''me'') vdemo_api None (\<lambda>w. (''n'', w)))
      (vdemo_tracker SigningRequired) ((vdemo_world 1, None), v1_cells_new) =
      (Ok [vdemo_issue ''in_progress'' (Some c) vdemo_extra], s) \<and> cl_by c = ''me''"
proof -
  let ?run = "v1_list_issues vdemo_prims (daemon_v1_services vdemo_sign_prims (vdemo_http ''me'') vdemo_api None (\<lambda>w. (''n'', w)))
    (vdemo_tracker SigningRequired) ((vdemo_world 1, None), v1_cells_new)"
  let ?i = "vdemo_issue ''in_progress'' (Some vdemo_claim) vdemo_extra"
  have signs: "signs_as (vdemo_http ''me'' :: kv_world sign_http) ''me''" by (simp add: signs_as_def vdemo_http_def)
  have "fst ?run = Ok [?i]" by code_simp
  then obtain s where run: "?run = (Ok [?i], s)" by (metis prod.collapse)
  have "cl_by vdemo_claim = ''me''"
    using v1_lists_only_own [OF run signs vdemo_tracker_policy] by (simp add: vdemo_issue_def)
  with run show ?thesis by blast
qed

text \<open>
  The reference of the list selects the engine: a tracker that the daemon builds serves a list of the v2 namespace
  with the v2 engine on exactly that list, and then signing is required, and every other list with the v1 tracker
  under the configured policy; a v2 list is never served unsigned or by the v1 tracker.
\<close>

theorem namespace_selects_engine:
  assumes "daemon_build_tracker http list_id policy grp v2_store_policy k agent = Ok T"
  shows "(if is_v2_namespace list_id
      then policy = SigningRequired \<and> (\<exists>V. ct_v2 T = Some V \<and> parse_list_ref list_id = Ok (vt_list_ref V) \<and> vt_agent_id V = agent)
      else ct_v2 T = None) \<and>
    xt_list_id (ct_v1 T) = list_id \<and> xt_policy (ct_v1 T) = policy \<and> xt_agent_id (ct_v1 T) = agent \<and> 1 \<le> xt_replication_factor (ct_v1 T)"
proof -
  from assms obtain B where B: "bd_list_id B = list_id" "bd_policy B = policy" "bd_agent_id B = agent" and T: "crdt_build http B = Ok T"
    and v2: "is_v2_namespace list_id \<Longrightarrow> policy = SigningRequired"
    by (cases policy)
      ((auto simp: daemon_build_tracker_def Let_def split: if_splits option.splits), (metis builder_list_id builder_policy builder_agent_id)+)
  from T B have "is_v2_namespace list_id \<Longrightarrow> \<exists>V. ct_v2 T = Some V \<and> vt_agent_id V = agent \<and> parse_list_ref list_id = Ok (vt_list_ref V)"
    by (auto simp: crdt_build_def split: if_splits)
  with crdt_build_Ok [OF T] B v2 show ?thesis by (auto simp: v1_from_parts_def)
qed

theorem namespace_selects_engine_witness:
  "\<exists>T. daemon_build_tracker (Ok ()) ''backlog'' SigningDisabled None None 0 ''me'' = Ok T \<and> ct_v2 T = None \<and> xt_policy (ct_v1 T) = SigningDisabled"
proof -
  have l: "\<not> is_v2_namespace ''backlog''" by code_simp
  then obtain T where "daemon_build_tracker (Ok ()) ''backlog'' SigningDisabled None None 0 ''me'' = Ok T"
    by (auto simp: daemon_build_tracker_def crdt_build_def Let_def split: if_splits)
  from namespace_selects_engine [OF this] this l show ?thesis by auto
qed

end
