(* ===== verification/Worker_Properties.thy ===== *)
theory Worker_Properties
  imports V1_Demo
begin

text \<open>
  The properties of worker discovery, alone and as the daemon wires it, each with an instance on a gossip stream that
  carries one card.
\<close>

section \<open>A concrete gossip service\<close>

definition wdemo_card :: "string \<Rightarrow> u64 \<Rightarrow> worker_card" where
  "wdemo_card agent ttl = local_worker_card_template \<lparr>pi_os = ''linux'', pi_arch = ''x86_64'', pi_version = []\<rparr> agent ttl [] [] [] 1"

text \<open>Every event carries the card \<open>c\<close>.\<close>

definition wdemo_prims :: "worker_card \<Rightarrow> worker_prims" where
  "wdemo_prims c = \<lparr>wp_card = vdemo_card, wp_b64_encode = (\<lambda>_. []),
     wp_dec_gossip = (\<lambda>data. Ok \<lparr>ge_topic = WORKER_TOPIC, ge_payload = data, ge_verified = True\<rparr>), wp_dec_card = (\<lambda>_. Ok c)\<rparr>"

definition wdemo_services :: "unit worker_services" where
  "wdemo_services = \<lparr>ws_client = vdemo_signing, ws_resolve = (\<lambda>_ w. (Ok [], w)), ws_now = (\<lambda>w. (''n'', w)), ws_instant = (\<lambda>w. (0, w)),
     ws_post_publish = (\<lambda>_ _ w. (Ok True, w)), ws_post_subscribe = (\<lambda>_ w. (Ok ''sub'', w)),
     ws_open_events = (\<lambda>w. (Ok [Ok (as_bytes ''data: x''), Ok (as_bytes LF2)], w)), ws_spawn_consumer = (\<lambda>_ w. w), ws_sleep = (\<lambda>_ w. w)\<rparr>"

definition wdemo_discovery :: worker_discovery where
  "wdemo_discovery = \<lparr>wd_agent_id = ''me'', wd_template = wdemo_card ''me'' 60, wd_publish_enabled = True\<rparr>"

lemma wdemo_template:
  "wc_agent_id (wd_template wdemo_discovery) = wd_agent_id wdemo_discovery"
  "wc_schema_version (wd_template wdemo_discovery) = WORKER_CARD_SCHEMA_VERSION"
  by (simp_all add: wdemo_discovery_def wdemo_card_def local_worker_card_template_def)

lemma wdemo_lifetime:
  assumes "parse_timestamp (wp_card (wdemo_prims c)) now = Some issued"
    and "chrono_from_std (cp_chrono (wp_card (wdemo_prims c))) (duration_from_secs (unat (wc_ttl_seconds (wd_template wdemo_discovery)))) = Some ttl"
  shows "dt_add (wp_card (wdemo_prims c)) issued ttl \<noteq> None"
  using assms by (auto simp: wdemo_prims_def parse_timestamp_def vdemo_card_def demo_chrono_def wdemo_discovery_def wdemo_card_def
      local_worker_card_template_def duration_from_secs_def max_def)

section \<open>The view\<close>

text \<open>
  C28: The worker view holds vouched cards only: after every sequence of operations, whatever they returned and whatever
  arrived on the stream, each card of the view stands under its agent, has the supported schema, and was either
  verified under the resolved key of its agent or signed for the local one; a snapshot does not panic and returns
  exactly the cards of the view that are live at its clock; and no operation takes the epoch back, or changes
  the set of workers while the epoch stays below its end. This is under the condition that the configured lifetime
  of the local card, added to a reading of the clock, stays in the range of timestamps; the configuration does not
  check it, and a snapshot of a view with a card that violates it panics.
\<close>

theorem worker_view_vouched:
  assumes "wc_agent_id (wd_template D) = wd_agent_id D" and "wc_schema_version (wd_template D) = WORKER_CARD_SCHEMA_VERSION"
    and "\<And>now w w' issued ttl. ws_now S w = (now, w') \<Longrightarrow> parse_timestamp (wp_card P) now = Some issued \<Longrightarrow>
      chrono_from_std (cp_chrono (wp_card P)) (duration_from_secs (unat (wc_ttl_seconds (wd_template D)))) = Some ttl \<Longrightarrow>
      dt_add (wp_card P) issued ttl \<noteq> None"
    and "s = foldl (run_worker_call P S D) (w, worker_cells_new) calls"
  shows "view_ok P S D (wk_view (snd s)) \<and> epoch_le (wk_view (snd s)) (wk_view (snd (run_worker_call P S D s call))) \<and>
    (\<exists>view s'. snapshot_view P S s = (Ok view, s') \<and>
       wv_cards view = filter (\<lambda>e. card_is_expired (wp_card P) (snd e) (fst (ws_now S (fst s))) = Some False) (wv_cards (wk_view (snd s)))) \<and>
    (\<forall>t e. e \<in> set (wv_cards (wk_view (snd t))) \<and> card_is_expired (wp_card P) (snd e) (fst (ws_now S (fst t))) = None \<longrightarrow>
       fst (snapshot_view P S t) = Err WePanic)"
proof -
  have T: "template_ok P S D" using template_okI [OF assms(1,2)] assms(3) by blast
  have ok: "view_ok P S D (wk_view (snd s))" unfolding assms(4) by (rule reachable_view [OF T])
  with run_worker_call_le [OF T, of s call] have "epoch_le (wk_view (snd s)) (wk_view (snd (run_worker_call P S D s call)))"
    by (simp add: on_snd_def cells_le_def)
  moreover obtain panicked v where r: "reap_expired_at (wp_card P) (fst (ws_now S (fst s))) (wk_view (snd s)) = (panicked, v)" by force
  note live = reap_spec [OF T ok r]
  have "\<exists>s'. snapshot_view P S s = (Ok v, s')"
    using r live by (cases s; cases "ws_now S (fst s)")
      (simp add: snapshot_view_def io_bind_def read_world_def get_cells_def upd_cells_def io_lift_def)
  moreover have "fst (snapshot_view P S t) = Err WePanic"
    if "e \<in> set (wv_cards (wk_view (snd t)))" "card_is_expired (wp_card P) (snd e) (fst (ws_now S (fst t))) = None" for t e
    using retain_live_panics [OF that] by (cases t; cases "ws_now S (fst t)")
      (auto simp: snapshot_view_def reap_expired_at_def io_bind_def read_world_def get_cells_def upd_cells_def io_lift_def Let_def split: prod.splits)
  ultimately show ?thesis using ok live by blast
qed

theorem worker_view_vouched_witness:
  "\<exists>c. wv_cards (wk_view (snd (foldl (run_worker_call (wdemo_prims (wdemo_card ''you'' 60)) wdemo_services wdemo_discovery) ((), worker_cells_new)
       [CallSubscribe, CallPublish]))) = [(''me'', c)] \<and>
     vouched (wdemo_prims (wdemo_card ''you'' 60)) wdemo_services wdemo_discovery c"
proof -
  let ?P = "wdemo_prims (wdemo_card ''you'' 60)"
  let ?s = "foldl (run_worker_call ?P wdemo_services wdemo_discovery) ((), worker_cells_new) [CallSubscribe, CallPublish]"
  have v: "view_ok ?P wdemo_services wdemo_discovery (wk_view (snd ?s))" using worker_view_vouched [OF wdemo_template wdemo_lifetime refl] by (rule conjunct1)
  have "map fst (wv_cards (wk_view (snd ?s))) = [''me'']" by code_simp
  then obtain c where "wv_cards (wk_view (snd ?s)) = [(''me'', c)]" by (auto simp: map_eq_Cons_conv)
  with v show ?thesis by (auto simp: view_ok_def bt_get_def)
qed

section \<open>The event stream\<close>

text \<open>
  C29: How the event stream is cut into chunks does not matter as long as no cut splits a character: the reader handles
  exactly the events of the whole decoded stream, in order. In general it handles the events of the chunks decoded each
  on its own, and a cut inside a character changes that text: the two bytes of an accented letter, read apart,
  become two replacement characters.
\<close>

theorem sse_chunking_irrelevant:
  assumes "list_all utf8_valid cs"
  shows "consume_chunks P S [] (map Ok cs) = process_events P S (fst (sse_events (from_utf8_lossy (concat cs)))) \<and>
    consume_chunks P S [] (map Ok cs') = process_events P S (fst (sse_events (concat (map from_utf8_lossy cs')))) \<and>
    concat (map from_utf8_lossy [[0xC3], [0xA9]]) \<noteq> from_utf8_lossy (concat [[0xC3], [0xA9]])"
proof -
  have nil: "sse_events [] = ([], [])" by code_simp
  have "concat (map from_utf8_lossy [[0xC3], [0xA9]]) \<noteq> from_utf8_lossy (concat [[0xC3], [0xA9]])" by code_simp
  with consume_text [OF nil, of P S cs] consume_text [OF nil, of P S cs'] from_utf8_lossy_concat [OF assms] show ?thesis by simp
qed

theorem sse_chunking_irrelevant_witness:
  "consume_chunks (wdemo_prims (wdemo_card ''you'' 60)) wdemo_services [] [Ok (as_bytes ''data''), Ok (as_bytes '': x''), Ok [0xC3, 0xA9, 10, 10]] =
     process_events (wdemo_prims (wdemo_card ''you'' 60)) wdemo_services [''data: x'' @ [CHR 0xC3, CHR 0xA9]]"
proof -
  let ?cs = "[as_bytes ''data'', as_bytes '': x'', [0xC3, 0xA9, 10, 10]]"
  have "list_all utf8_valid ?cs" by code_simp
  moreover have "fst (sse_events (from_utf8_lossy (concat ?cs))) = [''data: x'' @ [CHR 0xC3, CHR 0xA9]]" by code_simp
  ultimately show ?thesis using sse_chunking_irrelevant [of ?cs "wdemo_prims (wdemo_card ''you'' 60)" wdemo_services] by simp
qed

text \<open>
  C30: One card stops discovery: a gossip event on the worker topic with a card of the supported schema whose lifetime
  takes the expiry out of the range of timestamps makes the receiver panic before any signature is checked, although
  the check for expiry is documented to fail closed. The panic ends the consumer, and subscribing again does
  not start another one.
\<close>

theorem oversized_ttl_stops_consumer:
  assumes "wp_dec_gossip P data = Ok event" and "ge_topic event = WORKER_TOPIC" and "ge_verified event"
    and "b64_decode (cp_crypto (wp_card P)) (ge_payload event) = Ok payload" and "wp_dec_card P payload = Ok c"
    and "wc_schema_version c = WORKER_CARD_SCHEMA_VERSION" and "parse_timestamp (wp_card P) (wc_issued_at c) = Some issued"
    and "chrono_from_std (cp_chrono (wp_card P)) (duration_from_secs (unat (wc_ttl_seconds c))) = Some ttl"
    and "dt_add (wp_card P) issued ttl = None" and "ws_now S (fst s) = (now, fst s)" and "parse_timestamp (wp_card P) now = Some t"
    and "sse_data e = Some data" and "wk_consumer_started (snd s)"
  shows "process_events P S (e # events) s = (Err WePanic, s) \<and> worker_subscribe S s = (Ok (), s)"
proof -
  have "card_is_expired (wp_card P) c now = None" using assms by (auto simp: card_panic_iff)
  then have "process_sse_data_at P S data now s = (Err WePanic, s)"
    using assms by (simp add: process_sse_data_at_def verify_and_insert_card_at_def io_bind_def io_lift_def)
  with assms show ?thesis
    by (cases s) (simp add: io_bind_def read_world_def io_try_def io_lift_def worker_subscribe_def get_cells_def)
qed

theorem oversized_ttl_stops_consumer_witness:
  "process_events (wdemo_prims (wdemo_card ''you'' (2 ^ 63))) wdemo_services [''data: x''] ((), worker_cells_new\<lparr>wk_consumer_started := True\<rparr>) =
     (Err WePanic, ((), worker_cells_new\<lparr>wk_consumer_started := True\<rparr>))"
proof -
  let ?c = "wdemo_card ''you'' (2 ^ 63)" and ?s = "((), worker_cells_new\<lparr>wk_consumer_started := True\<rparr>)"
  have "sse_data ''data: x'' = Some ''x''" by code_simp
  moreover have "dt_add vdemo_card 0 (int (duration_from_secs (unat (wc_ttl_seconds ?c)))) = None"
    by (simp add: vdemo_card_def wdemo_card_def local_worker_card_template_def duration_from_secs_def max_def word_le_nat_alt)
  ultimately show ?thesis
    using oversized_ttl_stops_consumer [of "wdemo_prims ?c" "''x''" "\<lparr>ge_topic = WORKER_TOPIC, ge_payload = ''x'', ge_verified = True\<rparr>" "[]" ?c 0
        "int (duration_from_secs (unat (wc_ttl_seconds ?c)))" wdemo_services ?s "''n''" 0 "''data: x''" "[]"]
    by (simp add: wdemo_prims_def vdemo_card_def demo_crypto_def demo_chrono_def parse_timestamp_def wdemo_services_def
        wdemo_card_def local_worker_card_template_def)
qed

section \<open>As the daemon wires it\<close>

text \<open>
  C31: The daemon's view never holds a peer: with the signing client as key resolver, as the daemon wires it, every sequence of
  operations leaves at most the card of the agent that the local x0xd signs as, whatever cards arrive and however well
  they are signed, although the module documentation speaks of the cards of peers.
\<close>

theorem worker_view_only_own:
  assumes "signs_as H agent" and "wc_agent_id (wd_template D) = agent"
  shows "fst ` set (wv_cards (wk_view (snd (foldl (run_worker_call P (daemon_worker_services Q H S) D) ((w, None), worker_cells_new) calls)))) \<subseteq> {agent}"
  using own_view_reachable [OF assms] by (auto simp: own_view_def view_keys_def)

theorem worker_view_only_own_witness:
  "\<exists>H :: unit sign_http. fst ` set (wv_cards (wk_view (snd (foldl (run_worker_call (wdemo_prims (wdemo_card ''you'' 60))
     (daemon_worker_services \<lparr>sp_crypto = demo_crypto, sp_b64_encode = (\<lambda>_. []), sp_show_error = (\<lambda>_. [])\<rparr> H wdemo_services) wdemo_discovery)
     (((), None), worker_cells_new) [CallIteration, CallConsume None 0, CallSnapshot])))) \<subseteq> {''me''}"
proof -
  let ?H = "\<lparr>post_sign = (\<lambda>q w. (Ok \<lparr>asr_agent_id = ''me'', asr_public_key_b64 = [], asr_signature_b64 = [],
       asr_algorithm = SIGN_ALGORITHM, asr_context = asq_context q\<rparr>, w)),
     post_verify = (\<lambda>_ w. (Ok True, w)), get_agent = (\<lambda>w. (Ok ''me'', w))\<rparr> :: unit sign_http"
  have "signs_as ?H ''me''" by (simp add: signs_as_def)
  moreover have "wc_agent_id (wd_template wdemo_discovery) = ''me''" by (simp add: wdemo_discovery_def wdemo_card_def local_worker_card_template_def)
  ultimately show ?thesis by (intro exI [of _ ?H] worker_view_only_own)
qed

end
