(* ===== verification/Containment.thy ===== *)
theory Containment
  imports Text Cells
begin

text \<open>
  The security boundary of the workspaces (\<^verbatim>\<open>workspace/src/containment.rs\<close>): which issue identifiers may name a directory, and
  which existing paths count as a workspace below the root. A path is the list of its components, on which
  \<^verbatim>\<open>std::path\<close> defines comparison, prefix, parent and file name. The file system calls are the record \<open>fs_api\<close>.

  Lemmas: an accepted identifier is exactly a short name of harmless bytes; a validated path is the root followed by
  one such name, and it is what the file system resolved.
\<close>

section \<open>Paths\<close>

datatype path_component = RootDir | CurDir | ParentDir | Normal string

type_synonym path = "path_component list"

text \<open>The order of \<^verbatim>\<open>Component\<close>, derived from the order of its constructors.\<close>

fun component_rank :: "path_component \<Rightarrow> nat \<times> string" where
  "component_rank RootDir = (0, [])"
| "component_rank CurDir = (1, [])"
| "component_rank ParentDir = (2, [])"
| "component_rank (Normal s) = (3, s)"

lemma component_rank_inject [simp]: "component_rank a = component_rank b \<longleftrightarrow> a = b"
  by (cases a; cases b) simp_all

instantiation path_component :: linorder
begin

definition less_eq_path_component :: "path_component \<Rightarrow> path_component \<Rightarrow> bool" where
  "less_eq_path_component a b \<longleftrightarrow> component_rank a \<le> component_rank b"

definition less_path_component :: "path_component \<Rightarrow> path_component \<Rightarrow> bool" where
  "less_path_component a b \<longleftrightarrow> a \<le> b \<and> \<not> b \<le> a"

instance
  by standard (auto simp: less_eq_path_component_def less_path_component_def)

end

fun split_slash :: "string \<Rightarrow> string list" where
  "split_slash [] = [[]]"
| "split_slash (c # s) = (if c = CHR ''/'' then [] # split_slash s else case split_slash s of w # ws \<Rightarrow> (c # w) # ws | [] \<Rightarrow> [[c]])"

definition component_of :: "string \<Rightarrow> path_component option" where
  "component_of w = (if w = [] \<or> w = ''.'' then None else if w = ''..'' then Some ParentDir else Some (Normal w))"

text \<open>\<^verbatim>\<open>Path::components\<close>: repeated separators and dots inside are dropped, a leading dot stays.\<close>

definition path_components :: "string \<Rightarrow> path" where
  "path_components s =
     (let ws = split_slash s; rest = List.map_filter component_of ws
      in if prefix ''/'' s then RootDir # rest else if ws \<noteq> [] \<and> hd ws = ''.'' then CurDir # rest else rest)"

definition path_is_absolute :: "path \<Rightarrow> bool" where
  "path_is_absolute p = (case p of RootDir # _ \<Rightarrow> True | _ \<Rightarrow> False)"

definition path_join :: "path \<Rightarrow> string \<Rightarrow> path" where
  "path_join p s =
     (let q = path_components s in if path_is_absolute q then q else if p = [] then q else p @ filter (\<lambda>c. c \<noteq> CurDir) q)"

definition path_parent :: "path \<Rightarrow> path option" where
  "path_parent p = (if p = [] \<or> last p = RootDir then None else Some (butlast p))"

definition path_file_name :: "path \<Rightarrow> string option" where
  "path_file_name p = (if p = [] then None else case last p of Normal s \<Rightarrow> Some s | _ \<Rightarrow> None)"

text \<open>\<^verbatim>\<open>OsStr::to_str\<close>\<close>

definition to_str :: "string \<Rightarrow> string option" where
  "to_str s = string_from_utf8 (as_bytes s)"

section \<open>Identifiers\<close>

definition MAX_IDENTIFIER_BYTES :: nat where
  "MAX_IDENTIFIER_BYTES = 255"

datatype containment_error =
    EmptyIdentifier
  | IdentifierTooLong nat nat
  | LeadingDot
  | LeadingSlash
  | TrailingDot
  | ParentTraversal
  | NonWhitelistedByte nat char
  | ReservedDeviceName string
  | CeRelativePath path
  | RootNotDirectory path
  | EscapesRoot path path
  | RootItself path
  | NotDirectChild path path
  | AliasMismatch string string
  | MissingFileName path
  | CeMetadata path string
  | CeCanonicalize path string

definition is_allowed_identifier_byte :: "char \<Rightarrow> bool" where
  "is_allowed_identifier_byte c \<longleftrightarrow> CHR ''A'' \<le> c \<and> c \<le> CHR ''Z'' \<or> CHR ''a'' \<le> c \<and> c \<le> CHR ''z'' \<or> CHR ''0'' \<le> c \<and> c \<le> CHR ''9'' \<or>
     c = CHR ''.'' \<or> c = CHR ''_'' \<or> c = CHR ''-''"

fun contains_dotdot :: "string \<Rightarrow> bool" where
  "contains_dotdot (a # b # s) = (a = CHR ''.'' \<and> b = CHR ''.'' \<or> contains_dotdot (b # s))"
| "contains_dotdot _ = False"

fun first_bad_byte :: "nat \<Rightarrow> string \<Rightarrow> (nat \<times> char) option" where
  "first_bad_byte offset [] = None"
| "first_bad_byte offset (c # s) = (if \<not> is_allowed_identifier_byte c then Some (offset, c) else first_bad_byte (Suc offset) s)"

fun upper_char :: "char \<Rightarrow> char" where
  "upper_char (Char b0 b1 b2 b3 b4 b5 b6 b7) =
     Char b0 b1 b2 b3 b4 (b5 \<and> \<not> (\<not> b7 \<and> b6 \<and> (b0 \<or> b1 \<or> b2 \<or> b3 \<or> b4) \<and> \<not> (b4 \<and> b3 \<and> (b2 \<or> b1 \<and> b0)))) b6 b7"

definition to_ascii_uppercase :: "string \<Rightarrow> string" where
  "to_ascii_uppercase s = map upper_char s"

definition is_reserved_windows_device_name :: "string \<Rightarrow> bool" where
  "is_reserved_windows_device_name upper_stem \<longleftrightarrow> upper_stem \<in> set
     [''CON'', ''PRN'', ''AUX'', ''NUL'', ''COM1'', ''COM2'', ''COM3'', ''COM4'', ''COM5'', ''COM6'', ''COM7'', ''COM8'', ''COM9'',
      ''LPT1'', ''LPT2'', ''LPT3'', ''LPT4'', ''LPT5'', ''LPT6'', ''LPT7'', ''LPT8'', ''LPT9'']"

definition identifier_stem :: "string \<Rightarrow> string" where
  "identifier_stem raw = takeWhile (\<lambda>c. c \<noteq> CHR ''.'') raw"

text \<open>\<^verbatim>\<open>SanitizedIdentifier\<close> is the accepted text itself.\<close>

definition sanitize_issue_identifier :: "string \<Rightarrow> (string, containment_error) result" where
  "sanitize_issue_identifier raw =
     (if raw = [] then Err EmptyIdentifier
      else if length raw > MAX_IDENTIFIER_BYTES then Err (IdentifierTooLong (length raw) MAX_IDENTIFIER_BYTES)
      else if hd raw = CHR ''.'' then Err LeadingDot
      else if hd raw = CHR ''/'' then Err LeadingSlash
      else if last raw = CHR ''.'' then Err TrailingDot
      else if contains_dotdot raw then Err ParentTraversal
      else case first_bad_byte 0 raw of
        Some (offset, byte) \<Rightarrow> Err (NonWhitelistedByte offset byte)
      | None \<Rightarrow>
          (let upper_stem = to_ascii_uppercase (identifier_stem raw) in
           if is_reserved_windows_device_name upper_stem then Err (ReservedDeviceName upper_stem) else Ok raw))"

definition deterministic_path :: "path \<Rightarrow> string \<Rightarrow> path" where
  "deterministic_path root identifier = path_join root identifier"

section \<open>Existing paths\<close>

datatype io_error_kind = IoNotFound | IoAlreadyExists | IoOther

record io_error =
  ie_kind :: io_error_kind
  ie_text :: string

datatype file_kind = FileDir | FileSymlink | FileOther

record dir_entry =
  de_path :: path
  de_name :: string

text \<open>\<^verbatim>\<open>fs_metadata\<close> follows links and reports whether the target is a directory, \<^verbatim>\<open>fs_symlink_metadata\<close> does not follow
  them; a directory is created with mode 700 when the flag is set.\<close>

record 'w fs_api =
  fs_canonicalize :: "path \<Rightarrow> ('w, path, io_error) io"
  fs_metadata :: "path \<Rightarrow> ('w, bool, io_error) io"
  fs_symlink_metadata :: "path \<Rightarrow> ('w, file_kind, io_error) io"
  fs_create_dir :: "bool \<Rightarrow> path \<Rightarrow> ('w, unit, io_error) io"
  fs_create_dir_all :: "path \<Rightarrow> ('w, unit, io_error) io"
  fs_set_private :: "path \<Rightarrow> ('w, unit, io_error) io"
  fs_remove_dir_all :: "path \<Rightarrow> ('w, unit, io_error) io"
  fs_rename :: "path \<Rightarrow> path \<Rightarrow> ('w, unit, io_error) io"
  fs_read_dir :: "path \<Rightarrow> ('w, (dir_entry, io_error) result list, io_error) io"

definition canonicalize_root :: "'w fs_api \<Rightarrow> path \<Rightarrow> ('w, path, containment_error) io" where
  "canonicalize_root F root =
     io_bind (io_map_err (\<lambda>e. CeCanonicalize root (ie_text e)) (fs_canonicalize F root)) (\<lambda>canonical.
     if \<not> path_is_absolute canonical then io_lift (Err (CeRelativePath canonical))
     else
       io_bind (io_map_err (\<lambda>e. CeMetadata canonical (ie_text e)) (fs_metadata F canonical)) (\<lambda>is_dir.
       if \<not> is_dir then io_lift (Err (RootNotDirectory canonical)) else io_lift (Ok canonical)))"

definition utf8_file_name :: "path \<Rightarrow> (string, containment_error) result" where
  "utf8_file_name p = ok_or (Option.bind (path_file_name p) to_str) (MissingFileName p)"

definition validate_existing_workspace_path :: "'w fs_api \<Rightarrow> path \<Rightarrow> path \<Rightarrow> ('w, path, containment_error) io" where
  "validate_existing_workspace_path F root candidate =
     (if \<not> path_is_absolute root then io_lift (Err (CeRelativePath root))
      else if \<not> path_is_absolute candidate then io_lift (Err (CeRelativePath candidate))
      else
        io_bind (io_lift (utf8_file_name candidate)) (\<lambda>requested_name.
        io_bind (io_lift (sanitize_issue_identifier requested_name)) (\<lambda>_.
        io_bind (io_map_err (\<lambda>e. CeCanonicalize candidate (ie_text e)) (fs_canonicalize F candidate)) (\<lambda>canonical.
        if \<not> prefix root canonical then io_lift (Err (EscapesRoot root canonical))
        else if canonical = root then io_lift (Err (RootItself canonical))
        else if path_parent canonical \<noteq> Some root then io_lift (Err (NotDirectChild root canonical))
        else
          io_bind (io_lift (utf8_file_name canonical)) (\<lambda>resolved_name.
          if requested_name \<noteq> resolved_name then io_lift (Err (AliasMismatch requested_name resolved_name))
          else io_lift (Ok canonical))))))"

section \<open>Lemmas\<close>

definition safe_name :: "string \<Rightarrow> bool" where
  "safe_name s \<longleftrightarrow> s \<noteq> [] \<and> length s \<le> 255 \<and> list_all is_allowed_identifier_byte s \<and> hd s \<noteq> CHR ''.'' \<and> last s \<noteq> CHR ''.'' \<and>
     \<not> sublist ''..'' s \<and> \<not> is_reserved_windows_device_name (to_ascii_uppercase (identifier_stem s))"

lemma first_bad_byte_None: "first_bad_byte n s = None \<longleftrightarrow> list_all is_allowed_identifier_byte s"
  by (induction s arbitrary: n) auto

lemma contains_dotdot_iff: "contains_dotdot s \<longleftrightarrow> sublist ''..'' s"
  by (induction s rule: contains_dotdot.induct) (auto simp: sublist_Cons_right)

lemma slash_not_allowed: "\<not> is_allowed_identifier_byte (CHR ''/'')"
  by (simp add: is_allowed_identifier_byte_def)

lemma sanitize_Ok_iff: "sanitize_issue_identifier raw = Ok s \<longleftrightarrow> s = raw \<and> safe_name raw"
proof -
  have "hd raw \<noteq> CHR ''/''" if "raw \<noteq> []" "list_all is_allowed_identifier_byte raw"
    using that slash_not_allowed by (cases raw) auto
  then show ?thesis
    by (auto simp: sanitize_issue_identifier_def safe_name_def MAX_IDENTIFIER_BYTES_def Let_def contains_dotdot_iff
        first_bad_byte_None [of 0, symmetric] split: option.splits if_splits prod.splits)
qed

text \<open>A safe name is one component of a path, and is the same text in UTF-8.\<close>

lemma split_slash_plain: "CHR ''/'' \<notin> set s \<Longrightarrow> split_slash s = [s]"
  by (induction s) auto

lemma safe_name_no_slash: "safe_name s \<Longrightarrow> CHR ''/'' \<notin> set s"
  using slash_not_allowed by (auto simp: safe_name_def list_all_iff)

lemma safe_name_component: "safe_name s \<Longrightarrow> path_components s = [Normal s]"
proof -
  assume s: "safe_name s"
  then have "s \<noteq> ''.''" "s \<noteq> ''..''" "s \<noteq> []" by (auto simp: safe_name_def)
  moreover have "\<not> prefix ''/'' s" using safe_name_no_slash [OF s] by (auto simp: prefix_def)
  ultimately show ?thesis
    using split_slash_plain [OF safe_name_no_slash [OF s]] by (simp add: path_components_def component_of_def map_filter_simps)
qed

lemma deterministic_path_safe: "safe_name s \<Longrightarrow> deterministic_path root s = root @ [Normal s]"
  by (simp add: deterministic_path_def path_join_def safe_name_component path_is_absolute_def Let_def)

lemma char_of_unat_of_char: "char_of (unat (of_char c :: u8)) = c"
proof -
  have "unat (of_nat (of_char c) :: u8) = of_char c mod 256" by (simp add: unat_of_nat)
  then show ?thesis by (simp add: of_nat_of_char)
qed

lemma to_str_SomeD: "to_str s = Some t \<Longrightarrow> t = s"
  by (auto simp: to_str_def string_from_utf8_def as_bytes_def comp_def char_of_unat_of_char split: if_splits)

text \<open>Text in ASCII is its own text.\<close>

fun ascii_char :: "char \<Rightarrow> bool" where
  "ascii_char (Char b0 b1 b2 b3 b4 b5 b6 b7) = (\<not> b7)"

lemma ascii_char_less: "ascii_char c \<Longrightarrow> (of_char c :: u8) < 0x80"
proof -
  assume "ascii_char c"
  then have "(of_char c :: nat) < 128" by (cases c) (auto simp: of_char_def)
  moreover have "unat (of_nat (of_char c) :: u8) = of_char c mod 256" by (simp add: unat_of_nat)
  ultimately show ?thesis by (simp add: word_less_nat_alt of_nat_of_char)
qed

lemma utf8_valid_ascii: "list_all ascii_char s \<Longrightarrow> utf8_valid (as_bytes s)"
  by (induction s) (simp_all add: as_bytes_def utf8_valid.simps [of "[]"] utf8_valid.simps [of "x # xs" for x xs] ascii_char_less)

lemma to_str_code [code]: "to_str s = (if list_all ascii_char s then Some s else string_from_utf8 (as_bytes s))"
  using utf8_valid_ascii [of s] by (auto simp: to_str_def string_from_utf8_def as_bytes_def comp_def char_of_unat_of_char)

lemma utf8_file_name_Ok: "utf8_file_name p = Ok n \<Longrightarrow> path_file_name p = Some n"
  by (auto simp: utf8_file_name_def dest: to_str_SomeD split: bind_splits option.splits)

lemma path_child:
  assumes "path_parent p = Some root" and "path_file_name p = Some n"
  shows "p = root @ [Normal n]"
proof -
  from assms have "p \<noteq> []" "last p = Normal n" "butlast p = root"
    by (auto simp: path_parent_def path_file_name_def split: if_splits path_component.splits)
  then show ?thesis by (metis append_butlast_last_id)
qed

lemma validate_existing_Ok:
  assumes "validate_existing_workspace_path F root candidate w = (Ok p, w')"
  shows "\<exists>n. safe_name n \<and> path_file_name candidate = Some n \<and> p = root @ [Normal n] \<and> path_is_absolute root \<and> path_is_absolute candidate \<and>
    fs_canonicalize F candidate w = (Ok p, w')"
proof -
  from assms obtain n where abs: "path_is_absolute root" "path_is_absolute candidate" and n: "utf8_file_name candidate = Ok n" "safe_name n"
    and p: "fs_canonicalize F candidate w = (Ok p, w')" "path_parent p = Some root" "utf8_file_name p = Ok n"
    by (auto simp: validate_existing_workspace_path_def io_bind_Ok_iff sanitize_Ok_iff split: if_splits)
  from path_child [OF p(2) utf8_file_name_Ok [OF p(3)]] abs n p(1) utf8_file_name_Ok [OF n(1)] show ?thesis by blast
qed

end
