(* ===== verification/Workspace_Manager.thy ===== *)
theory Workspace_Manager
  imports Containment Orchestrator Text_Search
begin

text \<open>
  The workspace manager (\<^verbatim>\<open>workspace/src/manager.rs\<close>): creation, validation, removal, scan and quarantine of the directories
  below the root, the environment of hooks and the execution of one hook. File system and processes are services;
  what a process writes is the list of the chunks that are read from its pipe.
\<close>

section \<open>Types\<close>

definition DEFAULT_HOOK_OUTPUT_LIMIT_BYTES :: int where
  "DEFAULT_HOOK_OUTPUT_LIMIT_BYTES = 64 * 1024"

definition ORPHAN_QUARANTINE_DIR :: string where
  "ORPHAN_QUARANTINE_DIR = ''.orphaned''"

definition MAX_HOOK_ENV_NAME_BYTES :: nat where
  "MAX_HOOK_ENV_NAME_BYTES = 255"

record ws_config =
  wc_root :: path
  wc_sensitive_env_allowlist :: "string list"
  wc_hook_output_limit_bytes :: int

definition ws_config_new :: "path \<Rightarrow> ws_config" where
  "ws_config_new root = \<lparr>wc_root = root, wc_sensitive_env_allowlist = [], wc_hook_output_limit_bytes = DEFAULT_HOOK_OUTPUT_LIMIT_BYTES\<rparr>"

definition with_sensitive_env :: "ws_config \<Rightarrow> string \<Rightarrow> ws_config" where
  "with_sensitive_env cfg name = cfg\<lparr>wc_sensitive_env_allowlist := List.insert name (wc_sensitive_env_allowlist cfg)\<rparr>"

definition with_hook_output_limit_bytes :: "ws_config \<Rightarrow> int \<Rightarrow> ws_config" where
  "with_hook_output_limit_bytes cfg limit = cfg\<lparr>wc_hook_output_limit_bytes := limit\<rparr>"

datatype ws_error =
    WsContainment containment_error
  | WsNotDirectory path
  | WsCreateRoot path string
  | WsCreateDir path string
  | WsSetPermissions path string
  | WsCreateQuarantineDir path string
  | WsReadDir path string
  | WsReadDirEntry path string
  | WsMetadata path string
  | WsRemoveDir path string
  | WsMoveDir path path string
  | WsInvalidQuarantinePath path string
  | WsInvalidHookEnv string string
  | WsSensitiveHookEnvDenied string
  | WsDangerousHookEnvDenied string
  | WsHookSpawn string string
  | WsHookWait string string
  | WsHookPipeMissing string string
  | WsHookOutputRead string string
  | WsHookOutputJoin string string

datatype cleanup_decision = PreservedRetry | AlreadyAbsent | Removed

record ws_handle =
  hd_issue_id :: string
  hd_path :: path
  hd_created_now :: bool

record refused_workspace =
  rf_issue_id :: string
  rf_path :: path
  rf_reason :: string

record workspace_scan =
  sn_workspaces :: "ws_handle list"
  sn_refused :: "refused_workspace list"

record ws_manager =
  wm_config :: ws_config
  wm_root :: path

text \<open>The texts of errors.\<close>

record manager_prims =
  mp_show_error :: "ws_error \<Rightarrow> string"
  mp_show_containment :: "containment_error \<Rightarrow> string"
  mp_show_core :: "symphony_error \<Rightarrow> string"

section \<open>Directories\<close>

definition ensure_workspace_root :: "'w fs_api \<Rightarrow> path \<Rightarrow> ('w, unit, ws_error) io" where
  "ensure_workspace_root F p =
     io_bind (io_try (fs_symlink_metadata F p)) (\<lambda>existed.
     io_bind (io_map_err (\<lambda>e. WsCreateRoot p (ie_text e)) (fs_create_dir_all F p)) (\<lambda>_.
     if \<not> is_ok existed then io_map_err (\<lambda>e. WsSetPermissions p (ie_text e)) (fs_set_private F p) else io_lift (Ok ())))"

definition manager_new :: "'w fs_api \<Rightarrow> ws_config \<Rightarrow> ('w, ws_manager, ws_error) io" where
  "manager_new F cfg =
     io_bind (ensure_workspace_root F (wc_root cfg)) (\<lambda>_.
     io_bind (io_map_err WsContainment (canonicalize_root F (wc_root cfg))) (\<lambda>root.
     io_lift (Ok \<lparr>wm_config = cfg, wm_root = root\<rparr>)))"

definition issue_path :: "ws_manager \<Rightarrow> string \<Rightarrow> (path, ws_error) result" where
  "issue_path M identifier =
     and_then (map_err WsContainment (sanitize_issue_identifier identifier)) (\<lambda>sanitized. Ok (deterministic_path (wm_root M) sanitized))"

text \<open>Also \<^verbatim>\<open>validate_handle\<close>, on the path of a handle.\<close>

definition validate_existing_directory :: "'w fs_api \<Rightarrow> ws_manager \<Rightarrow> path \<Rightarrow> ('w, path, ws_error) io" where
  "validate_existing_directory F M p =
     io_bind (io_map_err WsContainment (validate_existing_workspace_path F (wm_root M) p)) (\<lambda>canonical.
     io_bind (io_map_err (\<lambda>e. WsMetadata canonical (ie_text e)) (fs_metadata F canonical)) (\<lambda>is_dir.
     if \<not> is_dir then io_lift (Err (WsNotDirectory canonical)) else io_lift (Ok canonical)))"

definition create_or_reuse_directory :: "'w fs_api \<Rightarrow> ws_manager \<Rightarrow> path \<Rightarrow> ('w, bool \<times> path, ws_error) io" where
  "create_or_reuse_directory F M p =
     io_bind (io_try (fs_symlink_metadata F p)) (\<lambda>meta. case meta of
       Ok _ \<Rightarrow> io_bind (validate_existing_directory F M p) (\<lambda>canonical. io_lift (Ok (False, canonical)))
     | Err e \<Rightarrow>
         if ie_kind e = IoNotFound then
           io_bind (io_try (fs_create_dir F True p)) (\<lambda>created. case created of
             Ok _ \<Rightarrow>
               io_bind (io_map_err (\<lambda>e. WsSetPermissions p (ie_text e)) (fs_set_private F p)) (\<lambda>_.
               io_bind (validate_existing_directory F M p) (\<lambda>canonical. io_lift (Ok (True, canonical))))
           | Err e' \<Rightarrow>
               if ie_kind e' = IoAlreadyExists
               then io_bind (validate_existing_directory F M p) (\<lambda>canonical. io_lift (Ok (False, canonical)))
               else io_lift (Err (WsCreateDir p (ie_text e'))))
         else io_lift (Err (WsMetadata p (ie_text e))))"

definition create_for_issue :: "'w fs_api \<Rightarrow> ws_manager \<Rightarrow> issue \<Rightarrow> ('w, ws_handle, ws_error) io" where
  "create_for_issue F M i =
     io_bind (io_lift (issue_path M (iss_identifier i))) (\<lambda>p.
     io_bind (create_or_reuse_directory F M p) (\<lambda>(created_now, canonical).
     io_lift (Ok \<lparr>hd_issue_id = iss_id i, hd_path = canonical, hd_created_now = created_now\<rparr>)))"

definition destroy_workspace :: "'w fs_api \<Rightarrow> ws_manager \<Rightarrow> ws_handle \<Rightarrow> ('w, cleanup_decision, ws_error) io" where
  "destroy_workspace F M h =
     io_bind (io_try (fs_symlink_metadata F (hd_path h))) (\<lambda>meta. case meta of
       Ok _ \<Rightarrow>
         io_bind (validate_existing_directory F M (hd_path h)) (\<lambda>canonical.
         io_bind (io_map_err (\<lambda>e. WsRemoveDir canonical (ie_text e)) (fs_remove_dir_all F canonical)) (\<lambda>_.
         io_lift (Ok Removed)))
     | Err e \<Rightarrow>
         if ie_kind e = IoNotFound then io_lift (Ok AlreadyAbsent) else io_lift (Err (WsMetadata (hd_path h) (ie_text e))))"

definition destroy_if_terminal ::
  "'w fs_api \<Rightarrow> ws_manager \<Rightarrow> ws_handle \<Rightarrow> string \<Rightarrow> string list \<Rightarrow> ('w, cleanup_decision, ws_error) io" where
  "destroy_if_terminal F M h state terminal_states =
     (if list_ex (\<lambda>terminal. terminal = state) terminal_states then destroy_workspace F M h else io_lift (Ok PreservedRetry))"

section \<open>The scan\<close>

text \<open>What becomes of one entry: skipped, a workspace or a refusal.\<close>

definition scan_entry ::
  "manager_prims \<Rightarrow> 'w fs_api \<Rightarrow> ws_manager \<Rightarrow> (dir_entry, io_error) result \<Rightarrow> ('w, (ws_handle + refused_workspace) option, ws_error) io" where
  "scan_entry P F M entry =
     (case entry of
        Err e \<Rightarrow> io_lift (Ok (Some (Inr \<lparr>rf_issue_id = ''(read_dir_entry)'', rf_path = wm_root M,
            rf_reason = mp_show_error P (WsReadDirEntry (wm_root M) (ie_text e))\<rparr>)))
      | Ok d \<Rightarrow>
          (case to_str (de_name d) of
             None \<Rightarrow> io_lift (Ok (Some (Inr \<lparr>rf_issue_id = from_utf8_lossy (as_bytes (de_name d)), rf_path = de_path d,
                 rf_reason = ''workspace name is not valid UTF-8''\<rparr>)))
           | Some name \<Rightarrow>
               if name = ORPHAN_QUARANTINE_DIR then io_lift (Ok None)
               else case sanitize_issue_identifier name of
                 Err e \<Rightarrow> io_lift (Ok (Some (Inr \<lparr>rf_issue_id = name, rf_path = de_path d, rf_reason = mp_show_containment P e\<rparr>)))
               | Ok sanitized \<Rightarrow>
                   (case issue_id_new sanitized of
                      Err e \<Rightarrow> io_lift (Ok (Some (Inr \<lparr>rf_issue_id = sanitized, rf_path = de_path d, rf_reason = mp_show_core P e\<rparr>)))
                    | Ok issue_id \<Rightarrow>
                        io_bind (io_try (validate_existing_directory F M (de_path d))) (\<lambda>r. io_lift (Ok (Some (case r of
                          Ok canonical \<Rightarrow> Inl \<lparr>hd_issue_id = issue_id, hd_path = canonical, hd_created_now = False\<rparr>
                        | Err e \<Rightarrow> Inr \<lparr>rf_issue_id = issue_id, rf_path = de_path d, rf_reason = mp_show_error P e\<rparr>)))))))"

fun scan_entries ::
  "manager_prims \<Rightarrow> 'w fs_api \<Rightarrow> ws_manager \<Rightarrow> (dir_entry, io_error) result list \<Rightarrow> ('w, workspace_scan, ws_error) io" where
  "scan_entries P F M [] = io_lift (Ok \<lparr>sn_workspaces = [], sn_refused = []\<rparr>)"
| "scan_entries P F M (entry # entries) =
     io_bind (scan_entry P F M entry) (\<lambda>r.
     io_bind (scan_entries P F M entries) (\<lambda>scan. io_lift (Ok (case r of
       None \<Rightarrow> scan
     | Some (Inl h) \<Rightarrow> scan\<lparr>sn_workspaces := h # sn_workspaces scan\<rparr>
     | Some (Inr f) \<Rightarrow> scan\<lparr>sn_refused := f # sn_refused scan\<rparr>))))"

definition list_workspace_directories :: "manager_prims \<Rightarrow> 'w fs_api \<Rightarrow> ws_manager \<Rightarrow> ('w, workspace_scan, ws_error) io" where
  "list_workspace_directories P F M =
     io_bind (io_map_err (\<lambda>e. WsReadDir (wm_root M) (ie_text e)) (fs_read_dir F (wm_root M))) (\<lambda>entries.
     io_bind (scan_entries P F M entries) (\<lambda>scan.
     io_lift (Ok \<lparr>sn_workspaces = sort_key (\<lambda>h. (hd_issue_id h, hd_path h)) (sn_workspaces scan),
       sn_refused = sort_key (\<lambda>r. (rf_issue_id r, rf_path r)) (sn_refused scan)\<rparr>)))"

section \<open>Quarantine\<close>

definition file_name_utf8 :: "path \<Rightarrow> (string, ws_error) result" where
  "file_name_utf8 p = ok_or (Option.bind (path_file_name p) to_str) (WsInvalidQuarantinePath p ''path has no UTF-8 file name'')"

definition validate_existing_quarantine_child ::
  "'w fs_api \<Rightarrow> ws_manager \<Rightarrow> path \<Rightarrow> path \<Rightarrow> string \<Rightarrow> ('w, path, ws_error) io" where
  "validate_existing_quarantine_child F M expected_parent p expected_name =
     (if \<not> path_is_absolute expected_parent \<or> \<not> path_is_absolute p
      then io_lift (Err (WsInvalidQuarantinePath p ''quarantine path is not absolute''))
      else
        io_bind (io_map_err (\<lambda>e. WsMetadata expected_parent (ie_text e)) (fs_canonicalize F expected_parent)) (\<lambda>canonical_parent.
        io_bind (io_map_err (\<lambda>e. WsMetadata p (ie_text e)) (fs_canonicalize F p)) (\<lambda>canonical.
        if \<not> prefix (wm_root M) canonical then io_lift (Err (WsInvalidQuarantinePath canonical ''quarantine path escapes workspace root''))
        else if path_parent canonical \<noteq> Some canonical_parent
        then io_lift (Err (WsInvalidQuarantinePath canonical ''quarantine path has unexpected parent''))
        else
          io_bind (io_lift (file_name_utf8 canonical)) (\<lambda>resolved_name.
          if resolved_name \<noteq> expected_name
          then io_lift (Err (WsInvalidQuarantinePath canonical ''quarantine path resolved name mismatch''))
          else
            io_bind (io_map_err (\<lambda>e. WsMetadata canonical (ie_text e)) (fs_metadata F canonical)) (\<lambda>is_dir.
            if \<not> is_dir then io_lift (Err (WsInvalidQuarantinePath canonical ''quarantine path is not a directory''))
            else io_lift (Ok canonical))))))"

fun with_containment_reason :: "string \<Rightarrow> ws_error \<Rightarrow> ws_error" where
  "with_containment_reason reason (WsInvalidQuarantinePath p r) = WsInvalidQuarantinePath p reason"
| "with_containment_reason reason e = e"

definition ensure_quarantine_dir ::
  "'w fs_api \<Rightarrow> ws_manager \<Rightarrow> path \<Rightarrow> path \<Rightarrow> string \<Rightarrow> string \<Rightarrow> ('w, path, ws_error) io" where
  "ensure_quarantine_dir F M p expected_parent expected_name containment_reason =
     io_bind (io_try (fs_symlink_metadata F p)) (\<lambda>meta.
     io_bind (case meta of
         Ok kind \<Rightarrow>
           if kind \<noteq> FileDir then io_lift (Err (WsInvalidQuarantinePath p ''quarantine path is not a real directory''))
           else io_lift (Ok ())
       | Err e \<Rightarrow>
           if ie_kind e = IoNotFound then
             io_bind (io_try (fs_create_dir F False p)) (\<lambda>created. case created of
               Ok _ \<Rightarrow> io_lift (Ok ())
             | Err e' \<Rightarrow>
                 if ie_kind e' \<noteq> IoAlreadyExists then io_lift (Err (WsCreateQuarantineDir p (ie_text e'))) else io_lift (Ok ()))
           else io_lift (Err (WsMetadata p (ie_text e)))) (\<lambda>_.
     io_map_err (with_containment_reason containment_reason) (validate_existing_quarantine_child F M expected_parent p expected_name)))"

definition prepare_quarantine_dir :: "'w fs_api \<Rightarrow> ws_manager \<Rightarrow> string \<Rightarrow> ('w, path, ws_error) io" where
  "prepare_quarantine_dir F M quarantine_namespace =
     io_bind (io_lift (map_err WsContainment (sanitize_issue_identifier quarantine_namespace))) (\<lambda>ns.
     io_bind (ensure_quarantine_dir F M (path_join (wm_root M) ORPHAN_QUARANTINE_DIR) (wm_root M) ORPHAN_QUARANTINE_DIR
               ''orphan quarantine root must remain a direct child of workspace root'') (\<lambda>orphan_root.
     ensure_quarantine_dir F M (path_join orphan_root ns) orphan_root ns
       ''orphan quarantine namespace must remain under quarantine root''))"

definition validate_new_quarantine_target :: "'w fs_api \<Rightarrow> ws_manager \<Rightarrow> path \<Rightarrow> path \<Rightarrow> string \<Rightarrow> ('w, unit, ws_error) io" where
  "validate_new_quarantine_target F M quarantine_dir target expected_name =
     io_bind (io_lift (map_err WsContainment (sanitize_issue_identifier expected_name))) (\<lambda>_.
     io_bind (io_lift (file_name_utf8 quarantine_dir)) (\<lambda>dir_name.
     io_bind (validate_existing_quarantine_child F M (path_join (wm_root M) ORPHAN_QUARANTINE_DIR) quarantine_dir dir_name) (\<lambda>_.
     io_bind (io_try (fs_symlink_metadata F target)) (\<lambda>meta. case meta of
       Ok _ \<Rightarrow> io_lift (Err (WsInvalidQuarantinePath target ''quarantine target already exists''))
     | Err e \<Rightarrow> if ie_kind e = IoNotFound then io_lift (Ok ()) else io_lift (Err (WsMetadata target (ie_text e)))))))"

definition quarantine_workspace_directory :: "'w fs_api \<Rightarrow> ws_manager \<Rightarrow> ws_handle \<Rightarrow> string \<Rightarrow> ('w, path, ws_error) io" where
  "quarantine_workspace_directory F M h quarantine_namespace =
     io_bind (validate_existing_directory F M (hd_path h)) (\<lambda>source.
     io_bind (io_lift (file_name_utf8 source)) (\<lambda>source_name.
     if source_name \<noteq> hd_issue_id h
     then io_lift (Err (WsInvalidQuarantinePath source ''workspace handle issue id does not match directory name''))
     else
       io_bind (prepare_quarantine_dir F M quarantine_namespace) (\<lambda>quarantine_dir.
       let target = path_join quarantine_dir source_name in
       io_bind (validate_new_quarantine_target F M quarantine_dir target source_name) (\<lambda>_.
       io_bind (io_map_err (\<lambda>e. WsMoveDir source target (ie_text e)) (fs_rename F source target)) (\<lambda>_.
       io_bind (validate_existing_quarantine_child F M quarantine_dir target source_name) (\<lambda>_.
       io_lift (Ok target)))))))"

end
