(* ===== verification/Workspace_Hooks.thy ===== *)
theory Workspace_Hooks
  imports Workspace_Manager
begin

text \<open>
  Hooks of the workspace manager (\<^verbatim>\<open>workspace/src/manager.rs\<close>): the environment a hook may see, the bounded capture of its
  output, and its execution inside a validated workspace. Processes are the record \<open>process_api\<close>.

  Lemmas: which environments are accepted, and what is captured of the output.
\<close>

section \<open>The environment\<close>

definition ascii_letter :: "char \<Rightarrow> bool" where
  "ascii_letter c \<longleftrightarrow> CHR ''A'' \<le> c \<and> c \<le> CHR ''Z'' \<or> CHR ''a'' \<le> c \<and> c \<le> CHR ''z''"

definition ascii_digit :: "char \<Rightarrow> bool" where
  "ascii_digit c \<longleftrightarrow> CHR ''0'' \<le> c \<and> c \<le> CHR ''9''"

definition validate_env_name :: "string \<Rightarrow> (unit, ws_error) result" where
  "validate_env_name name =
     (if name = [] then Err (WsInvalidHookEnv name ''name must not be empty'')
      else if length name > MAX_HOOK_ENV_NAME_BYTES then Err (WsInvalidHookEnv name ''name must be at most 255 bytes'')
      else if CHR 0x00 \<in> set name then Err (WsInvalidHookEnv name ''name must not contain NUL'')
      else if \<not> (ascii_letter (hd name) \<or> hd name = CHR ''_'')
      then Err (WsInvalidHookEnv name ''name must start with ASCII letter or underscore'')
      else if \<not> list_all (\<lambda>c. ascii_letter c \<or> ascii_digit c \<or> c = CHR ''_'') (tl name)
      then Err (WsInvalidHookEnv name ''name must contain only ASCII letters, digits, or underscore'')
      else Ok ())"

definition env_byte_reason :: "char \<Rightarrow> string option" where
  "env_byte_reason c =
     (if c = CHR 0x00 then Some ''value must not contain NUL''
      else if c = CHR 0x0A then Some ''value must not contain newline''
      else if c = CHR 0x0D then Some ''value must not contain carriage return''
      else if CHR 0x01 \<le> c \<and> c \<le> CHR 0x08 \<or> c = CHR 0x0B \<or> c = CHR 0x0C \<or> CHR 0x0E \<le> c \<and> c \<le> CHR 0x1F
      then Some ''value must not contain ASCII control bytes other than tab''
      else None)"

fun validate_env_value :: "string \<Rightarrow> string \<Rightarrow> (unit, ws_error) result" where
  "validate_env_value name [] = Ok ()"
| "validate_env_value name (c # s) =
     (case env_byte_reason c of Some reason \<Rightarrow> Err (WsInvalidHookEnv name reason) | None \<Rightarrow> validate_env_value name s)"

definition is_sensitive_env_name :: "string \<Rightarrow> bool" where
  "is_sensitive_env_name name =
     (let uppercase = to_ascii_uppercase name in suffix ''_TOKEN'' uppercase \<or> suffix ''_KEY'' uppercase \<or> suffix ''_SECRET'' uppercase)"

definition is_dangerous_env_name :: "string \<Rightarrow> bool" where
  "is_dangerous_env_name name \<longleftrightarrow>
     to_ascii_uppercase name \<in> set [''BASH_ENV'', ''ENV'', ''SHELLOPTS'', ''CDPATH'', ''LD_PRELOAD'', ''LD_LIBRARY_PATH'']"

definition check_env_var :: "ws_config \<Rightarrow> string \<times> string \<Rightarrow> (unit, ws_error) result" where
  "check_env_var cfg v =
     (case v of (name, val) \<Rightarrow>
        and_then (validate_env_name name) (\<lambda>_.
        and_then (validate_env_value name val) (\<lambda>_.
        if is_sensitive_env_name name \<and> name \<notin> set (wc_sensitive_env_allowlist cfg) then Err (WsSensitiveHookEnvDenied name)
        else if is_dangerous_env_name name then Err (WsDangerousHookEnvDenied name)
        else Ok ())))"

fun build_hook_env :: "ws_config \<Rightarrow> (string, string) btree_map \<Rightarrow> ((string, string) btree_map, ws_error) result" where
  "build_hook_env cfg [] = Ok []"
| "build_hook_env cfg (v # vs) = and_then (check_env_var cfg v) (\<lambda>_. and_then (build_hook_env cfg vs) (\<lambda>vars. Ok (v # vars)))"

section \<open>Captured output\<close>

record captured_output =
  co_text :: string
  co_truncated :: bool

definition captured_from_bytes :: "bytes \<Rightarrow> bool \<Rightarrow> captured_output" where
  "captured_from_bytes bs was_cut =
     \<lparr>co_text = (if was_cut then from_utf8_lossy bs @ [CHR 0x0A] @ ''[hook output truncated]'' @ [CHR 0x0A] else from_utf8_lossy bs), co_truncated = was_cut\<rparr>"

definition aborted_after_timeout :: captured_output where
  "aborted_after_timeout = \<lparr>co_text = ''[hook output collection aborted after timeout]'' @ [CHR 0x0A], co_truncated = True\<rparr>"

definition captured_into_option :: "captured_output \<Rightarrow> string option" where
  "captured_into_option c = (if co_text c = [] \<and> \<not> co_truncated c then None else Some (co_text c))"

text \<open>The loop of \<^verbatim>\<open>read_limited\<close> over the chunks that the reads return; an empty chunk is the end of the stream.\<close>

fun read_chunks :: "int \<Rightarrow> bytes \<Rightarrow> bool \<Rightarrow> (bytes, io_error) result list \<Rightarrow> (bytes \<times> bool, io_error) result" where
  "read_chunks limit out was_cut [] = Ok (out, was_cut)"
| "read_chunks limit out was_cut (Err e # chunks) = Err e"
| "read_chunks limit out was_cut (Ok chunk # chunks) =
     (if chunk = [] then Ok (out, was_cut)
      else
        let remaining = max 0 (limit - int (length out)) in
        if remaining = 0 then read_chunks limit out True chunks
        else
          let to_copy = min remaining (int (length chunk)) in
          read_chunks limit (out @ take (nat to_copy) chunk) (was_cut \<or> to_copy < int (length chunk)) chunks)"

definition read_limited :: "int \<Rightarrow> (bytes, io_error) result list \<Rightarrow> (captured_output, io_error) result" where
  "read_limited limit chunks = and_then (read_chunks limit [] False chunks) (\<lambda>(out, was_cut). Ok (captured_from_bytes out was_cut))"

section \<open>Running a hook\<close>

text \<open>How the reader task of a pipe ended: with the chunks it read, with a failed join, or not within the drain time after
  the timeout of the hook.\<close>

datatype reader_end = ReaderDone "(bytes, io_error) result list" | ReaderJoinError string | ReaderElapsed

datatype hook_wait = WaitExited bool "int option" | WaitFailed io_error | WaitElapsed

record spawned_child =
  ch_id :: nat
  ch_stdout :: bool
  ch_stderr :: bool

text \<open>A process to start, as the builder \<^verbatim>\<open>Command\<close> describes it: \<open>cm_env_clear\<close> says that the inherited environment is dropped before
  \<open>cm_envs\<close> is added, \<open>cm_process_group\<close> that the process leads a group of its own. \<open>px_spawn\<close> starts it;
  \<open>px_wait_timeout\<close> waits for its end at most so many milliseconds.\<close>

record hook_command =
  cm_program :: string
  cm_args :: "string list"
  cm_current_dir :: path
  cm_env_clear :: bool
  cm_envs :: "(string, string) btree_map"
  cm_piped :: bool
  cm_kill_on_drop :: bool
  cm_process_group :: bool

record 'w process_api =
  px_spawn :: "hook_command \<Rightarrow> ('w, spawned_child, io_error) io"
  px_wait_timeout :: "spawned_child \<Rightarrow> u64 \<Rightarrow> 'w \<Rightarrow> hook_wait \<times> 'w"
  px_kill_group :: "spawned_child \<Rightarrow> 'w \<Rightarrow> 'w"
  px_reap :: "spawned_child \<Rightarrow> 'w \<Rightarrow> 'w"
  px_reader :: "spawned_child \<Rightarrow> string \<Rightarrow> bool \<Rightarrow> 'w \<Rightarrow> reader_end \<times> 'w"

record hook_report =
  hr_status :: hook_status
  hr_exit_code :: "int option"
  hr_stdout :: "string option"
  hr_stderr :: "string option"

definition finish_output_task ::
  "int \<Rightarrow> 'w process_api \<Rightarrow> spawned_child \<Rightarrow> string \<Rightarrow> bool \<Rightarrow> ('w, captured_output, ws_error) io" where
  "finish_output_task limit X child stream timed_out w =
     (case px_reader X child stream timed_out w of (r, w') \<Rightarrow>
        (case r of
           ReaderDone chunks \<Rightarrow> map_err (\<lambda>e. WsHookOutputRead stream (ie_text e)) (read_limited limit chunks)
         | ReaderJoinError msg \<Rightarrow> Err (WsHookOutputJoin stream msg)
         | ReaderElapsed \<Rightarrow> Ok aborted_after_timeout, w'))"

definition BASH_PATH :: string where
  "BASH_PATH = ''/bin/bash''"

definition hook_command_of :: "path \<Rightarrow> string \<Rightarrow> (string, string) btree_map \<Rightarrow> hook_command" where
  "hook_command_of workdir script vars =
     \<lparr>cm_program = BASH_PATH, cm_args = [''-e'', ''-u'', ''-o'', ''pipefail'', ''-c'', script], cm_current_dir = workdir,
      cm_env_clear = True, cm_envs = vars, cm_piped = True, cm_kill_on_drop = True, cm_process_group = True\<rparr>"

definition await_hook ::
  "'w process_api \<Rightarrow> string \<Rightarrow> spawned_child \<Rightarrow> u64 \<Rightarrow> ('w, (bool \<times> int option) option, ws_error) io" where
  "await_hook X hook_name child timeout_ms w =
     (case px_wait_timeout X child timeout_ms w of (r, w') \<Rightarrow>
        (case r of
           WaitExited success code \<Rightarrow> (Ok (Some (success, code)), w')
         | WaitFailed e \<Rightarrow> (Err (WsHookWait hook_name (ie_text e)), w')
         | WaitElapsed \<Rightarrow> (Ok None, px_reap X child (px_kill_group X child w'))))"

definition run_hook_in_dir ::
  "'w process_api \<Rightarrow> ws_manager \<Rightarrow> path \<Rightarrow> hook \<Rightarrow> (string, string) btree_map \<Rightarrow> ('w, hook_report, ws_error) io" where
  "run_hook_in_dir X M workdir h env =
     (let hook_name = hook_name_str (hk_name h); limit = wc_hook_output_limit_bytes (wm_config M) in
      io_bind (io_lift (build_hook_env (wm_config M) env)) (\<lambda>vars.
      io_bind (io_map_err (\<lambda>e. WsHookSpawn hook_name (ie_text e)) (px_spawn X (hook_command_of workdir (hk_script h) vars))) (\<lambda>child.
      if \<not> ch_stdout child then io_lift (Err (WsHookPipeMissing hook_name ''stdout''))
      else if \<not> ch_stderr child then io_lift (Err (WsHookPipeMissing hook_name ''stderr''))
      else
        io_bind (await_hook X hook_name child (hk_timeout_ms h)) (\<lambda>status.
        io_bind (finish_output_task limit X child ''stdout'' (status = None)) (\<lambda>out.
        io_bind (finish_output_task limit X child ''stderr'' (status = None)) (\<lambda>err.
        io_lift (Ok
          \<lparr>hr_status = (case status of None \<Rightarrow> HookTimedOut | Some (success, _) \<Rightarrow> if success then HookSucceeded else HookFailed),
           hr_exit_code = Option.bind status snd, hr_stdout = captured_into_option out, hr_stderr = captured_into_option err\<rparr>)))))))"

text \<open>The workspace is validated before the hook starts and again after it has ended.\<close>

definition run_hook_in ::
  "'w fs_api \<Rightarrow> 'w process_api \<Rightarrow> ws_manager \<Rightarrow> ws_handle \<Rightarrow> hook \<Rightarrow> (string, string) btree_map \<Rightarrow> ('w, hook_report, ws_error) io" where
  "run_hook_in F X M h hk env =
     io_bind (validate_existing_directory F M (hd_path h)) (\<lambda>workdir.
     io_bind (run_hook_in_dir X M workdir hk env) (\<lambda>outcome.
     io_bind (validate_existing_directory F M (hd_path h)) (\<lambda>_.
     io_lift (Ok outcome))))"

definition run_hook_at_root ::
  "'w process_api \<Rightarrow> ws_manager \<Rightarrow> hook \<Rightarrow> (string, string) btree_map \<Rightarrow> ('w, hook_report, ws_error) io" where
  "run_hook_at_root X M hk env = run_hook_in_dir X M (wm_root M) hk env"

section \<open>Lemmas\<close>

definition env_name_wf :: "string \<Rightarrow> bool" where
  "env_name_wf name \<longleftrightarrow> name \<noteq> [] \<and> length name \<le> 255 \<and> \<not> ascii_digit (hd name) \<and> list_all (\<lambda>c. ascii_letter c \<or> ascii_digit c \<or> c = CHR ''_'') name"

definition env_value_wf :: "string \<Rightarrow> bool" where
  "env_value_wf s \<longleftrightarrow> (\<forall>c \<in> set s. CHR 0x20 \<le> c \<or> c = CHR 0x09)"

definition env_var_allowed :: "ws_config \<Rightarrow> string \<Rightarrow> string \<Rightarrow> bool" where
  "env_var_allowed cfg name val \<longleftrightarrow> env_name_wf name \<and> env_value_wf val \<and> \<not> is_dangerous_env_name name \<and>
     (is_sensitive_env_name name \<longrightarrow> name \<in> set (wc_sensitive_env_allowlist cfg))"

lemma digit_not_letter: "ascii_digit c \<Longrightarrow> \<not> ascii_letter c"
proof -
  have "CHR ''9'' < CHR ''A''" "CHR ''9'' < CHR ''a''" by simp_all
  then show "ascii_digit c \<Longrightarrow> \<not> ascii_letter c"
    by (metis ascii_digit_def ascii_letter_def le_less_trans not_le)
qed

lemma validate_env_name_Ok: "validate_env_name name = Ok u \<longleftrightarrow> env_name_wf name"
proof (cases name)
  case (Cons c s)
  have "\<not> ascii_letter (CHR 0x00)" "\<not> ascii_digit (CHR 0x00)" "\<not> ascii_digit (CHR ''_'')"
    by (simp_all add: ascii_letter_def ascii_digit_def)
  then show ?thesis using digit_not_letter [of c]
    by (auto simp: validate_env_name_def env_name_wf_def MAX_HOOK_ENV_NAME_BYTES_def Cons list_all_iff)
qed (simp add: validate_env_name_def env_name_wf_def)

lemma env_byte_reason_None: "env_byte_reason c = None \<longleftrightarrow> CHR 0x20 \<le> c \<or> c = CHR 0x09"
proof -
  have eq: "c = d \<longleftrightarrow> of_char c = (of_char d :: nat)" for d by simp
  show ?thesis
    unfolding env_byte_reason_def less_eq_char_def eq by (simp del: of_char_eq_iff) presburger
qed

lemma validate_env_value_Ok: "validate_env_value name s = Ok u \<longleftrightarrow> env_value_wf s"
  by (induction s) (auto simp: env_value_wf_def env_byte_reason_None [symmetric] split: option.splits)

lemma check_env_var_Ok: "check_env_var cfg (name, val) = Ok () \<longleftrightarrow> env_var_allowed cfg name val"
proof -
  have "check_env_var cfg (name, val) = Ok () \<longleftrightarrow> validate_env_name name = Ok () \<and> validate_env_value name val = Ok () \<and>
      (is_sensitive_env_name name \<longrightarrow> name \<in> set (wc_sensitive_env_allowlist cfg)) \<and> \<not> is_dangerous_env_name name"
    by (cases "validate_env_name name"; cases "validate_env_value name val") (auto simp: check_env_var_def)
  then show ?thesis by (auto simp: env_var_allowed_def validate_env_name_Ok validate_env_value_Ok)
qed

lemma build_hook_env_Ok: "build_hook_env cfg env = Ok vars \<longleftrightarrow> vars = env \<and> (\<forall>(name, val) \<in> set env. env_var_allowed cfg name val)"
proof (induction env arbitrary: vars)
  case (Cons v env)
  obtain name val where v: "v = (name, val)" by (cases v)
  have "build_hook_env cfg (v # env) = Ok vars \<longleftrightarrow> check_env_var cfg v = Ok () \<and> (\<exists>vs. build_hook_env cfg env = Ok vs \<and> vars = v # vs)"
    by (cases "check_env_var cfg v"; cases "build_hook_env cfg env") auto
  then show ?case by (auto simp: Cons v check_env_var_Ok)
qed auto

text \<open>The bounded capture keeps the first \<open>limit\<close> bytes of the stream and notes exactly whether something was left out.\<close>

fun stream_bytes :: "(bytes, io_error) result list \<Rightarrow> bytes" where
  "stream_bytes (Ok chunk # chunks) = (if chunk = [] then [] else chunk @ stream_bytes chunks)"
| "stream_bytes _ = []"

fun stream_ok :: "(bytes, io_error) result list \<Rightarrow> bool" where
  "stream_ok [] = True"
| "stream_ok (Err e # chunks) = False"
| "stream_ok (Ok chunk # chunks) = (chunk = [] \<or> stream_ok chunks)"

lemma read_chunks_spec:
  assumes "stream_ok chunks" and "int (length out) \<le> limit" and "was_cut \<longrightarrow> int (length out) = limit"
  shows "read_chunks limit out was_cut chunks =
    Ok (take (nat limit) (out @ stream_bytes chunks), was_cut \<or> limit < int (length (out @ stream_bytes chunks)))"
  using assms
proof (induction chunks arbitrary: out was_cut)
  case (Cons c chunks)
  then obtain chunk where c: "c = Ok chunk" by (cases c) auto
  consider (eof) "chunk = []" | (full) "chunk \<noteq> []" "int (length out) = limit" | (room) "chunk \<noteq> []" "int (length out) < limit"
    using Cons.prems(2) by linarith
  then show ?case
  proof cases
    case full
    then have "0 < length chunk" by simp
    then show ?thesis using Cons full c by (auto simp del: length_greater_0_conv)
  next
    case room
    define r where "r = nat (limit - int (length out))"
    have r: "limit = int (length out) + int r" "0 < r" "nat limit = length out + r" and cut: "\<not> was_cut"
      using room Cons.prems(3) by (auto simp: r_def)
    have step: "read_chunks limit out was_cut (Ok chunk # chunks) =
        read_chunks limit (out @ take r chunk) (int r < int (length chunk)) chunks"
      using room(1) r(1,2) cut by (auto simp: Let_def min_def)
    show ?thesis using room(1) cut r Cons.prems Cons.IH [of "out @ take r chunk" "int r < int (length chunk)"]
      unfolding c step by (auto simp: min_def)
  qed (use Cons c in auto)
qed auto

end
