(* ===== verification/Workspace_Confined.thy ===== *)
theory Workspace_Confined
  imports Workspace_Hooks
begin

text \<open>
  What the calls of the workspace manager can change. \<open>confined_fs\<close> states the documented behaviour of the file system that
  the manager rests on: reads change nothing, a resolved path resolves to itself, and creating, removing or renaming
  an entry of a resolved directory at or below the root changes nothing outside the root. Paths that were not
  resolved are not covered, so the guarantee needs every check that the code makes.

  Lemmas: every call keeps what lies outside the root; where a quarantined directory ends up; which processes start.
\<close>

section \<open>The file system\<close>

definition resolved :: "'w fs_api \<Rightarrow> path \<Rightarrow> 'w \<Rightarrow> bool" where
  "resolved F p w \<longleftrightarrow> fst (fs_canonicalize F p w) = Ok p"

definition outside_kept :: "'w fs_api \<Rightarrow> path \<Rightarrow> ('w \<Rightarrow> 'o) \<Rightarrow> 'w \<Rightarrow> 'w \<Rightarrow> bool" where
  "outside_kept F root out w w' \<longleftrightarrow> (resolved F root w \<longrightarrow> out w' = out w \<and> resolved F root w')"

definition pure_reads :: "'w fs_api \<Rightarrow> bool" where
  "pure_reads F \<longleftrightarrow> (\<forall>p w. snd (fs_canonicalize F p w) = w \<and> snd (fs_metadata F p w) = w \<and> snd (fs_symlink_metadata F p w) = w \<and>
     snd (fs_read_dir F p w) = w)"

definition confined_fs :: "'w fs_api \<Rightarrow> path \<Rightarrow> ('w \<Rightarrow> 'o) \<Rightarrow> bool" where
  "confined_fs F root out \<longleftrightarrow> pure_reads F \<and>
     (\<forall>p q w. fst (fs_canonicalize F p w) = Ok q \<longrightarrow> resolved F q w) \<and>
     (\<forall>d n w. prefix root d \<and> resolved F d w \<longrightarrow>
        (\<forall>b. outside_kept F root out w (snd (fs_create_dir F b (d @ [Normal n]) w)) \<and> resolved F d (snd (fs_create_dir F b (d @ [Normal n]) w)) \<and>
           (\<forall>w'. fs_create_dir F b (d @ [Normal n]) w = (Ok (), w') \<longrightarrow> outside_kept F root out w' (snd (fs_set_private F (d @ [Normal n]) w')))) \<and>
        (\<forall>m. outside_kept F root out w (snd (fs_rename F (root @ [Normal m]) (d @ [Normal n]) w)))) \<and>
     (\<forall>n w. resolved F (root @ [Normal n]) w \<longrightarrow> outside_kept F root out w (snd (fs_remove_dir_all F (root @ [Normal n]) w)))"

interpretation outside: state_preorder "outside_kept F root out" for F root out
  by unfold_locales (auto simp: outside_kept_def)

section \<open>Operations from one state\<close>

definition keeps_at :: "('s \<Rightarrow> 's \<Rightarrow> bool) \<Rightarrow> ('s, 'a, 'e) io \<Rightarrow> 's \<Rightarrow> bool" where
  "keeps_at le m s \<longleftrightarrow> le s (snd (m s))"

named_theorems keeps_at_rules \<open>an operation relates its final state to one initial state\<close>

lemma keeps_at_if [keeps_at_rules]:
  "(b \<Longrightarrow> keeps_at le m s) \<Longrightarrow> (\<not> b \<Longrightarrow> keeps_at le m' s) \<Longrightarrow> keeps_at le (if b then m else m') s"
  by simp

lemma keeps_at_case_result [keeps_at_rules]:
  "(\<And>x. r = Ok x \<Longrightarrow> keeps_at le (f x) s) \<Longrightarrow> (\<And>e. r = Err e \<Longrightarrow> keeps_at le (g e) s) \<Longrightarrow>
   keeps_at le (case r of Ok x \<Rightarrow> f x | Err e \<Rightarrow> g e) s"
  by (cases r) simp_all

lemma keeps_at_case_prod [keeps_at_rules]:
  "(\<And>a b. p = (a, b) \<Longrightarrow> keeps_at le (f a b) s) \<Longrightarrow> keeps_at le (case p of (a, b) \<Rightarrow> f a b) s"
  by (cases p) simp

lemma keeps_at_map_err [keeps_at_rules]: "keeps_at le m s \<Longrightarrow> keeps_at le (io_map_err g m) s"
  by (simp add: keeps_at_def io_map_err_def case_prod_unfold)

lemma keeps_at_try [keeps_at_rules]: "keeps_at le m s \<Longrightarrow> keeps_at le (io_try m) s"
  by (simp add: keeps_at_def io_try_def case_prod_unfold)

lemma keeps_at_let [keeps_at_rules]: "(\<And>x. x = v \<Longrightarrow> keeps_at le (f x) s) \<Longrightarrow> keeps_at le (let x = v in f x) s"
  by simp

context state_preorder
begin

lemma keeps_at_lift: "keeps_at le (io_lift r) s"
  by (simp add: keeps_at_def io_lift_def refl)

lemma keeps_at_read: "snd (m s) = s \<Longrightarrow> keeps_at le m s"
  by (simp add: keeps_at_def refl)

lemma keeps_at_bind:
  assumes "keeps_at le m s" and "\<And>x s'. m s = (Ok x, s') \<Longrightarrow> keeps_at le (f x) s'"
  shows "keeps_at le (io_bind m f) s"
proof -
  obtain r s1 where m: "m s = (r, s1)" by force
  show ?thesis
    using assms trans by (cases r) (auto simp: keeps_at_def io_bind_def m)
qed

end

lemmas outside_rules = outside.keeps_at_lift outside.keeps_at_bind keeps_at_rules

section \<open>Reads\<close>

definition reads :: "('s, 'a, 'e) io \<Rightarrow> bool" where
  "reads m \<longleftrightarrow> (\<forall>s. snd (m s) = s)"

named_theorems reads_rules \<open>an operation that leaves the state as it is\<close>

lemma reads_lift [reads_rules]: "reads (io_lift r)"
  by (simp add: reads_def io_lift_def)

lemma reads_bind [reads_rules]: "reads m \<Longrightarrow> (\<And>x. reads (f x)) \<Longrightarrow> reads (io_bind m f)"
  by (simp add: reads_def io_bind_def split: prod.splits result.splits) (metis snd_conv)

lemma reads_map_err [reads_rules]: "reads m \<Longrightarrow> reads (io_map_err g m)"
  by (simp add: reads_def io_map_err_def case_prod_unfold)

lemma reads_try [reads_rules]: "reads m \<Longrightarrow> reads (io_try m)"
  by (simp add: reads_def io_try_def case_prod_unfold)

lemma reads_if [reads_rules]: "reads m \<Longrightarrow> reads m' \<Longrightarrow> reads (if b then m else m')"
  by simp

lemma reads_case_result [reads_rules]: "(\<And>x. reads (f x)) \<Longrightarrow> (\<And>e. reads (g e)) \<Longrightarrow> reads (case r of Ok x \<Rightarrow> f x | Err e \<Rightarrow> g e)"
  by (cases r) simp_all

lemma reads_case_option [reads_rules]: "reads m \<Longrightarrow> (\<And>x. reads (f x)) \<Longrightarrow> reads (case v of None \<Rightarrow> m | Some x \<Rightarrow> f x)"
  by (cases v) simp_all

lemma readsD: "reads m \<Longrightarrow> m s = (r, s') \<Longrightarrow> s' = s"
  by (metis reads_def snd_conv)

lemma pure_reads_rules:
  assumes "pure_reads F"
  shows "reads (fs_canonicalize F p)" "reads (fs_metadata F p)" "reads (fs_symlink_metadata F p)" "reads (fs_read_dir F p)"
  using assms by (simp_all add: pure_reads_def reads_def)

lemma validate_existing_directory_reads: "pure_reads F \<Longrightarrow> reads (validate_existing_directory F M p)"
  unfolding validate_existing_directory_def validate_existing_workspace_path_def by (intro reads_rules pure_reads_rules)

lemma validate_quarantine_child_reads: "pure_reads F \<Longrightarrow> reads (validate_existing_quarantine_child F M d p n)"
  unfolding validate_existing_quarantine_child_def by (intro reads_rules pure_reads_rules)

lemma list_workspaces_reads: "pure_reads F \<Longrightarrow> reads (list_workspace_directories P F M)"
proof -
  assume F: "pure_reads F"
  have "reads (scan_entries P F M es)" for es
    by (induction es) (auto simp: scan_entry_def intro!: reads_rules validate_existing_directory_reads [OF F] split: result.splits)
  then show ?thesis unfolding list_workspace_directories_def by (intro reads_rules pure_reads_rules F)
qed

lemma confined_fsD:
  assumes "confined_fs F root out"
  shows "pure_reads F"
    and "fs_canonicalize F p w = (Ok q, w') \<Longrightarrow> resolved F q w \<and> w' = w"
    and "prefix root d \<Longrightarrow> resolved F d w \<Longrightarrow> keeps_at (outside_kept F root out) (fs_create_dir F b (d @ [Normal n])) w"
    and "prefix root d \<Longrightarrow> resolved F d w \<Longrightarrow> fs_create_dir F b (d @ [Normal n]) w = (r, w') \<Longrightarrow> resolved F d w'"
    and "prefix root d \<Longrightarrow> resolved F d w \<Longrightarrow> fs_create_dir F b (d @ [Normal n]) w = (Ok (), w') \<Longrightarrow>
           keeps_at (outside_kept F root out) (fs_set_private F (d @ [Normal n])) w'"
    and "prefix root d \<Longrightarrow> resolved F d w \<Longrightarrow> keeps_at (outside_kept F root out) (fs_rename F (root @ [Normal m]) (d @ [Normal n])) w"
    and "resolved F (root @ [Normal n]) w \<Longrightarrow> keeps_at (outside_kept F root out) (fs_remove_dir_all F (root @ [Normal n])) w"
proof -
  show "pure_reads F" using assms by (simp add: confined_fs_def)
  from readsD [OF pure_reads_rules(1) [OF this]] show "fs_canonicalize F p w = (Ok q, w') \<Longrightarrow> resolved F q w \<and> w' = w"
    using assms unfolding confined_fs_def by (metis fst_conv)
  show "prefix root d \<Longrightarrow> resolved F d w \<Longrightarrow> fs_create_dir F b (d @ [Normal n]) w = (r, w') \<Longrightarrow> resolved F d w'"
    using assms unfolding confined_fs_def by (metis snd_conv)
qed (use assms in \<open>simp_all add: confined_fs_def keeps_at_def\<close>)

section \<open>Creation and removal\<close>

lemma validate_existing_directory_Ok:
  assumes "confined_fs F root out" and "wm_root M = root" and "validate_existing_directory F M p w = (Ok q, w')"
  obtains n where "safe_name n" and "q = root @ [Normal n]" and "resolved F q w" and "w' = w" and "path_file_name p = Some n"
    and "path_is_absolute root"
proof -
  from assms(2,3) obtain w1 where v: "validate_existing_workspace_path F root p w = (Ok q, w1)"
    by (auto simp: validate_existing_directory_def io_bind_Ok_iff split: if_splits)
  from validate_existing_Ok [OF v] obtain n where "safe_name n" "q = root @ [Normal n]" "fs_canonicalize F p w = (Ok q, w1)"
    "path_file_name p = Some n" "path_is_absolute root" by blast
  moreover have "w' = w" using readsD [OF validate_existing_directory_reads assms(3)] confined_fsD(1) [OF assms(1)] by blast
  ultimately show ?thesis using confined_fsD(2) [OF assms(1)] that by blast
qed

lemma reads_keeps_at: "reads m \<Longrightarrow> keeps_at (outside_kept F root out) m w"
  by (rule outside.keeps_at_read) (simp add: reads_def)

lemma create_for_issue_confined:
  assumes F: "confined_fs F root out" and M: "wm_root M = root" and w: "resolved F root w"
  shows "keeps_at (outside_kept F root out) (create_for_issue F M i) w"
proof -
  note pure = confined_fsD(1) [OF F]
  note v = reads_keeps_at [OF validate_existing_directory_reads [OF pure]]
  have "keeps_at (outside_kept F root out) (create_or_reuse_directory F M (root @ [Normal n])) w" for n
    unfolding create_or_reuse_directory_def
    by (intro outside_rules v reads_keeps_at [OF pure_reads_rules(3) [OF pure]])
       (auto dest!: readsD [OF pure_reads_rules(3) [OF pure]] intro: confined_fsD(3,5) [OF F prefix_order.refl w])
  then show ?thesis
    unfolding create_for_issue_def issue_path_def
    by (intro outside_rules)
       (auto simp: sanitize_Ok_iff deterministic_path_safe M split: result.splits)
qed

lemma destroy_workspace_confined:
  assumes F: "confined_fs F root out" and M: "wm_root M = root"
  shows "keeps_at (outside_kept F root out) (destroy_workspace F M h) w"
proof -
  note pure = confined_fsD(1) [OF F]
  have rm: "keeps_at (outside_kept F root out) (fs_remove_dir_all F q) w'" if "validate_existing_directory F M p w1 = (Ok q, w')" for p q w1 w'
    using validate_existing_directory_Ok [OF F M that] confined_fsD(7) [OF F] by metis
  show ?thesis
    unfolding destroy_workspace_def
    by (intro outside_rules reads_keeps_at [OF validate_existing_directory_reads [OF pure]] reads_keeps_at [OF pure_reads_rules(3) [OF pure]])
       (auto intro: rm)
qed

section \<open>Quarantine\<close>

lemma path_join_orphaned: "path_join root ORPHAN_QUARANTINE_DIR = root @ [Normal ORPHAN_QUARANTINE_DIR]"
  by (simp add: path_join_def ORPHAN_QUARANTINE_DIR_def path_components_def path_is_absolute_def component_of_def map_filter_simps Let_def)

lemma path_join_safe: "safe_name n \<Longrightarrow> path_join d n = d @ [Normal n]"
  using deterministic_path_safe by (simp add: deterministic_path_def)

lemma file_name_utf8_Ok: "file_name_utf8 p = Ok n \<Longrightarrow> path_file_name p = Some n"
  by (auto simp: file_name_utf8_def dest: to_str_SomeD split: bind_splits option.splits)

lemma validate_quarantine_child_Ok:
  assumes F: "confined_fs F root out" and M: "wm_root M = root" and d: "resolved F d w"
    and run: "validate_existing_quarantine_child F M d p n w = (Ok q, w')"
  shows "q = d @ [Normal n] \<and> resolved F q w \<and> prefix root q \<and> w' = w"
proof -
  note [dest] = confined_fsD(2) [OF F]
  from run M obtain cp w1 w2 where c: "fs_canonicalize F d w = (Ok cp, w1)" "fs_canonicalize F p w1 = (Ok q, w2)"
    and q: "prefix root q" "path_parent q = Some cp" "file_name_utf8 q = Ok n"
    by (auto simp: validate_existing_quarantine_child_def io_bind_Ok_iff split: if_splits)
  from c(1) d have "cp = d" "w1 = w" by (auto simp: resolved_def)
  with c(2) q path_child [OF q(2) file_name_utf8_Ok [OF q(3)]]
    readsD [OF validate_quarantine_child_reads [OF confined_fsD(1) [OF F]] run] show ?thesis by blast
qed

lemma ensure_quarantine_dir_confined:
  assumes F: "confined_fs F root out" and M: "wm_root M = root" and d: "prefix root d" "resolved F d w"
  shows "keeps_at (outside_kept F root out) (ensure_quarantine_dir F M (d @ [Normal n]) d n reason) w"
    and "ensure_quarantine_dir F M (d @ [Normal n]) d n reason w = (Ok q, w') \<Longrightarrow> q = d @ [Normal n] \<and> resolved F q w' \<and> prefix root q"
proof -
  note pure = confined_fsD(1) [OF F]
  note meta = readsD [OF pure_reads_rules(3) [OF pure]]
  show "keeps_at (outside_kept F root out) (ensure_quarantine_dir F M (d @ [Normal n]) d n reason) w"
    unfolding ensure_quarantine_dir_def
    by (intro outside_rules reads_keeps_at [OF validate_quarantine_child_reads [OF pure]] reads_keeps_at [OF pure_reads_rules(3) [OF pure]])
       (auto dest!: meta intro: confined_fsD(3) [OF F d])
  assume "ensure_quarantine_dir F M (d @ [Normal n]) d n reason w = (Ok q, w')"
  moreover obtain r r' w2 where "fs_symlink_metadata F (d @ [Normal n]) w = (r, w)" and "fs_create_dir F False (d @ [Normal n]) w = (r', w2)"
    by (metis meta prod.collapse)
  ultimately obtain w1 where w1: "w1 = w \<or> (\<exists>r. fs_create_dir F False (d @ [Normal n]) w = (r, w1))"
    and v: "validate_existing_quarantine_child F M d (d @ [Normal n]) n w1 = (Ok q, w')"
    by (cases r; cases r') (auto simp: ensure_quarantine_dir_def io_bind_def io_try_def io_lift_def split: if_splits)
  from w1 have "resolved F d w1" using d confined_fsD(4) [OF F d] by blast
  from validate_quarantine_child_Ok [OF F M this v] show "q = d @ [Normal n] \<and> resolved F q w' \<and> prefix root q" by blast
qed

lemma prepare_quarantine_dir_confined:
  assumes F: "confined_fs F root out" and M: "wm_root M = root" and w: "resolved F root w"
  shows "keeps_at (outside_kept F root out) (prepare_quarantine_dir F M ns) w"
    and "prepare_quarantine_dir F M ns w = (Ok q, w') \<Longrightarrow>
           safe_name ns \<and> q = root @ [Normal ORPHAN_QUARANTINE_DIR, Normal ns] \<and> resolved F q w'"
proof -
  note ens = ensure_quarantine_dir_confined [OF F M]
  note top = ens [OF prefix_order.refl w]
  show "keeps_at (outside_kept F root out) (prepare_quarantine_dir F M ns) w"
    unfolding prepare_quarantine_dir_def
    by (intro outside_rules)
       (auto simp: M path_join_orphaned path_join_safe sanitize_Ok_iff intro!: top(1) ens(1) dest!: top(2) split: result.splits)
  assume "prepare_quarantine_dir F M ns w = (Ok q, w')"
  then obtain or w1 where ns: "safe_name ns"
    and top_run: "ensure_quarantine_dir F M (root @ [Normal ORPHAN_QUARANTINE_DIR]) root ORPHAN_QUARANTINE_DIR
       ''orphan quarantine root must remain a direct child of workspace root'' w = (Ok or, w1)"
    and sub: "ensure_quarantine_dir F M (path_join or ns) or ns ''orphan quarantine namespace must remain under quarantine root'' w1 = (Ok q, w')"
    by (auto simp: prepare_quarantine_dir_def io_bind_Ok_iff sanitize_Ok_iff M path_join_orphaned)
  from top(2) [OF top_run] have or: "or = root @ [Normal ORPHAN_QUARANTINE_DIR]" "resolved F or w1" "prefix root or" by blast+
  from ens(2) [OF or(3,2) sub [unfolded path_join_safe [OF ns]]] or(1) ns
  show "safe_name ns \<and> q = root @ [Normal ORPHAN_QUARANTINE_DIR, Normal ns] \<and> resolved F q w'" by auto
qed

lemma validate_new_target_reads: "pure_reads F \<Longrightarrow> reads (validate_new_quarantine_target F M d p n)"
  unfolding validate_new_quarantine_target_def by (intro reads_rules pure_reads_rules validate_quarantine_child_reads)

lemma quarantine_confined:
  assumes F: "confined_fs F root out" and M: "wm_root M = root" and w: "resolved F root w"
  shows "keeps_at (outside_kept F root out) (quarantine_workspace_directory F M h ns) w"
proof -
  note pure = confined_fsD(1) [OF F]
  note v = validate_existing_directory_Ok [OF F M]
  note prep = prepare_quarantine_dir_confined [OF F M w]
  have move: "keeps_at (outside_kept F root out) (fs_rename F source (path_join qd name)) w2"
    if "validate_existing_directory F M p w = (Ok source, w0)" "file_name_utf8 source = Ok name"
      "prepare_quarantine_dir F M ns w0 = (Ok qd, w1)" "validate_new_quarantine_target F M qd t name w1 = (Ok u, w2)" for p source name qd t u w0 w1 w2
  proof -
    from v [OF that(1)] obtain n where n: "safe_name n" "source = root @ [Normal n]" "w0 = w" by metis
    with file_name_utf8_Ok [OF that(2)] have "name = n" by (simp add: path_file_name_def)
    moreover have "w2 = w1" using readsD [OF validate_new_target_reads [OF pure] that(4)] .
    ultimately show ?thesis using prep(2) [OF that(3) [unfolded n(3)]] n confined_fsD(6) [OF F, of qd w1 n n] by (auto simp: path_join_safe)
  qed
  have stay: "w0 = w" if "validate_existing_directory F M p w = (r, w0)" for p r w0
    using readsD [OF validate_existing_directory_reads [OF pure] that] .
  show ?thesis
    unfolding quarantine_workspace_directory_def
    by (intro outside_rules reads_keeps_at [OF validate_existing_directory_reads [OF pure]] reads_keeps_at [OF validate_new_target_reads [OF pure]]
        reads_keeps_at [OF validate_quarantine_child_reads [OF pure]])
       (auto dest: stay intro: move prep(1))
qed

lemma quarantine_target:
  assumes F: "confined_fs F root out" and M: "wm_root M = root" and w: "resolved F root w"
    and run: "quarantine_workspace_directory F M h ns w = (Ok target, w')"
  shows "safe_name ns \<and> safe_name (hd_issue_id h) \<and> path_file_name (hd_path h) = Some (hd_issue_id h) \<and>
    target = root @ [Normal ORPHAN_QUARANTINE_DIR, Normal ns, Normal (hd_issue_id h)]"
proof -
  from run obtain source w0 qd w1 where v: "validate_existing_directory F M (hd_path h) w = (Ok source, w0)"
    and name: "file_name_utf8 source = Ok (hd_issue_id h)" and prep: "prepare_quarantine_dir F M ns w0 = (Ok qd, w1)"
    and t: "target = path_join qd (hd_issue_id h)"
    by (auto simp: quarantine_workspace_directory_def io_bind_Ok_iff Let_def split: if_splits)
  from validate_existing_directory_Ok [OF F M v] obtain n where n: "safe_name n" "source = root @ [Normal n]" "w0 = w"
    "path_file_name (hd_path h) = Some n" by metis
  with file_name_utf8_Ok [OF name] have "hd_issue_id h = n" by (simp add: path_file_name_def)
  with prepare_quarantine_dir_confined(2) [OF F M w prep [unfolded n(3)]] n t show ?thesis by (simp add: path_join_safe)
qed

section \<open>Sequences of calls\<close>

datatype ws_call =
    CallCreate issue
  | CallDestroy ws_handle
  | CallDestroyIfTerminal ws_handle string "string list"
  | CallList
  | CallQuarantine ws_handle string

definition run_ws_call :: "manager_prims \<Rightarrow> 'w fs_api \<Rightarrow> ws_manager \<Rightarrow> 'w \<Rightarrow> ws_call \<Rightarrow> 'w" where
  "run_ws_call P F M w c =
     (case c of
        CallCreate i \<Rightarrow> snd (create_for_issue F M i w)
      | CallDestroy h \<Rightarrow> snd (destroy_workspace F M h w)
      | CallDestroyIfTerminal h state terminal \<Rightarrow> snd (destroy_if_terminal F M h state terminal w)
      | CallList \<Rightarrow> snd (list_workspace_directories P F M w)
      | CallQuarantine h ns \<Rightarrow> snd (quarantine_workspace_directory F M h ns w))"

lemma run_ws_call_confined:
  assumes F: "confined_fs F root out" and M: "wm_root M = root" and w: "resolved F root w"
  shows "outside_kept F root out w (run_ws_call P F M w c)"
  using create_for_issue_confined [OF F M w] destroy_workspace_confined [OF F M] quarantine_confined [OF F M w]
    list_workspaces_reads [OF confined_fsD(1) [OF F], unfolded reads_def]
  unfolding keeps_at_def by (cases c) (auto simp: run_ws_call_def destroy_if_terminal_def io_lift_def outside_kept_def)

lemma run_ws_calls_confined:
  assumes F: "confined_fs F root out" and M: "wm_root M = root" and w: "resolved F root w"
  shows "out (foldl (run_ws_call P F M) w cs) = out w \<and> resolved F root (foldl (run_ws_call P F M) w cs)"
  using w
proof (induction cs arbitrary: w)
  case (Cons c cs)
  with run_ws_call_confined [OF F M Cons.prems] show ?case by (auto simp: outside_kept_def)
qed simp

section \<open>Processes\<close>

text \<open>The processes that a hook may start: the shell with the fixed options on the script, in the root or in a directory with a safe
  name right below it, with nothing of the inherited environment and admitted variables only, in a process group of
  its own that is killed when it is dropped.\<close>

definition spawn_allowed :: "ws_manager \<Rightarrow> string \<Rightarrow> hook_command \<Rightarrow> bool" where
  "spawn_allowed M script cmd \<longleftrightarrow>
     cm_program cmd = ''/bin/bash'' \<and> cm_args cmd = [''-e'', ''-u'', ''-o'', ''pipefail'', ''-c'', script] \<and>
     (cm_current_dir cmd = wm_root M \<or> (\<exists>n. safe_name n \<and> cm_current_dir cmd = wm_root M @ [Normal n])) \<and>
     cm_env_clear cmd \<and> (\<forall>(name, val) \<in> set (cm_envs cmd). env_var_allowed (wm_config M) name val) \<and>
     cm_kill_on_drop cmd \<and> cm_process_group cmd"

lemma io_bind_cong_Ok:
  assumes "\<And>x w'. m w = (Ok x, w') \<Longrightarrow> f x w' = g x w'"
  shows "io_bind m f w = io_bind m g w"
  using assms by (auto simp: io_bind_def split: prod.splits result.splits)

lemma run_hook_in_dir_allowed:
  assumes "\<And>cmd. spawn_allowed M (hk_script h) cmd \<Longrightarrow> sp cmd = px_spawn X cmd"
    and "workdir = wm_root M \<or> (\<exists>n. safe_name n \<and> workdir = wm_root M @ [Normal n])"
  shows "run_hook_in_dir (X\<lparr>px_spawn := sp\<rparr>) M workdir h env w = run_hook_in_dir X M workdir h env w"
proof -
  define X' where "X' = X\<lparr>px_spawn := sp\<rparr>"
  have same: "px_spawn X' (hook_command_of workdir (hk_script h) env) = px_spawn X (hook_command_of workdir (hk_script h) env)"
    if "build_hook_env (wm_config M) env = Ok env"
    using that assms by (auto simp: X'_def spawn_allowed_def hook_command_of_def BASH_PATH_def build_hook_env_Ok)
  have tasks: "finish_output_task l X' = finish_output_task l X" "await_hook X' = await_hook X" for l
    by (simp_all add: X'_def fun_eq_iff finish_output_task_def await_hook_def split: prod.splits hook_wait.splits)
  show ?thesis
  proof (cases "build_hook_env (wm_config M) env")
    case (Ok vars)
    moreover from this have "vars = env" by (simp add: build_hook_env_Ok)
    ultimately show ?thesis unfolding run_hook_in_dir_def Let_def X'_def [symmetric] tasks using same by simp
  qed (simp add: run_hook_in_dir_def)
qed

lemma run_hook_in_allowed:
  assumes "\<And>cmd. spawn_allowed M (hk_script hk) cmd \<Longrightarrow> sp cmd = px_spawn X cmd"
  shows "run_hook_in F (X\<lparr>px_spawn := sp\<rparr>) M h hk env w = run_hook_in F X M h hk env w"
  unfolding run_hook_in_def
proof (rule io_bind_cong_Ok)
  fix workdir w'
  assume "validate_existing_directory F M (hd_path h) w = (Ok workdir, w')"
  then obtain w1 where "validate_existing_workspace_path F (wm_root M) (hd_path h) w = (Ok workdir, w1)"
    by (auto simp: validate_existing_directory_def io_bind_Ok_iff split: if_splits)
  from validate_existing_Ok [OF this] have "run_hook_in_dir (X\<lparr>px_spawn := sp\<rparr>) M workdir hk env w' = run_hook_in_dir X M workdir hk env w'"
    by (intro run_hook_in_dir_allowed assms) auto
  then show "io_bind (run_hook_in_dir (X\<lparr>px_spawn := sp\<rparr>) M workdir hk env)
      (\<lambda>outcome. io_bind (validate_existing_directory F M (hd_path h)) (\<lambda>_. io_lift (Ok outcome))) w' =
    io_bind (run_hook_in_dir X M workdir hk env)
      (\<lambda>outcome. io_bind (validate_existing_directory F M (hd_path h)) (\<lambda>_. io_lift (Ok outcome))) w'"
    by (auto simp: io_bind_def)
qed

text \<open>What is captured of a pipe that is read without an error.\<close>

lemma finish_output_spec:
  assumes "px_reader X child stream timed_out w = (ReaderDone chunks, w')" and "stream_ok chunks" and "0 \<le> limit"
  shows "finish_output_task limit X child stream timed_out w =
    (Ok (captured_from_bytes (take (nat limit) (stream_bytes chunks)) (limit < int (length (stream_bytes chunks)))), w')"
  using assms(1) read_chunks_spec [OF assms(2), of "[]" limit False] assms(3)
  by (simp add: finish_output_task_def read_limited_def)

end
