(* ===== verification/Orphans.thy ===== *)
theory Orphans
  imports Workspace_Confined Reconcile
begin

text \<open>
  The sweep of orphaned workspaces at startup (\<^verbatim>\<open>orchestrator/orphans.rs\<close>) and the workspace manager as its provider
  (\<^verbatim>\<open>impl Workspace for Manager\<close>). A directory stays when a live claim of this agent names it or when it names an issue that is
  not finished; all others are moved into the quarantine.

  Lemmas: the summary accounts for every directory, the collected names are those live by the tracker's answer, no other directory
  than those is spared or withheld from the quarantine, and with the
  manager below it the sweep changes nothing outside the workspace root.
\<close>

section \<open>The sweep\<close>

record quarantined_orphan =
  qo_issue_id :: string
  qo_from :: path
  qo_to :: path

record refused_orphan =
  ro_issue_id :: string
  ro_path :: path
  ro_reason :: string

record orphan_sweep_summary =
  os_preserved :: "string list"
  os_quarantined :: "quarantined_orphan list"
  os_refused :: "refused_orphan list"

record 'w sweep_services =
  sw_list_workspaces :: "('w, workspace_scan, symphony_error) io"
  sw_quarantine_workspace :: "ws_handle \<Rightarrow> string \<Rightarrow> ('w, path, symphony_error) io"
  sw_fetch_claimed :: "string option \<Rightarrow> ('w, issue list, symphony_error) io"
  sw_fetch_by_ids :: "string list \<Rightarrow> ('w, issue list, symphony_error) io"
  sw_now :: "'w \<Rightarrow> instant \<times> 'w"
  sw_format_namespace :: "instant \<Rightarrow> string"
  sw_show_error :: "symphony_error \<Rightarrow> string"

definition sweep_now :: "'w sweep_services \<Rightarrow> ('w, instant, orch_error) io" where
  "sweep_now S w = (case sw_now S w of (t, w') \<Rightarrow> (Ok t, w'))"

text \<open>The set of names as the list of its elements.\<close>

fun add_live_names ::
  "chrono \<Rightarrow> 'w sweep_services \<Rightarrow> orch_config \<Rightarrow> issue list \<Rightarrow> string list \<Rightarrow> ('w, string list, orch_error) io" where
  "add_live_names T S cfg [] names = io_lift (Ok names)"
| "add_live_names T S cfg (i # is) names =
     (case iss_claim i of
        None \<Rightarrow> add_live_names T S cfg is names
      | Some c \<Rightarrow>
          io_bind (sweep_now S) (\<lambda>now.
          io_bind (io_lift (is_fresh_self T c (gs_agent_id (oc_gate cfg)) now (issue_claim_ttl i (oc_claim_ttl cfg)))) (\<lambda>fresh.
          add_live_names T S cfg is
            (if fresh
             then (case cl_issue_id c of
                     Some cid \<Rightarrow> List.insert cid (List.insert (iss_identifier i) (List.insert (iss_id i) names))
                   | None \<Rightarrow> List.insert (iss_identifier i) (List.insert (iss_id i) names))
             else names))))"

definition live_claim_workspace_names :: "chrono \<Rightarrow> 'w sweep_services \<Rightarrow> orch_config \<Rightarrow> ('w, string list, orch_error) io" where
  "live_claim_workspace_names T S cfg =
     io_bind (io_of_core (sw_fetch_claimed S (Some (gs_agent_id (oc_gate cfg))))) (\<lambda>claimed. add_live_names T S cfg claimed [])"

definition preserve_orphan_issue :: "orch_config \<Rightarrow> issue \<Rightarrow> bool" where
  "preserve_orphan_issue cfg i \<longleftrightarrow> iss_state i \<noteq> ''blocked'' \<and> \<not> list_ex (\<lambda>st. st = iss_state i) (oc_terminal_states cfg)"

definition refused_of :: "refused_workspace \<Rightarrow> refused_orphan" where
  "refused_of entry = \<lparr>ro_issue_id = rf_issue_id entry, ro_path = rf_path entry, ro_reason = rf_reason entry\<rparr>"

definition sweep_handle ::
  "'w sweep_services \<Rightarrow> orch_config \<Rightarrow> string list \<Rightarrow> (string, issue) btree_map \<Rightarrow> string \<Rightarrow> ws_handle \<Rightarrow> orphan_sweep_summary \<Rightarrow>
   ('w, orphan_sweep_summary, orch_error) io" where
  "sweep_handle S cfg live issue_by_id ns h summary =
     (if hd_issue_id h \<in> set live then io_lift (Ok (summary\<lparr>os_preserved := os_preserved summary @ [hd_issue_id h]\<rparr>))
      else if (case bt_get issue_by_id (hd_issue_id h) of Some i \<Rightarrow> preserve_orphan_issue cfg i | None \<Rightarrow> False)
      then io_lift (Ok (summary\<lparr>os_preserved := os_preserved summary @ [hd_issue_id h]\<rparr>))
      else
        io_bind (io_try (sw_quarantine_workspace S h ns)) (\<lambda>r. io_lift (Ok (case r of
          Ok to \<Rightarrow> summary\<lparr>os_quarantined := os_quarantined summary @ [\<lparr>qo_issue_id = hd_issue_id h, qo_from = hd_path h, qo_to = to\<rparr>]\<rparr>
        | Err e \<Rightarrow> summary\<lparr>os_refused := os_refused summary @
            [\<lparr>ro_issue_id = hd_issue_id h, ro_path = hd_path h, ro_reason = sw_show_error S e\<rparr>]\<rparr>))))"

fun sweep_handles ::
  "'w sweep_services \<Rightarrow> orch_config \<Rightarrow> string list \<Rightarrow> (string, issue) btree_map \<Rightarrow> string \<Rightarrow> ws_handle list \<Rightarrow> orphan_sweep_summary \<Rightarrow>
   ('w, orphan_sweep_summary, orch_error) io" where
  "sweep_handles S cfg live issue_by_id ns [] summary = io_lift (Ok summary)"
| "sweep_handles S cfg live issue_by_id ns (h # hs) summary =
     io_bind (sweep_handle S cfg live issue_by_id ns h summary) (sweep_handles S cfg live issue_by_id ns hs)"

definition sort_summary :: "orphan_sweep_summary \<Rightarrow> orphan_sweep_summary" where
  "sort_summary summary =
     \<lparr>os_preserved = sort (os_preserved summary), os_quarantined = sort_key qo_issue_id (os_quarantined summary),
      os_refused = sort_key (\<lambda>r. (ro_issue_id r, ro_path r)) (os_refused summary)\<rparr>"

definition sort_handles :: "ws_handle list \<Rightarrow> ws_handle list" where
  "sort_handles hs = sort_key (\<lambda>h. (hd_issue_id h, hd_path h)) hs"

definition issues_by_id :: "issue list \<Rightarrow> (string, issue) btree_map" where
  "issues_by_id is = foldl (\<lambda>m i. bt_insert (iss_id i) i m) [] is"

definition sweep_orphans :: "chrono \<Rightarrow> 'w sweep_services \<Rightarrow> orch_config \<Rightarrow> ('w, orphan_sweep_summary, orch_error) io" where
  "sweep_orphans T S cfg =
     io_bind (io_of_core (sw_list_workspaces S)) (\<lambda>scan.
     io_bind (live_claim_workspace_names T S cfg) (\<lambda>live.
     let handles = sort_handles (sn_workspaces scan);
         orphan_ids = map hd_issue_id (filter (\<lambda>h. hd_issue_id h \<notin> set live) handles) in
     io_bind (io_of_core (sw_fetch_by_ids S orphan_ids)) (\<lambda>issues.
     io_bind (sweep_now S) (\<lambda>now.
     io_bind (sweep_handles S cfg live (issues_by_id issues) (sw_format_namespace S now) handles
               \<lparr>os_preserved = [], os_quarantined = [], os_refused = map refused_of (sn_refused scan)\<rparr>) (\<lambda>summary.
     io_lift (Ok (sort_summary summary)))))))"

section \<open>The workspace manager as provider\<close>

definition into_core :: "manager_prims \<Rightarrow> ws_error \<Rightarrow> symphony_error" where
  "into_core P e = SyWorkspace (mp_show_error P e)"

definition manager_sweep :: "manager_prims \<Rightarrow> 'w fs_api \<Rightarrow> ws_manager \<Rightarrow> 'w sweep_services \<Rightarrow> 'w sweep_services" where
  "manager_sweep P F M S = S\<lparr>sw_list_workspaces := io_map_err (into_core P) (list_workspace_directories P F M),
     sw_quarantine_workspace := \<lambda>h ns. io_map_err (into_core P) (quarantine_workspace_directory F M h ns)\<rparr>"

text \<open>The other operations of the trait.\<close>

definition manager_create :: "manager_prims \<Rightarrow> 'w fs_api \<Rightarrow> ws_manager \<Rightarrow> issue \<Rightarrow> ('w, ws_handle, symphony_error) io" where
  "manager_create P F M i = io_map_err (into_core P) (create_for_issue F M i)"

definition manager_run_hook ::
  "manager_prims \<Rightarrow> 'w process_api \<Rightarrow> ws_manager \<Rightarrow> hook \<Rightarrow> (string, string) btree_map \<Rightarrow> ('w, hook_report, symphony_error) io" where
  "manager_run_hook P X M hk env = io_map_err (into_core P) (run_hook_at_root X M hk env)"

definition manager_run_hook_in ::
  "manager_prims \<Rightarrow> 'w fs_api \<Rightarrow> 'w process_api \<Rightarrow> ws_manager \<Rightarrow> ws_handle \<Rightarrow> hook \<Rightarrow> (string, string) btree_map \<Rightarrow> ('w, hook_report, symphony_error) io" where
  "manager_run_hook_in P F X M h hk env = io_map_err (into_core P) (run_hook_in F X M h hk env)"

definition manager_destroy :: "manager_prims \<Rightarrow> 'w fs_api \<Rightarrow> ws_manager \<Rightarrow> ws_handle \<Rightarrow> ('w, unit, symphony_error) io" where
  "manager_destroy P F M h = io_map_err (into_core P) (io_bind (destroy_workspace F M h) (\<lambda>_. io_lift (Ok ())))"

section \<open>Lemmas\<close>

definition kept_in_place :: "orch_config \<Rightarrow> string list \<Rightarrow> (string, issue) btree_map \<Rightarrow> string \<Rightarrow> bool" where
  "kept_in_place cfg live issue_by_id name \<longleftrightarrow> name \<in> set live \<or> (\<exists>i. bt_get issue_by_id name = Some i \<and> preserve_orphan_issue cfg i)"

lemma sweep_handle_cases:
  "sweep_handle S cfg live m ns h summary w =
     (if kept_in_place cfg live m (hd_issue_id h) then (Ok (summary\<lparr>os_preserved := os_preserved summary @ [hd_issue_id h]\<rparr>), w)
      else (case sw_quarantine_workspace S h ns w of (r, w') \<Rightarrow>
        (Ok (case r of
          Ok to \<Rightarrow> summary\<lparr>os_quarantined := os_quarantined summary @ [\<lparr>qo_issue_id = hd_issue_id h, qo_from = hd_path h, qo_to = to\<rparr>]\<rparr>
        | Err e \<Rightarrow> summary\<lparr>os_refused := os_refused summary @
            [\<lparr>ro_issue_id = hd_issue_id h, ro_path = hd_path h, ro_reason = sw_show_error S e\<rparr>]\<rparr>), w')))"
  by (auto simp: sweep_handle_def kept_in_place_def io_lift_def io_bind_def io_try_def split: option.splits prod.splits)

lemma sweep_handles_Ok:
  "\<exists>summary' w'. sweep_handles S cfg live m ns hs summary w = (Ok summary', w') \<and>
     os_preserved summary' = os_preserved summary @ filter (kept_in_place cfg live m) (map hd_issue_id hs) \<and>
     mset (map qo_issue_id (os_quarantined summary')) + mset (map ro_issue_id (os_refused summary')) =
       mset (map qo_issue_id (os_quarantined summary)) + mset (map ro_issue_id (os_refused summary)) +
       mset (filter (\<lambda>n. \<not> kept_in_place cfg live m n) (map hd_issue_id hs))"
proof (induction hs arbitrary: summary w)
  case (Cons h hs)
  obtain r w1 where "sw_quarantine_workspace S h ns w = (r, w1)" by force
  then obtain s1 w2 where s1: "sweep_handle S cfg live m ns h summary w = (Ok s1, w2)"
    and p: "os_preserved s1 = os_preserved summary @ filter (kept_in_place cfg live m) [hd_issue_id h]"
    and q: "mset (map qo_issue_id (os_quarantined s1)) + mset (map ro_issue_id (os_refused s1)) =
       mset (map qo_issue_id (os_quarantined summary)) + mset (map ro_issue_id (os_refused summary)) +
       mset (filter (\<lambda>n. \<not> kept_in_place cfg live m n) [hd_issue_id h])"
    by (cases r; cases "kept_in_place cfg live m (hd_issue_id h)") (simp_all add: sweep_handle_cases)
  from Cons.IH [of s1 w2] obtain s' w' where s': "sweep_handles S cfg live m ns hs s1 w2 = (Ok s', w')"
    and IH: "os_preserved s' = os_preserved s1 @ filter (kept_in_place cfg live m) (map hd_issue_id hs)"
      "mset (map qo_issue_id (os_quarantined s')) + mset (map ro_issue_id (os_refused s')) =
       mset (map qo_issue_id (os_quarantined s1)) + mset (map ro_issue_id (os_refused s1)) +
       mset (filter (\<lambda>n. \<not> kept_in_place cfg live m n) (map hd_issue_id hs))" by blast
  have "sweep_handles S cfg live m ns (h # hs) summary w = (Ok s', w')" by (simp add: io_bind_def s1 s')
  then show ?case using IH p q by (intro exI [of _ s'] exI [of _ w']) auto
qed (simp add: io_lift_def)

text \<open>What the quarantine does with a directory that is kept makes no difference.\<close>

lemma sweep_handles_cong:
  assumes "\<And>h. h \<in> set hs \<Longrightarrow> \<not> kept_in_place cfg live m (hd_issue_id h) \<Longrightarrow> q h ns = sw_quarantine_workspace S h ns"
  shows "sweep_handles (S\<lparr>sw_quarantine_workspace := q\<rparr>) cfg live m ns hs summary w = sweep_handles S cfg live m ns hs summary w"
  using assms
proof (induction hs arbitrary: summary w)
  case (Cons h hs)
  have "sweep_handle (S\<lparr>sw_quarantine_workspace := q\<rparr>) cfg live m ns h summary w = sweep_handle S cfg live m ns h summary w"
    using Cons.prems [of h] by (simp add: sweep_handle_cases split: prod.splits result.splits)
  then show ?case using Cons by (simp add: io_bind_def split: prod.splits result.splits)
qed simp

lemma sweep_orphans_Ok:
  assumes "sw_list_workspaces S w = (Ok scan, w1)" and "live_claim_workspace_names T S cfg w1 = (Ok live, w2)"
    and "sw_fetch_by_ids S (map hd_issue_id (filter (\<lambda>h. hd_issue_id h \<notin> set live) (sort_handles (sn_workspaces scan)))) w2 = (Ok issues, w3)"
  shows "\<exists>now w4 summary w'. sw_now S w3 = (now, w4) \<and> sweep_handles S cfg live (issues_by_id issues) (sw_format_namespace S now)
      (sort_handles (sn_workspaces scan)) \<lparr>os_preserved = [], os_quarantined = [], os_refused = map refused_of (sn_refused scan)\<rparr> w4 = (Ok summary, w') \<and>
    sweep_orphans T S cfg w = (Ok (sort_summary summary), w')"
proof -
  obtain now w4 where n: "sw_now S w3 = (now, w4)" by force
  obtain summary w' where "sweep_handles S cfg live (issues_by_id issues) (sw_format_namespace S now)
      (sort_handles (sn_workspaces scan)) \<lparr>os_preserved = [], os_quarantined = [], os_refused = map refused_of (sn_refused scan)\<rparr> w4 = (Ok summary, w')"
    using sweep_handles_Ok by metis
  with n assms show ?thesis
    by (simp add: sweep_orphans_def io_bind_def io_of_core_def io_map_err_def io_lift_def Let_def sweep_now_def)
qed

lemma sweep_orphans_cong:
  assumes "sw_list_workspaces S w = (Ok scan, w1)" and "live_claim_workspace_names T S cfg w1 = (Ok live, w2)"
    and "sw_fetch_by_ids S (map hd_issue_id (filter (\<lambda>h. hd_issue_id h \<notin> set live) (sort_handles (sn_workspaces scan)))) w2 = (Ok issues, w3)"
    and q: "\<And>h ns. h \<in> set (sn_workspaces scan) \<Longrightarrow> \<not> kept_in_place cfg live (issues_by_id issues) (hd_issue_id h) \<Longrightarrow> q h ns = sw_quarantine_workspace S h ns"
  shows "sweep_orphans T (S\<lparr>sw_quarantine_workspace := q\<rparr>) cfg w = sweep_orphans T S cfg w"
proof -
  have now: "sweep_now (S\<lparr>sw_quarantine_workspace := q\<rparr>) = sweep_now S" by (simp add: fun_eq_iff sweep_now_def)
  have "add_live_names T (S\<lparr>sw_quarantine_workspace := q\<rparr>) cfg is names = add_live_names T S cfg is names" for "is" names
    by (induction "is" arbitrary: names) (simp_all add: now cong: option.case_cong)
  then have "live_claim_workspace_names T (S\<lparr>sw_quarantine_workspace := q\<rparr>) cfg = live_claim_workspace_names T S cfg"
    by (simp add: live_claim_workspace_names_def)
  moreover have "sweep_handles (S\<lparr>sw_quarantine_workspace := q\<rparr>) cfg live (issues_by_id issues) ns (sort_handles (sn_workspaces scan)) summary v =
      sweep_handles S cfg live (issues_by_id issues) ns (sort_handles (sn_workspaces scan)) summary v" for ns summary v
    by (rule sweep_handles_cong) (simp add: q sort_handles_def)
  ultimately show ?thesis using assms(1-3) now
    by (simp add: sweep_orphans_def io_bind_def io_of_core_def io_map_err_def Let_def cong: prod.case_cong result.case_cong)
qed

text \<open>The summary accounts for every scanned entry.\<close>

lemma sweep_orphans_accounts:
  assumes "sw_list_workspaces S w = (Ok scan, w1)" and "live_claim_workspace_names T S cfg w1 = (Ok live, w2)"
    and "sw_fetch_by_ids S (map hd_issue_id (filter (\<lambda>h. hd_issue_id h \<notin> set live) (sort_handles (sn_workspaces scan)))) w2 = (Ok issues, w3)"
  shows "\<exists>summary w'. sweep_orphans T S cfg w = (Ok summary, w') \<and>
    os_preserved summary = sort (filter (kept_in_place cfg live (issues_by_id issues)) (map hd_issue_id (sn_workspaces scan))) \<and>
    mset (os_preserved summary) + mset (map qo_issue_id (os_quarantined summary)) + mset (map ro_issue_id (os_refused summary)) =
      mset (map hd_issue_id (sn_workspaces scan)) + mset (map rf_issue_id (sn_refused scan))"
proof -
  let ?kept = "kept_in_place cfg live (issues_by_id issues)" and ?hs = "sort_handles (sn_workspaces scan)"
  from sweep_orphans_Ok [OF assms(1-3)] obtain now w4 s w'
    where run: "sweep_handles S cfg live (issues_by_id issues) (sw_format_namespace S now) ?hs
        \<lparr>os_preserved = [], os_quarantined = [], os_refused = map refused_of (sn_refused scan)\<rparr> w4 = (Ok s, w')"
      and all: "sweep_orphans T S cfg w = (Ok (sort_summary s), w')" by blast
  have hs: "mset (map hd_issue_id ?hs) = mset (map hd_issue_id (sn_workspaces scan))" by (simp add: sort_handles_def)
  from sweep_handles_Ok [of S cfg live "issues_by_id issues" "sw_format_namespace S now" ?hs
      "\<lparr>os_preserved = [], os_quarantined = [], os_refused = map refused_of (sn_refused scan)\<rparr>" w4] run
  have s: "os_preserved s = filter ?kept (map hd_issue_id ?hs)"
    "mset (map qo_issue_id (os_quarantined s)) + mset (map ro_issue_id (os_refused s)) =
       mset (map rf_issue_id (sn_refused scan)) + filter_mset (\<lambda>n. \<not> ?kept n) (mset (map hd_issue_id ?hs))"
    by (auto simp: refused_of_def comp_def)
  have "mset (filter ?kept (map hd_issue_id ?hs)) = mset (filter ?kept (map hd_issue_id (sn_workspaces scan)))"
    using hs by (simp only: mset_filter)
  then have "sort (filter ?kept (map hd_issue_id ?hs)) = sort (filter ?kept (map hd_issue_id (sn_workspaces scan)))"
    by (intro properties_for_sort) (simp_all only: mset_sort sorted_sort)
  then have "os_preserved (sort_summary s) = sort (filter ?kept (map hd_issue_id (sn_workspaces scan)))"
    by (simp add: sort_summary_def s(1))
  moreover have "mset (os_preserved (sort_summary s)) + (mset (map qo_issue_id (os_quarantined (sort_summary s))) +
      mset (map ro_issue_id (os_refused (sort_summary s)))) = mset (map hd_issue_id (sn_workspaces scan)) + mset (map rf_issue_id (sn_refused scan))"
    using s hs by (simp add: sort_summary_def multiset_partition [symmetric] add.assoc)
  ultimately show ?thesis using all by (auto simp: add.assoc)
qed

section \<open>What is spared\<close>

text \<open>
  The names that a live claim of this agent protects at a time, read off the tracker's answer: the claim is by this agent
  and its heartbeat is younger than the lifetime of the claim. And the issues that are not finished.
\<close>

definition live_name :: "chrono \<Rightarrow> orch_config \<Rightarrow> issue list \<Rightarrow> instant \<Rightarrow> string \<Rightarrow> bool" where
  "live_name T cfg claimed t name \<longleftrightarrow>
     (\<exists>i \<in> set claimed. \<exists>c heartbeat. iss_claim i = Some c \<and> cl_by c = gs_agent_id (oc_gate cfg) \<and> parse_rfc3339 T (cl_heartbeat_at c) = Ok heartbeat \<and>
        t - heartbeat < (case iss_shard i of None \<Rightarrow> oc_claim_ttl cfg | Some s \<Rightarrow> min (uint (sh_claim_ttl_ms s)) (2 ^ 63 - 1) * 1000000) \<and>
        (name = iss_id i \<or> name = iss_identifier i \<or> cl_issue_id c = Some name))"

definition unfinished :: "orch_config \<Rightarrow> issue list \<Rightarrow> string \<Rightarrow> bool" where
  "unfinished cfg issues name \<longleftrightarrow> (\<exists>i \<in> set issues. iss_id i = name \<and> iss_state i \<noteq> ''blocked'' \<and> iss_state i \<notin> set (oc_terminal_states cfg))"

text \<open>The tracker finds the issues it has among the given identifiers, and the clock reads within the bounds.\<close>

definition finds_issues :: "'w sweep_services \<Rightarrow> issue list \<Rightarrow> bool" where
  "finds_issues S issues \<longleftrightarrow> inj_on iss_id (set issues) \<and>
     (\<forall>ids w. \<exists>is w'. sw_fetch_by_ids S ids w = (Ok is, w') \<and> set is = {i \<in> set issues. iss_id i \<in> set ids})"

definition clock_within :: "'w sweep_services \<Rightarrow> instant \<Rightarrow> instant \<Rightarrow> bool" where
  "clock_within S early late \<longleftrightarrow> (\<forall>w. early \<le> fst (sw_now S w) \<and> fst (sw_now S w) \<le> late)"

definition heartbeats_readable :: "chrono \<Rightarrow> orch_config \<Rightarrow> issue list \<Rightarrow> bool" where
  "heartbeats_readable T cfg claimed \<longleftrightarrow>
     (\<forall>i \<in> set claimed. \<forall>c. iss_claim i = Some c \<and> cl_by c = gs_agent_id (oc_gate cfg) \<longrightarrow> (\<exists>t. parse_rfc3339 T (cl_heartbeat_at c) = Ok t))"

lemma issue_claim_ttl_cases:
  "issue_claim_ttl i d = (case iss_shard i of None \<Rightarrow> d | Some s \<Rightarrow> min (uint (sh_claim_ttl_ms s)) (2 ^ 63 - 1) * 1000000)"
  by (simp add: issue_claim_ttl_def duration_from_millis_saturating_def i64_max_def split: option.splits)

lemma live_name_Cons: "live_name T cfg (i # is) t n \<longleftrightarrow> live_name T cfg [i] t n \<or> live_name T cfg is t n"
  by (simp add: live_name_def)

lemma is_fresh_self_live:
  assumes "iss_claim i = Some c" and "heartbeats_readable T cfg [i]"
  shows "\<exists>fresh. is_fresh_self T c (gs_agent_id (oc_gate cfg)) now (issue_claim_ttl i (oc_claim_ttl cfg)) = Ok fresh \<and>
    (\<forall>n. live_name T cfg [i] now n \<longleftrightarrow> fresh \<and> (n = iss_id i \<or> n = iss_identifier i \<or> cl_issue_id c = Some n))"
proof (cases "cl_by c = gs_agent_id (oc_gate cfg)")
  case True
  with assms obtain hb where hb: "parse_rfc3339 T (cl_heartbeat_at c) = Ok hb" by (auto simp: heartbeats_readable_def)
  let ?ttl = "issue_claim_ttl i (oc_claim_ttl cfg)"
  have "is_fresh_self T c (gs_agent_id (oc_gate cfg)) now ?ttl = Ok (now - hb < ?ttl)"
    using True by (simp add: is_fresh_self_def classify_def parse_heartbeat_def hb not_le)
  moreover have "live_name T cfg [i] now n \<longleftrightarrow> now - hb < ?ttl \<and> (n = iss_id i \<or> n = iss_identifier i \<or> cl_issue_id c = Some n)" for n
    unfolding issue_claim_ttl_cases using True by (simp add: live_name_def assms(1) hb)
  ultimately show ?thesis by blast
next
  case False
  then have "is_fresh_self T c (gs_agent_id (oc_gate cfg)) now (issue_claim_ttl i (oc_claim_ttl cfg)) = Ok False" "\<not> live_name T cfg [i] now n" for n
    by (simp_all add: is_fresh_self_def classify_def live_name_def assms(1))
  then show ?thesis by blast
qed

lemma live_name_mono: "live_name T cfg is t n \<Longrightarrow> t' \<le> t \<Longrightarrow> live_name T cfg is t' n"
  unfolding live_name_def by force

text \<open>The names that the code collects lie between those live at the latest and those live at the earliest reading.\<close>

lemma add_live_names_bounds:
  assumes "heartbeats_readable T cfg is" and "clock_within S early late"
  shows "\<exists>live w'. add_live_names T S cfg is names w = (Ok live, w') \<and> set names \<subseteq> set live \<and>
    {n. live_name T cfg is late n} \<subseteq> set live \<and> set live \<subseteq> set names \<union> {n. live_name T cfg is early n}"
  using assms(1)
proof (induction "is" arbitrary: names w)
  case (Cons i "is")
  then have r: "heartbeats_readable T cfg [i]" "heartbeats_readable T cfg is" by (simp_all add: heartbeats_readable_def)
  show ?case
  proof (cases "iss_claim i")
    case None
    then have "\<not> live_name T cfg [i] t n" for t n by (simp add: live_name_def)
    then show ?thesis using Cons.IH [OF r(2), of names w] None by (simp add: live_name_Cons [of T cfg i "is"])
  next
    case (Some c)
    obtain now w1 where n: "sw_now S w = (now, w1)" by force
    then have t: "early \<le> now" "now \<le> late" using assms(2) unfolding clock_within_def by (metis fst_conv)+
    from is_fresh_self_live [OF Some r(1), of now] obtain fresh where
      f: "is_fresh_self T c (gs_agent_id (oc_gate cfg)) now (issue_claim_ttl i (oc_claim_ttl cfg)) = Ok fresh"
      and l: "\<And>n. live_name T cfg [i] now n \<longleftrightarrow> fresh \<and> (n = iss_id i \<or> n = iss_identifier i \<or> cl_issue_id c = Some n)" by blast
    define names' where "names' = (if fresh then (case cl_issue_id c of Some cid \<Rightarrow> List.insert cid (List.insert (iss_identifier i) (List.insert (iss_id i) names))
        | None \<Rightarrow> List.insert (iss_identifier i) (List.insert (iss_id i) names)) else names)"
    have "set names' = set names \<union> {n. live_name T cfg [i] now n}" by (auto simp: names'_def l split: option.splits)
    then have s: "set names \<subseteq> set names'" "{n. live_name T cfg [i] late n} \<subseteq> set names'" "set names' \<subseteq> set names \<union> {n. live_name T cfg [i] early n}"
      using live_name_mono t by blast+
    have "add_live_names T S cfg (i # is) names w = add_live_names T S cfg is names' w1"
      by (simp add: Some io_bind_def sweep_now_def n io_lift_def f names'_def)
    with Cons.IH [OF r(2), of names' w1] s show ?thesis by (simp add: live_name_Cons [of T cfg i "is"]) blast
  qed
qed (auto simp: io_lift_def live_name_def)

lemma issues_by_id_snoc: "issues_by_id (is @ [i]) = bt_insert (iss_id i) i (issues_by_id is)"
  by (simp add: issues_by_id_def)

lemma issues_by_id_mem: "bt_get (issues_by_id is) n = Some i \<Longrightarrow> i \<in> set is \<and> iss_id i = n"
proof (induction "is" rule: rev_induct)
  case (snoc j "is")
  then show ?case by (auto simp: issues_by_id_snoc split: if_splits)
qed (simp add: issues_by_id_def bt_get_def)

lemma issues_by_id_dom: "i \<in> set is \<Longrightarrow> \<exists>j. bt_get (issues_by_id is) (iss_id i) = Some j"
proof (induction "is" rule: rev_induct)
  case (snoc j "is")
  then show ?case by (auto simp: issues_by_id_snoc)
qed simp

lemma kept_in_place_spec:
  assumes "inj_on iss_id (set issues)" and "set is = {i \<in> set issues. iss_id i \<in> set ids}" and "n \<in> set live \<or> n \<in> set ids"
  shows "kept_in_place cfg live (issues_by_id is) n \<longleftrightarrow> n \<in> set live \<or> unfinished cfg issues n"
proof -
  have "bt_get (issues_by_id is) n = Some i \<longleftrightarrow> i \<in> set issues \<and> iss_id i = n" if "n \<in> set ids" for i
    using issues_by_id_mem [of "is" n] issues_by_id_dom [of _ "is"] assms(1,2) that by (metis (mono_tags, lifting) inj_onD mem_Collect_eq)
  then show ?thesis using assms(3) by (auto simp: kept_in_place_def unfinished_def preserve_orphan_issue_def list_ex_iff)
qed

section \<open>The sweep on the manager\<close>

lemma keeps_now: "(\<And>w. le w (snd (sw_now S w))) \<Longrightarrow> keeps le (sweep_now S)"
  by (simp add: keeps_def sweep_now_def case_prod_unfold)

lemma add_live_names_keeps:
  assumes "\<And>w. outside_kept F root out w (snd (sw_now S w))"
  shows "keeps (outside_kept F root out) (add_live_names T S cfg is names)"
  by (induction "is" arbitrary: names) (auto intro!: outside.keeps_lift outside.keeps_bind keeps_rules keeps_now assms split: option.splits)

lemma quarantine_keeps:
  assumes "confined_fs F root out" and "wm_root M = root"
  shows "keeps (outside_kept F root out) (quarantine_workspace_directory F M h ns)"
  unfolding keeps_def
proof
  fix w
  show "outside_kept F root out w (snd (quarantine_workspace_directory F M h ns w))"
    using quarantine_confined [OF assms] by (cases "resolved F root w") (auto simp: keeps_at_def outside_kept_def)
qed

lemma manager_sweep_confined:
  assumes F: "confined_fs F root out" and M: "wm_root M = root" and now: "\<And>w. outside_kept F root out w (snd (sw_now S w))"
    and claimed: "\<And>a. keeps (outside_kept F root out) (sw_fetch_claimed S a)"
    and by_ids: "\<And>ids. keeps (outside_kept F root out) (sw_fetch_by_ids S ids)"
  shows "keeps (outside_kept F root out) (sweep_orphans T (manager_sweep P F M S) cfg)"
proof -
  let ?S = "manager_sweep P F M S"
  note rules = outside.keeps_lift outside.keeps_bind outside.keeps_map_err keeps_rules
  have now': "outside_kept F root out w (snd (sw_now ?S w))" for w using now by (simp add: manager_sweep_def)
  have list: "keeps (outside_kept F root out) (sw_list_workspaces ?S)"
    unfolding manager_sweep_def using list_workspaces_reads [OF confined_fsD(1) [OF F], of P M]
    by (simp add: keeps_def reads_def io_map_err_def outside.refl split: prod.splits) (metis outside.refl snd_conv)
  have "keeps (outside_kept F root out) (sweep_handle ?S cfg live m ns h summary)" for live m ns h summary
    unfolding sweep_handle_def manager_sweep_def
    by (simp, intro impI conjI rules quarantine_keeps [OF F M]) 
  then have "keeps (outside_kept F root out) (sweep_handles ?S cfg live m ns hs summary)" for live m ns hs summary
    by (induction hs arbitrary: summary) (auto intro!: rules)
  moreover have "keeps (outside_kept F root out) (sw_fetch_claimed ?S a)" "keeps (outside_kept F root out) (sw_fetch_by_ids ?S ids)" for a ids
    using claimed by_ids by (simp_all add: manager_sweep_def)
  ultimately show ?thesis
    unfolding sweep_orphans_def live_claim_workspace_names_def io_of_core_def
    by (intro rules list keeps_now now' add_live_names_keeps) auto
qed

end
