(* ===== verification/Proof_Files.thy ===== *)
theory Proof_Files
  imports Workspace_Confined
begin

text \<open>
  The directories with the proofs of runs: their creation, manifests, logs and artifacts (\<^verbatim>\<open>orchestrator/proofs.rs\<close>) and the
  retention scan that deletes old ones (\<^verbatim>\<open>orchestrator/reaper.rs\<close>). Time formats and date arithmetic of \<^verbatim>\<open>chrono\<close> are the
  record \<open>proof_time\<close>; the file operations beyond \<open>fs_api\<close> are in \<open>proof_fs\<close>.

  Lemmas: the name of a run directory is read back by the retention scan as the start time; the scan deletes
  only directories of inactive issues that are too old; a copied artifact lies in the workspace.
\<close>

section \<open>Services\<close>

record proof_time =
  pt_format :: "instant \<Rightarrow> string"
  pt_parse :: "string \<Rightarrow> instant option"
  pt_rfc3339_secs :: "instant \<Rightarrow> string"
  pt_try_days :: "int \<Rightarrow> int option"
  pt_checked_sub :: "instant \<Rightarrow> int \<Rightarrow> instant option"

section \<open>Retention (reaper.rs)\<close>

record reap_report =
  rp_scanned :: u32
  rp_reaped :: u32
  rp_skipped_active :: u32
  rp_errors :: u32

definition reap_report_default :: reap_report where
  "reap_report_default = \<lparr>rp_scanned = 0, rp_reaped = 0, rp_skipped_active = 0, rp_errors = 0\<rparr>"

definition record_scanned :: "reap_report \<Rightarrow> reap_report" where
  "record_scanned r = r\<lparr>rp_scanned := sat_add (rp_scanned r) 1\<rparr>"

definition record_reaped :: "reap_report \<Rightarrow> reap_report" where
  "record_reaped r = r\<lparr>rp_reaped := sat_add (rp_reaped r) 1\<rparr>"

definition record_skipped_active :: "reap_report \<Rightarrow> reap_report" where
  "record_skipped_active r = r\<lparr>rp_skipped_active := sat_add (rp_skipped_active r) 1\<rparr>"

definition record_error :: "reap_report \<Rightarrow> reap_report" where
  "record_error r = r\<lparr>rp_errors := sat_add (rp_errors r) 1\<rparr>"

definition PROOF_TIMESTAMP_LEN :: nat where
  "PROOF_TIMESTAMP_LEN = 18"

definition COLLISION_SUFFIX_LEN :: nat where
  "COLLISION_SUFFIX_LEN = 3"

definition is_collision_suffix :: "string \<Rightarrow> bool" where
  "is_collision_suffix s \<longleftrightarrow> length s = COLLISION_SUFFIX_LEN \<and> s ! 0 = CHR ''-'' \<and> ascii_digit (s ! 1) \<and> ascii_digit (s ! 2) \<and>
     \<not> (s ! 1 = CHR ''0'' \<and> s ! 2 = CHR ''0'')"

text \<open>A slice that would cut a character in two yields nothing; then the suffix does not start with a hyphen either.\<close>

definition timestamp_prefix :: "string \<Rightarrow> string option" where
  "timestamp_prefix name =
     (if length name = PROOF_TIMESTAMP_LEN then Some name
      else if length name \<noteq> PROOF_TIMESTAMP_LEN + COLLISION_SUFFIX_LEN then None
      else if is_collision_suffix (drop PROOF_TIMESTAMP_LEN name) then Some (take PROOF_TIMESTAMP_LEN name) else None)"

definition parse_proof_timestamp :: "proof_time \<Rightarrow> string \<Rightarrow> instant option" where
  "parse_proof_timestamp T name = Option.bind (timestamp_prefix name) (pt_parse T)"

definition retention_cutoff :: "proof_time \<Rightarrow> instant \<Rightarrow> u32 \<Rightarrow> instant option" where
  "retention_cutoff T now retention_days = Option.bind (pt_try_days T (uint retention_days)) (pt_checked_sub T now)"

definition is_directory :: "'w fs_api \<Rightarrow> dir_entry \<Rightarrow> 'w \<Rightarrow> bool \<times> 'w" where
  "is_directory F d w = (case fs_symlink_metadata F (de_path d) w of (r, w') \<Rightarrow> (r = Ok FileDir, w'))"

definition delete_timestamp_dir :: "'w fs_api \<Rightarrow> path \<Rightarrow> reap_report \<Rightarrow> 'w \<Rightarrow> reap_report \<times> 'w" where
  "delete_timestamp_dir F p report w =
     (case fs_remove_dir_all F p w of (r, w') \<Rightarrow>
        (case r of
           Ok _ \<Rightarrow> record_reaped report
         | Err e \<Rightarrow> if ie_kind e = IoNotFound then report else record_error report, w'))"

definition process_timestamp_entry ::
  "proof_time \<Rightarrow> 'w fs_api \<Rightarrow> instant \<Rightarrow> bool \<Rightarrow> dir_entry \<Rightarrow> reap_report \<Rightarrow> 'w \<Rightarrow> reap_report \<times> 'w" where
  "process_timestamp_entry T F cutoff issue_is_active d report w =
     (case is_directory F d w of (dir, w') \<Rightarrow>
        if \<not> dir then (report, w')
        else
          let report = record_scanned report in
          if issue_is_active then (record_skipped_active report, w')
          else case to_str (de_name d) of
            None \<Rightarrow> (report, w')
          | Some timestamp_name \<Rightarrow>
              (case parse_proof_timestamp T timestamp_name of
                 None \<Rightarrow> (report, w')
               | Some started_at \<Rightarrow> if started_at < cutoff then delete_timestamp_dir F (de_path d) report w' else (report, w')))"

text \<open>The loop over the entries of a directory ends at the first entry that cannot be read.\<close>

fun process_timestamp_entries ::
  "proof_time \<Rightarrow> 'w fs_api \<Rightarrow> instant \<Rightarrow> bool \<Rightarrow> (dir_entry, io_error) result list \<Rightarrow> reap_report \<Rightarrow> 'w \<Rightarrow> reap_report \<times> 'w" where
  "process_timestamp_entries T F cutoff active (Ok d # entries) report w =
     (case process_timestamp_entry T F cutoff active d report w of (report', w') \<Rightarrow>
        process_timestamp_entries T F cutoff active entries report' w')"
| "process_timestamp_entries T F cutoff active _ report w = (report, w)"

definition process_issue_entry ::
  "proof_time \<Rightarrow> 'w fs_api \<Rightarrow> instant \<Rightarrow> string list \<Rightarrow> dir_entry \<Rightarrow> reap_report \<Rightarrow> 'w \<Rightarrow> reap_report \<times> 'w" where
  "process_issue_entry T F cutoff active_issue_ids d report w =
     (case is_directory F d w of (dir, w1) \<Rightarrow>
        if \<not> dir then (report, w1)
        else case to_str (de_name d) of
          None \<Rightarrow> (report, w1)
        | Some issue_name \<Rightarrow>
            (case issue_id_new issue_name of
               Err _ \<Rightarrow> (report, w1)
             | Ok issue_id \<Rightarrow>
                 (case fs_read_dir F (de_path d) w1 of (r, w2) \<Rightarrow>
                    (case r of
                       Err _ \<Rightarrow> (report, w2)
                     | Ok entries \<Rightarrow>
                         process_timestamp_entries T F cutoff (issue_id \<in> set active_issue_ids) entries report w2))))"

fun process_issue_entries ::
  "proof_time \<Rightarrow> 'w fs_api \<Rightarrow> instant \<Rightarrow> string list \<Rightarrow> (dir_entry, io_error) result list \<Rightarrow> reap_report \<Rightarrow> 'w \<Rightarrow> reap_report \<times> 'w" where
  "process_issue_entries T F cutoff active (Ok d # entries) report w =
     (case process_issue_entry T F cutoff active d report w of (report', w') \<Rightarrow>
        process_issue_entries T F cutoff active entries report' w')"
| "process_issue_entries T F cutoff active _ report w = (report, w)"

definition reap_old_proofs ::
  "proof_time \<Rightarrow> 'w fs_api \<Rightarrow> path \<Rightarrow> instant \<Rightarrow> u32 \<Rightarrow> string list \<Rightarrow> 'w \<Rightarrow> reap_report \<times> 'w" where
  "reap_old_proofs T F proofs_dir now retention_days active_issue_ids w =
     (case retention_cutoff T now retention_days of
        None \<Rightarrow> (reap_report_default, w)
      | Some cutoff \<Rightarrow>
          (case fs_read_dir F proofs_dir w of (r, w') \<Rightarrow>
             (case r of
                Err _ \<Rightarrow> (reap_report_default, w')
              | Ok entries \<Rightarrow> process_issue_entries T F cutoff active_issue_ids entries reap_report_default w')))"

section \<open>Proof runs (proofs.rs)\<close>

definition STDOUT_LOG :: string where "STDOUT_LOG = ''stdout.log''"

definition STDERR_LOG :: string where "STDERR_LOG = ''stderr.log''"

definition MANIFEST_JSON :: string where "MANIFEST_JSON = ''manifest.json''"

record runner_capabilities =
  rc_runner_kind :: string
  rc_labels :: "string list"
  rc_structured_events :: bool
  rc_preset :: "string option"
  rc_command :: "string option"
  rc_args :: "string list"
  rc_env_allowlist :: "string list"

datatype runner_event_kind = SessionStarted | Stdout | Stderr | TurnCompleted | Artifact | RunnerError

record runner_event =
  re_kind :: runner_event_kind
  re_message :: "string option"
  re_at :: "string option"

record proof_manifest =
  pm_issue_id :: string
  pm_agent_id :: string
  pm_hostname :: string
  pm_runner_kind :: string
  pm_preset :: "string option"
  pm_command :: string
  pm_args :: "string list"
  pm_env_allowlist :: "string list"
  pm_exit_code :: int
  pm_duration_ms :: u64
  pm_started_at :: string
  pm_ended_at :: string
  pm_hooks :: "string list"

record abandon_manifest =
  am_issue_id :: string
  am_recorded_at :: string
  am_abandoned_claim :: claim
  am_reason :: release_reason
  am_winning_agent_id :: string

record runner_manifest_metadata =
  rm_runner_kind :: string
  rm_preset :: "string option"
  rm_command :: string
  rm_args :: "string list"
  rm_env_allowlist :: "string list"

datatype manifest_doc = ProofDoc proof_manifest | AbandonDoc abandon_manifest

text \<open>The file operations; \<open>pq_write_json\<close> is \<^verbatim>\<open>serde_json::to_writer_pretty\<close> into an open file.\<close>

record 'w proof_fs =
  pq_dirs :: "'w fs_api"
  pq_create :: "path \<Rightarrow> ('w, unit, io_error) io"
  pq_append :: "path \<Rightarrow> ('w, unit, io_error) io"
  pq_write :: "path \<Rightarrow> string \<Rightarrow> ('w, unit, io_error) io"
  pq_flush :: "path \<Rightarrow> ('w, unit, io_error) io"
  pq_sync :: "path \<Rightarrow> ('w, unit, io_error) io"
  pq_write_json :: "path \<Rightarrow> manifest_doc \<Rightarrow> ('w, unit, string) io"
  pq_is_file :: "path \<Rightarrow> ('w, bool, io_error) io"
  pq_copy :: "path \<Rightarrow> path \<Rightarrow> ('w, unit, io_error) io"
  pq_env_var :: "string \<Rightarrow> 'w \<Rightarrow> string option"
  pq_instant_ms :: "'w \<Rightarrow> nat \<times> 'w"

record proof_prims =
  pp_time :: proof_time
  pp_show_containment :: "containment_error \<Rightarrow> string"
  pp_display :: "path \<Rightarrow> string"

record proof_run_files =
  pu_issue_id :: string
  pu_agent_id :: string
  pu_dir :: path
  pu_relative_dir :: string
  pu_started_at :: instant
  pu_started_ms :: nat
  pu_runner :: runner_manifest_metadata
  pu_hooks :: "string list"

definition proof_io :: "proof_prims \<Rightarrow> path \<Rightarrow> ('w, 'a, io_error) io \<Rightarrow> ('w, 'a, orch_error) io" where
  "proof_io P p m = io_map_err (\<lambda>e. OeProofIo (pp_display P p) (ie_text e)) m"

definition proof_containment :: "proof_prims \<Rightarrow> ('w, 'a, containment_error) io \<Rightarrow> ('w, 'a, orch_error) io" where
  "proof_containment P m = io_map_err (\<lambda>e. OeProofContainment (pp_show_containment P e)) m"

definition from_capabilities :: "string \<Rightarrow> runner_capabilities \<Rightarrow> runner_manifest_metadata" where
  "from_capabilities runner_name caps =
     \<lparr>rm_runner_kind = rc_runner_kind caps,
      rm_preset = (case rc_preset caps of Some p \<Rightarrow> Some p | None \<Rightarrow> (case rc_labels caps of [] \<Rightarrow> None | l # _ \<Rightarrow> Some l)),
      rm_command = (case rc_command caps of Some c \<Rightarrow> c | None \<Rightarrow> runner_name), rm_args = rc_args caps,
      rm_env_allowlist = sort_dedup (\<lambda>x. x) (rc_env_allowlist caps)\<rparr>"

definition prepare_root :: "proof_prims \<Rightarrow> 'w fs_api \<Rightarrow> path \<Rightarrow> ('w, path, orch_error) io" where
  "prepare_root P F root =
     io_bind (proof_io P root (fs_create_dir_all F root)) (\<lambda>_. proof_containment P (canonicalize_root F root))"

definition sanitize_segment :: "proof_prims \<Rightarrow> string \<Rightarrow> (string, orch_error) result" where
  "sanitize_segment P raw = map_err (\<lambda>e. OeProofContainment (pp_show_containment P e)) (sanitize_issue_identifier raw)"

definition ensure_child_dir :: "proof_prims \<Rightarrow> 'w fs_api \<Rightarrow> path \<Rightarrow> string \<Rightarrow> ('w, path, orch_error) io" where
  "ensure_child_dir P F root child_name =
     (let child = path_join root child_name in
      io_bind (io_try (fs_symlink_metadata F child)) (\<lambda>meta.
      io_bind (case meta of
          Ok kind \<Rightarrow>
            if kind \<noteq> FileDir then io_lift (Err (OeProofContainment (''proof path is not a real directory: '' @ pp_display P child)))
            else io_lift (Ok ())
        | Err e \<Rightarrow>
            if ie_kind e = IoNotFound then proof_io P child (fs_create_dir F False child)
            else io_lift (Err (OeProofIo (pp_display P child) (ie_text e)))) (\<lambda>_.
      proof_containment P (validate_existing_workspace_path F root child))))"

definition run_dir_name :: "string \<Rightarrow> nat \<Rightarrow> string" where
  "run_dir_name base_timestamp k = (if k = 0 then base_timestamp else base_timestamp @ ''-'' @ pad_zeros 2 (show_nat k))"

fun create_unique_from ::
  "proof_prims \<Rightarrow> 'w fs_api \<Rightarrow> path \<Rightarrow> string \<Rightarrow> nat list \<Rightarrow> ('w, path \<times> string, orch_error) io" where
  "create_unique_from P F issue_dir base [] = io_lift (Err (OeProofContainment (''proof timestamp collision for '' @ base)))"
| "create_unique_from P F issue_dir base (k # ks) =
     io_bind (io_lift (sanitize_segment P (run_dir_name base k))) (\<lambda>run_segment.
     let run_dir = path_join issue_dir run_segment in
     io_bind (io_try (fs_create_dir F False run_dir)) (\<lambda>created. case created of
       Ok _ \<Rightarrow> io_bind (proof_containment P (validate_existing_workspace_path F issue_dir run_dir)) (\<lambda>canonical. io_lift (Ok (canonical, run_segment)))
     | Err e \<Rightarrow>
         if ie_kind e = IoAlreadyExists then create_unique_from P F issue_dir base ks
         else io_lift (Err (OeProofIo (pp_display P run_dir) (ie_text e)))))"

definition create_unique_run_dir :: "proof_prims \<Rightarrow> 'w fs_api \<Rightarrow> path \<Rightarrow> string \<Rightarrow> ('w, path \<times> string, orch_error) io" where
  "create_unique_run_dir P F issue_dir base_timestamp = create_unique_from P F issue_dir base_timestamp [0..<100]"

definition create_empty_log :: "proof_prims \<Rightarrow> 'w proof_fs \<Rightarrow> path \<Rightarrow> string \<Rightarrow> ('w, unit, orch_error) io" where
  "create_empty_log P Q run_dir file_name =
     (let p = path_join run_dir file_name in proof_io P p (io_bind (pq_create Q p) (\<lambda>_. pq_sync Q p)))"

definition write_json_file :: "proof_prims \<Rightarrow> 'w proof_fs \<Rightarrow> path \<Rightarrow> manifest_doc \<Rightarrow> ('w, unit, orch_error) io" where
  "write_json_file P Q p doc =
     io_bind (proof_io P p (pq_create Q p)) (\<lambda>_.
     io_bind (io_map_err OeProofJson (pq_write_json Q p doc)) (\<lambda>_.
     io_bind (proof_io P p (pq_write Q p [CHR 0x0A])) (\<lambda>_.
     proof_io P p (pq_sync Q p))))"

definition write_abandoned ::
  "proof_prims \<Rightarrow> 'w proof_fs \<Rightarrow> path \<Rightarrow> issue \<Rightarrow> claim \<Rightarrow> release_reason \<Rightarrow> claim \<Rightarrow> instant \<Rightarrow> ('w, string, orch_error) io" where
  "write_abandoned P Q root i abandoned_claim reason winning_claim recorded_at =
     io_bind (prepare_root P (pq_dirs Q) root) (\<lambda>canonical_root.
     io_bind (io_lift (sanitize_segment P (iss_id i))) (\<lambda>issue_segment.
     io_bind (ensure_child_dir P (pq_dirs Q) canonical_root issue_segment) (\<lambda>issue_dir.
     io_bind (create_unique_run_dir P (pq_dirs Q) issue_dir (pt_format (pp_time P) recorded_at @ ''-abandoned'')) (\<lambda>(abandon_dir, abandon_segment).
     io_bind (write_json_file P Q (path_join abandon_dir ''abandon.json'') (AbandonDoc
       \<lparr>am_issue_id = iss_id i, am_recorded_at = pt_rfc3339_secs (pp_time P) recorded_at, am_abandoned_claim = abandoned_claim,
        am_reason = reason, am_winning_agent_id = cl_by winning_claim\<rparr>)) (\<lambda>_.
     io_lift (Ok (''proofs/'' @ issue_segment @ ''/'' @ abandon_segment)))))))"

definition instant_now :: "'w proof_fs \<Rightarrow> ('w, nat, orch_error) io" where
  "instant_now Q w = (case pq_instant_ms Q w of (t, w') \<Rightarrow> (Ok t, w'))"

definition proof_start ::
  "proof_prims \<Rightarrow> 'w proof_fs \<Rightarrow> path \<Rightarrow> issue \<Rightarrow> string \<Rightarrow> string \<Rightarrow> runner_capabilities \<Rightarrow> instant \<Rightarrow> ('w, proof_run_files, orch_error) io" where
  "proof_start P Q proofs_root i agent_id runner_name caps started_at =
     io_bind (prepare_root P (pq_dirs Q) proofs_root) (\<lambda>canonical_root.
     io_bind (io_lift (sanitize_segment P (iss_id i))) (\<lambda>issue_segment.
     io_bind (ensure_child_dir P (pq_dirs Q) canonical_root issue_segment) (\<lambda>issue_dir.
     io_bind (create_unique_run_dir P (pq_dirs Q) issue_dir (pt_format (pp_time P) started_at)) (\<lambda>(run_dir, run_segment).
     io_bind (create_empty_log P Q run_dir STDOUT_LOG) (\<lambda>_.
     io_bind (create_empty_log P Q run_dir STDERR_LOG) (\<lambda>_.
     io_bind (instant_now Q) (\<lambda>started_ms.
     io_lift (Ok \<lparr>pu_issue_id = iss_id i, pu_agent_id = agent_id, pu_dir = run_dir,
       pu_relative_dir = ''proofs/'' @ issue_segment @ ''/'' @ run_segment, pu_started_at = started_at, pu_started_ms = started_ms,
       pu_runner = from_capabilities runner_name caps, pu_hooks = []\<rparr>))))))))"

definition files_record_hook :: "proof_run_files \<Rightarrow> string \<Rightarrow> string \<Rightarrow> proof_run_files" where
  "files_record_hook pr phase_name status = pr\<lparr>pu_hooks := pu_hooks pr @ [phase_name @ '':'' @ status]\<rparr>"

fun first_nonempty_var :: "'w proof_fs \<Rightarrow> string list \<Rightarrow> 'w \<Rightarrow> string" where
  "first_nonempty_var Q [] w = ''unknown''"
| "first_nonempty_var Q (key # keys) w =
     (case pq_env_var Q key w of Some v \<Rightarrow> if trim v \<noteq> [] then v else first_nonempty_var Q keys w | None \<Rightarrow> first_nonempty_var Q keys w)"

definition hostname :: "'w proof_fs \<Rightarrow> 'w \<Rightarrow> string" where
  "hostname Q w = first_nonempty_var Q [''HOSTNAME'', ''COMPUTERNAME''] w"

definition elapsed_ms :: "nat \<Rightarrow> nat \<Rightarrow> u64" where
  "elapsed_ms started now = (if now - started < 2 ^ 64 then of_nat (now - started) else - 1)"

definition proof_finish :: "proof_prims \<Rightarrow> 'w proof_fs \<Rightarrow> proof_run_files \<Rightarrow> int \<Rightarrow> instant \<Rightarrow> ('w, unit, orch_error) io" where
  "proof_finish P Q pr exit_code ended_at =
     (\<lambda>w. io_bind (instant_now Q) (\<lambda>now_ms. write_json_file P Q (path_join (pu_dir pr) MANIFEST_JSON) (ProofDoc
       \<lparr>pm_issue_id = pu_issue_id pr, pm_agent_id = pu_agent_id pr, pm_hostname = hostname Q w,
        pm_runner_kind = rm_runner_kind (pu_runner pr), pm_preset = rm_preset (pu_runner pr), pm_command = rm_command (pu_runner pr),
        pm_args = rm_args (pu_runner pr), pm_env_allowlist = rm_env_allowlist (pu_runner pr), pm_exit_code = exit_code,
        pm_duration_ms = elapsed_ms (pu_started_ms pr) now_ms, pm_started_at = pt_rfc3339_secs (pp_time P) (pu_started_at pr),
        pm_ended_at = pt_rfc3339_secs (pp_time P) ended_at, pm_hooks = pu_hooks pr\<rparr>)) w)"

section \<open>The event writer\<close>

definition write_artifact_warning :: "proof_prims \<Rightarrow> 'w proof_fs \<Rightarrow> path \<Rightarrow> string \<Rightarrow> ('w, unit, orch_error) io" where
  "write_artifact_warning P Q stderr_path message =
     proof_io P stderr_path (pq_write Q stderr_path (''[artifact-warning] '' @ message @ [CHR 0x0A]))"

definition artifact_source_path :: "path \<Rightarrow> string \<Rightarrow> path" where
  "artifact_source_path workspace_path message =
     (let candidate = path_components message in if path_is_absolute candidate then candidate else path_join workspace_path message)"

definition artifact_name :: "u64 \<Rightarrow> string" where
  "artifact_name number = ''artifact-'' @ pad_zeros 4 (show_word number) @ ''.bin''"

text \<open>The result is the new value of the atomic counter.\<close>

definition persist_artifact_event ::
  "proof_prims \<Rightarrow> 'w proof_fs \<Rightarrow> string option \<Rightarrow> path \<Rightarrow> path \<Rightarrow> u64 \<Rightarrow> path \<Rightarrow> ('w, u64, orch_error) io" where
  "persist_artifact_event P Q message workspace_path proof_dir counter stderr_path =
     (let warn = (\<lambda>text. io_bind (write_artifact_warning P Q stderr_path text) (\<lambda>_. io_lift (Ok counter)));
          F = pq_dirs Q in
      case (case message of Some m \<Rightarrow> if trim m \<noteq> [] then Some (trim m) else None | None \<Rightarrow> None) of
        None \<Rightarrow> warn ''artifact event missing path''
      | Some m \<Rightarrow>
          let source = artifact_source_path workspace_path m in
          io_bind (io_try (fs_canonicalize F workspace_path)) (\<lambda>r. case r of
            Err e \<Rightarrow> warn (''artifact workspace is unavailable ('' @ pp_display P workspace_path @ ''): '' @ ie_text e)
          | Ok canonical_workspace \<Rightarrow>
              io_bind (io_try (fs_canonicalize F source)) (\<lambda>r. case r of
                Err e \<Rightarrow> warn (''artifact source is unavailable ('' @ pp_display P source @ ''): '' @ ie_text e)
              | Ok canonical_source \<Rightarrow>
                  if \<not> prefix canonical_workspace canonical_source
                  then warn (''artifact path escaped workspace: '' @ pp_display P canonical_source)
                  else
                    io_bind (io_try (pq_is_file Q canonical_source)) (\<lambda>r. case r of
                      Err e \<Rightarrow> warn (''artifact metadata failed ('' @ pp_display P canonical_source @ ''): '' @ ie_text e)
                    | Ok is_file \<Rightarrow>
                        if \<not> is_file then warn (''artifact source is not a file: '' @ pp_display P canonical_source)
                        else
                          let target = path_join proof_dir (artifact_name (sat_add counter 1)) in
                          io_bind (proof_io P target (pq_copy Q canonical_source target)) (\<lambda>_. io_lift (Ok (counter + 1)))))))"

definition write_runner_event ::
  "proof_prims \<Rightarrow> 'w proof_fs \<Rightarrow> path \<Rightarrow> path \<Rightarrow> runner_event \<Rightarrow> u64 \<Rightarrow> ('w, u64, orch_error) io" where
  "write_runner_event P Q proof_dir workspace_path event counter =
     (let out = path_join proof_dir STDOUT_LOG; err = path_join proof_dir STDERR_LOG;
          put = (\<lambda>p text. io_bind (proof_io P p (pq_write Q p text)) (\<lambda>_. io_lift (Ok counter))) in
      case re_kind event of
        Stdout \<Rightarrow> (case re_message event of Some m \<Rightarrow> put out m | None \<Rightarrow> io_lift (Ok counter))
      | Stderr \<Rightarrow> (case re_message event of Some m \<Rightarrow> put err m | None \<Rightarrow> io_lift (Ok counter))
      | RunnerError \<Rightarrow> (case re_message event of Some m \<Rightarrow> put err (''[runner-error] '' @ m @ [CHR 0x0A]) | None \<Rightarrow> io_lift (Ok counter))
      | Artifact \<Rightarrow> persist_artifact_event P Q (re_message event) workspace_path proof_dir counter err
      | SessionStarted \<Rightarrow> io_lift (Ok counter)
      | TurnCompleted \<Rightarrow> io_lift (Ok counter))"

fun write_events ::
  "proof_prims \<Rightarrow> 'w proof_fs \<Rightarrow> path \<Rightarrow> path \<Rightarrow> runner_event list \<Rightarrow> u64 \<Rightarrow> ('w, u64, orch_error) io" where
  "write_events P Q proof_dir workspace_path [] counter = io_lift (Ok counter)"
| "write_events P Q proof_dir workspace_path (e # es) counter =
     io_bind (write_runner_event P Q proof_dir workspace_path e counter) (write_events P Q proof_dir workspace_path es)"

text \<open>The events of the stream in the order in which they arrive; the counter is shared with the run.\<close>

definition write_runner_events ::
  "proof_prims \<Rightarrow> 'w proof_fs \<Rightarrow> runner_event list \<Rightarrow> path \<Rightarrow> path \<Rightarrow> u64 \<Rightarrow> ('w, u64, orch_error) io" where
  "write_runner_events P Q events proof_dir workspace_path counter =
     (let out = path_join proof_dir STDOUT_LOG; err = path_join proof_dir STDERR_LOG in
      io_bind (proof_io P out (pq_append Q out)) (\<lambda>_.
      io_bind (proof_io P err (pq_append Q err)) (\<lambda>_.
      io_bind (write_events P Q proof_dir workspace_path events counter) (\<lambda>counter'.
      io_bind (proof_io P out (pq_flush Q out)) (\<lambda>_.
      io_bind (proof_io P err (pq_flush Q err)) (\<lambda>_.
      io_lift (Ok counter')))))))"

section \<open>Lemmas\<close>

lemma digit_ascii: "d < 10 \<Longrightarrow> ascii_digit (digit d)" "d < 10 \<Longrightarrow> digit d = CHR ''0'' \<longleftrightarrow> d = 0"
proof -
  have "\<forall>d < 10. ascii_digit (digit d) \<and> (digit d = CHR ''0'' \<longleftrightarrow> d = 0)" by code_simp
  then show "d < 10 \<Longrightarrow> ascii_digit (digit d)" "d < 10 \<Longrightarrow> digit d = CHR ''0'' \<longleftrightarrow> d = 0" by blast+
qed

lemma collision_suffix: "0 < k \<Longrightarrow> k < 100 \<Longrightarrow> is_collision_suffix (''-'' @ pad_zeros 2 (show_nat k))"
proof (cases "k < 10")
  case True
  assume "0 < k"
  moreover from True have "show_nat k = [digit k]" by (simp add: show_nat.simps)
  moreover have "ascii_digit (CHR ''0'')" by (simp add: ascii_digit_def)
  ultimately show ?thesis using True digit_ascii by (simp add: is_collision_suffix_def COLLISION_SUFFIX_LEN_def pad_zeros_def)
next
  case False
  assume "k < 100"
  then have d: "k div 10 < 10" "k mod 10 < 10" "k div 10 \<noteq> 0" using False by auto
  then have "show_nat k = [digit (k div 10), digit (k mod 10)]" using False show_nat.simps [of k] show_nat.simps [of "k div 10"] by simp
  with d digit_ascii show ?thesis by (simp add: is_collision_suffix_def COLLISION_SUFFIX_LEN_def pad_zeros_def)
qed

lemma run_dir_name_parsed:
  assumes "length base = 18" and "k < 100"
  shows "parse_proof_timestamp T (run_dir_name base k) = pt_parse T base"
proof (cases "k = 0")
  case False
  with assms collision_suffix [of k] show ?thesis
    by (simp add: parse_proof_timestamp_def timestamp_prefix_def run_dir_name_def PROOF_TIMESTAMP_LEN_def COLLISION_SUFFIX_LEN_def
        is_collision_suffix_def)
qed (use assms in \<open>simp add: parse_proof_timestamp_def timestamp_prefix_def run_dir_name_def PROOF_TIMESTAMP_LEN_def\<close>)

text \<open>The directory of an abandoned claim has a name that the retention scan does not read.\<close>

lemma abandoned_not_parsed: "length base = 18 \<Longrightarrow> parse_proof_timestamp T (run_dir_name (base @ ''-abandoned'') k) = None"
proof (cases "k = 0")
  case False
  assume "length base = 18"
  moreover have "show_nat k \<noteq> []" by (subst show_nat.simps) simp
  ultimately show ?thesis using False
    by (cases "show_nat k") (auto simp: parse_proof_timestamp_def timestamp_prefix_def run_dir_name_def PROOF_TIMESTAMP_LEN_def COLLISION_SUFFIX_LEN_def pad_zeros_def)
qed (simp add: parse_proof_timestamp_def timestamp_prefix_def run_dir_name_def PROOF_TIMESTAMP_LEN_def COLLISION_SUFFIX_LEN_def)

lemma create_unique_from_Ok:
  "create_unique_from P F issue_dir base ks w = (Ok (d, segment), w') \<Longrightarrow>
     \<exists>k \<in> set ks. segment = run_dir_name base k \<and> safe_name segment \<and> d = issue_dir @ [Normal segment]"
proof (induction ks arbitrary: w)
  case (Cons k ks)
  then obtain created w1 where seg: "safe_name (run_dir_name base k)"
    and made: "fs_create_dir F False (path_join issue_dir (run_dir_name base k)) w = (created, w1)"
    and rest: "(case created of
       Ok _ \<Rightarrow> io_bind (proof_containment P (validate_existing_workspace_path F issue_dir (path_join issue_dir (run_dir_name base k))))
          (\<lambda>canonical. io_lift (Ok (canonical, run_dir_name base k)))
     | Err e \<Rightarrow> if ie_kind e = IoAlreadyExists then create_unique_from P F issue_dir base ks
         else io_lift (Err (OeProofIo (pp_display P (path_join issue_dir (run_dir_name base k))) (ie_text e)))) w1 = (Ok (d, segment), w')"
    by (auto simp: io_bind_Ok_iff sanitize_segment_def sanitize_Ok_iff Let_def)
  show ?case
  proof (cases created)
    case (Ok u)
    with rest have "segment = run_dir_name base k" "validate_existing_workspace_path F issue_dir (issue_dir @ [Normal segment]) w1 = (Ok d, w')"
      using path_join_safe [OF seg] by (auto simp: io_bind_Ok_iff proof_containment_def)
    with validate_existing_Ok [OF this(2)] seg show ?thesis by (auto simp: path_file_name_def)
  next
    case (Err e)
    with rest Cons.IH show ?thesis by (auto split: if_splits)
  qed
qed simp

text \<open>The entries of a directory are its children.\<close>

definition lists_children :: "'w fs_api \<Rightarrow> bool" where
  "lists_children F \<longleftrightarrow> (\<forall>p w entries w' d. fs_read_dir F p w = (Ok entries, w') \<and> Ok d \<in> set entries \<longrightarrow> de_path d = p @ [Normal (de_name d)])"

definition reapable :: "proof_time \<Rightarrow> instant \<Rightarrow> string list \<Rightarrow> string \<Rightarrow> string \<Rightarrow> bool" where
  "reapable T cutoff active issue_name timestamp_name \<longleftrightarrow>
     issue_name \<notin> set active \<and> (\<exists>started_at. parse_proof_timestamp T timestamp_name = Some started_at \<and> started_at < cutoff)"

lemma process_timestamp_entry_cong:
  assumes "\<And>started_at. \<not> active \<Longrightarrow> parse_proof_timestamp T (de_name d) = Some started_at \<Longrightarrow> started_at < cutoff \<Longrightarrow>
      rm (de_path d) = fs_remove_dir_all F (de_path d)"
  shows "process_timestamp_entry T (F\<lparr>fs_remove_dir_all := rm\<rparr>) cutoff active d report w = process_timestamp_entry T F cutoff active d report w"
proof (cases "to_str (de_name d)")
  case (Some n)
  with to_str_SomeD have n: "n = de_name d" by blast
  show ?thesis
  proof (cases "parse_proof_timestamp T n")
    case (Some started_at)
    with assms n \<open>to_str (de_name d) = Some n\<close> show ?thesis
      by (cases active; cases "started_at < cutoff") (simp_all add: process_timestamp_entry_def is_directory_def delete_timestamp_dir_def case_prod_unfold Let_def)
  qed (simp add: process_timestamp_entry_def is_directory_def Some case_prod_unfold Let_def)
qed (simp add: process_timestamp_entry_def is_directory_def case_prod_unfold Let_def)

lemma process_timestamp_entries_cong:
  assumes "\<And>d started_at. Ok d \<in> set entries \<Longrightarrow> \<not> active \<Longrightarrow> parse_proof_timestamp T (de_name d) = Some started_at \<Longrightarrow> started_at < cutoff \<Longrightarrow>
      rm (de_path d) = fs_remove_dir_all F (de_path d)"
  shows "process_timestamp_entries T (F\<lparr>fs_remove_dir_all := rm\<rparr>) cutoff active entries report w =
    process_timestamp_entries T F cutoff active entries report w"
  using assms
proof (induction T F cutoff active entries report w rule: process_timestamp_entries.induct)
  case (1 T F cutoff active d entries report w)
  have "process_timestamp_entry T (F\<lparr>fs_remove_dir_all := rm\<rparr>) cutoff active d report w = process_timestamp_entry T F cutoff active d report w"
    by (rule process_timestamp_entry_cong) (use "1.prems" in auto)
  then show ?case using 1 by (auto split: prod.splits)
qed simp_all

lemma process_issue_entry_cong:
  assumes F: "lists_children F" and d: "de_path d = dir @ [Normal (de_name d)]"
    and rm: "\<And>i t. reapable T cutoff active i t \<Longrightarrow> rm (dir @ [Normal i, Normal t]) = fs_remove_dir_all F (dir @ [Normal i, Normal t])"
  shows "process_issue_entry T (F\<lparr>fs_remove_dir_all := rm\<rparr>) cutoff active d report w = process_issue_entry T F cutoff active d report w"
proof -
  have "process_timestamp_entries T (F\<lparr>fs_remove_dir_all := rm\<rparr>) cutoff (de_name d \<in> set active) entries report w2 =
      process_timestamp_entries T F cutoff (de_name d \<in> set active) entries report w2"
    if "fs_read_dir F (de_path d) w1 = (Ok entries, w2)" for entries w1 w2
  proof (rule process_timestamp_entries_cong)
    fix e started_at
    assume e: "Ok e \<in> set entries" "de_name d \<notin> set active" "parse_proof_timestamp T (de_name e) = Some started_at" "started_at < cutoff"
    with F that have "de_path e = de_path d @ [Normal (de_name e)]" unfolding lists_children_def by blast
    with e rm [of "de_name d" "de_name e"] d show "rm (de_path e) = fs_remove_dir_all F (de_path e)" by (simp add: reapable_def)
  qed
  then show ?thesis
    by (auto simp: process_issue_entry_def is_directory_def issue_id_new_def dest!: to_str_SomeD split: prod.splits option.splits result.splits)
qed

lemma reap_old_proofs_cong:
  assumes F: "lists_children F" and cutoff: "retention_cutoff T now days = Some cutoff"
    and rm: "\<And>i t. reapable T cutoff active i t \<Longrightarrow>
      rm (proofs_dir @ [Normal i, Normal t]) = fs_remove_dir_all F (proofs_dir @ [Normal i, Normal t])"
  shows "reap_old_proofs T (F\<lparr>fs_remove_dir_all := rm\<rparr>) proofs_dir now days active w = reap_old_proofs T F proofs_dir now days active w"
proof -
  have "process_issue_entries T (F\<lparr>fs_remove_dir_all := rm\<rparr>) cutoff active entries report w1 =
      process_issue_entries T F cutoff active entries report w1"
    if "\<forall>d. Ok d \<in> set entries \<longrightarrow> de_path d = proofs_dir @ [Normal (de_name d)]" for entries report w1
    using that
  proof (induction entries arbitrary: report w1)
    case (Cons e entries)
    then show ?case
      using process_issue_entry_cong [OF F _ rm] by (cases e) (auto split: prod.splits)
  qed simp
  with F cutoff show ?thesis
    unfolding lists_children_def by (auto simp: reap_old_proofs_def split: prod.splits result.splits)
qed

section \<open>Artifacts\<close>

text \<open>The copies that are in order in a state: the source is a path that the file system resolved, it is a regular file, it lies in what
  the workspace path resolves to, and the target is a numbered artifact right below the proof directory.\<close>

definition copy_allowed :: "'w proof_fs \<Rightarrow> path \<Rightarrow> path \<Rightarrow> path \<Rightarrow> path \<Rightarrow> 'w \<Rightarrow> bool" where
  "copy_allowed Q workspace_path proof_dir source target w \<longleftrightarrow>
     (\<exists>p. fst (fs_canonicalize (pq_dirs Q) p w) = Ok source) \<and> fst (pq_is_file Q source w) = Ok True \<and>
     (\<exists>c. fst (fs_canonicalize (pq_dirs Q) workspace_path w) = Ok c \<and> prefix c source) \<and>
     (\<exists>n :: u64. target = proof_dir @ [Normal (''artifact-'' @ pad_zeros 4 (show_word n) @ ''.bin'')])"

lemma case_result_cong:
  assumes "\<And>x. r = Ok x \<Longrightarrow> f x w = f' x w" and "\<And>e. r = Err e \<Longrightarrow> g e w = g' e w"
  shows "(case r of Ok x \<Rightarrow> f x | Err e \<Rightarrow> g e) w = (case r of Ok x \<Rightarrow> f' x | Err e \<Rightarrow> g' e) w"
  using assms by (cases r) simp_all

lemma case_option_cong:
  assumes "a w = a' w" and "\<And>x. f x w = f' x w"
  shows "(case v of None \<Rightarrow> a | Some x \<Rightarrow> f x) w = (case v of None \<Rightarrow> a' | Some x \<Rightarrow> f' x) w"
  using assms by (cases v) simp_all

lemma if_io_cong: "(b \<Longrightarrow> a w = a' w) \<Longrightarrow> (\<not> b \<Longrightarrow> c w = c' w) \<Longrightarrow> (if b then a else c) w = (if b then a' else c') w"
  by simp

lemma show_nat_digits: "c \<in> set (show_nat n) \<Longrightarrow> ascii_digit c"
proof (induction n rule: show_nat.induct)
  case (1 n)
  then show ?case by (auto simp: show_nat.simps [of n] digit_ascii split: if_splits)
qed

lemma artifact_path: "path_join proof_dir (artifact_name n) = proof_dir @ [Normal (''artifact-'' @ pad_zeros 4 (show_word n) @ ''.bin'')]"
proof -
  let ?s = "''artifact-'' @ pad_zeros 4 (show_word n) @ ''.bin''"
  have "\<not> ascii_digit (CHR ''/'')" by (simp add: ascii_digit_def)
  then have "CHR ''/'' \<notin> set (show_word n)" using show_nat_digits by (auto simp: show_word_def)
  then have "CHR ''/'' \<notin> set ?s" by (auto simp: pad_zeros_def)
  from split_slash_plain [OF this] have "path_components ?s = [Normal ?s]"
    by (simp add: path_components_def component_of_def map_filter_simps)
  then show ?thesis by (simp add: path_join_def artifact_name_def path_is_absolute_def Let_def)
qed

lemma persist_artifact_cong:
  assumes canon: "\<And>p. reads (fs_canonicalize (pq_dirs Q) p)" and is_file: "\<And>p. reads (pq_is_file Q p)"
    and cp: "\<And>source target w. copy_allowed Q workspace_path proof_dir source target w \<Longrightarrow> cp source target w = pq_copy Q source target w"
  shows "persist_artifact_event P (Q\<lparr>pq_copy := cp\<rparr>) m workspace_path proof_dir counter err w =
    persist_artifact_event P Q m workspace_path proof_dir counter err w"
proof -
  define Q' where "Q' = Q\<lparr>pq_copy := cp\<rparr>"
  have Q': "pq_dirs Q' = pq_dirs Q" "pq_is_file Q' = pq_is_file Q" "pq_copy Q' = cp" "write_artifact_warning P Q' = write_artifact_warning P Q"
    by (simp_all add: Q'_def fun_eq_iff write_artifact_warning_def)
  have copy: "io_bind (proof_io P t (cp source (path_join proof_dir (artifact_name n)))) f w3 =
      io_bind (proof_io P t (pq_copy Q source (path_join proof_dir (artifact_name n)))) f w3"
    if "io_try (fs_canonicalize (pq_dirs Q) workspace_path) w = (Ok r, w1)" "r = Ok c" "io_try (fs_canonicalize (pq_dirs Q) p) w1 = (Ok r1, w2)"
      "r1 = Ok source" "\<not> \<not> prefix c source" "io_try (pq_is_file Q source) w2 = (Ok r2, w3)" "r2 = Ok b" "\<not> \<not> b" for t source n f p r r1 r2 b c w1 w2 w3
  proof -
    from that canon is_file have w: "w1 = w" "w2 = w1" "w3 = w2" by (auto dest: readsD)
    with that have "fst (fs_canonicalize (pq_dirs Q) p w3) = Ok source" "fst (fs_canonicalize (pq_dirs Q) workspace_path w3) = Ok c"
      "fst (pq_is_file Q source w3) = Ok True" by simp_all
    with that have "copy_allowed Q workspace_path proof_dir source (path_join proof_dir (artifact_name n)) w3"
      unfolding copy_allowed_def artifact_path by blast
    from cp [OF this] show ?thesis by (simp add: io_bind_def proof_io_def io_map_err_def)
  qed
  show ?thesis
    unfolding persist_artifact_event_def Let_def Q'_def [symmetric] Q'
    by (intro case_option_cong io_bind_cong_Ok case_result_cong if_io_cong refl) (rule copy, assumption+)
qed

lemma write_runner_event_cong:
  assumes "\<And>p. reads (fs_canonicalize (pq_dirs Q) p)" and "\<And>p. reads (pq_is_file Q p)"
    and "\<And>source target w. copy_allowed Q workspace_path proof_dir source target w \<Longrightarrow> cp source target w = pq_copy Q source target w"
  shows "write_runner_event P (Q\<lparr>pq_copy := cp\<rparr>) proof_dir workspace_path e counter w = write_runner_event P Q proof_dir workspace_path e counter w"
  using persist_artifact_cong [OF assms]
  by (cases "re_kind e") (simp_all add: write_runner_event_def Let_def split: option.splits)

lemma write_events_cong:
  assumes "\<And>p. reads (fs_canonicalize (pq_dirs Q) p)" and "\<And>p. reads (pq_is_file Q p)"
    and "\<And>source target w. copy_allowed Q workspace_path proof_dir source target w \<Longrightarrow> cp source target w = pq_copy Q source target w"
  shows "write_events P (Q\<lparr>pq_copy := cp\<rparr>) proof_dir workspace_path es counter w = write_events P Q proof_dir workspace_path es counter w"
proof (induction es arbitrary: counter w)
  case (Cons e es)
  then show ?case using write_runner_event_cong [OF assms] by (simp add: io_bind_def split: prod.splits result.splits)
qed simp

lemma write_runner_events_cong:
  assumes "\<And>p. reads (fs_canonicalize (pq_dirs Q) p)" and "\<And>p. reads (pq_is_file Q p)"
    and "\<And>source target w. copy_allowed Q workspace_path proof_dir source target w \<Longrightarrow> cp source target w = pq_copy Q source target w"
  shows "write_runner_events P (Q\<lparr>pq_copy := cp\<rparr>) es proof_dir workspace_path counter w = write_runner_events P Q es proof_dir workspace_path counter w"
  unfolding write_runner_events_def Let_def
  by (simp, intro io_bind_cong_Ok) (simp add: io_bind_def write_events_cong [OF assms] split: prod.splits result.splits)

end
