(* ===== verification/Workspace_Demo.thy ===== *)
theory Workspace_Demo
  imports Orphans Proof_Files
begin

text \<open>
  A concrete file system for the workspace and proof components: a list of paths with their nodes, links included. It
  satisfies \<open>confined_fs\<close> and \<open>lists_children\<close>, and runs the calls of the manager, the sweep and the retention scan.
\<close>

section \<open>The file system\<close>

datatype demo_node = DDir | DFile | DLink path

type_synonym demo_files = "(path \<times> demo_node) list"

definition no_file :: "('a, io_error) result" where
  "no_file = Err \<lparr>ie_kind = IoNotFound, ie_text = ''not found''\<rparr>"

definition demo_canonicalize :: "path \<Rightarrow> (demo_files, path, io_error) io" where
  "demo_canonicalize p w =
     (case map_of w p of
        None \<Rightarrow> no_file
      | Some (DLink t) \<Rightarrow> (case map_of w t of Some DDir \<Rightarrow> Ok t | Some DFile \<Rightarrow> Ok t | _ \<Rightarrow> no_file)
      | Some _ \<Rightarrow> Ok p, w)"

fun demo_kind :: "demo_node \<Rightarrow> file_kind" where
  "demo_kind DDir = FileDir"
| "demo_kind DFile = FileOther"
| "demo_kind (DLink t) = FileSymlink"

definition demo_metadata :: "path \<Rightarrow> (demo_files, bool, io_error) io" where
  "demo_metadata p w = (case demo_canonicalize p w of (r, w') \<Rightarrow> (and_then r (\<lambda>q. Ok (map_of w q = Some DDir)), w'))"

definition demo_symlink_metadata :: "path \<Rightarrow> (demo_files, file_kind, io_error) io" where
  "demo_symlink_metadata p w = (case map_of w p of None \<Rightarrow> no_file | Some n \<Rightarrow> Ok (demo_kind n), w)"

definition demo_create_dir :: "bool \<Rightarrow> path \<Rightarrow> (demo_files, unit, io_error) io" where
  "demo_create_dir b p w =
     (if map_of w p \<noteq> None then (Err \<lparr>ie_kind = IoAlreadyExists, ie_text = ''exists''\<rparr>, w)
      else if map_of w (butlast p) = Some DDir then (Ok (), (p, DDir) # w) else (no_file, w))"

definition demo_remove_dir_all :: "path \<Rightarrow> (demo_files, unit, io_error) io" where
  "demo_remove_dir_all p w =
     (if map_of w p = Some DDir then (Ok (), filter (\<lambda>e. \<not> prefix p (fst e)) w) else (no_file, w))"

definition demo_rename :: "path \<Rightarrow> path \<Rightarrow> (demo_files, unit, io_error) io" where
  "demo_rename a b w =
     (if map_of w a = None \<or> prefix a b then (no_file, w)
      else (Ok (), map (\<lambda>(q, n). (if prefix a q then b @ drop (length a) q else q, n)) w))"

definition demo_read_dir :: "path \<Rightarrow> (demo_files, (dir_entry, io_error) result list, io_error) io" where
  "demo_read_dir p w =
     (if map_of w p \<noteq> Some DDir then (no_file, w)
      else (Ok (List.map_filter (\<lambda>(q, _). case path_file_name q of
          Some s \<Rightarrow> if butlast q = p then Some (Ok \<lparr>de_path = q, de_name = s\<rparr>) else None | None \<Rightarrow> None) w), w))"

definition demo_fs :: "demo_files fs_api" where
  "demo_fs =
     \<lparr>fs_canonicalize = demo_canonicalize, fs_metadata = demo_metadata, fs_symlink_metadata = demo_symlink_metadata,
      fs_create_dir = demo_create_dir, fs_create_dir_all = demo_create_dir False, fs_set_private = \<lambda>p w. (Ok (), w),
      fs_remove_dir_all = demo_remove_dir_all, fs_rename = demo_rename, fs_read_dir = demo_read_dir\<rparr>"

definition demo_outside :: "path \<Rightarrow> demo_files \<Rightarrow> demo_files" where
  "demo_outside root w = filter (\<lambda>e. \<not> strict_prefix root (fst e)) w"

section \<open>Its laws\<close>

lemma demo_fs_simps [simp]:
  "fs_canonicalize demo_fs = demo_canonicalize" "fs_metadata demo_fs = demo_metadata" "fs_symlink_metadata demo_fs = demo_symlink_metadata"
  "fs_create_dir demo_fs = demo_create_dir" "fs_set_private demo_fs p w = (Ok (), w)" "fs_remove_dir_all demo_fs = demo_remove_dir_all"
  "fs_rename demo_fs = demo_rename" "fs_read_dir demo_fs = demo_read_dir"
  by (simp_all add: demo_fs_def)

lemma demo_resolved: "resolved demo_fs p w \<longleftrightarrow> map_of w p = Some DDir \<or> map_of w p = Some DFile"
  by (auto simp: resolved_def demo_canonicalize_def no_file_def split: option.splits demo_node.splits)

lemma map_of_filter_key: "map_of (filter (\<lambda>e. P (fst e)) w) k = (if P k then map_of w k else None)"
  by (induction w) auto

lemma below_neq: "prefix root d \<Longrightarrow> d @ [c] \<noteq> root" "prefix root d \<Longrightarrow> strict_prefix root (d @ x # xs)"
  by (auto simp: prefix_def strict_prefix_def)

lemma demo_confined: "confined_fs demo_fs root (demo_outside root)"
proof -
  have idem: "resolved demo_fs q w" if "fst (fs_canonicalize demo_fs p w) = Ok q" for p q w
    using that unfolding demo_resolved
    by (auto simp: demo_canonicalize_def no_file_def split: option.splits demo_node.splits)
  have create: "outside_kept demo_fs root (demo_outside root) w (snd (fs_create_dir demo_fs b (d @ [Normal n]) w))"
      "resolved demo_fs d (snd (fs_create_dir demo_fs b (d @ [Normal n]) w))" if "prefix root d" "resolved demo_fs d w" for d n b w
    using that below_neq [OF that(1)] by (auto simp: outside_kept_def demo_resolved demo_outside_def demo_create_dir_def)
  have remove: "outside_kept demo_fs root (demo_outside root) w (snd (fs_remove_dir_all demo_fs (root @ [Normal n]) w))" for n w
  proof -
    have "strict_prefix root q" if "prefix (root @ [Normal n]) q" for q
      using that by (auto simp: prefix_def strict_prefix_def)
    then show ?thesis
      by (auto simp: outside_kept_def demo_resolved demo_outside_def demo_remove_dir_all_def
          map_of_filter_key [of "\<lambda>q. \<not> prefix (root @ [Normal n]) q"]
          intro!: filter_cong)
  qed
  have rename: "outside_kept demo_fs root (demo_outside root) w (snd (fs_rename demo_fs (root @ [Normal m]) (d @ [Normal n]) w))"
    if d: "prefix root d" for d m n w
  proof -
    let ?mv = "\<lambda>(q, n'). (if prefix (root @ [Normal m]) q then (d @ [Normal n]) @ drop (length (root @ [Normal m])) q else q, n')"
    have "strict_prefix root q" if "prefix (root @ [Normal m]) q" for q
      using that by (auto simp: prefix_def strict_prefix_def)
    moreover have "strict_prefix root ((d @ [Normal n]) @ xs)" for xs using below_neq(2) [OF d, of "Normal n" xs] by simp
    ultimately have below: "fst (?mv e) = fst e \<or> strict_prefix root (fst (?mv e)) \<and> strict_prefix root (fst e)" for e by (cases e) auto
    have "demo_outside root (map ?mv w) = demo_outside root w"
    proof (induction w)
      case (Cons e w)
      with below [of e] show ?case by (cases e) (auto simp: demo_outside_def simp del: append_assoc)
    qed (simp add: demo_outside_def)
    moreover have "map_of (map ?mv w) root = map_of w root"
    proof (induction w)
      case (Cons e w)
      with below [of e] show ?case by (cases e) (auto simp del: append_assoc)
    qed simp
    ultimately show ?thesis by (auto simp: outside_kept_def demo_resolved demo_rename_def)
  qed
  have "pure_reads demo_fs"
    by (simp add: pure_reads_def demo_canonicalize_def demo_metadata_def demo_symlink_metadata_def demo_read_dir_def)
  then show ?thesis
    unfolding confined_fs_def using idem create remove rename by (auto simp: outside.refl)
qed

lemma demo_lists_children: "lists_children demo_fs"
proof -
  have "q = butlast q @ [Normal s]" if "path_file_name q = Some s" for q s
    using that by (auto simp: path_file_name_def split: if_splits path_component.splits) (metis append_butlast_last_id)
  then show ?thesis
    by (auto simp: lists_children_def demo_read_dir_def map_filter_def no_file_def split: if_splits option.splits)
qed

section \<open>A root with a link out of it\<close>

definition ws_root :: path where
  "ws_root = [RootDir, Normal ''ws'']"

definition demo_tree :: demo_files where
  "demo_tree = [([RootDir], DDir), (ws_root, DDir), ([RootDir, Normal ''etc''], DDir), (ws_root @ [Normal ''T-1''], DDir),
     (ws_root @ [Normal ''T-9''], DLink [RootDir, Normal ''etc''])]"

definition demo_ws_config :: ws_config where
  "demo_ws_config = \<lparr>wc_root = ws_root, wc_sensitive_env_allowlist = [''GH_TOKEN''], wc_hook_output_limit_bytes = 4\<rparr>"

definition demo_manager :: ws_manager where
  "demo_manager = \<lparr>wm_config = demo_ws_config, wm_root = ws_root\<rparr>"

definition demo_mprims :: manager_prims where
  "demo_mprims = \<lparr>mp_show_error = \<lambda>_. ''error'', mp_show_containment = \<lambda>_. ''containment'', mp_show_core = \<lambda>_. ''core''\<rparr>"

definition demo_handle :: "string \<Rightarrow> ws_handle" where
  "demo_handle n = \<lparr>hd_issue_id = n, hd_path = ws_root @ [Normal n], hd_created_now = False\<rparr>"

definition demo_ws_issue :: "string \<Rightarrow> string \<Rightarrow> issue" where
  "demo_ws_issue n state = \<lparr>iss_schema_version = 1, iss_id = n, iss_identifier = n, iss_title = ''t'',
     iss_description = ''work'', iss_priority = None, iss_state = state, iss_branch_name = None, iss_url = None, iss_labels = [],
     iss_blocked_by = [], iss_shard = None, iss_claim = None, iss_handoff = None, iss_signature_provenance = None,
     iss_verification_notices = [], iss_created_at = ''t'', iss_updated_at = ''t'', iss_extra = []\<rparr>"

section \<open>A sweep\<close>

definition sweep_tree :: demo_files where
  "sweep_tree = [([RootDir], DDir), (ws_root, DDir), (ws_root @ [Normal ''T-1''], DDir), (ws_root @ [Normal ''T-3''], DDir), (ws_root @ [Normal ''T-4''], DDir)]"

definition sweep_config :: orch_config where
  "sweep_config =
     \<lparr>oc_gate = \<lparr>gs_agent_id = ''me'', gs_required_trust = TrustKnown, gs_network_dispatch = PolicyApprove, gs_approval_ttl = 10\<rparr>,
      oc_active_states = [''todo''], oc_terminal_states = [''done''], oc_retry = \<lparr>rp_base = 1, rp_max = 1, rp_max_attempts = 2\<rparr>,
      oc_hooks = \<lparr>lh_timeout_ms = 1, lh_after_create = None, lh_before_run = None, lh_after_run = None, lh_before_remove = None\<rparr>,
      oc_validation_commands = [], oc_claim_ttl = 10, oc_polling_interval = 1\<rparr>"

definition sweep_chrono :: chrono where
  "sweep_chrono = \<lparr>parse_rfc3339 = \<lambda>s. Ok 5, chrono_from_std = \<lambda>n. Some (int n), to_rfc3339_nanos = \<lambda>t. ''t''\<rparr>"

definition sweep_claimed :: "issue list" where
  "sweep_claimed = [(demo_ws_issue ''T-4'' ''in_progress'')\<lparr>iss_claim := Some (claim_new (Some ''T-4'') ''me'' ''t'' RoleManualM1)\<rparr>]"

definition sweep_issues :: "issue list" where
  "sweep_issues = [demo_ws_issue ''T-1'' ''done'', demo_ws_issue ''T-3'' ''todo'']"

definition demo_sweep :: "demo_files sweep_services" where
  "demo_sweep = manager_sweep demo_mprims demo_fs demo_manager
     \<lparr>sw_list_workspaces = \<lambda>w. (Err (SyWorkspace []), w), sw_quarantine_workspace = \<lambda>h ns w. (Err (SyWorkspace []), w),
      sw_fetch_claimed = \<lambda>a w. (Ok sweep_claimed, w),
      sw_fetch_by_ids = \<lambda>ids w. (Ok (filter (\<lambda>i. iss_id i \<in> set ids) sweep_issues), w),
      sw_now = \<lambda>w. (7, w), sw_format_namespace = \<lambda>t. ''q1'', sw_show_error = \<lambda>e. ''error''\<rparr>"

section \<open>Proof directories\<close>

definition proof_root :: path where
  "proof_root = [RootDir, Normal ''p'']"

definition demo_time :: proof_time where
  "demo_time =
     \<lparr>pt_format = \<lambda>t. pad_zeros 18 (show_nat (nat t)),
      pt_parse = \<lambda>s. if list_all ascii_digit s then Some (foldl (\<lambda>n c. 10 * n + (of_char c - 48)) 0 s) else None,
      pt_rfc3339_secs = \<lambda>t. ''t'', pt_try_days = \<lambda>d. Some (10 * d), pt_checked_sub = \<lambda>now d. Some (now - d)\<rparr>"

definition demo_pprims :: proof_prims where
  "demo_pprims = \<lparr>pp_time = demo_time, pp_show_containment = \<lambda>e. ''containment'', pp_display = \<lambda>p. ''path''\<rparr>"

definition proof_tree :: demo_files where
  "proof_tree = [(proof_root, DDir), (proof_root @ [Normal ''T-1''], DDir), (proof_root @ [Normal ''T-2''], DDir),
     (proof_root @ [Normal ''T-1'', Normal ''000000000000000005''], DDir), (proof_root @ [Normal ''T-1'', Normal ''000000000000000050''], DDir),
     (proof_root @ [Normal ''T-1'', Normal ''000000000000000005-abandoned''], DDir), (proof_root @ [Normal ''T-2'', Normal ''000000000000000005''], DDir)]"

definition demo_proof_fs :: "demo_files proof_fs" where
  "demo_proof_fs =
     \<lparr>pq_dirs = demo_fs, pq_create = \<lambda>p w. (Ok (), (p, DFile) # w), pq_append = \<lambda>p w. (Ok (), w), pq_write = \<lambda>p s w. (Ok (), w),
      pq_flush = \<lambda>p w. (Ok (), w), pq_sync = \<lambda>p w. (Ok (), w), pq_write_json = \<lambda>p doc w. (Ok (), w),
      pq_is_file = \<lambda>p w. (Ok (map_of w p = Some DFile), w), pq_copy = \<lambda>source target w. (Ok (), (target, DFile) # w),
      pq_env_var = \<lambda>k w. None, pq_instant_ms = \<lambda>w. (0, w)\<rparr>"

definition artifact_tree :: demo_files where
  "artifact_tree = [(ws_root @ [Normal ''T-1''], DDir), (ws_root @ [Normal ''T-1'', Normal ''a''], DFile), ([RootDir, Normal ''etc'', Normal ''k''], DFile),
     (ws_root @ [Normal ''T-1'', Normal ''b''], DLink [RootDir, Normal ''etc'', Normal ''k''])]"

end
