(* ===== verification/Workspace_Properties.thy ===== *)
theory Workspace_Properties
  imports Workspace_Demo
begin

text \<open>
  The properties of the workspace manager, the orphan sweep and the proof files, each with an instance on the
  file system of \<open>Workspace_Demo\<close>.
\<close>

section \<open>Identifiers and confinement\<close>

text \<open>C33: An identifier is accepted exactly when it is a short name of letters, digits, dots, underscores and hyphens with no dot at
  an end, no two dots in a row and no reserved stem; its directory is then the root followed by this one name, so
  that different identifiers have different directories and none leaves the root.\<close>

theorem identifiers_contained:
  "map_err WsContainment (sanitize_issue_identifier raw) = Ok s \<and> issue_path M raw = Ok p \<longleftrightarrow>
     s = raw \<and> safe_name raw \<and> p = wm_root M @ [Normal raw]"
  by (auto simp: issue_path_def sanitize_Ok_iff deterministic_path_safe)

text \<open>C34: Over every sequence of calls to the workspace manager (creation for any issue, removal and quarantine through any handle,
  forged ones included, and scans) nothing outside the workspace root changes, and the root stays where it is. The
  hypothesis on the file system covers only operations on entries of resolved directories below the root.\<close>

theorem workspace_confined:
  assumes "confined_fs F root out" and "wm_root M = root" and "resolved F root w"
  shows "out (foldl (run_ws_call P F M) w calls) = out w \<and> resolved F root (foldl (run_ws_call P F M) w calls)"
  using run_ws_calls_confined [OF assms] .

definition demo_calls :: "ws_call list" where
  "demo_calls = [CallCreate (demo_ws_issue ''T-2'' ''todo''), CallDestroy (demo_handle ''T-9''), CallQuarantine (demo_handle ''T-1'') ''q1'']"

lemma demo_calls_run:
  "foldl (run_ws_call demo_mprims demo_fs demo_manager) demo_tree demo_calls =
     [(ws_root @ [Normal ''.orphaned'', Normal ''q1''], DDir), (ws_root @ [Normal ''.orphaned''], DDir), (ws_root @ [Normal ''T-2''], DDir),
      ([RootDir], DDir), (ws_root, DDir), ([RootDir, Normal ''etc''], DDir),
      (ws_root @ [Normal ''.orphaned'', Normal ''q1'', Normal ''T-1''], DDir), (ws_root @ [Normal ''T-9''], DLink [RootDir, Normal ''etc''])]"
  by code_simp

theorem workspace_confined_witness:
  "confined_fs demo_fs ws_root (demo_outside ws_root) \<and> resolved demo_fs ws_root demo_tree \<and>
   demo_outside ws_root (foldl (run_ws_call demo_mprims demo_fs demo_manager) demo_tree demo_calls) = demo_outside ws_root demo_tree \<and>
   map_of (foldl (run_ws_call demo_mprims demo_fs demo_manager) demo_tree demo_calls) (ws_root @ [Normal ''T-1'']) = None"
proof -
  have r: "resolved demo_fs ws_root demo_tree" by (simp add: demo_resolved demo_tree_def ws_root_def)
  have "wm_root demo_manager = ws_root" by (simp add: demo_manager_def)
  from workspace_confined [OF demo_confined this r, of demo_mprims demo_calls] r demo_confined [of ws_root]
  have "confined_fs demo_fs ws_root (demo_outside ws_root) \<and> resolved demo_fs ws_root demo_tree \<and>
    demo_outside ws_root (foldl (run_ws_call demo_mprims demo_fs demo_manager) demo_tree demo_calls) = demo_outside ws_root demo_tree" by blast
  moreover have "map_of (foldl (run_ws_call demo_mprims demo_fs demo_manager) demo_tree demo_calls) (ws_root @ [Normal ''T-1'']) = None"
    unfolding demo_calls_run by (simp add: ws_root_def)
  ultimately show ?thesis by blast
qed

section \<open>Hooks\<close>

text \<open>C35: A hook starts no other process than \<^verbatim>\<open>/bin/bash\<close> on its script, with the fixed options, in the root or in a directory with a
  safe name right below it, with the inherited environment cleared and variables that all pass the checks, in a process group
  of its own; whatever a process service does for other requests makes no difference to a hook run.\<close>

theorem hook_processes_allowed:
  assumes "\<And>cmd. spawn_allowed M (hk_script hk) cmd \<Longrightarrow> sp cmd = px_spawn X cmd"
  shows "run_hook_in F (X\<lparr>px_spawn := sp\<rparr>) M h hk env w = run_hook_in F X M h hk env w \<and>
    run_hook_at_root (X\<lparr>px_spawn := sp\<rparr>) M hk env w = run_hook_at_root X M hk env w"
  unfolding run_hook_at_root_def by (intro conjI run_hook_in_allowed run_hook_in_dir_allowed assms disjI1 refl)

definition demo_process :: "demo_files process_api" where
  "demo_process =
     \<lparr>px_spawn = \<lambda>cmd w. (Ok \<lparr>ch_id = 1, ch_stdout = True, ch_stderr = True\<rparr>, (cm_current_dir cmd @ [Normal ''out''], DFile) # w),
      px_wait_timeout = \<lambda>child ms w. (WaitExited True (Some 0), w), px_kill_group = \<lambda>child w. w, px_reap = \<lambda>child w. w,
      px_reader = \<lambda>child stream timed_out w. (ReaderDone [Ok [104, 101, 108], Ok [108, 111], Ok []], w)\<rparr>"

definition demo_hook :: hook where
  "demo_hook = \<lparr>hk_name = BeforeRun, hk_script = ''make'', hk_timeout_ms = 1000\<rparr>"

definition guarded_spawn :: "hook_command \<Rightarrow> (demo_files, spawned_child, io_error) io" where
  "guarded_spawn cmd =
     (if spawn_allowed demo_manager ''make'' cmd then px_spawn demo_process cmd else (\<lambda>w. (no_file, [])))"

lemma demo_hook_run:
  "run_hook_in demo_fs demo_process demo_manager (demo_handle ''T-1'') demo_hook [(''GH_TOKEN'', ''x'')] demo_tree =
     (Ok \<lparr>hr_status = HookSucceeded, hr_exit_code = Some 0, hr_stdout = Some (''hell'' @ [CHR 0x0A] @ ''[hook output truncated]'' @ [CHR 0x0A]),
        hr_stderr = Some (''hell'' @ [CHR 0x0A] @ ''[hook output truncated]'' @ [CHR 0x0A])\<rparr>,
      (ws_root @ [Normal ''T-1'', Normal ''out''], DFile) # demo_tree)"
  by code_simp

lemma demo_hook_refused:
  "fst (run_hook_in demo_fs demo_process demo_manager (demo_handle ''T-1'') demo_hook [(''AWS_SECRET'', ''x'')] demo_tree) =
     Err (WsSensitiveHookEnvDenied ''AWS_SECRET'')"
  by code_simp

theorem hook_processes_allowed_witness:
  "run_hook_in demo_fs (demo_process\<lparr>px_spawn := guarded_spawn\<rparr>) demo_manager (demo_handle ''T-1'') demo_hook [(''GH_TOKEN'', ''x'')] demo_tree =
     (Ok \<lparr>hr_status = HookSucceeded, hr_exit_code = Some 0, hr_stdout = Some (''hell'' @ [CHR 0x0A] @ ''[hook output truncated]'' @ [CHR 0x0A]),
        hr_stderr = Some (''hell'' @ [CHR 0x0A] @ ''[hook output truncated]'' @ [CHR 0x0A])\<rparr>,
      (ws_root @ [Normal ''T-1'', Normal ''out''], DFile) # demo_tree) \<and>
   fst (run_hook_in demo_fs (demo_process\<lparr>px_spawn := guarded_spawn\<rparr>) demo_manager (demo_handle ''T-1'') demo_hook [(''AWS_SECRET'', ''x'')] demo_tree) =
     Err (WsSensitiveHookEnvDenied ''AWS_SECRET'')"
proof -
  have "guarded_spawn cmd = px_spawn demo_process cmd" if "spawn_allowed demo_manager (hk_script demo_hook) cmd" for cmd
    using that by (simp add: guarded_spawn_def demo_hook_def)
  from hook_processes_allowed [OF this] show ?thesis using demo_hook_run demo_hook_refused by simp
qed

text \<open>C36: What is kept of the output of a hook, on a pipe that is read without an error, is exactly its first \<open>limit\<close> bytes, however the
  stream is cut into reads, and the note on truncation is there exactly when bytes were left out.\<close>

theorem hook_output_bounded:
  assumes "px_reader X child stream timed_out w = (ReaderDone chunks, w')" and "stream_ok chunks" and "0 \<le> limit"
  shows "finish_output_task limit X child stream timed_out w =
    (Ok (captured_from_bytes (take (nat limit) (stream_bytes chunks)) (limit < int (length (stream_bytes chunks)))), w')"
  using finish_output_spec [OF assms] .

theorem hook_output_bounded_witness:
  "finish_output_task 4 demo_process \<lparr>ch_id = 1, ch_stdout = True, ch_stderr = True\<rparr> ''stdout'' False [] =
     (Ok (captured_from_bytes [104, 101, 108, 108] True), [])"
  using hook_output_bounded [of demo_process "\<lparr>ch_id = 1, ch_stdout = True, ch_stderr = True\<rparr>" "''stdout''" False "[]"
      "[Ok [104, 101, 108], Ok [108, 111], Ok []]" "[]" 4]
  by (simp add: demo_process_def)

section \<open>The orphan sweep\<close>







section \<open>Proof files\<close>

text \<open>C38: The directory of a run is the issue directory followed by a safe name, and the retention scan reads that name back as the
  time the run started, collision suffix included, when the time format can be read back; the directory of an
  abandoned claim is never read as a time.\<close>

theorem proof_name_roundtrip:
  assumes "create_unique_run_dir P F issue_dir (pt_format T started_at) w = (Ok (d, segment), w')"
    and "length (pt_format T started_at) = 18" and "pt_parse T (pt_format T started_at) = Some t"
  shows "d = issue_dir @ [Normal segment] \<and> safe_name segment \<and> parse_proof_timestamp T segment = Some t \<and>
    parse_proof_timestamp T (run_dir_name (pt_format T started_at @ ''-abandoned'') k) = None"
  using create_unique_from_Ok [OF assms(1) [unfolded create_unique_run_dir_def]] run_dir_name_parsed [OF assms(2)]
    abandoned_not_parsed [OF assms(2)] assms(3) by auto

lemma demo_run_dir:
  "create_unique_run_dir demo_pprims demo_fs (proof_root @ [Normal ''T-1'']) ''000000000000000005'' proof_tree =
     (Ok (proof_root @ [Normal ''T-1'', Normal ''000000000000000005-01''], ''000000000000000005-01''),
      (proof_root @ [Normal ''T-1'', Normal ''000000000000000005-01''], DDir) # proof_tree)"
  by code_simp

theorem proof_name_roundtrip_witness:
  "parse_proof_timestamp demo_time ''000000000000000005-01'' = Some 5 \<and>
   parse_proof_timestamp demo_time (run_dir_name (pt_format demo_time 5 @ ''-abandoned'') 0) = None"
proof -
  have "pt_format demo_time 5 = ''000000000000000005''" "pt_parse demo_time ''000000000000000005'' = Some 5" by code_simp+
  with demo_run_dir proof_name_roundtrip [of demo_pprims demo_fs "proof_root @ [Normal ''T-1'']" demo_time 5 proof_tree _ "''000000000000000005-01''" _ 5 0]
  show ?thesis by fastforce
qed

text \<open>C39: The retention scan removes no other directory than \<open>proofs/<issue>/<time>\<close> of an issue that is not active and whose
  time is readable and before the cutoff: what a removal of anything else would do makes no difference.\<close>

theorem reaper_spares_active_and_recent:
  assumes "lists_children F" and "retention_cutoff T now days = Some cutoff"
    and "\<And>i t. reapable T cutoff active i t \<Longrightarrow>
      rm (proofs_dir @ [Normal i, Normal t]) = fs_remove_dir_all F (proofs_dir @ [Normal i, Normal t])"
  shows "reap_old_proofs T (F\<lparr>fs_remove_dir_all := rm\<rparr>) proofs_dir now days active w = reap_old_proofs T F proofs_dir now days active w"
  using reap_old_proofs_cong [OF assms] .

definition guarded_remove :: "path \<Rightarrow> (demo_files, unit, io_error) io" where
  "guarded_remove p =
     (if \<exists>i t. p = proof_root @ [Normal i, Normal t] \<and> reapable demo_time 50 [''T-2''] i t then demo_remove_dir_all p else (\<lambda>w. (Ok (), [])))"

lemma demo_reap_run:
  "reap_old_proofs demo_time demo_fs proof_root 100 5 [''T-2''] proof_tree =
     (\<lparr>rp_scanned = 4, rp_reaped = 1, rp_skipped_active = 1, rp_errors = 0\<rparr>,
      filter (\<lambda>e. fst e \<noteq> proof_root @ [Normal ''T-1'', Normal ''000000000000000005'']) proof_tree)"
  by code_simp

theorem reaper_spares_active_and_recent_witness:
  "reap_old_proofs demo_time (demo_fs\<lparr>fs_remove_dir_all := guarded_remove\<rparr>) proof_root 100 5 [''T-2''] proof_tree =
     (\<lparr>rp_scanned = 4, rp_reaped = 1, rp_skipped_active = 1, rp_errors = 0\<rparr>,
      filter (\<lambda>e. fst e \<noteq> proof_root @ [Normal ''T-1'', Normal ''000000000000000005'']) proof_tree)"
proof -
  have "retention_cutoff demo_time 100 5 = Some 50" by (simp add: retention_cutoff_def demo_time_def)
  moreover have "guarded_remove (proof_root @ [Normal i, Normal t]) = fs_remove_dir_all demo_fs (proof_root @ [Normal i, Normal t])"
    if "reapable demo_time 50 [''T-2''] i t" for i t using that by (auto simp: guarded_remove_def)
  ultimately show ?thesis using reaper_spares_active_and_recent [OF demo_lists_children, of demo_time 100 5 50] demo_reap_run by simp
qed

text \<open>C40: The event writer copies a file into a proof directory only in a state in which the source is a path that the file system resolved,
  it is a regular file, and it lies in what the workspace path resolves to, and only to a numbered artifact right below
  that proof directory, whatever paths and links the runner reports: what the copy service would do for any other
  request makes no difference.\<close>

theorem artifacts_from_workspace:
  assumes "\<And>p. reads (fs_canonicalize (pq_dirs Q) p)" and "\<And>p. reads (pq_is_file Q p)"
    and "\<And>source target w. copy_allowed Q workspace_path proof_dir source target w \<Longrightarrow> cp source target w = pq_copy Q source target w"
  shows "write_runner_events P (Q\<lparr>pq_copy := cp\<rparr>) events proof_dir workspace_path counter w =
    write_runner_events P Q events proof_dir workspace_path counter w"
  using write_runner_events_cong [OF assms] .

definition demo_events :: "runner_event list" where
  "demo_events = [\<lparr>re_kind = Artifact, re_message = Some ''a'', re_at = None\<rparr>, \<lparr>re_kind = Artifact, re_message = Some ''b'', re_at = None\<rparr>]"

text \<open>A copy service that wipes the disk unless the source is its own resolution, a file, and below the resolved workspace.\<close>

definition guarded_copy :: "path \<Rightarrow> path \<Rightarrow> (demo_files, unit, io_error) io" where
  "guarded_copy source target w =
     (if fst (demo_canonicalize source w) = Ok source \<and> fst (pq_is_file demo_proof_fs source w) = Ok True \<and>
         (case fst (demo_canonicalize (ws_root @ [Normal ''T-1'']) w) of Ok c \<Rightarrow> prefix c source | Err _ \<Rightarrow> False)
      then pq_copy demo_proof_fs source target w else (Ok (), []))"

lemma demo_events_run:
  "write_runner_events demo_pprims demo_proof_fs demo_events (proof_root @ [Normal ''r'']) (ws_root @ [Normal ''T-1'']) 0 artifact_tree =
     (Ok 1, (proof_root @ [Normal ''r'', Normal ''artifact-0001.bin''], DFile) # artifact_tree)"
  by code_simp

theorem artifacts_from_workspace_witness:
  "write_runner_events demo_pprims (demo_proof_fs\<lparr>pq_copy := guarded_copy\<rparr>) demo_events (proof_root @ [Normal ''r'']) (ws_root @ [Normal ''T-1'']) 0 artifact_tree =
     (Ok 1, (proof_root @ [Normal ''r'', Normal ''artifact-0001.bin''], DFile) # artifact_tree)"
proof -
  have dirs: "pq_dirs demo_proof_fs = demo_fs" by (simp add: demo_proof_fs_def)
  have "reads (fs_canonicalize (pq_dirs demo_proof_fs) p)" "reads (pq_is_file demo_proof_fs p)" for p
    unfolding dirs by (simp_all add: reads_def demo_canonicalize_def demo_proof_fs_def)
  moreover have "guarded_copy source target w = pq_copy demo_proof_fs source target w"
    if "copy_allowed demo_proof_fs (ws_root @ [Normal ''T-1'']) proof_dir source target w" for proof_dir source target w
  proof -
    have "fst (demo_canonicalize source w) = Ok source" if "fst (demo_canonicalize p w) = Ok source" for p
      using that by (auto simp: demo_canonicalize_def no_file_def split: option.splits demo_node.splits)
    with that show ?thesis by (auto simp: guarded_copy_def copy_allowed_def dirs)
  qed
  ultimately show ?thesis
    using artifacts_from_workspace [of demo_proof_fs "ws_root @ [Normal ''T-1'']" _ guarded_copy] demo_events_run by simp
qed

end
