(* ===== verification/Spec2Isabelle.thy ===== *)
theory Spec2Isabelle
  imports Fold_Properties Gate_Properties Dispatch_Properties Tracker_Properties V1_Properties Worker_Properties Workspace_Properties
begin

text \<open>
  \<^bold>\<open>Verification of x0x-symphony\<close>

  x0x-symphony dispatches work items (issues) to coding agents over a peer-to-peer network. A list of issues
  is kept as signed, append-only event stores, one per agent; every replica folds the stores it has read into
  the same issue list. A daemon claims issues, decides whether network-sourced work may run, runs it and hands
  the result back. This development models these parts of the Rust workspace under \<^verbatim>\<open>src/crates\<close> and proves
  what makes them correct.

  \<^bold>\<open>The tracker\<close> (\<^verbatim>\<open>x0x-symphony-tracker-x0x-crdt/src/v2\<close>)

  \<^item> \<open>Identity\<close>: \<^verbatim>\<open>identity.rs\<close>, agent identifiers and the signed buffer. \<open>Events\<close>: \<^verbatim>\<open>events.rs\<close>, record types,
    keys, list references, envelopes. \<open>Reasons\<close>: the texts of refusals.
  \<^item> \<open>Fold_Types\<close>, \<open>Fold_Admission\<close>, \<open>Fold_Roster\<close>, \<open>Fold_Chain\<close>, \<open>Fold_State\<close>, \<open>Fold\<close>: \<^verbatim>\<open>fold.rs\<close>, in the order of
    the code: canonical streams, genesis and rosters, admission of one record, author chains and the Lamport
    cap, the issue state machine, and \<^verbatim>\<open>fold_v2\<close> over all of it. A \<^verbatim>\<open>BTreeMap\<close> is a list sorted by key (\<open>BTree\<close>,
    with the interface locale \<open>ordered_map\<close> and its interpretation).
  \<^item> \<open>Fold_Canonical\<close>, \<open>Fold_Correct\<close>, \<open>Fold_Outsiders\<close>: the lemmas behind the properties; \<open>Fold_Properties\<close>:
    convergence (the fold is a function of the set of records), authenticity of every admitted event, chain
    and roster linkage, refinement of the abstract issue machine, effectiveness of consumes, bounds.
  \<^item> \<open>Store\<close>: \<^verbatim>\<open>store.rs\<close>, every operation of the store manager over an explicit world; the REST API of the
    daemon is the record \<open>store_api\<close>. \<open>Gate\<close>: \<^verbatim>\<open>gate.rs\<close>, the consume-then-execute gate. \<open>Gate_Properties\<close>: what a
    decision to proceed rests on, that it is unique over converged replicas, that records are never
    overwritten, and that what is written is admitted again by the fold.
  \<^item> \<open>X0xd_Client\<close>: the data and operations of \<^verbatim>\<open>client.rs\<close>. \<open>V2_Tracker\<close>: \<^verbatim>\<open>tracker.rs\<close>, every operation of the tracker,
    on a world together with the lazily filled cells of the struct. \<open>Effect_Laws\<close> and \<open>Tracker_Invariants\<close>:
    relations between states that every call respects (the locales \<open>state_preorder\<close> and \<open>tracker_relation\<close>,
    interpreted for the well-formedness of the cells and for the growth of the event stores).
    \<open>V2_Tracker_Correct\<close>: what successful calls establish. \<open>Tracker_Orchestration\<close>: the contract of a tracker
    (locale \<open>network_tracker\<close>), implemented by the v2 tracker under the orchestrator. \<open>Tracker_Properties\<close>:
    claims and consumptions are granted to the winner of a confirming fold only, claims exclude each other, served views are complete,
    stores are append-only over every sequence of calls, handoffs round-trip, and a completed run was
    authorised and is recorded.

  \<^bold>\<open>The first tracker generation and the routing\<close> (\<^verbatim>\<open>x0x-symphony-tracker-x0x-crdt/src\<close>, \<^verbatim>\<open>x0x-symphony-signing\<close>)

  \<^item> \<open>V1_Mapping\<close>: \<^verbatim>\<open>mapping.rs\<close>, the blobs beside a task and the issue made of them. \<open>V1_Tracker\<close>: errors, scope, signing
    and the verified listing of \<^verbatim>\<open>lib.rs\<close>; \<open>V1_Operations\<close>: creation, claims, handoffs, blocks and approvals. The scope
    and the verification cache are cells beside the world (\<open>Cells\<close>, with the locale \<open>cell_preorder\<close>).
  \<^item> \<open>V1_Correct\<close>: the cache stays sound over every sequence of calls; the locale \<open>envelope_check\<close> derives what a listing
    shows from what the check of an envelope establishes, and is interpreted for verification by the service and
    for the local signer. \<open>V1_Lifecycle\<close>: what later listings show of an operation.
  \<^item> \<open>Signing_Client\<close>: the client of x0xd's signing service, which is also the key resolver. \<open>V1_Daemon\<close>: the wiring of
    \<^verbatim>\<open>bin/x0x-symphonyd.rs\<close>. \<open>Crdt_Tracker\<close>: the builder and the routing between the two engines, under the
    orchestrator by the contract \<open>network_tracker\<close>. \<open>V1_Properties\<close>: listings are attested, unsigned work never
    completes, claims, blocks, releases and requeues, engine selection, and that the daemon sees its own records
    only.

  \<^bold>\<open>Worker discovery\<close> (\<^verbatim>\<open>x0x-symphony-core/src/workers.rs\<close>, \<^verbatim>\<open>x0x-symphony-bin/src/workers.rs\<close>)

  \<^item> \<open>Worker_Cards\<close>, \<open>Worker_View\<close>: cards, the live view and its epoch, publishing, the consumer and the framing of
    server-sent events on chunks of bytes (\<open>Text_Search\<close>, with \<^verbatim>\<open>String::from_utf8_lossy\<close>). \<open>Worker_View_Correct\<close>, \<open>Worker_Properties\<close>:
    the view holds vouched cards only, chunking does not matter unless it splits a character, and a lifetime out of range
    ends the consumer; that of the local card is a hypothesis where it matters, since the configuration does not bound it.

  \<^bold>\<open>The core rules\<close> (\<^verbatim>\<open>x0x-symphony-core/src\<close>)

  \<^item> \<open>Core_Types\<close>: issues, claims, handoffs, release reasons. \<open>Approval\<close>: \<^verbatim>\<open>approval.rs\<close>. \<open>Shard\<close>: \<^verbatim>\<open>shard.rs\<close>.

  \<^bold>\<open>The orchestrator\<close> (\<^verbatim>\<open>x0x-symphony-orchestrator/src\<close>)

  \<^item> \<open>Concurrency\<close>: \<^verbatim>\<open>concurrency.rs\<close>, with the locale \<open>slot_pool\<close> for the contract of a slot accounting, which the
    budget implements. \<open>Retry\<close>: \<^verbatim>\<open>retry.rs\<close>. \<open>Reconcile\<close>: \<^verbatim>\<open>reconcile.rs\<close>. \<open>Dispatch_Gate\<close>: \<^verbatim>\<open>trust_gate.rs\<close> and the
    gate of \<^verbatim>\<open>dispatch.rs\<close>. \<open>Orchestrator\<close>: runs, hooks, the retry loop and claiming. \<open>Daemon\<close>: startup
    reconciliation, the run loop, and the lemmas on slots, loops and completed runs. \<open>Dispatch_Properties\<close>:
    nothing runs without authorisation, caps under every interleaving, what a pass of \<^verbatim>\<open>claim_next\<close> and the end of a run do
    to the slots, slots freed on every exit, bounded retries.

  \<^bold>\<open>Workspaces and proof files\<close> (\<^verbatim>\<open>x0x-symphony-workspace/src\<close>, \<^verbatim>\<open>x0x-symphony-orchestrator/src\<close>)

  \<^item> \<open>Containment\<close>: \<^verbatim>\<open>containment.rs\<close>, identifiers and the validation of paths; a path is the list of its components.
    \<open>Workspace_Manager\<close>, \<open>Workspace_Hooks\<close>: \<^verbatim>\<open>manager.rs\<close>, directories, scan, quarantine, hook environment, output capture and
    hook runs. File system and processes are the records \<open>fs_api\<close> and \<open>process_api\<close>.
  \<^item> \<open>Workspace_Confined\<close>: the documented laws of the file system (\<open>confined_fs\<close>) and what no call can change, as an
    interpretation of \<open>state_preorder\<close>. \<open>Orphans\<close>: \<^verbatim>\<open>orphans.rs\<close>, on the manager. \<open>Proof_Files\<close>: \<^verbatim>\<open>proofs.rs\<close> and \<^verbatim>\<open>reaper.rs\<close>.
  \<^item> \<open>Workspace_Properties\<close>: accepted identifiers, confinement over every sequence of calls, the processes a hook may
    start and what is kept of its output, what the sweep and the retention scan spare, names of run directories
    read back, and where artifacts come from. \<open>Workspace_Demo\<close> is a file system with links that satisfies the laws.

  \<^bold>\<open>How the code is modelled\<close>

  \<^item> Structs are records, enums datatypes, fixed-width integers words; strings are lists of the bytes of their
    UTF-8 encoding (\<open>Text\<close>). A fallible operation returns a \<open>result\<close>; an operation that calls a service takes a
    world and returns its result with the new world (\<open>Effects\<close>).
  \<^item> Third-party code is a parameter: cryptography, base64, serde JSON, timestamps, the x0xd REST API, the
    tracker, runner and workspace of the orchestrator. \<open>Demo\<close>, \<open>Store_Demo\<close>, \<open>Dispatch_Demo\<close>, \<open>Tracker_Demo\<close> and \<open>V1_Demo\<close> instantiate them
    with concrete functions for the instances of the properties.
  \<^item> Loops over data are structural recursions; the fixpoint of the Lamport cap and the retry loop have
    termination proofs. The daemon's loops need not end: they are partial functions, and nothing is claimed about
    their return.
  \<^item> The orchestrator's mutex is modelled by its critical sections as steps that interleave freely. A registration that
    overwrites an entry of the in-flight map loses the slot of that entry; the state of the steps keeps the lost slots.
  \<^item> Where a guarantee is that a service is called in certain ways only, it says that the result is the same for every
    service that agrees on those calls.

  \<^bold>\<open>Not modelled\<close>: HTTP transports, the API server, CLI and configuration, the shell runner and the sandbox. They
  are input and output around the parts above.
\<close>

end
